(* ===== verification/Go_Prelude.thy ===== *)
theory Go_Prelude
  imports Main "HOL-Library.List_Lexorder" "HOL-Library.Char_ord" "HOL-Library.Sublist" "HOL-Library.AList"
begin

text \<open>
  The Go values and standard-library functions that the components share: byte strings
  (\<open>strings\<close>, \<open>strconv\<close>), slash-separated paths (\<open>path\<close>, \<open>path/filepath\<close> on a POSIX host),
  string maps as association lists, error values, and the state-and-error monad in which the
  handlers of the phase engine are written.

  A Go \<open>string\<close> is a list of bytes (\<open>char\<close>). Case folding and white space are those of ASCII:
  bytes of 128 and above are neither letters nor spaces. A Go \<open>int\<close> is an unbounded \<open>int\<close>
  here; every use in the modelled code is a counter, an exit code or a number of seconds taken
  from a configuration file. Times of day are left out: no branch of the modelled code reads one.
\<close>

named_theorems clean_simps \<open>facts about lexical path cleaning\<close>
named_theorems env_simps \<open>facts about string maps\<close>

section \<open>Bytes and strings\<close>

definition is_upper :: "char \<Rightarrow> bool" where
  "is_upper c \<longleftrightarrow> CHR ''A'' \<le> c \<and> c \<le> CHR ''Z''"

definition is_lower :: "char \<Rightarrow> bool" where
  "is_lower c \<longleftrightarrow> CHR ''a'' \<le> c \<and> c \<le> CHR ''z''"

definition is_digit :: "char \<Rightarrow> bool" where
  "is_digit c \<longleftrightarrow> CHR ''0'' \<le> c \<and> c \<le> CHR ''9''"

definition newline :: char where "newline = CHR 0x0A"
definition carriage :: char where "carriage = CHR 0x0D"

definition is_space :: "char \<Rightarrow> bool" where
  "is_space c \<longleftrightarrow> c \<in> {CHR '' '', CHR 0x09, CHR 0x0A, CHR 0x0B, CHR 0x0C, CHR 0x0D}"

definition lower_char :: "char \<Rightarrow> char" where
  "lower_char c = (if is_upper c then char_of (of_char c + (32 :: nat)) else c)"

definition to_lower :: "string \<Rightarrow> string" where
  "to_lower s = map lower_char s"

definition equal_fold :: "string \<Rightarrow> string \<Rightarrow> bool" where
  "equal_fold a b \<longleftrightarrow> to_lower a = to_lower b"

definition has_prefix :: "string \<Rightarrow> string \<Rightarrow> bool" where
  "has_prefix s p \<longleftrightarrow> prefix p s"

definition has_suffix :: "string \<Rightarrow> string \<Rightarrow> bool" where
  "has_suffix s p \<longleftrightarrow> suffix p s"

definition contains_sub :: "string \<Rightarrow> string \<Rightarrow> bool" where
  "contains_sub s p \<longleftrightarrow> sublist p s"

definition trim_prefix :: "string \<Rightarrow> string \<Rightarrow> string" where
  "trim_prefix s p = (if has_prefix s p then drop (length p) s else s)"

definition trim_right :: "(char \<Rightarrow> bool) \<Rightarrow> string \<Rightarrow> string" where
  "trim_right p s = rev (dropWhile p (rev s))"

definition trim_left :: "(char \<Rightarrow> bool) \<Rightarrow> string \<Rightarrow> string" where
  "trim_left p s = dropWhile p s"

definition trim_space :: "string \<Rightarrow> string" where
  "trim_space s = trim_right is_space (trim_left is_space s)"

text \<open>\<open>strings.Split\<close> with a one-byte separator: \<open>n\<close> separators give \<open>n + 1\<close> parts.\<close>

fun split_on :: "char \<Rightarrow> string \<Rightarrow> string list" where
  "split_on d [] = [[]]"
| "split_on d (c # cs) =
     (if c = d then [] # split_on d cs
      else (case split_on d cs of [] \<Rightarrow> [[c]] | p # ps \<Rightarrow> (c # p) # ps))"

fun join :: "string \<Rightarrow> string list \<Rightarrow> string" where
  "join sep [] = []"
| "join sep [x] = x"
| "join sep (x # y # zs) = x @ sep @ join sep (y # zs)"

text \<open>\<open>strings.ReplaceAll\<close> with a one-byte pattern.\<close>

definition replace_char :: "char \<Rightarrow> string \<Rightarrow> string \<Rightarrow> string" where
  "replace_char c r s = concat (map (\<lambda>x. if x = c then r else [x]) s)"

text \<open>\<open>strconv.Itoa\<close> and the verb \<open>%d\<close>.\<close>

fun nat_to_string :: "nat \<Rightarrow> string" where
  "nat_to_string n =
     (if n < 10 then [char_of (48 + n)]
      else nat_to_string (n div 10) @ [char_of (48 + n mod 10)])"

declare nat_to_string.simps [simp del]

definition itoa :: "int \<Rightarrow> string" where
  "itoa i = (if i < 0 then ''-'' @ nat_to_string (nat (- i)) else nat_to_string (nat i))"

definition first_non_empty :: "string list \<Rightarrow> string" where
  "first_non_empty vs = (case filter (\<lambda>v. v \<noteq> []) vs of [] \<Rightarrow> [] | v # _ \<Rightarrow> v)"

subsection \<open>Facts about strings\<close>

lemma split_on_not_Nil [simp]: "split_on d s \<noteq> []"
  by (induction s) (auto split: list.splits)

lemma join_Cons: "xs \<noteq> [] \<Longrightarrow> join sep (x # xs) = x @ sep @ join sep xs"
  by (cases xs) auto

lemma join_split_on: "join [d] (split_on d s) = s"
proof (induction s)
  case Nil
  then show ?case by simp
next
  case (Cons c cs)
  obtain p ps where sp: "split_on d cs = p # ps"
    by (cases "split_on d cs") auto
  with Cons show ?case by (cases ps) auto
qed

lemma split_on_free: "d \<notin> set s \<Longrightarrow> split_on d s = [s]"
  by (induction s) auto

lemma split_on_append: "d \<notin> set s \<Longrightarrow> split_on d (s @ d # t) = s # split_on d t"
  by (induction s) auto

lemma split_on_join:
  "xs \<noteq> [] \<Longrightarrow> (\<And>x. x \<in> set xs \<Longrightarrow> d \<notin> set x) \<Longrightarrow> split_on d (join [d] xs) = xs"
proof (induction xs)
  case (Cons x xs)
  then show ?case
    by (cases "xs = []") (simp_all add: join_Cons split_on_free split_on_append)
qed simp

lemma split_on_append_last:
  "split_on d (s @ t) = butlast (split_on d s) @ split_on d (last (split_on d s) @ t)"
proof (induction s)
  case (Cons c s)
  then show ?case by (cases "split_on d s") (auto split: list.splits)
qed simp

lemma split_on_slash: "split_on d (s @ d # t) = split_on d s @ split_on d t"
proof (induction s)
  case (Cons c cs)
  then show ?case by (cases "split_on d cs") auto
qed simp

lemma join_append: "xs \<noteq> [] \<Longrightarrow> ys \<noteq> [] \<Longrightarrow> join sep (xs @ ys) = join sep xs @ sep @ join sep ys"
  by (induction xs rule: induct_list012) (simp_all add: join_Cons)

lemma in_split_on_free: "p \<in> set (split_on d s) \<Longrightarrow> d \<notin> set p"
proof (induction s arbitrary: p)
  case Nil
  then show ?case by simp
next
  case (Cons c cs)
  obtain q qs where sp: "split_on d cs = q # qs"
    by (cases "split_on d cs") auto
  have q: "d \<notin> set q" using Cons.IH [of q] sp by simp
  have qs: "x \<in> set qs \<Longrightarrow> d \<notin> set x" for x using Cons.IH [of x] sp by simp
  from Cons.prems sp q qs show ?case by (auto split: if_splits)
qed

lemma to_lower_Nil [simp]: "to_lower [] = []"
  by (simp add: to_lower_def)

lemma to_lower_append: "to_lower (a @ b) = to_lower a @ to_lower b"
  by (simp add: to_lower_def)

lemma lower_char_idem [simp]: "lower_char (lower_char c) = lower_char c"
proof (cases "is_upper c")
  case True
  then have "of_char c \<in> {65..(90 :: nat)}"
    by (auto simp: is_upper_def less_eq_char_def)
  then have "\<not> is_upper (char_of (of_char c + (32 :: nat)))"
    by (auto simp: is_upper_def less_eq_char_def)
  with True show ?thesis by (simp add: lower_char_def)
next
  case False
  then show ?thesis by (simp add: lower_char_def)
qed

lemma to_lower_idem [simp]: "to_lower (to_lower s) = to_lower s"
  by (simp add: to_lower_def o_def)

lemma equal_fold_refl [simp]: "equal_fold s s"
  by (simp add: equal_fold_def)

lemma first_non_empty_simps [simp]:
  "first_non_empty [] = []"
  "first_non_empty (v # vs) = (if v \<noteq> [] then v else first_non_empty vs)"
  by (auto simp: first_non_empty_def)

section \<open>Slash-separated paths\<close>

text \<open>
  \<open>filepath.Clean\<close> works on the path's elements with a stack (kept in reverse): empty elements
  and \<open>.\<close> are skipped, \<open>..\<close> removes the element before it, stays in front of a relative path
  and vanishes at the root.
\<close>

definition dot :: string where "dot = ''.''"
definition dotdot :: string where "dotdot = ''..''"

definition is_abs :: "string \<Rightarrow> bool" where
  "is_abs s \<longleftrightarrow> has_prefix s ''/''"

fun clean_step :: "bool \<Rightarrow> string list \<Rightarrow> string \<Rightarrow> string list" where
  "clean_step rooted st e =
     (if e = [] \<or> e = dot then st
      else if e = dotdot then
        (case st of
           [] \<Rightarrow> if rooted then [] else [dotdot]
         | x # xs \<Rightarrow> if x = dotdot then dotdot # st else xs)
      else e # st)"

definition clean_elems :: "bool \<Rightarrow> string list \<Rightarrow> string list" where
  "clean_elems rooted es = rev (foldl (clean_step rooted) [] es)"

definition path_clean :: "string \<Rightarrow> string" where
  "path_clean s =
     (if s = [] then dot
      else if is_abs s then ''/'' @ join ''/'' (clean_elems True (split_on CHR ''/'' s))
      else (let es = clean_elems False (split_on CHR ''/'' s)
            in if es = [] then dot else join ''/'' es))"

definition path_join :: "string list \<Rightarrow> string" where
  "path_join es =
     (case filter (\<lambda>e. e \<noteq> []) es of [] \<Rightarrow> [] | xs \<Rightarrow> path_clean (join ''/'' xs))"

text \<open>\<open>filepath.Base\<close>: the last element, \<open>.\<close> for the empty path, \<open>/\<close> for slashes only.\<close>

definition path_base :: "string \<Rightarrow> string" where
  "path_base s =
     (if s = [] then dot
      else let t = trim_right (\<lambda>c. c = CHR ''/'') s
           in if t = [] then ''/'' else last (split_on CHR ''/'' t))"

text \<open>\<open>filepath.Dir\<close> and \<open>path.Dir\<close>: what is left of the last slash, cleaned.\<close>

definition path_dir :: "string \<Rightarrow> string" where
  "path_dir s = path_clean (trim_right (\<lambda>c. c \<noteq> CHR ''/'') s)"

text \<open>What a cleaned element stack looks like: \<open>..\<close> only in front, never when rooted.\<close>

definition clean_form :: "bool \<Rightarrow> string list \<Rightarrow> bool" where
  "clean_form rooted es \<longleftrightarrow>
     (\<exists>n ns. es = replicate n dotdot @ ns \<and> (rooted \<longrightarrow> n = 0) \<and>
        (\<forall>x\<in>set ns. x \<noteq> [] \<and> x \<noteq> dot \<and> x \<noteq> dotdot))"

lemma dots_distinct [simp]: "dot \<noteq> []" "dotdot \<noteq> []" "dot \<noteq> dotdot" "dotdot \<noteq> dot"
  by (simp_all add: dot_def dotdot_def)

lemma clean_form_Nil [simp]: "clean_form r []"
  unfolding clean_form_def by (rule exI [of _ 0], rule exI [of _ "[]"]) simp

lemma clean_step_form:
  assumes "clean_form r (rev st)" shows "clean_form r (rev (clean_step r st e))"
proof -
  from assms obtain n ns where st: "rev st = replicate n dotdot @ ns"
    and n: "r \<longrightarrow> n = 0" and ns: "\<forall>x\<in>set ns. x \<noteq> [] \<and> x \<noteq> dot \<and> x \<noteq> dotdot"
    unfolding clean_form_def by blast
  consider "e = [] \<or> e = dot" | "e = dotdot" | "e \<noteq> []" "e \<noteq> dot" "e \<noteq> dotdot" by blast
  then show ?thesis
  proof cases
    case 1
    with assms show ?thesis by simp
  next
    case 2
    show ?thesis
    proof (cases ns rule: rev_cases)
      case Nil
      with st have st': "st = replicate n dotdot"
        by (metis append_Nil2 rev_replicate rev_rev_ident)
      have "clean_step r st e = (if r then [] else replicate (Suc n) dotdot)"
        using 2 st' n by (cases n) auto
      then have eq: "rev (clean_step r st e) = replicate (if r then 0 else Suc n) dotdot @ []"
        by (simp del: clean_step.simps replicate.simps add: replicate_0)
      show ?thesis unfolding clean_form_def eq
        by (rule exI [of _ "if r then 0 else Suc n"], rule exI [of _ "[]"]) simp
    next
      case (snoc ms m)
      with st have st': "st = m # rev (replicate n dotdot @ ms)"
        by (metis append.assoc rev.simps(2) rev_append rev_rev_ident rev_swap append_Cons append_Nil)
      from ns snoc have m: "m \<noteq> dotdot" by auto
      have "rev (clean_step r st e) = replicate n dotdot @ ms"
        using 2 st' m by simp
      then show ?thesis unfolding clean_form_def using n ns snoc by auto
    qed
  next
    case 3
    have "rev (clean_step r st e) = replicate n dotdot @ (ns @ [e])"
      using 3 st by simp
    then show ?thesis unfolding clean_form_def using n ns 3
      by (intro exI [of _ n] exI [of _ "ns @ [e]"]) auto
  qed
qed

lemma clean_fold_form:
  "clean_form r (rev st) \<Longrightarrow> clean_form r (rev (foldl (clean_step r) st es))"
proof (induction es arbitrary: st)
  case (Cons e es)
  from clean_step_form [OF Cons.prems, of e] show ?case
    using Cons.IH by (simp del: clean_step.simps)
qed simp

lemma clean_elems_form: "clean_form r (clean_elems r es)"
  unfolding clean_elems_def by (rule clean_fold_form) simp

lemma clean_fold_id:
  assumes "clean_form r (rev st @ es)"
  shows "foldl (clean_step r) st es = rev es @ st"
  using assms
proof (induction es arbitrary: st)
  case (Cons e es)
  from Cons.prems obtain n ns where eq: "rev st @ e # es = replicate n dotdot @ ns"
    and n: "r \<longrightarrow> n = 0" and ns: "\<forall>x\<in>set ns. x \<noteq> [] \<and> x \<noteq> dot \<and> x \<noteq> dotdot"
    unfolding clean_form_def by blast
  have step: "clean_step r st e = e # st"
  proof (cases "length st < n")
    case True
    from eq have "(rev st @ e # es) ! length st = (replicate n dotdot @ ns) ! length st" by simp
    with True have e: "e = dotdot" by (simp add: nth_append)
    have "rev st = take (length st) (replicate n dotdot)"
      using arg_cong [OF eq, of "take (length st)"] True by simp
    with True have "rev st = replicate (length st) dotdot" by (simp add: min_def)
    then have "st = replicate (length st) dotdot" by (metis rev_replicate rev_rev_ident)
    then obtain m where "st = replicate m dotdot" by blast
    moreover from True n have "\<not> r" by auto
    ultimately show ?thesis using e by (cases m) auto
  next
    case False
    from eq have "(rev st @ e # es) ! length st = (replicate n dotdot @ ns) ! length st" by simp
    with False have "e = ns ! (length st - n)" by (simp add: nth_append)
    moreover from arg_cong [OF eq, of length] False have "length st - n < length ns" by simp
    ultimately have "e \<in> set ns" by simp
    with ns have "e \<noteq> [] \<and> e \<noteq> dot \<and> e \<noteq> dotdot" by blast
    then show ?thesis by simp
  qed
  from Cons.prems have "clean_form r (rev (e # st) @ es)" by simp
  from Cons.IH [OF this] step show ?case by (simp del: clean_step.simps)
qed simp

lemma clean_elems_id: "clean_form r es \<Longrightarrow> clean_elems r es = es"
  unfolding clean_elems_def using clean_fold_id [of r "[]" es] by simp

lemma clean_elems_idem [simp]: "clean_elems r (clean_elems r es) = clean_elems r es"
  by (rule clean_elems_id [OF clean_elems_form])

text \<open>Elements of a cleaned path hold no slash, so rendering and splitting again give them back.\<close>

lemma clean_fold_subset:
  "set (foldl (clean_step r) st es) \<subseteq> set st \<union> set es \<union> {dotdot}"
proof (induction es arbitrary: st)
  case (Cons e es)
  have "set (clean_step r st e) \<subseteq> set st \<union> {e} \<union> {dotdot}"
    by (cases st) auto
  then show ?case using Cons.IH [of "clean_step r st e"] by (auto simp del: clean_step.simps)
qed auto

lemma clean_elems_subset: "set (clean_elems r es) \<subseteq> set es \<union> {dotdot}"
  unfolding clean_elems_def using clean_fold_subset [of r "[]" es] by simp

lemma clean_elems_slash_free:
  assumes "x \<in> set (clean_elems r (split_on CHR ''/'' s))" shows "CHR ''/'' \<notin> set x"
  using assms clean_elems_subset [of r "split_on CHR ''/'' s"] in_split_on_free [of x "CHR ''/''" s]
  by (auto simp: dotdot_def)

lemma clean_elems_nonempty:
  assumes "x \<in> set (clean_elems r es)" shows "x \<noteq> []"
proof -
  from clean_elems_form [of r es] obtain n ns
    where es: "clean_elems r es = replicate n dotdot @ ns"
      and ns: "\<forall>x\<in>set ns. x \<noteq> [] \<and> x \<noteq> dot \<and> x \<noteq> dotdot"
    unfolding clean_form_def by blast
  from assms have "x \<in> set (replicate n dotdot) \<or> x \<in> set ns" unfolding es by simp
  then have "x = dotdot \<or> x \<in> set ns" by (simp only: in_set_replicate) blast
  then show ?thesis using ns by (elim disjE) simp_all
qed

lemma clean_elems_skip_Nil [simp]: "clean_elems r ([] # es) = clean_elems r es"
  by (simp add: clean_elems_def)

lemma clean_elems_Nil [simp]: "clean_elems r [] = []"
  by (simp add: clean_elems_def)

lemma join_eq_Nil: "(\<And>x. x \<in> set xs \<Longrightarrow> x \<noteq> []) \<Longrightarrow> join sep xs = [] \<longleftrightarrow> xs = []"
  by (cases xs; cases "tl xs") auto

lemma hd_join: "xs \<noteq> [] \<Longrightarrow> hd xs \<noteq> [] \<Longrightarrow> hd (join sep xs) = hd (hd xs)"
  by (cases xs; cases "tl xs") auto

lemma is_abs_Cons: "is_abs s \<longleftrightarrow> s \<noteq> [] \<and> hd s = CHR ''/''"
  by (cases s) (auto simp: is_abs_def has_prefix_def)

lemma path_clean_abs [clean_simps]:
  "is_abs s \<Longrightarrow> path_clean s = ''/'' @ join ''/'' (clean_elems True (split_on CHR ''/'' s))"
  by (auto simp: path_clean_def is_abs_Cons)

lemma path_clean_not_Nil [simp]: "path_clean s \<noteq> []"
  using join_eq_Nil [of "clean_elems False (split_on CHR ''/'' s)" "''/''"] clean_elems_nonempty
  by (auto simp: path_clean_def Let_def)

lemma clean_rel_not_abs:
  assumes "es = clean_elems False (split_on CHR ''/'' s)" "es \<noteq> []"
  shows "\<not> is_abs (join ''/'' es)"
proof -
  from assms have "hd es \<in> set es" by simp
  with assms(1) have "hd es \<noteq> []" "CHR ''/'' \<notin> set (hd es)"
    using clean_elems_nonempty clean_elems_slash_free by blast+
  with assms(2) show ?thesis by (metis hd_in_set hd_join is_abs_Cons)
qed

lemma is_abs_path_clean [simp, clean_simps]: "is_abs (path_clean s) = is_abs s"
  using clean_rel_not_abs [OF refl, of s]
  by (auto simp: path_clean_def Let_def is_abs_Cons dot_def)

lemma path_clean_idem [simp, clean_simps]: "path_clean (path_clean s) = path_clean s"
proof -
  have split: "split_on CHR ''/'' (join ''/'' (clean_elems r (split_on CHR ''/'' s)))
      = clean_elems r (split_on CHR ''/'' s)"
    if "clean_elems r (split_on CHR ''/'' s) \<noteq> []" for r
    using that clean_elems_slash_free by (intro split_on_join) auto
  consider "s = []" | "is_abs s" | "s \<noteq> []" "\<not> is_abs s" by blast
  then show ?thesis
  proof cases
    case 1
    then show ?thesis by (simp add: path_clean_def is_abs_def has_prefix_def dot_def Let_def clean_elems_def)
  next
    case 2
    let ?es = "clean_elems True (split_on CHR ''/'' s)"
    have "clean_elems True (split_on CHR ''/'' (''/'' @ join ''/'' ?es)) = ?es"
      using split [of True] by (cases "?es = []") (simp_all add: clean_elems_id [OF clean_elems_form])
    moreover have "is_abs (''/'' @ join ''/'' ?es)" by (simp add: is_abs_Cons)
    ultimately show ?thesis using 2 by (simp add: path_clean_abs)
  next
    case 3
    let ?es = "clean_elems False (split_on CHR ''/'' s)"
    show ?thesis
    proof (cases "?es = []")
      case True
      with 3 have "path_clean s = dot" by (simp add: path_clean_def)
      then show ?thesis
        by (simp add: path_clean_def is_abs_def has_prefix_def dot_def Let_def clean_elems_def)
    next
      case False
      with 3 have eq: "path_clean s = join ''/'' ?es" by (simp add: path_clean_def)
      from False have "path_clean (join ''/'' ?es) = join ''/'' ?es"
        using split [of False] clean_rel_not_abs [OF refl False]
          path_clean_not_Nil [of s] eq
        by (simp add: path_clean_def [of "join ''/'' ?es"])
      with eq show ?thesis by simp
    qed
  qed
qed

text \<open>A file or object name: one segment that cleaning leaves alone.\<close>

definition plain_segment :: "string \<Rightarrow> bool" where
  "plain_segment e \<longleftrightarrow> e \<noteq> [] \<and> e \<noteq> dot \<and> e \<noteq> dotdot \<and> CHR ''/'' \<notin> set e"

lemma clean_elems_snoc:
  "e \<noteq> [] \<Longrightarrow> e \<noteq> dot \<Longrightarrow> e \<noteq> dotdot \<Longrightarrow> clean_elems r (es @ [e]) = clean_elems r es @ [e]"
  by (simp add: clean_elems_def)

lemma last_path_clean:
  assumes "plain_segment n" "last (split_on CHR ''/'' s) = n" "s \<noteq> []"
  shows "last (split_on CHR ''/'' (path_clean s)) = n"
proof -
  obtain front where front: "split_on CHR ''/'' s = front @ [n]"
    using assms(2) by (metis append_butlast_last_id split_on_not_Nil)
  have elems: "clean_elems r (split_on CHR ''/'' s) = clean_elems r front @ [n]" for r
    using assms(1) by (simp add: front plain_segment_def clean_elems_snoc)
  have "split_on CHR ''/'' (join ''/'' (clean_elems r (split_on CHR ''/'' s))) = clean_elems r (split_on CHR ''/'' s)" for r
  proof (rule split_on_join)
    show "clean_elems r (split_on CHR ''/'' s) \<noteq> []" by (simp add: elems)
  qed (rule clean_elems_slash_free)
  then have split: "split_on CHR ''/'' (join ''/'' (clean_elems r front @ [n])) = clean_elems r front @ [n]" for r
    by (simp add: elems)
  then show ?thesis using assms(3) by (simp add: path_clean_def Let_def elems split_on_slash split)
qed

text \<open>The last segment of a joined path is the name that was joined.\<close>

lemma last_path_join:
  assumes "plain_segment n" shows "last (split_on CHR ''/'' (path_join [root, n])) = n"
proof -
  have "n \<noteq> []" "last (split_on CHR ''/'' n) = n" using assms by (simp_all add: plain_segment_def split_on_free)
  moreover have "last (split_on CHR ''/'' (root @ CHR ''/'' # n)) = n"
    using assms by (simp add: plain_segment_def split_on_slash split_on_free)
  ultimately show ?thesis
    by (cases "root = []") (simp_all add: path_join_def join_Cons last_path_clean [OF assms])
qed

lemma path_join_inject:
  "\<lbrakk>plain_segment m; plain_segment n; path_join [root, m] = path_join [root, n]\<rbrakk> \<Longrightarrow> m = n"
  by (metis last_path_join)

section \<open>String maps\<close>

text \<open>
  A Go \<open>map[string]string\<close> is an association list read by \<open>map_of\<close>; \<open>m[k]\<close> gives the empty
  string for a missing key. The order of the list never matters to a reader; where the code
  iterates a map in the unspecified order, the result is shown not to depend on it.
\<close>

type_synonym env = "(string \<times> string) list"

definition env_get :: "env \<Rightarrow> string \<Rightarrow> string" where
  "env_get m k = (case map_of m k of None \<Rightarrow> [] | Some v \<Rightarrow> v)"

definition env_has :: "env \<Rightarrow> string \<Rightarrow> bool" where
  "env_has m k \<longleftrightarrow> map_of m k \<noteq> None"

definition env_put :: "string \<Rightarrow> string \<Rightarrow> env \<Rightarrow> env" where
  "env_put k v m = AList.update k v m"

text \<open>\<open>for k, v := range src { dst[k] = v }\<close>\<close>

definition env_put_all :: "env \<Rightarrow> env \<Rightarrow> env" where
  "env_put_all dst src = foldr (\<lambda>(k, v). env_put k v) src dst"

text \<open>\<open>for k, v := range src { if _, ok := dst[k]; !ok { dst[k] = v } }\<close>\<close>

definition env_put_missing :: "env \<Rightarrow> env \<Rightarrow> env" where
  "env_put_missing dst src = foldr (\<lambda>(k, v) m. if env_has m k then m else env_put k v m) (rev src) dst"

lemma map_of_env_put [simp, env_simps]: "map_of (env_put k v m) = (map_of m)(k \<mapsto> v)"
  by (simp add: env_put_def update_conv')

lemma env_get_put [simp, env_simps]:
  "env_get (env_put k v m) j = (if j = k then v else env_get m j)"
  by (simp add: env_get_def)

lemma env_has_put [simp, env_simps]: "env_has (env_put k v m) j \<longleftrightarrow> j = k \<or> env_has m j"
  by (simp add: env_has_def)

lemma env_empty [simp, env_simps]: "env_get [] k = []" "\<not> env_has [] k"
  by (simp_all add: env_get_def env_has_def)

lemma map_of_env_put_all [env_simps]:
  "map_of (env_put_all dst src) = map_of dst ++ map_of src"
  by (induction src) (auto simp: env_put_all_def map_add_def fun_eq_iff)

lemma map_of_env_put_missing [env_simps]:
  "map_of (env_put_missing dst src) = map_of src ++ map_of dst"
proof (induction src arbitrary: dst)
  case (Cons kv src)
  obtain k v where kv: "kv = (k, v)" by fastforce
  have "env_put_missing dst (kv # src)
      = env_put_missing (if env_has dst k then dst else env_put k v dst) src"
    by (simp add: env_put_missing_def kv)
  then show ?case
    by (auto simp: Cons.IH kv env_has_def map_add_def fun_eq_iff split: option.splits)
qed (simp add: env_put_missing_def)

text \<open>The contract of a string map, as the components that fill environments rely on it.\<close>

locale string_map =
  fixes empty_map :: 'm
    and put :: "string \<Rightarrow> string \<Rightarrow> 'm \<Rightarrow> 'm"
    and look :: "'m \<Rightarrow> string \<Rightarrow> string option"
  assumes look_empty: "look empty_map k = None"
    and look_put: "look (put k v m) j = (if j = k then Some v else look m j)"
begin

lemma look_fold_other:
  "k \<notin> fst ` set kvs \<Longrightarrow> look (fold (\<lambda>(k, v). put k v) kvs m) k = look m k"
  by (induction kvs arbitrary: m) (auto simp: look_put)

lemma look_fold_last:
  "look (fold (\<lambda>(k, v). put k v) kvs m) k =
     (case map_of (rev kvs) k of None \<Rightarrow> look m k | Some v \<Rightarrow> Some v)"
  by (induction kvs arbitrary: m) (auto simp: look_put map_add_def split: option.splits)

lemma put_overwrites: "look (put k v (put k w m)) j = look (put k v m) j"
  by (simp add: look_put)

lemma put_commutes: "k \<noteq> l \<Longrightarrow> look (put k v (put l w m)) j = look (put l w (put k v m)) j"
  by (simp add: look_put)

end

interpretation env_map: string_map "[] :: env" env_put map_of
  by unfold_locales auto

section \<open>The host\<close>

text \<open>
  What the program reads from the process it runs in: the environment, the working directory
  (\<open>None\<close> when \<open>os.Getwd\<close> fails) and the compiled target. \<open>os.UserHomeDir\<close> on a POSIX host is the
  value of \<open>HOME\<close> and fails when it is empty.
\<close>

record host =
  host_env :: env
  host_cwd :: "string option"
  host_goos :: string
  host_goarch :: string

definition os_getenv :: "host \<Rightarrow> string \<Rightarrow> string" where
  "os_getenv h k = env_get (host_env h) k"

definition os_environ :: "host \<Rightarrow> string list" where
  "os_environ h = map (\<lambda>(k, v). k @ ''='' @ v) (host_env h)"

definition user_home_dir :: "host \<Rightarrow> string option" where
  "user_home_dir h = (let v = os_getenv h ''HOME'' in if v = [] then None else Some v)"

definition path_abs :: "host \<Rightarrow> string \<Rightarrow> string option" where
  "path_abs h p =
     (if is_abs p then Some (path_clean p)
      else map_option (\<lambda>wd. path_join [wd, p]) (host_cwd h))"

text \<open>
  \<open>fmt.Sscanf(s, "%d", &n)\<close>: leading blanks (not a newline) are skipped, then an optional sign and
  at least one digit must follow; what comes after is ignored. A value outside 64 bits is an error.
  \<open>None\<close> means that \<open>n\<close> keeps its value.
\<close>

definition digits_value :: "string \<Rightarrow> int" where
  "digits_value ds = foldl (\<lambda>a c. a * 10 + (int (of_char c) - 48)) 0 ds"

definition sscanf_int :: "string \<Rightarrow> int option" where
  "sscanf_int s =
     (let t = dropWhile (\<lambda>c. is_space c \<and> c \<noteq> newline) s;
          neg = (t \<noteq> [] \<and> hd t = CHR ''-'');
          u = (if t \<noteq> [] \<and> hd t \<in> {CHR ''-'', CHR ''+''} then tl t else t);
          ds = takeWhile is_digit u;
          v = (if neg then - digits_value ds else digits_value ds)
      in if ds = [] \<or> v < - (2 ^ 63) \<or> 2 ^ 63 \<le> v then None else Some v)"

text \<open>\<open>strconv.Atoi\<close>.\<close>

definition Atoi :: "string \<Rightarrow> int option" where
  "Atoi s =
     (let neg = (s \<noteq> [] \<and> hd s = CHR ''-'');
          ds = (if s \<noteq> [] \<and> hd s \<in> {CHR ''-'', CHR ''+''} then tl s else s);
          v = (if neg then - digits_value ds else digits_value ds)
      in if ds = [] \<or> \<not> list_all is_digit ds \<or> v < - (2 ^ 63) \<or> 2 ^ 63 \<le> v then None else Some v)"

end
