(* ===== verification/Model_Types.thy ===== *)
theory Model_Types
  imports Go_Prelude
begin

text \<open>
  The data model of \<open>internal/model/model.go\<close> and its two helper files. Every struct is a record
  whose fields keep the source's names behind a prefix of the struct. The closed enumerations that
  only the program itself writes are datatypes; the open ones, which a YAML file or a caller can
  fill with any string and which the code folds and compares as strings, are \<open>string\<close> synonyms
  with the source's constants as abbreviations. \<open>time.Time\<close> fields are left out: no branch of the
  modelled code reads one.
\<close>

section \<open>Phases, statuses and support levels\<close>

text \<open>\<open>PhaseOther\<close> stands for a phase name of a policy file that is none of the five.\<close>

datatype phase =
    PhasePrepare | PhaseSetup | PhaseExecute | PhaseVerify | PhaseCollect | PhaseOther string

definition OrderedPhases :: "phase list" where
  "OrderedPhases = [PhasePrepare, PhaseSetup, PhaseExecute, PhaseVerify, PhaseCollect]"

fun phase_name :: "phase \<Rightarrow> string" where
  "phase_name PhasePrepare = ''prepare''"
| "phase_name PhaseSetup = ''setup''"
| "phase_name PhaseExecute = ''execute''"
| "phase_name PhaseVerify = ''verify''"
| "phase_name PhaseCollect = ''collect''"
| "phase_name (PhaseOther s) = s"

text \<open>The position of a phase in \<open>OrderedPhases\<close>.\<close>

fun phase_rank :: "phase \<Rightarrow> nat" where
  "phase_rank PhasePrepare = 0"
| "phase_rank PhaseSetup = 1"
| "phase_rank PhaseExecute = 2"
| "phase_rank PhaseVerify = 3"
| "phase_rank PhaseCollect = 4"
| "phase_rank (PhaseOther s) = 5"

text \<open>\<open>StatusUnset\<close> is the zero value of a result that was never filled.\<close>

datatype run_status =
    StatusUnset | StatusCreated | StatusSucceeded | StatusFailed | StatusTimedOut | StatusAborted
  | StatusPartial

datatype support_level =
    SupportUnset | SupportSupported | SupportConditional | SupportUnsupported

section \<open>Open enumerations\<close>

type_synonym run_mode = string

abbreviation RunModeLocalDirect :: run_mode where "RunModeLocalDirect \<equiv> ''local_direct''"
abbreviation RunModeLocalDocker :: run_mode where "RunModeLocalDocker \<equiv> ''local_docker''"
abbreviation RunModeLocalDevContainer :: run_mode where "RunModeLocalDevContainer \<equiv> ''local_devcontainer''"
abbreviation RunModeLocalAppleContainer :: run_mode where "RunModeLocalAppleContainer \<equiv> ''local_apple_container''"
abbreviation RunModeLocalOrbStackMachine :: run_mode where "RunModeLocalOrbStackMachine \<equiv> ''local_orbstack_machine''"
abbreviation RunModeSTGLinux :: run_mode where "RunModeSTGLinux \<equiv> ''stg_linux''"
abbreviation RunModeLocalOpenSandboxDocker :: run_mode where "RunModeLocalOpenSandboxDocker \<equiv> ''local_opensandbox_docker''"
abbreviation RunModeSTGOpenSandboxK8s :: run_mode where "RunModeSTGOpenSandboxK8s \<equiv> ''stg_opensandbox_k8s''"

type_synonym backend_kind = string

abbreviation BackendKindDirect :: backend_kind where "BackendKindDirect \<equiv> ''direct''"
abbreviation BackendKindDocker :: backend_kind where "BackendKindDocker \<equiv> ''docker''"
abbreviation BackendKindDevContainer :: backend_kind where "BackendKindDevContainer \<equiv> ''devcontainer''"
abbreviation BackendKindAppleContainer :: backend_kind where "BackendKindAppleContainer \<equiv> ''apple-container''"
abbreviation BackendKindOrbStackMachine :: backend_kind where "BackendKindOrbStackMachine \<equiv> ''orbstack-machine''"
abbreviation BackendKindK8s :: backend_kind where "BackendKindK8s \<equiv> ''k8s''"
abbreviation BackendKindOpenSandbox :: backend_kind where "BackendKindOpenSandbox \<equiv> ''opensandbox''"

type_synonym runtime_profile = string

abbreviation RuntimeProfileDefault :: runtime_profile where "RuntimeProfileDefault \<equiv> ''default''"
abbreviation RuntimeProfileNative :: runtime_profile where "RuntimeProfileNative \<equiv> ''native''"
abbreviation RuntimeProfileKata :: runtime_profile where "RuntimeProfileKata \<equiv> ''kata''"
abbreviation RuntimeProfileGVisor :: runtime_profile where "RuntimeProfileGVisor \<equiv> ''gvisor''"
abbreviation RuntimeProfileFirecracker :: runtime_profile where "RuntimeProfileFirecracker \<equiv> ''firecracker''"
abbreviation RuntimeProfileAppleContainer :: runtime_profile where "RuntimeProfileAppleContainer \<equiv> ''apple-container''"
abbreviation RuntimeProfileOrbStackDocker :: runtime_profile where "RuntimeProfileOrbStackDocker \<equiv> ''orbstack-docker''"
abbreviation RuntimeProfileOrbStackK8s :: runtime_profile where "RuntimeProfileOrbStackK8s \<equiv> ''orbstack-k8s''"
abbreviation RuntimeProfileOrbStackMachine :: runtime_profile where "RuntimeProfileOrbStackMachine \<equiv> ''orbstack-machine''"

type_synonym execution_backend = string

abbreviation ExecutionBackendDirect :: execution_backend where "ExecutionBackendDirect \<equiv> ''direct''"
abbreviation ExecutionBackendDocker :: execution_backend where "ExecutionBackendDocker \<equiv> ''docker''"
abbreviation ExecutionBackendK8s :: execution_backend where "ExecutionBackendK8s \<equiv> ''k8s''"
abbreviation ExecutionBackendOpenSandbox :: execution_backend where "ExecutionBackendOpenSandbox \<equiv> ''opensandbox''"
abbreviation ExecutionBackendDevContainer :: execution_backend where "ExecutionBackendDevContainer \<equiv> ''devcontainer''"
abbreviation ExecutionBackendAppleContainer :: execution_backend where "ExecutionBackendAppleContainer \<equiv> ''apple-container''"
abbreviation ExecutionBackendMachine :: execution_backend where "ExecutionBackendMachine \<equiv> ''machine''"

type_synonym provider_kind = string

abbreviation ProviderNative :: provider_kind where "ProviderNative \<equiv> ''native''"
abbreviation ProviderOrbStack :: provider_kind where "ProviderOrbStack \<equiv> ''orbstack''"
abbreviation ProviderKindKind :: provider_kind where "ProviderKindKind \<equiv> ''kind''"
abbreviation ProviderMinikube :: provider_kind where "ProviderMinikube \<equiv> ''minikube''"
abbreviation ProviderK3s :: provider_kind where "ProviderK3s \<equiv> ''k3s''"
abbreviation ProviderMicroK8s :: provider_kind where "ProviderMicroK8s \<equiv> ''microk8s''"
abbreviation ProviderDockerDesktop :: provider_kind where "ProviderDockerDesktop \<equiv> ''docker-desktop''"
abbreviation ProviderColima :: provider_kind where "ProviderColima \<equiv> ''colima''"
abbreviation ProviderGKE :: provider_kind where "ProviderGKE \<equiv> ''gke''"
abbreviation ProviderEKS :: provider_kind where "ProviderEKS \<equiv> ''eks''"
abbreviation ProviderAKS :: provider_kind where "ProviderAKS \<equiv> ''aks''"
abbreviation ProviderOpenSandbox :: provider_kind where "ProviderOpenSandbox \<equiv> ''opensandbox''"

type_synonym execution_runtime_profile = string

abbreviation ExecutionRuntimeProfileDefault :: execution_runtime_profile where "ExecutionRuntimeProfileDefault \<equiv> ''default''"
abbreviation ExecutionRuntimeProfileKata :: execution_runtime_profile where "ExecutionRuntimeProfileKata \<equiv> ''kata''"
abbreviation ExecutionRuntimeProfileGVisor :: execution_runtime_profile where "ExecutionRuntimeProfileGVisor \<equiv> ''gvisor''"
abbreviation ExecutionRuntimeProfileFirecracker :: execution_runtime_profile where "ExecutionRuntimeProfileFirecracker \<equiv> ''firecracker''"

type_synonym docker_provider = string

abbreviation DockerProviderDocker :: docker_provider where "DockerProviderDocker \<equiv> ''docker''"
abbreviation DockerProviderOrbStack :: docker_provider where "DockerProviderOrbStack \<equiv> ''orbstack''"

type_synonym k8s_provider = string

abbreviation K8sProviderRemote :: k8s_provider where "K8sProviderRemote \<equiv> ''remote''"
abbreviation K8sProviderOrbStackLocal :: k8s_provider where "K8sProviderOrbStackLocal \<equiv> ''orbstack-local''"
abbreviation K8sProviderMinikube :: k8s_provider where "K8sProviderMinikube \<equiv> ''minikube''"
abbreviation K8sProviderK3s :: k8s_provider where "K8sProviderK3s \<equiv> ''k3s''"
abbreviation K8sProviderMicroK8s :: k8s_provider where "K8sProviderMicroK8s \<equiv> ''microk8s''"

type_synonym container_execution_mode = string

abbreviation ContainerExecutionHostRunner :: container_execution_mode where "ContainerExecutionHostRunner \<equiv> ''host-runner''"
abbreviation ContainerExecutionInContainerMode :: container_execution_mode where "ContainerExecutionInContainerMode \<equiv> ''in-container-runner''"

type_synonym collector_mode = string

abbreviation CollectorModeRequire :: collector_mode where "CollectorModeRequire \<equiv> ''require''"
abbreviation CollectorModeAuto :: collector_mode where "CollectorModeAuto \<equiv> ''auto''"
abbreviation CollectorModeSkip :: collector_mode where "CollectorModeSkip \<equiv> ''skip''"

type_synonym artifact_backend = string

abbreviation ArtifactBackendLocal :: artifact_backend where "ArtifactBackendLocal \<equiv> ''local''"
abbreviation ArtifactBackendS3 :: artifact_backend where "ArtifactBackendS3 \<equiv> ''s3''"

type_synonym error_code = string

abbreviation ErrorCodeConfigInvalid :: error_code where "ErrorCodeConfigInvalid \<equiv> ''CONFIG_INVALID''"
abbreviation ErrorCodePolicyDenied :: error_code where "ErrorCodePolicyDenied \<equiv> ''POLICY_DENIED''"
abbreviation ErrorCodeSetupFailed :: error_code where "ErrorCodeSetupFailed \<equiv> ''SETUP_FAILED''"
abbreviation ErrorCodeExecuteFailed :: error_code where "ErrorCodeExecuteFailed \<equiv> ''EXECUTE_FAILED''"
abbreviation ErrorCodeVerifyFailed :: error_code where "ErrorCodeVerifyFailed \<equiv> ''VERIFY_FAILED''"
abbreviation ErrorCodeCollectFailed :: error_code where "ErrorCodeCollectFailed \<equiv> ''COLLECT_FAILED''"
abbreviation ErrorCodeTimeout :: error_code where "ErrorCodeTimeout \<equiv> ''TIMEOUT''"
abbreviation ErrorCodeSignalAborted :: error_code where "ErrorCodeSignalAborted \<equiv> ''SIGNAL_ABORTED''"
abbreviation ErrorCodeCollectorUnavailable :: error_code where "ErrorCodeCollectorUnavailable \<equiv> ''COLLECTOR_UNAVAILABLE''"
abbreviation ErrorCodeArtifactUploadFailed :: error_code where "ErrorCodeArtifactUploadFailed \<equiv> ''ARTIFACT_UPLOAD_FAILED''"
abbreviation ErrorCodePolicyFSDeny :: error_code where "ErrorCodePolicyFSDeny \<equiv> ''POLICY_FS_DENY''"
abbreviation ErrorCodePolicyNetDeny :: error_code where "ErrorCodePolicyNetDeny \<equiv> ''POLICY_NET_DENY''"
abbreviation ErrorCodePolicyToolDeny :: error_code where "ErrorCodePolicyToolDeny \<equiv> ''POLICY_TOOL_DENY''"
abbreviation ErrorCodePolicySecretDeny :: error_code where "ErrorCodePolicySecretDeny \<equiv> ''POLICY_SECRET_DENY''"
abbreviation ErrorCodePolicyResourceDeny :: error_code where "ErrorCodePolicyResourceDeny \<equiv> ''POLICY_RESOURCE_DENY''"
abbreviation ErrorCodeSandboxCreateFailed :: error_code where "ErrorCodeSandboxCreateFailed \<equiv> ''sandbox.create_failed''"
abbreviation ErrorCodeSandboxStartFailed :: error_code where "ErrorCodeSandboxStartFailed \<equiv> ''sandbox.start_failed''"
abbreviation ErrorCodeSandboxExecFailed :: error_code where "ErrorCodeSandboxExecFailed \<equiv> ''sandbox.exec_failed''"
abbreviation ErrorCodeSandboxStreamFailed :: error_code where "ErrorCodeSandboxStreamFailed \<equiv> ''sandbox.stream_failed''"
abbreviation ErrorCodeSandboxUploadFailed :: error_code where "ErrorCodeSandboxUploadFailed \<equiv> ''sandbox.upload_failed''"
abbreviation ErrorCodeSandboxDownloadFailed :: error_code where "ErrorCodeSandboxDownloadFailed \<equiv> ''sandbox.download_failed''"
abbreviation ErrorCodeSandboxDeleteFailed :: error_code where "ErrorCodeSandboxDeleteFailed \<equiv> ''sandbox.delete_failed''"
abbreviation ErrorCodeSandboxPauseFailed :: error_code where "ErrorCodeSandboxPauseFailed \<equiv> ''sandbox.pause_failed''"
abbreviation ErrorCodeSandboxResumeFailed :: error_code where "ErrorCodeSandboxResumeFailed \<equiv> ''sandbox.resume_failed''"
abbreviation ErrorCodeSandboxRenewFailed :: error_code where "ErrorCodeSandboxRenewFailed \<equiv> ''sandbox.renew_failed''"
abbreviation ErrorCodeSandboxUnsupportedCapability :: error_code where "ErrorCodeSandboxUnsupportedCapability \<equiv> ''sandbox.unsupported_capability''"
abbreviation ErrorCodeDevContainerCLINotFound :: error_code where "ErrorCodeDevContainerCLINotFound \<equiv> ''devcontainer.cli_not_found''"
abbreviation ErrorCodeDevContainerReadConfigFailed :: error_code where "ErrorCodeDevContainerReadConfigFailed \<equiv> ''devcontainer.read_configuration_failed''"
abbreviation ErrorCodeDevContainerUpFailed :: error_code where "ErrorCodeDevContainerUpFailed \<equiv> ''devcontainer.up_failed''"
abbreviation ErrorCodeDevContainerExecFailed :: error_code where "ErrorCodeDevContainerExecFailed \<equiv> ''devcontainer.exec_failed''"
abbreviation ErrorCodeDevContainerDownFailed :: error_code where "ErrorCodeDevContainerDownFailed \<equiv> ''devcontainer.down_failed''"
abbreviation ErrorCodeRuntimeProfileUnsupported :: error_code where "ErrorCodeRuntimeProfileUnsupported \<equiv> ''runtime.profile.unsupported''"
abbreviation ErrorCodeKataPreflightFailed :: error_code where "ErrorCodeKataPreflightFailed \<equiv> ''kata.preflight_failed''"
abbreviation ErrorCodeKataRuntimeClassNotFound :: error_code where "ErrorCodeKataRuntimeClassNotFound \<equiv> ''kata.runtimeclass_not_found''"
abbreviation ErrorCodeProviderRuntimeUnsupported :: error_code where "ErrorCodeProviderRuntimeUnsupported \<equiv> ''provider.runtime_profile_not_supported''"
abbreviation ErrorCodeAppleContainerBinaryNotFound :: error_code where "ErrorCodeAppleContainerBinaryNotFound \<equiv> ''apple_container.binary_not_found''"
abbreviation ErrorCodeAppleContainerUnsupported :: error_code where "ErrorCodeAppleContainerUnsupported \<equiv> ''apple_container.unsupported_platform''"
abbreviation ErrorCodeAppleContainerCreateFailed :: error_code where "ErrorCodeAppleContainerCreateFailed \<equiv> ''apple_container.create_failed''"
abbreviation ErrorCodeAppleContainerExecFailed :: error_code where "ErrorCodeAppleContainerExecFailed \<equiv> ''apple_container.exec_failed''"
abbreviation ErrorCodeAppleContainerCopyFailed :: error_code where "ErrorCodeAppleContainerCopyFailed \<equiv> ''apple_container.copy_failed''"
abbreviation ErrorCodeAppleContainerDeleteFailed :: error_code where "ErrorCodeAppleContainerDeleteFailed \<equiv> ''apple_container.delete_failed''"
abbreviation ErrorCodeOrbStackBinaryNotFound :: error_code where "ErrorCodeOrbStackBinaryNotFound \<equiv> ''orbstack.binary_not_found''"
abbreviation ErrorCodeOrbStackMachineNotFound :: error_code where "ErrorCodeOrbStackMachineNotFound \<equiv> ''orbstack.machine_not_found''"
abbreviation ErrorCodeOrbStackMachineCreateFailed :: error_code where "ErrorCodeOrbStackMachineCreateFailed \<equiv> ''orbstack.machine_create_failed''"
abbreviation ErrorCodeOrbStackExecFailed :: error_code where "ErrorCodeOrbStackExecFailed \<equiv> ''orbstack.exec_failed''"
abbreviation ErrorCodeOrbStackCopyFailed :: error_code where "ErrorCodeOrbStackCopyFailed \<equiv> ''orbstack.copy_failed''"
abbreviation ErrorCodeOrbStackStopFailed :: error_code where "ErrorCodeOrbStackStopFailed \<equiv> ''orbstack.stop_failed''"
abbreviation ErrorCodeOrbStackDeleteFailed :: error_code where "ErrorCodeOrbStackDeleteFailed \<equiv> ''orbstack.delete_failed''"
abbreviation ErrorCodeOrbStackK8sContextNotFound :: error_code where "ErrorCodeOrbStackK8sContextNotFound \<equiv> ''orbstack.k8s_context_not_found''"
abbreviation ErrorCodeDockerProviderUnavailable :: error_code where "ErrorCodeDockerProviderUnavailable \<equiv> ''docker.provider_unavailable''"
abbreviation ErrorCodeConfigInvalidSchema :: error_code where "ErrorCodeConfigInvalidSchema \<equiv> ''config.invalid_schema''"
abbreviation ErrorCodeUnsupportedExecutionCombo :: error_code where "ErrorCodeUnsupportedExecutionCombo \<equiv> ''config.unsupported_execution_combo''"
abbreviation ErrorCodeCapabilityProbeFailed :: error_code where "ErrorCodeCapabilityProbeFailed \<equiv> ''capability.probe_failed''"
abbreviation ErrorCodeCapabilityRuntimeUnavailable :: error_code where "ErrorCodeCapabilityRuntimeUnavailable \<equiv> ''capability.runtime_profile_unavailable''"
abbreviation ErrorCodeCapabilityProviderUnreachable :: error_code where "ErrorCodeCapabilityProviderUnreachable \<equiv> ''capability.provider_unreachable''"

type_synonym opensandbox_runtime = string

abbreviation OpenSandboxRuntimeDocker :: opensandbox_runtime where "OpenSandboxRuntimeDocker \<equiv> ''docker''"
abbreviation OpenSandboxRuntimeKubernetes :: opensandbox_runtime where "OpenSandboxRuntimeKubernetes \<equiv> ''kubernetes''"

type_synonym opensandbox_cleanup_mode = string

abbreviation OpenSandboxCleanupDelete :: opensandbox_cleanup_mode where "OpenSandboxCleanupDelete \<equiv> ''delete''"
abbreviation OpenSandboxCleanupPause :: opensandbox_cleanup_mode where "OpenSandboxCleanupPause \<equiv> ''pause''"
abbreviation OpenSandboxCleanupKeep :: opensandbox_cleanup_mode where "OpenSandboxCleanupKeep \<equiv> ''keep''"
abbreviation OpenSandboxCleanupPauseElseKeep :: opensandbox_cleanup_mode where "OpenSandboxCleanupPauseElseKeep \<equiv> ''pause_if_supported_else_keep''"

section \<open>Structs\<close>

text \<open>The values of a probe's \<open>Details map[string]any\<close>, by their Go type.\<close>

datatype detail_value = DetailString string | DetailStrings "string list" | DetailBool bool | DetailInt int

type_synonym details = "(string \<times> detail_value) list"

record run_section =
  rs_service_name :: string
  rs_mode :: string
  rs_run_id :: string
  rs_attempt :: int
  rs_sandbox_id :: string
  rs_workspace_dir :: string
  rs_artifact_dir :: string
  rs_otlp_endpoint :: string
  rs_deployment_environment :: string
  rs_command :: "string list"
  rs_language :: string
  rs_workspace_id :: string
  rs_patch_id :: string
  rs_test_case_id :: string
  rs_image :: string
  rs_image_pull_policy :: string
  rs_extra_env :: env

record phase_config =
  pc_enabled :: bool
  pc_timeout_sec :: int
  pc_network_profile :: string
  pc_smoke_command :: "string list"
  pc_expected_artifacts :: "string list"

record phases_config =
  phs_prepare :: phase_config
  phs_setup :: phase_config
  phs_execute :: phase_config
  phs_verify :: phase_config
  phs_collect :: phase_config

record telemetry_config =
  tel_traces :: bool
  tel_logs :: bool
  tel_metrics :: bool
  tel_log_line_max_bytes :: int
  tel_emit_stdout_events :: bool
  tel_emit_stderr_events :: bool

record collector_config =
  col_mode :: collector_mode
  col_healthcheck_timeout_ms :: int
  col_local_collector_command :: "string list"
  col_local_collector_config :: string

record artifacts_config =
  arc_upload :: bool
  arc_object_prefix :: string
  arc_backend :: artifact_backend
  arc_bucket :: string
  arc_endpoint :: string
  arc_region :: string
  arc_force_path_style :: bool

record feature_set =
  fs_go_basic_runner :: bool
  fs_go_manual_sdk :: bool
  fs_go_autosdk_bridge :: bool
  fs_obi_ebpf :: bool
  fs_k8s_operator_go_inject :: bool
  fs_local_docker_mode :: bool
  fs_local_direct_mode :: bool
  fs_stg_linux_mode :: bool
  fs_local_apple_container_mode :: bool
  fs_local_orbstack_machine_mode :: bool

record platform_config =
  plat_target_os :: string
  plat_target_arch :: string
  plat_run_mode :: run_mode
  plat_container_execution_mode :: container_execution_mode
  plat_feature_gates :: feature_set

record execution_config =
  ex_backend :: execution_backend
  ex_provider :: provider_kind
  ex_runtime_profile :: execution_runtime_profile

record backend_config =
  bk_kind :: backend_kind

record runtime_config =
  rt_profile :: runtime_profile
  rt_class_name :: string

record kata_config =
  kata_enabled :: bool
  kata_runtime_class_name :: string
  kata_containerd_runtime :: string
  kata_require_hardware_virtualization :: bool
  kata_fail_if_unavailable :: bool

record devcontainer_config =
  dc_cli_path :: string
  dc_workspace_folder :: string
  dc_config_path :: string
  dc_mount_workspace_git_root :: bool
  dc_remove_existing_container :: bool
  dc_skip_post_create :: bool
  dc_run_user_commands :: bool
  dc_up_timeout_sec :: int
  dc_exec_timeout_sec :: int
  dc_id_label_prefix :: string
  dc_log_level :: string
  dc_cleanup_mode :: string

record docker_config =
  dk_provider :: docker_provider
  dk_binary :: string
  dk_compose_binary :: string
  dk_context :: string

record k8s_config =
  k8_provider :: k8s_provider
  k8_kubeconfig :: string
  k8_context :: string
  k8_namespace :: string
  k8_service_account_name :: string

record apple_container_config =
  apc_enabled :: bool
  apc_binary :: string
  apc_workspace_root :: string
  apc_image :: string
  apc_create_timeout_sec :: int
  apc_exec_timeout_sec :: int
  apc_cleanup_mode :: string
  apc_upload_strategy :: string
  apc_download_strategy :: string

record orbstack_config =
  orb_enabled :: bool
  orb_orb_binary :: string
  orb_orbctl_binary :: string
  orb_docker_provider_enabled :: bool
  orb_machine_enabled :: bool
  orb_machine_name :: string
  orb_machine_auto_create :: bool
  orb_machine_distro :: string
  orb_machine_workspace_root :: string
  orb_machine_cleanup_mode :: string
  orb_upload_strategy :: string
  orb_download_strategy :: string
  orb_k8s_provider_enabled :: bool
  orb_docker_context :: string
  orb_kube_context :: string

record opensandbox_config =
  osb_base_url :: string
  osb_api_key :: string
  osb_runtime :: opensandbox_runtime
  osb_network_mode :: string
  osb_create_timeout_sec :: int
  osb_poll_interval_ms :: int
  osb_cleanup_mode :: opensandbox_cleanup_mode
  osb_ttl_sec :: int
  osb_renew_on_long_run :: bool
  osb_workspace_root :: string
  osb_upload_strategy :: string
  osb_download_strategy :: string

record sandbox_config =
  sb_image :: string
  sb_entrypoint :: "string list"
  sb_env :: env
  sb_cpu :: string
  sb_memory :: string

record provider_config =
  pv_prefer_opensandbox :: bool
  pv_require_capabilities :: "string list"
  pv_fallback_order :: "string list"
  pv_mac_local_preferred :: "string list"

record go_config =
  gc_classify_commands :: bool
  gc_detect_go_env :: bool
  gc_manual_sdk_helper_enabled :: bool
  gc_autosdk_bridge_enabled :: bool
  gc_obi_enabled :: bool
  gc_obi_config_path :: string
  gc_extra_env :: env

record run_config =
  cfg_run :: run_section
  cfg_phases :: phases_config
  cfg_telemetry :: telemetry_config
  cfg_collector :: collector_config
  cfg_artifacts :: artifacts_config
  cfg_platform :: platform_config
  cfg_execution :: execution_config
  cfg_backend :: backend_config
  cfg_runtime :: runtime_config
  cfg_kata :: kata_config
  cfg_devcontainer :: devcontainer_config
  cfg_docker :: docker_config
  cfg_k8s :: k8s_config
  cfg_apple_container :: apple_container_config
  cfg_orbstack :: orbstack_config
  cfg_opensandbox :: opensandbox_config
  cfg_sandbox :: sandbox_config
  cfg_provider :: provider_config
  cfg_go :: go_config
  cfg_metadata :: env

record filesystem_policy =
  fsp_read_allow :: "string list"
  fsp_write_allow :: "string list"
  fsp_deny :: "string list"

record network_profile =
  np_allow_domains :: "string list"

record tools_policy =
  tp_allow :: "string list"
  tp_deny_patterns :: "string list"

record secret_binding =
  bind_name :: string
  bind_phase_allow :: "phase list"

record secrets_policy =
  sp_inject_env :: "secret_binding list"
  sp_deny_export_to_logs :: bool

record resources_policy =
  rp_timeout_sec_default :: int
  rp_max_memory_mb :: int
  rp_max_log_bytes :: int
  rp_max_artifact_bytes :: int

record policy_config =
  pol_filesystem :: filesystem_policy
  pol_network_profiles :: "(string \<times> network_profile) list"
  pol_tools :: tools_policy
  pol_secrets :: secrets_policy
  pol_resources :: resources_policy

record execution_target =
  tg_os :: string
  tg_arch :: string
  tg_mode :: run_mode
  tg_backend_kind :: string
  tg_provider_name :: string
  tg_backend_provider :: string
  tg_runtime_profile :: string
  tg_runtime_class_name :: string
  tg_runtime_kind :: string
  tg_virtualization :: string
  tg_local_platform :: string
  tg_machine_name :: string
  tg_network_mode :: string
  tg_container_id :: string
  tg_container_image :: string
  tg_image_digest :: string
  tg_capabilities :: "string list"
  tg_in_container :: bool
  tg_in_kubernetes :: bool
  tg_docker_available :: bool
  tg_execution :: execution_config
  tg_compatibility_level :: support_level

record version_info =
  vi_version :: string
  vi_git_sha :: string
  vi_build_time :: string
  vi_target_os :: string
  vi_target_arch :: string

record run_request =
  rq_config_path :: string
  rq_policy_path :: string
  rq_artifact_dir :: string
  rq_command :: "string list"
  rq_run_config :: run_config
  rq_policy :: policy_config
  rq_target :: execution_target
  rq_version :: version_info

record compatibility_result =
  cr_level :: support_level
  cr_matched_rule :: string
  cr_message :: string

record capability_probe_result =
  pr_ok :: bool
  pr_details :: details
  pr_warnings :: "string list"
  pr_errors :: "string list"

record execution_resolution =
  er_config :: execution_config
  er_compatibility :: compatibility_result
  er_capability :: capability_probe_result

record backend_capabilities =
  caps_supports_pause_resume :: bool
  caps_supports_ttl :: bool
  caps_supports_file_upload :: bool
  caps_supports_file_download :: bool
  caps_supports_background_exec :: bool
  caps_supports_stream_logs :: bool
  caps_supports_endpoints :: bool
  caps_supports_bridge_network :: bool
  caps_supports_host_network :: bool
  caps_supports_code_interp :: bool
  caps_supports_runtime_profile :: bool
  caps_supports_devcontainer :: bool
  caps_supports_port_mapping :: bool
  caps_supports_machine_exec :: bool
  caps_supports_oci_image :: bool
  caps_supports_vm_isolation :: bool
  caps_supports_k8s_target :: bool

record backend_snapshot =
  bs_kind :: string
  bs_provider :: string
  bs_backend_provider :: string
  bs_runtime :: string
  bs_runtime_profile :: string
  bs_runtime_class_name :: string
  bs_virtualization :: string
  bs_local_platform :: string
  bs_server_url :: string
  bs_capabilities :: backend_capabilities

record runtime_artifact =
  ra_backend_kind :: string
  ra_provider_name :: string
  ra_backend_provider :: string
  ra_runtime_profile :: string
  ra_runtime_class_name :: string
  ra_container_runtime :: string
  ra_virtualization :: string
  ra_host_os :: string
  ra_host_arch :: string
  ra_local_platform :: string
  ra_machine_name :: string
  ra_container_id :: string
  ra_available :: bool
  ra_checked_by :: string
  ra_detail :: string

text \<open>The values the program puts into a \<open>map[string]any\<close> of a result, by their Go type.\<close>

datatype meta_value =
    MetaStrings "string list" | MetaString string | MetaInt int
  | MetaExecution execution_config | MetaCompatibility compatibility_result
  | MetaProbe capability_probe_result | MetaBackend backend_snapshot
  | MetaRuntime runtime_artifact | MetaTarget execution_target

type_synonym metadata = "(string \<times> meta_value) list"

record phase_result =
  phr_phase :: phase
  phr_status :: run_status
  phr_backend_action :: string
  phr_duration_ms :: int
  phr_error_code :: error_code
  phr_error_message :: string
  phr_command_class :: string
  phr_exit_code :: int
  phr_timed_out :: bool
  phr_signal :: string
  phr_metadata :: metadata

record artifact_ref =
  ar_name :: string
  ar_path :: string
  ar_uri :: string
  ar_size_bytes :: int
  ar_skipped :: bool
  ar_reason :: string

record run_result =
  rr_run_id :: string
  rr_attempt :: int
  rr_status :: run_status
  rr_phase :: phase
  rr_backend_kind :: string
  rr_provider_name :: string
  rr_backend_provider :: string
  rr_runtime_profile :: string
  rr_runtime_class_name :: string
  rr_machine_name :: string
  rr_sandbox_image :: string
  rr_command_class :: string
  rr_exit_code :: int
  rr_signal :: string
  rr_timed_out :: bool
  rr_duration_ms :: int
  rr_error_code :: error_code
  rr_error_message :: string
  rr_phase_results :: "phase_result list"
  rr_artifacts :: "artifact_ref list"
  rr_metadata :: metadata

record run_event =
  ev_name :: string
  ev_phase :: phase
  ev_command_class :: string
  ev_attributes :: env

record structured_log =
  log_run_id :: string
  log_attempt :: int
  log_phase :: phase
  log_command_class :: string
  log_command_id :: string
  log_provider :: string
  log_exec_provider_id :: string
  log_stream :: string
  log_line_no :: int
  log_line :: string
  log_attributes :: env

record metric_point =
  mp_name :: string
  mp_kind :: string
  mp_value :: int
  mp_attributes :: env

record setup_step =
  step_id :: string
  step_cmd :: "string list"
  step_note :: string

record setup_plan =
  plan_project_type :: string
  plan_runtime :: string
  plan_lockfiles :: "string list"
  plan_steps :: "setup_step list"

record runtime_info =
  ri_name :: string
  ri_version :: string
  ri_provider_kind :: string
  ri_backend_provider :: string
  ri_runtime_profile :: string
  ri_runtime_class_name :: string
  ri_container_runtime :: string
  ri_host_os :: string
  ri_host_arch :: string
  ri_virtualization :: string
  ri_local_platform :: string
  ri_machine_name :: string
  ri_container_id :: string
  ri_available :: bool
  ri_checked_by :: string
  ri_detail :: string

record environment_fingerprint =
  fp_os :: string
  fp_arch :: string
  fp_runtime :: runtime_info
  fp_package_manager :: runtime_info
  fp_git_sha :: string
  fp_workspace_hash :: string
  fp_lockfile_hashes :: env
  fp_go_env :: env

record endpoint =
  ep_name :: string
  ep_container_port :: int
  ep_url :: string
  ep_headers :: env

record sandbox_snapshot =
  ss_id :: string
  ss_status :: string
  ss_network_mode :: string
  ss_runtime_profile :: string
  ss_runtime_class_name :: string
  ss_virtualization :: string
  ss_machine_name :: string
  ss_metadata :: env

record context_artifact =
  ca_run_id :: string
  ca_attempt :: int
  ca_sandbox_id :: string
  ca_workspace_id :: string
  ca_mode :: string
  ca_service_name :: string
  ca_git_sha :: string
  ca_image_digest :: string
  ca_original_command :: "string list"
  ca_otlp_endpoint :: string
  ca_execution :: execution_config
  ca_compatibility :: compatibility_result
  ca_capability_probe :: capability_probe_result
  ca_target :: execution_target
  ca_feature_gates :: feature_set
  ca_backend :: "backend_snapshot option"
  ca_sandbox :: "sandbox_snapshot option"

record replay_manifest =
  rm_run_id :: string
  rm_environment_fingerprint_ref :: string
  rm_setup_plan_ref :: string
  rm_commands_ref :: string
  rm_expected_outputs :: "string list"
  rm_notes :: "string list"

record artifact_index =
  ai_schema_version :: int
  ai_run_id :: string
  ai_attempt :: int
  ai_status :: run_status
  ai_phase :: phase
  ai_exit_code :: int
  ai_command_class :: string
  ai_execution :: execution_config
  ai_compatibility_level :: support_level
  ai_suggested_read_order :: "string list"
  ai_files :: env
  ai_artifacts :: "artifact_ref list"

record devcontainer_artifact =
  da_cli_path :: string
  da_config_path :: string
  da_container_id :: string
  da_workspace_folder :: string
  da_has_post_create :: bool
  da_has_post_start :: bool
  da_features :: "string list"
  da_local_workspace_path :: string

record provider_artifact =
  pa_backend_kind :: string
  pa_provider_name :: string
  pa_backend_provider :: string
  pa_runtime :: string
  pa_runtime_profile :: string
  pa_runtime_class_name :: string
  pa_local_platform :: string
  pa_server :: string
  pa_supports_ttl :: bool
  pa_supports_pause_resume :: bool
  pa_supports_file_upload :: bool
  pa_supports_stream_logs :: bool
  pa_devcontainer :: "devcontainer_artifact option"

record sandbox_artifact =
  sa_sandbox_id :: string
  sa_status :: string
  sa_network_mode :: string
  sa_runtime_profile :: string
  sa_runtime_class_name :: string
  sa_virtualization :: string
  sa_machine_name :: string
  sa_metadata :: env

record endpoints_artifact =
  ea_ports :: "endpoint list"

record backend_profile_artifact =
  bpa_backend_kind :: string
  bpa_backend_provider :: string
  bpa_runtime_profile :: string
  bpa_local_platform :: string

record machine_artifact =
  ma_machine_name :: string
  ma_status :: string
  ma_distro :: string

record container_artifact =
  cta_container_id :: string
  cta_image :: string
  cta_status :: string

section \<open>Errors\<close>

text \<open>
  A Go \<open>error\<close> is one of the values the program builds. \<open>WrapError pre e\<close> is
  \<open>fmt.Errorf(pre + "%w", e)\<close>; only it has an \<open>Unwrap\<close> method, so \<open>errors.As\<close> and \<open>errors.Is\<close>
  look through it alone. A \<open>RunnerError\<close> keeps its cause but does not unwrap to it.
\<close>

datatype go_error =
    ErrorText string
  | RunnerError (re_code: string) (re_message: string) (re_retryable: bool) (re_phase: string)
      (re_backend_kind: string) (re_provider_code: string) (re_cause: "go_error option")
  | PolicyError (pe_code: error_code) (pe_message: string)
  | ProviderError (pve_status_code: int) (pve_code: string) (pve_message: string) (pve_retryable: bool)
  | ExitError int
  | WrapError string go_error
  | DeadlineExceeded
  | Canceled

fun error_string :: "go_error \<Rightarrow> string" where
  "error_string (ErrorText s) = s"
| "error_string (RunnerError code msg r p b pc cause) =
     (if msg \<noteq> [] then msg
      else (case cause of Some e \<Rightarrow> error_string e | None \<Rightarrow> code))"
| "error_string (PolicyError code msg) = msg"
| "error_string (ProviderError sc code msg r) =
     (if code \<noteq> [] then code @ '': '' @ msg else msg)"
| "error_string (ExitError n) = ''exit status '' @ itoa n"
| "error_string (WrapError pre e) = pre @ error_string e"
| "error_string DeadlineExceeded = ''context deadline exceeded''"
| "error_string Canceled = ''context canceled''"

text \<open>\<open>errors.As(err, &runnerErr)\<close> and \<open>errors.Is(err, context.DeadlineExceeded)\<close>.\<close>

fun as_runner_error :: "go_error \<Rightarrow> go_error option" where
  "as_runner_error (WrapError pre e) = as_runner_error e"
| "as_runner_error (RunnerError a b c d e f g) = Some (RunnerError a b c d e f g)"
| "as_runner_error e = None"

fun is_deadline :: "go_error \<Rightarrow> bool" where
  "is_deadline (WrapError pre e) = is_deadline e"
| "is_deadline e = (e = DeadlineExceeded)"

section \<open>Provider and runtime helpers\<close>

definition ExecutionProviderForK8sProvider :: "k8s_provider \<Rightarrow> provider_kind" where
  "ExecutionProviderForK8sProvider provider =
     (if provider = K8sProviderOrbStackLocal then ProviderOrbStack
      else if provider = K8sProviderMinikube then ProviderMinikube
      else if provider = K8sProviderK3s then ProviderK3s
      else if provider = K8sProviderMicroK8s then ProviderMicroK8s
      else ProviderNative)"

definition LegacyK8sProviderForExecutionProvider :: "provider_kind \<Rightarrow> k8s_provider" where
  "LegacyK8sProviderForExecutionProvider provider =
     (if provider = ProviderOrbStack then K8sProviderOrbStackLocal
      else if provider = ProviderMinikube then K8sProviderMinikube
      else if provider = ProviderK3s then K8sProviderK3s
      else if provider = ProviderMicroK8s then K8sProviderMicroK8s
      else K8sProviderRemote)"

definition DefaultK8sContext :: "k8s_provider \<Rightarrow> string" where
  "DefaultK8sContext provider =
     (if provider = K8sProviderOrbStackLocal then ''orbstack''
      else if provider = K8sProviderMinikube then ''minikube'' else [])"

definition K8sLocalPlatform :: "k8s_provider \<Rightarrow> string" where
  "K8sLocalPlatform provider = (if provider = K8sProviderOrbStackLocal then ''orbstack'' else [])"

abbreviation runtimeProfileAliasMicroVM :: string where
  "runtimeProfileAliasMicroVM \<equiv> ''microvm''"

definition NormalizeExecutionRuntimeProfile :: "execution_runtime_profile \<Rightarrow> execution_runtime_profile" where
  "NormalizeExecutionRuntimeProfile profile =
     (let p = to_lower (trim_space profile) in
      if p = [] then []
      else if p = ExecutionRuntimeProfileDefault then ExecutionRuntimeProfileDefault
      else if p = ExecutionRuntimeProfileKata then ExecutionRuntimeProfileKata
      else if p = ExecutionRuntimeProfileGVisor then ExecutionRuntimeProfileGVisor
      else if p = ExecutionRuntimeProfileFirecracker \<or> p = runtimeProfileAliasMicroVM
        then ExecutionRuntimeProfileFirecracker
      else profile)"

definition NormalizeRuntimeProfile :: "runtime_profile \<Rightarrow> runtime_profile" where
  "NormalizeRuntimeProfile profile =
     (let p = to_lower (trim_space profile) in
      if p = [] then []
      else if p = RuntimeProfileDefault then RuntimeProfileDefault
      else if p = RuntimeProfileNative then RuntimeProfileNative
      else if p = RuntimeProfileKata then RuntimeProfileKata
      else if p = RuntimeProfileGVisor then RuntimeProfileGVisor
      else if p = RuntimeProfileFirecracker \<or> p = runtimeProfileAliasMicroVM
        then RuntimeProfileFirecracker
      else if p = RuntimeProfileAppleContainer then RuntimeProfileAppleContainer
      else if p = RuntimeProfileOrbStackDocker then RuntimeProfileOrbStackDocker
      else if p = RuntimeProfileOrbStackK8s then RuntimeProfileOrbStackK8s
      else if p = RuntimeProfileOrbStackMachine then RuntimeProfileOrbStackMachine
      else profile)"

definition RequiresRuntimeClass :: "execution_runtime_profile \<Rightarrow> bool" where
  "RequiresRuntimeClass profile \<longleftrightarrow>
     NormalizeExecutionRuntimeProfile profile
       \<in> {ExecutionRuntimeProfileKata, ExecutionRuntimeProfileGVisor, ExecutionRuntimeProfileFirecracker}"

definition ExecutionRuntimeProfileForConfig :: "run_config \<Rightarrow> execution_runtime_profile" where
  "ExecutionRuntimeProfileForConfig cfg =
     (let normalized = NormalizeExecutionRuntimeProfile (ex_runtime_profile (cfg_execution cfg)) in
      if normalized \<noteq> [] then normalized
      else (let p = NormalizeRuntimeProfile (rt_profile (cfg_runtime cfg)) in
        if p = RuntimeProfileKata then ExecutionRuntimeProfileKata
        else if p = RuntimeProfileGVisor then ExecutionRuntimeProfileGVisor
        else if p = RuntimeProfileFirecracker then ExecutionRuntimeProfileFirecracker
        else ExecutionRuntimeProfileDefault))"

definition RuntimeClassNameForConfig :: "run_config \<Rightarrow> string" where
  "RuntimeClassNameForConfig cfg =
     (let value = trim_space (rt_class_name (cfg_runtime cfg)) in
      if value \<noteq> [] then value
      else (let value = trim_space (kata_runtime_class_name (cfg_kata cfg)) in
        if value \<noteq> [] \<and> RequiresRuntimeClass (ExecutionRuntimeProfileForConfig cfg) then value
        else []))"

definition VirtualizationForRuntimeProfile :: "runtime_profile \<Rightarrow> string" where
  "VirtualizationForRuntimeProfile profile =
     (let p = NormalizeRuntimeProfile profile in
      if p = RuntimeProfileKata then ''kata''
      else if p = RuntimeProfileGVisor then ''gvisor''
      else if p = RuntimeProfileFirecracker then ''firecracker''
      else ''none'')"

end
