(* ===== verification/Compat.thy ===== *)
theory Compat
  imports Model_Types "HOL-Library.Multiset"
begin

text \<open>
  \<open>internal/compat\<close>: the table of supported execution combinations and its lookup. A run is
  described by a triple of execution backend, provider and runtime profile; \<open>AllowedRules\<close> lists
  the triples the program accepts and \<open>ValidateCompatibility\<close> finds the first rule that equals the
  triple, or reports it unsupported together with the rules of the same backend. The lemmas show that
  the first match is the only one, so the order of the table is immaterial, and that a combination
  is conditional exactly when it leaves the default runtime profile.
\<close>

record compatibility_rule =
  rule_backend :: execution_backend
  rule_provider :: provider_kind
  rule_runtime_profile :: execution_runtime_profile
  rule_level :: support_level
  rule_message :: string

abbreviation mk_rule where
  "mk_rule b p r l m \<equiv>
     \<lparr>rule_backend = b, rule_provider = p, rule_runtime_profile = r, rule_level = l, rule_message = m\<rparr>"

definition AllowedRules :: "compatibility_rule list" where
  "AllowedRules = [
    mk_rule ExecutionBackendDirect ProviderNative ExecutionRuntimeProfileDefault
      SupportSupported ''local direct process execution'',
    mk_rule ExecutionBackendDocker ProviderNative ExecutionRuntimeProfileDefault
      SupportSupported ''standard Docker'',
    mk_rule ExecutionBackendDocker ProviderOrbStack ExecutionRuntimeProfileDefault
      SupportSupported ''OrbStack Docker engine'',
    mk_rule ExecutionBackendDocker ProviderDockerDesktop ExecutionRuntimeProfileDefault
      SupportSupported ''Docker Desktop'',
    mk_rule ExecutionBackendDocker ProviderColima ExecutionRuntimeProfileDefault
      SupportSupported ''Colima'',
    mk_rule ExecutionBackendK8s ProviderNative ExecutionRuntimeProfileDefault
      SupportSupported ''existing Kubernetes cluster'',
    mk_rule ExecutionBackendK8s ProviderNative ExecutionRuntimeProfileKata
      SupportConditional ''requires cluster runtime support'',
    mk_rule ExecutionBackendK8s ProviderNative ExecutionRuntimeProfileGVisor
      SupportConditional ''requires cluster runtime support'',
    mk_rule ExecutionBackendK8s ProviderNative ExecutionRuntimeProfileFirecracker
      SupportConditional ''requires cluster runtime support'',
    mk_rule ExecutionBackendK8s ProviderOrbStack ExecutionRuntimeProfileDefault
      SupportSupported ''OrbStack local Kubernetes'',
    mk_rule ExecutionBackendK8s ProviderKindKind ExecutionRuntimeProfileDefault
      SupportSupported ''kind local cluster'',
    mk_rule ExecutionBackendK8s ProviderMinikube ExecutionRuntimeProfileDefault
      SupportSupported ''minikube local cluster'',
    mk_rule ExecutionBackendK8s ProviderMinikube ExecutionRuntimeProfileKata
      SupportConditional ''requires cluster runtime support'',
    mk_rule ExecutionBackendK8s ProviderMinikube ExecutionRuntimeProfileGVisor
      SupportConditional ''requires cluster runtime support'',
    mk_rule ExecutionBackendK8s ProviderMinikube ExecutionRuntimeProfileFirecracker
      SupportConditional ''requires cluster runtime support'',
    mk_rule ExecutionBackendK8s ProviderK3s ExecutionRuntimeProfileDefault
      SupportSupported ''k3s cluster'',
    mk_rule ExecutionBackendK8s ProviderK3s ExecutionRuntimeProfileKata
      SupportConditional ''requires cluster runtime support'',
    mk_rule ExecutionBackendK8s ProviderK3s ExecutionRuntimeProfileGVisor
      SupportConditional ''requires cluster runtime support'',
    mk_rule ExecutionBackendK8s ProviderK3s ExecutionRuntimeProfileFirecracker
      SupportConditional ''requires cluster runtime support'',
    mk_rule ExecutionBackendK8s ProviderMicroK8s ExecutionRuntimeProfileDefault
      SupportSupported ''microk8s cluster'',
    mk_rule ExecutionBackendK8s ProviderMicroK8s ExecutionRuntimeProfileKata
      SupportConditional ''requires cluster runtime support'',
    mk_rule ExecutionBackendK8s ProviderMicroK8s ExecutionRuntimeProfileGVisor
      SupportConditional ''requires cluster runtime support'',
    mk_rule ExecutionBackendK8s ProviderMicroK8s ExecutionRuntimeProfileFirecracker
      SupportConditional ''requires cluster runtime support'',
    mk_rule ExecutionBackendK8s ProviderDockerDesktop ExecutionRuntimeProfileDefault
      SupportSupported ''Docker Desktop Kubernetes'',
    mk_rule ExecutionBackendK8s ProviderGKE ExecutionRuntimeProfileDefault
      SupportSupported ''GKE'',
    mk_rule ExecutionBackendK8s ProviderGKE ExecutionRuntimeProfileKata
      SupportConditional ''requires runtimeClass or sandbox support'',
    mk_rule ExecutionBackendK8s ProviderGKE ExecutionRuntimeProfileGVisor
      SupportConditional ''requires GKE Sandbox or gVisor support'',
    mk_rule ExecutionBackendK8s ProviderEKS ExecutionRuntimeProfileDefault
      SupportSupported ''EKS'',
    mk_rule ExecutionBackendK8s ProviderEKS ExecutionRuntimeProfileKata
      SupportConditional ''requires cluster runtime support'',
    mk_rule ExecutionBackendK8s ProviderAKS ExecutionRuntimeProfileDefault
      SupportSupported ''AKS'',
    mk_rule ExecutionBackendOpenSandbox ProviderOpenSandbox ExecutionRuntimeProfileDefault
      SupportSupported ''standard OpenSandbox mode'',
    mk_rule ExecutionBackendOpenSandbox ProviderOpenSandbox ExecutionRuntimeProfileKata
      SupportConditional ''depends on provider runtime support'',
    mk_rule ExecutionBackendOpenSandbox ProviderOpenSandbox ExecutionRuntimeProfileGVisor
      SupportConditional ''depends on provider runtime support'',
    mk_rule ExecutionBackendOpenSandbox ProviderOpenSandbox ExecutionRuntimeProfileFirecracker
      SupportConditional ''depends on provider runtime support'',
    mk_rule ExecutionBackendDevContainer ProviderNative ExecutionRuntimeProfileDefault
      SupportSupported ''devcontainer CLI'',
    mk_rule ExecutionBackendAppleContainer ProviderNative ExecutionRuntimeProfileDefault
      SupportSupported ''Apple container CLI'',
    mk_rule ExecutionBackendMachine ProviderOrbStack ExecutionRuntimeProfileDefault
      SupportSupported ''OrbStack Linux machine'']"

definition formatRule :: "execution_backend \<Rightarrow> provider_kind \<Rightarrow> execution_runtime_profile \<Rightarrow> string" where
  "formatRule backend provider runtime = backend @ ''/'' @ provider @ ''/'' @ runtime"

definition rule_matches :: "execution_config \<Rightarrow> compatibility_rule \<Rightarrow> bool" where
  "rule_matches cfg rule \<longleftrightarrow>
     rule_backend rule = ex_backend cfg \<and> rule_provider rule = ex_provider cfg \<and>
     rule_runtime_profile rule = ex_runtime_profile cfg"

definition format_rule_of :: "compatibility_rule \<Rightarrow> string" where
  "format_rule_of rule =
     formatRule (rule_backend rule) (rule_provider rule) (rule_runtime_profile rule)"

definition recommendations :: "compatibility_rule list \<Rightarrow> execution_config \<Rightarrow> string list" where
  "recommendations rules cfg =
     map format_rule_of (filter (\<lambda>rule. rule_backend rule = ex_backend cfg) rules)"

definition unsupported_message :: "compatibility_rule list \<Rightarrow> execution_config \<Rightarrow> string" where
  "unsupported_message rules cfg =
     ''unsupported execution combo: backend='' @ ex_backend cfg @ '' provider='' @ ex_provider cfg
       @ '' runtime_profile='' @ ex_runtime_profile cfg
     @ (let recs = recommendations rules cfg
        in if recs \<noteq> [] then ''; supported combinations: '' @ join '', '' recs else [])"

text \<open>The lookup over an arbitrary table; the program runs it on \<open>AllowedRules\<close>.\<close>

definition validate_with :: "compatibility_rule list \<Rightarrow> execution_config \<Rightarrow> compatibility_result" where
  "validate_with rules cfg =
     (case find (rule_matches cfg) rules of
        Some rule \<Rightarrow>
          \<lparr>cr_level = rule_level rule, cr_matched_rule = format_rule_of rule,
           cr_message = rule_message rule\<rparr>
      | None \<Rightarrow>
          \<lparr>cr_level = SupportUnsupported, cr_matched_rule = [],
           cr_message = unsupported_message rules cfg\<rparr>)"

definition ValidateCompatibility :: "execution_config \<Rightarrow> compatibility_result" where
  "ValidateCompatibility cfg = validate_with AllowedRules cfg"

section \<open>The table\<close>

definition rule_triple :: "compatibility_rule \<Rightarrow> string \<times> string \<times> string" where
  "rule_triple rule = (rule_backend rule, rule_provider rule, rule_runtime_profile rule)"

definition config_triple :: "execution_config \<Rightarrow> string \<times> string \<times> string" where
  "config_triple cfg = (ex_backend cfg, ex_provider cfg, ex_runtime_profile cfg)"

lemma rule_matches_triple: "rule_matches cfg rule \<longleftrightarrow> rule_triple rule = config_triple cfg"
  by (simp add: rule_matches_def rule_triple_def config_triple_def)

lemma allowed_triples_distinct: "distinct (map rule_triple AllowedRules)"
  by (simp add: AllowedRules_def rule_triple_def)

lemma allowed_levels:
  "rule \<in> set AllowedRules \<Longrightarrow>
     rule_level rule = (if rule_runtime_profile rule = ExecutionRuntimeProfileDefault
                        then SupportSupported else SupportConditional)"
  by (auto simp: AllowedRules_def)

lemma find_unique:
  assumes "distinct (map f xs)" "x \<in> set xs" "\<And>y. P y \<longleftrightarrow> f y = f x"
  shows "find P xs = Some x"
  using assms(1,2)
proof (induction xs)
  case (Cons a xs)
  show ?case
  proof (cases "f a = f x")
    case True
    with Cons.prems have "a = x" by (auto simp: image_iff)
    then show ?thesis by (simp add: assms(3))
  next
    case False
    with Cons show ?thesis by (auto simp: assms(3))
  qed
qed simp

lemma find_rule_iff:
  assumes "distinct (map rule_triple rules)"
  shows "find (rule_matches cfg) rules = Some rule \<longleftrightarrow> rule \<in> set rules \<and> rule_matches cfg rule"
proof
  assume "find (rule_matches cfg) rules = Some rule"
  then show "rule \<in> set rules \<and> rule_matches cfg rule" by (auto simp: find_Some_iff)
next
  assume "rule \<in> set rules \<and> rule_matches cfg rule"
  then show "find (rule_matches cfg) rules = Some rule"
    by (intro find_unique [where f = rule_triple] assms) (auto simp: rule_matches_triple)
qed

lemma validate_with_Some:
  "find (rule_matches cfg) rules = Some rule \<Longrightarrow>
     validate_with rules cfg =
       \<lparr>cr_level = rule_level rule, cr_matched_rule = format_rule_of rule, cr_message = rule_message rule\<rparr>"
  by (simp add: validate_with_def)

lemma ValidateCompatibility_level:
  "cr_level (ValidateCompatibility cfg) =
     (case find (rule_matches cfg) AllowedRules of Some rule \<Rightarrow> rule_level rule | None \<Rightarrow> SupportUnsupported)"
  by (simp add: ValidateCompatibility_def validate_with_def split: option.splits)

lemma unsupported_iff:
  "cr_level (ValidateCompatibility cfg) = SupportUnsupported \<longleftrightarrow>
     config_triple cfg \<notin> set (map rule_triple AllowedRules)"
proof (cases "find (rule_matches cfg) AllowedRules")
  case None
  moreover from None have "config_triple cfg \<notin> set (map rule_triple AllowedRules)"
    by (auto simp: find_None_iff rule_matches_triple)
  ultimately show ?thesis by (simp add: ValidateCompatibility_level)
next
  case (Some rule)
  then have "rule \<in> set AllowedRules" "rule_triple rule = config_triple cfg"
    by (auto simp: find_Some_iff rule_matches_triple)
  then have "config_triple cfg \<in> set (map rule_triple AllowedRules)"
    by (metis image_eqI list.set_map)
  moreover from \<open>rule \<in> set AllowedRules\<close> have "rule_level rule \<noteq> SupportUnsupported"
    by (simp add: allowed_levels)
  ultimately show ?thesis using Some by (simp add: ValidateCompatibility_level)
qed

lemma conditional_default:
  assumes "config_triple cfg \<in> set (map rule_triple AllowedRules)"
  shows "cr_level (ValidateCompatibility cfg) =
           (if ex_runtime_profile cfg = ExecutionRuntimeProfileDefault
            then SupportSupported else SupportConditional)"
proof -
  from assms obtain rule where rule: "rule \<in> set AllowedRules" "rule_matches cfg rule"
    by (auto simp: rule_matches_triple)
  then have "find (rule_matches cfg) AllowedRules = Some rule"
    using find_rule_iff [OF allowed_triples_distinct] by blast
  with rule show ?thesis
    by (simp add: ValidateCompatibility_level allowed_levels rule_matches_def)
qed

section \<open>Properties\<close>

text \<open>
  The compatibility check is a function of the triple alone and accepts exactly the triples of
  the table: it answers supported for a listed triple with the default runtime profile,
  conditional for a listed triple with another profile, and unsupported for every other triple.
\<close>

theorem compatibility_level:
  "cr_level (ValidateCompatibility cfg) =
     (if config_triple cfg \<in> set (map rule_triple AllowedRules)
      then (if ex_runtime_profile cfg = ExecutionRuntimeProfileDefault
            then SupportSupported else SupportConditional)
      else SupportUnsupported)"
  using unsupported_iff [of cfg] conditional_default [of cfg] by auto

text \<open>
  The order of the table is immaterial: any rearrangement of its rules gives every combination
  the same level, the same matched rule and, when it is supported, the same message.
\<close>

theorem table_order_immaterial:
  assumes "mset rules = mset AllowedRules"
  shows "cr_level (validate_with rules cfg) = cr_level (ValidateCompatibility cfg)
    \<and> cr_matched_rule (validate_with rules cfg) = cr_matched_rule (ValidateCompatibility cfg)"
proof -
  from assms have eq: "set rules = set AllowedRules" by (rule mset_eq_setD)
  from assms have "mset (map rule_triple rules) = mset (map rule_triple AllowedRules)" by simp
  then have dist: "distinct (map rule_triple rules)"
    using allowed_triples_distinct mset_eq_imp_distinct_iff by blast
  have "find (rule_matches cfg) rules = find (rule_matches cfg) AllowedRules"
    using find_rule_iff [OF dist, of cfg] find_rule_iff [OF allowed_triples_distinct, of cfg] eq
    by (metis option.exhaust)
  then show ?thesis by (simp add: ValidateCompatibility_def validate_with_def split: option.splits)
qed

theorem table_order_immaterial_witness:
  "cr_level (validate_with (rev AllowedRules)
      \<lparr>ex_backend = ExecutionBackendK8s, ex_provider = ProviderGKE,
       ex_runtime_profile = ExecutionRuntimeProfileGVisor\<rparr>) = SupportConditional"
proof -
  let ?cfg = "\<lparr>ex_backend = ExecutionBackendK8s, ex_provider = ProviderGKE,
       ex_runtime_profile = ExecutionRuntimeProfileGVisor\<rparr>"
  have "cr_level (ValidateCompatibility ?cfg) = SupportConditional" by code_simp
  then show ?thesis using table_order_immaterial [OF mset_rev, of ?cfg] by (simp only:)
qed

end
