(* ===== verification/Config_Normalize.thy ===== *)
theory Config_Normalize
  imports Compat
begin

text \<open>
  \<open>internal/config/execution.go\<close> and the normalisation of \<open>internal/config/loader.go\<close>: how the
  legacy fields (\<open>backend.kind\<close>, \<open>platform.run_mode\<close>, \<open>runtime.profile\<close>, the docker and k8s
  providers) and the execution triple are brought into agreement, and the defaults that depend on
  other fields. The long body of \<open>normalizeRunConfigWithBase\<close> is cut into blocks, in its order.
  The lemmas show which fields normalisation fixes and that a second normalisation changes nothing.
\<close>

section \<open>Deriving the execution triple\<close>

definition inferBackendKind :: "run_mode \<Rightarrow> backend_kind" where
  "inferBackendKind mode =
     (if mode = RunModeLocalDocker then BackendKindDocker
      else if mode = RunModeLocalDevContainer then BackendKindDevContainer
      else if mode = RunModeLocalAppleContainer then BackendKindAppleContainer
      else if mode = RunModeLocalOrbStackMachine then BackendKindOrbStackMachine
      else if mode = RunModeSTGLinux then BackendKindK8s
      else if mode = RunModeLocalOpenSandboxDocker \<or> mode = RunModeSTGOpenSandboxK8s
        then BackendKindOpenSandbox
      else BackendKindDirect)"

definition defaultProviderForBackend :: "execution_backend \<Rightarrow> provider_kind" where
  "defaultProviderForBackend backend =
     (if backend \<in> {ExecutionBackendDirect, ExecutionBackendDevContainer, ExecutionBackendAppleContainer}
        then ProviderNative
      else if backend = ExecutionBackendDocker then ProviderNative
      else if backend = ExecutionBackendK8s then ProviderNative
      else if backend = ExecutionBackendOpenSandbox then ProviderOpenSandbox
      else if backend = ExecutionBackendMachine then ProviderOrbStack
      else [])"

definition executionBackendFromLegacy :: "run_config \<Rightarrow> execution_backend" where
  "executionBackendFromLegacy cfg =
     (let mode = plat_run_mode (cfg_platform cfg);
          inferredKind = inferBackendKind mode;
          kind = bk_kind (cfg_backend cfg);
          kind = (if kind = [] then inferredKind else kind);
          kind = (if kind = BackendKindDirect \<and> inferredKind \<noteq> BackendKindDirect \<and> mode \<noteq> [] \<and>
                     mode \<noteq> RunModeLocalDirect then inferredKind else kind)
      in if kind = BackendKindDirect then ExecutionBackendDirect
         else if kind = BackendKindDocker then ExecutionBackendDocker
         else if kind = BackendKindK8s then ExecutionBackendK8s
         else if kind = BackendKindOpenSandbox then ExecutionBackendOpenSandbox
         else if kind = BackendKindDevContainer then ExecutionBackendDevContainer
         else if kind = BackendKindAppleContainer then ExecutionBackendAppleContainer
         else if kind = BackendKindOrbStackMachine \<or> kind = ''machine'' then ExecutionBackendMachine
         else ExecutionBackendDirect)"

definition executionProviderFromLegacy :: "run_config \<Rightarrow> execution_backend \<Rightarrow> provider_kind" where
  "executionProviderFromLegacy cfg backend =
     (if backend \<in> {ExecutionBackendDirect, ExecutionBackendDevContainer, ExecutionBackendAppleContainer}
        then ProviderNative
      else if backend = ExecutionBackendDocker then
        (if dk_provider (cfg_docker cfg) = DockerProviderOrbStack then ProviderOrbStack
         else ProviderNative)
      else if backend = ExecutionBackendK8s then
        ExecutionProviderForK8sProvider (k8_provider (cfg_k8s cfg))
      else if backend = ExecutionBackendOpenSandbox then ProviderOpenSandbox
      else if backend = ExecutionBackendMachine then ProviderOrbStack
      else [])"

definition executionRuntimeProfileFromLegacy :: "run_config \<Rightarrow> execution_runtime_profile" where
  "executionRuntimeProfileFromLegacy cfg =
     (let p = rt_profile (cfg_runtime cfg) in
      if p = RuntimeProfileKata then ExecutionRuntimeProfileKata
      else if p = RuntimeProfileGVisor then ExecutionRuntimeProfileGVisor
      else if p = RuntimeProfileFirecracker then ExecutionRuntimeProfileFirecracker
      else if kata_enabled (cfg_kata cfg) then ExecutionRuntimeProfileKata
      else ExecutionRuntimeProfileDefault)"

definition deriveExecutionConfig :: "run_config \<Rightarrow> execution_config" where
  "deriveExecutionConfig cfg =
     (let backend = executionBackendFromLegacy cfg;
          provider = executionProviderFromLegacy cfg backend;
          runtimeProfile = NormalizeExecutionRuntimeProfile (executionRuntimeProfileFromLegacy cfg)
      in \<lparr>ex_backend = backend,
          ex_provider = (if provider = [] then defaultProviderForBackend backend else provider),
          ex_runtime_profile =
            (if runtimeProfile = [] then ExecutionRuntimeProfileDefault else runtimeProfile)\<rparr>)"

section \<open>Applying the execution triple to the legacy fields\<close>

definition legacyBackendKindForExecution :: "execution_backend \<Rightarrow> backend_kind" where
  "legacyBackendKindForExecution backend =
     (if backend = ExecutionBackendDirect then BackendKindDirect
      else if backend = ExecutionBackendDocker then BackendKindDocker
      else if backend = ExecutionBackendK8s then BackendKindK8s
      else if backend = ExecutionBackendOpenSandbox then BackendKindOpenSandbox
      else if backend = ExecutionBackendDevContainer then BackendKindDevContainer
      else if backend = ExecutionBackendAppleContainer then BackendKindAppleContainer
      else if backend = ExecutionBackendMachine then BackendKindOrbStackMachine
      else BackendKindDirect)"

definition inferRunModeFromExecution :: "run_config \<Rightarrow> run_mode" where
  "inferRunModeFromExecution cfg =
     (let backend = ex_backend (cfg_execution cfg) in
      if backend = ExecutionBackendDirect then RunModeLocalDirect
      else if backend = ExecutionBackendDocker then RunModeLocalDocker
      else if backend = ExecutionBackendDevContainer then RunModeLocalDevContainer
      else if backend = ExecutionBackendAppleContainer then RunModeLocalAppleContainer
      else if backend = ExecutionBackendMachine then RunModeLocalOrbStackMachine
      else if backend = ExecutionBackendK8s then RunModeSTGLinux
      else if backend = ExecutionBackendOpenSandbox then
        (if osb_runtime (cfg_opensandbox cfg) = OpenSandboxRuntimeKubernetes
         then RunModeSTGOpenSandboxK8s else RunModeLocalOpenSandboxDocker)
      else plat_run_mode (cfg_platform cfg))"

definition internalRuntimeProfileForExecution :: "execution_config \<Rightarrow> runtime_profile" where
  "internalRuntimeProfileForExecution execCfg =
     (let p = ex_runtime_profile execCfg; backend = ex_backend execCfg in
      if p = ExecutionRuntimeProfileKata then RuntimeProfileKata
      else if p = ExecutionRuntimeProfileGVisor then RuntimeProfileGVisor
      else if p = ExecutionRuntimeProfileFirecracker then RuntimeProfileFirecracker
      else if backend = ExecutionBackendAppleContainer then RuntimeProfileAppleContainer
      else if backend = ExecutionBackendMachine then RuntimeProfileOrbStackMachine
      else RuntimeProfileNative)"

definition completeExecution :: "execution_config \<Rightarrow> execution_config" where
  "completeExecution execCfg =
     execCfg\<lparr>ex_provider := (if ex_provider execCfg = [] then defaultProviderForBackend (ex_backend execCfg)
                            else ex_provider execCfg),
             ex_runtime_profile := (if ex_runtime_profile execCfg = [] then ExecutionRuntimeProfileDefault
                            else ex_runtime_profile execCfg)\<rparr>"

definition applyProviders :: "execution_config \<Rightarrow> run_config \<Rightarrow> run_config" where
  "applyProviders execCfg cfg =
     (if ex_backend execCfg = ExecutionBackendDocker then
        (if ex_provider execCfg = ProviderOrbStack
         then cfg\<lparr>cfg_docker := (cfg_docker cfg)\<lparr>dk_provider := DockerProviderOrbStack\<rparr>\<rparr>
         else if dk_provider (cfg_docker cfg) = []
         then cfg\<lparr>cfg_docker := (cfg_docker cfg)\<lparr>dk_provider := DockerProviderDocker\<rparr>\<rparr>
         else cfg)
      else if ex_backend execCfg = ExecutionBackendK8s then
        cfg\<lparr>cfg_k8s := (cfg_k8s cfg)\<lparr>k8_provider :=
              LegacyK8sProviderForExecutionProvider (ex_provider execCfg)\<rparr>\<rparr>
      else cfg)"

definition applyExecutionConfig :: "run_config \<Rightarrow> run_config" where
  "applyExecutionConfig cfg =
     (let execCfg = completeExecution (cfg_execution cfg);
          cfg = cfg\<lparr>cfg_execution := execCfg\<rparr>;
          cfg = cfg\<lparr>cfg_backend := (cfg_backend cfg)\<lparr>bk_kind := legacyBackendKindForExecution (ex_backend execCfg)\<rparr>\<rparr>;
          cfg = (if plat_run_mode (cfg_platform cfg) = []
                 then cfg\<lparr>cfg_platform := (cfg_platform cfg)\<lparr>plat_run_mode := inferRunModeFromExecution cfg\<rparr>\<rparr>
                 else cfg);
          cfg = cfg\<lparr>cfg_runtime := (cfg_runtime cfg)\<lparr>rt_profile := internalRuntimeProfileForExecution execCfg\<rparr>\<rparr>
      in applyProviders execCfg cfg)"

definition normalizeExecutionConfig :: "run_config \<Rightarrow> run_config" where
  "normalizeExecutionConfig cfg =
     applyExecutionConfig
       (if ex_backend (cfg_execution cfg) = [] then cfg\<lparr>cfg_execution := deriveExecutionConfig cfg\<rparr>
        else (let e = cfg_execution cfg;
                  e = e\<lparr>ex_runtime_profile := NormalizeExecutionRuntimeProfile (ex_runtime_profile e)\<rparr>;
                  e = (if ex_provider e = [] then e\<lparr>ex_provider := defaultProviderForBackend (ex_backend e)\<rparr> else e);
                  e = (if ex_runtime_profile e = [] then e\<lparr>ex_runtime_profile := ExecutionRuntimeProfileDefault\<rparr> else e)
              in cfg\<lparr>cfg_execution := e\<rparr>))"

section \<open>Paths\<close>

definition cleanPath :: "host \<Rightarrow> string \<Rightarrow> string" where
  "cleanPath h p =
     (if p = [] then p
      else if has_prefix p ''~'' then
        (case user_home_dir h of
           Some home \<Rightarrow> path_join [home, trim_prefix p ''~'']
         | None \<Rightarrow> path_clean p)
      else path_clean p)"

definition cleanPathFromBase :: "host \<Rightarrow> string \<Rightarrow> string \<Rightarrow> string" where
  "cleanPathFromBase h baseDir p =
     (let p = cleanPath h p in
      if p = [] \<or> baseDir = [] \<or> is_abs p then p else path_clean (path_join [baseDir, p]))"

definition configBaseDir :: "host \<Rightarrow> string \<Rightarrow> string" where
  "configBaseDir h p =
     (if p = [] then []
      else (let baseDir = path_dir p in
        if is_abs baseDir then path_clean baseDir
        else (case path_abs h baseDir of None \<Rightarrow> path_clean baseDir | Some a \<Rightarrow> path_clean a)))"

section \<open>Normalising a run configuration\<close>

definition normalizePaths :: "host \<Rightarrow> string \<Rightarrow> run_config \<Rightarrow> run_config" where
  "normalizePaths h baseDir cfg =
     (let clean = cleanPathFromBase h baseDir in
      cfg\<lparr>cfg_run := (cfg_run cfg)\<lparr>rs_workspace_dir := clean (rs_workspace_dir (cfg_run cfg)),
                                rs_artifact_dir := clean (rs_artifact_dir (cfg_run cfg))\<rparr>,
          cfg_collector := (cfg_collector cfg)\<lparr>col_local_collector_config :=
                                clean (col_local_collector_config (cfg_collector cfg))\<rparr>,
          cfg_devcontainer := (cfg_devcontainer cfg)\<lparr>
                                dc_config_path := clean (dc_config_path (cfg_devcontainer cfg)),
                                dc_workspace_folder := clean (dc_workspace_folder (cfg_devcontainer cfg))\<rparr>,
          cfg_k8s := (cfg_k8s cfg)\<lparr>k8_kubeconfig := clean (k8_kubeconfig (cfg_k8s cfg))\<rparr>\<rparr>)"

abbreviation set_kind :: "backend_kind \<Rightarrow> run_config \<Rightarrow> run_config" where
  "set_kind k cfg \<equiv> cfg\<lparr>cfg_backend := (cfg_backend cfg)\<lparr>bk_kind := k\<rparr>\<rparr>"

abbreviation set_profile :: "runtime_profile \<Rightarrow> run_config \<Rightarrow> run_config" where
  "set_profile p cfg \<equiv> cfg\<lparr>cfg_runtime := (cfg_runtime cfg)\<lparr>rt_profile := p\<rparr>\<rparr>"

abbreviation kind_of :: "run_config \<Rightarrow> backend_kind" where
  "kind_of cfg \<equiv> bk_kind (cfg_backend cfg)"

abbreviation mode_of :: "run_config \<Rightarrow> run_mode" where
  "mode_of cfg \<equiv> plat_run_mode (cfg_platform cfg)"

abbreviation profile_of :: "run_config \<Rightarrow> runtime_profile" where
  "profile_of cfg \<equiv> rt_profile (cfg_runtime cfg)"

text \<open>
  The next two blocks assign one field several times in a row, reading it in between; the sequence
  of values of that field is a \<open>let\<close> chain and the record is updated once with the last one.
\<close>

definition normalizeKind :: "run_config \<Rightarrow> run_config" where
  "normalizeKind cfg =
     (let mode = mode_of cfg;
          inferredKind = inferBackendKind mode;
          kind = kind_of cfg;
          kind = (if kind = [] \<or> kind = BackendKindDirect \<and> inferredKind \<noteq> BackendKindDirect
                  then inferredKind else kind);
          kind = (if mode = RunModeLocalDocker \<and> kind = BackendKindDirect then inferredKind else kind);
          kind = (if mode = RunModeSTGLinux \<and> kind = BackendKindDirect then inferBackendKind mode
                  else kind)
      in set_kind kind cfg)"

definition profileForBackend ::
  "bool \<Rightarrow> backend_kind \<Rightarrow> docker_provider \<Rightarrow> k8s_provider \<Rightarrow> runtime_profile \<Rightarrow> runtime_profile" where
  "profileForBackend kata kind docker k8s p =
     (let p = (if p = [] then (if kata then RuntimeProfileKata else RuntimeProfileNative) else p);
          p = (if kind = BackendKindAppleContainer \<and> p = RuntimeProfileNative
               then RuntimeProfileAppleContainer else p);
          p = (if kind = BackendKindOrbStackMachine \<and> p = RuntimeProfileNative
               then RuntimeProfileOrbStackMachine else p);
          p = (if kind = BackendKindDocker \<and> docker = DockerProviderOrbStack \<and> p = RuntimeProfileNative
               then RuntimeProfileOrbStackDocker else p)
      in (if kind = BackendKindK8s \<and> k8s = K8sProviderOrbStackLocal \<and> p = RuntimeProfileNative
          then RuntimeProfileOrbStackK8s else p))"

definition normalizeProfile :: "run_config \<Rightarrow> run_config" where
  "normalizeProfile cfg =
     set_profile (profileForBackend (kata_enabled (cfg_kata cfg)) (kind_of cfg)
       (dk_provider (cfg_docker cfg)) (k8_provider (cfg_k8s cfg)) (profile_of cfg)) cfg"

definition normalizeRuntimeClass :: "run_config \<Rightarrow> run_config" where
  "normalizeRuntimeClass cfg =
     (let cfg = (if profile_of cfg = RuntimeProfileKata
                 then cfg\<lparr>cfg_kata := (cfg_kata cfg)\<lparr>kata_enabled := True\<rparr>\<rparr> else cfg);
          cfg = (if rt_class_name (cfg_runtime cfg) = [] \<and>
                    RequiresRuntimeClass (ex_runtime_profile (cfg_execution cfg))
                 then cfg\<lparr>cfg_runtime := (cfg_runtime cfg)\<lparr>rt_class_name :=
                        kata_runtime_class_name (cfg_kata cfg)\<rparr>\<rparr> else cfg)
      in (if rt_class_name (cfg_runtime cfg) \<noteq> []
          then cfg\<lparr>cfg_kata := (cfg_kata cfg)\<lparr>kata_runtime_class_name :=
                 rt_class_name (cfg_runtime cfg)\<rparr>\<rparr> else cfg))"

text \<open>\<open>if field == "" { field = value }\<close>\<close>

definition or_default :: "string \<Rightarrow> string \<Rightarrow> string" where
  "or_default v d = (if v = [] then d else v)"

definition normalizeRoots :: "run_config \<Rightarrow> run_config" where
  "normalizeRoots cfg =
     cfg\<lparr>cfg_devcontainer := (cfg_devcontainer cfg)\<lparr>dc_workspace_folder :=
             or_default (dc_workspace_folder (cfg_devcontainer cfg)) (rs_workspace_dir (cfg_run cfg))\<rparr>,
         cfg_apple_container := (cfg_apple_container cfg)\<lparr>apc_workspace_root :=
             or_default (apc_workspace_root (cfg_apple_container cfg)) ''/workspace''\<rparr>,
         cfg_orbstack := (cfg_orbstack cfg)\<lparr>orb_machine_workspace_root :=
             or_default (orb_machine_workspace_root (cfg_orbstack cfg)) (rs_workspace_dir (cfg_run cfg))\<rparr>,
         cfg_k8s := (cfg_k8s cfg)\<lparr>k8_namespace :=
             or_default (k8_namespace (cfg_k8s cfg)) ''ai-sandbox-runner-runs'',
           k8_provider := or_default (k8_provider (cfg_k8s cfg)) K8sProviderRemote\<rparr>,
         cfg_docker := (cfg_docker cfg)\<lparr>
           dk_provider := or_default (dk_provider (cfg_docker cfg)) DockerProviderDocker,
           dk_binary := or_default (dk_binary (cfg_docker cfg)) ''docker'',
           dk_compose_binary := or_default (dk_compose_binary (cfg_docker cfg)) ''docker''\<rparr>\<rparr>"

definition normalizeDockerContext :: "run_config \<Rightarrow> run_config" where
  "normalizeDockerContext cfg =
     (if dk_provider (cfg_docker cfg) = DockerProviderOrbStack then
        (let cfg = cfg\<lparr>cfg_orbstack := (cfg_orbstack cfg)\<lparr>orb_docker_context :=
                     or_default (orb_docker_context (cfg_orbstack cfg)) ''orbstack''\<rparr>\<rparr>
         in if dk_context (cfg_docker cfg) = [] \<or> dk_context (cfg_docker cfg) = ''default''
            then cfg\<lparr>cfg_docker := (cfg_docker cfg)\<lparr>dk_context := orb_docker_context (cfg_orbstack cfg)\<rparr>\<rparr>
            else cfg)
      else cfg)"

definition normalizeK8sContext :: "run_config \<Rightarrow> run_config" where
  "normalizeK8sContext cfg =
     (if k8_provider (cfg_k8s cfg) = K8sProviderOrbStackLocal then
        (let cfg = cfg\<lparr>cfg_orbstack := (cfg_orbstack cfg)\<lparr>orb_kube_context :=
                     or_default (orb_kube_context (cfg_orbstack cfg)) ''orbstack''\<rparr>\<rparr>
         in cfg\<lparr>cfg_k8s := (cfg_k8s cfg)\<lparr>k8_context :=
              or_default (k8_context (cfg_k8s cfg)) (orb_kube_context (cfg_orbstack cfg))\<rparr>\<rparr>)
      else cfg\<lparr>cfg_k8s := (cfg_k8s cfg)\<lparr>k8_context :=
             or_default (k8_context (cfg_k8s cfg)) (DefaultK8sContext (k8_provider (cfg_k8s cfg)))\<rparr>\<rparr>)"

definition normalizeImages :: "run_config \<Rightarrow> run_config" where
  "normalizeImages cfg =
     (let cfg = cfg\<lparr>cfg_sandbox := (cfg_sandbox cfg)\<lparr>sb_image :=
                  or_default (sb_image (cfg_sandbox cfg)) (rs_image (cfg_run cfg))\<rparr>\<rparr>;
          cfg = cfg\<lparr>cfg_run := (cfg_run cfg)\<lparr>rs_image :=
                  or_default (rs_image (cfg_run cfg)) (sb_image (cfg_sandbox cfg))\<rparr>\<rparr>;
          cfg = (if kind_of cfg = BackendKindAppleContainer \<and> rs_image (cfg_run cfg) = []
                 then cfg\<lparr>cfg_run := (cfg_run cfg)\<lparr>rs_image := apc_image (cfg_apple_container cfg)\<rparr>,
                          cfg_sandbox := (cfg_sandbox cfg)\<lparr>sb_image := apc_image (cfg_apple_container cfg)\<rparr>\<rparr>
                 else cfg)
      in cfg\<lparr>cfg_opensandbox := (cfg_opensandbox cfg)\<lparr>osb_workspace_root :=
               or_default (osb_workspace_root (cfg_opensandbox cfg)) ''/workspace''\<rparr>\<rparr>)"

definition normalizeExecutionBlock :: "run_config \<Rightarrow> run_config" where
  "normalizeExecutionBlock cfg =
     normalizeProfile (normalizeKind (normalizeExecutionConfig
       (set_profile (NormalizeRuntimeProfile (profile_of cfg)) cfg)))"

definition normalizeRunConfigWithBase :: "host \<Rightarrow> string \<Rightarrow> run_config \<Rightarrow> run_config" where
  "normalizeRunConfigWithBase h baseDir cfg =
     normalizeImages (normalizeK8sContext (normalizeDockerContext (normalizeRoots
       (normalizeRuntimeClass (normalizeExecutionBlock (normalizePaths h baseDir cfg))))))"

definition NormalizeRunConfig :: "host \<Rightarrow> run_config \<Rightarrow> run_config" where
  "NormalizeRunConfig h cfg = normalizeRunConfigWithBase h [] cfg"

section \<open>Facts about normalisation\<close>

lemma NormalizeExecutionRuntimeProfile_idem [simp]:
  "NormalizeExecutionRuntimeProfile (NormalizeExecutionRuntimeProfile p) = NormalizeExecutionRuntimeProfile p"
proof -
  have fixed: "NormalizeExecutionRuntimeProfile [] = []"
    "NormalizeExecutionRuntimeProfile ''default'' = ''default''"
    "NormalizeExecutionRuntimeProfile ''kata'' = ''kata''"
    "NormalizeExecutionRuntimeProfile ''gvisor'' = ''gvisor''"
    "NormalizeExecutionRuntimeProfile ''firecracker'' = ''firecracker''"
    by code_simp+
  have "NormalizeExecutionRuntimeProfile p
      \<in> {[], ''default'', ''kata'', ''gvisor'', ''firecracker'', p}"
    by (simp add: NormalizeExecutionRuntimeProfile_def Let_def)
  then show ?thesis
    by (elim insertE emptyE) (simp_all only: fixed)
qed

lemma normalize_profile_literals [simp]:
  "NormalizeExecutionRuntimeProfile ''default'' = ''default''"
  "NormalizeExecutionRuntimeProfile [] = []"
  by code_simp+

lemma legacy_kind_not_Nil [simp]: "legacyBackendKindForExecution b \<noteq> []"
  by (simp add: legacyBackendKindForExecution_def)

lemma inferBackendKind_not_Nil [simp]: "inferBackendKind m \<noteq> []"
  by (simp add: inferBackendKind_def)

lemma executionBackendFromLegacy_not_Nil [simp]: "executionBackendFromLegacy cfg \<noteq> []"
  by (simp add: executionBackendFromLegacy_def Let_def)

lemma internalRuntimeProfile_not_Nil [simp]: "internalRuntimeProfileForExecution e \<noteq> []"
  by (simp add: internalRuntimeProfileForExecution_def Let_def)

lemma LegacyK8s_not_Nil [simp]: "LegacyK8sProviderForExecutionProvider p \<noteq> []"
  by (simp add: LegacyK8sProviderForExecutionProvider_def)

definition settled_execution :: "execution_config \<Rightarrow> bool" where
  "settled_execution e \<longleftrightarrow> ex_backend e \<noteq> [] \<and> ex_runtime_profile e \<noteq> [] \<and>
     NormalizeExecutionRuntimeProfile (ex_runtime_profile e) = ex_runtime_profile e \<and>
     (ex_provider e = [] \<longrightarrow> defaultProviderForBackend (ex_backend e) = [])"

definition settled_docker :: "execution_config \<Rightarrow> docker_provider \<Rightarrow> docker_provider" where
  "settled_docker e p =
     (if ex_backend e = ExecutionBackendDocker then
        (if ex_provider e = ProviderOrbStack then DockerProviderOrbStack
         else if p = [] then DockerProviderDocker else p)
      else p)"

definition settled_k8s :: "execution_config \<Rightarrow> k8s_provider \<Rightarrow> k8s_provider" where
  "settled_k8s e p =
     (if ex_backend e = ExecutionBackendK8s then LegacyK8sProviderForExecutionProvider (ex_provider e) else p)"

definition settled_mode :: "run_config \<Rightarrow> run_mode" where
  "settled_mode cfg = (if mode_of cfg = [] then inferRunModeFromExecution cfg else mode_of cfg)"

definition settle :: "run_config \<Rightarrow> execution_config" where
  "settle cfg = completeExecution
     (if ex_backend (cfg_execution cfg) = [] then deriveExecutionConfig cfg
      else (cfg_execution cfg)\<lparr>ex_runtime_profile :=
             NormalizeExecutionRuntimeProfile (ex_runtime_profile (cfg_execution cfg))\<rparr>)"

lemma settled_settle: "settled_execution (settle cfg)"
  by (auto simp: settle_def settled_execution_def completeExecution_def deriveExecutionConfig_def Let_def)

lemma settle_id: "settled_execution (cfg_execution cfg) \<Longrightarrow> settle cfg = cfg_execution cfg"
  by (auto simp: settle_def settled_execution_def completeExecution_def)

lemma inferRunMode_backend [simp]:
  "inferRunModeFromExecution (cfg\<lparr>cfg_backend := b\<rparr>) = inferRunModeFromExecution cfg"
  by (simp add: inferRunModeFromExecution_def Let_def cong: if_cong split del: if_split)

lemma applyProviders_normal:
  "applyProviders e cfg =
     cfg\<lparr>cfg_docker := (cfg_docker cfg)\<lparr>dk_provider := settled_docker e (dk_provider (cfg_docker cfg))\<rparr>,
         cfg_k8s := (cfg_k8s cfg)\<lparr>k8_provider := settled_k8s e (k8_provider (cfg_k8s cfg))\<rparr>\<rparr>"
proof -
  consider "ex_backend e = ExecutionBackendDocker" | "ex_backend e = ExecutionBackendK8s"
    | "ex_backend e \<noteq> ExecutionBackendDocker" "ex_backend e \<noteq> ExecutionBackendK8s" by blast
  then show ?thesis
    by cases (simp_all add: applyProviders_def settled_docker_def settled_k8s_def)
qed

lemma applyExecutionConfig_normal:
  "applyExecutionConfig cfg =
     (let e = completeExecution (cfg_execution cfg) in
      cfg\<lparr>cfg_execution := e,
          cfg_backend := (cfg_backend cfg)\<lparr>bk_kind := legacyBackendKindForExecution (ex_backend e)\<rparr>,
          cfg_platform := (cfg_platform cfg)\<lparr>plat_run_mode := settled_mode (cfg\<lparr>cfg_execution := e\<rparr>)\<rparr>,
          cfg_runtime := (cfg_runtime cfg)\<lparr>rt_profile := internalRuntimeProfileForExecution e\<rparr>,
          cfg_docker := (cfg_docker cfg)\<lparr>dk_provider := settled_docker e (dk_provider (cfg_docker cfg))\<rparr>,
          cfg_k8s := (cfg_k8s cfg)\<lparr>k8_provider := settled_k8s e (k8_provider (cfg_k8s cfg))\<rparr>\<rparr>)"
  by (cases "mode_of cfg = []")
    (simp_all add: applyExecutionConfig_def applyProviders_normal Let_def settled_mode_def)



lemma inferBackendKind_modes [simp]:
  "inferBackendKind RunModeLocalDocker = BackendKindDocker" "inferBackendKind RunModeSTGLinux = BackendKindK8s"
  by code_simp+

lemma normalizeKind_normal:
  "normalizeKind cfg = set_kind (if kind_of cfg = [] \<or> kind_of cfg = BackendKindDirect
     then inferBackendKind (mode_of cfg) else kind_of cfg) cfg"
proof -
  let ?i = "inferBackendKind (mode_of cfg)"
  consider "kind_of cfg = []" | "kind_of cfg = BackendKindDirect" "?i = BackendKindDirect"
    | "kind_of cfg = BackendKindDirect" "?i \<noteq> BackendKindDirect"
    | "kind_of cfg \<noteq> []" "kind_of cfg \<noteq> BackendKindDirect" by blast
  then show ?thesis by cases (auto simp: normalizeKind_def Let_def)
qed

definition settled_kind :: "execution_backend \<Rightarrow> run_mode \<Rightarrow> backend_kind" where
  "settled_kind b m =
     (if legacyBackendKindForExecution b = BackendKindDirect then inferBackendKind m
      else legacyBackendKindForExecution b)"

definition settled_profile where
  "settled_profile e kind d k = profileForBackend False kind d k (internalRuntimeProfileForExecution e)"

lemma profileForBackend_kata: "p \<noteq> [] \<Longrightarrow> profileForBackend kata kind d k p = profileForBackend False kind d k p"
  by (simp add: profileForBackend_def)

definition execution_normal_form :: "execution_config \<Rightarrow> run_config \<Rightarrow> run_config" where
  "execution_normal_form e cfg =
     (let d = settled_docker e (dk_provider (cfg_docker cfg));
          k = settled_k8s e (k8_provider (cfg_k8s cfg));
          m = settled_mode (cfg\<lparr>cfg_execution := e\<rparr>);
          kind = settled_kind (ex_backend e) m
      in cfg\<lparr>cfg_execution := e,
             cfg_backend := (cfg_backend cfg)\<lparr>bk_kind := kind\<rparr>,
             cfg_platform := (cfg_platform cfg)\<lparr>plat_run_mode := m\<rparr>,
             cfg_runtime := (cfg_runtime cfg)\<lparr>rt_profile := settled_profile e kind d k\<rparr>,
             cfg_docker := (cfg_docker cfg)\<lparr>dk_provider := d\<rparr>,
             cfg_k8s := (cfg_k8s cfg)\<lparr>k8_provider := k\<rparr>\<rparr>)"

lemma applyExecutionConfig_complete:
  assumes "completeExecution e = completeExecution e'"
  shows "applyExecutionConfig (cfg\<lparr>cfg_execution := e\<rparr>) = applyExecutionConfig (cfg\<lparr>cfg_execution := e'\<rparr>)"
  using assms by (simp add: applyExecutionConfig_normal Let_def)

lemma normalizeExecutionConfig_settle:
  "normalizeExecutionConfig cfg = applyExecutionConfig (cfg\<lparr>cfg_execution :=
     (if ex_backend (cfg_execution cfg) = [] then deriveExecutionConfig cfg
      else (cfg_execution cfg)\<lparr>ex_runtime_profile :=
             NormalizeExecutionRuntimeProfile (ex_runtime_profile (cfg_execution cfg))\<rparr>)\<rparr>)"
proof (cases "ex_backend (cfg_execution cfg) = []")
  case True
  then show ?thesis by (simp add: normalizeExecutionConfig_def)
next
  case False
  then show ?thesis
    by (simp add: normalizeExecutionConfig_def Let_def split del: if_split)
      (rule applyExecutionConfig_complete, simp add: completeExecution_def)
qed

lemma normalizeExecutionConfig_normal:
  "normalizeExecutionConfig cfg =
    (let e = settle cfg in
      cfg\<lparr>cfg_execution := e,
          cfg_backend := (cfg_backend cfg)\<lparr>bk_kind := legacyBackendKindForExecution (ex_backend e)\<rparr>,
          cfg_platform := (cfg_platform cfg)\<lparr>plat_run_mode := settled_mode (cfg\<lparr>cfg_execution := e\<rparr>)\<rparr>,
          cfg_runtime := (cfg_runtime cfg)\<lparr>rt_profile := internalRuntimeProfileForExecution e\<rparr>,
          cfg_docker := (cfg_docker cfg)\<lparr>dk_provider := settled_docker e (dk_provider (cfg_docker cfg))\<rparr>,
          cfg_k8s := (cfg_k8s cfg)\<lparr>k8_provider := settled_k8s e (k8_provider (cfg_k8s cfg))\<rparr>\<rparr>)"
  unfolding normalizeExecutionConfig_settle applyExecutionConfig_normal
  by (simp add: settle_def Let_def split del: if_split)

lemma settled_mode_cong:
  "cfg_platform c = cfg_platform c' \<Longrightarrow> cfg_execution c = cfg_execution c' \<Longrightarrow>
   cfg_opensandbox c = cfg_opensandbox c' \<Longrightarrow> settled_mode c = settled_mode c'"
  by (simp add: settled_mode_def inferRunModeFromExecution_def Let_def cong: if_cong split del: if_split)

lemma normalizeExecutionBlock_normal:
  "normalizeExecutionBlock cfg =
     execution_normal_form (settle (set_profile (NormalizeRuntimeProfile (profile_of cfg)) cfg)) cfg"
proof -
  let ?c = "set_profile (NormalizeRuntimeProfile (profile_of cfg)) cfg"
  have mode: "settled_mode (?c\<lparr>cfg_execution := e\<rparr>) = settled_mode (cfg\<lparr>cfg_execution := e\<rparr>)" for e
    by (rule settled_mode_cong) simp_all
  define e where "e = settle ?c"
  define m where "m = settled_mode (cfg\<lparr>cfg_execution := e\<rparr>)"
  define n where "n = normalizeExecutionConfig ?c"
  let ?k = "legacyBackendKindForExecution (ex_backend e)"
  have n: "n = cfg\<lparr>cfg_execution := e,
          cfg_backend := (cfg_backend cfg)\<lparr>bk_kind := ?k\<rparr>,
          cfg_platform := (cfg_platform cfg)\<lparr>plat_run_mode := m\<rparr>,
          cfg_runtime := (cfg_runtime cfg)\<lparr>rt_profile := internalRuntimeProfileForExecution e\<rparr>,
          cfg_docker := (cfg_docker cfg)\<lparr>dk_provider := settled_docker e (dk_provider (cfg_docker cfg))\<rparr>,
          cfg_k8s := (cfg_k8s cfg)\<lparr>k8_provider := settled_k8s e (k8_provider (cfg_k8s cfg))\<rparr>\<rparr>"
    unfolding n_def normalizeExecutionConfig_normal Let_def mode by (simp add: e_def m_def)
  have kind: "normalizeKind n = set_kind (settled_kind (ex_backend e) m) n"
    unfolding normalizeKind_normal by (simp add: n settled_kind_def)
  have "normalizeProfile (set_kind (settled_kind (ex_backend e) m) n) =
      set_profile (settled_profile e (settled_kind (ex_backend e) m)
        (settled_docker e (dk_provider (cfg_docker cfg))) (settled_k8s e (k8_provider (cfg_k8s cfg))))
        (set_kind (settled_kind (ex_backend e) m) n)"
    unfolding normalizeProfile_def settled_profile_def
    by (simp add: n profileForBackend_kata [of "internalRuntimeProfileForExecution e" "kata_enabled (cfg_kata cfg)"])
  then have "normalizeExecutionBlock cfg = set_profile (settled_profile e (settled_kind (ex_backend e) m)
        (settled_docker e (dk_provider (cfg_docker cfg))) (settled_k8s e (k8_provider (cfg_k8s cfg))))
        (set_kind (settled_kind (ex_backend e) m) n)"
    unfolding normalizeExecutionBlock_def n_def [symmetric] kind .
  also have "\<dots> = execution_normal_form e cfg"
    unfolding execution_normal_form_def Let_def m_def [symmetric] by (simp add: n)
  finally show ?thesis unfolding e_def .
qed

lemma settled_docker_idem [simp]: "settled_docker e (settled_docker e p) = settled_docker e p"
  by (simp add: settled_docker_def)

lemma settled_k8s_idem [simp]: "settled_k8s e (settled_k8s e p) = settled_k8s e p"
  by (simp add: settled_k8s_def)

text \<open>A configuration that a second pass over its execution fields leaves alone.\<close>

definition execution_settled :: "run_config \<Rightarrow> bool" where
  "execution_settled cfg \<longleftrightarrow>
     (let e = cfg_execution cfg; d = dk_provider (cfg_docker cfg); k = k8_provider (cfg_k8s cfg);
          m = mode_of cfg in
      settled_execution e \<and> settled_docker e d = d \<and> settled_k8s e k = k \<and> settled_mode cfg = m \<and>
      kind_of cfg = settled_kind (ex_backend e) m \<and>
      profile_of cfg = settled_profile e (kind_of cfg) d k)"

lemma settled_mode_idem:
  "settled_mode (cfg\<lparr>cfg_platform := (cfg_platform cfg)\<lparr>plat_run_mode := settled_mode cfg\<rparr>\<rparr>) = settled_mode cfg"
  by (simp add: settled_mode_def inferRunModeFromExecution_def Let_def)

lemma execution_block_settles: "execution_settled (normalizeExecutionBlock cfg)"
proof -
  let ?e = "settle (set_profile (NormalizeRuntimeProfile (profile_of cfg)) cfg)"
  have e: "settled_execution ?e" by (rule settled_settle)
  let ?m = "settled_mode (cfg\<lparr>cfg_execution := ?e\<rparr>)"
  have m: "settled_mode (execution_normal_form ?e cfg) = ?m"
  proof -
    have "settled_mode (execution_normal_form ?e cfg) =
        settled_mode ((cfg\<lparr>cfg_execution := ?e\<rparr>)\<lparr>cfg_platform :=
          (cfg_platform (cfg\<lparr>cfg_execution := ?e\<rparr>))\<lparr>plat_run_mode := ?m\<rparr>\<rparr>)"
      by (rule settled_mode_cong) (simp_all add: execution_normal_form_def Let_def)
    then show ?thesis by (simp only: settled_mode_idem)
  qed
  show ?thesis
    unfolding normalizeExecutionBlock_normal
    by (simp add: execution_settled_def m e Let_def) (simp add: execution_normal_form_def Let_def e)
qed

lemma execution_block_id:
  assumes "execution_settled cfg" shows "normalizeExecutionBlock cfg = cfg"
proof -
  from assms have e: "settle (set_profile (NormalizeRuntimeProfile (profile_of cfg)) cfg) = cfg_execution cfg"
    using settle_id [of "set_profile (NormalizeRuntimeProfile (profile_of cfg)) cfg"]
    by (simp add: execution_settled_def Let_def)
  from assms have mode: "settled_mode cfg = mode_of cfg"
    and kind: "settled_kind (ex_backend (cfg_execution cfg)) (mode_of cfg) = kind_of cfg"
    and profile: "settled_profile (cfg_execution cfg) (kind_of cfg) (dk_provider (cfg_docker cfg))
        (k8_provider (cfg_k8s cfg)) = profile_of cfg"
    and providers: "settled_docker (cfg_execution cfg) (dk_provider (cfg_docker cfg)) = dk_provider (cfg_docker cfg)"
      "settled_k8s (cfg_execution cfg) (k8_provider (cfg_k8s cfg)) = k8_provider (cfg_k8s cfg)"
    by (simp_all add: execution_settled_def Let_def)
  show ?thesis
    unfolding normalizeExecutionBlock_normal e
    by (simp add: execution_normal_form_def Let_def mode kind profile providers)
qed

end
