(* ===== verification/Config_Defaults.thy ===== *)
theory Config_Defaults
  imports Model_Types
begin

text \<open>
  \<open>internal/config/defaults.go\<close>: the configuration and the policy a run starts from. Fields the Go
  literals leave out hold their zero values.
\<close>

definition DefaultRunConfig :: run_config where
  "DefaultRunConfig =
    \<lparr>cfg_run = \<lparr>rs_service_name = ''sandbox-runner'', rs_mode = ''local'', rs_run_id = [], rs_attempt = 1,
           rs_sandbox_id = ''local-dev'', rs_workspace_dir = ''.'',
           rs_artifact_dir = ''.sandbox-runner'', rs_otlp_endpoint = ''http://127.0.0.1:4318'',
           rs_deployment_environment = ''local'', rs_command = [], rs_language = ''auto'',
           rs_workspace_id = [], rs_patch_id = [], rs_test_case_id = [], rs_image = [],
           rs_image_pull_policy = ''IfNotPresent'', rs_extra_env = []\<rparr>,
       cfg_phases = \<lparr>phs_prepare = \<lparr>pc_enabled = True, pc_timeout_sec = 60, pc_network_profile = [], pc_smoke_command = [],
               pc_expected_artifacts = []\<rparr>,
           phs_setup = \<lparr>pc_enabled = True, pc_timeout_sec = 900, pc_network_profile = ''setup-online'',
               pc_smoke_command = [], pc_expected_artifacts = []\<rparr>,
           phs_execute = \<lparr>pc_enabled = True, pc_timeout_sec = 1800, pc_network_profile = ''execute-offline'',
               pc_smoke_command = [], pc_expected_artifacts = []\<rparr>,
           phs_verify = \<lparr>pc_enabled = True, pc_timeout_sec = 300, pc_network_profile = [], pc_smoke_command = [],
               pc_expected_artifacts = []\<rparr>,
           phs_collect = \<lparr>pc_enabled = True, pc_timeout_sec = 120, pc_network_profile = [], pc_smoke_command = [],
               pc_expected_artifacts = []\<rparr>\<rparr>,
       cfg_telemetry = \<lparr>tel_traces = True, tel_logs = True, tel_metrics = True, tel_log_line_max_bytes = 8192,
           tel_emit_stdout_events = True, tel_emit_stderr_events = True\<rparr>,
       cfg_collector = \<lparr>col_mode = CollectorModeAuto, col_healthcheck_timeout_ms = 1000,
           col_local_collector_command = [],
           col_local_collector_config = ''configs/otelcol.local.yaml''\<rparr>,
       cfg_artifacts = \<lparr>arc_upload = False, arc_object_prefix = ''sandbox-runner-runs/'',
           arc_backend = ArtifactBackendLocal, arc_bucket = [], arc_endpoint = [], arc_region = [],
           arc_force_path_style = False\<rparr>,
       cfg_platform = \<lparr>plat_target_os = ''auto'', plat_target_arch = ''auto'', plat_run_mode = RunModeLocalDirect,
           plat_container_execution_mode = ContainerExecutionHostRunner,
           plat_feature_gates = \<lparr>fs_go_basic_runner = True, fs_go_manual_sdk = True, fs_go_autosdk_bridge = False,
               fs_obi_ebpf = False, fs_k8s_operator_go_inject = False, fs_local_docker_mode = False,
               fs_local_direct_mode = True, fs_stg_linux_mode = False,
               fs_local_apple_container_mode = False, fs_local_orbstack_machine_mode = False\<rparr>\<rparr>,
       cfg_execution = \<lparr>ex_backend = [], ex_provider = [], ex_runtime_profile = []\<rparr>,
       cfg_backend = \<lparr>bk_kind = BackendKindDirect\<rparr>,
       cfg_runtime = \<lparr>rt_profile = RuntimeProfileNative, rt_class_name = []\<rparr>,
       cfg_kata = \<lparr>kata_enabled = False, kata_runtime_class_name = ''kata'',
           kata_containerd_runtime = ''io.containerd.kata.v2'',
           kata_require_hardware_virtualization = True, kata_fail_if_unavailable = False\<rparr>,
       cfg_devcontainer = \<lparr>dc_cli_path = ''devcontainer'', dc_workspace_folder = [],
           dc_config_path = ''.devcontainer/devcontainer.json'', dc_mount_workspace_git_root = True,
           dc_remove_existing_container = False, dc_skip_post_create = False,
           dc_run_user_commands = True, dc_up_timeout_sec = 300, dc_exec_timeout_sec = 1800,
           dc_id_label_prefix = ''ai-sandbox-runner'', dc_log_level = ''info'',
           dc_cleanup_mode = ''delete''\<rparr>,
       cfg_docker = \<lparr>dk_provider = DockerProviderDocker, dk_binary = ''docker'', dk_compose_binary = ''docker'',
           dk_context = ''default''\<rparr>,
       cfg_k8s = \<lparr>k8_provider = K8sProviderRemote, k8_kubeconfig = [], k8_context = [],
           k8_namespace = ''ai-sandbox-runner-runs'', k8_service_account_name = ''default''\<rparr>,
       cfg_apple_container = \<lparr>apc_enabled = False, apc_binary = ''container'', apc_workspace_root = ''/workspace'',
           apc_image = [], apc_create_timeout_sec = 120, apc_exec_timeout_sec = 1800,
           apc_cleanup_mode = ''delete'', apc_upload_strategy = ''tar'',
           apc_download_strategy = ''tar''\<rparr>,
       cfg_orbstack = \<lparr>orb_enabled = False, orb_orb_binary = ''orb'', orb_orbctl_binary = ''orbctl'',
           orb_docker_provider_enabled = True, orb_machine_enabled = False,
           orb_machine_name = ''ai-runner-dev'', orb_machine_auto_create = False,
           orb_machine_distro = ''ubuntu'', orb_machine_workspace_root = [],
           orb_machine_cleanup_mode = ''keep'', orb_upload_strategy = ''copy'',
           orb_download_strategy = ''copy'', orb_k8s_provider_enabled = False,
           orb_docker_context = ''orbstack'', orb_kube_context = ''orbstack''\<rparr>,
       cfg_opensandbox = \<lparr>osb_base_url = ''http://127.0.0.1:8080'', osb_api_key = [],
           osb_runtime = OpenSandboxRuntimeDocker, osb_network_mode = ''bridge'',
           osb_create_timeout_sec = 120, osb_poll_interval_ms = 1000,
           osb_cleanup_mode = OpenSandboxCleanupDelete, osb_ttl_sec = 1800,
           osb_renew_on_long_run = True, osb_workspace_root = ''/workspace'',
           osb_upload_strategy = ''tar'', osb_download_strategy = ''tar''\<rparr>,
       cfg_sandbox = \<lparr>sb_image = [], sb_entrypoint = [''/bin/sh'', ''-lc''], sb_env = [], sb_cpu = [],
           sb_memory = []\<rparr>,
       cfg_provider = \<lparr>pv_prefer_opensandbox = False, pv_require_capabilities = [],
           pv_fallback_order = [''opensandbox'', ''docker'', ''direct''],
           pv_mac_local_preferred = [''apple-container'', ''orbstack-machine'', ''docker'', ''devcontainer'', ''direct'']\<rparr>,
       cfg_go = \<lparr>gc_classify_commands = True, gc_detect_go_env = True, gc_manual_sdk_helper_enabled = True,
           gc_autosdk_bridge_enabled = False, gc_obi_enabled = False, gc_obi_config_path = [],
           gc_extra_env = []\<rparr>,
       cfg_metadata = []\<rparr>"

definition DefaultPolicyConfig :: policy_config where
  "DefaultPolicyConfig =
    \<lparr>pol_filesystem = \<lparr>fsp_read_allow = [''/workspace'', ''/tmp''],
           fsp_write_allow = [''/workspace'', ''/tmp'', ''/workspace/.sandbox-runner''],
           fsp_deny = [''/root/.ssh'', ''/workspace/.env'', ''/workspace/secrets'']\<rparr>,
       pol_network_profiles = [(''setup-online'', \<lparr>np_allow_domains = [''pypi.org'', ''files.pythonhosted.org'', ''registry.npmjs.org'', ''repo.maven.apache.org'']\<rparr>), (''execute-offline'', \<lparr>np_allow_domains = []\<rparr>)],
       pol_tools = \<lparr>tp_allow = [''python'', ''python3'', ''pytest'', ''opentelemetry-instrument'', ''node'', ''npm'', ''java'', ''mvn'', ''bash'', ''sh'', ''go'', ''dlv''],
           tp_deny_patterns = [''rm -rf /'', ''curl * | sh'', ''wget * | sh'']\<rparr>,
       pol_secrets = \<lparr>sp_inject_env = [], sp_deny_export_to_logs = True\<rparr>,
       pol_resources = \<lparr>rp_timeout_sec_default = 1800, rp_max_memory_mb = 4096, rp_max_log_bytes = 104857600,
           rp_max_artifact_bytes = 536870912\<rparr>\<rparr>"

text \<open>The zero values that the loaders return beside an error.\<close>

definition zero_run_config :: run_config where
  "zero_run_config =
    \<lparr>cfg_run = \<lparr>rs_service_name = [], rs_mode = [], rs_run_id = [], rs_attempt = 0, rs_sandbox_id = [],
   rs_workspace_dir = [], rs_artifact_dir = [], rs_otlp_endpoint = [],
   rs_deployment_environment = [], rs_command = [], rs_language = [], rs_workspace_id = [],
   rs_patch_id = [], rs_test_case_id = [], rs_image = [], rs_image_pull_policy = [],
   rs_extra_env = []\<rparr>,
       cfg_phases = \<lparr>phs_prepare = \<lparr>pc_enabled = False, pc_timeout_sec = 0, pc_network_profile = [], pc_smoke_command = [],
   pc_expected_artifacts = []\<rparr>,
   phs_setup = \<lparr>pc_enabled = False, pc_timeout_sec = 0, pc_network_profile = [], pc_smoke_command = [],
   pc_expected_artifacts = []\<rparr>,
   phs_execute = \<lparr>pc_enabled = False, pc_timeout_sec = 0, pc_network_profile = [], pc_smoke_command = [],
   pc_expected_artifacts = []\<rparr>,
   phs_verify = \<lparr>pc_enabled = False, pc_timeout_sec = 0, pc_network_profile = [], pc_smoke_command = [],
   pc_expected_artifacts = []\<rparr>,
   phs_collect = \<lparr>pc_enabled = False, pc_timeout_sec = 0, pc_network_profile = [], pc_smoke_command = [],
   pc_expected_artifacts = []\<rparr>\<rparr>,
       cfg_telemetry = \<lparr>tel_traces = False, tel_logs = False, tel_metrics = False, tel_log_line_max_bytes = 0,
   tel_emit_stdout_events = False, tel_emit_stderr_events = False\<rparr>,
       cfg_collector = \<lparr>col_mode = [], col_healthcheck_timeout_ms = 0, col_local_collector_command = [],
   col_local_collector_config = []\<rparr>,
       cfg_artifacts = \<lparr>arc_upload = False, arc_object_prefix = [], arc_backend = [], arc_bucket = [],
   arc_endpoint = [], arc_region = [], arc_force_path_style = False\<rparr>,
       cfg_platform = \<lparr>plat_target_os = [], plat_target_arch = [], plat_run_mode = [],
   plat_container_execution_mode = [],
   plat_feature_gates = \<lparr>fs_go_basic_runner = False, fs_go_manual_sdk = False, fs_go_autosdk_bridge = False,
   fs_obi_ebpf = False, fs_k8s_operator_go_inject = False, fs_local_docker_mode = False,
   fs_local_direct_mode = False, fs_stg_linux_mode = False,
   fs_local_apple_container_mode = False, fs_local_orbstack_machine_mode = False\<rparr>\<rparr>,
       cfg_execution = \<lparr>ex_backend = [], ex_provider = [], ex_runtime_profile = []\<rparr>,
       cfg_backend = \<lparr>bk_kind = []\<rparr>,
       cfg_runtime = \<lparr>rt_profile = [], rt_class_name = []\<rparr>,
       cfg_kata = \<lparr>kata_enabled = False, kata_runtime_class_name = [], kata_containerd_runtime = [],
   kata_require_hardware_virtualization = False, kata_fail_if_unavailable = False\<rparr>,
       cfg_devcontainer = \<lparr>dc_cli_path = [], dc_workspace_folder = [], dc_config_path = [],
   dc_mount_workspace_git_root = False, dc_remove_existing_container = False,
   dc_skip_post_create = False, dc_run_user_commands = False, dc_up_timeout_sec = 0,
   dc_exec_timeout_sec = 0, dc_id_label_prefix = [], dc_log_level = [], dc_cleanup_mode = []\<rparr>,
       cfg_docker = \<lparr>dk_provider = [], dk_binary = [], dk_compose_binary = [], dk_context = []\<rparr>,
       cfg_k8s = \<lparr>k8_provider = [], k8_kubeconfig = [], k8_context = [], k8_namespace = [],
   k8_service_account_name = []\<rparr>,
       cfg_apple_container = \<lparr>apc_enabled = False, apc_binary = [], apc_workspace_root = [], apc_image = [],
   apc_create_timeout_sec = 0, apc_exec_timeout_sec = 0, apc_cleanup_mode = [],
   apc_upload_strategy = [], apc_download_strategy = []\<rparr>,
       cfg_orbstack = \<lparr>orb_enabled = False, orb_orb_binary = [], orb_orbctl_binary = [],
   orb_docker_provider_enabled = False, orb_machine_enabled = False, orb_machine_name = [],
   orb_machine_auto_create = False, orb_machine_distro = [], orb_machine_workspace_root = [],
   orb_machine_cleanup_mode = [], orb_upload_strategy = [], orb_download_strategy = [],
   orb_k8s_provider_enabled = False, orb_docker_context = [], orb_kube_context = []\<rparr>,
       cfg_opensandbox = \<lparr>osb_base_url = [], osb_api_key = [], osb_runtime = [], osb_network_mode = [],
   osb_create_timeout_sec = 0, osb_poll_interval_ms = 0, osb_cleanup_mode = [],
   osb_ttl_sec = 0, osb_renew_on_long_run = False, osb_workspace_root = [],
   osb_upload_strategy = [], osb_download_strategy = []\<rparr>,
       cfg_sandbox = \<lparr>sb_image = [], sb_entrypoint = [], sb_env = [], sb_cpu = [], sb_memory = []\<rparr>,
       cfg_provider = \<lparr>pv_prefer_opensandbox = False, pv_require_capabilities = [], pv_fallback_order = [],
   pv_mac_local_preferred = []\<rparr>,
       cfg_go = \<lparr>gc_classify_commands = False, gc_detect_go_env = False,
   gc_manual_sdk_helper_enabled = False, gc_autosdk_bridge_enabled = False,
   gc_obi_enabled = False, gc_obi_config_path = [], gc_extra_env = []\<rparr>,
       cfg_metadata = []\<rparr>"

definition zero_policy_config :: policy_config where
  "zero_policy_config =
    \<lparr>pol_filesystem = \<lparr>fsp_read_allow = [], fsp_write_allow = [], fsp_deny = []\<rparr>,
       pol_network_profiles = [],
       pol_tools = \<lparr>tp_allow = [], tp_deny_patterns = []\<rparr>,
       pol_secrets = \<lparr>sp_inject_env = [], sp_deny_export_to_logs = False\<rparr>,
       pol_resources = \<lparr>rp_timeout_sec_default = 0, rp_max_memory_mb = 0, rp_max_log_bytes = 0,
   rp_max_artifact_bytes = 0\<rparr>\<rparr>"

end
