(* ===== verification/Config_Stable.thy ===== *)
theory Config_Stable
  imports Config_Normalize Config_Defaults
begin

text \<open>
  What normalisation establishes: for each block of \<open>normalizeRunConfigWithBase\<close> the condition under
  which it changes nothing, the proof that the block brings it about and that later blocks keep it,
  and from these that normalising twice is normalising once.
\<close>

named_theorems norm_simps \<open>the fields that a block of the normalisation keeps\<close>

section \<open>Normalisation is idempotent\<close>

text \<open>What each later block establishes, as a condition under which it changes nothing.\<close>

definition class_settled :: "run_config \<Rightarrow> bool" where
  "class_settled cfg \<longleftrightarrow>
     (profile_of cfg = RuntimeProfileKata \<longrightarrow> kata_enabled (cfg_kata cfg)) \<and>
     (if rt_class_name (cfg_runtime cfg) = []
      then RequiresRuntimeClass (ex_runtime_profile (cfg_execution cfg)) \<longrightarrow>
             kata_runtime_class_name (cfg_kata cfg) = []
      else kata_runtime_class_name (cfg_kata cfg) = rt_class_name (cfg_runtime cfg))"

definition roots_settled :: "run_config \<Rightarrow> bool" where
  "roots_settled cfg \<longleftrightarrow>
     (dc_workspace_folder (cfg_devcontainer cfg) = [] \<longrightarrow> rs_workspace_dir (cfg_run cfg) = []) \<and>
     (orb_machine_workspace_root (cfg_orbstack cfg) = [] \<longrightarrow> rs_workspace_dir (cfg_run cfg) = []) \<and>
     apc_workspace_root (cfg_apple_container cfg) \<noteq> [] \<and> k8_namespace (cfg_k8s cfg) \<noteq> [] \<and>
     k8_provider (cfg_k8s cfg) \<noteq> [] \<and> dk_provider (cfg_docker cfg) \<noteq> [] \<and>
     dk_binary (cfg_docker cfg) \<noteq> [] \<and> dk_compose_binary (cfg_docker cfg) \<noteq> []"

definition docker_context_settled :: "run_config \<Rightarrow> bool" where
  "docker_context_settled cfg \<longleftrightarrow>
     (dk_provider (cfg_docker cfg) = DockerProviderOrbStack \<longrightarrow>
        orb_docker_context (cfg_orbstack cfg) \<noteq> [] \<and>
        (dk_context (cfg_docker cfg) = [] \<or> dk_context (cfg_docker cfg) = ''default'' \<longrightarrow>
           dk_context (cfg_docker cfg) = orb_docker_context (cfg_orbstack cfg)))"

definition k8s_context_settled :: "run_config \<Rightarrow> bool" where
  "k8s_context_settled cfg \<longleftrightarrow>
     (if k8_provider (cfg_k8s cfg) = K8sProviderOrbStackLocal
      then orb_kube_context (cfg_orbstack cfg) \<noteq> [] \<and> k8_context (cfg_k8s cfg) \<noteq> []
      else k8_context (cfg_k8s cfg) = [] \<longrightarrow> DefaultK8sContext (k8_provider (cfg_k8s cfg)) = [])"

definition images_settled :: "run_config \<Rightarrow> bool" where
  "images_settled cfg \<longleftrightarrow>
     (sb_image (cfg_sandbox cfg) = [] \<longleftrightarrow> rs_image (cfg_run cfg) = []) \<and>
     (kind_of cfg = BackendKindAppleContainer \<and> rs_image (cfg_run cfg) = [] \<longrightarrow>
        apc_image (cfg_apple_container cfg) = []) \<and>
     osb_workspace_root (cfg_opensandbox cfg) \<noteq> []"

lemma or_default_simps [simp]:
  "or_default v d = [] \<longleftrightarrow> v = [] \<and> d = []" "v \<noteq> [] \<Longrightarrow> or_default v d = v" "or_default [] d = d"
  by (auto simp: or_default_def)

lemma normalizeRuntimeClass_fields [norm_simps]:
  "cfg_run (normalizeRuntimeClass c) = cfg_run c"
  "cfg_execution (normalizeRuntimeClass c) = cfg_execution c"
  "cfg_collector (normalizeRuntimeClass c) = cfg_collector c"
  "cfg_devcontainer (normalizeRuntimeClass c) = cfg_devcontainer c"
  "cfg_platform (normalizeRuntimeClass c) = cfg_platform c"
  "cfg_backend (normalizeRuntimeClass c) = cfg_backend c"
  "cfg_docker (normalizeRuntimeClass c) = cfg_docker c"
  "cfg_k8s (normalizeRuntimeClass c) = cfg_k8s c"
  "cfg_opensandbox (normalizeRuntimeClass c) = cfg_opensandbox c"
  "rt_profile (cfg_runtime (normalizeRuntimeClass c)) = rt_profile (cfg_runtime c)"
  by (simp_all add: normalizeRuntimeClass_def Let_def)

lemma normalizeRoots_fields [norm_simps]:
  "rs_workspace_dir (cfg_run (normalizeRoots c)) = rs_workspace_dir (cfg_run c)"
  "rs_artifact_dir (cfg_run (normalizeRoots c)) = rs_artifact_dir (cfg_run c)"
  "cfg_collector (normalizeRoots c) = cfg_collector c"
  "dc_config_path (cfg_devcontainer (normalizeRoots c)) = dc_config_path (cfg_devcontainer c)"
  "k8_kubeconfig (cfg_k8s (normalizeRoots c)) = k8_kubeconfig (cfg_k8s c)"
  "cfg_execution (normalizeRoots c) = cfg_execution c"
  "cfg_platform (normalizeRoots c) = cfg_platform c"
  "cfg_backend (normalizeRoots c) = cfg_backend c"
  "cfg_runtime (normalizeRoots c) = cfg_runtime c"
  "cfg_kata (normalizeRoots c) = cfg_kata c"
  "cfg_opensandbox (normalizeRoots c) = cfg_opensandbox c"
  "dk_provider (cfg_docker (normalizeRoots c)) = or_default (dk_provider (cfg_docker c)) DockerProviderDocker"
  "k8_provider (cfg_k8s (normalizeRoots c)) = or_default (k8_provider (cfg_k8s c)) K8sProviderRemote"
  "dc_workspace_folder (cfg_devcontainer (normalizeRoots c)) =
     or_default (dc_workspace_folder (cfg_devcontainer c)) (rs_workspace_dir (cfg_run c))"
  by (simp_all add: normalizeRoots_def)

lemma normalizeDockerContext_fields [norm_simps]:
  "cfg_run (normalizeDockerContext c) = cfg_run c"
  "cfg_collector (normalizeDockerContext c) = cfg_collector c"
  "cfg_devcontainer (normalizeDockerContext c) = cfg_devcontainer c"
  "cfg_execution (normalizeDockerContext c) = cfg_execution c"
  "cfg_platform (normalizeDockerContext c) = cfg_platform c"
  "cfg_backend (normalizeDockerContext c) = cfg_backend c"
  "cfg_runtime (normalizeDockerContext c) = cfg_runtime c"
  "cfg_kata (normalizeDockerContext c) = cfg_kata c"
  "cfg_k8s (normalizeDockerContext c) = cfg_k8s c"
  "cfg_apple_container (normalizeDockerContext c) = cfg_apple_container c"
  "cfg_opensandbox (normalizeDockerContext c) = cfg_opensandbox c"
  "dk_provider (cfg_docker (normalizeDockerContext c)) = dk_provider (cfg_docker c)"
  "dk_binary (cfg_docker (normalizeDockerContext c)) = dk_binary (cfg_docker c)"
  "dk_compose_binary (cfg_docker (normalizeDockerContext c)) = dk_compose_binary (cfg_docker c)"
  "orb_machine_workspace_root (cfg_orbstack (normalizeDockerContext c)) = orb_machine_workspace_root (cfg_orbstack c)"
  "orb_kube_context (cfg_orbstack (normalizeDockerContext c)) = orb_kube_context (cfg_orbstack c)"
  by (simp_all add: normalizeDockerContext_def Let_def)

lemma normalizeK8sContext_fields [norm_simps]:
  "cfg_run (normalizeK8sContext c) = cfg_run c"
  "cfg_collector (normalizeK8sContext c) = cfg_collector c"
  "cfg_devcontainer (normalizeK8sContext c) = cfg_devcontainer c"
  "cfg_execution (normalizeK8sContext c) = cfg_execution c"
  "cfg_platform (normalizeK8sContext c) = cfg_platform c"
  "cfg_backend (normalizeK8sContext c) = cfg_backend c"
  "cfg_runtime (normalizeK8sContext c) = cfg_runtime c"
  "cfg_kata (normalizeK8sContext c) = cfg_kata c"
  "cfg_docker (normalizeK8sContext c) = cfg_docker c"
  "cfg_apple_container (normalizeK8sContext c) = cfg_apple_container c"
  "cfg_opensandbox (normalizeK8sContext c) = cfg_opensandbox c"
  "k8_provider (cfg_k8s (normalizeK8sContext c)) = k8_provider (cfg_k8s c)"
  "k8_kubeconfig (cfg_k8s (normalizeK8sContext c)) = k8_kubeconfig (cfg_k8s c)"
  "k8_namespace (cfg_k8s (normalizeK8sContext c)) = k8_namespace (cfg_k8s c)"
  "orb_machine_workspace_root (cfg_orbstack (normalizeK8sContext c)) = orb_machine_workspace_root (cfg_orbstack c)"
  "orb_docker_context (cfg_orbstack (normalizeK8sContext c)) = orb_docker_context (cfg_orbstack c)"
  by (simp_all add: normalizeK8sContext_def Let_def)

lemma normalizeImages_fields [norm_simps]:
  "rs_workspace_dir (cfg_run (normalizeImages c)) = rs_workspace_dir (cfg_run c)"
  "rs_artifact_dir (cfg_run (normalizeImages c)) = rs_artifact_dir (cfg_run c)"
  "cfg_collector (normalizeImages c) = cfg_collector c"
  "cfg_devcontainer (normalizeImages c) = cfg_devcontainer c"
  "cfg_execution (normalizeImages c) = cfg_execution c"
  "cfg_platform (normalizeImages c) = cfg_platform c"
  "cfg_backend (normalizeImages c) = cfg_backend c"
  "cfg_runtime (normalizeImages c) = cfg_runtime c"
  "cfg_kata (normalizeImages c) = cfg_kata c"
  "cfg_docker (normalizeImages c) = cfg_docker c"
  "cfg_k8s (normalizeImages c) = cfg_k8s c"
  "cfg_orbstack (normalizeImages c) = cfg_orbstack c"
  "cfg_apple_container (normalizeImages c) = cfg_apple_container c"
  "osb_runtime (cfg_opensandbox (normalizeImages c)) = osb_runtime (cfg_opensandbox c)"
  by (simp_all add: normalizeImages_def Let_def)


text \<open>A block leaves a configuration alone that satisfies its condition, and establishes it.\<close>

lemma normalizeRuntimeClass_id: "class_settled c \<Longrightarrow> normalizeRuntimeClass c = c"
  by (auto simp: class_settled_def normalizeRuntimeClass_def Let_def split: if_splits)

lemma normalizeRuntimeClass_settles: "class_settled (normalizeRuntimeClass c)"
  by (simp add: class_settled_def normalizeRuntimeClass_def Let_def)

lemma normalizeRoots_id: "roots_settled c \<Longrightarrow> normalizeRoots c = c"
  by (simp add: roots_settled_def normalizeRoots_def or_default_def)

lemma normalizeRoots_settles: "roots_settled (normalizeRoots c)"
  by (simp add: roots_settled_def normalizeRoots_def)

lemma normalizeDockerContext_id: "docker_context_settled c \<Longrightarrow> normalizeDockerContext c = c"
  by (auto simp: docker_context_settled_def normalizeDockerContext_def or_default_def Let_def)

lemma normalizeDockerContext_settles: "docker_context_settled (normalizeDockerContext c)"
  by (simp add: docker_context_settled_def normalizeDockerContext_def or_default_def Let_def)

lemma normalizeK8sContext_id: "k8s_context_settled c \<Longrightarrow> normalizeK8sContext c = c"
  by (auto simp: k8s_context_settled_def normalizeK8sContext_def or_default_def Let_def)

lemma normalizeK8sContext_settles: "k8s_context_settled (normalizeK8sContext c)"
  by (simp add: k8s_context_settled_def normalizeK8sContext_def or_default_def Let_def)

lemma normalizeImages_id: "images_settled c \<Longrightarrow> normalizeImages c = c"
  by (auto simp: images_settled_def normalizeImages_def or_default_def Let_def)

lemma normalizeImages_settles: "images_settled (normalizeImages c)"
  by (simp add: images_settled_def normalizeImages_def or_default_def Let_def)

text \<open>Later blocks keep the conditions of the earlier ones.\<close>

lemma execution_settled_cong:
  assumes "cfg_execution c' = cfg_execution c" "cfg_platform c' = cfg_platform c"
    "cfg_backend c' = cfg_backend c" "profile_of c' = profile_of c"
    "dk_provider (cfg_docker c') = dk_provider (cfg_docker c)"
    "k8_provider (cfg_k8s c') = k8_provider (cfg_k8s c)"
    "osb_runtime (cfg_opensandbox c') = osb_runtime (cfg_opensandbox c)"
  shows "execution_settled c' = execution_settled c"
proof -
  have "settled_mode c' = settled_mode c"
    using assms by (simp add: settled_mode_def inferRunModeFromExecution_def Let_def
        cong: if_cong split del: if_split)
  then show ?thesis by (simp add: execution_settled_def assms)
qed

lemma or_default_orbstack [simp]:
  "or_default d DockerProviderDocker = DockerProviderOrbStack \<longleftrightarrow> d = DockerProviderOrbStack"
  "or_default k K8sProviderRemote = K8sProviderOrbStackLocal \<longleftrightarrow> k = K8sProviderOrbStackLocal"
  by (simp_all add: or_default_def)

lemma profileForBackend_or_default:
  "profileForBackend b kind (or_default d DockerProviderDocker) (or_default k K8sProviderRemote) p =
   profileForBackend b kind d k p"
  by (simp only: profileForBackend_def or_default_orbstack)

lemma execution_settled_roots: "execution_settled c \<Longrightarrow> execution_settled (normalizeRoots c)"
proof -
  assume c: "execution_settled c"
  have mode: "settled_mode (normalizeRoots c) = settled_mode c"
    by (rule settled_mode_cong) (simp_all add: norm_simps)
  have "settled_docker e (or_default d DockerProviderDocker) = or_default d DockerProviderDocker"
    if "settled_docker e d = d" for e d
    using that by (auto simp: settled_docker_def or_default_def split: if_splits)
  moreover have "settled_k8s e (or_default k K8sProviderRemote) = or_default k K8sProviderRemote"
    if "settled_k8s e k = k" for e k
    using that LegacyK8s_not_Nil by (auto simp: settled_k8s_def or_default_def split: if_splits)
  moreover have "settled_profile e kind (or_default d DockerProviderDocker) (or_default k K8sProviderRemote)
      = settled_profile e kind d k" for e kind d k
    unfolding settled_profile_def by (rule profileForBackend_or_default)
  ultimately show ?thesis using c
    by (simp add: execution_settled_def Let_def mode norm_simps)
qed

lemma class_settled_cong:
  assumes "cfg_execution c' = cfg_execution c" "cfg_runtime c' = cfg_runtime c" "cfg_kata c' = cfg_kata c"
  shows "class_settled c' = class_settled c"
  by (simp add: class_settled_def assms)

lemma roots_settled_images: "roots_settled (normalizeImages c) = roots_settled c"
  by (simp add: roots_settled_def norm_simps)

lemma roots_settled_k8s: "roots_settled (normalizeK8sContext c) = roots_settled c"
  by (simp add: roots_settled_def norm_simps)

lemma roots_settled_docker: "roots_settled (normalizeDockerContext c) = roots_settled c"
  by (simp add: roots_settled_def norm_simps)

text \<open>The six paths, cleaned relative to no base directory.\<close>

definition config_paths :: "run_config \<Rightarrow> string list" where
  "config_paths cfg =
     [rs_workspace_dir (cfg_run cfg), rs_artifact_dir (cfg_run cfg),
      col_local_collector_config (cfg_collector cfg), dc_config_path (cfg_devcontainer cfg),
      dc_workspace_folder (cfg_devcontainer cfg), k8_kubeconfig (cfg_k8s cfg)]"

definition paths_settled :: "host \<Rightarrow> run_config \<Rightarrow> bool" where
  "paths_settled h cfg \<longleftrightarrow> (\<forall>p\<in>set (config_paths cfg). cleanPath h p = p)"

lemma cleanPathFromBase_Nil [simp]: "cleanPathFromBase h [] p = cleanPath h p"
  by (simp add: cleanPathFromBase_def Let_def)

lemma normalizePaths_id: "paths_settled h c \<Longrightarrow> normalizePaths h [] c = c"
  by (simp add: paths_settled_def config_paths_def normalizePaths_def Let_def)

lemma config_paths_normalizePaths:
  "config_paths (normalizePaths h [] c) = map (cleanPath h) (config_paths c)"
  by (simp add: config_paths_def normalizePaths_def Let_def)

lemma normalizeExecutionBlock_fields [norm_simps]:
  "cfg_run (normalizeExecutionBlock c) = cfg_run c"
  "cfg_collector (normalizeExecutionBlock c) = cfg_collector c"
  "cfg_devcontainer (normalizeExecutionBlock c) = cfg_devcontainer c"
  "k8_kubeconfig (cfg_k8s (normalizeExecutionBlock c)) = k8_kubeconfig (cfg_k8s c)"
  by (simp_all add: normalizeExecutionBlock_normal execution_normal_form_def Let_def)

definition settled :: "host \<Rightarrow> run_config \<Rightarrow> bool" where
  "settled h c \<longleftrightarrow> paths_settled h c \<and> execution_settled c \<and> class_settled c \<and> roots_settled c \<and>
     docker_context_settled c \<and> k8s_context_settled c \<and> images_settled c"

lemma NormalizeRunConfig_id: "settled h c \<Longrightarrow> NormalizeRunConfig h c = c"
  by (simp add: settled_def NormalizeRunConfig_def normalizeRunConfigWithBase_def normalizePaths_id
      execution_block_id normalizeRuntimeClass_id normalizeRoots_id normalizeDockerContext_id
      normalizeK8sContext_id normalizeImages_id)

lemma NormalizeRunConfig_settles:
  assumes "\<forall>p\<in>set (config_paths c). cleanPath h (cleanPath h p) = cleanPath h p"
  shows "settled h (NormalizeRunConfig h c)"
proof -
  define c0 where "c0 = normalizePaths h [] c"
  define c1 where "c1 = normalizeExecutionBlock c0"
  define c2 where "c2 = normalizeRuntimeClass c1"
  define c3 where "c3 = normalizeRoots c2"
  define c4 where "c4 = normalizeDockerContext c3"
  define c5 where "c5 = normalizeK8sContext c4"
  define c6 where "c6 = normalizeImages c5"
  have n: "NormalizeRunConfig h c = c6"
    by (simp add: NormalizeRunConfig_def normalizeRunConfigWithBase_def c0_def c1_def c2_def c3_def
        c4_def c5_def c6_def)
  have "paths_settled h c0"
    using assms by (simp add: paths_settled_def c0_def config_paths_normalizePaths)
  then have paths: "paths_settled h c6"
    by (simp add: paths_settled_def config_paths_def norm_simps c1_def c2_def c3_def c4_def c5_def c6_def
        or_default_def)
  have "execution_settled c2"
    using execution_block_settles [of c0] unfolding c2_def c1_def
    by (subst execution_settled_cong [of _ "normalizeExecutionBlock c0"]) (simp_all add: norm_simps)
  then have e3: "execution_settled c3" unfolding c3_def by (rule execution_settled_roots)
  have execution: "execution_settled c6"
    by (subst execution_settled_cong [of _ c3]) (simp_all add: norm_simps c4_def c5_def c6_def e3)
  have cls: "class_settled c6"
    by (subst class_settled_cong [of _ c2])
      (simp_all add: norm_simps c3_def c4_def c5_def c6_def c2_def normalizeRuntimeClass_settles)
  have roots: "roots_settled c6"
    by (simp add: c6_def c5_def c4_def c3_def roots_settled_images roots_settled_k8s roots_settled_docker
        normalizeRoots_settles)
  have docker: "docker_context_settled c6"
    using normalizeDockerContext_settles [of c3]
    by (simp add: docker_context_settled_def c6_def c5_def c4_def norm_simps)
  have k8s: "k8s_context_settled c6"
    using normalizeK8sContext_settles [of c4]
    by (simp add: k8s_context_settled_def c6_def c5_def norm_simps cong: if_cong)
  have images: "images_settled c6"
    by (simp add: c6_def normalizeImages_settles)
  from paths execution cls roots docker k8s images show ?thesis
    by (simp add: settled_def n)
qed


text \<open>A path whose cleaning cannot expose a leading \<open>~\<close> that was not there before.\<close>

definition plain_path :: "string \<Rightarrow> bool" where
  "plain_path p \<longleftrightarrow> has_prefix p ''~'' \<or> \<not> has_prefix (path_clean p) ''~''"

lemma is_abs_no_tilde: "is_abs p \<Longrightarrow> \<not> has_prefix p ''~''"
  by (cases p) (auto simp: is_abs_def has_prefix_def)

lemma path_join_two:
  "a \<noteq> [] \<Longrightarrow> path_join [a, b] = path_clean (if b = [] then a else a @ ''/'' @ b)"
  by (simp add: path_join_def)

lemma is_abs_append: "a \<noteq> [] \<Longrightarrow> is_abs (a @ b) = is_abs a"
  by (simp add: is_abs_Cons)

lemma cleanPath_idem:
  assumes "\<forall>home. user_home_dir h = Some home \<longrightarrow> is_abs home" "plain_path p"
  shows "cleanPath h (cleanPath h p) = cleanPath h p"
proof (cases "user_home_dir h")
  case None
  then show ?thesis by (simp add: cleanPath_def)
next
  case (Some home)
  then have home: "home \<noteq> []" by (auto simp: user_home_dir_def Let_def split: if_splits)
  show ?thesis
  proof (cases "p \<noteq> [] \<and> has_prefix p ''~''")
    case True
    let ?q = "path_clean (if trim_prefix p ''~'' = [] then home else home @ ''/'' @ trim_prefix p ''~'')"
    have "cleanPath h p = ?q" using True Some home by (simp add: cleanPath_def path_join_two)
    moreover have "is_abs ?q" using assms(1) Some home by (simp add: is_abs_append)
    ultimately show ?thesis using is_abs_no_tilde [of ?q] by (simp add: cleanPath_def)
  next
    case False
    with assms(2) show ?thesis by (auto simp: cleanPath_def plain_path_def has_prefix_def)
  qed
qed

section \<open>Properties\<close>

text \<open>
  C15: normalising a run configuration a second time changes nothing, whatever its fields hold, when
  \<open>HOME\<close> is an absolute path and none of the six paths hides a leading tilde behind a \<open>./\<close>. The
  engine relies on it: it normalises a configuration that the loader has already normalised.
\<close>

theorem NormalizeRunConfig_idempotent:
  assumes "\<forall>home. user_home_dir h = Some home \<longrightarrow> is_abs home"
    and "\<forall>p\<in>set (config_paths cfg). plain_path p"
  shows "NormalizeRunConfig h (NormalizeRunConfig h cfg) = NormalizeRunConfig h cfg"
  using assms cleanPath_idem by (intro NormalizeRunConfig_id NormalizeRunConfig_settles) blast

definition sample_host :: host where
  "sample_host = \<lparr>host_env = [(''HOME'', ''/root''), (''PATH'', ''/usr/bin:/bin'')],
     host_cwd = Some ''/work'', host_goos = ''linux'', host_goarch = ''amd64''\<rparr>"

lemma sample_home: "user_home_dir sample_host = Some ''/root''"
  by code_simp

lemma default_paths_plain: "\<forall>p\<in>set (config_paths DefaultRunConfig). plain_path p"
  by code_simp

theorem NormalizeRunConfig_idempotent_witness:
  "NormalizeRunConfig sample_host (NormalizeRunConfig sample_host DefaultRunConfig)
     = NormalizeRunConfig sample_host DefaultRunConfig"
proof (rule NormalizeRunConfig_idempotent)
  show "\<forall>home. user_home_dir sample_host = Some home \<longrightarrow> is_abs home"
    by (simp add: sample_home is_abs_Cons)
qed (rule default_paths_plain)

text \<open>
  Without the condition on the tilde the second normalisation moves the run: a workspace
  \<open>./~data\<close> is first cleaned to \<open>~data\<close>, a directory of the working directory, and then taken for
  a directory of the user's home.
\<close>

theorem tilde_normalised_twice:
  "let once = NormalizeRunConfig sample_host
         (DefaultRunConfig\<lparr>cfg_run := (cfg_run DefaultRunConfig)\<lparr>rs_workspace_dir := ''./~data''\<rparr>\<rparr>)
   in rs_workspace_dir (cfg_run once) = ''~data'' \<and>
      rs_workspace_dir (cfg_run (NormalizeRunConfig sample_host once)) = ''/root/data''"
  by code_simp

end
