(* ===== verification/Config_Validate.thy ===== *)
theory Config_Validate
  imports Config_Stable
begin

text \<open>
  \<open>internal/config/validate.go\<close> and the loading half of \<open>internal/config/loader.go\<close>. A validator is
  a sequence of guards, each with the error it returns; the first guard that holds decides.
  Reading a file and parsing YAML are parameters of the loaders. The lemmas show what a
  configuration satisfies that passes, and that the defaults pass on every host.
\<close>

section \<open>Guards\<close>

fun first_failure :: "(bool \<times> go_error) list \<Rightarrow> go_error option" where
  "first_failure [] = None"
| "first_failure ((bad, e) # rest) = (if bad then Some e else first_failure rest)"

definition or_else :: "go_error option \<Rightarrow> go_error option \<Rightarrow> go_error option" where
  "or_else a b = (case a of Some e \<Rightarrow> Some e | None \<Rightarrow> b)"

declare first_failure.simps(2) [simp del]

lemma first_failure_None [simp]: "first_failure gs = None \<longleftrightarrow> (\<forall>g\<in>set gs. \<not> fst g)"
  by (induction gs rule: first_failure.induct) (auto simp: first_failure.simps)

lemma or_else_None [simp]: "or_else a b = None \<longleftrightarrow> a = None \<and> b = None"
  by (cases a) (auto simp: or_else_def)

definition invalidSchema :: "string \<Rightarrow> go_error" where
  "invalidSchema message =
     RunnerError ErrorCodeConfigInvalidSchema message False [] [] [] None"

section \<open>Run configurations\<close>

definition backendCreatesSandbox :: "backend_kind \<Rightarrow> bool" where
  "backendCreatesSandbox kind \<longleftrightarrow>
     kind \<in> {BackendKindOpenSandbox, BackendKindDevContainer, BackendKindAppleContainer,
             BackendKindOrbStackMachine}"

definition requires_mode :: "backend_kind \<Rightarrow> run_mode \<Rightarrow> go_error" where
  "requires_mode kind mode =
     invalidSchema (''backend.kind='' @ kind @ '' requires platform.run_mode='' @ mode)"

definition validateBackendRunMode :: "run_config \<Rightarrow> go_error option" where
  "validateBackendRunMode cfg =
     (let kind = kind_of cfg; mode = mode_of cfg;
          need = (\<lambda>m. if mode \<noteq> m then Some (requires_mode kind m) else None)
      in if kind = BackendKindDirect then need RunModeLocalDirect
         else if kind = BackendKindDocker then need RunModeLocalDocker
         else if kind = BackendKindDevContainer then need RunModeLocalDevContainer
         else if kind = BackendKindK8s then need RunModeSTGLinux
         else if kind = BackendKindAppleContainer then need RunModeLocalAppleContainer
         else if kind = BackendKindOrbStackMachine then need RunModeLocalOrbStackMachine
         else if kind = BackendKindOpenSandbox then
           (if mode \<in> {RunModeLocalOpenSandboxDocker, RunModeSTGOpenSandboxK8s} then None
            else Some (invalidSchema (''backend.kind='' @ kind @ '' requires opensandbox run_mode'')))
         else None)"

definition requiresRuntimeClassForBackend :: "run_config \<Rightarrow> bool" where
  "requiresRuntimeClassForBackend cfg \<longleftrightarrow>
     (let b = ex_backend (cfg_execution cfg) in
      if b = ExecutionBackendK8s then True
      else if b = ExecutionBackendOpenSandbox
        then osb_runtime (cfg_opensandbox cfg) = OpenSandboxRuntimeKubernetes
      else False)"

definition auto_or :: "string \<Rightarrow> string \<Rightarrow> string" where
  "auto_or host_value v = (if v = [] \<or> v = ''auto'' then host_value else v)"

definition isAppleContainerTarget :: "host \<Rightarrow> string \<Rightarrow> string \<Rightarrow> bool" where
  "isAppleContainerTarget h targetOS targetArch \<longleftrightarrow>
     auto_or (host_goos h) targetOS = ''darwin'' \<and> auto_or (host_goarch h) targetArch = ''arm64''"

definition isDarwinTarget :: "host \<Rightarrow> string \<Rightarrow> bool" where
  "isDarwinTarget h targetOS \<longleftrightarrow> auto_or (host_goos h) targetOS = ''darwin''"

definition validateExecutionRuntime :: "host \<Rightarrow> run_config \<Rightarrow> go_error option" where
  "validateExecutionRuntime h cfg =
     (let e = cfg_execution cfg;
          os = plat_target_os (cfg_platform cfg); arch = plat_target_arch (cfg_platform cfg);
          err = (\<lambda>code msg. RunnerError code msg False [] (ex_backend e) [] None)
      in first_failure [
        (RequiresRuntimeClass (ex_runtime_profile e) \<and> requiresRuntimeClassForBackend cfg \<and>
           RuntimeClassNameForConfig cfg = [],
         err ErrorCodeKataRuntimeClassNotFound
           (''runtime.class_name is required when execution.runtime_profile='' @ ex_runtime_profile e)),
        (ex_backend e = ExecutionBackendAppleContainer \<and> \<not> isAppleContainerTarget h os arch,
         err ErrorCodeAppleContainerUnsupported
           ''apple-container backend is supported only on darwin/arm64''),
        (ex_backend e = ExecutionBackendMachine \<and> \<not> isDarwinTarget h os,
         err ErrorCodeRuntimeProfileUnsupported
           ''machine backend is currently supported only on macOS'')])"

definition known_backends :: "string set" where
  "known_backends = {ExecutionBackendDirect, ExecutionBackendDocker, ExecutionBackendK8s,
     ExecutionBackendOpenSandbox, ExecutionBackendDevContainer, ExecutionBackendAppleContainer,
     ExecutionBackendMachine}"

definition known_providers :: "string set" where
  "known_providers = {ProviderNative, ProviderOrbStack, ProviderKindKind, ProviderMinikube, ProviderK3s,
     ProviderMicroK8s, ProviderDockerDesktop, ProviderColima, ProviderGKE, ProviderEKS, ProviderAKS,
     ProviderOpenSandbox}"

definition known_profiles :: "string set" where
  "known_profiles = {ExecutionRuntimeProfileDefault, ExecutionRuntimeProfileKata,
     ExecutionRuntimeProfileGVisor, ExecutionRuntimeProfileFirecracker}"

definition known_modes :: "string set" where
  "known_modes = {RunModeLocalDirect, RunModeLocalDocker, RunModeLocalDevContainer,
     RunModeLocalAppleContainer, RunModeLocalOrbStackMachine, RunModeSTGLinux,
     RunModeLocalOpenSandboxDocker, RunModeSTGOpenSandboxK8s}"

definition known_kinds :: "string set" where
  "known_kinds = {BackendKindDirect, BackendKindDocker, BackendKindDevContainer,
     BackendKindAppleContainer, BackendKindOrbStackMachine, BackendKindK8s, BackendKindOpenSandbox}"

definition known_runtime_profiles :: "string set" where
  "known_runtime_profiles = {RuntimeProfileDefault, RuntimeProfileNative, RuntimeProfileKata,
     RuntimeProfileGVisor, RuntimeProfileFirecracker, RuntimeProfileAppleContainer,
     RuntimeProfileOrbStackDocker, RuntimeProfileOrbStackK8s, RuntimeProfileOrbStackMachine}"

definition validateSchema :: "run_config \<Rightarrow> go_error option" where
  "validateSchema cfg =
     (let r = cfg_run cfg; e = cfg_execution cfg; mode = mode_of cfg; kind = kind_of cfg in
      first_failure [
        (rs_service_name r = [], invalidSchema ''run.service_name is required''),
        (rs_attempt r \<le> 0, invalidSchema ''run.attempt must be positive''),
        (rs_sandbox_id r = [] \<and> \<not> backendCreatesSandbox kind, invalidSchema ''run.sandbox_id is required''),
        (rs_workspace_dir r = [], invalidSchema ''run.workspace_dir is required''),
        (rs_artifact_dir r = [], invalidSchema ''run.artifact_dir is required''),
        (rs_language r = [], invalidSchema ''run.language is required''),
        (ex_backend e = [], invalidSchema ''execution.backend is required''),
        (ex_backend e \<notin> known_backends,
           invalidSchema (''unsupported execution.backend: '' @ ex_backend e)),
        (ex_provider e = [], invalidSchema ''execution.provider is required''),
        (ex_provider e \<notin> known_providers,
           invalidSchema (''unsupported execution.provider: '' @ ex_provider e)),
        (ex_runtime_profile e = [], invalidSchema ''execution.runtime_profile is required''),
        (ex_runtime_profile e \<notin> known_profiles,
           invalidSchema (''unsupported execution.runtime_profile: '' @ ex_runtime_profile e)),
        (mode = [], invalidSchema ''platform.run_mode is required''),
        (mode \<notin> known_modes, invalidSchema (''unsupported platform.run_mode: '' @ mode)),
        (mode = RunModeLocalDocker \<and> rs_image r = [],
           invalidSchema ''run.image is required for local_docker mode''),
        (kind = [], invalidSchema ''backend.kind is required''),
        (kind \<notin> known_kinds, invalidSchema (''unsupported backend.kind: '' @ kind)),
        (profile_of cfg = [], invalidSchema ''runtime.profile is required''),
        (profile_of cfg \<notin> known_runtime_profiles,
           invalidSchema (''unsupported runtime.profile: '' @ profile_of cfg))])"

definition validateCombination :: "run_config \<Rightarrow> go_error option" where
  "validateCombination cfg =
     (let compatibility = ValidateCompatibility (cfg_execution cfg) in
      if cr_level compatibility = SupportUnsupported then
        Some (RunnerError ErrorCodeUnsupportedExecutionCombo (cr_message compatibility) False []
                (ex_backend (cfg_execution cfg)) [] None)
      else None)"

definition validateBackendFields :: "run_config \<Rightarrow> go_error option" where
  "validateBackendFields cfg =
     (let kind = kind_of cfg; r = cfg_run cfg; orb = cfg_orbstack cfg in
      first_failure [
        (kind = BackendKindOpenSandbox \<and> osb_base_url (cfg_opensandbox cfg) = [],
           invalidSchema ''opensandbox.base_url is required for opensandbox backend''),
        (kind = BackendKindOpenSandbox \<and> sb_image (cfg_sandbox cfg) = [] \<and> rs_image r = [],
           invalidSchema ''sandbox.image or run.image is required for opensandbox backend''),
        (kind = BackendKindDevContainer \<and> dc_cli_path (cfg_devcontainer cfg) = [],
           invalidSchema ''devcontainer.cli_path is required for devcontainer backend''),
        (kind = BackendKindDevContainer \<and> dc_workspace_folder (cfg_devcontainer cfg) = [] \<and>
           rs_workspace_dir r = [],
           invalidSchema ''devcontainer.workspace_folder or run.workspace_dir is required for devcontainer backend''),
        (kind = BackendKindAppleContainer \<and> apc_binary (cfg_apple_container cfg) = [],
           invalidSchema ''apple_container.binary is required for apple-container backend''),
        (kind = BackendKindAppleContainer \<and> rs_image r = [] \<and> apc_image (cfg_apple_container cfg) = [],
           invalidSchema ''run.image or apple_container.image is required for apple-container backend''),
        (kind = BackendKindOrbStackMachine \<and> orb_orbctl_binary orb = [] \<and> orb_orb_binary orb = [],
           invalidSchema ''orbstack.orbctl_binary or orbstack.orb_binary is required for machine backend''),
        (kind = BackendKindOrbStackMachine \<and> orb_machine_name orb = [],
           invalidSchema ''orbstack.machine_name is required for machine backend''),
        (kind = BackendKindDocker \<and>
           dk_provider (cfg_docker cfg) \<notin> {DockerProviderDocker, DockerProviderOrbStack},
           invalidSchema (''unsupported docker.provider: '' @ dk_provider (cfg_docker cfg))),
        (kind = BackendKindK8s \<and> k8_provider (cfg_k8s cfg) \<notin> {K8sProviderRemote,
             K8sProviderOrbStackLocal, K8sProviderMinikube, K8sProviderK3s, K8sProviderMicroK8s},
           invalidSchema (''unsupported k8s.provider: '' @ k8_provider (cfg_k8s cfg)))])"

text \<open>The configuration \<open>ValidateRunConfig\<close> looks at: the execution triple applied once more.\<close>

definition validated_view :: "run_config \<Rightarrow> run_config" where
  "validated_view cfg =
     (let cfg = normalizeExecutionConfig cfg;
          cfg = cfg\<lparr>cfg_execution := (cfg_execution cfg)\<lparr>ex_runtime_profile :=
                  NormalizeExecutionRuntimeProfile (ex_runtime_profile (cfg_execution cfg))\<rparr>\<rparr>
      in set_profile (NormalizeRuntimeProfile (profile_of cfg)) cfg)"

definition ValidateRunConfig :: "host \<Rightarrow> run_config \<Rightarrow> go_error option" where
  "ValidateRunConfig h cfg =
     (let cfg = validated_view cfg in
      or_else (validateSchema cfg)
        (or_else (validateBackendRunMode cfg)
          (or_else (validateExecutionRuntime h cfg)
            (or_else (validateCombination cfg) (validateBackendFields cfg)))))"

section \<open>Policies\<close>

definition ValidatePolicyConfig :: "policy_config \<Rightarrow> go_error option" where
  "ValidatePolicyConfig cfg =
     first_failure [
       (tp_allow (pol_tools cfg) = [], invalidSchema ''tools.allow must not be empty''),
       (tp_deny_patterns (pol_tools cfg) = [], invalidSchema ''tools.deny_patterns must not be empty''),
       (rp_timeout_sec_default (pol_resources cfg) \<le> 0,
          invalidSchema ''resources.timeout_sec_default must be positive'')]"

section \<open>Loading\<close>

text \<open>
  \<open>if v := os.Getenv(name); v != "" { field = f v }\<close>; the variables touch distinct fields, so their
  order does not matter.
\<close>

definition env_override :: "host \<Rightarrow> string \<Rightarrow> (string \<Rightarrow> string) \<Rightarrow> string \<Rightarrow> string" where
  "env_override h name f old = (let v = os_getenv h name in if v \<noteq> [] then f v else old)"

definition applyRunEnvOverrides :: "host \<Rightarrow> run_config \<Rightarrow> run_config" where
  "applyRunEnvOverrides h cfg =
     (let over = env_override h in
      cfg\<lparr>cfg_run := (cfg_run cfg)\<lparr>
             rs_run_id := over ''RUN_ID'' id (rs_run_id (cfg_run cfg)),
             rs_attempt := (case (if os_getenv h ''ATTEMPT'' = [] then None else sscanf_int (os_getenv h ''ATTEMPT'')) of
               None \<Rightarrow> rs_attempt (cfg_run cfg) | Some n \<Rightarrow> n),
             rs_sandbox_id := over ''SANDBOX_ID'' id (rs_sandbox_id (cfg_run cfg)),
             rs_otlp_endpoint := over ''OTEL_EXPORTER_OTLP_ENDPOINT'' id (rs_otlp_endpoint (cfg_run cfg))\<rparr>,
         cfg_platform := (cfg_platform cfg)\<lparr>
             plat_run_mode := over ''SANDBOX_RUN_MODE'' id (plat_run_mode (cfg_platform cfg))\<rparr>,
         cfg_backend := (cfg_backend cfg)\<lparr>
             bk_kind := over ''SANDBOX_BACKEND_KIND'' id (bk_kind (cfg_backend cfg))\<rparr>,
         cfg_runtime := (cfg_runtime cfg)\<lparr>
             rt_profile := over ''SANDBOX_RUNTIME_PROFILE'' NormalizeRuntimeProfile (rt_profile (cfg_runtime cfg)),
             rt_class_name := over ''SANDBOX_RUNTIME_CLASS_NAME'' id (rt_class_name (cfg_runtime cfg))\<rparr>,
         cfg_docker := (cfg_docker cfg)\<lparr>
             dk_provider := over ''DOCKER_PROVIDER'' id (dk_provider (cfg_docker cfg)),
             dk_context := over ''DOCKER_CONTEXT'' id (dk_context (cfg_docker cfg))\<rparr>,
         cfg_k8s := (cfg_k8s cfg)\<lparr>
             k8_provider := over ''K8S_PROVIDER'' id (k8_provider (cfg_k8s cfg)),
             k8_kubeconfig := over ''KUBECONFIG'' id (k8_kubeconfig (cfg_k8s cfg)),
             k8_context := over ''K8S_CONTEXT'' id (k8_context (cfg_k8s cfg))\<rparr>,
         cfg_opensandbox := (cfg_opensandbox cfg)\<lparr>
             osb_base_url := over ''OPENSANDBOX_BASE_URL'' id (osb_base_url (cfg_opensandbox cfg)),
             osb_api_key := over ''OPENSANDBOX_API_KEY'' id (osb_api_key (cfg_opensandbox cfg)),
             osb_runtime := over ''OPENSANDBOX_RUNTIME'' id (osb_runtime (cfg_opensandbox cfg)),
             osb_network_mode := over ''OPENSANDBOX_NETWORK_MODE'' id (osb_network_mode (cfg_opensandbox cfg))\<rparr>,
         cfg_devcontainer := (cfg_devcontainer cfg)\<lparr>
             dc_cli_path := over ''DEVCONTAINER_CLI_PATH'' id (dc_cli_path (cfg_devcontainer cfg))\<rparr>,
         cfg_apple_container := (cfg_apple_container cfg)\<lparr>
             apc_binary := over ''APPLE_CONTAINER_BINARY'' id (apc_binary (cfg_apple_container cfg))\<rparr>,
         cfg_orbstack := (cfg_orbstack cfg)\<lparr>
             orb_orb_binary := over ''ORBSTACK_ORB_BINARY'' id (orb_orb_binary (cfg_orbstack cfg)),
             orb_orbctl_binary := over ''ORBSTACK_ORBCTL_BINARY'' id (orb_orbctl_binary (cfg_orbstack cfg))\<rparr>\<rparr>)"

text \<open>
  The loaders return a configuration and an error side by side, as the Go functions do. Reading the
  file and unmarshalling it over the defaults are the arguments \<open>read_file\<close> and \<open>unmarshal\<close>.
\<close>

definition LoadRunConfig ::
  "host \<Rightarrow> (string \<Rightarrow> go_error + string) \<Rightarrow> (string \<Rightarrow> run_config \<Rightarrow> go_error + run_config)
     \<Rightarrow> string \<Rightarrow> run_config \<times> go_error option" where
  "LoadRunConfig h read_file unmarshal path =
     (let cfg = DefaultRunConfig in
      if path = [] then
        (let cfg = normalizeRunConfigWithBase h [] (applyRunEnvOverrides h cfg)
         in (cfg, ValidateRunConfig h cfg))
      else (case read_file path of
         Inl e \<Rightarrow> (zero_run_config, Some (WrapError ''read run config: '' e))
       | Inr data \<Rightarrow> (case unmarshal data cfg of
            Inl e \<Rightarrow> (zero_run_config, Some (WrapError ''parse run config: '' e))
          | Inr cfg \<Rightarrow>
              (let cfg = normalizeRunConfigWithBase h (configBaseDir h path) (applyRunEnvOverrides h cfg)
               in (cfg, ValidateRunConfig h cfg)))))"

definition LoadPolicyConfig ::
  "(string \<Rightarrow> go_error + string) \<Rightarrow> (string \<Rightarrow> policy_config \<Rightarrow> go_error + policy_config)
     \<Rightarrow> string \<Rightarrow> policy_config \<times> go_error option" where
  "LoadPolicyConfig read_file unmarshal path =
     (let cfg = DefaultPolicyConfig in
      if path = [] then (cfg, ValidatePolicyConfig cfg)
      else (case read_file path of
         Inl e \<Rightarrow> (zero_policy_config, Some (WrapError ''read policy config: '' e))
       | Inr data \<Rightarrow> (case unmarshal data cfg of
            Inl e \<Rightarrow> (zero_policy_config, Some (WrapError ''parse policy config: '' e))
          | Inr cfg \<Rightarrow> (cfg, ValidatePolicyConfig cfg))))"

section \<open>Properties\<close>

lemma validated_view_fields [simp]:
  "cfg_execution (validated_view cfg) = settle cfg"
  "kind_of (validated_view cfg) = legacyBackendKindForExecution (ex_backend (settle cfg))"
  "cfg_run (validated_view cfg) = cfg_run cfg"
proof -
  have "NormalizeExecutionRuntimeProfile (ex_runtime_profile (settle cfg)) = ex_runtime_profile (settle cfg)"
    using settled_settle [of cfg] by (simp add: settled_execution_def)
  then show "cfg_execution (validated_view cfg) = settle cfg"
    by (simp add: validated_view_def normalizeExecutionConfig_normal Let_def)
qed (simp_all add: validated_view_def normalizeExecutionConfig_normal Let_def)

lemma validateBackendRunMode_infer:
  assumes "validateBackendRunMode cfg = None" "kind_of cfg \<in> known_kinds"
  shows "kind_of cfg = inferBackendKind (mode_of cfg)"
proof -
  consider "kind_of cfg = BackendKindDirect" | "kind_of cfg = BackendKindDocker"
    | "kind_of cfg = BackendKindDevContainer" | "kind_of cfg = BackendKindK8s"
    | "kind_of cfg = BackendKindAppleContainer" | "kind_of cfg = BackendKindOrbStackMachine"
    | "kind_of cfg = BackendKindOpenSandbox"
    using assms(2) by (auto simp: known_kinds_def)
  then show ?thesis using assms(1)
    by cases (auto simp: validateBackendRunMode_def inferBackendKind_def Let_def split: if_splits)
qed

text \<open>
  C14: a configuration that passes validation is coherent. Its execution triple, once the legacy
  fields are folded in, is a row of the compatibility table; the backend kind that the engine
  branches on is the one its run mode implies; the policy-relevant identifiers are present; and a
  runtime profile that needs a runtime class on its backend has one.
\<close>

theorem validated_config_coherent:
  assumes "ValidateRunConfig h cfg = None"
  shows "let v = validated_view cfg in
    config_triple (cfg_execution v) \<in> set (map rule_triple AllowedRules) \<and>
    kind_of v = inferBackendKind (mode_of v) \<and>
    kind_of v = legacyBackendKindForExecution (ex_backend (cfg_execution v)) \<and>
    (rs_sandbox_id (cfg_run cfg) \<noteq> [] \<or> backendCreatesSandbox (kind_of v)) \<and>
    0 < rs_attempt (cfg_run cfg) \<and>
    (RequiresRuntimeClass (ex_runtime_profile (cfg_execution v)) \<and> requiresRuntimeClassForBackend v
       \<longrightarrow> RuntimeClassNameForConfig v \<noteq> [])"
proof -
  let ?v = "validated_view cfg"
  from assms have schema: "validateSchema ?v = None" and mode: "validateBackendRunMode ?v = None"
    and runtime: "validateExecutionRuntime h ?v = None" and combination: "validateCombination ?v = None"
    by (simp_all add: ValidateRunConfig_def Let_def)
  from schema have run: "rs_sandbox_id (cfg_run ?v) \<noteq> [] \<or> backendCreatesSandbox (kind_of ?v)"
      "0 < rs_attempt (cfg_run ?v)" and known: "kind_of ?v \<in> known_kinds"
    by (auto simp: validateSchema_def Let_def simp del: validated_view_fields)
  from combination have "config_triple (cfg_execution ?v) \<in> set (map rule_triple AllowedRules)"
    using unsupported_iff [of "cfg_execution ?v"]
    by (auto simp: validateCombination_def Let_def simp del: validated_view_fields split: if_splits)
  moreover from runtime have "RequiresRuntimeClass (ex_runtime_profile (cfg_execution ?v)) \<and>
      requiresRuntimeClassForBackend ?v \<longrightarrow> RuntimeClassNameForConfig ?v \<noteq> []"
    by (simp add: validateExecutionRuntime_def Let_def del: validated_view_fields)
  ultimately show ?thesis
    using run validateBackendRunMode_infer [OF mode known] by (simp add: Let_def)
qed

lemma default_config_validates: "ValidateRunConfig sample_host DefaultRunConfig = None"
  by code_simp

theorem validated_config_coherent_witness:
  "kind_of (validated_view DefaultRunConfig) = inferBackendKind (mode_of (validated_view DefaultRunConfig))"
  using validated_config_coherent [OF default_config_validates] unfolding Let_def by (elim conjE)

lemma applyRunEnvOverrides_empty: "host_env h = [] \<Longrightarrow> applyRunEnvOverrides h cfg = cfg"
  by (simp add: applyRunEnvOverrides_def env_override_def os_getenv_def Let_def)

lemma cleanPath_no_home: "\<not> has_prefix p ''~'' \<Longrightarrow> cleanPath h p = cleanPath h' p"
  by (simp add: cleanPath_def)

lemma NormalizeRunConfig_host:
  assumes "\<forall>p\<in>set (config_paths cfg). \<not> has_prefix p ''~''"
  shows "NormalizeRunConfig h cfg = NormalizeRunConfig h' cfg"
proof -
  from assms have "cleanPath h p = cleanPath h' p" if "p \<in> set (config_paths cfg)" for p
    using that cleanPath_no_home by blast
  then have "normalizePaths h [] cfg = normalizePaths h' [] cfg"
    by (simp add: normalizePaths_def config_paths_def Let_def)
  then show ?thesis by (simp add: NormalizeRunConfig_def normalizeRunConfigWithBase_def)
qed

lemma ValidateRunConfig_host:
  assumes "ex_backend (settle cfg) = ExecutionBackendDirect"
  shows "ValidateRunConfig h cfg = ValidateRunConfig h' cfg"
proof -
  from assms have "validateExecutionRuntime h (validated_view cfg) = validateExecutionRuntime h' (validated_view cfg)"
    by (simp add: validateExecutionRuntime_def Let_def)
  then show ?thesis by (simp add: ValidateRunConfig_def Let_def)
qed

text \<open>
  Without a configuration file and without overriding variables the loader returns a valid
  configuration, the shipped policy is valid too, and the result is the direct execution of the
  table's first row, whatever the host is.
\<close>

theorem default_load_valid:
  assumes "host_env h = []"
  shows "snd (LoadRunConfig h read_file unmarshal []) = None \<and>
    snd (LoadPolicyConfig read_policy unmarshal_policy []) = None \<and>
    cfg_execution (fst (LoadRunConfig h read_file unmarshal [])) =
      \<lparr>ex_backend = ExecutionBackendDirect, ex_provider = ProviderNative,
       ex_runtime_profile = ExecutionRuntimeProfileDefault\<rparr>"
proof -
  let ?n = "NormalizeRunConfig h DefaultRunConfig"
  have n: "?n = NormalizeRunConfig sample_host DefaultRunConfig"
    by (rule NormalizeRunConfig_host) code_simp
  have "ex_backend (settle ?n) = ExecutionBackendDirect" unfolding n by code_simp
  then have "ValidateRunConfig h ?n = ValidateRunConfig sample_host ?n" by (rule ValidateRunConfig_host)
  also have "\<dots> = None" unfolding n by code_simp
  finally have valid: "ValidateRunConfig h ?n = None" .
  have load: "LoadRunConfig h read_file unmarshal [] = (?n, ValidateRunConfig h ?n)"
    by (simp add: LoadRunConfig_def applyRunEnvOverrides_empty [OF assms] NormalizeRunConfig_def Let_def)
  have "cfg_execution ?n = \<lparr>ex_backend = ExecutionBackendDirect, ex_provider = ProviderNative,
       ex_runtime_profile = ExecutionRuntimeProfileDefault\<rparr>"
    unfolding n by code_simp
  moreover have "ValidatePolicyConfig DefaultPolicyConfig = None" by code_simp
  ultimately show ?thesis by (simp add: load valid LoadPolicyConfig_def Let_def)
qed

theorem default_load_valid_witness:
  "snd (LoadRunConfig \<lparr>host_env = [], host_cwd = Some ''/w'', host_goos = ''darwin'', host_goarch = ''arm64''\<rparr>
     (\<lambda>p. Inl (ErrorText ''no file'')) (\<lambda>d c. Inr c) []) = None"
  using default_load_valid [of "\<lparr>host_env = [], host_cwd = Some ''/w'', host_goos = ''darwin'', host_goarch = ''arm64''\<rparr>"]
  by simp

end
