(* ===== verification/Policy.thy ===== *)
theory Policy
  imports Config_Defaults
begin

text \<open>
  \<open>internal/policy\<close>: the policy engine that the phases ask before they run a command, touch a path,
  use the network or inject a secret. An engine is the pair of the policy and the run configuration.
  \<open>shlex.Split\<close> is third-party code and a parameter (\<open>None\<close> is its error). Go's regular expressions
  are only used for patterns that quote everything but the star, so the matcher is a glob matcher;
  \<open>.*\<close> does not cross a newline.
\<close>

record policy_engine =
  pe_cfg :: policy_config
  pe_run :: run_config

definition NewEngine :: "policy_config \<Rightarrow> run_config \<Rightarrow> policy_engine" where
  "NewEngine cfg run_cfg = \<lparr>pe_cfg = cfg, pe_run = run_cfg\<rparr>"

section \<open>Commands\<close>

text \<open>\<open>containsFold\<close> and the shell unwrapping shared with \<open>internal/proc\<close>.\<close>

definition containsFold :: "string list \<Rightarrow> string \<Rightarrow> bool" where
  "containsFold items v \<longleftrightarrow> (\<exists>item\<in>set items. equal_fold item v)"

definition procNormalize :: "(string \<Rightarrow> string list option) \<Rightarrow> string list \<Rightarrow> string list" where
  "procNormalize shlex cmd =
     (if 3 \<le> length cmd \<and> (cmd ! 0 = ''bash'' \<or> cmd ! 0 = ''sh'') \<and> (cmd ! 1 = ''-lc'' \<or> cmd ! 1 = ''-c'')
      then (case shlex (cmd ! 2) of
              Some parsed \<Rightarrow> if parsed \<noteq> [] then parsed else cmd
            | None \<Rightarrow> cmd)
      else cmd)"

text \<open>\<open>^\<close> the quoted pattern with \<open>*\<close> read as \<open>.*\<close> \<open>$\<close>.\<close>

fun matchesPattern :: "string \<Rightarrow> string \<Rightarrow> bool" where
  "matchesPattern [] v = (v = [])"
| "matchesPattern (p # ps) [] = (p = CHR ''*'' \<and> matchesPattern ps [])"
| "matchesPattern (p # ps) (c # cs) =
     (if p = CHR ''*'' then matchesPattern ps (c # cs) \<or> c \<noteq> newline \<and> matchesPattern (p # ps) cs
      else p = c \<and> matchesPattern ps cs)"

text \<open>\<open>strconv.Quote\<close> on bytes below 128.\<close>

definition hex_digit :: "nat \<Rightarrow> char" where
  "hex_digit n = (if n < 10 then char_of (48 + n) else char_of (87 + n))"

definition quote_char :: "char \<Rightarrow> string" where
  "quote_char c =
     (let n = of_char c :: nat; esc = [char_of (92 :: nat)] in
      if n = 34 \<or> n = 92 then esc @ [c]
      else if n = 7 then esc @ ''a'' else if n = 8 then esc @ ''b'' else if n = 12 then esc @ ''f''
      else if n = 10 then esc @ ''n'' else if n = 13 then esc @ ''r'' else if n = 9 then esc @ ''t''
      else if n = 11 then esc @ ''v''
      else if n < 32 \<or> n = 127 then esc @ ''x'' @ [hex_digit (n div 16), hex_digit (n mod 16)]
      else [c])"

definition go_quote :: "string \<Rightarrow> string" where
  "go_quote s = [char_of (34 :: nat)] @ concat (map quote_char s) @ [char_of (34 :: nat)]"

definition tool_deny :: "string \<Rightarrow> go_error" where
  "tool_deny msg = PolicyError ErrorCodePolicyToolDeny msg"

definition deny_match :: "string list \<Rightarrow> string \<Rightarrow> string option" where
  "deny_match patterns joined =
     find (\<lambda>pattern. matchesPattern (to_lower pattern) (to_lower joined)) patterns"

definition CheckCommand ::
  "(string \<Rightarrow> string list option) \<Rightarrow> policy_engine \<Rightarrow> phase \<Rightarrow> string list \<Rightarrow> go_error option" where
  "CheckCommand shlex e ph cmd =
     (if cmd = [] then Some (tool_deny ''empty command'')
      else (let tool = path_base (cmd ! 0); tools = pol_tools (pe_cfg e) in
        if tool = [] then Some (tool_deny ''empty command'')
        else if \<not> containsFold (tp_allow tools) tool \<and> \<not> has_prefix (cmd ! 0) ''.'' \<and>
                \<not> has_prefix (cmd ! 0) ''/''
          then Some (tool_deny (''tool '' @ tool @ '' is not allowed in phase '' @ phase_name ph))
        else (case deny_match (tp_deny_patterns tools) (join '' '' (procNormalize shlex cmd)) of
            Some pattern \<Rightarrow> Some (tool_deny (''command denied by pattern '' @ go_quote pattern))
          | None \<Rightarrow> None)))"

section \<open>Paths, networks, secrets and timeouts\<close>

definition fs_deny :: "string \<Rightarrow> go_error" where
  "fs_deny msg = PolicyError ErrorCodePolicyFSDeny msg"

definition checkPath :: "policy_engine \<Rightarrow> string \<Rightarrow> string list \<Rightarrow> go_error option" where
  "checkPath e path allow =
     (let cleaned = path_clean path;
          workspace = path_clean (rs_workspace_dir (cfg_run (pe_run e)));
          artifactDir = path_clean (rs_artifact_dir (cfg_run (pe_run e)))
      in if has_prefix cleaned workspace \<or> has_prefix cleaned artifactDir then None
         else if \<exists>denied\<in>set (fsp_deny (pol_filesystem (pe_cfg e))). has_prefix cleaned (path_clean denied)
           then Some (fs_deny (''path '' @ path @ '' denied''))
         else if \<exists>pre\<in>set allow. has_prefix cleaned (path_clean pre) then None
         else Some (fs_deny (''path '' @ path @ '' outside allowed roots'')))"

definition CheckPathRead :: "policy_engine \<Rightarrow> phase \<Rightarrow> string \<Rightarrow> go_error option" where
  "CheckPathRead e ph path = checkPath e path (fsp_read_allow (pol_filesystem (pe_cfg e)))"

definition CheckPathWrite :: "policy_engine \<Rightarrow> phase \<Rightarrow> string \<Rightarrow> go_error option" where
  "CheckPathWrite e ph path = checkPath e path (fsp_write_allow (pol_filesystem (pe_cfg e)))"

fun phaseNetworkProfile :: "run_config \<Rightarrow> phase \<Rightarrow> string" where
  "phaseNetworkProfile cfg PhaseSetup = pc_network_profile (phs_setup (cfg_phases cfg))"
| "phaseNetworkProfile cfg PhaseExecute = pc_network_profile (phs_execute (cfg_phases cfg))"
| "phaseNetworkProfile cfg PhaseVerify = pc_network_profile (phs_verify (cfg_phases cfg))"
| "phaseNetworkProfile cfg _ = []"

text \<open>The branch on the run mode returns the same profile either way.\<close>

definition ResolveNetworkProfile :: "policy_engine \<Rightarrow> phase \<Rightarrow> go_error + network_profile" where
  "ResolveNetworkProfile e ph =
     (let name = phaseNetworkProfile (pe_run e) ph in
      case map_of (pol_network_profiles (pe_cfg e)) name of
        None \<Rightarrow> Inl (PolicyError ErrorCodePolicyNetDeny (''network profile '' @ name @ '' not found''))
      | Some profile \<Rightarrow>
          if plat_run_mode (cfg_platform (pe_run e)) = RunModeLocalDirect then Inr profile else Inr profile)"

text \<open>\<open>getenv\<close> trims three times what \<open>TrimSpace\<close> trims once more; the loop fills a fresh map.\<close>

definition policy_getenv :: "host \<Rightarrow> string \<Rightarrow> string" where
  "policy_getenv h key = trim_space (trim_space (trim_space (os_getenv h key)))"

definition containsPhase :: "phase list \<Rightarrow> phase \<Rightarrow> bool" where
  "containsPhase items ph \<longleftrightarrow> ph \<in> set items"

definition inject_secret :: "host \<Rightarrow> phase \<Rightarrow> secret_binding \<Rightarrow> env \<Rightarrow> env" where
  "inject_secret h ph binding values =
     (if \<not> containsPhase (bind_phase_allow binding) ph then values
      else (let v = trim_space (policy_getenv h (bind_name binding)) in
        if v = [] then values else env_put (bind_name binding) v values))"

definition ResolveSecrets :: "host \<Rightarrow> policy_engine \<Rightarrow> phase \<Rightarrow> go_error + env" where
  "ResolveSecrets h e ph =
     Inr (fold (inject_secret h ph) (sp_inject_env (pol_secrets (pe_cfg e))) [])"

definition max_or :: "int \<Rightarrow> int \<Rightarrow> int" where
  "max_or v fallback = (if 0 < v then v else fallback)"

fun TimeoutForPhase :: "policy_engine \<Rightarrow> phase \<Rightarrow> int" where
  "TimeoutForPhase e PhasePrepare = pc_timeout_sec (phs_prepare (cfg_phases (pe_run e)))"
| "TimeoutForPhase e PhaseSetup =
     max_or (pc_timeout_sec (phs_setup (cfg_phases (pe_run e)))) (rp_timeout_sec_default (pol_resources (pe_cfg e)))"
| "TimeoutForPhase e PhaseExecute =
     max_or (pc_timeout_sec (phs_execute (cfg_phases (pe_run e)))) (rp_timeout_sec_default (pol_resources (pe_cfg e)))"
| "TimeoutForPhase e PhaseVerify =
     max_or (pc_timeout_sec (phs_verify (cfg_phases (pe_run e)))) (rp_timeout_sec_default (pol_resources (pe_cfg e)))"
| "TimeoutForPhase e PhaseCollect =
     max_or (pc_timeout_sec (phs_collect (cfg_phases (pe_run e)))) (rp_timeout_sec_default (pol_resources (pe_cfg e)))"
| "TimeoutForPhase e (PhaseOther n) = rp_timeout_sec_default (pol_resources (pe_cfg e))"

definition EnforceCapabilities :: "policy_engine \<Rightarrow> phase \<Rightarrow> go_error option" where
  "EnforceCapabilities e ph =
     (if plat_run_mode (cfg_platform (pe_run e)) = RunModeLocalDirect then None else None)"

section \<open>The glob matcher\<close>

text \<open>A reading of patterns without a matcher: the literals between the stars, with the gaps filled.\<close>

fun fill_gaps :: "string list \<Rightarrow> string list \<Rightarrow> string" where
  "fill_gaps (l # ls) (g # gs) = l @ g @ fill_gaps ls gs"
| "fill_gaps (l # ls) [] = l"
| "fill_gaps [] gs = []"

definition glob_spec :: "string \<Rightarrow> string \<Rightarrow> bool" where
  "glob_spec pat v \<longleftrightarrow>
     (\<exists>gs. length gs + 1 = length (split_on CHR ''*'' pat) \<and> (\<forall>g\<in>set gs. newline \<notin> set g) \<and>
        v = fill_gaps (split_on CHR ''*'' pat) gs)"

lemma matchesPattern_star:
  "matchesPattern (CHR ''*'' # ps) v \<longleftrightarrow>
     (\<exists>g rest. v = g @ rest \<and> newline \<notin> set g \<and> matchesPattern ps rest)"
proof (induction v)
  case (Cons c cs)
  have "matchesPattern (CHR ''*'' # ps) (c # cs) \<longleftrightarrow>
      matchesPattern ps (c # cs) \<or> c \<noteq> newline \<and>
        (\<exists>g rest. cs = g @ rest \<and> newline \<notin> set g \<and> matchesPattern ps rest)"
    using Cons.IH by simp
  also have "\<dots> \<longleftrightarrow> (\<exists>g rest. c # cs = g @ rest \<and> newline \<notin> set g \<and> matchesPattern ps rest)"
  proof
    assume "matchesPattern ps (c # cs) \<or> c \<noteq> newline \<and>
        (\<exists>g rest. cs = g @ rest \<and> newline \<notin> set g \<and> matchesPattern ps rest)"
    then show "\<exists>g rest. c # cs = g @ rest \<and> newline \<notin> set g \<and> matchesPattern ps rest"
    proof
      assume "matchesPattern ps (c # cs)"
      then show ?thesis by (intro exI [of _ "[]"] exI [of _ "c # cs"]) simp
    next
      assume "c \<noteq> newline \<and> (\<exists>g rest. cs = g @ rest \<and> newline \<notin> set g \<and> matchesPattern ps rest)"
      then obtain g rest where "cs = g @ rest" "newline \<notin> set (c # g)" "matchesPattern ps rest" by auto
      then show ?thesis by (intro exI [of _ "c # g"] exI [of _ rest]) simp
    qed
  qed (fastforce simp: Cons_eq_append_conv)
  finally show ?case .
qed simp

lemma matchesPattern_literal:
  "p \<noteq> CHR ''*'' \<Longrightarrow> matchesPattern (p # ps) v \<longleftrightarrow> (\<exists>cs. v = p # cs \<and> matchesPattern ps cs)"
  by (cases v) auto

lemma matchesPattern_glob: "matchesPattern pat v \<longleftrightarrow> glob_spec pat v"
proof (induction pat arbitrary: v)
  case Nil
  then show ?case by (auto simp: glob_spec_def)
next
  case (Cons p ps)
  obtain l ls where sp: "split_on CHR ''*'' ps = l # ls"
    by (cases "split_on CHR ''*'' ps") auto
  show ?case
  proof (cases "p = CHR ''*''")
    case True
    have "glob_spec (p # ps) v \<longleftrightarrow> (\<exists>g rest. v = g @ rest \<and> newline \<notin> set g \<and> glob_spec ps rest)"
    proof
      assume "glob_spec (p # ps) v"
      then obtain gs where gs: "length gs = length (split_on CHR ''*'' ps)"
        "\<forall>g\<in>set gs. newline \<notin> set g" "v = fill_gaps ([] # split_on CHR ''*'' ps) gs"
        by (auto simp: glob_spec_def True)
      with sp obtain g gs' where "gs = g # gs'" by (cases gs) auto
      with gs show "\<exists>g rest. v = g @ rest \<and> newline \<notin> set g \<and> glob_spec ps rest"
        unfolding glob_spec_def by (intro exI [of _ g] exI) (auto simp: sp)
    next
      assume "\<exists>g rest. v = g @ rest \<and> newline \<notin> set g \<and> glob_spec ps rest"
      then obtain g gs where "length gs + 1 = length (split_on CHR ''*'' ps)"
        "\<forall>x\<in>set gs. newline \<notin> set x" "newline \<notin> set g" "v = g @ fill_gaps (split_on CHR ''*'' ps) gs"
        by (auto simp: glob_spec_def)
      then show "glob_spec (p # ps) v"
        unfolding glob_spec_def by (intro exI [of _ "g # gs"]) (auto simp: True)
    qed
    then show ?thesis using True Cons.IH by (simp add: matchesPattern_star)
  next
    case False
    have "fill_gaps ((p # l) # ls) gs = p # fill_gaps (l # ls) gs" for gs by (cases gs) auto
    then have "glob_spec (p # ps) v \<longleftrightarrow> (\<exists>cs. v = p # cs \<and> glob_spec ps cs)"
      using False by (auto simp: glob_spec_def sp)
    then show ?thesis using False Cons.IH by (simp add: matchesPattern_literal)
  qed
qed

lemma matchesPattern_first:
  "matchesPattern (p # ps) (c # cs) \<Longrightarrow> p \<noteq> CHR ''*'' \<Longrightarrow> p = c"
  by simp

section \<open>Properties\<close>

text \<open>
  C16: a deny pattern matches a command line exactly when the line is the pattern with each star
  replaced by some text without a newline: the translation into a regular expression neither adds
  nor loses a meaning of the other characters.
\<close>

theorem deny_pattern_is_glob: "matchesPattern pat line \<longleftrightarrow> glob_spec pat line"
  by (rule matchesPattern_glob)

definition command_allowed :: "(string \<Rightarrow> string list option) \<Rightarrow> policy_config \<Rightarrow> string list \<Rightarrow> bool" where
  "command_allowed shlex pol cmd \<longleftrightarrow>
     cmd \<noteq> [] \<and>
     (containsFold (tp_allow (pol_tools pol)) (path_base (cmd ! 0)) \<or>
        has_prefix (cmd ! 0) ''.'' \<or> has_prefix (cmd ! 0) ''/'') \<and>
     (\<forall>pattern\<in>set (tp_deny_patterns (pol_tools pol)).
        \<not> glob_spec (to_lower pattern) (to_lower (join '' '' (procNormalize shlex cmd))))"

lemma path_base_not_Nil [simp]: "path_base s \<noteq> []"
proof (cases "s = [] \<or> trim_right (\<lambda>c. c = CHR ''/'') s = []")
  case False
  let ?t = "trim_right (\<lambda>c. c = CHR ''/'') s"
  from False have t: "?t \<noteq> []" "last ?t \<noteq> CHR ''/''"
    using hd_dropWhile [of "\<lambda>c. c = CHR ''/''" "rev s"]
    by (auto simp: trim_right_def last_rev)
  have "last (split_on d u) \<noteq> []" if "u \<noteq> []" "last u \<noteq> d" for d u
    using that
  proof (induction u)
    case (Cons c cs)
    obtain p ps where sp: "split_on d cs = p # ps" by (cases "split_on d cs") auto
    show ?case
    proof (cases "cs = []")
      case False
      with Cons have "last (p # ps) \<noteq> []" by (simp add: sp)
      then show ?thesis by (auto simp: sp)
    qed (use Cons in simp)
  qed simp
  with t False show ?thesis by (simp add: path_base_def Let_def)
qed (auto simp: path_base_def dot_def Let_def)

lemma deny_match_None:
  "deny_match patterns joined = None \<longleftrightarrow>
     (\<forall>pattern\<in>set patterns. \<not> matchesPattern (to_lower pattern) (to_lower joined))"
  by (auto simp: deny_match_def find_None_iff)

lemma CheckCommand_None: "CheckCommand shlex e ph cmd = None \<longleftrightarrow> command_allowed shlex (pe_cfg e) cmd"
proof (cases "deny_match (tp_deny_patterns (pol_tools (pe_cfg e))) (join '' '' (procNormalize shlex cmd))")
  case None
  then show ?thesis using deny_match_None [THEN iffD1, OF None]
    by (auto simp: CheckCommand_def command_allowed_def Let_def matchesPattern_glob)
next
  case (Some pattern)
  then have "\<not> (\<forall>pattern\<in>set (tp_deny_patterns (pol_tools (pe_cfg e))).
      \<not> matchesPattern (to_lower pattern) (to_lower (join '' '' (procNormalize shlex cmd))))"
    using deny_match_None by force
  with Some show ?thesis
    by (auto simp: CheckCommand_def command_allowed_def Let_def matchesPattern_glob)
qed

text \<open>
  A command passes the policy exactly when it is not empty, its tool is on the allow list or its
  first word is a path, and no deny pattern covers its words joined by blanks; every refusal
  carries the tool-denied code. The phase only appears in the message.
\<close>

theorem CheckCommand_iff:
  "(CheckCommand shlex e ph cmd = None \<longleftrightarrow> command_allowed shlex (pe_cfg e) cmd) \<and>
   (case CheckCommand shlex e ph cmd of None \<Rightarrow> True
      | Some err \<Rightarrow> (\<exists>msg. err = PolicyError ErrorCodePolicyToolDeny msg))"
  using CheckCommand_None [of shlex e ph cmd]
  by (auto simp: CheckCommand_def tool_deny_def Let_def split: option.splits)

lemma inject_secret_other: "k \<noteq> bind_name b \<Longrightarrow> map_of (inject_secret h ph b m) k = map_of m k"
  by (simp add: inject_secret_def Let_def)

lemma inject_secret_same:
  "map_of (inject_secret h ph b m) (bind_name b) =
     (if containsPhase (bind_phase_allow b) ph \<and> trim_space (policy_getenv h (bind_name b)) \<noteq> []
      then Some (trim_space (policy_getenv h (bind_name b))) else map_of m (bind_name b))"
  by (simp add: inject_secret_def Let_def)

lemma fold_inject_secret:
  "map_of (fold (inject_secret h ph) bs m) k =
     (if (\<exists>b\<in>set bs. bind_name b = k \<and> containsPhase (bind_phase_allow b) ph) \<and>
         trim_space (policy_getenv h k) \<noteq> []
      then Some (trim_space (policy_getenv h k)) else map_of m k)"
proof (induction bs arbitrary: m)
  case (Cons b bs)
  show ?case
  proof (cases "bind_name b = k")
    case True
    then show ?thesis using Cons.IH [of "inject_secret h ph b m"] inject_secret_same [of h ph b m] by auto
  next
    case False
    then show ?thesis using Cons.IH [of "inject_secret h ph b m"] inject_secret_other [of k b h ph m] by auto
  qed
qed simp

text \<open>
  C17: a phase sees exactly the secrets that are bound for it: a name is injected if and only if a
  binding of that name lists the phase and the host's variable is not blank, and the value is the
  trimmed variable, whatever the order of the bindings.
\<close>

theorem secrets_only_for_bound_phases:
  "\<exists>m. ResolveSecrets h e ph = Inr m \<and>
     (\<forall>k v. map_of m k = Some v \<longleftrightarrow>
        (\<exists>b\<in>set (sp_inject_env (pol_secrets (pe_cfg e))). bind_name b = k \<and> ph \<in> set (bind_phase_allow b)) \<and>
        v = trim_space (policy_getenv h k) \<and> v \<noteq> [])"
  by (auto simp: ResolveSecrets_def fold_inject_secret containsPhase_def split: if_splits)

lemma checkPath_workspace:
  "has_prefix (path_clean p) (path_clean (rs_workspace_dir (cfg_run (pe_run e)))) \<or>
   has_prefix (path_clean p) (path_clean (rs_artifact_dir (cfg_run (pe_run e)))) \<Longrightarrow>
   checkPath e p allow = None"
  by (simp add: checkPath_def Let_def)

text \<open>
  The deny list has no say below the workspace. Every path whose cleaned form begins with the
  characters of the cleaned workspace path is readable and writable, also when the policy denies
  it; and since characters are compared, not path elements, siblings of the workspace that share
  its name as a prefix are covered as well.
\<close>

theorem workspace_prefix_beats_deny:
  assumes "has_prefix (path_clean p) (path_clean (rs_workspace_dir (cfg_run (pe_run e))))"
  shows "CheckPathRead e ph p = None \<and> CheckPathWrite e ph p = None"
  using assms checkPath_workspace by (simp add: CheckPathRead_def CheckPathWrite_def)

theorem workspace_prefix_beats_deny_witness:
  "let e = NewEngine DefaultPolicyConfig
       (DefaultRunConfig\<lparr>cfg_run := (cfg_run DefaultRunConfig)\<lparr>rs_workspace_dir := ''/workspace''\<rparr>\<rparr>)
   in ''/workspace/secrets'' \<in> set (fsp_deny (pol_filesystem (pe_cfg e))) \<and>
      CheckPathRead e PhasePrepare ''/workspace/secrets/key'' = None \<and>
      CheckPathWrite e PhasePrepare ''/workspace2/other-tenant'' = None"
proof -
  let ?e = "NewEngine DefaultPolicyConfig
       (DefaultRunConfig\<lparr>cfg_run := (cfg_run DefaultRunConfig)\<lparr>rs_workspace_dir := ''/workspace''\<rparr>\<rparr>)"
  have 1: "has_prefix (path_clean ''/workspace/secrets/key'') (path_clean (rs_workspace_dir (cfg_run (pe_run ?e))))"
    by code_simp
  have 2: "has_prefix (path_clean ''/workspace2/other-tenant'') (path_clean (rs_workspace_dir (cfg_run (pe_run ?e))))"
    by code_simp
  have 3: "''/workspace/secrets'' \<in> set (fsp_deny (pol_filesystem (pe_cfg ?e)))" by code_simp
  from 3 workspace_prefix_beats_deny [OF 1, of PhasePrepare] workspace_prefix_beats_deny [OF 2, of PhasePrepare]
  show ?thesis unfolding Let_def by blast
qed

end
