(* ===== verification/Proc.thy ===== *)
theory Proc
  imports Policy "HOL-Library.Sublist"
begin

text \<open>
  \<open>internal/proc\<close>: classifying a command, expanding and merging environments, finding the executable,
  streaming the output of a process line by line, redacting secrets, and the result of a run.
  The operating system appears through parameters: which files are executable, and how a started
  process ended (\<open>process_outcome\<close>). The Windows branch of the path lookup is left out.
\<close>

section \<open>Classification\<close>

text \<open>\<open>normalizeCommand\<close> is the unwrapping that the policy also uses; the empty command stays empty.\<close>

definition normalizeCommand :: "(string \<Rightarrow> string list option) \<Rightarrow> string list \<Rightarrow> string list" where
  "normalizeCommand shlex cmd = (if cmd = [] then [] else procNormalize shlex cmd)"

definition containsSubstring :: "string list \<Rightarrow> string \<Rightarrow> bool" where
  "containsSubstring items want \<longleftrightarrow> (\<exists>item\<in>set items. contains_sub item want)"

definition classify_default :: "string \<Rightarrow> string" where
  "classify_default head =
     (if has_prefix head ''.'' \<or> has_prefix head ''/'' then ''app.start'' else ''command.exec'')"

definition classify_tokens :: "string list \<Rightarrow> string" where
  "classify_tokens tokens =
     (let head = path_base (tokens ! 0); two = 2 \<le> length tokens; sub = tokens ! 1;
          other = classify_default head in
      if head = ''pytest'' then ''test.run''
      else if head = ''go'' then
        (if two \<and> sub = ''test'' then (if ''-bench'' \<in> set tokens then ''benchmark.run'' else ''test.run'')
         else if two \<and> sub = ''run'' then ''app.start''
         else if two \<and> sub = ''build'' then ''build.run''
         else if two \<and> sub = ''generate'' then ''codegen.run'' else other)
      else if head = ''npm'' \<or> head = ''pnpm'' then
        (if two \<and> sub = ''test'' then ''test.run'' else if two \<and> sub = ''build'' then ''build.run''
         else other)
      else if head = ''mvn'' then
        (if ''package'' \<in> set tokens \<or> ''verify'' \<in> set tokens then ''build.run'' else other)
      else if head = ''git'' then (if two \<and> sub = ''apply'' then ''patch.apply'' else other)
      else if head = ''patch'' then ''patch.apply''
      else if head = ''python'' \<or> head = ''python3'' then
        (if containsSubstring tokens ''smoke'' then ''smoke.run'' else ''app.start'')
      else if head = ''node'' then ''app.start''
      else if head = ''java'' then ''app.start''
      else if head = ''curl'' then
        (if containsSubstring tokens ''health'' \<or> containsSubstring tokens ''ready'' then ''smoke.run''
         else other)
      else if head = ''dlv'' then ''debug.run''
      else other)"

definition ClassifyCommand :: "(string \<Rightarrow> string list option) \<Rightarrow> string list \<Rightarrow> string" where
  "ClassifyCommand shlex cmd =
     (let tokens = normalizeCommand shlex cmd in
      if tokens = [] then ''command.exec'' else classify_tokens tokens)"

definition ToolName :: "(string \<Rightarrow> string list option) \<Rightarrow> string list \<Rightarrow> string" where
  "ToolName shlex cmd =
     (let tokens = normalizeCommand shlex cmd in if tokens = [] then [] else path_base (tokens ! 0))"

section \<open>Expanding variables\<close>

text \<open>
  \<open>os.Expand\<close>: the text is cut into literals and references, then each reference is replaced. As in
  Go, \<open>${}\<close> and an unclosed \<open>${\<close> are eaten and a dollar that starts no name stays.
\<close>

definition is_special_var :: "char \<Rightarrow> bool" where
  "is_special_var c \<longleftrightarrow> c \<in> set ''*#$@!?-'' \<or> is_digit c"

definition is_alnum :: "char \<Rightarrow> bool" where
  "is_alnum c \<longleftrightarrow> c = CHR ''_'' \<or> is_digit c \<or> is_lower c \<or> is_upper c"

text \<open>\<open>getShellName\<close>: the name and the number of bytes it takes, for a non-empty rest.\<close>

definition shell_name :: "string \<Rightarrow> string \<times> nat" where
  "shell_name s =
     (if s = [] then ([], 0)
      else if hd s = CHR ''{'' then
        (if 2 < length s \<and> is_special_var (s ! 1) \<and> s ! 2 = CHR ''}'' then ([s ! 1], 3)
         else (let name = takeWhile (\<lambda>c. c \<noteq> CHR ''}'') (tl s) in
           if length name = length (tl s) then ([], 1)
           else if name = [] then ([], 2) else (name, length name + 2)))
      else if is_special_var (hd s) then ([hd s], 1)
      else (let name = takeWhile is_alnum s in (name, length name)))"

datatype token = Lit char | Ref string

function expand_tokens :: "string \<Rightarrow> token list" where
  "expand_tokens [] = []"
| "expand_tokens (c # cs) =
     (if c = CHR ''$'' \<and> cs \<noteq> [] then
        (let (name, w) = shell_name cs in
         (if name = [] \<and> 0 < w then [] else if name = [] then [Lit c] else [Ref name])
           @ expand_tokens (drop w cs))
      else Lit c # expand_tokens cs)"
  by pat_completeness auto
termination by (relation "measure length") auto

declare expand_tokens.simps [simp del]

fun token_value :: "(string \<Rightarrow> string) \<Rightarrow> token \<Rightarrow> string" where
  "token_value f (Lit c) = [c]"
| "token_value f (Ref n) = f n"

definition os_expand :: "(string \<Rightarrow> string) \<Rightarrow> string \<Rightarrow> string" where
  "os_expand f s = concat (map (token_value f) (expand_tokens s))"

section \<open>Merging environments\<close>

definition splitEnv :: "string \<Rightarrow> string \<times> string" where
  "splitEnv item =
     (let k = takeWhile (\<lambda>c. c \<noteq> CHR ''='') item in
      (k, drop (Suc (length k)) item))"

text \<open>
  What ends the recursion below: each nested expansion marks one more key of \<open>extra\<close>,
  whatever references the values hold.
\<close>

definition pending :: "env \<Rightarrow> string list \<Rightarrow> nat" where
  "pending extra resolving = card (fst ` set extra - set resolving)"

lemma pending_Cons:
  assumes "map_of extra key = Some raw" "key \<notin> set resolving"
  shows "pending extra (key # resolving) < pending extra resolving"
proof -
  from assms(1) have "key \<in> fst ` set extra" by (metis image_eqI fst_conv map_of_SomeD)
  with assms(2) have "fst ` set extra - set (key # resolving) \<subset> fst ` set extra - set resolving" by auto
  then show ?thesis unfolding pending_def by (intro psubset_card_mono) auto
qed

text \<open>
  The closure \<open>resolve\<close> of \<open>mergedEnv\<close>: \<open>resolving\<close> holds the keys whose expansion is under way,
  \<open>resolved\<close> the finished ones; a key met again while it is being expanded reads the base value. The
  callback of \<open>os.Expand\<close> runs from left to right over the tokens and shares both maps.
\<close>

function (sequential) resolve_key ::
    "env \<Rightarrow> env \<Rightarrow> string list \<Rightarrow> env \<Rightarrow> string \<Rightarrow> string \<times> env"
  and resolve_tokens ::
    "env \<Rightarrow> env \<Rightarrow> string list \<Rightarrow> env \<Rightarrow> string \<Rightarrow> token list \<Rightarrow> string \<times> env" where
  "resolve_key extra base resolving resolved key =
     (case map_of resolved key of
        Some v \<Rightarrow> (v, resolved)
      | None \<Rightarrow> (case map_of extra key of
          None \<Rightarrow> (env_get base key, resolved)
        | Some raw \<Rightarrow>
            (if key \<in> set resolving then (env_get base key, resolved)
             else (let (v, resolved) =
                 resolve_tokens extra base (key # resolving) resolved key (expand_tokens raw)
               in (v, env_put key v resolved)))))"
| "resolve_tokens extra base resolving resolved key [] = ([], resolved)"
| "resolve_tokens extra base resolving resolved key (Lit c # ts) =
     (let (v, resolved) = resolve_tokens extra base resolving resolved key ts in (c # v, resolved))"
| "resolve_tokens extra base resolving resolved key (Ref ref # ts) =
     (let (u, resolved) =
        (if ref = key then (env_get base ref, resolved)
         else if env_has extra ref then resolve_key extra base resolving resolved ref
         else (env_get base ref, resolved));
        (v, resolved) = resolve_tokens extra base resolving resolved key ts
      in (u @ v, resolved))"
  by pat_completeness auto

termination
  by (relation "inv_image (less_than <*lex*> less_than)
       (case_sum (\<lambda>(extra, base, resolving, resolved, key). (pending extra resolving, 0))
                 (\<lambda>(extra, base, resolving, resolved, key, ts). (pending extra resolving, Suc (length ts))))")
    (auto simp: pending_Cons)

definition sorted_keys :: "env \<Rightarrow> string list" where
  "sorted_keys m = sort (remdups (map fst m))"

definition process_base :: "host \<Rightarrow> env" where
  "process_base h = fold (\<lambda>item. let (k, v) = splitEnv item in env_put k v) (os_environ h) []"

definition resolve_step :: "env \<Rightarrow> env \<Rightarrow> string \<Rightarrow> env \<times> env \<Rightarrow> env \<times> env" where
  "resolve_step extra base key st =
     (let (v, resolved) = resolve_key extra base [] (snd st) key in (env_put key v (fst st), resolved))"

definition mergedEnv :: "host \<Rightarrow> env \<Rightarrow> env" where
  "mergedEnv h extra =
     (let base = process_base h in
      if extra = [] then base
      else fst (fold (resolve_step extra base) (sorted_keys extra) (base, [])))"

definition envList :: "env \<Rightarrow> string list" where
  "envList m = map (\<lambda>k. k @ ''='' @ env_get m k) (sorted_keys m)"

section \<open>Finding the executable\<close>

definition ErrNotFound :: go_error where
  "ErrNotFound = ErrorText ''executable file not found in $PATH''"

text \<open>\<open>filepath.SplitList\<close>: nothing for the empty list, else the parts between colons.\<close>

definition split_list :: "string \<Rightarrow> string list" where
  "split_list s = (if s = [] then [] else split_on CHR '':'' s)"

definition path_candidates :: "string \<Rightarrow> string \<Rightarrow> string \<Rightarrow> string list" where
  "path_candidates pathValue dir name =
     map (\<lambda>entry. let entry = (if entry = [] then ''.'' else entry);
                      base = (if \<not> is_abs entry \<and> dir \<noteq> [] then path_join [dir, entry] else entry)
                  in path_join [base, name]) (split_list pathValue)"

definition resolveCommandPath ::
  "host \<Rightarrow> (string \<Rightarrow> bool) \<Rightarrow> string \<Rightarrow> env \<Rightarrow> string \<Rightarrow> go_error + string" where
  "resolveCommandPath h executable name m dir =
     (if name = [] then Inl ErrNotFound
      else if CHR ''/'' \<in> set name \<or> is_abs name then Inr name
      else (let pathValue = env_get m ''PATH'';
                pathValue = (if pathValue = [] then os_getenv h ''PATH'' else pathValue)
        in case find executable (path_candidates pathValue dir name) of
             Some candidate \<Rightarrow> Inr candidate
           | None \<Rightarrow> Inl ErrNotFound))"

definition ResolveCommandPath ::
  "host \<Rightarrow> (string \<Rightarrow> bool) \<Rightarrow> string \<Rightarrow> string \<Rightarrow> env \<Rightarrow> go_error + string" where
  "ResolveCommandPath h executable name dir extra =
     resolveCommandPath h executable name (mergedEnv h extra) dir"

section \<open>Redaction\<close>

text \<open>
  A matcher tries a pattern at the front of a text and gives what is left after the match. The four
  patterns need no backtracking: every class that repeats is disjoint from what follows it. \<open>\s\<close> is
  the class of Go's regular expressions, without the vertical tab.
\<close>

definition re_space :: "char \<Rightarrow> bool" where
  "re_space c \<longleftrightarrow> c \<in> {CHR 0x09, CHR 0x0A, CHR 0x0C, CHR 0x0D, CHR '' ''}"

fun strip_lit :: "(char \<Rightarrow> char) \<Rightarrow> string \<Rightarrow> string \<Rightarrow> string option" where
  "strip_lit fold_case [] s = Some s"
| "strip_lit fold_case (w # ws) [] = None"
| "strip_lit fold_case (w # ws) (c # cs) =
     (if fold_case c = w then strip_lit fold_case ws cs else None)"

definition strip_some :: "(char \<Rightarrow> bool) \<Rightarrow> string \<Rightarrow> string option" where
  "strip_some p s = (if s \<noteq> [] \<and> p (hd s) then Some (dropWhile p s) else None)"

definition bearer_char :: "char \<Rightarrow> bool" where
  "bearer_char c \<longleftrightarrow> is_upper c \<or> is_lower c \<or> is_digit c \<or> c \<in> set ''-._~+/''"

definition match_bearer :: "string \<Rightarrow> string option" where
  "match_bearer s =
     (case strip_lit id ''Bearer'' s of None \<Rightarrow> None
      | Some s \<Rightarrow> (case strip_some re_space s of None \<Rightarrow> None
        | Some s \<Rightarrow> (case strip_some bearer_char s of None \<Rightarrow> None
          | Some s \<Rightarrow> Some (dropWhile (\<lambda>c. c = CHR ''='') s))))"

text \<open>\<open>=([^\s]+)\<close> after one of the key words, whose case is ignored.\<close>

definition match_assignment :: "string option \<Rightarrow> string option" where
  "match_assignment r =
     (case r of None \<Rightarrow> None
      | Some s \<Rightarrow> (case strip_lit id ''='' s of None \<Rightarrow> None
        | Some s \<Rightarrow> strip_some (\<lambda>c. \<not> re_space c) s))"

definition strip_api_key :: "string \<Rightarrow> string option" where
  "strip_api_key s =
     (case strip_lit lower_char ''api'' s of None \<Rightarrow> None
      | Some s \<Rightarrow> strip_lit lower_char ''key''
          (if s \<noteq> [] \<and> (hd s = CHR ''_'' \<or> hd s = CHR ''-'') then tl s else s))"

fun first_some :: "'a option list \<Rightarrow> 'a option" where
  "first_some [] = None"
| "first_some (None # xs) = first_some xs"
| "first_some (Some x # xs) = Some x"

definition match_key :: "string \<Rightarrow> string option" where
  "match_key s = first_some
     [match_assignment (strip_api_key s), match_assignment (strip_lit lower_char ''token'' s),
      match_assignment (strip_lit lower_char ''secret'' s)]"

definition match_akia :: "string \<Rightarrow> string option" where
  "match_akia s =
     (case strip_lit id ''AKIA'' s of None \<Rightarrow> None
      | Some s \<Rightarrow>
          (if 16 \<le> length s \<and> (\<forall>c\<in>set (take 16 s). is_digit c \<or> is_upper c)
           then Some (drop 16 s) else None))"

definition match_password :: "string \<Rightarrow> string option" where
  "match_password s = first_some
     [match_assignment (strip_lit lower_char ''password'' s),
      match_assignment (strip_lit lower_char ''passwd'' s),
      match_assignment (strip_lit lower_char ''pwd'' s)]"

definition redactPatterns :: "(string \<Rightarrow> string option) list" where
  "redactPatterns = [match_bearer, match_key, match_akia, match_password]"

text \<open>
  \<open>ReplaceAllString\<close>: from the left, replace the first match and go on behind it. The fuel is the
  length of the text; a match takes at least one byte, so it is enough.
\<close>

definition redacted :: string where "redacted = ''[REDACTED]''"

fun replace_fuel :: "nat \<Rightarrow> (string \<Rightarrow> string option) \<Rightarrow> string \<Rightarrow> string" where
  "replace_fuel n m [] = []"
| "replace_fuel 0 m (c # cs) = c # cs"
| "replace_fuel (Suc n) m (c # cs) =
     (case m (c # cs) of Some rest \<Rightarrow> redacted @ replace_fuel n m rest
      | None \<Rightarrow> c # replace_fuel n m cs)"

definition ReplaceAllString :: "(string \<Rightarrow> string option) \<Rightarrow> string \<Rightarrow> string" where
  "ReplaceAllString m s = replace_fuel (length s) m s"

definition Redact :: "string \<Rightarrow> string" where
  "Redact line = fold ReplaceAllString redactPatterns line"

section \<open>Streaming a pipe\<close>

text \<open>
  \<open>bufio.Scanner\<close> with \<open>ScanLines\<close>: lines without their newline and one trailing carriage return.
  The scanner stops with an error at the first line that does not fit its buffer together with its
  newline; the rest of the data is not delivered.
\<close>

definition drop_cr :: "string \<Rightarrow> string" where
  "drop_cr l = (if l \<noteq> [] \<and> last l = carriage then butlast l else l)"

definition raw_lines :: "string \<Rightarrow> string list" where
  "raw_lines data =
     (let ls = split_on newline data in if last ls = [] then butlast ls else ls)"

definition scan_lines :: "nat \<Rightarrow> string \<Rightarrow> string list" where
  "scan_lines max_buf data = map drop_cr (takeWhile (\<lambda>l. length l < max_buf) (raw_lines data))"

definition stream_max_buf :: "int \<Rightarrow> nat" where
  "stream_max_buf log_line_max = (if log_line_max < 64 * 1024 then 64 * 1024 else nat log_line_max)"

definition clip_line :: "int \<Rightarrow> string \<Rightarrow> string" where
  "clip_line log_line_max line =
     (if 0 < log_line_max \<and> log_line_max < int (length line) then take (nat log_line_max) line else line)"

text \<open>\<open>done n\<close>: the context is found cancelled before the line after the first \<open>n\<close>.\<close>

definition delivered_lines :: "int \<Rightarrow> (nat \<Rightarrow> bool) \<Rightarrow> string \<Rightarrow> string list" where
  "delivered_lines log_line_max cancelled data =
     (let ls = scan_lines (stream_max_buf log_line_max) data
      in map snd (takeWhile (\<lambda>(i, l). \<not> cancelled i) (zip [0..<length ls] ls)))"

record proc_spec =
  ps_phase :: phase
  ps_command :: "string list"
  ps_env :: env
  ps_dir :: string
  ps_timeout :: int
  ps_run_id :: string
  ps_attempt :: int
  ps_command_class :: string
  ps_artifact_dir :: string
  ps_log_line_max_bytes :: int

definition streamPipe :: "string \<Rightarrow> proc_spec \<Rightarrow> (nat \<Rightarrow> bool) \<Rightarrow> string \<Rightarrow> structured_log list" where
  "streamPipe stream spec cancelled data =
     (let ls = delivered_lines (ps_log_line_max_bytes spec) cancelled data
      in map (\<lambda>(i, l). \<lparr>log_run_id = ps_run_id spec, log_attempt = ps_attempt spec,
              log_phase = ps_phase spec, log_command_class = ps_command_class spec,
              log_command_id = [], log_provider = [], log_exec_provider_id = [],
              log_stream = stream, log_line_no = int i + 1,
              log_line = Redact (clip_line (ps_log_line_max_bytes spec) l),
              log_attributes = []\<rparr>) (zip [0..<length ls] ls))"

section \<open>Running a process\<close>

text \<open>
  How the operating system answers: a pipe or the start fails, or the process runs, writes to its
  two streams and ends. \<open>WaitSignal\<close> is an exit by a signal, whose \<open>ExitCode\<close> is \<open>-1\<close>.
\<close>

datatype wait_outcome = WaitOk | WaitExit int | WaitSignal string | WaitError go_error

datatype process_outcome =
    PipeFailed go_error
  | StartFailed go_error
  | Ran (ran_stdout: string) (ran_stderr: string) (ran_deadline: bool) (ran_wait: wait_outcome)

record proc_result =
  pres_exit_code :: int
  pres_signal :: string
  pres_timed_out :: bool
  pres_stdout_lines :: int
  pres_stderr_lines :: int

definition zero_proc_result :: proc_result where
  "zero_proc_result = \<lparr>pres_exit_code = 0, pres_signal = [], pres_timed_out = False,
     pres_stdout_lines = 0, pres_stderr_lines = 0\<rparr>"

text \<open>The context is cancelled before a line only when the deadline has passed.\<close>

definition finish_process :: "proc_spec \<Rightarrow> (nat \<Rightarrow> bool) \<Rightarrow> process_outcome \<Rightarrow>
    proc_result \<times> go_error option \<times> structured_log list" where
  "finish_process spec cancelled oc =
     (case oc of
        PipeFailed e \<Rightarrow> (zero_proc_result, Some e, [])
      | StartFailed e \<Rightarrow> (zero_proc_result, Some e, [])
      | Ran out err deadline w \<Rightarrow>
          (let cancelled = (\<lambda>n. deadline \<and> cancelled n);
               outs = streamPipe ''stdout'' spec cancelled out;
               errs = streamPipe ''stderr'' spec cancelled err;
               r = zero_proc_result\<lparr>pres_stdout_lines := int (length outs),
                                    pres_stderr_lines := int (length errs)\<rparr>;
               logs = outs @ errs
           in if deadline then (r\<lparr>pres_timed_out := True, pres_exit_code := -1\<rparr>, Some DeadlineExceeded, logs)
              else (case w of
                  WaitOk \<Rightarrow> (r, None, logs)
                | WaitExit n \<Rightarrow> (r\<lparr>pres_exit_code := n\<rparr>, None, logs)
                | WaitSignal sig \<Rightarrow> (r\<lparr>pres_exit_code := -1, pres_signal := sig\<rparr>, None, logs)
                | WaitError e \<Rightarrow> (r, Some e, logs))))"

definition proc_run ::
  "host \<Rightarrow> (string \<Rightarrow> bool) \<Rightarrow> (string \<Rightarrow> string list \<Rightarrow> env \<Rightarrow> string \<Rightarrow> process_outcome) \<Rightarrow>
   (nat \<Rightarrow> bool) \<Rightarrow> proc_spec \<Rightarrow> proc_result \<times> go_error option \<times> structured_log list" where
  "proc_run h executable spawn cancelled spec =
     (if ps_command spec = [] then (zero_proc_result, Some (ErrorText ''empty command''), [])
      else (let m = mergedEnv h (ps_env spec) in
        case resolveCommandPath h executable (hd (ps_command spec)) m (ps_dir spec) of
          Inl e \<Rightarrow> (zero_proc_result, Some e, [])
        | Inr path \<Rightarrow> finish_process spec cancelled
            (spawn path (tl (ps_command spec)) m (ps_dir spec))))"

end
