(* ===== verification/Proc_Facts.thy ===== *)
theory Proc_Facts
  imports Proc Config_Stable
begin

text \<open>
  What the process layer guarantees: the meaning of a merged environment, the absence of known
  secrets from redacted lines (through a locale that states what a redaction pattern must satisfy,
  interpreted for the four patterns), the lines that reach the log and the result of a run.
\<close>

section \<open>Merged environments\<close>

definition refers_to :: "env \<Rightarrow> string \<Rightarrow> string \<Rightarrow> bool" where
  "refers_to extra key ref \<longleftrightarrow>
     (\<exists>raw. map_of extra key = Some raw \<and> Ref ref \<in> set (expand_tokens raw)) \<and>
     ref \<noteq> key \<and> env_has extra ref"

fun expand_value :: "env \<Rightarrow> env \<Rightarrow> nat \<Rightarrow> string \<Rightarrow> string" where
  "expand_value extra base n key =
     (case map_of extra key of None \<Rightarrow> env_get base key
      | Some raw \<Rightarrow> os_expand (\<lambda>ref.
          if ref \<noteq> key \<and> env_has extra ref then
            (case n of 0 \<Rightarrow> [] | Suc n' \<Rightarrow> expand_value extra base n' ref)
          else env_get base ref) raw)"

declare expand_value.simps [simp del]

lemma os_expand_cong:
  assumes "\<And>ref. Ref ref \<in> set (expand_tokens s) \<Longrightarrow> f ref = g ref"
  shows "os_expand f s = os_expand g s"
proof -
  have "token_value f t = token_value g t" if "t \<in> set (expand_tokens s)" for t
  proof (cases t)
    case (Ref ref)
    with that assms show ?thesis by simp
  qed simp
  then show ?thesis unfolding os_expand_def by (metis (no_types, lifting) map_cong)
qed

lemma expand_value_enough:
  assumes "\<And>k ref. refers_to extra k ref \<Longrightarrow> (rank ref :: nat) < rank k"
  shows "rank key \<le> n \<Longrightarrow> rank key \<le> n' \<Longrightarrow> expand_value extra base n key = expand_value extra base n' key"
proof (induction "rank key" arbitrary: key n n' rule: less_induct)
  case less
  show ?case
  proof (cases "map_of extra key")
    case None
    then show ?thesis by (simp add: expand_value.simps)
  next
    case (Some raw)
    have "os_expand (\<lambda>ref. if ref \<noteq> key \<and> env_has extra ref then
            (case n of 0 \<Rightarrow> [] | Suc n' \<Rightarrow> expand_value extra base n' ref) else env_get base ref) raw =
          os_expand (\<lambda>ref. if ref \<noteq> key \<and> env_has extra ref then
            (case n' of 0 \<Rightarrow> [] | Suc n' \<Rightarrow> expand_value extra base n' ref) else env_get base ref) raw"
    proof (rule os_expand_cong)
      fix ref assume "Ref ref \<in> set (expand_tokens raw)"
      show "(if ref \<noteq> key \<and> env_has extra ref then
            (case n of 0 \<Rightarrow> [] | Suc n' \<Rightarrow> expand_value extra base n' ref) else env_get base ref) =
          (if ref \<noteq> key \<and> env_has extra ref then
            (case n' of 0 \<Rightarrow> [] | Suc n' \<Rightarrow> expand_value extra base n' ref) else env_get base ref)"
      proof (cases "ref \<noteq> key \<and> env_has extra ref")
        case True
        with Some \<open>Ref ref \<in> _\<close> have "refers_to extra key ref" by (auto simp: refers_to_def)
        from assms [OF this] have r: "rank ref < rank key" .
        with less.prems obtain m m' where "n = Suc m" "n' = Suc m'" "rank ref \<le> m" "rank ref \<le> m'"
          by (metis Suc_le_D Suc_leI Suc_le_mono le_trans)
        with less.hyps [OF r, of m m'] True show ?thesis by simp
      qed auto
    qed
    with Some show ?thesis by (simp add: expand_value.simps [of _ _ n] expand_value.simps [of _ _ n'])
  qed
qed

text \<open>What a variable should be: its text with every other reference replaced by what that should be.\<close>

definition intended :: "env \<Rightarrow> env \<Rightarrow> (string \<Rightarrow> nat) \<Rightarrow> string \<Rightarrow> string" where
  "intended extra base rank key = expand_value extra base (rank key) key"

definition ref_value :: "env \<Rightarrow> env \<Rightarrow> (string \<Rightarrow> nat) \<Rightarrow> string \<Rightarrow> string \<Rightarrow> string" where
  "ref_value extra base rank key ref =
     (if ref \<noteq> key \<and> env_has extra ref then intended extra base rank ref else env_get base ref)"

lemma intended_unfold:
  assumes "\<And>k ref. refers_to extra k ref \<Longrightarrow> (rank ref :: nat) < rank k" "map_of extra key = Some raw"
  shows "intended extra base rank key = os_expand (ref_value extra base rank key) raw"
proof -
  let ?f = "\<lambda>ref. if ref \<noteq> key \<and> env_has extra ref then expand_value extra base (rank key) ref
        else env_get base ref"
  have "intended extra base rank key = expand_value extra base (Suc (rank key)) key"
    unfolding intended_def
    using expand_value_enough [where extra = extra and rank = rank and key = key and n = "rank key"
        and n' = "Suc (rank key)" and base = base, OF assms(1)] by simp
  also have "\<dots> = os_expand ?f raw"
    by (simp add: expand_value.simps [of _ _ "Suc (rank key)"] assms(2) cong: if_cong)
  also have "\<dots> = os_expand (ref_value extra base rank key) raw"
  proof (rule os_expand_cong)
    fix ref assume "Ref ref \<in> set (expand_tokens raw)"
    then have "ref \<noteq> key \<and> env_has extra ref \<Longrightarrow> rank ref < rank key"
      using assms by (auto simp: refers_to_def)
    then show "?f ref = ref_value extra base rank key ref"
      using expand_value_enough [where extra = extra and rank = rank and key = ref and n = "rank key"
          and n' = "rank ref" and base = base, OF assms(1)]
      by (auto simp: ref_value_def intended_def)
  qed
  finally show ?thesis .
qed

definition finished_ok :: "env \<Rightarrow> env \<Rightarrow> (string \<Rightarrow> nat) \<Rightarrow> env \<Rightarrow> bool" where
  "finished_ok extra base rank resolved \<longleftrightarrow>
     (\<forall>k v. map_of resolved k = Some v \<longrightarrow> env_has extra k \<and> v = intended extra base rank k)"

lemma resolve_correct:
  assumes rank: "\<And>k ref. refers_to extra0 k ref \<Longrightarrow> (rank ref :: nat) < rank k"
  shows "extra = extra0 \<Longrightarrow> finished_ok extra base rank resolved \<Longrightarrow> env_has extra key \<Longrightarrow>
           (\<forall>r\<in>set resolving. rank key < rank r) \<Longrightarrow>
           fst (resolve_key extra base resolving resolved key) = intended extra base rank key \<and>
           finished_ok extra base rank (snd (resolve_key extra base resolving resolved key))"
    and "extra = extra0 \<Longrightarrow> finished_ok extra base rank resolved \<Longrightarrow>
           (\<forall>ref. Ref ref \<in> set ts \<and> ref \<noteq> key \<and> env_has extra ref \<longrightarrow> (\<forall>r\<in>set resolving. rank ref < rank r)) \<Longrightarrow>
           fst (resolve_tokens extra base resolving resolved key ts) =
             concat (map (token_value (ref_value extra base rank key)) ts) \<and>
           finished_ok extra base rank (snd (resolve_tokens extra base resolving resolved key ts))"
proof (induction extra base resolving resolved key and extra base resolving resolved key ts
    rule: resolve_key_resolve_tokens.induct)
  case (1 extra base resolving resolved key)
  show ?case
  proof (cases "map_of resolved key")
    case (Some v)
    with 1(3) show ?thesis by (auto simp: finished_ok_def)
  next
    case None
    from 1(4) obtain raw where raw: "map_of extra key = Some raw" by (auto simp: env_has_def)
    from 1(5) have fresh: "key \<notin> set resolving" by auto
    obtain v resolved' where r: "resolve_tokens extra base (key # resolving) resolved key (expand_tokens raw)
        = (v, resolved')" by fastforce
    have refs: "\<forall>ref. Ref ref \<in> set (expand_tokens raw) \<and> ref \<noteq> key \<and> env_has extra ref \<longrightarrow>
        (\<forall>r\<in>set (key # resolving). rank ref < rank r)"
    proof (intro allI impI ballI)
      fix ref r assume ref: "Ref ref \<in> set (expand_tokens raw) \<and> ref \<noteq> key \<and> env_has extra ref"
        and r: "r \<in> set (key # resolving)"
      from ref raw 1(2) have "refers_to extra0 key ref" by (auto simp: refers_to_def)
      then have "rank ref < rank key" by (rule rank)
      moreover from r 1(5) have "rank key \<le> rank r" by (auto intro: less_imp_le)
      ultimately show "rank ref < rank r" by simp
    qed
    from 1(1) [OF None raw fresh 1(2) 1(3) refs] r
    have v: "v = os_expand (ref_value extra base rank key) raw" and ok: "finished_ok extra base rank resolved'"
      by (simp_all add: os_expand_def)
    from v intended_unfold [where rank = rank, OF rank] raw 1(2) have "v = intended extra base rank key" by simp
    with ok 1(4) show ?thesis
      by (simp add: None raw fresh r) (auto simp: finished_ok_def)
  qed
next
  case (2 extra base resolving resolved key)
  then show ?case by simp
next
  case (3 extra base resolving resolved key c ts)
  then show ?case by (auto simp: split_beta)
next
  case (4 extra base resolving resolved key ref ts)
  define u where "u = (if ref = key then (env_get base ref, resolved)
         else if env_has extra ref then resolve_key extra base resolving resolved ref
         else (env_get base ref, resolved))"
  have u: "fst u = ref_value extra base rank key ref \<and> finished_ok extra base rank (snd u)"
    using 4(1) [OF _ _ 4(3) 4(4)] 4(4,5) by (auto simp: u_def ref_value_def)
  have "fst (resolve_tokens extra base resolving (snd u) key ts) =
             concat (map (token_value (ref_value extra base rank key)) ts) \<and>
           finished_ok extra base rank (snd (resolve_tokens extra base resolving (snd u) key ts))"
    using 4(2) [OF u_def prod.collapse 4(3)] 4(5) u by simp
  with u show ?case by (simp add: u_def [symmetric] split_beta)
qed


lemma resolve_step_correct:
  assumes rank: "\<And>k ref. refers_to extra k ref \<Longrightarrow> (rank ref :: nat) < rank k"
    and ok: "finished_ok extra base rank (snd st)" and key: "env_has extra key"
  shows "fst (resolve_step extra base key st) = env_put key (intended extra base rank key) (fst st) \<and>
    finished_ok extra base rank (snd (resolve_step extra base key st))"
  using resolve_correct(1) [where ?extra0.0 = extra and rank = rank and extra = extra and base = base
      and resolved = "snd st" and key = key and resolving = "[]"] assms
  by (simp add: resolve_step_def split_beta)

lemma resolve_fold_correct:
  assumes rank: "\<And>k ref. refers_to extra k ref \<Longrightarrow> (rank ref :: nat) < rank k"
  shows "finished_ok extra base rank (snd st) \<Longrightarrow> (\<forall>k\<in>set ks. env_has extra k) \<Longrightarrow>
    map_of (fst (fold (resolve_step extra base) ks st)) k =
      (if k \<in> set ks then Some (intended extra base rank k) else map_of (fst st) k)"
proof (induction ks arbitrary: st)
  case (Cons j ks)
  from resolve_step_correct [where rank = rank, OF rank Cons.prems(1), of j] Cons.prems(2)
  have step: "fst (resolve_step extra base j st) = env_put j (intended extra base rank j) (fst st)"
    "finished_ok extra base rank (snd (resolve_step extra base j st))" by simp_all
  from Cons.IH [OF step(2)] Cons.prems(2) step(1) show ?case by auto
qed simp

lemma env_has_keys: "env_has m k \<longleftrightarrow> k \<in> fst ` set m"
  by (auto simp: env_has_def map_of_eq_None_iff)

lemma mergedEnv_correct:
  assumes rank: "\<And>k ref. refers_to extra k ref \<Longrightarrow> (rank ref :: nat) < rank k"
  shows "map_of (mergedEnv h extra) k =
    (if env_has extra k then Some (intended extra (process_base h) rank k) else map_of (process_base h) k)"
proof (cases "extra = []")
  case False
  have "finished_ok extra (process_base h) rank (snd (process_base h, []))"
    by (simp add: finished_ok_def)
  from resolve_fold_correct [where rank = rank, OF rank this, of "sorted_keys extra" k] False
  show ?thesis by (simp add: mergedEnv_def Let_def sorted_keys_def env_has_keys)
qed (simp add: mergedEnv_def Let_def)

text \<open>
  C18: the environment of a process is the host's, with every extra variable set to its text in which
  each reference to another extra variable is replaced by that variable's final value, and each
  reference to itself or to anything else by the host's value. This holds for every environment
  whose references do not run in a circle (witnessed by a rank), in whatever order they are listed;
  that the computation ends needs no such condition.
\<close>

theorem mergedEnv_expands_references:
  assumes "\<And>k ref. refers_to extra k ref \<Longrightarrow> (rank ref :: nat) < rank k"
  shows "map_of (mergedEnv h extra) k =
    (case map_of extra k of
       None \<Rightarrow> map_of (process_base h) k
     | Some raw \<Rightarrow> Some (os_expand (\<lambda>ref.
         if ref \<noteq> k \<and> env_has extra ref then env_get (mergedEnv h extra) ref
         else env_get (process_base h) ref) raw))"
proof (cases "map_of extra k")
  case None
  then show ?thesis using mergedEnv_correct [where rank = rank, OF assms] by (simp add: env_has_def)
next
  case (Some raw)
  have "ref_value extra (process_base h) rank k = (\<lambda>ref. if ref \<noteq> k \<and> env_has extra ref
       then env_get (mergedEnv h extra) ref else env_get (process_base h) ref)"
  proof
    fix ref
    show "ref_value extra (process_base h) rank k ref = (if ref \<noteq> k \<and> env_has extra ref
       then env_get (mergedEnv h extra) ref else env_get (process_base h) ref)"
      using mergedEnv_correct [where rank = rank and h = h and k = ref, OF assms]
      by (simp add: ref_value_def env_get_def)
  qed
  moreover have "env_has extra k" using Some by (simp add: env_has_def)
  ultimately show ?thesis
    using Some mergedEnv_correct [where rank = rank and h = h and k = k, OF assms]
    by (simp only: intended_unfold [where rank = rank, OF assms Some] if_True option.case)
qed

definition sample_extra :: env where
  "sample_extra = [(''PATH'', ''/opt/bin:$PATH''), (''GOBIN'', ''${GOROOT}/bin''), (''GOROOT'', ''/usr/go'')]"

lemma sample_tokens:
  "expand_tokens ''/opt/bin:$PATH'' = map Lit ''/opt/bin:'' @ [Ref ''PATH'']"
  "expand_tokens ''${GOROOT}/bin'' = Ref ''GOROOT'' # map Lit ''/bin''"
  "expand_tokens ''/usr/go'' = map Lit ''/usr/go''"
  by code_simp+

definition sample_rank :: "string \<Rightarrow> nat" where
  "sample_rank k = (if k = ''GOBIN'' then 1 else 0)"

lemma sample_ranked: "refers_to sample_extra k ref \<Longrightarrow> sample_rank ref < sample_rank k"
  by (auto simp: refers_to_def sample_extra_def sample_rank_def env_has_def sample_tokens split: if_splits)

theorem mergedEnv_expands_references_witness:
  "map_of (mergedEnv \<lparr>host_env = [(''PATH'', ''/bin'')], host_cwd = None, host_goos = [], host_goarch = []\<rparr>
     sample_extra) ''PATH'' = Some ''/opt/bin:/bin''"
proof -
  let ?h = "\<lparr>host_env = [(''PATH'', ''/bin'')], host_cwd = None, host_goos = [], host_goarch = []\<rparr>"
  have base: "process_base ?h = [(''PATH'', ''/bin'')]" by code_simp
  have "map_of sample_extra ''PATH'' = Some ''/opt/bin:$PATH''" by code_simp
  with mergedEnv_expands_references [where rank = sample_rank and extra = sample_extra and h = ?h and k = "''PATH''"]
    sample_ranked base
  show ?thesis by (simp add: os_expand_def sample_tokens env_get_def)
qed

section \<open>Redaction\<close>

text \<open>
  The contract of a redaction pattern. A match begins with a visible byte and takes at least one; it
  depends on the text only up to a bracket (a match that ends at or before a bracket, or whose value
  starts with it, is there whatever visible text follows); and the replacement hides no start of
  another match.
\<close>

locale redaction_pattern =
  fixes m :: "string \<Rightarrow> string option"
  assumes visible: "m s = Some r \<Longrightarrow> s \<noteq> [] \<and> \<not> re_space (hd s)"
    and shorter: "m s = Some r \<Longrightarrow> suffix r s \<and> r \<noteq> s"
    and bracket: "m (a @ CHR ''['' # b) \<noteq> None \<Longrightarrow> \<not> re_space c \<Longrightarrow> m (a @ c # d) \<noteq> None"
    and inside: "k < length redacted \<Longrightarrow> m (drop k redacted @ t) = None"
begin

definition unmatched :: "string \<Rightarrow> bool" where
  "unmatched s \<longleftrightarrow> (\<forall>t. suffix t s \<longrightarrow> m t = None)"

lemma m_Nil [simp]: "m [] = None"
  using visible [of "[]"] by (cases "m []") auto

lemma unmatched_Nil [simp]: "unmatched []"
  by (simp add: unmatched_def)

lemma unmatched_Cons: "unmatched (c # cs) \<longleftrightarrow> m (c # cs) = None \<and> unmatched cs"
  by (auto simp: unmatched_def suffix_Cons)

lemma unmatched_suffix: "unmatched s \<Longrightarrow> suffix t s \<Longrightarrow> unmatched t"
  by (auto simp: unmatched_def dest: suffix_order.trans)

lemma unmatched_redacted: "unmatched rest \<Longrightarrow> unmatched (redacted @ rest)"
proof (unfold unmatched_def, intro allI impI)
  fix t assume rest: "\<forall>t. suffix t rest \<longrightarrow> m t = None" and "suffix t (redacted @ rest)"
  then consider "suffix t rest" | u where "suffix u redacted" "u \<noteq> []" "t = u @ rest"
    by (cases "suffix t rest") (auto simp: suffix_append)
  then show "m t = None"
  proof cases
    case 1
    with rest show ?thesis by blast
  next
    case 2
    then obtain v where v: "redacted = v @ u" by (auto simp: suffix_def)
    from arg_cong [OF v, of length] have "length redacted = length v + length u" by simp
    then have "length v < length redacted" using 2(2) by (cases u) simp_all
    from inside [OF this, of rest] show ?thesis unfolding 2(3) v by simp
  qed
qed

text \<open>A replacement of \<open>n\<close> changes a text only from the visible start of a match on.\<close>

lemma replace_shape:
  assumes "\<And>s r. n s = Some r \<Longrightarrow> s \<noteq> [] \<and> \<not> re_space (hd s)"
  shows "replace_fuel k n s = s \<or>
    (\<exists>a x y z. s = a @ x # y \<and> \<not> re_space x \<and> replace_fuel k n s = a @ CHR ''['' # z)"
proof (induction k arbitrary: s)
  case 0
  then show ?case by (cases s) simp_all
next
  case (Suc k)
  show ?case
  proof (cases s)
    case (Cons c cs)
    show ?thesis
    proof (cases "n (c # cs)")
      case None
      from Suc.IH [of cs] show ?thesis
      proof
        assume "\<exists>a x y z. cs = a @ x # y \<and> \<not> re_space x \<and> replace_fuel k n cs = a @ CHR ''['' # z"
        then obtain a x y z where "cs = a @ x # y" "\<not> re_space x" "replace_fuel k n cs = a @ CHR ''['' # z"
          by blast
        with None Cons have "s = (c # a) @ x # y \<and> \<not> re_space x \<and>
            replace_fuel (Suc k) n s = (c # a) @ CHR ''['' # z" by simp
        then show ?thesis by blast
      qed (simp add: None Cons)
    next
      case (Some r)
      have "s = [] @ c # cs \<and> \<not> re_space c \<and>
          replace_fuel (Suc k) n s = [] @ CHR ''['' # (tl redacted @ replace_fuel k n r)"
        using Some assms [OF Some] Cons by (simp add: redacted_def)
      then show ?thesis by blast
    qed
  qed simp
qed

lemma keeps_literal:
  assumes "\<And>s r. n s = Some r \<Longrightarrow> s \<noteq> [] \<and> \<not> re_space (hd s)" "m (c # cs) = None"
  shows "m (c # replace_fuel k n cs) = None"
proof -
  have "replace_fuel k n cs = cs \<or>
    (\<exists>a x y z. cs = a @ x # y \<and> \<not> re_space x \<and> replace_fuel k n cs = a @ CHR ''['' # z)"
    using assms(1) by (rule replace_shape)
  then show ?thesis
  proof
    assume "\<exists>a x y z. cs = a @ x # y \<and> \<not> re_space x \<and> replace_fuel k n cs = a @ CHR ''['' # z"
    then obtain a x y z where eq: "cs = a @ x # y" "replace_fuel k n cs = a @ CHR ''['' # z"
      and x: "\<not> re_space x" by blast
    show ?thesis
    proof (rule ccontr)
      assume "m (c # replace_fuel k n cs) \<noteq> None"
      then have "m ((c # a) @ CHR ''['' # z) \<noteq> None" by (simp add: eq(2))
      from bracket [OF this x, of y] have "m (c # cs) \<noteq> None" by (simp add: eq(1))
      with assms(2) show False by simp
    qed
  qed (use assms(2) in simp)
qed

lemma unmatched_other:
  assumes "\<And>s r. n s = Some r \<Longrightarrow> s \<noteq> [] \<and> \<not> re_space (hd s)" "\<And>s r. n s = Some r \<Longrightarrow> suffix r s"
  shows "unmatched s \<Longrightarrow> unmatched (replace_fuel k n s)"
proof (induction k arbitrary: s)
  case 0
  then show ?case by (cases s) simp_all
next
  case (Suc k)
  show ?case
  proof (cases s)
    case (Cons c cs)
    show ?thesis
    proof (cases "n s")
      case None
      with Suc Cons keeps_literal [of n c cs k] assms(1) show ?thesis by (simp add: unmatched_Cons)
    next
      case (Some r)
      with Suc assms(2) have "unmatched (replace_fuel k n r)" by (blast intro: unmatched_suffix)
      then show ?thesis using Some Cons by (simp add: unmatched_redacted)
    qed
  qed simp
qed

lemma unmatched_self: "length s \<le> k \<Longrightarrow> unmatched (replace_fuel k m s)"
proof (induction k arbitrary: s)
  case (Suc k)
  show ?case
  proof (cases s)
    case (Cons c cs)
    show ?thesis
    proof (cases "m s")
      case None
      with Suc Cons keeps_literal [of m c cs k] visible show ?thesis by (simp add: unmatched_Cons)
    next
      case (Some r)
      then have "length r < length s" using shorter [OF Some] by (auto simp: suffix_def)
      with Suc have "unmatched (replace_fuel k m r)" by simp
      then show ?thesis using Some Cons by (simp add: unmatched_redacted)
    qed
  qed simp
qed simp

lemma unmatched_replaced: "unmatched (ReplaceAllString m s)"
  unfolding ReplaceAllString_def by (rule unmatched_self) simp

end


text \<open>Reading a text up to a bracket.\<close>

lemma strip_lit_bracket:
  assumes "strip_lit f w (a @ CHR ''['' # b) = Some r" "f CHR ''['' \<notin> set w"
  shows "\<exists>a'. r = a' @ CHR ''['' # b \<and> (\<forall>x. strip_lit f w (a @ x) = Some (a' @ x))"
  using assms
proof (induction w arbitrary: a)
  case (Cons w ws)
  then obtain c a' where "a = c # a'" "f c = w" by (cases a) (auto split: if_splits)
  with Cons show ?case by auto
qed auto

lemma strip_some_split:
  "strip_some p s = Some r \<longleftrightarrow> s \<noteq> [] \<and> p (hd s) \<and> r = dropWhile p s"
  by (auto simp: strip_some_def)

lemma dropWhile_bracket:
  assumes "\<not> p CHR ''[''"
  shows "\<exists>a'. dropWhile p (a @ CHR ''['' # b) = a' @ CHR ''['' # b"
  using assms by (induction a) auto

lemma strip_some_bracket:
  assumes "strip_some p (a @ CHR ''['' # b) = Some r" "\<not> p CHR ''[''"
  shows "\<exists>a'. r = a' @ CHR ''['' # b \<and> (a' \<noteq> [] \<longrightarrow> (\<forall>x. strip_some p (a @ x) = Some (a' @ x))) \<and>
    (\<forall>x. strip_some p (a @ x) \<noteq> None)"
proof -
  from assms obtain c a1 where a: "a = c # a1" "p c" by (cases a) (auto simp: strip_some_split)
  have "\<exists>a'. dropWhile p (a @ CHR ''['' # b) = a' @ CHR ''['' # b \<and>
      (a' \<noteq> [] \<longrightarrow> (\<forall>x. dropWhile p (a @ x) = a' @ x))" for a
    using assms(2) by (induction a) auto
  from this [of a] a assms(1) show ?thesis by (auto simp: strip_some_split strip_some_def)
qed

lemma strip_lit_suffix: "strip_lit f w s = Some r \<Longrightarrow> suffix r s"
  by (induction f w s rule: strip_lit.induct) (auto split: if_splits intro: suffix_ConsI)

lemma strip_some_suffix: "strip_some p s = Some r \<Longrightarrow> suffix r s \<and> length r < length s"
proof -
  assume "strip_some p s = Some r"
  then obtain c cs where s: "s = c # cs" "r = dropWhile p cs"
    by (cases s) (auto simp: strip_some_def split: if_splits)
  have "suffix r s" unfolding s by (rule suffix_ConsI, rule suffix_dropWhile)
  moreover have "length r < length s" unfolding s using length_dropWhile_le [of p cs] by simp
  ultimately show ?thesis by simp
qed

lemma strip_lit_visible:
  "strip_lit f (w # ws) s = Some r \<Longrightarrow> (\<And>c. f c = w \<Longrightarrow> \<not> re_space c) \<Longrightarrow> s \<noteq> [] \<and> \<not> re_space (hd s)"
  by (cases s) (auto split: if_splits)

lemma lower_visible: "lower_char c = w \<Longrightarrow> is_lower w \<Longrightarrow> \<not> re_space c"
  by (auto simp: re_space_def lower_char_def is_upper_def is_lower_def)

lemma match_assignment_Some:
  "match_assignment r = Some t \<longleftrightarrow> (\<exists>s u. r = Some s \<and> strip_lit id ''='' s = Some u \<and>
     strip_some (\<lambda>c. \<not> re_space c) u = Some t)"
  by (auto simp: match_assignment_def split: option.splits)

lemma match_assignment_suffix:
  assumes "match_assignment r = Some t" "\<And>s. r = Some s \<Longrightarrow> suffix s w"
  shows "suffix t w \<and> length t < length w"
proof -
  from assms(1) obtain s u where "r = Some s" "strip_lit id ''='' s = Some u"
    "strip_some (\<lambda>c. \<not> re_space c) u = Some t" by (auto simp: match_assignment_Some)
  with assms(2) strip_lit_suffix [of id "''=''" s u] strip_some_suffix [of _ u t]
  have "suffix s w" "suffix u s" "suffix t u" "length t < length u" by auto
  moreover from this have "length t < length w" using suffix_length_le [of s w] suffix_length_le [of u s] by simp
  ultimately show ?thesis by (auto intro: suffix_order.trans)
qed

text \<open>A key word and its assignment, as far as the bracket law is concerned.\<close>

definition reads_to_bracket :: "(string \<Rightarrow> string option) \<Rightarrow> bool" where
  "reads_to_bracket k \<longleftrightarrow> (\<forall>a b r. k (a @ CHR ''['' # b) = Some r \<longrightarrow>
     (\<exists>a'. r = a' @ CHR ''['' # b \<and> (\<forall>x. k (a @ x) = Some (a' @ x))))"

lemma reads_strip_lit: "f CHR ''['' \<notin> set w \<Longrightarrow> reads_to_bracket (strip_lit f w)"
  unfolding reads_to_bracket_def using strip_lit_bracket by blast

lemma reads_api_key: "reads_to_bracket strip_api_key"
  unfolding reads_to_bracket_def
proof (intro allI impI)
  fix a b r assume "strip_api_key (a @ CHR ''['' # b) = Some r"
  then obtain s where s: "strip_lit lower_char ''api'' (a @ CHR ''['' # b) = Some s"
    and r: "strip_lit lower_char ''key'' (if s \<noteq> [] \<and> (hd s = CHR ''_'' \<or> hd s = CHR ''-'') then tl s else s) = Some r"
    by (auto simp: strip_api_key_def split: option.splits)
  from strip_lit_bracket [OF s] obtain a1 where a1: "s = a1 @ CHR ''['' # b"
    "\<And>x. strip_lit lower_char ''api'' (a @ x) = Some (a1 @ x)"
    by (auto simp: lower_char_def is_upper_def)
  have "a1 \<noteq> []" using r a1(1) by (auto simp: lower_char_def is_upper_def split: if_splits)
  then obtain d a2 where a2: "a1 = d # a2" by (cases a1) auto
  define a3 where "a3 = (if d = CHR ''_'' \<or> d = CHR ''-'' then a2 else a1)"
  have "strip_lit lower_char ''key'' (a3 @ CHR ''['' # b) = Some r"
    using r a1(1) a2
    by (cases "d = CHR ''_'' \<or> d = CHR ''-''") (auto simp add: a3_def simp del: strip_lit.simps)
  from strip_lit_bracket [OF this] obtain a4 where a4: "r = a4 @ CHR ''['' # b"
    "\<And>x. strip_lit lower_char ''key'' (a3 @ x) = Some (a4 @ x)"
    by (auto simp: lower_char_def is_upper_def)
  have "strip_api_key (a @ x) = Some (a4 @ x)" for x
    using a4(2) [of x] a1(2) [of x] a2
    by (cases "d = CHR ''_'' \<or> d = CHR ''-''") (auto simp: strip_api_key_def a3_def)
  with a4(1) show "\<exists>a'. r = a' @ CHR ''['' # b \<and> (\<forall>x. strip_api_key (a @ x) = Some (a' @ x))" by blast
qed

lemma assignment_bracket:
  assumes "reads_to_bracket k" "match_assignment (k (a @ CHR ''['' # b)) \<noteq> None" "\<not> re_space c"
  shows "match_assignment (k (a @ c # d)) \<noteq> None"
proof -
  from assms(2) obtain s u t where k: "k (a @ CHR ''['' # b) = Some s"
    and u: "strip_lit id ''='' s = Some u" and t: "strip_some (\<lambda>c. \<not> re_space c) u = Some t"
    by (auto simp: match_assignment_Some)
  from assms(1) k obtain a1 where a1: "s = a1 @ CHR ''['' # b" "\<And>x. k (a @ x) = Some (a1 @ x)"
    unfolding reads_to_bracket_def by blast
  from u a1(1) have "strip_lit id ''='' (a1 @ CHR ''['' # b) = Some u" by simp
  from strip_lit_bracket [OF this] obtain a2 where a2: "u = a2 @ CHR ''['' # b"
    "\<And>x. strip_lit id ''='' (a1 @ x) = Some (a2 @ x)" by auto
  have "strip_some (\<lambda>c. \<not> re_space c) (a2 @ c # d) \<noteq> None"
    using t a2(1) assms(3) by (cases a2) (auto simp: strip_some_def split: if_splits)
  then show ?thesis using a1(2) a2(2) by (auto simp: match_assignment_def split: option.splits)
qed


lemma redacted_cases: "k < length redacted \<Longrightarrow> k \<in> {0, 1, 2, 3, 4, 5, 6, 7, 8, 9}"
  by (auto simp: redacted_def)

interpretation bearer: redaction_pattern match_bearer
proof
  fix s r :: string assume "match_bearer s = Some r"
  then obtain s1 s2 s3 where s: "strip_lit id ''Bearer'' s = Some s1" "strip_some re_space s1 = Some s2"
    "strip_some bearer_char s2 = Some s3" "r = dropWhile (\<lambda>c. c = CHR ''='') s3"
    by (auto simp: match_bearer_def split: option.splits)
  from strip_lit_visible [OF s(1)] show "s \<noteq> [] \<and> \<not> re_space (hd s)" by (auto simp: re_space_def)
  have "suffix s1 s" "suffix s2 s1" "suffix s3 s2" "length s3 < length s2" "suffix r s3"
    using strip_lit_suffix [OF s(1)] strip_some_suffix [OF s(2)] strip_some_suffix [OF s(3)] s(4)
    by (auto simp: suffix_dropWhile)
  then have "suffix r s" "length r < length s"
    using suffix_length_le [of s1 s] suffix_length_le [of s2 s1] suffix_length_le [of r s3]
    by (auto intro: suffix_order.trans)
  then show "suffix r s \<and> r \<noteq> s" by auto
next
  fix a b c d assume "match_bearer (a @ CHR ''['' # b) \<noteq> None"
  then obtain s1 s2 s3 where s: "strip_lit id ''Bearer'' (a @ CHR ''['' # b) = Some s1"
    "strip_some re_space s1 = Some s2" "strip_some bearer_char s2 = Some s3"
    by (auto simp: match_bearer_def split: option.splits)
  from strip_lit_bracket [OF s(1)] obtain a1 where a1: "s1 = a1 @ CHR ''['' # b"
    "\<And>x. strip_lit id ''Bearer'' (a @ x) = Some (a1 @ x)" by auto
  from s(2) a1(1) have "strip_some re_space (a1 @ CHR ''['' # b) = Some s2" by simp
  from strip_some_bracket [OF this] obtain a2 where a2: "s2 = a2 @ CHR ''['' # b"
    "a2 \<noteq> [] \<Longrightarrow> strip_some re_space (a1 @ x) = Some (a2 @ x)" for x
    by (auto simp: re_space_def)
  have "a2 \<noteq> []" using s(3) a2(1) by (auto simp: strip_some_def bearer_char_def is_upper_def is_lower_def
      is_digit_def split: if_splits)
  moreover from s(3) a2(1) have "strip_some bearer_char (a2 @ CHR ''['' # b) = Some s3" by simp
  from strip_some_bracket [OF this] have "strip_some bearer_char (a2 @ x) \<noteq> None" for x
    by (auto simp: bearer_char_def is_upper_def is_lower_def is_digit_def)
  ultimately show "match_bearer (a @ c # d) \<noteq> None"
    using a1(2) a2(2) by (auto simp: match_bearer_def split: option.splits)
next
  fix k t assume "k < length redacted"
  from redacted_cases [OF this] show "match_bearer (drop k redacted @ t) = None"
    by (auto simp: match_bearer_def redacted_def)
qed

lemma first_some_eq: "first_some xs = Some y \<Longrightarrow> Some y \<in> set xs"
  by (induction xs rule: first_some.induct) auto

lemma first_some_None: "first_some xs = None \<longleftrightarrow> (\<forall>x\<in>set xs. x = None)"
  by (induction xs rule: first_some.induct) auto

lemma strip_api_key_suffix: "strip_api_key s = Some r \<Longrightarrow> suffix r s"
  by (auto simp: strip_api_key_def split: option.splits if_splits
      dest!: strip_lit_suffix intro: suffix_order.trans suffix_order.trans [OF _ suffix_tl])

lemma match_key_cases:
  assumes "match_key s = Some r"
  obtains "match_assignment (strip_api_key s) = Some r"
    | "match_assignment (strip_lit lower_char ''token'' s) = Some r"
    | "match_assignment (strip_lit lower_char ''secret'' s) = Some r"
  using first_some_eq [OF assms [unfolded match_key_def]] by auto

interpretation key: redaction_pattern match_key
proof
  fix s r :: string assume m: "match_key s = Some r"
  from m show "s \<noteq> [] \<and> \<not> re_space (hd s)"
    by (cases rule: match_key_cases)
      (auto simp: match_assignment_Some strip_api_key_def is_lower_def split: option.splits
        dest!: strip_lit_visible lower_visible)
  from m have "suffix r s \<and> length r < length s"
    by (cases rule: match_key_cases) (auto dest!: match_assignment_suffix [where w = s]
        dest: strip_lit_suffix strip_api_key_suffix)
  then show "suffix r s \<and> r \<noteq> s" by auto
next
  fix a b c d assume m: "match_key (a @ CHR ''['' # b) \<noteq> None" and c: "\<not> re_space c"
  have r: "reads_to_bracket (strip_lit lower_char ''token'')" "reads_to_bracket (strip_lit lower_char ''secret'')"
    by (rule reads_strip_lit, simp add: lower_char_def is_upper_def)+
  from m show "match_key (a @ c # d) \<noteq> None"
    using assignment_bracket [OF reads_api_key _ c, of a b d] assignment_bracket [OF r(1) _ c, of a b d]
      assignment_bracket [OF r(2) _ c, of a b d]
    by (auto simp: match_key_def first_some_None)
next
  fix k t assume "k < length redacted"
  from redacted_cases [OF this] show "match_key (drop k redacted @ t) = None"
    by (auto simp: match_key_def redacted_def strip_api_key_def match_assignment_def lower_char_def is_upper_def)
qed


interpretation akia: redaction_pattern match_akia
proof
  fix s r :: string assume "match_akia s = Some r"
  then obtain s1 where s: "strip_lit id ''AKIA'' s = Some s1" "16 \<le> length s1" "r = drop 16 s1"
    by (auto simp: match_akia_def split: option.splits if_splits)
  from strip_lit_visible [OF s(1)] show "s \<noteq> [] \<and> \<not> re_space (hd s)" by (auto simp: re_space_def)
  have "suffix s1 s" "suffix r s1" "length r < length s1"
    using strip_lit_suffix [OF s(1)] s(2,3) by (auto simp: suffix_drop)
  then have "suffix r s" "length r < length s"
    using suffix_length_le [of s1 s] by (auto intro: suffix_order.trans)
  then show "suffix r s \<and> r \<noteq> s" by auto
next
  fix a b c d assume "match_akia (a @ CHR ''['' # b) \<noteq> None"
  then obtain s1 where s: "strip_lit id ''AKIA'' (a @ CHR ''['' # b) = Some s1" "16 \<le> length s1"
    "\<forall>c\<in>set (take 16 s1). is_digit c \<or> is_upper c"
    by (auto simp: match_akia_def split: option.splits if_splits)
  from strip_lit_bracket [OF s(1)] obtain a1 where a1: "s1 = a1 @ CHR ''['' # b"
    "\<And>x. strip_lit id ''AKIA'' (a @ x) = Some (a1 @ x)" by auto
  have "16 \<le> length a1"
  proof (rule ccontr)
    assume "\<not> 16 \<le> length a1"
    then have "CHR ''['' \<in> set (take 16 s1)" by (simp add: a1(1) take_Cons')
    with s(3) show False by (auto simp: is_digit_def is_upper_def)
  qed
  with s(3) a1 show "match_akia (a @ c # d) \<noteq> None" by (auto simp: match_akia_def)
next
  fix k t assume "k < length redacted"
  from redacted_cases [OF this] show "match_akia (drop k redacted @ t) = None"
    by (auto simp: match_akia_def redacted_def)
qed

lemma match_password_cases:
  assumes "match_password s = Some r"
  obtains "match_assignment (strip_lit lower_char ''password'' s) = Some r"
    | "match_assignment (strip_lit lower_char ''passwd'' s) = Some r"
    | "match_assignment (strip_lit lower_char ''pwd'' s) = Some r"
  using first_some_eq [OF assms [unfolded match_password_def]] by auto

interpretation password: redaction_pattern match_password
proof
  fix s r :: string assume m: "match_password s = Some r"
  from m show "s \<noteq> [] \<and> \<not> re_space (hd s)"
    by (cases rule: match_password_cases)
      (auto simp: match_assignment_Some is_lower_def dest!: strip_lit_visible lower_visible)
  from m have "suffix r s \<and> length r < length s"
    by (cases rule: match_password_cases) (auto dest!: match_assignment_suffix [where w = s]
        dest: strip_lit_suffix)
  then show "suffix r s \<and> r \<noteq> s" by auto
next
  fix a b c d assume m: "match_password (a @ CHR ''['' # b) \<noteq> None" and c: "\<not> re_space c"
  have r: "reads_to_bracket (strip_lit lower_char ''password'')"
    "reads_to_bracket (strip_lit lower_char ''passwd'')" "reads_to_bracket (strip_lit lower_char ''pwd'')"
    by (rule reads_strip_lit, simp add: lower_char_def is_upper_def)+
  from m show "match_password (a @ c # d) \<noteq> None"
    using assignment_bracket [OF r(1) _ c, of a b d] assignment_bracket [OF r(2) _ c, of a b d]
      assignment_bracket [OF r(3) _ c, of a b d]
    by (auto simp: match_password_def first_some_None)
next
  fix k t assume "k < length redacted"
  from redacted_cases [OF this] show "match_password (drop k redacted @ t) = None"
    by (auto simp: match_password_def redacted_def match_assignment_def lower_char_def is_upper_def)
qed

text \<open>
  C19: a redacted line holds no secret that the patterns know: none of the four patterns matches
  anywhere in it. In particular a replacement for one pattern never leaves or creates a match of
  another, although the patterns run one after the other and only once.
\<close>

theorem redacted_line_is_clean:
  "t \<in> set (suffixes (Redact line)) \<Longrightarrow> m \<in> set redactPatterns \<Longrightarrow> m t = None"
proof -
  define l1 where "l1 = ReplaceAllString match_bearer line"
  define l2 where "l2 = ReplaceAllString match_key l1"
  define l3 where "l3 = ReplaceAllString match_akia l2"
  define l4 where "l4 = ReplaceAllString match_password l3"
  note keeps = ReplaceAllString_def key.visible key.shorter akia.visible akia.shorter
    password.visible password.shorter
  have 1: "bearer.unmatched l1" unfolding l1_def by (rule bearer.unmatched_replaced)
  have 2: "bearer.unmatched l2" "key.unmatched l2" unfolding l2_def
    using 1 by (auto simp: keeps intro!: bearer.unmatched_other key.unmatched_self)
  have 3: "bearer.unmatched l3" "key.unmatched l3" "akia.unmatched l3" unfolding l3_def
    using 2 by (auto simp: keeps intro!: bearer.unmatched_other key.unmatched_other akia.unmatched_self)
  have 4: "bearer.unmatched l4" "key.unmatched l4" "akia.unmatched l4" "password.unmatched l4" unfolding l4_def
    using 3 by (auto simp: keeps intro!: bearer.unmatched_other key.unmatched_other akia.unmatched_other
        password.unmatched_self)
  have "Redact line = l4" by (simp add: Redact_def redactPatterns_def l1_def l2_def l3_def l4_def)
  moreover assume "t \<in> set (suffixes (Redact line))" "m \<in> set redactPatterns"
  ultimately show "m t = None" using 4
    by (auto simp: redactPatterns_def bearer.unmatched_def key.unmatched_def akia.unmatched_def
        password.unmatched_def)
qed

theorem redacted_line_is_clean_witness:
  "match_key (Redact ''GET /?token=abc Bearer xyz'') = None"
  by (rule redacted_line_is_clean [of _ "''GET /?token=abc Bearer xyz''"]) (simp_all add: redactPatterns_def)

section \<open>Lines and results\<close>

lemma delivered_all:
  "delivered_lines n (\<lambda>_. False) data = scan_lines (stream_max_buf n) data"
  by (simp add: delivered_lines_def Let_def split_beta takeWhile_eq_all_conv [THEN iffD2])

lemma stream_numbers:
  "map log_line_no (streamPipe stream spec cancelled data) =
     map (\<lambda>i. int i + 1) [0..<length (streamPipe stream spec cancelled data)]"
  by (rule nth_equalityI) (simp_all add: streamPipe_def Let_def split_beta)


definition sample_spec :: proc_spec where
  "sample_spec = \<lparr>ps_phase = PhaseExecute, ps_command = [''make''], ps_env = [], ps_dir = ''/work'',
     ps_timeout = 60, ps_run_id = ''r-1'', ps_attempt = 1, ps_command_class = ''command.exec'',
     ps_artifact_dir = ''/work/out'', ps_log_line_max_bytes = 8192\<rparr>"


text \<open>
  The result of a run tells how the process ended. A run whose deadline passed is timed out, has
  exit code -1 and the deadline error; otherwise the exit code is the process's own, or -1 with the
  signal's name, and an error is returned only when the process could not be started or awaited.
\<close>

theorem proc_run_result:
  assumes "ps_command spec \<noteq> []"
    and "resolveCommandPath h executable (hd (ps_command spec)) (mergedEnv h (ps_env spec)) (ps_dir spec) = Inr path"
    and "spawn path (tl (ps_command spec)) (mergedEnv h (ps_env spec)) (ps_dir spec) = Ran out err deadline w"
  shows "(case proc_run h executable spawn cancelled spec of (r, e, logs) \<Rightarrow>
    (pres_timed_out r \<longleftrightarrow> deadline) \<and>
    (if deadline then e = Some DeadlineExceeded \<and> pres_exit_code r = -1
     else (case w of WaitOk \<Rightarrow> e = None \<and> pres_exit_code r = 0
                 | WaitExit n \<Rightarrow> e = None \<and> pres_exit_code r = n
                 | WaitSignal sig \<Rightarrow> e = None \<and> pres_exit_code r = -1 \<and> pres_signal r = sig
                 | WaitError x \<Rightarrow> e = Some x \<and> pres_exit_code r = 0)) \<and>
    pres_stdout_lines r + pres_stderr_lines r = int (length logs))"
  using assms by (cases w) (simp_all add: proc_run_def finish_process_def zero_proc_result_def Let_def)

theorem proc_run_result_witness:
  "pres_exit_code (fst (proc_run sample_host (\<lambda>p. p = ''/bin/make'')
     (\<lambda>p args m d. Ran ''hi'' [] True WaitOk) (\<lambda>n. True) sample_spec)) = -1"
proof -
  have m: "resolveCommandPath sample_host (\<lambda>p. p = ''/bin/make'') (hd (ps_command sample_spec))
      (mergedEnv sample_host (ps_env sample_spec)) (ps_dir sample_spec) = Inr ''/bin/make''"
    by code_simp
  have "ps_command sample_spec \<noteq> []" by (simp add: sample_spec_def)
  from proc_run_result [OF this m, of "\<lambda>p args m d. Ran ''hi'' [] True WaitOk" "''hi''" "[]" True WaitOk "\<lambda>n. True"]
  show ?thesis by (simp add: split_beta)
qed

end
