(* ===== verification/Backend_Iface.thy ===== *)
theory Backend_Iface
  imports Model_Types
begin

text \<open>
  The types of \<open>internal/backend/interface.go\<close>: requests to a sandbox backend and its answers. A
  backend's optional interfaces (workspace syncing, metadata, artifact download, exec status and
  cancellation) are found by type assertion in the code; here they are the constructor \<open>Some\<close>.
\<close>

record create_sandbox_request =
  csr_run_id :: string
  csr_attempt :: int
  csr_workspace_id :: string
  csr_image :: string
  csr_entrypoint :: "string list"
  csr_env :: env
  csr_metadata :: env
  csr_cpu :: string
  csr_memory :: string
  csr_network_mode :: string
  csr_timeout_sec :: int
  csr_workspace_dir :: string

record exec_request =
  xr_command :: string
  xr_cwd :: string
  xr_env :: env
  xr_background :: bool
  xr_timeout :: int
  xr_class :: string

record sandbox_info =
  si_id :: string
  si_status :: string
  si_runtime_kind :: string
  si_endpoints :: "endpoint list"
  si_metadata :: env

definition zero_sandbox_info :: sandbox_info where
  "zero_sandbox_info = \<lparr>si_id = [], si_status = [], si_runtime_kind = [], si_endpoints = [], si_metadata = []\<rparr>"

record sandbox_status =
  sst_id :: string
  sst_status :: string

record exec_handle =
  eh_exec_id :: string
  eh_status :: string
  eh_provider :: string

record exec_status =
  es_id :: string
  es_running :: bool
  es_exit_code :: "int option"
  es_error :: string

record log_chunk =
  lc_stream :: string
  lc_line :: string

text \<open>
  The part of a backend that an executor drives. The exec status is read after the logs have ended; its
  last argument says whether a cancellation was sent before.
\<close>

record exec_backend =
  xb_exec :: "string \<Rightarrow> exec_request \<Rightarrow> go_error + exec_handle"
  xb_stream :: "string \<Rightarrow> string \<Rightarrow> go_error + log_chunk list"
  xb_status :: "(string \<Rightarrow> string \<Rightarrow> bool \<Rightarrow> go_error + exec_status) option"
  xb_cancels :: bool


text \<open>The zero value of the capabilities: a backend's literal sets what it supports.\<close>

definition zero_caps :: backend_capabilities where
  "zero_caps = \<lparr>caps_supports_pause_resume = False, caps_supports_ttl = False,
     caps_supports_file_upload = False, caps_supports_file_download = False,
     caps_supports_background_exec = False, caps_supports_stream_logs = False,
     caps_supports_endpoints = False, caps_supports_bridge_network = False,
     caps_supports_host_network = False, caps_supports_code_interp = False,
     caps_supports_runtime_profile = False, caps_supports_devcontainer = False,
     caps_supports_port_mapping = False, caps_supports_machine_exec = False, caps_supports_oci_image = False,
     caps_supports_vm_isolation = False, caps_supports_k8s_target = False\<rparr>"

text \<open>
  A whole backend, as the phase engine drives it. The answer of every operation may depend on what
  happened before: \<open>'t\<close> is the type of histories. The optional interfaces are \<open>None\<close> when the backend does
  not have them.
\<close>

record 't sandbox_backend =
  sbk_kind :: backend_kind
  sbk_capabilities :: "'t \<Rightarrow> go_error + backend_capabilities"
  sbk_runtime_info :: "'t \<Rightarrow> go_error + runtime_info"
  sbk_create :: "'t \<Rightarrow> create_sandbox_request \<Rightarrow> go_error + sandbox_info"
  sbk_start :: "'t \<Rightarrow> string \<Rightarrow> go_error option"
  sbk_pause :: "'t \<Rightarrow> string \<Rightarrow> go_error option"
  sbk_delete :: "'t \<Rightarrow> string \<Rightarrow> go_error option"
  sbk_sync_in :: "('t \<Rightarrow> string \<Rightarrow> string \<Rightarrow> go_error option) option"
  sbk_sync_out :: "('t \<Rightarrow> string \<Rightarrow> string \<Rightarrow> string \<Rightarrow> go_error option) option"
  sbk_metadata :: "('t \<Rightarrow> string \<Rightarrow> go_error + sandbox_info) option"
  sbk_endpoints :: "('t \<Rightarrow> string \<Rightarrow> int list \<Rightarrow> go_error + endpoint list) option"
  sbk_devcontainer :: "('t \<Rightarrow> string \<Rightarrow> go_error + devcontainer_artifact) option"
  sbk_download :: "('t \<Rightarrow> string \<Rightarrow> string \<Rightarrow> string \<Rightarrow> go_error option) option"

text \<open>\<open>internal/backend/factory.go\<close>: the constructor for each execution backend.\<close>

record 't backend_constructors =
  bc_local :: "backend_kind \<Rightarrow> run_config \<Rightarrow> 't sandbox_backend"
  bc_devcontainer :: "run_config \<Rightarrow> go_error + 't sandbox_backend"
  bc_apple_container :: "run_config \<Rightarrow> go_error + 't sandbox_backend"
  bc_orbstack_machine :: "run_config \<Rightarrow> go_error + 't sandbox_backend"
  bc_opensandbox :: "run_config \<Rightarrow> 't sandbox_backend"

definition backend_New ::
  "'t backend_constructors \<Rightarrow> execution_resolution \<Rightarrow> run_config \<Rightarrow> go_error + 't sandbox_backend" where
  "backend_New ctors resolution cfg =
     (let b = ex_backend (er_config resolution) in
      if b = ExecutionBackendDirect then Inr (bc_local ctors BackendKindDirect cfg)
      else if b = ExecutionBackendDocker then Inr (bc_local ctors BackendKindDocker cfg)
      else if b = ExecutionBackendDevContainer then bc_devcontainer ctors cfg
      else if b = ExecutionBackendAppleContainer then bc_apple_container ctors cfg
      else if b = ExecutionBackendMachine then bc_orbstack_machine ctors cfg
      else if b = ExecutionBackendK8s then Inr (bc_local ctors BackendKindK8s cfg)
      else if b = ExecutionBackendOpenSandbox then Inr (bc_opensandbox ctors cfg)
      else Inl (ErrorText (''unsupported backend kind: '' @ b)))"

end
