(* ===== verification/Executor.thy ===== *)
theory Executor
  imports Backend_Iface Proc
begin

text \<open>
  \<open>internal/executor\<close>: which executor runs a command, the executor for local processes and the one
  that drives a sandbox backend: quoting the command for a shell, mapping the working directory,
  numbering and redacting the log chunks, and turning the exec status into a result. The Docker
  executor has a theory of its own.
\<close>

record exec_spec =
  xs_phase :: phase
  xs_command :: "string list"
  xs_env :: env
  xs_dir :: string
  xs_timeout :: int
  xs_run_id :: string
  xs_attempt :: int
  xs_command_class :: string
  xs_artifact_dir :: string
  xs_log_line_max_bytes :: int
  xs_run_config :: run_config
  xs_target :: execution_target

text \<open>
  The values an executor puts into the metadata of a result; a raw value is one that the Docker engine
  has given and that is handed on as it is.
\<close>

datatype exec_meta =
    ExecMetaString string
  | ExecMetaBool bool
  | ExecMetaStrings "string list"
  | ExecMetaRaw string

record exec_result =
  xres_exit_code :: int
  xres_signal :: string
  xres_timed_out :: bool
  xres_stdout_lines :: int
  xres_stderr_lines :: int
  xres_target :: execution_target
  xres_metadata :: "(string \<times> exec_meta) list"

definition zero_target :: execution_target where
  "zero_target = \<lparr>tg_os = [], tg_arch = [], tg_mode = [], tg_backend_kind = [], tg_provider_name = [],
     tg_backend_provider = [], tg_runtime_profile = [], tg_runtime_class_name = [], tg_runtime_kind = [],
     tg_virtualization = [], tg_local_platform = [], tg_machine_name = [], tg_network_mode = [],
     tg_container_id = [], tg_container_image = [], tg_image_digest = [], tg_capabilities = [],
     tg_in_container = False, tg_in_kubernetes = False, tg_docker_available = False,
     tg_execution = \<lparr>ex_backend = [], ex_provider = [], ex_runtime_profile = []\<rparr>,
     tg_compatibility_level = SupportUnset\<rparr>"

definition zero_exec_result :: exec_result where
  "zero_exec_result = \<lparr>xres_exit_code = 0, xres_signal = [], xres_timed_out = False, xres_stdout_lines = 0,
     xres_stderr_lines = 0, xres_target = zero_target, xres_metadata = []\<rparr>"

section \<open>Choosing an executor\<close>

datatype executor =
    DirectExecutor execution_target
  | DockerExecutor run_config
  | BackendExecutor run_config execution_target

text \<open>
  \<open>docker_new\<close> is the outcome of \<open>NewDockerExecutor\<close>, which connects to the Docker engine;
  \<open>have_backend\<close> says that the backend implementation is not nil.
\<close>

definition NewBackendExecutor :: "run_config \<Rightarrow> execution_target \<Rightarrow> bool \<Rightarrow> go_error + executor" where
  "NewBackendExecutor cfg target have_backend =
     (if \<not> have_backend then Inl (ErrorText ''backend executor requires a backend implementation'')
      else Inr (BackendExecutor cfg target))"

definition executor_New ::
  "(run_config \<Rightarrow> go_error option) \<Rightarrow> run_config \<Rightarrow> execution_target \<Rightarrow> bool \<Rightarrow> go_error + executor" where
  "executor_New docker_new cfg target have_backend =
     (if bk_kind (cfg_backend cfg) \<in> {BackendKindOpenSandbox, BackendKindDevContainer,
           BackendKindAppleContainer, BackendKindOrbStackMachine}
        then NewBackendExecutor cfg target have_backend
      else if plat_run_mode (cfg_platform cfg) = RunModeLocalDocker then
        (case docker_new cfg of Some e \<Rightarrow> Inl e | None \<Rightarrow> Inr (DockerExecutor cfg))
      else Inr (DirectExecutor target))"

section \<open>Local processes\<close>

definition proc_spec_of :: "exec_spec \<Rightarrow> proc_spec" where
  "proc_spec_of spec = \<lparr>ps_phase = xs_phase spec, ps_command = xs_command spec, ps_env = xs_env spec,
     ps_dir = xs_dir spec, ps_timeout = xs_timeout spec, ps_run_id = xs_run_id spec,
     ps_attempt = xs_attempt spec, ps_command_class = xs_command_class spec,
     ps_artifact_dir = xs_artifact_dir spec, ps_log_line_max_bytes = xs_log_line_max_bytes spec\<rparr>"

definition DirectExecutor_Run ::
  "host \<Rightarrow> (string \<Rightarrow> bool) \<Rightarrow> (string \<Rightarrow> string list \<Rightarrow> env \<Rightarrow> string \<Rightarrow> process_outcome) \<Rightarrow>
   (nat \<Rightarrow> bool) \<Rightarrow> execution_target \<Rightarrow> exec_spec \<Rightarrow> exec_result \<times> go_error option \<times> structured_log list" where
  "DirectExecutor_Run h executable spawn cancelled target spec =
     (let (res, err, logs) = proc_run h executable spawn cancelled (proc_spec_of spec)
      in (\<lparr>xres_exit_code = pres_exit_code res, xres_signal = pres_signal res,
           xres_timed_out = pres_timed_out res, xres_stdout_lines = pres_stdout_lines res,
           xres_stderr_lines = pres_stderr_lines res, xres_target = target, xres_metadata = []\<rparr>,
          err, logs))"

section \<open>Sandbox backends\<close>

text \<open>\<open>strings.ReplaceAll(value, "'", `'"'"'`)\<close> between single quotes.\<close>

definition quote_escape :: string where
  "quote_escape = [CHR 0x27, CHR 0x22, CHR 0x27, CHR 0x22, CHR 0x27]"

definition shellQuote :: "string \<Rightarrow> string" where
  "shellQuote v =
     (if v = [] then [CHR 0x27, CHR 0x27]
      else [CHR 0x27] @ replace_char (CHR 0x27) quote_escape v @ [CHR 0x27])"

definition shellJoin :: "string list \<Rightarrow> string" where
  "shellJoin command = join '' '' (map shellQuote command)"

definition truncateLine :: "string \<Rightarrow> int \<Rightarrow> string" where
  "truncateLine line limit =
     (if 0 < limit \<and> limit < int (length line) then take (nat limit) line else line)"

definition executor_backendProviderName :: "run_config \<Rightarrow> string" where
  "executor_backendProviderName cfg =
     (let kind = bk_kind (cfg_backend cfg) in
      if ex_provider (cfg_execution cfg) \<noteq> [] then ex_provider (cfg_execution cfg)
      else if kind = BackendKindDocker then
        (if dk_provider (cfg_docker cfg) = DockerProviderOrbStack then ''orbstack'' else ''native'')
      else if kind = BackendKindK8s then ExecutionProviderForK8sProvider (k8_provider (cfg_k8s cfg))
      else if kind = BackendKindOrbStackMachine then ''orbstack''
      else if kind = BackendKindDirect then ''native''
      else kind)"

definition executor_providerName :: "run_config \<Rightarrow> string" where
  "executor_providerName cfg =
     (if ex_provider (cfg_execution cfg) \<noteq> [] then ex_provider (cfg_execution cfg)
      else executor_backendProviderName cfg)"

definition backendWorkspaceRoot :: "run_config \<Rightarrow> string" where
  "backendWorkspaceRoot cfg =
     (let kind = bk_kind (cfg_backend cfg) in
      if kind = BackendKindDevContainer then
        (if dc_workspace_folder (cfg_devcontainer cfg) \<noteq> [] then dc_workspace_folder (cfg_devcontainer cfg)
         else ''/workspace'')
      else if kind = BackendKindAppleContainer then apc_workspace_root (cfg_apple_container cfg)
      else if kind = BackendKindOrbStackMachine then orb_machine_workspace_root (cfg_orbstack cfg)
      else if kind = BackendKindOpenSandbox then osb_workspace_root (cfg_opensandbox cfg)
      else [])"

text \<open>
  \<open>filepath.Rel\<close> on the elements of the two cleaned paths: what remains after their common prefix,
  with one \<open>..\<close> for each element of the base that is left. It fails when one path is absolute and
  the other is not, or when a \<open>..\<close> of the base would have to be undone.
\<close>

fun drop_common :: "string list \<Rightarrow> string list \<Rightarrow> string list \<times> string list" where
  "drop_common (a # as) (b # bs) = (if a = b then drop_common as bs else (a # as, b # bs))"
| "drop_common as bs = (as, bs)"

definition path_elems :: "string \<Rightarrow> string list" where
  "path_elems p = clean_elems (is_abs p) (split_on CHR ''/'' p)"

definition path_rel :: "string \<Rightarrow> string \<Rightarrow> string option" where
  "path_rel base target =
     (if is_abs base \<noteq> is_abs target then None
      else (let (bs, ts) = drop_common (path_elems base) (path_elems target) in
        if dotdot \<in> set bs then None
        else (let es = replicate (length bs) dotdot @ ts in
          Some (if es = [] then dot else join ''/'' es))))"

definition remoteCwd :: "run_config \<Rightarrow> string \<Rightarrow> string" where
  "remoteCwd cfg localDir =
     (let workspace = rs_workspace_dir (cfg_run cfg); remoteRoot = backendWorkspaceRoot cfg;
          dev = (bk_kind (cfg_backend cfg) = BackendKindDevContainer);
          root = (if dev then [] else remoteRoot)
      in if localDir = [] \<or> workspace = [] \<or> remoteRoot = [] then root
         else (case path_rel workspace localDir of
             None \<Rightarrow> root
           | Some rel \<Rightarrow>
               if rel = dot then root
               else if dev then path_join [''/workspace'', rel]
               else path_join [remoteRoot, rel]))"

definition support_level_of :: "string \<Rightarrow> support_level" where
  "support_level_of s =
     (if s = ''supported'' then SupportSupported else if s = ''conditional'' then SupportConditional
      else if s = ''unsupported'' then SupportUnsupported else SupportUnset)"

definition resultTarget :: "run_config \<Rightarrow> execution_target \<Rightarrow> string \<Rightarrow> execution_target" where
  "resultTarget cfg target sandboxID =
     (let kind = bk_kind (cfg_backend cfg); osb = cfg_opensandbox cfg;
          devID = env_get (cfg_metadata cfg) ''devcontainer.container_id'';
          t = zero_target\<lparr>tg_os := ''linux'', tg_arch := tg_arch target,
            tg_mode := plat_run_mode (cfg_platform cfg),
            tg_backend_kind := ex_backend (cfg_execution cfg),
            tg_provider_name := executor_providerName cfg,
            tg_backend_provider := executor_backendProviderName cfg,
            tg_runtime_profile := ex_runtime_profile (cfg_execution cfg),
            tg_runtime_class_name := kata_runtime_class_name (cfg_kata cfg),
            tg_container_id := (if kind = BackendKindDevContainer \<and> devID \<noteq> [] then devID else sandboxID),
            tg_container_image := (if sb_image (cfg_sandbox cfg) = [] then rs_image (cfg_run cfg)
                                   else sb_image (cfg_sandbox cfg)),
            tg_execution := cfg_execution cfg,
            tg_compatibility_level :=
              support_level_of (env_get (cfg_metadata cfg) ''execution.compatibility_level'')\<rparr>
      in if kind = BackendKindDevContainer then
           t\<lparr>tg_runtime_kind := ''devcontainer'', tg_virtualization := ''none''\<rparr>
         else if kind = BackendKindOpenSandbox then
           t\<lparr>tg_runtime_kind := osb_runtime osb, tg_network_mode := osb_network_mode osb,
             tg_in_kubernetes := (osb_runtime osb = OpenSandboxRuntimeKubernetes),
             tg_docker_available := (osb_runtime osb = OpenSandboxRuntimeDocker),
             tg_virtualization :=
               (if rt_profile (cfg_runtime cfg) = RuntimeProfileKata then ''kata'' else ''none'')\<rparr>
         else if kind = BackendKindAppleContainer then
           t\<lparr>tg_runtime_kind := ''apple-container'', tg_virtualization := ''apple-container'',
             tg_local_platform := ''macos''\<rparr>
         else if kind = BackendKindOrbStackMachine then
           t\<lparr>tg_runtime_kind := ''orbstack-machine'', tg_virtualization := ''vm'',
             tg_local_platform := ''orbstack'', tg_machine_name := orb_machine_name (cfg_orbstack cfg)\<rparr>
         else t)"


text \<open>
  The loop over the log channel: \<open>stop\<close> is the number of chunks read before \<open>ctx.Done()\<close> is taken,
  \<open>None\<close> when the channel is drained. The two counters number the lines of each stream; a stream other
  than \<open>stderr\<close> counts as standard output.
\<close>

definition backend_attributes :: "exec_spec \<Rightarrow> env" where
  "backend_attributes spec = (let cfg = xs_run_config spec; kind = bk_kind (cfg_backend cfg) in
     [(''execution.backend'', ex_backend (cfg_execution cfg)),
      (''execution.provider'', ex_provider (cfg_execution cfg)),
      (''execution.runtime_profile'', ex_runtime_profile (cfg_execution cfg)),
      (''execution.compatibility_level'', env_get (cfg_metadata cfg) ''execution.compatibility_level''),
      (''backend.kind'', kind),
      (''backend.provider'', executor_backendProviderName cfg),
      (''runtime.profile'', rt_profile (cfg_runtime cfg)),
      (''sandbox.backend.kind'', kind),
      (''sandbox.provider.name'', executor_providerName cfg),
      (''sandbox.runtime.kind'', osb_runtime (cfg_opensandbox cfg)),
      (''sandbox.runtime.profile'', rt_profile (cfg_runtime cfg)),
      (''sandbox.runtime.class'', kata_runtime_class_name (cfg_kata cfg))])"

definition backend_log :: "exec_spec \<Rightarrow> string \<Rightarrow> log_chunk \<Rightarrow> int \<Rightarrow> structured_log" where
  "backend_log spec exec_id chunk n =
     \<lparr>log_run_id = xs_run_id spec, log_attempt = xs_attempt spec, log_phase = xs_phase spec,
      log_command_class = xs_command_class spec, log_command_id = exec_id,
      log_provider = executor_backendProviderName (xs_run_config spec), log_exec_provider_id = exec_id,
      log_stream = lc_stream chunk, log_line_no = n,
      log_line = Redact (truncateLine (lc_line chunk) (xs_log_line_max_bytes spec)),
      log_attributes = backend_attributes spec\<rparr>"

fun backend_logs :: "exec_spec \<Rightarrow> string \<Rightarrow> int \<Rightarrow> int \<Rightarrow> log_chunk list \<Rightarrow> structured_log list" where
  "backend_logs spec exec_id outs errs [] = []"
| "backend_logs spec exec_id outs errs (c # cs) =
     (if lc_stream c = ''stderr''
      then backend_log spec exec_id c (errs + 1) # backend_logs spec exec_id outs (errs + 1) cs
      else backend_log spec exec_id c (outs + 1) # backend_logs spec exec_id (outs + 1) errs cs)"

definition is_stderr :: "log_chunk \<Rightarrow> bool" where
  "is_stderr c \<longleftrightarrow> lc_stream c = ''stderr''"

text \<open>
  \<open>stop\<close> and \<open>ctx_err\<close> are the context: when its end is noticed, and what \<open>ctx.Err()\<close> says after the
  loop.
\<close>

record exec_context =
  xc_stop :: "nat option"
  xc_err :: "go_error option"

definition read_chunks :: "exec_context \<Rightarrow> log_chunk list \<Rightarrow> log_chunk list" where
  "read_chunks ctx chunks =
     (case xc_err ctx of None \<Rightarrow> chunks
      | Some _ \<Rightarrow> (case xc_stop ctx of None \<Rightarrow> chunks | Some n \<Rightarrow> take n chunks))"

definition interrupted :: "exec_context \<Rightarrow> bool" where
  "interrupted ctx \<longleftrightarrow> xc_err ctx \<noteq> None \<and> xc_stop ctx \<noteq> None"

definition exec_request_of :: "run_config \<Rightarrow> exec_spec \<Rightarrow> exec_request" where
  "exec_request_of cfg spec =
     \<lparr>xr_command = shellJoin (xs_command spec), xr_cwd = remoteCwd cfg (xs_dir spec),
      xr_env = xs_env spec, xr_background = False, xr_timeout = xs_timeout spec,
      xr_class = xs_command_class spec\<rparr>"

text \<open>Lines 117--130: the exit code, the provider's error text and the error of the status call.\<close>

definition read_status :: "exec_backend \<Rightarrow> string \<Rightarrow> string \<Rightarrow> bool \<Rightarrow> int \<times> string \<times> go_error option" where
  "read_status xb sandbox_id exec_id cancelled =
     (case xb_status xb of None \<Rightarrow> (0, [], None)
      | Some f \<Rightarrow> (case f sandbox_id exec_id cancelled of
            Inl e \<Rightarrow> (0, [], Some e)
          | Inr st \<Rightarrow> (case es_exit_code st of None \<Rightarrow> 0 | Some n \<Rightarrow> n, es_error st, None)))"

definition BackendExecutor_Run ::
  "exec_backend \<Rightarrow> exec_context \<Rightarrow> run_config \<Rightarrow> execution_target \<Rightarrow> exec_spec \<Rightarrow>
   exec_result \<times> go_error option \<times> structured_log list" where
  "BackendExecutor_Run xb ctx cfg target spec =
     (let scfg = xs_run_config spec; sandbox_id = rs_sandbox_id (cfg_run scfg) in
      if sandbox_id = [] then
        (zero_exec_result, Some (ErrorText ''run.sandbox_id is required for backend execution''), [])
      else (case xb_exec xb sandbox_id (exec_request_of cfg spec) of
          Inl e \<Rightarrow> (zero_exec_result, Some e, [])
        | Inr handle \<Rightarrow>
            (case xb_stream xb sandbox_id (eh_exec_id handle) of
               Inl e \<Rightarrow> (zero_exec_result, Some e, [])
             | Inr chunks \<Rightarrow>
                 (let read = read_chunks ctx chunks;
                      (exit, provider_error, status_err) =
                        read_status xb sandbox_id (eh_exec_id handle) (interrupted ctx \<and> xb_cancels xb);
                      timed = (case xc_err ctx of None \<Rightarrow> False | Some e \<Rightarrow> is_deadline e);
                      meta = [(''backend_kind'', ExecMetaString (ex_backend (cfg_execution scfg))),
                              (''provider'', ExecMetaString (executor_providerName scfg)),
                              (''backend_provider'', ExecMetaString (executor_backendProviderName scfg)),
                              (''exec_provider_id'', ExecMetaString (eh_exec_id handle))]
                        @ (if timed then [(''backend.cancel.best_effort'', ExecMetaBool True)] else [])
                        @ (if provider_error \<noteq> [] then [(''provider_error'', ExecMetaString provider_error)]
                           else [])
                        @ (case status_err of None \<Rightarrow> []
                           | Some e \<Rightarrow> [(''status_error'', ExecMetaString (error_string e))])
                  in (\<lparr>xres_exit_code = exit, xres_signal = (if timed then ''SIGTERM'' else []),
                       xres_timed_out = timed,
                       xres_stdout_lines = int (length (filter (\<lambda>c. \<not> is_stderr c) read)),
                       xres_stderr_lines = int (length (filter is_stderr read)),
                       xres_target = resultTarget cfg target sandbox_id, xres_metadata = meta\<rparr>,
                      if timed then Some DeadlineExceeded else None,
                      backend_logs spec (eh_exec_id handle) 0 0 read)))))"

section \<open>Running a command with the chosen executor\<close>

text \<open>
  What the executors ask of the machine: the process table of the host (\<open>internal/proc\<close>), the Docker
  executor as a whole, and the backend with the context.
\<close>

record exec_world =
  xw_executable :: "string \<Rightarrow> bool"
  xw_spawn :: "string \<Rightarrow> string list \<Rightarrow> env \<Rightarrow> string \<Rightarrow> process_outcome"
  xw_cancelled :: "nat \<Rightarrow> bool"
  xw_docker :: "run_config \<Rightarrow> exec_spec \<Rightarrow> exec_result \<times> go_error option \<times> structured_log list"
  xw_backend :: exec_backend
  xw_context :: exec_context

fun executor_Run :: "host \<Rightarrow> exec_world \<Rightarrow> executor \<Rightarrow> exec_spec \<Rightarrow>
    exec_result \<times> go_error option \<times> structured_log list" where
  "executor_Run h xw (DirectExecutor target) spec =
     DirectExecutor_Run h (xw_executable xw) (xw_spawn xw) (xw_cancelled xw) target spec"
| "executor_Run h xw (DockerExecutor cfg) spec = xw_docker xw cfg spec"
| "executor_Run h xw (BackendExecutor cfg target) spec =
     BackendExecutor_Run (xw_backend xw) (xw_context xw) cfg target spec"

end
