(* ===== verification/Executor_Facts.thy ===== *)
theory Executor_Facts
  imports Executor Config_Defaults
begin

text \<open>
  What the backend executor promises: the shell of the sandbox reads back the very argument vector
  that was quoted, the log lines of each stream are numbered without gaps and counted, and the exit
  code is the one the status call reports, or zero when it reports none.
\<close>

section \<open>Reading a quoted command back\<close>

text \<open>
  The part of POSIX word splitting that quoting uses: blanks end a word, single quotes keep every
  character, double quotes keep all but the four that stay special in them. Anything else that has a
  meaning for the shell is refused, so a result says that the text is read literally.
\<close>

datatype quoting = Bare | Single | Double

definition apostrophe :: char where "apostrophe = CHR 0x27"
definition double_quote :: char where "double_quote = CHR 0x22"

definition word_char :: "char \<Rightarrow> bool" where
  "word_char c \<longleftrightarrow> is_upper c \<or> is_lower c \<or> is_digit c \<or> c \<in> set ''-._/:@%+,''"

definition extend_word :: "string option \<Rightarrow> string \<Rightarrow> string option" where
  "extend_word w s = Some ((case w of None \<Rightarrow> [] | Some x \<Rightarrow> x) @ s)"

fun shell_words :: "quoting \<Rightarrow> string option \<Rightarrow> string \<Rightarrow> string list option" where
  "shell_words Bare w [] = Some (case w of None \<Rightarrow> [] | Some x \<Rightarrow> [x])"
| "shell_words Single w [] = None"
| "shell_words Double w [] = None"
| "shell_words Bare w (c # cs) =
     (if c = CHR '' '' then
        (case w of None \<Rightarrow> shell_words Bare None cs
         | Some x \<Rightarrow> map_option ((#) x) (shell_words Bare None cs))
      else if c = apostrophe then shell_words Single (extend_word w []) cs
      else if c = double_quote then shell_words Double (extend_word w []) cs
      else if word_char c then shell_words Bare (extend_word w [c]) cs
      else None)"
| "shell_words Single w (c # cs) =
     (if c = apostrophe then shell_words Bare w cs else shell_words Single (extend_word w [c]) cs)"
| "shell_words Double w (c # cs) =
     (if c = double_quote then shell_words Bare w cs
      else if c \<in> {CHR ''$'', CHR 0x60, CHR 0x5C} then None
      else shell_words Double (extend_word w [c]) cs)"

lemma quote_chars [simp]:
  "apostrophe \<noteq> CHR '' ''" "double_quote \<noteq> CHR '' ''" "double_quote \<noteq> apostrophe"
  "apostrophe \<noteq> double_quote" "apostrophe \<noteq> CHR ''$''" "apostrophe \<noteq> CHR 0x60"
  "apostrophe \<noteq> CHR 0x5C"
  by (simp_all add: apostrophe_def double_quote_def) 

lemma extend_extend [simp]: "extend_word (extend_word w s) t = extend_word w (s @ t)"
  by (simp add: extend_word_def)

lemma quote_escape_chars:
  "quote_escape = [apostrophe, double_quote, apostrophe, double_quote, apostrophe]"
  by (simp add: quote_escape_def apostrophe_def double_quote_def)

lemma replace_char_Cons [simp]:
  "replace_char c r [] = []"
  "replace_char c r (x # xs) = (if x = c then r else [x]) @ replace_char c r xs"
  by (simp_all add: replace_char_def)

lemma shell_words_quoted:
  "shell_words Single (Some w) (replace_char apostrophe quote_escape v @ apostrophe # rest)
     = shell_words Bare (Some (w @ v)) rest"
  by (induction v arbitrary: w) (simp_all add: quote_escape_chars extend_word_def)

lemma shell_words_shellQuote:
  "shell_words Bare None (shellQuote v @ rest) = shell_words Bare (Some v) rest"
  by (simp add: shellQuote_def shell_words_quoted extend_word_def
      flip: apostrophe_def)

lemma shell_words_shellJoin: "shell_words Bare None (shellJoin cmd) = Some cmd"
proof (induction cmd)
  case Nil
  then show ?case by (simp add: shellJoin_def)
next
  case (Cons a cmd)
  show ?case
  proof (cases cmd)
    case Nil
    then show ?thesis using shell_words_shellQuote [of a "[]"] by (simp add: shellJoin_def)
  next
    case (Cons b bs)
    then have "shellJoin (a # cmd) = shellQuote a @ CHR '' '' # shellJoin cmd"
      by (simp add: shellJoin_def)
    then show ?thesis using Cons.IH by (simp add: shell_words_shellQuote)
  qed
qed

text \<open>
  C23: the command line that a sandbox backend receives, split by the quoting rules of a POSIX shell,
  is the argument vector that was asked for, whatever characters its arguments hold: no argument can
  end its quotes, join another or inject a command.
\<close>

theorem shell_reads_back_command:
  "shell_words Bare None (xr_command (exec_request_of cfg spec)) = Some (xs_command spec)"
  by (simp add: exec_request_of_def shell_words_shellJoin)

section \<open>Log lines and counts\<close>

definition stream_logs :: "bool \<Rightarrow> structured_log list \<Rightarrow> structured_log list" where
  "stream_logs err logs = filter (\<lambda>l. (log_stream l = ''stderr'') = err) logs"

lemma backend_log_stream [simp]: "log_stream (backend_log spec i c n) = lc_stream c"
  by (simp add: backend_log_def)

lemma backend_log_no [simp]: "log_line_no (backend_log spec i c n) = n"
  by (simp add: backend_log_def)

lemma backend_logs_numbered:
  "map log_line_no (stream_logs True (backend_logs spec i outs errs cs))
     = [errs + 1 .. errs + int (length (filter is_stderr cs))]
   \<and> map log_line_no (stream_logs False (backend_logs spec i outs errs cs))
     = [outs + 1 .. outs + int (length (filter (\<lambda>c. \<not> is_stderr c) cs))]"
proof (induction cs arbitrary: outs errs)
  case Nil
  then show ?case by (simp add: stream_logs_def)
next
  case (Cons c cs)
  have up: "[a + 1 .. a + (1 + int n)] = (a + 1) # [(a + 1) + 1 .. (a + 1) + int n]" for a n
    by (simp add: upto_rec1 [of "a + 1"] add.assoc)
  show ?case
  proof (cases "is_stderr c")
    case True
    then show ?thesis using Cons.IH [of outs "errs + 1"]
      by (simp add: stream_logs_def is_stderr_def up)
  next
    case False
    then show ?thesis using Cons.IH [of "outs + 1" errs]
      by (simp add: stream_logs_def is_stderr_def up)
  qed
qed

lemma backend_logs_lines:
  "map log_line (backend_logs spec i outs errs cs)
     = map (\<lambda>c. Redact (truncateLine (lc_line c) (xs_log_line_max_bytes spec))) cs"
  by (induction cs arbitrary: outs errs) (simp_all add: backend_log_def)

lemma BackendExecutor_Run_cases:
  assumes "BackendExecutor_Run xb ctx cfg target spec = (res, err, logs)"
  shows "(\<exists>e. err = Some e \<and> res = zero_exec_result \<and> logs = []) \<or>
    (\<exists>handle chunks. xb_exec xb (rs_sandbox_id (cfg_run (xs_run_config spec))) (exec_request_of cfg spec)
           = Inr handle
       \<and> xb_stream xb (rs_sandbox_id (cfg_run (xs_run_config spec))) (eh_exec_id handle) = Inr chunks
       \<and> logs = backend_logs spec (eh_exec_id handle) 0 0 (read_chunks ctx chunks)
       \<and> xres_stdout_lines res = int (length (filter (\<lambda>c. \<not> is_stderr c) (read_chunks ctx chunks)))
       \<and> xres_stderr_lines res = int (length (filter is_stderr (read_chunks ctx chunks))))"
  using assms unfolding BackendExecutor_Run_def
  by (auto simp: Let_def split: if_splits sum.splits prod.splits)

text \<open>
  Whatever a sandbox backend sends, the lines of each stream that reach the handler are numbered
  1, 2, 3 and so on without a gap, the counts of the result are the numbers of lines delivered, and no
  line is delivered when the run of the command could not start.
\<close>

theorem backend_lines_numbered:
  assumes "BackendExecutor_Run xb ctx cfg target spec = (res, err, logs)"
  shows "map log_line_no (stream_logs True logs) = [1 .. xres_stderr_lines res]
    \<and> map log_line_no (stream_logs False logs) = [1 .. xres_stdout_lines res]"
  using BackendExecutor_Run_cases [OF assms] backend_logs_numbered [of spec _ 0 0]
  by (auto simp: stream_logs_def zero_exec_result_def)

text \<open>The hypothesis holds for an exec that is accepted and writes one line to each stream.\<close>

definition sample_exec_spec :: exec_spec where
  "sample_exec_spec = \<lparr>xs_phase = PhaseExecute, xs_command = [''make''], xs_env = [], xs_dir = ''/w'',
     xs_timeout = 0, xs_run_id = ''r'', xs_attempt = 1, xs_command_class = ''make'',
     xs_artifact_dir = ''/a'', xs_log_line_max_bytes = 0,
     xs_run_config = DefaultRunConfig\<lparr>cfg_run := (cfg_run DefaultRunConfig)\<lparr>rs_sandbox_id := ''sb''\<rparr>\<rparr>,
     xs_target = zero_target\<rparr>"

definition sample_exec_backend :: exec_backend where
  "sample_exec_backend =
     \<lparr>xb_exec = (\<lambda>i r. Inr \<lparr>eh_exec_id = ''x'', eh_status = [], eh_provider = []\<rparr>),
      xb_stream = (\<lambda>i x. Inr [\<lparr>lc_stream = ''stdout'', lc_line = ''a''\<rparr>, \<lparr>lc_stream = ''stderr'', lc_line = ''b''\<rparr>]),
      xb_status = Some (\<lambda>i x c. Inl (ErrorText ''connection lost'')), xb_cancels = False\<rparr>"

definition alive :: exec_context where
  "alive = \<lparr>xc_stop = None, xc_err = None\<rparr>"

definition sample_exec_run :: "exec_result \<times> go_error option \<times> structured_log list" where
  "sample_exec_run =
     BackendExecutor_Run sample_exec_backend alive DefaultRunConfig zero_target sample_exec_spec"

lemma sample_exec_run_split:
  "sample_exec_run = (fst sample_exec_run, None, snd (snd sample_exec_run))"
  by code_simp

lemma sample_exec_run_parts:
  "fst (snd sample_exec_run) = None" "xres_stdout_lines (fst sample_exec_run) = 1"
  "xres_stderr_lines (fst sample_exec_run) = 1" "xres_exit_code (fst sample_exec_run) = 0"
  by code_simp+

lemma backend_lines_numbered_witness:
  "map log_line_no (stream_logs True (snd (snd sample_exec_run))) = [1]"
  using backend_lines_numbered [OF sample_exec_run_split [unfolded sample_exec_run_def]]
  by (simp add: sample_exec_run_parts flip: sample_exec_run_def)

text \<open>
  A command run in a sandbox that returns without an error has exactly the exit code that the
  status call reports, and zero, that of a success, when the status call fails, reports no exit code
  or does not exist; the failure of the status call is kept in the metadata only.
\<close>

theorem backend_exit_code:
  assumes "BackendExecutor_Run xb ctx cfg target spec = (res, None, logs)"
  shows "\<exists>x c. xres_exit_code res =
      (case xb_status xb of None \<Rightarrow> 0
       | Some f \<Rightarrow> (case f (rs_sandbox_id (cfg_run (xs_run_config spec))) x c of Inl e \<Rightarrow> 0
         | Inr st \<Rightarrow> (case es_exit_code st of None \<Rightarrow> 0 | Some n \<Rightarrow> n)))
    \<and> (\<forall>f e. xb_status xb = Some f \<longrightarrow> f (rs_sandbox_id (cfg_run (xs_run_config spec))) x c = Inl e \<longrightarrow>
         (''status_error'', ExecMetaString (error_string e)) \<in> set (xres_metadata res))
    \<and> \<not> xres_timed_out res"
  using assms unfolding BackendExecutor_Run_def read_status_def
  apply (clarsimp simp: Let_def split: if_splits sum.splits prod.splits)
  subgoal for handle chunks
    by (rule exI [of _ "eh_exec_id handle"], rule exI [of _ "interrupted ctx \<and> xb_cancels xb"])
      (auto split: option.splits sum.splits if_splits)
  subgoal for handle chunks
    by (rule exI [of _ "eh_exec_id handle"], rule exI [of _ "interrupted ctx \<and> xb_cancels xb"])
      (auto split: option.splits sum.splits if_splits)
  done

lemma backend_exit_code_witness:
  "xres_exit_code (fst sample_exec_run) = 0 \<and> \<not> xres_timed_out (fst sample_exec_run)"
  using backend_exit_code [OF sample_exec_run_split [unfolded sample_exec_run_def]]
  by (auto simp: sample_exec_run_parts simp flip: sample_exec_run_def)

end
