(* ===== verification/Docker_Executor.thy ===== *)
theory Docker_Executor
  imports Executor Policy
begin

text \<open>
  \<open>internal/executor/docker.go\<close>: running a command in a fresh Docker container. The Docker engine is the
  record \<open>docker_world\<close>, whose answers may depend on the calls made so far; the calls are returned in
  order. A container that was created is removed at the end on every path (the deferred call). The
  output arrives in chunks of arbitrary size, which \<open>dockerLineWriter\<close> cuts into lines.
\<close>

section \<open>Lines out of chunks\<close>

text \<open>The writer of one stream: what is buffered, and the lines emitted so far (\<open>w.lines\<close> counts them).\<close>

record line_writer =
  lw_buffer :: string
  lw_emitted :: "string list"

definition empty_writer :: line_writer where
  "empty_writer = \<lparr>lw_buffer = [], lw_emitted = []\<rparr>"

definition trim_cr :: "string \<Rightarrow> string" where
  "trim_cr = trim_right (\<lambda>c. c = carriage)"

definition trim_crlf :: "string \<Rightarrow> string" where
  "trim_crlf = trim_right (\<lambda>c. c = carriage \<or> c = newline)"

definition emit_raw :: "line_writer \<Rightarrow> string \<Rightarrow> line_writer" where
  "emit_raw w line = w\<lparr>lw_emitted := lw_emitted w @ [line]\<rparr>"

text \<open>\<open>drainCompleteLines\<close>: as long as the buffer has a newline, the line before it is emitted.\<close>

function drainCompleteLines :: "line_writer \<Rightarrow> line_writer" where
  "drainCompleteLines w =
     (if newline \<notin> set (lw_buffer w) then w
      else drainCompleteLines
        ((emit_raw w (trim_cr (takeWhile (\<lambda>c. c \<noteq> newline) (lw_buffer w))))
           \<lparr>lw_buffer := tl (dropWhile (\<lambda>c. c \<noteq> newline) (lw_buffer w))\<rparr>))"
  by pat_completeness auto
termination
proof (relation "measure (\<lambda>w. length (lw_buffer w))")
  fix w :: line_writer
  assume "\<not> newline \<notin> set (lw_buffer w)"
  then have "dropWhile (\<lambda>c. c \<noteq> newline) (lw_buffer w) \<noteq> []" by (simp add: dropWhile_eq_Nil_conv)
  moreover have "length (dropWhile (\<lambda>c. c \<noteq> newline) (lw_buffer w)) \<le> length (lw_buffer w)"
    by (rule length_dropWhile_le)
  ultimately show "((emit_raw w (trim_cr (takeWhile (\<lambda>c. c \<noteq> newline) (lw_buffer w))))
      \<lparr>lw_buffer := tl (dropWhile (\<lambda>c. c \<noteq> newline) (lw_buffer w))\<rparr>, w) \<in> measure (\<lambda>w. length (lw_buffer w))"
    by (cases "dropWhile (\<lambda>c. c \<noteq> newline) (lw_buffer w)") auto
qed simp

declare drainCompleteLines.simps [simp del]

definition writer_Write :: "line_writer \<Rightarrow> string \<Rightarrow> line_writer" where
  "writer_Write w p = drainCompleteLines (w\<lparr>lw_buffer := lw_buffer w @ p\<rparr>)"

definition writer_Flush :: "line_writer \<Rightarrow> line_writer" where
  "writer_Flush w =
     (if lw_buffer w = [] then w else (emit_raw w (trim_crlf (lw_buffer w)))\<lparr>lw_buffer := []\<rparr>)"

text \<open>What a stream denotes, whatever its chunks: its lines, and the rest that no newline ended.\<close>

definition docker_lines :: "string \<Rightarrow> string list" where
  "docker_lines data =
     (let ls = split_on newline data
      in map trim_cr (butlast ls) @ (if last ls = [] then [] else [trim_crlf (last ls)]))"

lemma split_on_takeWhile:
  "c \<in> set s \<Longrightarrow> split_on c s = takeWhile (\<lambda>x. x \<noteq> c) s # split_on c (tl (dropWhile (\<lambda>x. x \<noteq> c) s))"
  by (induction s) (auto split: list.splits)

lemma drain_splits:
  "drainCompleteLines w = \<lparr>lw_buffer = last (split_on newline (lw_buffer w)),
     lw_emitted = lw_emitted w @ map trim_cr (butlast (split_on newline (lw_buffer w)))\<rparr>"
proof (induction w rule: drainCompleteLines.induct)
  case (1 w)
  show ?case
  proof (cases "newline \<in> set (lw_buffer w)")
    case False
    then have "split_on newline (lw_buffer w) = [lw_buffer w]" by (rule split_on_free)
    with False show ?thesis by (subst drainCompleteLines.simps) simp
  next
    case True
    note IH = 1 [simplified, OF True]
    from True show ?thesis
      by (subst drainCompleteLines.simps)
        (simp add: IH [unfolded emit_raw_def] split_on_takeWhile [OF True] emit_raw_def)
  qed
qed

lemma writes_split:
  "foldl writer_Write empty_writer chunks =
     \<lparr>lw_buffer = last (split_on newline (concat chunks)),
      lw_emitted = map trim_cr (butlast (split_on newline (concat chunks)))\<rparr>"
proof (induction chunks rule: rev_induct)
  case Nil
  then show ?case by (simp add: empty_writer_def)
next
  case (snoc p chunks)
  let ?ls = "split_on newline (concat chunks)"
  have "split_on newline (concat (chunks @ [p])) = butlast ?ls @ split_on newline (last ?ls @ p)"
    using split_on_append_last [of newline "concat chunks" p] by simp
  with snoc show ?case by (simp add: writer_Write_def drain_splits butlast_append)
qed

text \<open>
  C24: However the Docker engine cuts a stream into chunks, the lines that reach the log are those of the
  whole stream: every line without its newline and its carriage returns, and at the end the unfinished
  rest if there is one.
\<close>

theorem chunking_is_invisible:
  "lw_emitted (writer_Flush (foldl writer_Write empty_writer chunks)) = docker_lines (concat chunks)"
  by (simp add: writes_split writer_Flush_def emit_raw_def docker_lines_def Let_def)

lemma docker_lines_example:
  "docker_lines (''one'' @ [carriage, newline] @ ''two'' @ [newline, newline] @ ''thr'') = [''one'', ''two'', [], ''thr'']"
  by code_simp

section \<open>The Docker engine\<close>

text \<open>What \<open>ContainerCreate\<close> is asked for: the fields that the code sets.\<close>

record container_create =
  dcc_image :: string
  dcc_cmd :: "string list"
  dcc_env :: "string list"
  dcc_user :: string
  dcc_workdir :: string
  dcc_mount_source :: string
  dcc_mount_target :: string

datatype docker_call =
    DImageInspect string
  | DImagePull string
  | DPullWait string
  | DCreate container_create "go_error + (string \<times> string list)"
  | DStart string
  | DLogs string
  | DWait string
  | DKill string string
  | DInspect string
  | DRemove string

type_synonym docker_calls = "docker_call list"

text \<open>
  How waiting for the container ends: its error channel fires (after the log copier has seen so many
  chunks), it exits, or the context is over first; then the status of the killed container arrives within
  two seconds or not.
\<close>

datatype docker_wait =
    WaitChannelError "go_error option" nat
  | WaitStatus int
  | WaitContextOver go_error "int option"

text \<open>A chunk of the multiplexed log stream: of standard error or not, and its bytes.\<close>

type_synonym docker_chunk = "bool \<times> string"

record container_inspect =
  dci_cap_add :: "string list option"
  dci_mounts :: string
  dci_raw :: string

record docker_world =
  dw_image_inspect :: "docker_calls \<Rightarrow> string \<Rightarrow> go_error + (string list \<times> string)"
  dw_pull :: "docker_calls \<Rightarrow> string \<Rightarrow> go_error option"
  dw_pull_wait :: "docker_calls \<Rightarrow> string \<Rightarrow> go_error option"
  dw_create :: "docker_calls \<Rightarrow> container_create \<Rightarrow> go_error + (string \<times> string list)"
  dw_start :: "docker_calls \<Rightarrow> string \<Rightarrow> go_error option"
  dw_logs :: "docker_calls \<Rightarrow> string \<Rightarrow> go_error + (docker_chunk list \<times> go_error option)"
  dw_wait :: "docker_calls \<Rightarrow> string \<Rightarrow> docker_wait"
  dw_inspect :: "docker_calls \<Rightarrow> string \<Rightarrow> go_error + container_inspect"
  dw_user :: "(string \<times> string) option"
  dw_json :: "string \<Rightarrow> string option"
  dw_cli :: "string list \<Rightarrow> string \<times> go_error option"
  dw_stat :: "string \<Rightarrow> bool"
  dw_client :: "string \<Rightarrow> go_error option"
  dw_ping :: "string \<Rightarrow> go_error option"

section \<open>Views of the configuration\<close>

definition dockerImage :: "run_config \<Rightarrow> string" where
  "dockerImage cfg = (if rs_image (cfg_run cfg) \<noteq> [] then rs_image (cfg_run cfg) else sb_image (cfg_sandbox cfg))"

definition dockerProviderName :: "run_config \<Rightarrow> string" where
  "dockerProviderName cfg =
     (if ex_provider (cfg_execution cfg) \<noteq> [] then ex_provider (cfg_execution cfg)
      else if dk_provider (cfg_docker cfg) = DockerProviderOrbStack then ''orbstack'' else ''native'')"

definition dockerLocalPlatform :: "run_config \<Rightarrow> string" where
  "dockerLocalPlatform cfg = (if dk_provider (cfg_docker cfg) = DockerProviderOrbStack then ''orbstack'' else [])"

definition currentDockerUser :: "docker_world \<Rightarrow> (string \<times> string) option" where
  "currentDockerUser dw =
     (case dw_user dw of None \<Rightarrow> None
      | Some (uid, gid) \<Rightarrow> if Atoi uid = None \<or> Atoi gid = None then None else Some (uid, gid))"

definition dockerContainerUser :: "host \<Rightarrow> docker_world \<Rightarrow> string" where
  "dockerContainerUser h dw =
     (if host_goos h = ''windows'' then []
      else (case currentDockerUser dw of None \<Rightarrow> []
        | Some (uid, gid) \<Rightarrow> if uid = [] \<or> gid = [] then [] else uid @ '':'' @ gid))"

definition put_if_blank :: "string \<Rightarrow> string \<Rightarrow> env \<Rightarrow> env" where
  "put_if_blank k v m = (if trim_space (env_get m k) = [] then env_put k v m else m)"

definition dockerCommandEnv :: "env \<Rightarrow> env" where
  "dockerCommandEnv m =
     put_if_blank ''GOMODCACHE'' ''/tmp/go/pkg/mod''
       (put_if_blank ''GOPATH'' ''/tmp/go''
         (put_if_blank ''GOCACHE'' ''/tmp/.cache/go-build''
           (put_if_blank ''XDG_CACHE_HOME'' ''/tmp/.cache''
             (put_if_blank ''HOME'' ''/tmp'' m))))"

text \<open>The order of the slice is that of a map in the code; the model has one order.\<close>

definition envSlice :: "env \<Rightarrow> string list" where
  "envSlice m = map (\<lambda>(k, v). k @ ''='' @ v) m"

definition normalizeCaps :: "string list \<Rightarrow> string list" where
  "normalizeCaps caps = map to_lower caps"

definition inspectCapabilities :: "container_inspect \<Rightarrow> string list" where
  "inspectCapabilities c = (case dci_cap_add c of None \<Rightarrow> [] | Some caps \<Rightarrow> normalizeCaps caps)"

definition inspectRaw :: "docker_world \<Rightarrow> string \<Rightarrow> string option" where
  "inspectRaw dw raw = (if raw = [] then None else dw_json dw raw)"

section \<open>Which engine\<close>

definition currentDockerContext :: "docker_world \<Rightarrow> string" where
  "currentDockerContext dw = (case dw_cli dw [''context'', ''show''] of
     (out, err) \<Rightarrow> if err \<noteq> None then [] else trim_space out)"

definition trim_quotes :: "string \<Rightarrow> string" where
  "trim_quotes s = trim_left (\<lambda>c. c = CHR 0x22) (trim_right (\<lambda>c. c = CHR 0x22) s)"

definition inspectDockerContext :: "docker_world \<Rightarrow> string \<Rightarrow> go_error + string" where
  "inspectDockerContext dw name =
     (if name = [] then Inr []
      else (case dw_cli dw [''context'', ''inspect'', name, ''--format'', ''{{json .Endpoints.docker.Host}}''] of
        (out, err) \<Rightarrow> (case err of
          Some e \<Rightarrow> Inl (WrapError (''inspect docker context '' @ name @ '': '') e)
        | None \<Rightarrow>
            let endpoint = trim_quotes (trim_space out) in
            if endpoint = [] \<or> endpoint = ''null''
            then Inl (ErrorText (''docker context '' @ name @ '' has no docker endpoint''))
            else Inr endpoint)))"

definition orbstackDockerHost :: "host \<Rightarrow> docker_world \<Rightarrow> string" where
  "orbstackDockerHost h dw =
     (case user_home_dir h of None \<Rightarrow> []
      | Some home \<Rightarrow>
          let socketPath = path_join [home, ''.orbstack'', ''run'', ''docker.sock''] in
          if dw_stat dw socketPath then ''unix://'' @ socketPath else [])"

definition docker_unavailable :: "run_config \<Rightarrow> go_error option \<Rightarrow> go_error" where
  "docker_unavailable cfg err =
     RunnerError ErrorCodeDockerProviderUnavailable
       (''docker provider '' @ go_quote (dk_provider (cfg_docker cfg)) @ '' unavailable: ''
          @ (case err of None \<Rightarrow> ''<nil>'' | Some e \<Rightarrow> error_string e))
       False [] BackendKindDocker [] err"

text \<open>The context that is asked for its endpoint; empty when the environment decides.\<close>

definition docker_context_name :: "docker_world \<Rightarrow> run_config \<Rightarrow> string" where
  "docker_context_name dw cfg =
     (let orb = (dk_provider (cfg_docker cfg) = DockerProviderOrbStack);
          name = trim_space (dk_context (cfg_docker cfg)) in
      if \<not> orb \<and> (name = [] \<or> name = ''default'') then
        (let current = trim_space (currentDockerContext dw) in if current = ''default'' then [] else current)
      else
        (let name = (if name = [] then trim_space (orb_docker_context (cfg_orbstack cfg)) else name);
             name = (if name = [] \<and> orb then ''orbstack'' else name)
         in if name = ''default'' then [] else name))"

definition dockerClientHost :: "host \<Rightarrow> docker_world \<Rightarrow> run_config \<Rightarrow> go_error + string" where
  "dockerClientHost h dw cfg =
     (let name = docker_context_name dw cfg in
      if name = [] then Inr []
      else (case inspectDockerContext dw name of
          Inr endpoint \<Rightarrow> Inr endpoint
        | Inl e \<Rightarrow>
            if dk_provider (cfg_docker cfg) = DockerProviderOrbStack then
              (let fallback = orbstackDockerHost h dw in
               if fallback \<noteq> [] then Inr fallback else Inl (docker_unavailable cfg (Some e)))
            else Inl e))"

definition NewDockerExecutor :: "host \<Rightarrow> docker_world \<Rightarrow> run_config \<Rightarrow> go_error option" where
  "NewDockerExecutor h dw cfg =
     (case dockerClientHost h dw cfg of
        Inl e \<Rightarrow> Some e
      | Inr host \<Rightarrow> (case dw_client dw host of
          Some e \<Rightarrow> Some e
        | None \<Rightarrow> map_option (WrapError ''docker daemon unavailable: '') (dw_ping dw host)))"

section \<open>Running a command\<close>

definition docker_attributes :: "exec_spec \<Rightarrow> env" where
  "docker_attributes spec = (let cfg = xs_run_config spec; kind = bk_kind (cfg_backend cfg) in
     [(''execution.backend'', ex_backend (cfg_execution cfg)),
      (''execution.provider'', ex_provider (cfg_execution cfg)),
      (''execution.runtime_profile'', ex_runtime_profile (cfg_execution cfg)),
      (''execution.compatibility_level'', env_get (cfg_metadata cfg) ''execution.compatibility_level''),
      (''backend.kind'', kind),
      (''backend.provider'', dockerProviderName cfg),
      (''runtime.profile'', rt_profile (cfg_runtime cfg)),
      (''local.platform'', dockerLocalPlatform cfg),
      (''sandbox.backend.kind'', kind),
      (''sandbox.provider.name'', ''docker''),
      (''sandbox.runtime.profile'', rt_profile (cfg_runtime cfg))])"

definition emitLine :: "exec_spec \<Rightarrow> string \<Rightarrow> nat \<Rightarrow> string \<Rightarrow> structured_log" where
  "emitLine spec stream n line =
     \<lparr>log_run_id = xs_run_id spec, log_attempt = xs_attempt spec, log_phase = xs_phase spec,
      log_command_class = xs_command_class spec, log_command_id = [],
      log_provider = dockerProviderName (xs_run_config spec), log_exec_provider_id = [],
      log_stream = stream, log_line_no = int n,
      log_line = Redact (clip_line (xs_log_line_max_bytes spec) line),
      log_attributes = docker_attributes spec\<rparr>"

text \<open>
  \<open>stdcopy.StdCopy\<close> hands every chunk to the writer of its stream; the log entries of the lines that a
  step has completed follow those of the steps before.
\<close>

definition new_logs :: "exec_spec \<Rightarrow> string \<Rightarrow> line_writer \<Rightarrow> line_writer \<Rightarrow> structured_log list" where
  "new_logs spec stream w w' =
     (let k = length (lw_emitted w); fresh = drop k (lw_emitted w')
      in map (\<lambda>(i, l). emitLine spec stream (k + i + 1) l) (zip [0..<length fresh] fresh))"

fun copy_chunks ::
  "exec_spec \<Rightarrow> line_writer \<Rightarrow> line_writer \<Rightarrow> docker_chunk list \<Rightarrow>
   line_writer \<times> line_writer \<times> structured_log list" where
  "copy_chunks spec out err [] = (out, err, [])"
| "copy_chunks spec out err ((is_err, p) # chunks) =
     (if is_err then
        (let err' = writer_Write err p; (o2, e2, logs) = copy_chunks spec out err' chunks
         in (o2, e2, new_logs spec ''stderr'' err err' @ logs))
      else
        (let out' = writer_Write out p; (o2, e2, logs) = copy_chunks spec out' err chunks
         in (o2, e2, new_logs spec ''stdout'' out out' @ logs)))"

definition pullImage :: "docker_world \<Rightarrow> docker_calls \<Rightarrow> string \<Rightarrow> go_error option \<times> docker_calls" where
  "pullImage dw tr img =
     (if img = [] then (Some (ErrorText ''run.image is required for docker mode''), tr)
      else (case dw_image_inspect dw tr img of
          Inr _ \<Rightarrow> (None, tr @ [DImageInspect img])
        | Inl _ \<Rightarrow>
            (let tr = tr @ [DImageInspect img] in
             case dw_pull dw tr img of
               Some e \<Rightarrow> (Some e, tr @ [DImagePull img])
             | None \<Rightarrow>
                 (let tr = tr @ [DImagePull img] in (dw_pull_wait dw tr img, tr @ [DPullWait img])))))"

definition imageDigest :: "docker_world \<Rightarrow> docker_calls \<Rightarrow> string \<Rightarrow> string \<times> docker_calls" where
  "imageDigest dw tr img =
     (if img = [] then ([], tr)
      else ((case dw_image_inspect dw tr img of
               Inl _ \<Rightarrow> []
             | Inr (digests, i) \<Rightarrow> (case digests of d # _ \<Rightarrow> d | [] \<Rightarrow> i)), tr @ [DImageInspect img]))"

definition container_create_of :: "host \<Rightarrow> docker_world \<Rightarrow> exec_spec \<Rightarrow> string \<Rightarrow> string \<Rightarrow> container_create" where
  "container_create_of h dw spec workspace img =
     \<lparr>dcc_image = img, dcc_cmd = xs_command spec, dcc_env = envSlice (dockerCommandEnv (xs_env spec)),
      dcc_user = dockerContainerUser h dw, dcc_workdir = ''/workspace'', dcc_mount_source = workspace,
      dcc_mount_target = ''/workspace''\<rparr>"

text \<open>How the command ended: the error that returns at once, or exit code, signal and time-out.\<close>

definition await_container ::
  "docker_world \<Rightarrow> docker_calls \<Rightarrow> string \<Rightarrow> (go_error \<times> nat) + (int \<times> string \<times> bool)" where
  "await_container dw tr i =
     (case dw_wait dw tr i of
        WaitChannelError (Some e) n \<Rightarrow> Inl (e, n)
      | WaitChannelError None n \<Rightarrow> Inr (0, [], False)
      | WaitStatus code \<Rightarrow> Inr (code, [], False)
      | WaitContextOver e status \<Rightarrow>
          Inr (case status of Some code \<Rightarrow> code | None \<Rightarrow> 137, ''SIGKILL'', is_deadline e))"

definition wait_calls :: "docker_world \<Rightarrow> docker_calls \<Rightarrow> string \<Rightarrow> docker_calls" where
  "wait_calls dw tr i =
     (case dw_wait dw tr i of
        WaitContextOver e status \<Rightarrow> tr @ [DWait i, DKill i ''SIGKILL'']
      | _ \<Rightarrow> tr @ [DWait i])"

fun is_canceled :: "go_error \<Rightarrow> bool" where
  "is_canceled (WrapError pre e) = is_canceled e"
| "is_canceled e = (e = Canceled)"

fun is_eof :: "go_error \<Rightarrow> bool" where
  "is_eof (WrapError pre e) = is_eof e"
| "is_eof e = (e = ErrorText ''EOF'')"

definition copy_failed :: "go_error option \<Rightarrow> go_error option" where
  "copy_failed err = (case err of None \<Rightarrow> None | Some e \<Rightarrow> if is_eof e \<or> is_canceled e then None else Some e)"

definition docker_target :: "exec_spec \<Rightarrow> string \<Rightarrow> string \<Rightarrow> string \<Rightarrow> string list \<Rightarrow> execution_target" where
  "docker_target spec i img digest caps = (let cfg = xs_run_config spec in
     zero_target\<lparr>tg_os := ''linux'', tg_arch := tg_arch (xs_target spec),
       tg_mode := plat_run_mode (cfg_platform cfg), tg_backend_kind := ex_backend (cfg_execution cfg),
       tg_provider_name := dockerProviderName cfg, tg_backend_provider := dockerProviderName cfg,
       tg_runtime_profile := ex_runtime_profile (cfg_execution cfg), tg_virtualization := ''none'',
       tg_local_platform := dockerLocalPlatform cfg, tg_container_id := i, tg_container_image := img,
       tg_image_digest := digest,
       tg_in_container :=
         (plat_container_execution_mode (cfg_platform cfg) = ContainerExecutionInContainerMode),
       tg_docker_available := True, tg_capabilities := caps, tg_execution := cfg_execution cfg,
       tg_compatibility_level :=
         support_level_of (env_get (cfg_metadata cfg) ''execution.compatibility_level'')\<rparr>)"

definition docker_metadata ::
  "docker_world \<Rightarrow> exec_spec \<Rightarrow> string \<Rightarrow> string \<Rightarrow> string list \<Rightarrow> go_error + container_inspect \<Rightarrow>
   (string \<times> exec_meta) list" where
  "docker_metadata dw spec i img warnings inspect = (let cfg = xs_run_config spec in
     [(''container_id'', ExecMetaString i), (''container_image'', ExecMetaString img),
      (''backend_provider'', ExecMetaString (dockerProviderName cfg)),
      (''local_platform'', ExecMetaString (dockerLocalPlatform cfg)),
      (''container_execution_mode'', ExecMetaString (plat_container_execution_mode (cfg_platform cfg))),
      (''mounts'', ExecMetaRaw (case inspect of Inr c \<Rightarrow> dci_mounts c | Inl _ \<Rightarrow> [])),
      (''warnings'', ExecMetaStrings warnings)]
     @ (case inspect of
          Inl e \<Rightarrow> [(''inspect_error'', ExecMetaString (''inspect container: '' @ error_string e))]
        | Inr c \<Rightarrow> (case inspectRaw dw (dci_raw c) of None \<Rightarrow> [] | Some raw \<Rightarrow> [(''inspect'', ExecMetaRaw raw)])))"

type_synonym docker_outcome = "exec_result \<times> go_error option \<times> structured_log list \<times> docker_calls"

text \<open>After the container has ended: the rest of the output, the inspections, the result.\<close>

definition docker_result ::
  "docker_world \<Rightarrow> docker_calls \<Rightarrow> exec_spec \<Rightarrow> string \<Rightarrow> string \<Rightarrow> string list \<Rightarrow>
   docker_chunk list \<times> go_error option \<Rightarrow> int \<times> string \<times> bool \<Rightarrow> docker_outcome" where
  "docker_result dw tr spec i img warnings stream end =
     (let (code, sig, timed) = end;
          (out, err, logs) = copy_chunks spec empty_writer empty_writer (fst stream);
          logs = logs @ new_logs spec ''stdout'' out (writer_Flush out)
                      @ new_logs spec ''stderr'' err (writer_Flush err)
      in case copy_failed (snd stream) of
           Some e \<Rightarrow> (zero_exec_result, Some e, logs, tr)
         | None \<Rightarrow>
             (let inspect = dw_inspect dw tr i;
                  (digest, tr) = imageDigest dw (tr @ [DInspect i]) (rs_image (cfg_run (xs_run_config spec)));
                  caps = (case inspect of Inr c \<Rightarrow> inspectCapabilities c | Inl _ \<Rightarrow> [])
              in (\<lparr>xres_exit_code = code, xres_signal = sig, xres_timed_out = timed,
                   xres_stdout_lines = int (length (lw_emitted (writer_Flush out))),
                   xres_stderr_lines = int (length (lw_emitted (writer_Flush err))),
                   xres_target = docker_target spec i img digest caps,
                   xres_metadata = docker_metadata dw spec i img warnings inspect\<rparr>,
                  if timed then Some DeadlineExceeded else None, logs, tr)))"

text \<open>With the container created, up to the deferred removal.\<close>

definition docker_in_container ::
  "docker_world \<Rightarrow> docker_calls \<Rightarrow> exec_spec \<Rightarrow> string \<Rightarrow> string \<Rightarrow> string list \<Rightarrow> docker_outcome" where
  "docker_in_container dw tr spec i img warnings =
     (case dw_start dw tr i of
        Some e \<Rightarrow> (zero_exec_result, Some e, [], tr @ [DStart i])
      | None \<Rightarrow> let tr = tr @ [DStart i] in
         (case dw_logs dw tr i of
            Inl e \<Rightarrow> (zero_exec_result, Some e, [], tr @ [DLogs i])
          | Inr stream \<Rightarrow> let tr = tr @ [DLogs i] in
             (case await_container dw tr i of
                Inl (e, n) \<Rightarrow>
                  (zero_exec_result, Some e,
                   snd (snd (copy_chunks spec empty_writer empty_writer (take n (fst stream)))), wait_calls dw tr i)
              | Inr end \<Rightarrow> docker_result dw (wait_calls dw tr i) spec i img warnings stream end)))"

definition DockerExecutor_Run :: "host \<Rightarrow> docker_world \<Rightarrow> docker_calls \<Rightarrow> exec_spec \<Rightarrow> docker_outcome" where
  "DockerExecutor_Run h dw tr spec =
     (case path_abs h (xs_dir spec) of
        None \<Rightarrow> (zero_exec_result, Some (ErrorText ''getwd failed''), [], tr)
      | Some workspace \<Rightarrow>
          let img = dockerImage (xs_run_config spec) in
          (case pullImage dw tr img of
             (Some e, tr) \<Rightarrow> (zero_exec_result, Some e, [], tr)
           | (None, tr) \<Rightarrow>
               let request = container_create_of h dw spec workspace img in
               let r = dw_create dw tr request; tr = tr @ [DCreate request r] in
               (case r of
                  Inl e \<Rightarrow> (zero_exec_result, Some e, [], tr)
                | Inr (i, warnings) \<Rightarrow>
                    (case docker_in_container dw tr spec i img warnings of
                       (res, err, logs, tr) \<Rightarrow> (res, err, logs, tr @ [DRemove i])))))"

section \<open>Every container is removed\<close>

fun created_id :: "docker_call \<Rightarrow> string option" where
  "created_id (DCreate req r) = (case r of Inr (i, _) \<Rightarrow> Some i | Inl _ \<Rightarrow> None)"
| "created_id c = None"

fun removed_id :: "docker_call \<Rightarrow> string option" where
  "removed_id (DRemove i) = Some i"
| "removed_id c = None"

definition created_ids :: "docker_calls \<Rightarrow> string list" where
  "created_ids tr = List.map_filter created_id tr"

definition removed_ids :: "docker_calls \<Rightarrow> string list" where
  "removed_ids tr = List.map_filter removed_id tr"

lemma ids_append [simp]:
  "created_ids (tr @ tr') = created_ids tr @ created_ids tr'"
  "removed_ids (tr @ tr') = removed_ids tr @ removed_ids tr'"
  by (simp_all add: created_ids_def removed_ids_def List.map_filter_def)

lemma ids_simps [simp]:
  "created_ids [] = []" "removed_ids [] = []"
  "created_ids (c # tr) = (case created_id c of None \<Rightarrow> created_ids tr | Some i \<Rightarrow> i # created_ids tr)"
  "removed_ids (c # tr) = (case removed_id c of None \<Rightarrow> removed_ids tr | Some i \<Rightarrow> i # removed_ids tr)"
  by (simp_all add: created_ids_def removed_ids_def List.map_filter_simps split: option.splits)

text \<open>The steps between creation and removal neither create nor remove.\<close>

definition no_more_ids :: "docker_calls \<Rightarrow> docker_calls \<Rightarrow> bool" where
  "no_more_ids tr tr' \<longleftrightarrow> created_ids tr' = created_ids tr \<and> removed_ids tr' = removed_ids tr"

lemma pullImage_ids: "no_more_ids tr (snd (pullImage dw tr img))"
  by (simp add: pullImage_def no_more_ids_def Let_def split: sum.splits option.splits)

lemma imageDigest_ids: "imageDigest dw tr img = (digest, tr') \<Longrightarrow> no_more_ids tr tr'"
  by (auto simp: imageDigest_def no_more_ids_def split: if_splits)

lemma wait_calls_ids: "no_more_ids tr (wait_calls dw tr i)"
  by (simp add: wait_calls_def no_more_ids_def split: docker_wait.splits)

lemma docker_result_ids: "no_more_ids tr (snd (snd (snd (docker_result dw tr spec i img ws stream end))))"
proof -
  have "no_more_ids tr tr'" if "imageDigest dw (tr @ [DInspect i]) img' = (d, tr')" for img' d tr'
    using imageDigest_ids [OF that] by (simp add: no_more_ids_def)
  moreover have "no_more_ids tr tr" by (simp add: no_more_ids_def)
  ultimately show ?thesis by (auto simp: docker_result_def Let_def split: prod.splits option.splits)
qed

lemma docker_in_container_ids: "no_more_ids tr (snd (snd (snd (docker_in_container dw tr spec i img ws))))"
proof -
  have "no_more_ids tr (wait_calls dw (tr @ [DStart i] @ [DLogs i]) i)"
    using wait_calls_ids [of "tr @ [DStart i] @ [DLogs i]" dw i] by (simp add: no_more_ids_def)
  moreover from this have
    "no_more_ids tr (snd (snd (snd (docker_result dw (wait_calls dw (tr @ [DStart i] @ [DLogs i]) i) spec i img ws stream end))))"
    for stream "end"
    using docker_result_ids [of "wait_calls dw (tr @ [DStart i] @ [DLogs i]) i" dw spec i img ws stream "end"]
    by (simp add: no_more_ids_def)
  ultimately show ?thesis
    by (auto simp: docker_in_container_def Let_def no_more_ids_def split: option.splits sum.splits)
qed

text \<open>
  C25: The Docker executor leaves no container behind: on every path, failures of the start, of the log
  stream and of the wait and a deadline included, the container it created is removed, once, and this is
  the last thing it asks of the engine.
\<close>

theorem container_removed:
  "case DockerExecutor_Run h dw [] spec of (res, err, logs, tr) \<Rightarrow>
     created_ids tr = removed_ids tr \<and> length (created_ids tr) \<le> 1
     \<and> (created_ids tr = [] \<or> last tr = DRemove (hd (created_ids tr)))"
proof (cases "path_abs h (xs_dir spec)")
  case None
  then show ?thesis by (simp add: DockerExecutor_Run_def)
next
  case (Some workspace)
  let ?img = "dockerImage (xs_run_config spec)"
  obtain err tr where pull: "pullImage dw [] ?img = (err, tr)" by (cases "pullImage dw [] ?img")
  with pullImage_ids [of "[]" dw ?img] have none: "created_ids tr = []" "removed_ids tr = []"
    by (simp_all add: no_more_ids_def)
  let ?req = "container_create_of h dw spec workspace ?img"
  show ?thesis
  proof (cases "err = None \<and> (\<exists>i ws. dw_create dw tr ?req = Inr (i, ws))")
    case False
    with Some pull none show ?thesis
      by (cases "dw_create dw tr ?req") (auto simp: DockerExecutor_Run_def Let_def split: option.splits)
  next
    case True
    then obtain i ws where c: "dw_create dw tr ?req = Inr (i, ws)" "err = None" by blast
    obtain res e logs tr' where r:
      "docker_in_container dw (tr @ [DCreate ?req (Inr (i, ws))]) spec i ?img ws = (res, e, logs, tr')"
      by (cases "docker_in_container dw (tr @ [DCreate ?req (Inr (i, ws))]) spec i ?img ws")
    with docker_in_container_ids [of "tr @ [DCreate ?req (Inr (i, ws))]" dw spec i ?img ws] none
    have "created_ids tr' = [i]" "removed_ids tr' = []" by (simp_all add: no_more_ids_def)
    with Some pull c r show ?thesis by (simp add: DockerExecutor_Run_def Let_def)
  qed
qed

end
