(* ===== verification/Artifacts.thy ===== *)
theory Artifacts
  imports Model_Types
begin

text \<open>
  \<open>internal/artifact\<close> and the reference bookkeeping of \<open>internal/phase/engine.go\<close>: the writer's file
  names and documents, the list of artifact references, uploading them locally or to S3, and putting
  the uploaded addresses back into the references of a result. The file system and the S3 client are
  parameters.
\<close>

section \<open>File names and documents\<close>

abbreviation ContextFileName :: string where "ContextFileName \<equiv> ''context.json''"
abbreviation EnvironmentFileName :: string where "EnvironmentFileName \<equiv> ''environment.json''"
abbreviation SetupPlanFileName :: string where "SetupPlanFileName \<equiv> ''setup.plan.json''"
abbreviation PhasesFileName :: string where "PhasesFileName \<equiv> ''phases.json''"
abbreviation CommandsFileName :: string where "CommandsFileName \<equiv> ''commands.jsonl''"
abbreviation StdoutFileName :: string where "StdoutFileName \<equiv> ''stdout.jsonl''"
abbreviation StderrFileName :: string where "StderrFileName \<equiv> ''stderr.jsonl''"
abbreviation ResultsFileName :: string where "ResultsFileName \<equiv> ''results.json''"
abbreviation ReplayFileName :: string where "ReplayFileName \<equiv> ''replay.json''"
abbreviation IndexFileName :: string where "IndexFileName \<equiv> ''index.json''"
abbreviation ArtifactsDirName :: string where "ArtifactsDirName \<equiv> ''artifacts''"
abbreviation ProviderFileName :: string where "ProviderFileName \<equiv> ''provider.json''"
abbreviation BackendProfileFileName :: string where "BackendProfileFileName \<equiv> ''backend-profile.json''"
abbreviation MachineFileName :: string where "MachineFileName \<equiv> ''machine.json''"
abbreviation ContainerFileName :: string where "ContainerFileName \<equiv> ''container.json''"
abbreviation SandboxFileName :: string where "SandboxFileName \<equiv> ''sandbox.json''"
abbreviation EndpointsFileName :: string where "EndpointsFileName \<equiv> ''endpoints.json''"
abbreviation RuntimeFileName :: string where "RuntimeFileName \<equiv> ''runtime.json''"
abbreviation DevContainerFileName :: string where "DevContainerFileName \<equiv> ''devcontainer.json''"

text \<open>The values that the writer's methods marshal, one constructor for each.\<close>

datatype document =
    DocContext context_artifact
  | DocEnvironment environment_fingerprint
  | DocSetupPlan setup_plan
  | DocPhases "phase_result list"
  | DocResults run_result
  | DocReplay replay_manifest
  | DocIndex artifact_index
  | DocProvider provider_artifact
  | DocBackendProfile backend_profile_artifact
  | DocMachine machine_artifact
  | DocContainer container_artifact
  | DocSandbox sandbox_artifact
  | DocEndpoints endpoints_artifact
  | DocRuntime runtime_artifact
  | DocDevContainer devcontainer_artifact

fun document_file :: "document \<Rightarrow> string" where
  "document_file (DocContext _) = ContextFileName"
| "document_file (DocEnvironment _) = EnvironmentFileName"
| "document_file (DocSetupPlan _) = SetupPlanFileName"
| "document_file (DocPhases _) = PhasesFileName"
| "document_file (DocResults _) = ResultsFileName"
| "document_file (DocReplay _) = ReplayFileName"
| "document_file (DocIndex _) = IndexFileName"
| "document_file (DocProvider _) = ProviderFileName"
| "document_file (DocBackendProfile _) = BackendProfileFileName"
| "document_file (DocMachine _) = MachineFileName"
| "document_file (DocContainer _) = ContainerFileName"
| "document_file (DocSandbox _) = SandboxFileName"
| "document_file (DocEndpoints _) = EndpointsFileName"
| "document_file (DocRuntime _) = RuntimeFileName"
| "document_file (DocDevContainer _) = DevContainerFileName"

record writer =
  wr_root :: string
  wr_max_bytes :: int

text \<open>\<open>mkdir\<close> is the outcome of \<open>os.MkdirAll\<close>.\<close>

definition NewWriter :: "(string \<Rightarrow> go_error option) \<Rightarrow> string \<Rightarrow> int \<Rightarrow> go_error + writer" where
  "NewWriter mkdir root max_bytes =
     (case mkdir (path_join [root, ArtifactsDirName]) of
        Some e \<Rightarrow> Inl (WrapError ''create artifact directory: '' e)
      | None \<Rightarrow> Inr \<lparr>wr_root = root, wr_max_bytes = max_bytes\<rparr>)"

definition document_path :: "writer \<Rightarrow> document \<Rightarrow> string" where
  "document_path w d = path_join [wr_root w, document_file d]"

text \<open>
  \<open>WriteArtifact\<close>: the target path and the error; the directory is made before the size is checked,
  and data over the limit is not written.
\<close>

definition WriteArtifact ::
  "(string \<Rightarrow> go_error option) \<Rightarrow> (string \<Rightarrow> string \<Rightarrow> go_error option) \<Rightarrow> writer \<Rightarrow> string \<Rightarrow> string \<Rightarrow>
   string \<times> go_error option" where
  "WriteArtifact mkdir write_file w name data =
     (let target = path_join [wr_root w, ArtifactsDirName, name] in
      case mkdir (path_dir target) of
        Some e \<Rightarrow> ([], Some e)
      | None \<Rightarrow>
          if 0 < wr_max_bytes w \<and> wr_max_bytes w < int (length data) then
            (target, Some (ErrorText (''artifact '' @ name @ '' exceeds max bytes'')))
          else (target, write_file target data))"

section \<open>Artifact references\<close>

text \<open>
  \<open>ArtifactRefs\<close>: the regular files below the root, as the walk finds them (path below the root and
  size), sorted by their path.
\<close>

definition ref_of_file :: "string \<times> int \<Rightarrow> artifact_ref" where
  "ref_of_file f = \<lparr>ar_name = path_base (fst f), ar_path = fst f, ar_uri = [], ar_size_bytes = snd f,
     ar_skipped = False, ar_reason = []\<rparr>"

definition ArtifactRefs :: "go_error + (string \<times> int) list \<Rightarrow> go_error + artifact_ref list" where
  "ArtifactRefs walk =
     (case walk of Inl e \<Rightarrow> Inl e | Inr files \<Rightarrow> Inr (sort_key ar_path (map ref_of_file files)))"

definition makeUploadRefs :: "string \<Rightarrow> artifact_ref list \<Rightarrow> artifact_ref list" where
  "makeUploadRefs root refs = map (\<lambda>ref. ref\<lparr>ar_path := path_join [root, ar_path ref]\<rparr>) refs"

definition uri_by_abs_path :: "artifact_ref list \<Rightarrow> env" where
  "uri_by_abs_path uploaded =
     fold (\<lambda>ref m. if ar_uri ref = [] then m else env_put (path_clean (ar_path ref)) (ar_uri ref) m)
       uploaded []"

definition mergeUploadedRefs ::
  "string \<Rightarrow> artifact_ref list \<Rightarrow> artifact_ref list \<Rightarrow> artifact_ref list" where
  "mergeUploadedRefs root refs uploaded =
     (let m = uri_by_abs_path uploaded in
      map (\<lambda>ref. case map_of m (path_clean (path_join [root, ar_path ref])) of
             Some uri \<Rightarrow> ref\<lparr>ar_uri := uri\<rparr> | None \<Rightarrow> ref) refs)"

definition filterArtifactRefs :: "artifact_ref list \<Rightarrow> string list \<Rightarrow> artifact_ref list" where
  "filterArtifactRefs refs paths = filter (\<lambda>ref. ar_path ref \<in> set paths) refs"

section \<open>Uploading\<close>

text \<open>
  Built with the tag \<open>s3\<close>: the references are taken in order, \<open>put\<close> opens the file at the given path and
  sends it under a key, and the first failure ends the upload. Built without it, the upload fails.
\<close>

definition s3_key :: "artifacts_config \<Rightarrow> string \<Rightarrow> string \<Rightarrow> int \<Rightarrow> string \<Rightarrow> string" where
  "s3_key cfg deploymentEnv runID attempt path =
     arc_object_prefix cfg @ deploymentEnv @ ''/'' @ runID @ ''/'' @ itoa attempt @ ''/'' @ path_base path"

fun s3_loop ::
  "(string \<Rightarrow> string \<Rightarrow> go_error option) \<Rightarrow> artifacts_config \<Rightarrow> string \<Rightarrow> string \<Rightarrow> int \<Rightarrow>
   artifact_ref list \<Rightarrow> artifact_ref list \<times> go_error option" where
  "s3_loop put cfg deploymentEnv runID attempt [] = ([], None)"
| "s3_loop put cfg deploymentEnv runID attempt (ref # refs) =
     (let path = (if is_abs (ar_path ref) then ar_path ref else path_clean (ar_path ref));
          key = s3_key cfg deploymentEnv runID attempt path
      in case put path key of
           Some e \<Rightarrow> (ref # refs, Some e)
         | None \<Rightarrow>
             (let (rest, err) = s3_loop put cfg deploymentEnv runID attempt refs
              in (ref\<lparr>ar_uri := ''s3://'' @ arc_bucket cfg @ ''/'' @ key\<rparr> # rest, err)))"

text \<open>
  \<open>loadAWSConfig\<close>: the options that the loader of the AWS SDK is called with; \<open>load\<close> is that loader. The endpoint
  option answers for the S3 service only.
\<close>

datatype aws_option =
    WithRegion string
  | WithEndpoint string string
  | WithStaticCredentials string string string

definition aws_options :: "host \<Rightarrow> artifacts_config \<Rightarrow> aws_option list" where
  "aws_options h cfg =
     [WithRegion (arc_region cfg)]
     @ (if arc_endpoint cfg \<noteq> [] then [WithEndpoint (arc_endpoint cfg) (arc_region cfg)] else [])
     @ (if os_getenv h ''AWS_ACCESS_KEY_ID'' \<noteq> [] then
          [WithStaticCredentials (os_getenv h ''AWS_ACCESS_KEY_ID'') (os_getenv h ''AWS_SECRET_ACCESS_KEY'')
             (os_getenv h ''AWS_SESSION_TOKEN'')] else [])"

definition loadAWSConfig ::
  "(aws_option list \<Rightarrow> go_error option) \<Rightarrow> host \<Rightarrow> artifacts_config \<Rightarrow> go_error option" where
  "loadAWSConfig load h cfg = load (aws_options h cfg)"

text \<open>\<open>load_config\<close> is \<open>loadAWSConfig\<close> on the host of the run.\<close>

definition uploadS3 ::
  "(artifacts_config \<Rightarrow> go_error option) \<Rightarrow> (string \<Rightarrow> string \<Rightarrow> go_error option) \<Rightarrow>
   artifact_ref list \<Rightarrow> artifacts_config \<Rightarrow> string \<Rightarrow> string \<Rightarrow> int \<Rightarrow>
   artifact_ref list \<times> go_error option" where
  "uploadS3 load_config put refs cfg deploymentEnv runID attempt =
     (case load_config cfg of
        Some e \<Rightarrow> (refs, Some e)
      | None \<Rightarrow> s3_loop put cfg deploymentEnv runID attempt refs)"

definition uploadS3_stub ::
  "artifact_ref list \<Rightarrow> artifacts_config \<Rightarrow> string \<Rightarrow> string \<Rightarrow> int \<Rightarrow>
   artifact_ref list \<times> go_error option" where
  "uploadS3_stub refs cfg deploymentEnv runID attempt =
     (refs, Some (ErrorText
        ''artifact backend s3 is not available in this binary; rebuild with -tags s3''))"

text \<open>\<open>s3\<close> is the \<open>uploadS3\<close> of the build.\<close>

type_synonym s3_upload =
  "artifact_ref list \<Rightarrow> artifacts_config \<Rightarrow> string \<Rightarrow> string \<Rightarrow> int \<Rightarrow> artifact_ref list \<times> go_error option"

definition Upload :: "s3_upload \<Rightarrow> s3_upload" where
  "Upload s3 refs cfg deploymentEnv runID attempt =
     (if \<not> arc_upload cfg then (refs, None)
      else if arc_backend cfg = ArtifactBackendLocal then
        (map (\<lambda>ref. ref\<lparr>ar_uri := ar_path ref\<rparr>) refs, None)
      else if arc_backend cfg = ArtifactBackendS3 then s3 refs cfg deploymentEnv runID attempt
      else (refs, Some (ErrorText (''unsupported artifact backend: '' @ arc_backend cfg))))"

section \<open>Facts\<close>

lemma path_join_cleaned [simp]: "path_join es \<noteq> [] \<Longrightarrow> path_clean (path_join es) = path_join es"
  by (auto simp: path_join_def split: list.splits)

lemma path_join_nonempty [simp]: "r \<noteq> [] \<Longrightarrow> path_join (r # es) \<noteq> []"
  by (simp add: path_join_def)

lemma uri_by_abs_path_lookup:
  "map_of (fold (\<lambda>ref m. if ar_uri ref = [] then m
       else env_put (path_clean (ar_path ref)) (ar_uri ref) m) uploaded m) k =
     (case find (\<lambda>ref. ar_uri ref \<noteq> [] \<and> path_clean (ar_path ref) = k) (rev uploaded) of
        Some ref \<Rightarrow> Some (ar_uri ref) | None \<Rightarrow> map_of m k)"
proof (induction uploaded rule: rev_induct)
  case (snoc ref us)
  then show ?case by simp
qed simp

lemma mergeUploadedRefs_length [simp]: "length (mergeUploadedRefs root refs up) = length refs"
  by (simp add: mergeUploadedRefs_def Let_def)

lemma find_some_value:
  assumes "x \<in> set xs" "P x" "\<And>y. y \<in> set xs \<Longrightarrow> P y \<Longrightarrow> f y = f x"
  shows "\<exists>y. find P xs = Some y \<and> f y = f x"
proof (cases "find P xs")
  case None
  with assms(1,2) show ?thesis by (simp add: find_None_iff)
next
  case (Some y)
  with assms(3) show ?thesis by (auto simp: find_Some_iff)
qed

text \<open>
  Uploading keeps the references in their places: only an address changes.
\<close>

lemma s3_loop_shape:
  "length (fst (s3_loop put cfg d r a refs)) = length refs
   \<and> map (\<lambda>x. x\<lparr>ar_uri := []\<rparr>) (fst (s3_loop put cfg d r a refs)) = map (\<lambda>x. x\<lparr>ar_uri := []\<rparr>) refs"
  by (induction refs) (auto simp: Let_def split: option.splits prod.splits)

lemma s3_loop_prefix:
  "\<exists>n \<le> length refs.
     fst (s3_loop put cfg d r a refs)
       = map (\<lambda>ref. ref\<lparr>ar_uri := ''s3://'' @ arc_bucket cfg @ ''/'' @ s3_key cfg d r a (ar_path ref)\<rparr>) (take n refs)
         @ drop n refs
     \<and> (snd (s3_loop put cfg d r a refs) = None \<longrightarrow> n = length refs)
     \<and> (\<forall>e. snd (s3_loop put cfg d r a refs) = Some e \<longrightarrow>
           n < length refs \<and> put (ar_path (refs ! n)) (s3_key cfg d r a (ar_path (refs ! n))) = Some e)"
  if "\<forall>ref\<in>set refs. is_abs (ar_path ref)"
  using that
proof (induction refs)
  case Nil
  then show ?case by simp
next
  case (Cons ref refs)
  from Cons.prems have abs: "is_abs (ar_path ref)" by simp
  let ?put = "put (ar_path ref) (s3_key cfg d r a (ar_path ref))"
  show ?case
  proof (cases ?put)
    case (Some e)
    with abs show ?thesis by (intro exI [of _ 0]) (simp add: Let_def)
  next
    case None
    from Cons obtain n where n: "n \<le> length refs"
      and eq: "fst (s3_loop put cfg d r a refs)
        = map (\<lambda>ref. ref\<lparr>ar_uri := ''s3://'' @ arc_bucket cfg @ ''/'' @ s3_key cfg d r a (ar_path ref)\<rparr>) (take n refs)
          @ drop n refs"
      and ok: "snd (s3_loop put cfg d r a refs) = None \<longrightarrow> n = length refs"
      and bad: "\<forall>e. snd (s3_loop put cfg d r a refs) = Some e \<longrightarrow>
           n < length refs \<and> put (ar_path (refs ! n)) (s3_key cfg d r a (ar_path (refs ! n))) = Some e"
      by auto
    from None abs n eq ok bad show ?thesis
      by (intro exI [of _ "Suc n"]) (auto simp: Let_def split: prod.splits)
  qed
qed

section \<open>Properties\<close>

text \<open>
  After a local upload every reference of the result carries its own absolute path below the
  artifact directory as its address and is otherwise unchanged, in the same order.
\<close>

theorem local_upload_addresses:
  assumes "root \<noteq> []" "arc_upload cfg" "arc_backend cfg = ArtifactBackendLocal"
  shows "mergeUploadedRefs root refs (fst (Upload s3 (makeUploadRefs root refs) cfg d r a))
    = map (\<lambda>ref. ref\<lparr>ar_uri := path_join [root, ar_path ref]\<rparr>) refs"
proof -
  have "map_of (uri_by_abs_path (fst (Upload s3 (makeUploadRefs root refs) cfg d r a)))
      (path_clean (path_join [root, ar_path ref])) = Some (path_join [root, ar_path ref])"
    if ref: "ref \<in> set refs" for ref
  proof -
    let ?up = "fst (Upload s3 (makeUploadRefs root refs) cfg d r a)"
    let ?P = "\<lambda>u. ar_uri u \<noteq> [] \<and> path_clean (ar_path u) = path_join [root, ar_path ref]"
    let ?u = "ref\<lparr>ar_path := path_join [root, ar_path ref], ar_uri := path_join [root, ar_path ref]\<rparr>"
    have up: "?up = map (\<lambda>ref. ref\<lparr>ar_path := path_join [root, ar_path ref],
        ar_uri := path_join [root, ar_path ref]\<rparr>) refs"
      using assms by (simp add: Upload_def makeUploadRefs_def o_def)
    have "\<exists>y. find ?P (rev ?up) = Some y \<and> ar_uri y = ar_uri ?u"
    proof (rule find_some_value)
      show "?u \<in> set (rev ?up)" unfolding up using ref by simp
    qed (use assms(1) in \<open>auto simp: up\<close>)
    then show ?thesis
      using assms(1) by (auto simp: uri_by_abs_path_def uri_by_abs_path_lookup)
  qed
  then show ?thesis by (simp add: mergeUploadedRefs_def Let_def)
qed

definition sample_artifacts :: "artifact_backend \<Rightarrow> artifacts_config" where
  "sample_artifacts backend = \<lparr>arc_upload = True, arc_object_prefix = ''runs/'', arc_backend = backend,
     arc_bucket = ''b'', arc_endpoint = [], arc_region = [], arc_force_path_style = False\<rparr>"

lemma local_upload_addresses_witness:
  "mergeUploadedRefs ''/a'' [ref_of_file (''index.json'', 3)]
     (fst (Upload uploadS3_stub (makeUploadRefs ''/a'' [ref_of_file (''index.json'', 3)])
        (sample_artifacts ArtifactBackendLocal) ''dev'' ''r'' 1))
   = [(ref_of_file (''index.json'', 3))\<lparr>ar_uri := path_join [''/a'', ''index.json'']\<rparr>]"
  by (subst local_upload_addresses) (simp_all add: sample_artifacts_def ref_of_file_def)

text \<open>
  An S3 upload of absolute paths addresses exactly the references before the first failure, each
  with its bucket and key, leaves the rest alone and reports that failure; without a failure all are
  addressed.
\<close>

theorem s3_upload_stops_at_failure:
  assumes "load_config cfg = None" "\<forall>ref\<in>set refs. is_abs (ar_path ref)"
  shows "\<exists>n \<le> length refs.
     fst (uploadS3 load_config put refs cfg d r a)
       = map (\<lambda>ref. ref\<lparr>ar_uri := ''s3://'' @ arc_bucket cfg @ ''/'' @ s3_key cfg d r a (ar_path ref)\<rparr>) (take n refs)
         @ drop n refs
     \<and> (snd (uploadS3 load_config put refs cfg d r a) = None \<longrightarrow> n = length refs)
     \<and> (\<forall>e. snd (uploadS3 load_config put refs cfg d r a) = Some e \<longrightarrow>
           n < length refs \<and> put (ar_path (refs ! n)) (s3_key cfg d r a (ar_path (refs ! n))) = Some e)"
  using s3_loop_prefix [OF assms(2), of put cfg d r a] assms(1) by (simp add: uploadS3_def)

lemma s3_upload_stops_at_failure_witness:
  "let refs = [ref_of_file (''/a/x'', 1), ref_of_file (''/a/y'', 1)];
       put = (\<lambda>p k. if p = ''/a/y'' then Some (ErrorText ''denied'') else None);
       up = uploadS3 (\<lambda>c. None) put refs (sample_artifacts ArtifactBackendS3) ''dev'' ''r'' 1
   in \<exists>n \<le> 2. snd up = Some (ErrorText ''denied'') \<and> n < 2 \<and> drop n (fst up) = drop n refs"
proof -
  let ?refs = "[ref_of_file (''/a/x'', 1), ref_of_file (''/a/y'', 1)]"
  let ?put = "\<lambda>p k. if p = ''/a/y'' then Some (ErrorText ''denied'') else None"
  let ?up = "uploadS3 (\<lambda>c. None) ?put ?refs (sample_artifacts ArtifactBackendS3) ''dev'' ''r'' 1"
  have abs: "\<forall>ref\<in>set ?refs. is_abs (ar_path ref)"
    by (simp add: ref_of_file_def is_abs_Cons)
  have err: "snd ?up = Some (ErrorText ''denied'')" by code_simp
  from s3_upload_stops_at_failure [OF refl abs, where put = ?put]
  obtain n where "n \<le> length ?refs" "fst ?up = map (\<lambda>ref. ref\<lparr>ar_uri := ''s3://''
      @ arc_bucket (sample_artifacts ArtifactBackendS3) @ ''/''
      @ s3_key (sample_artifacts ArtifactBackendS3) ''dev'' ''r'' 1 (ar_path ref)\<rparr>) (take n ?refs) @ drop n ?refs"
    "n < length ?refs"
    using err by meson
  then have "n \<le> 2 \<and> snd ?up = Some (ErrorText ''denied'') \<and> n < 2 \<and> drop n (fst ?up) = drop n ?refs"
    using err by simp
  then show ?thesis unfolding Let_def by blast
qed

text \<open>
  The object key keeps only the last element of a path, so the run's own index and a file of the
  same name synced out of the sandbox go to one key: both references get the same address, and the one
  uploaded later replaces the other.
\<close>

theorem s3_keys_collide:
  "arc_bucket cfg = b \<Longrightarrow>
   map ar_uri (fst (uploadS3 (\<lambda>c. None) (\<lambda>p k. None)
      (makeUploadRefs ''/a'' [ref_of_file (''artifacts/opensandbox-workspace/index.json'', 1),
                              ref_of_file (IndexFileName, 2)]) cfg d r n))
   = replicate 2 (''s3://'' @ b @ ''/'' @ arc_object_prefix cfg @ d @ ''/'' @ r @ ''/'' @ itoa n @ ''/index.json'')"
proof -
  have "path_join [''/a'', ''artifacts/opensandbox-workspace/index.json'']
      = ''/a/artifacts/opensandbox-workspace/index.json''" by code_simp
  moreover have "path_join [''/a'', IndexFileName] = ''/a/index.json''" by code_simp
  moreover have "path_base ''/a/artifacts/opensandbox-workspace/index.json'' = ''index.json''" by code_simp
  moreover have "path_base ''/a/index.json'' = ''index.json''" by code_simp
  moreover assume "arc_bucket cfg = b"
  ultimately show ?thesis
    by (simp add: uploadS3_def makeUploadRefs_def ref_of_file_def s3_key_def is_abs_def has_prefix_def
        Let_def numeral_2_eq_2)
qed

lemma s3_keys_collide_witness:
  "map ar_uri (fst (uploadS3 (\<lambda>c. None) (\<lambda>p k. None)
      (makeUploadRefs ''/a'' [ref_of_file (''artifacts/opensandbox-workspace/index.json'', 1),
                              ref_of_file (IndexFileName, 2)]) (sample_artifacts ArtifactBackendS3) ''dev'' ''r'' 1))
   = replicate 2 (''s3://'' @ ''b'' @ ''/'' @ ''runs/'' @ ''dev'' @ ''/'' @ ''r'' @ ''/'' @ itoa 1 @ ''/index.json'')"
  using s3_keys_collide [of "sample_artifacts ArtifactBackendS3" "''b''" "''dev''" "''r''" 1]
  by (simp only: sample_artifacts_def artifacts_config.simps)

end
