(* ===== verification/Engine_Views.thy ===== *)
theory Engine_Views
  imports Artifacts Adapters Executor Compat
begin

text \<open>
  The pure helpers of \<open>internal/phase/engine.go\<close>: what the engine derives from the run configuration
  and the answers of a backend (snapshots, artifacts, actions, capabilities, the request for a
  sandbox), the environments of the phases, error codes and the exit code of a run.
\<close>

section \<open>Backend kinds\<close>

definition requiresManagedSandbox :: "run_config \<Rightarrow> bool" where
  "requiresManagedSandbox cfg \<longleftrightarrow> bk_kind (cfg_backend cfg) \<in>
     {BackendKindOpenSandbox, BackendKindDevContainer, BackendKindAppleContainer, BackendKindOrbStackMachine}"

definition phase_backendProviderForConfig :: "run_config \<Rightarrow> string" where
  "phase_backendProviderForConfig cfg =
     (let kind = bk_kind (cfg_backend cfg) in
      if ex_provider (cfg_execution cfg) \<noteq> [] then ex_provider (cfg_execution cfg)
      else if kind = BackendKindDirect then ''native''
      else if kind = BackendKindDocker then
        (if dk_provider (cfg_docker cfg) = DockerProviderOrbStack then ''orbstack'' else ''native'')
      else if kind = BackendKindK8s then ExecutionProviderForK8sProvider (k8_provider (cfg_k8s cfg))
      else if kind = BackendKindOrbStackMachine then ''orbstack''
      else if kind = BackendKindOpenSandbox then ''opensandbox''
      else if kind \<in> {BackendKindDevContainer, BackendKindAppleContainer} then ''native''
      else kind)"

definition providerNameForConfig :: "run_config \<Rightarrow> string" where
  "providerNameForConfig cfg =
     (if ex_provider (cfg_execution cfg) \<noteq> [] then ex_provider (cfg_execution cfg)
      else phase_backendProviderForConfig cfg)"

definition localPlatformForConfig :: "run_config \<Rightarrow> string" where
  "localPlatformForConfig cfg =
     (if ex_backend (cfg_execution cfg) = ExecutionBackendAppleContainer then ''macos''
      else if ex_backend (cfg_execution cfg) = ExecutionBackendMachine then ''orbstack''
      else if ex_provider (cfg_execution cfg) = ProviderOrbStack then ''orbstack''
      else [])"

definition runtimeKindForConfig :: "run_config \<Rightarrow> string" where
  "runtimeKindForConfig cfg =
     (let kind = bk_kind (cfg_backend cfg) in
      if kind = BackendKindOpenSandbox then osb_runtime (cfg_opensandbox cfg)
      else if kind = BackendKindDevContainer then ''devcontainer''
      else if kind = BackendKindAppleContainer then ''apple-container''
      else if kind = BackendKindOrbStackMachine then ''orbstack-machine''
      else if kind = BackendKindDocker then ''docker''
      else if kind = BackendKindK8s then ''kubernetes''
      else kind)"

definition sandboxImage :: "run_config \<Rightarrow> string" where
  "sandboxImage cfg =
     (if sb_image (cfg_sandbox cfg) \<noteq> [] then sb_image (cfg_sandbox cfg) else rs_image (cfg_run cfg))"

definition virtualizationForRuntime :: "runtime_profile \<Rightarrow> string" where
  "virtualizationForRuntime p =
     (if p = RuntimeProfileKata then ''kata'' else if p = RuntimeProfileGVisor then ''gvisor''
      else if p = RuntimeProfileFirecracker then ''firecracker''
      else if p = RuntimeProfileAppleContainer then ''apple-container''
      else if p = RuntimeProfileOrbStackMachine then ''vm'' else ''none'')"

definition machineNameForSandbox :: "run_config \<Rightarrow> sandbox_info \<Rightarrow> string" where
  "machineNameForSandbox cfg info =
     (if bk_kind (cfg_backend cfg) \<noteq> BackendKindOrbStackMachine then []
      else if env_get (si_metadata info) ''machine_name'' \<noteq> [] then env_get (si_metadata info) ''machine_name''
      else if si_id info \<noteq> [] then si_id info
      else orb_machine_name (cfg_orbstack cfg))"

definition collectRemoteArtifactDir :: "run_config \<Rightarrow> string" where
  "collectRemoteArtifactDir cfg =
     (let kind = bk_kind (cfg_backend cfg); base = path_base (rs_artifact_dir (cfg_run cfg)) in
      if kind = BackendKindOpenSandbox then path_join [osb_workspace_root (cfg_opensandbox cfg), base]
      else if kind = BackendKindAppleContainer then path_join [apc_workspace_root (cfg_apple_container cfg), base]
      else if kind = BackendKindOrbStackMachine then
        path_join [orb_machine_workspace_root (cfg_orbstack cfg), base]
      else [])"

definition prepareActionForBackend :: "run_config \<Rightarrow> string" where
  "prepareActionForBackend cfg =
     (let kind = bk_kind (cfg_backend cfg) in
      if kind = BackendKindAppleContainer then ''container.create''
      else if kind = BackendKindOrbStackMachine then ''machine.create''
      else if kind = BackendKindDevContainer then ''devcontainer.up''
      else if kind = BackendKindOpenSandbox then ''sandbox.create'' else [])"

definition execActionForBackend :: "run_config \<Rightarrow> string" where
  "execActionForBackend cfg =
     (let kind = bk_kind (cfg_backend cfg) in
      if kind = BackendKindAppleContainer then ''container.exec''
      else if kind = BackendKindOrbStackMachine then ''machine.exec''
      else if kind \<in> {BackendKindDevContainer, BackendKindOpenSandbox} then ''sandbox.exec'' else [])"

definition cleanupActionForBackend :: "run_config \<Rightarrow> string" where
  "cleanupActionForBackend cfg =
     (let kind = bk_kind (cfg_backend cfg) in
      if kind = BackendKindAppleContainer then
        (if equal_fold (apc_cleanup_mode (cfg_apple_container cfg)) ''keep'' then ''container.keep''
         else ''container.delete'')
      else if kind = BackendKindOrbStackMachine then
        (let m = to_lower (orb_machine_cleanup_mode (cfg_orbstack cfg)) in
         if m = ''stop'' then ''machine.stop'' else if m = ''delete'' then ''machine.delete''
         else ''machine.keep'')
      else if kind = BackendKindDevContainer then
        (if equal_fold (dc_cleanup_mode (cfg_devcontainer cfg)) ''keep'' then ''devcontainer.keep''
         else ''devcontainer.down'')
      else if kind = BackendKindOpenSandbox then
        (let m = osb_cleanup_mode (cfg_opensandbox cfg) in
         if m = OpenSandboxCleanupKeep then ''sandbox.keep''
         else if m \<in> {OpenSandboxCleanupPause, OpenSandboxCleanupPauseElseKeep} then ''sandbox.pause''
         else ''sandbox.delete'')
      else [])"

section \<open>Capabilities\<close>

definition hasCapability :: "string \<Rightarrow> backend_capabilities \<Rightarrow> bool" where
  "hasCapability name caps =
     (if name = ''pause_resume'' then caps_supports_pause_resume caps
      else if name = ''ttl'' then caps_supports_ttl caps
      else if name = ''file_upload'' then caps_supports_file_upload caps
      else if name = ''file_download'' then caps_supports_file_download caps
      else if name = ''background_exec'' then caps_supports_background_exec caps
      else if name = ''stream_logs'' then caps_supports_stream_logs caps
      else if name = ''endpoints'' then caps_supports_endpoints caps
      else if name = ''bridge_network'' then caps_supports_bridge_network caps
      else if name = ''host_network'' then caps_supports_host_network caps
      else if name = ''code_interp'' then caps_supports_code_interp caps
      else if name = ''runtime_profile'' then caps_supports_runtime_profile caps
      else if name = ''devcontainer'' then caps_supports_devcontainer caps
      else if name = ''machine_exec'' then caps_supports_machine_exec caps
      else if name = ''oci_image'' then caps_supports_oci_image caps
      else if name = ''vm_isolation'' then caps_supports_vm_isolation caps
      else if name = ''k8s_target'' then caps_supports_k8s_target caps
      else False)"

definition ensureRuntimeProfileSupport :: "run_config \<Rightarrow> backend_capabilities \<Rightarrow> go_error option" where
  "ensureRuntimeProfileSupport cfg caps =
     (let kind = bk_kind (cfg_backend cfg) in
      if rt_profile (cfg_runtime cfg) = RuntimeProfileKata \<and> \<not> caps_supports_runtime_profile caps
      then Some (RunnerError ErrorCodeProviderRuntimeUnsupported
        (''backend '' @ kind @ '' does not support runtime profile '' @ rt_profile (cfg_runtime cfg))
        False [] kind [] None)
      else None)"

definition ensureRequiredCapabilities :: "run_config \<Rightarrow> backend_capabilities \<Rightarrow> go_error option" where
  "ensureRequiredCapabilities cfg caps =
     (case find (\<lambda>c. \<not> hasCapability c caps) (pv_require_capabilities (cfg_provider cfg)) of
        None \<Rightarrow> None
      | Some c \<Rightarrow> Some (ErrorText (''backend '' @ bk_kind (cfg_backend cfg)
            @ '' does not support required capability '' @ c)))"

section \<open>Snapshots and artifacts\<close>

definition backendSnapshot :: "run_config \<Rightarrow> backend_capabilities \<Rightarrow> backend_snapshot" where
  "backendSnapshot cfg caps =
     (let kind = bk_kind (cfg_backend cfg); opensb = (kind = BackendKindOpenSandbox) in
      \<lparr>bs_kind = ex_backend (cfg_execution cfg), bs_provider = providerNameForConfig cfg,
       bs_backend_provider = phase_backendProviderForConfig cfg,
       bs_runtime = (if opensb then osb_runtime (cfg_opensandbox cfg)
                     else if kind = BackendKindDevContainer then ''devcontainer''
                     else if kind = BackendKindAppleContainer then ''apple-container''
                     else if kind = BackendKindOrbStackMachine then ''orbstack-machine'' else []),
       bs_runtime_profile = ex_runtime_profile (cfg_execution cfg),
       bs_runtime_class_name = kata_runtime_class_name (cfg_kata cfg),
       bs_virtualization = virtualizationForRuntime (rt_profile (cfg_runtime cfg)),
       bs_local_platform = localPlatformForConfig cfg,
       bs_server_url = (if opensb then osb_base_url (cfg_opensandbox cfg) else []),
       bs_capabilities = caps\<rparr>)"

definition sandboxSnapshot :: "sandbox_info \<Rightarrow> run_config \<Rightarrow> sandbox_snapshot option" where
  "sandboxSnapshot info cfg =
     (if si_id info = [] \<and> rs_sandbox_id (cfg_run cfg) = [] then None
      else Some \<lparr>ss_id = (if si_id info = [] then rs_sandbox_id (cfg_run cfg) else si_id info),
        ss_status = si_status info, ss_network_mode = osb_network_mode (cfg_opensandbox cfg),
        ss_runtime_profile = ex_runtime_profile (cfg_execution cfg),
        ss_runtime_class_name = kata_runtime_class_name (cfg_kata cfg),
        ss_virtualization = virtualizationForRuntime (rt_profile (cfg_runtime cfg)),
        ss_machine_name = machineNameForSandbox cfg info, ss_metadata = si_metadata info\<rparr>)"

definition providerArtifact ::
  "run_config \<Rightarrow> backend_capabilities \<Rightarrow> devcontainer_artifact option \<Rightarrow> provider_artifact" where
  "providerArtifact cfg caps devInfo =
     (let kind = bk_kind (cfg_backend cfg); opensb = (kind = BackendKindOpenSandbox) in
      \<lparr>pa_backend_kind = ex_backend (cfg_execution cfg),
       pa_provider_name = (if opensb then ''opensandbox'' else providerNameForConfig cfg),
       pa_backend_provider = phase_backendProviderForConfig cfg,
       pa_runtime = (if opensb then osb_runtime (cfg_opensandbox cfg) else []),
       pa_runtime_profile = ex_runtime_profile (cfg_execution cfg),
       pa_runtime_class_name = kata_runtime_class_name (cfg_kata cfg),
       pa_local_platform = localPlatformForConfig cfg,
       pa_server = (if opensb then osb_base_url (cfg_opensandbox cfg) else []),
       pa_supports_ttl = caps_supports_ttl caps, pa_supports_pause_resume = caps_supports_pause_resume caps,
       pa_supports_file_upload = caps_supports_file_upload caps,
       pa_supports_stream_logs = caps_supports_stream_logs caps,
       pa_devcontainer = (if kind = BackendKindDevContainer then devInfo else None)\<rparr>)"

definition sandboxArtifact :: "sandbox_info \<Rightarrow> run_config \<Rightarrow> sandbox_artifact" where
  "sandboxArtifact info cfg =
     \<lparr>sa_sandbox_id = si_id info, sa_status = si_status info,
      sa_network_mode = osb_network_mode (cfg_opensandbox cfg),
      sa_runtime_profile = ex_runtime_profile (cfg_execution cfg),
      sa_runtime_class_name = kata_runtime_class_name (cfg_kata cfg),
      sa_virtualization = virtualizationForRuntime (rt_profile (cfg_runtime cfg)),
      sa_machine_name = machineNameForSandbox cfg info, sa_metadata = si_metadata info\<rparr>"

definition runtimeArtifact :: "run_config \<Rightarrow> runtime_info \<Rightarrow> runtime_artifact" where
  "runtimeArtifact cfg ri =
     \<lparr>ra_backend_kind = ex_backend (cfg_execution cfg), ra_provider_name = providerNameForConfig cfg,
      ra_backend_provider = first_non_empty [ri_backend_provider ri, phase_backendProviderForConfig cfg],
      ra_runtime_profile = first_non_empty [ex_runtime_profile (cfg_execution cfg), ri_runtime_profile ri],
      ra_runtime_class_name = ri_runtime_class_name ri, ra_container_runtime = ri_container_runtime ri,
      ra_virtualization = ri_virtualization ri, ra_host_os = ri_host_os ri, ra_host_arch = ri_host_arch ri,
      ra_local_platform = first_non_empty [ri_local_platform ri, localPlatformForConfig cfg],
      ra_machine_name = first_non_empty [ri_machine_name ri, orb_machine_name (cfg_orbstack cfg)],
      ra_container_id = (if bk_kind (cfg_backend cfg) \<noteq> BackendKindOrbStackMachine
                         then first_non_empty [ri_container_id ri, rs_sandbox_id (cfg_run cfg)]
                         else ri_container_id ri),
      ra_available = ri_available ri, ra_checked_by = ri_checked_by ri, ra_detail = ri_detail ri\<rparr>"

definition backendProfileArtifact :: "run_config \<Rightarrow> runtime_info \<Rightarrow> backend_profile_artifact" where
  "backendProfileArtifact cfg ri =
     \<lparr>bpa_backend_kind = ex_backend (cfg_execution cfg),
      bpa_backend_provider = first_non_empty [ri_backend_provider ri, phase_backendProviderForConfig cfg],
      bpa_runtime_profile = ex_runtime_profile (cfg_execution cfg),
      bpa_local_platform = first_non_empty [ri_local_platform ri, localPlatformForConfig cfg]\<rparr>"

definition machineArtifact :: "sandbox_info \<Rightarrow> run_config \<Rightarrow> machine_artifact" where
  "machineArtifact info cfg =
     (if bk_kind (cfg_backend cfg) \<noteq> BackendKindOrbStackMachine
      then \<lparr>ma_machine_name = [], ma_status = [], ma_distro = []\<rparr>
      else \<lparr>ma_machine_name = machineNameForSandbox cfg info, ma_status = si_status info,
            ma_distro = env_get (si_metadata info) ''distro''\<rparr>)"

definition containerArtifact :: "sandbox_info \<Rightarrow> run_config \<Rightarrow> container_artifact" where
  "containerArtifact info cfg =
     (let image = env_get (si_metadata info) ''image'' in
      if bk_kind (cfg_backend cfg) \<noteq> BackendKindAppleContainer
      then \<lparr>cta_container_id = [], cta_image = [], cta_status = []\<rparr>
      else \<lparr>cta_container_id = first_non_empty [si_id info, rs_sandbox_id (cfg_run cfg)],
            cta_image = (if image = [] then sandboxImage cfg else image), cta_status = si_status info\<rparr>)"

section \<open>Environments\<close>

definition currentProcessEnv :: "host \<Rightarrow> env" where
  "currentProcessEnv h = fold (\<lambda>item. let (k, v) = splitEnv item in env_put k v) (os_environ h) []"

definition expandEnvValue :: "string \<Rightarrow> env \<Rightarrow> env \<Rightarrow> string" where
  "expandEnvValue value overrides base =
     os_expand (\<lambda>key. case map_of overrides key of Some v \<Rightarrow> v
        | None \<Rightarrow> (case map_of base key of Some v \<Rightarrow> v | None \<Rightarrow> [])) value"

definition mergeExpandedEnv :: "env \<Rightarrow> env \<Rightarrow> env \<Rightarrow> env" where
  "mergeExpandedEnv dst source base =
     fold (\<lambda>key dst. env_put key (expandEnvValue (env_get source key) dst base) dst)
       (sorted_keys source) dst"

definition buildPhaseEnv :: "host \<Rightarrow> run_config \<Rightarrow> bool \<Rightarrow> env \<Rightarrow> env" where
  "buildPhaseEnv h cfg includeGoEnv secrets =
     (let base = currentProcessEnv h;
          out = mergeExpandedEnv [] (rs_extra_env (cfg_run cfg)) base;
          out = (if includeGoEnv then mergeExpandedEnv out (gc_extra_env (cfg_go cfg)) base else out)
      in env_put_all out secrets)"

section \<open>The request for a sandbox\<close>

definition openSandboxBootstrapEnv :: "host \<Rightarrow> lang_adapter list \<Rightarrow> run_config \<Rightarrow> env" where
  "openSandboxBootstrapEnv h registry cfg =
     (if bk_kind (cfg_backend cfg) \<noteq> BackendKindOpenSandbox then []
      else (let m = buildPhaseEnv h cfg True []; command = rs_command (cfg_run cfg) in
        case Resolve registry (rs_language (cfg_run cfg)) command m of
          Inl e \<Rightarrow> []
        | Inr a \<Rightarrow> filter (\<lambda>(k, v). has_prefix k ''OTEL_'') (snd (adapter_Rewrite a command m cfg))))"

definition maxInt :: "int list \<Rightarrow> int" where
  "maxInt vs = fold (\<lambda>v best. if best < v then v else best) vs 0"

definition create_metadata :: "run_config \<Rightarrow> env" where
  "create_metadata cfg =
     [(''run_id'', rs_run_id (cfg_run cfg)),
      (''attempt'', itoa (rs_attempt (cfg_run cfg))),
      (''execution.backend'', ex_backend (cfg_execution cfg)),
      (''execution.provider'', ex_provider (cfg_execution cfg)),
      (''execution.runtime_profile'', ex_runtime_profile (cfg_execution cfg)),
      (''execution.compatibility_level'', env_get (cfg_metadata cfg) ''execution.compatibility_level''),
      (''runtime.profile'', rt_profile (cfg_runtime cfg)),
      (''runtime.class'', kata_runtime_class_name (cfg_kata cfg)),
      (''backend.kind'', bk_kind (cfg_backend cfg)),
      (''backend.provider'', phase_backendProviderForConfig cfg),
      (''local.platform'', localPlatformForConfig cfg)]"

definition buildCreateSandboxRequest ::
  "host \<Rightarrow> lang_adapter list \<Rightarrow> run_config \<Rightarrow> create_sandbox_request" where
  "buildCreateSandboxRequest h registry cfg =
     (let kind = bk_kind (cfg_backend cfg);
          m = env_put_missing (env_put_all [] (sb_env (cfg_sandbox cfg))) (rs_extra_env (cfg_run cfg));
          m = (if kind = BackendKindOpenSandbox
               then env_put_missing m (openSandboxBootstrapEnv h registry cfg) else m)
      in \<lparr>csr_run_id = rs_run_id (cfg_run cfg), csr_attempt = rs_attempt (cfg_run cfg),
          csr_workspace_id = rs_workspace_id (cfg_run cfg), csr_image = sandboxImage cfg,
          csr_entrypoint = sb_entrypoint (cfg_sandbox cfg), csr_env = m,
          csr_metadata = create_metadata cfg,
          csr_cpu = sb_cpu (cfg_sandbox cfg), csr_memory = sb_memory (cfg_sandbox cfg),
          csr_network_mode = osb_network_mode (cfg_opensandbox cfg),
          csr_timeout_sec = maxInt [osb_ttl_sec (cfg_opensandbox cfg), 1800],
          csr_workspace_dir =
            (if kind = BackendKindOpenSandbox then osb_workspace_root (cfg_opensandbox cfg)
             else if kind = BackendKindOrbStackMachine then orb_machine_workspace_root (cfg_orbstack cfg)
             else rs_workspace_dir (cfg_run cfg))\<rparr>)"

section \<open>Errors and exit codes\<close>

definition errorCodeForErr :: "error_code \<Rightarrow> go_error \<Rightarrow> error_code" where
  "errorCodeForErr code err =
     (case as_runner_error err of
        Some e \<Rightarrow> if re_code e \<noteq> [] then re_code e else code
      | None \<Rightarrow> code)"

text \<open>\<open>%v\<close> prints a slice of strings between brackets, with blanks between them.\<close>

definition commandError :: "string list \<Rightarrow> exec_result \<Rightarrow> go_error option \<Rightarrow> go_error option" where
  "commandError command result err =
     (case err of Some e \<Rightarrow> Some e
      | None \<Rightarrow> if xres_exit_code result \<noteq> 0
          then Some (ErrorText (''['' @ join '' '' command @ ''] exited with code '' @ itoa (xres_exit_code result)))
          else None)"

definition ExitCodeForResult :: "run_result option \<Rightarrow> go_error option \<Rightarrow> int" where
  "ExitCodeForResult result err =
     (case result of
        Some r \<Rightarrow>
          if rr_exit_code r \<noteq> 0 then rr_exit_code r
          else (case rr_status r of
              StatusTimedOut \<Rightarrow> 124 | StatusAborted \<Rightarrow> 130 | StatusFailed \<Rightarrow> 1 | StatusPartial \<Rightarrow> 1
            | _ \<Rightarrow> 0)
      | None \<Rightarrow> (case err of Some e \<Rightarrow> if is_deadline e then 124 else 1 | None \<Rightarrow> 1))"

section \<open>The index of the artifacts\<close>

definition index_key :: "string \<Rightarrow> string option" where
  "index_key = map_of
     [(IndexFileName, ''index''), (ResultsFileName, ''results''), (PhasesFileName, ''phases''),
      (ReplayFileName, ''replay''), (CommandsFileName, ''commands''), (StdoutFileName, ''stdout''),
      (StderrFileName, ''stderr''), (ContextFileName, ''context''), (EnvironmentFileName, ''environment''),
      (SetupPlanFileName, ''setup_plan''), (ProviderFileName, ''provider''), (RuntimeFileName, ''runtime''),
      (BackendProfileFileName, ''backend_profile''), (SandboxFileName, ''sandbox''),
      (DevContainerFileName, ''devcontainer''), (EndpointsFileName, ''endpoints''),
      (MachineFileName, ''machine''), (ContainerFileName, ''container'')]"

definition index_files :: "artifact_ref list \<Rightarrow> env" where
  "index_files refs =
     (let files = fold (\<lambda>ref m. case index_key (ar_path ref) of None \<Rightarrow> m
                          | Some k \<Rightarrow> env_put k (ar_path ref) m) refs []
      in if files = [] then
           [(''index'', IndexFileName), (''results'', ResultsFileName), (''phases'', PhasesFileName),
            (''replay'', ReplayFileName), (''commands'', CommandsFileName), (''stdout'', StdoutFileName),
            (''stderr'', StderrFileName), (''context'', ContextFileName)]
         else files)"

definition read_order :: "string list" where
  "read_order = [''index'', ''results'', ''phases'', ''commands'', ''stdout'', ''stderr'', ''replay'',
     ''context'', ''environment'', ''setup_plan'', ''provider'', ''runtime'', ''backend_profile'',
     ''sandbox'', ''devcontainer'', ''endpoints'', ''machine'', ''container'']"

definition artifactIndexReadOrder :: "env \<Rightarrow> string list" where
  "artifactIndexReadOrder files = filter (\<lambda>key. env_get files key \<noteq> []) read_order"

definition buildArtifactIndex ::
  "run_result \<Rightarrow> execution_resolution \<Rightarrow> artifact_ref list \<Rightarrow> artifact_index" where
  "buildArtifactIndex r er refs =
     (let files = index_files refs in
      \<lparr>ai_schema_version = 1, ai_run_id = rr_run_id r, ai_attempt = rr_attempt r, ai_status = rr_status r,
       ai_phase = rr_phase r, ai_exit_code = rr_exit_code r, ai_command_class = rr_command_class r,
       ai_execution = er_config er, ai_compatibility_level = cr_level (er_compatibility er),
       ai_suggested_read_order = artifactIndexReadOrder files, ai_files = files, ai_artifacts = refs\<rparr>)"

end
