(* ===== verification/Platform.thy ===== *)
theory Platform
  imports Policy Executor Config_Defaults "HOL-Library.Word"
begin

unbundle bit_operations_syntax

text \<open>
  \<open>internal/platform/detect.go\<close>: the target the runner finds itself on, the effective Linux
  capabilities decoded from the 64-bit mask of \<open>/proc/self/status\<close>, and the feature gates that a
  configuration gets on that target. Reading files and asking Docker are parameters.
\<close>

section \<open>Linux capabilities\<close>

definition linuxCapabilityNames :: "string list" where
  "linuxCapabilityNames =
     [''cap_chown'', ''cap_dac_override'', ''cap_dac_read_search'', ''cap_fowner'', ''cap_fsetid'',
      ''cap_kill'', ''cap_setgid'', ''cap_setuid'', ''cap_setpcap'', ''cap_linux_immutable'',
      ''cap_net_bind_service'', ''cap_net_broadcast'', ''cap_net_admin'', ''cap_net_raw'', ''cap_ipc_lock'',
      ''cap_ipc_owner'', ''cap_sys_module'', ''cap_sys_rawio'', ''cap_sys_chroot'', ''cap_sys_ptrace'',
      ''cap_sys_pacct'', ''cap_sys_admin'', ''cap_sys_boot'', ''cap_sys_nice'', ''cap_sys_resource'',
      ''cap_sys_time'', ''cap_sys_tty_config'', ''cap_mknod'', ''cap_lease'', ''cap_audit_write'',
      ''cap_audit_control'', ''cap_setfcap'', ''cap_mac_override'', ''cap_mac_admin'', ''cap_syslog'',
      ''cap_wake_alarm'', ''cap_block_suspend'', ''cap_audit_read'', ''cap_perfmon'', ''cap_bpf'',
      ''cap_checkpoint_restore'']"

text \<open>
  \<open>strconv.ParseUint(s, 16, 64)\<close>: digits of either case; a digit that would push the value past 64
  bits is a range error, met before what follows is looked at.
\<close>

datatype parse_error = SyntaxError | RangeError

definition hex_value :: "char \<Rightarrow> nat option" where
  "hex_value c =
     (let n = of_char c :: nat in
      if is_digit c then Some (n - 48)
      else if 97 \<le> n \<and> n \<le> 102 then Some (n - 87)
      else if 65 \<le> n \<and> n \<le> 70 then Some (n - 55)
      else None)"

fun parse_hex_loop :: "nat \<Rightarrow> string \<Rightarrow> parse_error + nat" where
  "parse_hex_loop n [] = Inr n"
| "parse_hex_loop n (c # cs) =
     (case hex_value c of None \<Rightarrow> Inl SyntaxError
      | Some d \<Rightarrow> if 2 ^ 60 \<le> n then Inl RangeError else parse_hex_loop (n * 16 + d) cs)"

definition ParseUint16 :: "string \<Rightarrow> parse_error + 64 word" where
  "ParseUint16 s =
     (if s = [] then Inl SyntaxError
      else (case parse_hex_loop 0 s of Inl e \<Rightarrow> Inl e | Inr n \<Rightarrow> Inr (of_nat n)))"

definition num_error :: "string \<Rightarrow> parse_error \<Rightarrow> go_error" where
  "num_error s e = ErrorText (''strconv.ParseUint: parsing '' @ go_quote s @ '': ''
     @ (case e of SyntaxError \<Rightarrow> ''invalid syntax'' | RangeError \<Rightarrow> ''value out of range''))"

definition parseLinuxCapabilities :: "string \<Rightarrow> go_error + string list" where
  "parseLinuxCapabilities value =
     (case ParseUint16 (trim_space value) of
        Inl e \<Rightarrow> Inl (WrapError (''parse CapEff '' @ go_quote value @ '': '') (num_error (trim_space value) e))
      | Inr m \<Rightarrow> Inr (sort (map snd (filter (\<lambda>(i, name). m AND push_bit i 1 \<noteq> 0)
            (zip [0..<length linuxCapabilityNames] linuxCapabilityNames)))))"

section \<open>The machine\<close>

text \<open>
  \<open>pw_dockerenv\<close>: \<open>/.dockerenv\<close> exists; \<open>pw_cgroup\<close> and \<open>pw_status\<close>: the text of \<open>/proc/1/cgroup\<close> and
  \<open>/proc/self/status\<close>, \<open>None\<close> when it cannot be read; \<open>pw_docker\<close>: how running a command line within two seconds ends.
\<close>

record platform_world =
  pw_dockerenv :: bool
  pw_cgroup :: "string option"
  pw_status :: "string option"
  pw_docker :: "string list \<Rightarrow> go_error option"

definition dockerAvailable :: "platform_world \<Rightarrow> bool" where
  "dockerAvailable w \<longleftrightarrow> pw_docker w [''docker'', ''version'', ''--format'', ''{{.Server.Version}}''] = None"

definition inContainer :: "platform_world \<Rightarrow> bool" where
  "inContainer w \<longleftrightarrow> pw_dockerenv w \<or>
     (case pw_cgroup w of None \<Rightarrow> False
      | Some text \<Rightarrow> contains_sub text ''docker'' \<or> contains_sub text ''kubepods''
          \<or> contains_sub text ''containerd'')"

definition detectLinuxCapabilities :: "platform_world \<Rightarrow> string list" where
  "detectLinuxCapabilities w =
     (case pw_status w of None \<Rightarrow> []
      | Some data \<Rightarrow>
          (case find (\<lambda>line. has_prefix line ''CapEff:'') (split_on newline data) of None \<Rightarrow> []
           | Some line \<Rightarrow>
               (case parseLinuxCapabilities (trim_space (trim_prefix line ''CapEff:'')) of
                  Inl e \<Rightarrow> [] | Inr caps \<Rightarrow> caps)))"

definition platform_hasCapability :: "string list \<Rightarrow> string \<Rightarrow> bool" where
  "platform_hasCapability capabilities capability \<longleftrightarrow> (\<exists>item\<in>set capabilities. equal_fold item capability)"

definition Detect :: "host \<Rightarrow> platform_world \<Rightarrow> run_mode \<Rightarrow> execution_target \<Rightarrow> execution_target" where
  "Detect h w mode zero =
     zero\<lparr>tg_os := host_goos h, tg_arch := host_goarch h, tg_mode := mode,
       tg_in_container := inContainer w,
       tg_in_kubernetes := (os_getenv h ''KUBERNETES_SERVICE_HOST'' \<noteq> []),
       tg_docker_available := dockerAvailable w,
       tg_capabilities := (if host_goos h = ''linux'' then detectLinuxCapabilities w else [])\<rparr>"

section \<open>Feature gates\<close>

definition UnsupportedFeatureError :: "string \<Rightarrow> string \<Rightarrow> string \<Rightarrow> go_error" where
  "UnsupportedFeatureError feature platform remediation =
     ErrorText (''unsupported feature '' @ feature @ '' on '' @ platform @ '': '' @ remediation)"

definition localRestrictedMode :: "run_mode \<Rightarrow> bool" where
  "localRestrictedMode mode \<longleftrightarrow> mode \<in> {RunModeLocalDirect, RunModeLocalDevContainer,
     RunModeLocalAppleContainer, RunModeLocalOrbStackMachine}"

text \<open>
  \<open>ResolveFeatures\<close>. The feature set is returned with the error too.
\<close>

definition mode_gates :: "run_config \<Rightarrow> feature_set" where
  "mode_gates cfg =
     (let mode = plat_run_mode (cfg_platform cfg) in
      (plat_feature_gates (cfg_platform cfg))
        \<lparr>fs_local_direct_mode := (mode = RunModeLocalDirect),
         fs_local_docker_mode := (mode \<in> {RunModeLocalDocker, RunModeLocalOpenSandboxDocker}),
         fs_local_apple_container_mode := (mode = RunModeLocalAppleContainer),
         fs_local_orbstack_machine_mode := (mode = RunModeLocalOrbStackMachine),
         fs_stg_linux_mode := (mode \<in> {RunModeSTGLinux, RunModeSTGOpenSandboxK8s})\<rparr>)"

definition ResolveFeatures ::
  "run_config \<Rightarrow> execution_target \<Rightarrow> feature_set \<times> string list \<times> go_error option" where
  "ResolveFeatures cfg target =
     (let features = mode_gates cfg; go = cfg_go cfg;
          restricted = localRestrictedMode (plat_run_mode (cfg_platform cfg));
          linux = (tg_os target = ''linux'');
          bpf = platform_hasCapability (tg_capabilities target) ''cap_bpf''
      in if \<not> linux \<and> (fs_obi_ebpf features \<or> gc_obi_enabled go) then
           (features, [], Some (UnsupportedFeatureError ''features.obi_ebpf'' (tg_os target)
              ''switch to Linux Docker mode or stg_linux''))
         else (let
           features = (if \<not> linux then features\<lparr>fs_obi_ebpf := False, fs_go_autosdk_bridge := False\<rparr>
                       else features);
           features = (if linux \<and> \<not> bpf then features\<lparr>fs_obi_ebpf := False\<rparr> else features);
           warnings = (if linux \<and> \<not> bpf \<and> gc_obi_enabled go
             then [''obi_ebpf requested but CAP_BPF not available; feature disabled''] else []);
           features = (if restricted then features\<lparr>fs_obi_ebpf := False, fs_go_autosdk_bridge := False\<rparr>
                       else features);
           features = (if gc_manual_sdk_helper_enabled go then features\<lparr>fs_go_manual_sdk := True\<rparr>
                       else features);
           features = (if gc_autosdk_bridge_enabled go \<and> linux \<and> \<not> restricted
                       then features\<lparr>fs_go_autosdk_bridge := True\<rparr> else features);
           features = (if gc_obi_enabled go \<and> linux \<and> bpf \<and> \<not> restricted
                       then features\<lparr>fs_obi_ebpf := True\<rparr> else features)
         in (features, warnings, None)))"

text \<open>
  Before it returns, the code fills these fields of the target. The target is its own copy, so what is filled in
  is lost: the caller's target, which the doctor command prints, keeps them empty.
\<close>

definition platform_providerName :: "run_config \<Rightarrow> string" where
  "platform_providerName cfg =
     (let kind = bk_kind (cfg_backend cfg) in
      if ex_provider (cfg_execution cfg) \<noteq> [] then ex_provider (cfg_execution cfg)
      else if kind = BackendKindOpenSandbox then ''opensandbox''
      else if kind = BackendKindDevContainer then ''devcontainer''
      else if kind = BackendKindAppleContainer then ''native''
      else if kind = BackendKindDocker then
        (if dk_provider (cfg_docker cfg) = DockerProviderOrbStack then ''orbstack'' else ''native'')
      else if kind = BackendKindK8s then ExecutionProviderForK8sProvider (k8_provider (cfg_k8s cfg))
      else if kind = BackendKindOrbStackMachine then ''orbstack''
      else if kind = BackendKindDirect then ''native''
      else kind)"

definition platform_backendProvider :: "run_config \<Rightarrow> string" where
  "platform_backendProvider cfg =
     (let kind = bk_kind (cfg_backend cfg) in
      if ex_provider (cfg_execution cfg) \<noteq> [] then ex_provider (cfg_execution cfg)
      else if kind = BackendKindDirect then ''native''
      else if kind = BackendKindDocker then
        (if dk_provider (cfg_docker cfg) = DockerProviderOrbStack then ''orbstack'' else ''native'')
      else if kind = BackendKindK8s then ExecutionProviderForK8sProvider (k8_provider (cfg_k8s cfg))
      else if kind = BackendKindOrbStackMachine then ''orbstack''
      else kind)"

definition virtualizationForProfile :: "runtime_profile \<Rightarrow> string" where
  "virtualizationForProfile profile =
     (if profile = RuntimeProfileKata then ''kata''
      else if profile = RuntimeProfileGVisor then ''gvisor''
      else if profile = RuntimeProfileFirecracker then ''firecracker''
      else if profile = RuntimeProfileAppleContainer then ''apple-container''
      else if profile = RuntimeProfileOrbStackMachine then ''vm''
      else ''none'')"

definition lost_target :: "run_config \<Rightarrow> execution_target \<Rightarrow> execution_target" where
  "lost_target cfg target =
     (let kind = bk_kind (cfg_backend cfg); ex = cfg_execution cfg;
          target = target\<lparr>tg_backend_kind := kind\<rparr>;
          target = (if ex_backend ex \<noteq> [] then target\<lparr>tg_backend_kind := ex_backend ex, tg_provider_name := ex_provider ex,
              tg_backend_provider := ex_provider ex, tg_runtime_profile := ex_runtime_profile ex, tg_execution := ex\<rparr>
            else target\<lparr>tg_provider_name := platform_providerName cfg, tg_backend_provider := platform_backendProvider cfg,
              tg_runtime_profile := rt_profile (cfg_runtime cfg)\<rparr>);
          target = (if kind = BackendKindOpenSandbox then target\<lparr>tg_runtime_kind := osb_runtime (cfg_opensandbox cfg),
                tg_network_mode := osb_network_mode (cfg_opensandbox cfg)\<rparr>
            else if kind = BackendKindDevContainer then target\<lparr>tg_runtime_kind := ''devcontainer''\<rparr>
            else if kind = BackendKindAppleContainer then
              target\<lparr>tg_runtime_kind := ''apple-container'', tg_local_platform := ''macos''\<rparr>
            else if kind = BackendKindOrbStackMachine then target\<lparr>tg_runtime_kind := ''orbstack-machine'',
                tg_local_platform := ''orbstack'', tg_machine_name := orb_machine_name (cfg_orbstack cfg)\<rparr>
            else if kind = BackendKindDocker \<and> dk_provider (cfg_docker cfg) = DockerProviderOrbStack then
              target\<lparr>tg_local_platform := ''orbstack''\<rparr>
            else if kind = BackendKindK8s then target\<lparr>tg_local_platform := K8sLocalPlatform (k8_provider (cfg_k8s cfg))\<rparr>
            else target)
      in target\<lparr>tg_runtime_class_name := RuntimeClassNameForConfig cfg,
           tg_virtualization := virtualizationForProfile (rt_profile (cfg_runtime cfg))\<rparr>)"

definition KubeconfigPath :: "host \<Rightarrow> string \<Rightarrow> string" where
  "KubeconfigPath h explicit =
     (if explicit \<noteq> [] then explicit
      else if os_getenv h ''KUBECONFIG'' \<noteq> [] then os_getenv h ''KUBECONFIG''
      else (case user_home_dir h of None \<Rightarrow> [] | Some home \<Rightarrow> path_join [home, ''.kube'', ''config'']))"

section \<open>The capability mask\<close>

text \<open>The mask as the kernel prints it: sixteen hexadecimal digits, the highest first.\<close>

definition hex_mask :: "64 word \<Rightarrow> string" where
  "hex_mask m = map (\<lambda>i. hex_digit (unat m div 16 ^ i mod 16)) (rev [0..<16])"

lemma of_char_hex_digit:
  "d < 16 \<Longrightarrow> of_char (hex_digit d) = (if d < 10 then 48 + d else 87 + d :: nat)"
  by (simp add: hex_digit_def)

lemma hex_value_digit: "d < 16 \<Longrightarrow> hex_value (hex_digit d) = Some d"
  by (simp add: hex_value_def is_digit_def less_eq_char_def of_char_hex_digit)

lemma parse_hex_digits:
  "k \<le> 16 \<Longrightarrow> n < 16 ^ (16 - k) \<Longrightarrow>
   parse_hex_loop n (map (\<lambda>i. hex_digit (x div 16 ^ i mod 16)) (rev [0..<k]))
     = Inr (n * 16 ^ k + x mod 16 ^ k)"
proof (induction k arbitrary: n)
  case 0
  then show ?case by simp
next
  case (Suc k)
  from Suc.prems have k: "k < 16" by simp
  have "(16 :: nat) ^ (16 - Suc k) \<le> 16 ^ 15" by (rule power_increasing) auto
  also have "\<dots> = 2 ^ 60" by simp
  finally have small: "n < 2 ^ 60" using Suc.prems by linarith
  have "n * 16 + x div 16 ^ k mod 16 < 16 * 16 ^ (16 - Suc k)"
  proof -
    have "Suc n * 16 \<le> 16 ^ (16 - Suc k) * 16"
      using Suc.prems by (intro mult_le_mono1) simp
    then show ?thesis using mod_less_divisor [of 16 "x div 16 ^ k"] by simp
  qed
  also have "(16 :: nat) * 16 ^ (16 - Suc k) = 16 ^ (16 - k)"
    using k by (metis Suc_diff_Suc power_Suc)
  finally have bound: "n * 16 + x div 16 ^ k mod 16 < 16 ^ (16 - k)" .
  have "parse_hex_loop (n * 16 + x div 16 ^ k mod 16)
      (map (\<lambda>i. hex_digit (x div 16 ^ i mod 16)) (rev [0..<k]))
    = Inr ((n * 16 + x div 16 ^ k mod 16) * 16 ^ k + x mod 16 ^ k)"
    by (rule Suc.IH [OF _ bound]) (use k in simp)
  also have "(n * 16 + x div 16 ^ k mod 16) * 16 ^ k + x mod 16 ^ k = n * 16 ^ Suc k + x mod 16 ^ Suc k"
    using mod_mult2_eq [of x "16 ^ k" 16] by (simp add: algebra_simps)
  finally show ?case using small by (simp add: hex_value_digit)
qed

lemma ParseUint16_hex_mask: "ParseUint16 (hex_mask m) = Inr m"
proof -
  have "unat m < 2 ^ LENGTH(64)" by (rule unsigned_less)
  then have lt: "unat m < 16 ^ 16" by simp
  have "parse_hex_loop 0 (hex_mask m) = Inr (unat m)"
    using parse_hex_digits [of 16 0 "unat m"] lt by (simp add: hex_mask_def)
  moreover have "hex_mask m \<noteq> []" by (simp add: hex_mask_def upt_rec)
  ultimately show ?thesis by (simp add: ParseUint16_def)
qed

lemma hex_digit_not_space:
  assumes "d < 16" shows "\<not> is_space (hex_digit d)"
proof
  assume "is_space (hex_digit d)"
  then have "of_char (hex_digit d) < (48 :: nat)" by (auto simp: is_space_def)
  with assms show False by (simp add: of_char_hex_digit split: if_splits)
qed

lemma dropWhile_none: "(\<And>c. c \<in> set s \<Longrightarrow> \<not> p c) \<Longrightarrow> dropWhile p s = s"
  by (cases s) auto

lemma trim_space_free: "(\<And>c. c \<in> set s \<Longrightarrow> \<not> is_space c) \<Longrightarrow> trim_space s = s"
  using dropWhile_none [of s is_space] dropWhile_none [of "rev s" is_space]
  by (simp add: trim_space_def trim_left_def trim_right_def)

lemma trim_hex_mask: "trim_space (hex_mask m) = hex_mask m"
  by (rule trim_space_free) (auto simp: hex_mask_def hex_digit_not_space)

text \<open>
  Decoding the mask the kernel prints gives the names of exactly the capabilities whose bit is set,
  in ascending order, for every 64-bit mask; bits without a name are ignored.
\<close>

theorem capability_mask_decoded:
  "\<exists>caps. parseLinuxCapabilities (hex_mask m) = Inr caps \<and> sorted caps \<and>
     set caps = {linuxCapabilityNames ! i | i. i < length linuxCapabilityNames \<and> bit m i}"
proof -
  let ?sel = "map snd (filter (\<lambda>(i, name). m AND push_bit i 1 \<noteq> 0)
            (zip [0..<length linuxCapabilityNames] linuxCapabilityNames))"
  have "parseLinuxCapabilities (hex_mask m) = Inr (sort ?sel)"
    by (simp add: parseLinuxCapabilities_def trim_hex_mask ParseUint16_hex_mask)
  moreover have "set (sort ?sel)
      = {linuxCapabilityNames ! i | i. i < length linuxCapabilityNames \<and> bit m i}"
    unfolding bit_iff_and_push_bit_not_eq_0 [symmetric] by (force simp: set_zip)
  ultimately show ?thesis by auto
qed

section \<open>Feature gates are safe\<close>

lemma ResolveFeatures_ok:
  assumes "ResolveFeatures cfg target = (fs, ws, None)"
  shows "fs_obi_ebpf fs \<longrightarrow> tg_os target = ''linux''
      \<and> platform_hasCapability (tg_capabilities target) ''cap_bpf''
      \<and> \<not> localRestrictedMode (plat_run_mode (cfg_platform cfg))"
    and "fs_go_autosdk_bridge fs \<longrightarrow> tg_os target = ''linux''
      \<and> \<not> localRestrictedMode (plat_run_mode (cfg_platform cfg))"
  using assms unfolding ResolveFeatures_def Let_def
  by (auto split: if_splits)

text \<open>
  The eBPF instrumentation is switched on only on Linux, with CAP_BPF, outside the restricted local
  modes, and the SDK bridge only on Linux outside them, whatever gates the configuration sets; resolving
  fails exactly when eBPF is asked for on another operating system.
\<close>

theorem feature_gates_safe:
  "case ResolveFeatures cfg target of
     (fs, ws, None) \<Rightarrow>
       (fs_obi_ebpf fs \<longrightarrow> tg_os target = ''linux''
          \<and> platform_hasCapability (tg_capabilities target) ''cap_bpf''
          \<and> \<not> localRestrictedMode (plat_run_mode (cfg_platform cfg)))
       \<and> (fs_go_autosdk_bridge fs \<longrightarrow> tg_os target = ''linux''
          \<and> \<not> localRestrictedMode (plat_run_mode (cfg_platform cfg)))
       \<and> (tg_os target = ''linux''
          \<or> \<not> fs_obi_ebpf (plat_feature_gates (cfg_platform cfg)) \<and> \<not> gc_obi_enabled (cfg_go cfg))
   | (fs, ws, Some e) \<Rightarrow> tg_os target \<noteq> ''linux''
       \<and> (fs_obi_ebpf (plat_feature_gates (cfg_platform cfg)) \<or> gc_obi_enabled (cfg_go cfg))"
proof (cases "\<not> tg_os target = ''linux'' \<and> (fs_obi_ebpf (mode_gates cfg) \<or> gc_obi_enabled (cfg_go cfg))")
  case True
  moreover have "fs_obi_ebpf (mode_gates cfg) = fs_obi_ebpf (plat_feature_gates (cfg_platform cfg))"
    by (simp add: mode_gates_def Let_def)
  ultimately show ?thesis by (simp add: ResolveFeatures_def Let_def)
next
  case False
  then obtain fs ws where r: "ResolveFeatures cfg target = (fs, ws, None)"
    by (simp add: ResolveFeatures_def Let_def)
  moreover have "fs_obi_ebpf (mode_gates cfg) = fs_obi_ebpf (plat_feature_gates (cfg_platform cfg))"
    by (simp add: mode_gates_def Let_def)
  ultimately show ?thesis using False ResolveFeatures_ok [OF r] by simp
qed

lemma feature_gates_safe_witness:
  "\<not> fs_obi_ebpf (fst (ResolveFeatures DefaultRunConfig (zero_target\<lparr>tg_os := ''linux''\<rparr>)))"
proof -
  have restricted: "localRestrictedMode (plat_run_mode (cfg_platform DefaultRunConfig))" by code_simp
  show ?thesis
    using feature_gates_safe [where cfg = DefaultRunConfig and target = "zero_target\<lparr>tg_os := ''linux''\<rparr>"] restricted
    by (auto split: prod.splits option.splits)
qed

end
