(* ===== verification/Envsync.thy ===== *)
theory Envsync
  imports Policy
begin

text \<open>
  \<open>internal/envsync/planner.go\<close>: detecting the project in a workspace, the setup steps of the plan and
  the environment fingerprint. The file system, the digest and the version commands are the record
  \<open>workspace_world\<close>. \<open>hashFiles\<close> sorts the slice it is given, and that slice is also the plan's, so
  the plan comes back with its lock files sorted.
\<close>

record workspace_world =
  ww_exists :: "string \<Rightarrow> bool"
  ww_read :: "string \<Rightarrow> go_error + string"
  ww_sha256_hex :: "string \<Rightarrow> string"
  ww_combined_output :: "string list \<Rightarrow> string \<times> bool"
  ww_git_head :: "string \<Rightarrow> string option"
  ww_go_env :: "string \<Rightarrow> env option"
  ww_goos :: string
  ww_goarch :: string

section \<open>Detecting the project\<close>

definition project_candidates :: "(string \<times> string list) list" where
  "project_candidates =
     [(''node'', [''package.json'']),
      (''python'', [''requirements.txt'', ''pyproject.toml'', ''poetry.lock'']),
      (''java'', [''pom.xml'', ''build.gradle'']),
      (''go'', [''go.mod''])]"

definition present_files :: "workspace_world \<Rightarrow> string \<Rightarrow> string list \<Rightarrow> string list" where
  "present_files w dir names = filter (\<lambda>name. ww_exists w (path_join [dir, name])) names"

definition detectProject :: "workspace_world \<Rightarrow> string \<Rightarrow> string \<times> string list" where
  "detectProject w dir =
     (case find (\<lambda>(kind, names). present_files w dir names \<noteq> []) project_candidates of
        Some (kind, names) \<Rightarrow> (kind, present_files w dir names)
      | None \<Rightarrow> (''shell'', []))"

definition defaultSteps :: "workspace_world \<Rightarrow> string \<Rightarrow> string \<Rightarrow> setup_step list" where
  "defaultSteps w projectType dir =
     (let stp = (\<lambda>i c. \<lparr>step_id = i, step_cmd = c, step_note = []\<rparr>) in
      if projectType = ''python'' then
        [stp ''venv-create'' [''python'', ''-m'', ''venv'', ''.venv''],
         stp ''pip-install'' [path_join [''.venv'', ''bin'', ''pip''], ''install'', ''-r'', ''requirements.txt'']]
      else if projectType = ''node'' then
        (if ww_exists w (path_join [dir, ''pnpm-lock.yaml''])
         then [stp ''pnpm-install'' [''pnpm'', ''install'', ''--frozen-lockfile'']]
         else [stp ''npm-install'' [''npm'', ''install'']])
      else if projectType = ''java'' then
        [stp ''mvn-deps'' [''mvn'', ''-q'', ''-DskipTests'', ''dependency:resolve'']]
      else if projectType = ''go'' then [stp ''go-mod-download'' [''go'', ''mod'', ''download'']]
      else [])"

definition projectTypeRuntime :: "string \<Rightarrow> string" where
  "projectTypeRuntime t =
     (if t = ''python'' then ''python3'' else if t = ''node'' then ''node''
      else if t = ''java'' then ''java'' else if t = ''go'' then ''go'' else ''shell'')"

definition packageManagerFor :: "string \<Rightarrow> string" where
  "packageManagerFor t =
     (if t = ''python'' then ''pip'' else if t = ''node'' then ''npm''
      else if t = ''java'' then ''mvn'' else if t = ''go'' then ''go'' else ''shell'')"

definition versionCommandFor :: "string \<Rightarrow> string list" where
  "versionCommandFor t =
     (if t = ''python'' then [''python'', ''--version''] else if t = ''node'' then [''node'', ''--version'']
      else if t = ''java'' then [''java'', ''-version''] else if t = ''go'' then [''go'', ''version''] else [])"

definition packageManagerVersionCommand :: "string \<Rightarrow> string list" where
  "packageManagerVersionCommand t =
     (if t = ''python'' then [''pip'', ''--version''] else if t = ''node'' then [''npm'', ''--version'']
      else if t = ''java'' then [''mvn'', ''-version''] else if t = ''go'' then [''go'', ''version''] else [])"

section \<open>The fingerprint\<close>

text \<open>All output of a failing version command, the first line of a successful one.\<close>

definition commandVersion :: "workspace_world \<Rightarrow> string list \<Rightarrow> string" where
  "commandVersion w cmdline =
     (if cmdline = [] then []
      else (let (data, ok) = ww_combined_output w cmdline in
        if \<not> ok then trim_space data else trim_space (hd (split_on newline data))))"

definition gitSHA :: "workspace_world \<Rightarrow> string \<Rightarrow> string" where
  "gitSHA w dir = (case ww_git_head w dir of None \<Rightarrow> [] | Some data \<Rightarrow> trim_space data)"

definition goEnvSummary :: "workspace_world \<Rightarrow> string \<Rightarrow> env" where
  "goEnvSummary w dir = (case ww_go_env w dir of None \<Rightarrow> [] | Some m \<Rightarrow> m)"

fun hash_input :: "workspace_world \<Rightarrow> string \<Rightarrow> string list \<Rightarrow> go_error + string" where
  "hash_input w dir [] = Inr []"
| "hash_input w dir (name # names) =
     (case ww_read w (path_join [dir, name]) of
        Inl e \<Rightarrow> Inl e
      | Inr data \<Rightarrow> (case hash_input w dir names of Inl e \<Rightarrow> Inl e | Inr rest \<Rightarrow> Inr (name @ data @ rest)))"

text \<open>The hash and the slice as the caller sees it afterwards.\<close>

definition hashFiles :: "workspace_world \<Rightarrow> string \<Rightarrow> string list \<Rightarrow> (go_error + string) \<times> string list" where
  "hashFiles w dir lockfiles =
     (if lockfiles = [] then (Inr ''sha256:empty'', lockfiles)
      else (let lockfiles = sort lockfiles in
        (case hash_input w dir lockfiles of
           Inl e \<Rightarrow> (Inl e, lockfiles)
         | Inr d \<Rightarrow> (Inr (''sha256:'' @ ww_sha256_hex w d), lockfiles))))"

definition hashOne :: "workspace_world \<Rightarrow> string \<Rightarrow> go_error + string" where
  "hashOne w p =
     (case ww_read w p of Inl e \<Rightarrow> Inl e | Inr data \<Rightarrow> Inr (''sha256:'' @ ww_sha256_hex w data))"

definition lockfile_hashes :: "workspace_world \<Rightarrow> string \<Rightarrow> string list \<Rightarrow> env" where
  "lockfile_hashes w dir names =
     fold (\<lambda>name m. case hashOne w (path_join [dir, name]) of Inl e \<Rightarrow> m | Inr h \<Rightarrow> env_put name h m) names []"

definition zero_runtime_info :: runtime_info where
  "zero_runtime_info = \<lparr>ri_name = [], ri_version = [], ri_provider_kind = [], ri_backend_provider = [],
     ri_runtime_profile = [], ri_runtime_class_name = [], ri_container_runtime = [], ri_host_os = [],
     ri_host_arch = [], ri_virtualization = [], ri_local_platform = [], ri_machine_name = [],
     ri_container_id = [], ri_available = False, ri_checked_by = [], ri_detail = []\<rparr>"

definition zero_fingerprint :: environment_fingerprint where
  "zero_fingerprint = \<lparr>fp_os = [], fp_arch = [], fp_runtime = zero_runtime_info,
     fp_package_manager = zero_runtime_info, fp_git_sha = [], fp_workspace_hash = [],
     fp_lockfile_hashes = [], fp_go_env = []\<rparr>"

definition buildFingerprint ::
  "workspace_world \<Rightarrow> string \<Rightarrow> string \<Rightarrow> string list \<Rightarrow>
     environment_fingerprint \<times> go_error option \<times> string list" where
  "buildFingerprint w dir projectType lockfiles =
     (let (hash, lockfiles) = hashFiles w dir lockfiles in
      case hash of
        Inl e \<Rightarrow> (zero_fingerprint, Some e, lockfiles)
      | Inr workspaceHash \<Rightarrow>
          (let fp = \<lparr>fp_os = ww_goos w, fp_arch = ww_goarch w,
              fp_runtime = zero_runtime_info\<lparr>ri_name := projectType,
                ri_version := commandVersion w (versionCommandFor projectType)\<rparr>,
              fp_package_manager = zero_runtime_info\<lparr>ri_name := packageManagerFor projectType,
                ri_version := commandVersion w (packageManagerVersionCommand projectType)\<rparr>,
              fp_git_sha = gitSHA w dir, fp_workspace_hash = workspaceHash,
              fp_lockfile_hashes = lockfile_hashes w dir lockfiles, fp_go_env = []\<rparr>
           in (if projectType = ''go'' then fp\<lparr>fp_go_env := goEnvSummary w dir\<rparr> else fp, None, lockfiles)))"

definition Plan ::
  "workspace_world \<Rightarrow> string \<Rightarrow> setup_plan \<times> environment_fingerprint \<times> go_error option" where
  "Plan w dir =
     (let (projectType, lockfiles) = detectProject w dir;
          (fp, err, lockfiles) = buildFingerprint w dir projectType lockfiles
      in (\<lparr>plan_project_type = projectType, plan_runtime = projectTypeRuntime projectType,
           plan_lockfiles = lockfiles, plan_steps = defaultSteps w projectType dir\<rparr>, fp, err))"

section \<open>Properties\<close>

definition project_types :: "string set" where
  "project_types = {''node'', ''python'', ''java'', ''go'', ''shell''}"

lemma detectProject_cases:
  "detectProject w dir =
     (let present = (\<lambda>names. present_files w dir names) in
      if present [''package.json''] \<noteq> [] then (''node'', present [''package.json''])
      else if present [''requirements.txt'', ''pyproject.toml'', ''poetry.lock''] \<noteq> []
        then (''python'', present [''requirements.txt'', ''pyproject.toml'', ''poetry.lock''])
      else if present [''pom.xml'', ''build.gradle''] \<noteq> [] then (''java'', present [''pom.xml'', ''build.gradle''])
      else if present [''go.mod''] \<noteq> [] then (''go'', present [''go.mod''])
      else (''shell'', []))"
  by (simp add: detectProject_def project_candidates_def Let_def)

lemma hashFiles_slice: "snd (hashFiles w dir ls) = sort ls"
  by (simp add: hashFiles_def Let_def split: sum.splits)

lemma buildFingerprint_slice: "snd (snd (buildFingerprint w dir t ls)) = sort ls"
  using hashFiles_slice [of w dir ls]
  by (simp add: buildFingerprint_def split_beta Let_def split: sum.splits)

lemma Plan_fields:
  "plan_project_type (fst (Plan w dir)) = fst (detectProject w dir)"
  "plan_lockfiles (fst (Plan w dir)) = sort (snd (detectProject w dir))"
  "plan_steps (fst (Plan w dir)) = defaultSteps w (fst (detectProject w dir)) dir"
  using buildFingerprint_slice [of w dir "fst (detectProject w dir)" "snd (detectProject w dir)"]
  by (simp_all add: Plan_def split_beta Let_def)

text \<open>
  The plan lists, sorted, exactly the candidate files of the first project kind that has one in
  the workspace, every one of which exists there; it is a shell plan without steps exactly when no
  candidate of any kind exists.
\<close>

theorem Plan_reflects_workspace:
  "let plan = fst (Plan w dir) in
     plan_project_type plan \<in> project_types \<and>
     sorted (plan_lockfiles plan) \<and>
     set (plan_lockfiles plan) = {name. ww_exists w (path_join [dir, name]) \<and>
        (\<exists>names. (plan_project_type plan, names) \<in> set project_candidates \<and> name \<in> set names)} \<and>
     (plan_project_type plan = ''shell'' \<longleftrightarrow>
        {name. ww_exists w (path_join [dir, name])} \<inter> \<Union> (set ` snd ` set project_candidates) = {}) \<and>
     (plan_steps plan = [] \<longleftrightarrow> plan_project_type plan = ''shell'')"
proof -
  have lock: "set (snd (detectProject w dir)) = {name. ww_exists w (path_join [dir, name]) \<and>
        (\<exists>names. (fst (detectProject w dir), names) \<in> set project_candidates \<and> name \<in> set names)}"
    by (auto simp: detectProject_cases Let_def present_files_def project_candidates_def split: if_splits)
  have kind: "fst (detectProject w dir) \<in> project_types"
    by (simp add: detectProject_cases Let_def project_types_def)
  have shell: "fst (detectProject w dir) = ''shell'' \<longleftrightarrow>
        {name. ww_exists w (path_join [dir, name])} \<inter> \<Union> (set ` snd ` set project_candidates) = {}"
    by (auto simp: detectProject_cases Let_def present_files_def project_candidates_def filter_empty_conv split: if_splits)
  have steps: "defaultSteps w t dir = [] \<longleftrightarrow> t = ''shell''" if "t \<in> project_types" for t
    using that by (auto simp: defaultSteps_def project_types_def Let_def)
  from lock kind shell steps [OF kind] show ?thesis by (simp add: Plan_fields Let_def)
qed

text \<open>
  The shipped policy lets every step of every plan through, except the one step that a pnpm
  workspace needs: \<open>pnpm install\<close> is planned but its tool is not on the allow list, so the setup of
  such a workspace always fails under the defaults.
\<close>

theorem default_policy_against_plans:
  "{step_cmd st |st. st \<in> set (plan_steps (fst (Plan w dir))) \<and>
      CheckCommand shlex (NewEngine DefaultPolicyConfig run_cfg) PhaseSetup (step_cmd st) \<noteq> None} =
   (if plan_project_type (fst (Plan w dir)) = ''node'' \<and> ww_exists w (path_join [dir, ''pnpm-lock.yaml''])
    then {[''pnpm'', ''install'', ''--frozen-lockfile'']} else {})"
proof -
  let ?check = "CheckCommand shlex (NewEngine DefaultPolicyConfig run_cfg) PhaseSetup"
  have pnpm: "?check [''pnpm'', ''install'', ''--frozen-lockfile''] \<noteq> None" by code_simp
  have ok: "?check [''npm'', ''install''] = None"
    "?check [''python'', ''-m'', ''venv'', ''.venv''] = None"
    "?check [path_join [''.venv'', ''bin'', ''pip''], ''install'', ''-r'', ''requirements.txt''] = None"
    "?check [''mvn'', ''-q'', ''-DskipTests'', ''dependency:resolve''] = None"
    "?check [''go'', ''mod'', ''download''] = None"
    by code_simp+
  show ?thesis
    using pnpm ok by (auto simp: Plan_fields defaultSteps_def Let_def split: if_splits)
qed

end
