(* ===== verification/Engine_State.thy ===== *)
theory Engine_State
  imports Engine_Views Platform Envsync Config_Normalize
begin

text \<open>
  The state of a run (\<open>runState\<close> of \<open>internal/phase/engine.go\<close>), the world it acts on, and the steps
  its handlers are made of. Everything the engine does to the world is appended to \<open>st_trace\<close>, a
  history that the code does not keep; every answer of the world is a function of that history, so no
  two answers need be the same.

  A handler is a function from the state to an error or a value, and a new state. \<open>andThen\<close> runs a second
  step with the value of the first and stops at an error, which is how the code's early returns are
  written.
\<close>

section \<open>Actions\<close>

text \<open>The record that \<open>recordCommand\<close> appends to \<open>commands.jsonl\<close>.\<close>

record command_record =
  cmd_phase :: phase
  cmd_command :: "string list"
  cmd_class :: string
  cmd_exit_code :: int
  cmd_timed_out :: bool
  cmd_signal :: string
  cmd_target :: execution_target
  cmd_execution :: execution_config
  cmd_level :: support_level
  cmd_metadata :: "(string \<times> exec_meta) list"

datatype action =
    AProbe execution_config
  | AMkdir string
  | AWrite document "go_error option"
  | AAppendCommand command_record
  | AAppendLog structured_log
  | ABootstrap run_config
  | ANewEmitter
  | AStartRun
  | AStartPhase phase
  | AEndPhase phase phase_result
  | AEndRun run_result
  | AEvent run_event
  | AMetric metric_point
  | AEmitLog structured_log
  | ACapabilities
  | ARuntimeInfo
  | ACreate create_sandbox_request "go_error + sandbox_info"
  | AStart string
  | ASyncIn string string
  | ASyncOut string string string
  | AMetadata string
  | AEndpoints string
  | ADevContainer string
  | ADownload string string string
  | APause string
  | ADelete string
  | APlan string
  | ANewExecutor
  | AExec executor exec_spec exec_result "go_error option"
  | AStat string
  | AWalk string
  | AUpload "artifact_ref list"
  | ACloseWriter
  | AShutdownCollector

type_synonym trace = "action list"

text \<open>\<open>BootstrapResult\<close> of the collector; \<open>bsr_process\<close> says that a collector process was started.\<close>

record bootstrap_result =
  bsr_enabled :: bool
  bsr_using_jsonl :: bool
  bsr_warnings :: "string list"
  bsr_process :: bool

record engine_world =
  ew_host :: host
  ew_run_id :: string
  ew_shlex :: "string \<Rightarrow> string list option"
  ew_platform :: platform_world
  ew_probe :: "trace \<Rightarrow> execution_config \<Rightarrow> run_config \<Rightarrow> go_error + capability_probe_result"
  ew_mkdir :: "trace \<Rightarrow> string \<Rightarrow> go_error option"
  ew_write :: "trace \<Rightarrow> string \<Rightarrow> document \<Rightarrow> go_error option"
  ew_bootstrap :: "trace \<Rightarrow> run_config \<Rightarrow> go_error + bootstrap_result"
  ew_new_emitter :: "trace \<Rightarrow> run_config \<Rightarrow> bool \<Rightarrow> go_error option"
  ew_start_run :: "trace \<Rightarrow> go_error option"
  ew_backends :: "trace backend_constructors"
  ew_workspace :: "trace \<Rightarrow> workspace_world"
  ew_docker_new :: "trace \<Rightarrow> run_config \<Rightarrow> go_error option"
  ew_exec :: "trace \<Rightarrow> exec_world"
  ew_stat :: "trace \<Rightarrow> string \<Rightarrow> bool"
  ew_walk :: "trace \<Rightarrow> string \<Rightarrow> go_error + (string \<times> int) list"
  ew_s3 :: "trace \<Rightarrow> s3_upload"

section \<open>The state of a run\<close>

record run_state =
  st_req :: run_request
  st_writer :: "writer option"
  st_emitter :: bool
  st_executor :: "executor option"
  st_backend :: "trace sandbox_backend option"
  st_caps :: backend_capabilities
  st_runtime_info :: runtime_info
  st_sandbox :: sandbox_info
  st_devcontainer :: "devcontainer_artifact option"
  st_policy :: policy_engine
  st_collector :: bootstrap_result
  st_phase_results :: "phase_result list"
  st_result :: run_result
  st_setup_plan :: setup_plan
  st_environment :: environment_fingerprint
  st_command_class :: string
  st_target :: execution_target
  st_resolution :: execution_resolution
  st_trace :: trace

definition zero_resolution :: execution_resolution where
  "zero_resolution = \<lparr>er_config = \<lparr>ex_backend = [], ex_provider = [], ex_runtime_profile = []\<rparr>,
     er_compatibility = \<lparr>cr_level = SupportUnset, cr_matched_rule = [], cr_message = []\<rparr>,
     er_capability = \<lparr>pr_ok = False, pr_details = [], pr_warnings = [], pr_errors = []\<rparr>\<rparr>"

text \<open>The result that \<open>Run\<close> starts with. Its phase is empty.\<close>

definition initial_result :: run_result where
  "initial_result = \<lparr>rr_run_id = [], rr_attempt = 0, rr_status = StatusCreated, rr_phase = PhaseOther [],
     rr_backend_kind = [], rr_provider_name = [], rr_backend_provider = [], rr_runtime_profile = [],
     rr_runtime_class_name = [], rr_machine_name = [], rr_sandbox_image = [], rr_command_class = [],
     rr_exit_code = 0, rr_signal = [], rr_timed_out = False, rr_duration_ms = 0, rr_error_code = [],
     rr_error_message = [], rr_phase_results = [], rr_artifacts = [], rr_metadata = []\<rparr>"

definition initial_state :: "run_request \<Rightarrow> run_state" where
  "initial_state req =
     \<lparr>st_req = req, st_writer = None, st_emitter = False, st_executor = None, st_backend = None,
      st_caps = zero_caps, st_runtime_info = zero_runtime_info, st_sandbox = zero_sandbox_info,
      st_devcontainer = None, st_policy = NewEngine zero_policy_config zero_run_config,
      st_collector = \<lparr>bsr_enabled = False, bsr_using_jsonl = False, bsr_warnings = [], bsr_process = False\<rparr>,
      st_phase_results = [], st_result = initial_result,
      st_setup_plan = \<lparr>plan_project_type = [], plan_runtime = [], plan_lockfiles = [], plan_steps = []\<rparr>,
      st_environment = zero_fingerprint, st_command_class = [], st_target = zero_target,
      st_resolution = zero_resolution, st_trace = []\<rparr>"

abbreviation st_cfg :: "run_state \<Rightarrow> run_config" where
  "st_cfg s \<equiv> rq_run_config (st_req s)"

section \<open>Steps\<close>

type_synonym 'a step = "run_state \<Rightarrow> (go_error + 'a) \<times> run_state"

definition ret :: "'a \<Rightarrow> 'a step" where
  "ret x = (\<lambda>s. (Inr x, s))"

definition throw :: "go_error \<Rightarrow> 'a step" where
  "throw e = (\<lambda>s. (Inl e, s))"

definition andThen :: "'a step \<Rightarrow> ('a \<Rightarrow> 'b step) \<Rightarrow> 'b step" where
  "andThen m k = (\<lambda>s. case m s of (Inl e, s') \<Rightarrow> (Inl e, s') | (Inr x, s') \<Rightarrow> k x s')"

definition with_state :: "(run_state \<Rightarrow> 'a step) \<Rightarrow> 'a step" where
  "with_state f = (\<lambda>s. f s s)"

definition modify :: "(run_state \<Rightarrow> run_state) \<Rightarrow> unit step" where
  "modify f = (\<lambda>s. (Inr (), f s))"

definition block :: "unit step list \<Rightarrow> unit step" where
  "block ms = foldr (\<lambda>m k. andThen m (\<lambda>_. k)) ms (ret ())"

text \<open>\<open>if err := m; err == nil { if err := ... } else { h }\<close>: a step whose error is handled.\<close>

definition catch_error :: "'a step \<Rightarrow> (go_error \<Rightarrow> 'a step) \<Rightarrow> 'a step" where
  "catch_error m h = (\<lambda>s. case m s of (Inl e, s') \<Rightarrow> h e s' | (Inr x, s') \<Rightarrow> (Inr x, s'))"

text \<open>
  Asking the world: the answer is computed from the history, and the action, which may hold the answer,
  is appended.
\<close>

definition perform :: "(trace \<Rightarrow> 'a) \<Rightarrow> ('a \<Rightarrow> action) \<Rightarrow> 'a step" where
  "perform f act = (\<lambda>s. let x = f (st_trace s) in (Inr x, s\<lparr>st_trace := st_trace s @ [act x]\<rparr>))"

definition note_action :: "action \<Rightarrow> unit step" where
  "note_action a = modify (\<lambda>s. s\<lparr>st_trace := st_trace s @ [a]\<rparr>)"

section \<open>Telemetry\<close>

text \<open>Only called with an emitter, or its methods do nothing that matters without one.\<close>

definition emit_event :: "string \<Rightarrow> phase \<Rightarrow> env \<Rightarrow> unit step" where
  "emit_event name ph attrs = note_action (AEvent \<lparr>ev_name = name, ev_phase = ph, ev_command_class = [],
     ev_attributes = attrs\<rparr>)"

definition if_emitter :: "unit step \<Rightarrow> unit step" where
  "if_emitter m = with_state (\<lambda>s. if st_emitter s then m else ret ())"

definition startPhase :: "phase \<Rightarrow> unit step" where
  "startPhase ph = if_emitter (note_action (AStartPhase ph))"

definition endPhase :: "phase \<Rightarrow> phase_result \<Rightarrow> unit step" where
  "endPhase ph r = if_emitter (note_action (AEndPhase ph r))"

section \<open>Phase results\<close>

definition blank_phase :: "phase \<Rightarrow> run_status \<Rightarrow> phase_result" where
  "blank_phase ph status = \<lparr>phr_phase = ph, phr_status = status, phr_backend_action = [],
     phr_duration_ms = 0, phr_error_code = [], phr_error_message = [], phr_command_class = [],
     phr_exit_code = 0, phr_timed_out = False, phr_signal = [], phr_metadata = []\<rparr>"

definition successPhase :: "phase \<Rightarrow> metadata \<Rightarrow> phase_result" where
  "successPhase ph metadata = (blank_phase ph StatusSucceeded)\<lparr>phr_metadata := metadata\<rparr>"

definition successPhaseWithExec :: "phase \<Rightarrow> string \<Rightarrow> exec_result \<Rightarrow> phase_result" where
  "successPhaseWithExec ph commandClass result =
     (blank_phase ph StatusSucceeded)\<lparr>phr_command_class := commandClass,
        phr_exit_code := xres_exit_code result, phr_signal := xres_signal result,
        phr_timed_out := xres_timed_out result,
        phr_metadata := [(''stdout_lines'', MetaInt (xres_stdout_lines result)),
          (''stderr_lines'', MetaInt (xres_stderr_lines result)),
          (''target'', MetaTarget (xres_target result))]\<rparr>"

definition failed_phase ::
  "phase \<Rightarrow> run_status \<Rightarrow> error_code \<Rightarrow> go_error \<Rightarrow> exec_result \<Rightarrow> string \<Rightarrow> phase_result" where
  "failed_phase ph status code err result commandClass =
     (blank_phase ph status)\<lparr>phr_error_code := code, phr_error_message := error_string err,
        phr_exit_code := xres_exit_code result, phr_timed_out := xres_timed_out result,
        phr_signal := xres_signal result, phr_command_class := commandClass\<rparr>"

definition set_result :: "(run_result \<Rightarrow> run_result) \<Rightarrow> unit step" where
  "set_result f = modify (\<lambda>s. s\<lparr>st_result := f (st_result s)\<rparr>)"

definition set_meta :: "string \<Rightarrow> meta_value \<Rightarrow> unit step" where
  "set_meta k v = set_result (\<lambda>r. r\<lparr>rr_metadata := AList.update k v (rr_metadata r)\<rparr>)"

definition add_phase_result :: "phase_result \<Rightarrow> unit step" where
  "add_phase_result r = modify (\<lambda>s. s\<lparr>st_phase_results := st_phase_results s @ [r]\<rparr>)"

text \<open>
  \<open>failWithoutArtifacts\<close> and \<open>failPhaseWithStatus\<close>. Every caller passes an error that is not nil, so
  both end in it.
\<close>

definition failWithoutArtifacts :: "phase \<Rightarrow> error_code \<Rightarrow> go_error \<Rightarrow> 'a step" where
  "failWithoutArtifacts ph code err =
     andThen (set_result (\<lambda>r. r\<lparr>rr_status := StatusFailed, rr_phase := ph,
          rr_error_code := errorCodeForErr code err, rr_error_message := error_string err\<rparr>))
       (\<lambda>_. throw err)"

definition failPhaseWithStatus ::
  "phase \<Rightarrow> error_code \<Rightarrow> go_error \<Rightarrow> run_status \<Rightarrow> exec_result \<Rightarrow> 'a step" where
  "failPhaseWithStatus ph code err status result = with_state (\<lambda>s.
     let code = errorCodeForErr code err;
         r = failed_phase ph status code err result (st_command_class s)
     in andThen (block
       [add_phase_result r,
        set_result (\<lambda>x. x\<lparr>rr_status := status, rr_phase := ph, rr_error_code := code,
          rr_error_message := error_string err, rr_exit_code := xres_exit_code result,
          rr_timed_out := xres_timed_out result, rr_signal := xres_signal result\<rparr>),
        if_emitter (block
          [emit_event ''phase.error'' ph [(''error_code'', code)],
           note_action (AEndPhase ph r)])])
      (\<lambda>_. throw err))"

definition failPhase :: "phase \<Rightarrow> error_code \<Rightarrow> go_error \<Rightarrow> 'a step" where
  "failPhase ph code err = failPhaseWithStatus ph code err StatusFailed zero_exec_result"

text \<open>\<open>if err != nil { return e.failPhase(...) }\<close> after a call that gives an error, or a value and an error.\<close>

definition check :: "phase \<Rightarrow> error_code \<Rightarrow> go_error option \<Rightarrow> unit step" where
  "check ph code err = (case err of None \<Rightarrow> ret () | Some e \<Rightarrow> failPhase ph code e)"

definition need :: "phase \<Rightarrow> error_code \<Rightarrow> go_error + 'a \<Rightarrow> 'a step" where
  "need ph code r = (case r of Inr x \<Rightarrow> ret x | Inl e \<Rightarrow> failPhase ph code e)"

definition need_early :: "phase \<Rightarrow> error_code \<Rightarrow> go_error + 'a \<Rightarrow> 'a step" where
  "need_early ph code r = (case r of Inr x \<Rightarrow> ret x | Inl e \<Rightarrow> failWithoutArtifacts ph code e)"

definition check_early :: "phase \<Rightarrow> error_code \<Rightarrow> go_error option \<Rightarrow> unit step" where
  "check_early ph code err = (case err of None \<Rightarrow> ret () | Some e \<Rightarrow> failWithoutArtifacts ph code e)"

section \<open>Documents and commands\<close>

text \<open>\<open>state.writer.Write...\<close>; the methods are only reached with a writer.\<close>

definition write_document :: "engine_world \<Rightarrow> document \<Rightarrow> go_error option step" where
  "write_document w d = with_state (\<lambda>s.
     case st_writer s of
       None \<Rightarrow> ret None
     | Some wr \<Rightarrow> perform (\<lambda>tr. ew_write w tr (document_path wr d) d) (AWrite d))"

definition write_ignoring :: "engine_world \<Rightarrow> document \<Rightarrow> unit step" where
  "write_ignoring w d = andThen (write_document w d) (\<lambda>_. ret ())"

definition write_checked :: "engine_world \<Rightarrow> phase \<Rightarrow> error_code \<Rightarrow> document \<Rightarrow> unit step" where
  "write_checked w ph code d = andThen (write_document w d) (check ph code)"

definition command_record_of ::
  "(string \<Rightarrow> string list option) \<Rightarrow> execution_resolution \<Rightarrow> phase \<Rightarrow> string list \<Rightarrow> exec_result \<Rightarrow> command_record" where
  "command_record_of shlex er ph command result =
     \<lparr>cmd_phase = ph, cmd_command = command, cmd_class = ClassifyCommand shlex command,
      cmd_exit_code = xres_exit_code result, cmd_timed_out = xres_timed_out result,
      cmd_signal = xres_signal result, cmd_target = xres_target result,
      cmd_execution = er_config er, cmd_level = cr_level (er_compatibility er),
      cmd_metadata = xres_metadata result\<rparr>"

definition recordCommand :: "engine_world \<Rightarrow> phase \<Rightarrow> string list \<Rightarrow> exec_result \<Rightarrow> unit step" where
  "recordCommand w ph command result = with_state (\<lambda>s. block
     [if st_writer s \<noteq> None
      then note_action (AAppendCommand (command_record_of (ew_shlex w) (st_resolution s) ph command result))
      else ret (),
      if_emitter (note_action (AMetric \<lparr>mp_name = ''sandbox_command_duration_ms'', mp_kind = ''histogram'',
        mp_value = 0,
        mp_attributes = [(''phase'', phase_name ph), (''command_class'', ClassifyCommand (ew_shlex w) command),
          (''sandbox.runtime.profile'', ri_runtime_profile (st_runtime_info s))]\<rparr>))])"

text \<open>\<open>logHandler.OnLog\<close> for one log entry; only the two standard streams go to a file.\<close>

fun support_level_name :: "support_level \<Rightarrow> string" where
  "support_level_name SupportUnset = []"
| "support_level_name SupportSupported = ''supported''"
| "support_level_name SupportConditional = ''conditional''"
| "support_level_name SupportUnsupported = ''unsupported''"

definition engine_log :: "execution_resolution \<Rightarrow> structured_log \<Rightarrow> structured_log" where
  "engine_log er log = log\<lparr>log_attributes :=
     env_put ''execution.compatibility_level'' (support_level_name (cr_level (er_compatibility er)))
      (env_put ''execution.runtime_profile'' (ex_runtime_profile (er_config er))
        (env_put ''execution.provider'' (ex_provider (er_config er))
          (env_put ''execution.backend'' (ex_backend (er_config er)) (log_attributes log))))\<rparr>"

definition OnLog :: "structured_log \<Rightarrow> unit step" where
  "OnLog log = with_state (\<lambda>s. let log = engine_log (st_resolution s) log in block
     [if_emitter (note_action (AEmitLog log)),
      if log_stream log = ''stdout'' \<or> log_stream log = ''stderr'' then note_action (AAppendLog log) else ret ()])"

text \<open>
  \<open>execImpl.Run\<close>: the command runs, then its log lines reach the handler. In the code the lines arrive
  while it runs, from one goroutine per stream; only their order within a stream is kept, and here the
  handler sees them in one such order.
\<close>

definition run_executor ::
  "engine_world \<Rightarrow> executor \<Rightarrow> exec_spec \<Rightarrow> (exec_result \<times> go_error option) step" where
  "run_executor w ex spec =
     andThen (perform (\<lambda>tr. executor_Run (ew_host w) (ew_exec w tr) ex spec)
         (\<lambda>(res, err, logs). AExec ex spec res err))
       (\<lambda>(res, err, logs). andThen (block (map OnLog logs)) (\<lambda>_. ret (res, err)))"

end
