(* ===== verification/Engine_Prepare.thy ===== *)
theory Engine_Prepare
  imports Engine_State
begin

text \<open>
  \<open>Engine.runPrepare\<close> of \<open>internal/phase/engine.go\<close>, in the order of the code, cut into blocks:
  resolving the configuration, describing the target, opening the
  artifact directory, telemetry, the backend, the sandbox, the documents, the result. The local variable
  \<open>cfg\<close> of the code is the argument that the blocks hand on; the request in the state is assigned where
  the code assigns it.
\<close>

section \<open>Resolving the configuration\<close>

text \<open>\<open>filepath.Abs\<close> fails only when the working directory cannot be read; the text is the system's.\<close>

definition abs_path :: "engine_world \<Rightarrow> string \<Rightarrow> go_error + string" where
  "abs_path w p = (case path_abs (ew_host w) p of None \<Rightarrow> Inl (ErrorText ''getwd failed'') | Some q \<Rightarrow> Inr q)"

definition identified :: "engine_world \<Rightarrow> run_config \<Rightarrow> run_config" where
  "identified w cfg =
     (let run = cfg_run cfg;
          run = (if rs_run_id run = [] then run\<lparr>rs_run_id := ew_run_id w\<rparr> else run);
          run = (if rs_attempt run \<le> 0 then run\<lparr>rs_attempt := 1\<rparr> else run)
      in cfg\<lparr>cfg_run := run\<rparr>)"

definition with_dirs :: "run_config \<Rightarrow> string \<Rightarrow> string \<Rightarrow> run_config" where
  "with_dirs cfg workspace artifactDir =
     cfg\<lparr>cfg_run := (cfg_run cfg)\<lparr>rs_workspace_dir := workspace, rs_artifact_dir := artifactDir\<rparr>\<rparr>"

definition with_execution_metadata :: "run_config \<Rightarrow> support_level \<Rightarrow> run_config" where
  "with_execution_metadata cfg level = cfg\<lparr>cfg_metadata :=
     env_put ''execution.compatibility_level'' (support_level_name level)
      (env_put ''execution.runtime_profile'' (ex_runtime_profile (cfg_execution cfg))
        (env_put ''execution.provider'' (ex_provider (cfg_execution cfg))
          (env_put ''execution.backend'' (ex_backend (cfg_execution cfg)) (cfg_metadata cfg))))\<rparr>"

definition set_run_config :: "run_config \<Rightarrow> unit step" where
  "set_run_config cfg = modify (\<lambda>s. s\<lparr>st_req := (st_req s)\<lparr>rq_run_config := cfg\<rparr>\<rparr>)"

definition unsupported_combo :: "run_config \<Rightarrow> compatibility_result \<Rightarrow> go_error" where
  "unsupported_combo cfg c = RunnerError ErrorCodeUnsupportedExecutionCombo (cr_message c) False []
     (ex_backend (cfg_execution cfg)) [] None"

definition prepare_resolve :: "engine_world \<Rightarrow> run_config step" where
  "prepare_resolve w = with_state (\<lambda>s.
     let cfg = identified w (NormalizeRunConfig (ew_host w) (st_cfg s)) in
     andThen (need_early PhasePrepare ErrorCodeConfigInvalid
       (abs_path w (rs_workspace_dir (cfg_run cfg)))) (\<lambda>workspace.
     andThen (need_early PhasePrepare ErrorCodeConfigInvalid
       (abs_path w (rs_artifact_dir (cfg_run cfg)))) (\<lambda>artifactDir.
     let cfg = with_dirs cfg workspace artifactDir;
         compatibility = ValidateCompatibility (cfg_execution cfg) in
     if cr_level compatibility = SupportUnsupported then
       failWithoutArtifacts PhasePrepare ErrorCodeUnsupportedExecutionCombo
         (unsupported_combo cfg compatibility)
     else
       andThen (perform (\<lambda>tr. ew_probe w tr (cfg_execution cfg) cfg) (\<lambda>_. AProbe (cfg_execution cfg))) (\<lambda>probe.
       andThen (need_early PhasePrepare ErrorCodeCapabilityProbeFailed probe) (\<lambda>capability.
       let resolution = \<lparr>er_config = cfg_execution cfg, er_compatibility = compatibility,
                          er_capability = capability\<rparr>;
           cfg = with_execution_metadata cfg (cr_level compatibility) in
       andThen (block
         [modify (\<lambda>s. s\<lparr>st_resolution := resolution\<rparr>),
          set_run_config cfg]) (\<lambda>_. ret cfg))))))"

section \<open>The target and the feature gates\<close>

definition target_for :: "engine_world \<Rightarrow> run_config \<Rightarrow> support_level \<Rightarrow> execution_target" where
  "target_for w cfg level =
     (let kind = bk_kind (cfg_backend cfg); ex = cfg_execution cfg;
          t = Detect (ew_host w) (ew_platform w) (plat_run_mode (cfg_platform cfg)) zero_target;
          t = t\<lparr>tg_backend_kind := ex_backend ex, tg_provider_name := ex_provider ex,
                 tg_backend_provider := ex_provider ex, tg_runtime_profile := ex_runtime_profile ex,
                 tg_runtime_class_name := kata_runtime_class_name (cfg_kata cfg),
                 tg_virtualization := virtualizationForRuntime (rt_profile (cfg_runtime cfg)),
                 tg_runtime_kind := runtimeKindForConfig cfg,
                 tg_local_platform := localPlatformForConfig cfg,
                 tg_container_image := sandboxImage cfg, tg_execution := ex,
                 tg_compatibility_level := level\<rparr>;
          t = (if kind = BackendKindOpenSandbox
               then t\<lparr>tg_network_mode := osb_network_mode (cfg_opensandbox cfg)\<rparr> else t)
      in if kind = BackendKindOrbStackMachine
         then t\<lparr>tg_machine_name := orb_machine_name (cfg_orbstack cfg)\<rparr> else t)"

definition with_features :: "run_config \<Rightarrow> feature_set \<Rightarrow> run_config" where
  "with_features cfg features =
     cfg\<lparr>cfg_platform := (cfg_platform cfg)\<lparr>plat_feature_gates := features\<rparr>\<rparr>"

definition prepare_target :: "engine_world \<Rightarrow> run_config \<Rightarrow> (run_config \<times> string list) step" where
  "prepare_target w cfg = with_state (\<lambda>s.
     let target = target_for w cfg (cr_level (er_compatibility (st_resolution s))) in
     andThen (modify (\<lambda>s. s\<lparr>st_target := target\<rparr>)) (\<lambda>_.
     let (features, warnings, err) = ResolveFeatures cfg target; cfg = with_features cfg features in
     andThen (check_early PhasePrepare ErrorCodeConfigInvalid err) (\<lambda>_.
     andThen (set_run_config cfg) (\<lambda>_. ret (cfg, warnings)))))"

section \<open>The artifact directory and the policy\<close>

definition prepare_writer :: "engine_world \<Rightarrow> run_config \<Rightarrow> unit step" where
  "prepare_writer w cfg =
     (let artifactDir = rs_artifact_dir (cfg_run cfg); workspace = rs_workspace_dir (cfg_run cfg) in
     with_state (\<lambda>s. let policy = rq_policy (st_req s) in
     andThen (perform (\<lambda>tr. ew_mkdir w tr artifactDir) (\<lambda>_. AMkdir artifactDir)) (\<lambda>err.
     andThen (check_early PhasePrepare ErrorCodeConfigInvalid err) (\<lambda>_.
     andThen (perform (\<lambda>tr. NewWriter (ew_mkdir w tr) artifactDir (rp_max_artifact_bytes (pol_resources policy)))
       (\<lambda>_. AMkdir (path_join [artifactDir, ArtifactsDirName]))) (\<lambda>r.
     andThen (need_early PhasePrepare ErrorCodeConfigInvalid r) (\<lambda>writer.
     andThen (modify (\<lambda>s. s\<lparr>st_writer := Some writer, st_policy := NewEngine policy cfg\<rparr>)) (\<lambda>_.
     block
       [check PhasePrepare ErrorCodePolicyFSDeny
          (CheckPathRead (NewEngine policy cfg) PhasePrepare workspace),
        check PhasePrepare ErrorCodePolicyFSDeny
          (CheckPathWrite (NewEngine policy cfg) PhasePrepare artifactDir)])))))))"

section \<open>Telemetry\<close>

definition prepare_telemetry :: "engine_world \<Rightarrow> run_config \<Rightarrow> unit step" where
  "prepare_telemetry w cfg =
     andThen (perform (\<lambda>tr. ew_bootstrap w tr cfg) (\<lambda>_. ABootstrap cfg)) (\<lambda>r.
     andThen (need PhasePrepare ErrorCodeCollectorUnavailable r) (\<lambda>bootstrap.
     andThen (block
       [modify (\<lambda>s. s\<lparr>st_collector := bootstrap\<rparr>),
        set_meta ''collector_warnings'' (MetaStrings (bsr_warnings bootstrap))]) (\<lambda>_.
     andThen (perform (\<lambda>tr. ew_new_emitter w tr cfg (bsr_enabled bootstrap)) (\<lambda>_. ANewEmitter)) (\<lambda>err.
     andThen (check PhasePrepare ErrorCodeCollectorUnavailable err) (\<lambda>_.
     andThen (modify (\<lambda>s. s\<lparr>st_emitter := True\<rparr>)) (\<lambda>_.
     andThen (perform (\<lambda>tr. ew_start_run w tr) (\<lambda>_. AStartRun)) (\<lambda>err.
     andThen (check PhasePrepare ErrorCodeCollectorUnavailable err) (\<lambda>_.
     startPhase PhasePrepare))))))))"

section \<open>The backend\<close>

definition note_backend :: "run_config \<Rightarrow> backend_capabilities \<Rightarrow> unit step" where
  "note_backend cfg caps = block
     [modify (\<lambda>s. s\<lparr>st_caps := caps\<rparr>),
      set_result (\<lambda>r. r\<lparr>rr_backend_kind := ex_backend (cfg_execution cfg),
        rr_provider_name := ex_provider (cfg_execution cfg),
        rr_backend_provider := ex_provider (cfg_execution cfg), rr_sandbox_image := sandboxImage cfg\<rparr>)]"

definition note_runtime :: "run_config \<Rightarrow> backend_capabilities \<Rightarrow> runtime_info \<Rightarrow> unit step" where
  "note_runtime cfg caps ri = with_state (\<lambda>s. block
     [modify (\<lambda>s. s\<lparr>st_runtime_info := ri\<rparr>),
      set_result (\<lambda>r. r\<lparr>rr_runtime_profile := ex_runtime_profile (cfg_execution cfg),
        rr_runtime_class_name := ri_runtime_class_name ri,
        rr_machine_name := first_non_empty [ri_machine_name ri, orb_machine_name (cfg_orbstack cfg)]\<rparr>),
      modify (\<lambda>s. let t = st_target s in s\<lparr>st_target :=
        t\<lparr>tg_runtime_class_name := ri_runtime_class_name ri,
          tg_virtualization := (if ri_virtualization ri \<noteq> [] then ri_virtualization ri else tg_virtualization t),
          tg_local_platform := first_non_empty [ri_local_platform ri, tg_local_platform t],
          tg_machine_name := first_non_empty [ri_machine_name ri, tg_machine_name t],
          tg_container_id := first_non_empty [ri_container_id ri, tg_container_id t]\<rparr>\<rparr>),
      set_meta ''execution'' (MetaExecution (er_config (st_resolution s))),
      set_meta ''compatibility'' (MetaCompatibility (er_compatibility (st_resolution s))),
      set_meta ''capability_probe'' (MetaProbe (er_capability (st_resolution s))),
      set_meta ''backend'' (MetaBackend (backendSnapshot cfg caps)),
      set_meta ''runtime'' (MetaRuntime (runtimeArtifact cfg ri)),
      emit_event ''runtime.profile.selected'' PhasePrepare
        [(''execution.backend'', ex_backend (cfg_execution cfg)),
         (''execution.provider'', ex_provider (cfg_execution cfg)),
         (''execution.runtime_profile'', ex_runtime_profile (cfg_execution cfg)),
         (''execution.compatibility_level'',
            support_level_name (cr_level (er_compatibility (st_resolution s)))),
         (''sandbox.runtime.profile'', ri_runtime_profile ri),
         (''sandbox.runtime.class'', ri_runtime_class_name ri),
         (''sandbox.virtualization'', ri_virtualization ri)]])"

definition kata_preflight :: "run_config \<Rightarrow> backend_capabilities \<Rightarrow> runtime_info \<Rightarrow> unit step" where
  "kata_preflight cfg caps ri =
     (if rt_profile (cfg_runtime cfg) = RuntimeProfileKata then block
        [emit_event ''kata.preflight.start'' PhasePrepare [],
         check PhasePrepare ErrorCodeProviderRuntimeUnsupported (ensureRuntimeProfileSupport cfg caps),
         emit_event ''kata.preflight.end'' PhasePrepare
           [(''checked_by'', ri_checked_by ri), (''detail'', ri_detail ri)]]
      else ret ())"

definition prepare_backend ::
  "engine_world \<Rightarrow> run_config \<Rightarrow> (trace sandbox_backend \<times> backend_capabilities \<times> runtime_info) step" where
  "prepare_backend w cfg = with_state (\<lambda>s.
     andThen (need PhasePrepare ErrorCodeConfigInvalid
       (backend_New (ew_backends w) (st_resolution s) cfg)) (\<lambda>b.
     andThen (modify (\<lambda>s. s\<lparr>st_backend := Some b\<rparr>)) (\<lambda>_.
     andThen (perform (sbk_capabilities b) (\<lambda>_. ACapabilities)) (\<lambda>r.
     andThen (need PhasePrepare ErrorCodeSandboxUnsupportedCapability r) (\<lambda>caps.
     andThen (note_backend cfg caps) (\<lambda>_.
     andThen (perform (sbk_runtime_info b) (\<lambda>_. ARuntimeInfo)) (\<lambda>r.
     andThen (need PhasePrepare ErrorCodeSandboxUnsupportedCapability r) (\<lambda>ri.
     andThen (block
       [note_runtime cfg caps ri,
        kata_preflight cfg caps ri,
        check PhasePrepare ErrorCodeSandboxUnsupportedCapability (ensureRequiredCapabilities cfg caps)])
       (\<lambda>_. ret (b, caps, ri))))))))))"

section \<open>The sandbox\<close>

definition create_events :: "run_config \<Rightarrow> string \<times> string" where
  "create_events cfg =
     (let kind = bk_kind (cfg_backend cfg) in
      if kind = BackendKindDevContainer then (''devcontainer.up.start'', ''devcontainer.up.end'')
      else if kind = BackendKindAppleContainer then (''container.create.start'', ''container.create.end'')
      else if kind = BackendKindOrbStackMachine then (''machine.create.start'', ''machine.create.end'')
      else (''sandbox.create.start'', ''sandbox.create.end''))"

definition announce_create :: "run_config \<Rightarrow> unit step" where
  "announce_create cfg = block
     [if bk_kind (cfg_backend cfg) = BackendKindDevContainer then block
        [emit_event ''devcontainer.read_configuration.start'' PhasePrepare [],
         emit_event ''devcontainer.up.start'' PhasePrepare []]
      else ret (),
      emit_event (fst (create_events cfg)) PhasePrepare []]"

definition with_sandbox_id :: "run_config \<Rightarrow> string \<Rightarrow> run_config" where
  "with_sandbox_id cfg i = cfg\<lparr>cfg_run := (cfg_run cfg)\<lparr>rs_sandbox_id := i\<rparr>\<rparr>"

definition note_sandbox :: "run_config \<Rightarrow> sandbox_info \<Rightarrow> unit step" where
  "note_sandbox cfg info = block
     [modify (\<lambda>s. s\<lparr>st_sandbox := info\<rparr>),
      set_run_config (with_sandbox_id cfg (si_id info)),
      modify (\<lambda>s. s\<lparr>st_target := (st_target s)\<lparr>tg_container_id := si_id info\<rparr>\<rparr>),
      if bk_kind (cfg_backend cfg) = BackendKindOrbStackMachine then block
        [modify (\<lambda>s. s\<lparr>st_target := (st_target s)\<lparr>tg_container_id := [], tg_machine_name := si_id info\<rparr>\<rparr>),
         set_result (\<lambda>r. r\<lparr>rr_machine_name := si_id info\<rparr>)]
      else ret (),
      emit_event (snd (create_events cfg)) PhasePrepare [(''sandbox.id'', si_id info)],
      if bk_kind (cfg_backend cfg) = BackendKindDevContainer then
        emit_event ''devcontainer.read_configuration.end'' PhasePrepare [(''sandbox.id'', si_id info)]
      else ret ()]"

definition start_sandbox :: "run_config \<Rightarrow> trace sandbox_backend \<Rightarrow> string \<Rightarrow> unit step" where
  "start_sandbox cfg b i =
     andThen (perform (\<lambda>tr. sbk_start b tr i) (\<lambda>_. AStart i)) (\<lambda>err. block
     [check PhasePrepare ErrorCodeSandboxStartFailed err,
      emit_event (if bk_kind (cfg_backend cfg) = BackendKindOrbStackMachine then ''machine.start''
                  else ''sandbox.start'') PhasePrepare [(''sandbox.id'', i)]])"

definition sync_workspace_in :: "run_config \<Rightarrow> trace sandbox_backend \<Rightarrow> string \<Rightarrow> unit step" where
  "sync_workspace_in cfg b i =
     (case sbk_sync_in b of
        None \<Rightarrow> ret ()
      | Some sync \<Rightarrow>
          let dir = rs_workspace_dir (cfg_run cfg) in
          andThen (emit_event ''workspace.sync_in'' PhasePrepare []) (\<lambda>_.
          andThen (perform (\<lambda>tr. sync tr i dir) (\<lambda>_. ASyncIn i dir))
            (check PhasePrepare ErrorCodeSandboxUploadFailed)))"

text \<open>
  The map \<open>Metadata\<close> is shared by the local \<open>cfg\<close> and the request, so the container id put into the
  request's map shows in both.
\<close>

definition with_container_id :: "run_config \<Rightarrow> devcontainer_artifact \<Rightarrow> run_config" where
  "with_container_id cfg dev =
     (if da_container_id dev = [] then cfg
      else cfg\<lparr>cfg_metadata := env_put ''devcontainer.container_id'' (da_container_id dev) (cfg_metadata cfg)\<rparr>)"

definition note_devcontainer :: "run_config \<Rightarrow> devcontainer_artifact \<Rightarrow> unit step" where
  "note_devcontainer cfg dev = block
     [modify (\<lambda>s. s\<lparr>st_devcontainer := Some dev\<rparr>),
      if da_container_id dev \<noteq> [] then block
        [modify (\<lambda>s. s\<lparr>st_target := (st_target s)\<lparr>tg_container_id := da_container_id dev\<rparr>\<rparr>),
         set_run_config (with_container_id cfg dev)]
      else ret ()]"

definition read_devcontainer ::
  "engine_world \<Rightarrow> run_config \<Rightarrow> trace sandbox_backend \<Rightarrow> string \<Rightarrow> run_config step" where
  "read_devcontainer w cfg b i =
     (case sbk_devcontainer b of
        None \<Rightarrow> ret cfg
      | Some provider \<Rightarrow>
          andThen (perform (\<lambda>tr. provider tr i) (\<lambda>_. ADevContainer i)) (\<lambda>r. case r of
            Inl e \<Rightarrow> andThen (set_meta ''devcontainer_metadata_error'' (MetaString (error_string e))) (\<lambda>_. ret cfg)
          | Inr dev \<Rightarrow>
              andThen (block
                [note_devcontainer cfg dev,
                 write_ignoring w (DocDevContainer dev),
                 if bk_kind (cfg_backend cfg) = BackendKindDevContainer \<and> da_workspace_folder dev \<noteq> [] then
                   emit_event ''devcontainer.run_user_commands.end'' PhasePrepare
                     [(''devcontainer.workspace_folder'', da_workspace_folder dev)]
                 else ret ()])
              (\<lambda>_. ret (with_container_id cfg dev))))"

definition prepare_sandbox ::
  "engine_world \<Rightarrow> run_config \<Rightarrow> trace sandbox_backend \<Rightarrow> run_config step" where
  "prepare_sandbox w cfg b =
     (if \<not> requiresManagedSandbox cfg then ret cfg
      else
        let request = buildCreateSandboxRequest (ew_host w) NewRegistry cfg in
        andThen (announce_create cfg) (\<lambda>_.
        andThen (perform (\<lambda>tr. sbk_create b tr request) (ACreate request)) (\<lambda>r.
        andThen (need PhasePrepare ErrorCodeSandboxCreateFailed r) (\<lambda>info.
        andThen (note_sandbox cfg info) (\<lambda>_.
        let cfg = with_sandbox_id cfg (si_id info) in
        andThen (start_sandbox cfg b (si_id info)) (\<lambda>_.
        andThen (sync_workspace_in cfg b (si_id info)) (\<lambda>_.
        read_devcontainer w cfg b (si_id info))))))))"

section \<open>The documents and the result\<close>

definition context_artifact_of ::
  "run_state \<Rightarrow> run_config \<Rightarrow> backend_capabilities \<Rightarrow> context_artifact" where
  "context_artifact_of s cfg caps =
     (let run = cfg_run cfg in
      \<lparr>ca_run_id = rs_run_id run, ca_attempt = rs_attempt run, ca_sandbox_id = rs_sandbox_id run,
       ca_workspace_id = rs_workspace_id run, ca_mode = rs_mode run, ca_service_name = rs_service_name run,
       ca_git_sha = [], ca_image_digest = [], ca_original_command = rs_command run,
       ca_otlp_endpoint = rs_otlp_endpoint run, ca_execution = er_config (st_resolution s),
       ca_compatibility = er_compatibility (st_resolution s),
       ca_capability_probe = er_capability (st_resolution s), ca_target = st_target s,
       ca_feature_gates = plat_feature_gates (cfg_platform cfg),
       ca_backend = Some (backendSnapshot cfg caps), ca_sandbox = sandboxSnapshot (st_sandbox s) cfg\<rparr>)"

definition write_prepared :: "engine_world \<Rightarrow> document \<Rightarrow> unit step" where
  "write_prepared w d = write_checked w PhasePrepare ErrorCodeConfigInvalid d"

definition prepare_documents ::
  "engine_world \<Rightarrow> run_config \<Rightarrow> backend_capabilities \<Rightarrow> runtime_info \<Rightarrow> unit step" where
  "prepare_documents w cfg caps ri = with_state (\<lambda>s.
     let sandbox = sandboxArtifact (st_sandbox s) cfg;
         container = containerArtifact (st_sandbox s) cfg;
         machine = machineArtifact (st_sandbox s) cfg
     in block
       [write_prepared w (DocContext (context_artifact_of s cfg caps)),
        write_prepared w (DocProvider (providerArtifact cfg caps (st_devcontainer s))),
        write_prepared w (DocBackendProfile (backendProfileArtifact cfg ri)),
        write_prepared w (DocRuntime (runtimeArtifact cfg ri)),
        if sa_sandbox_id sandbox \<noteq> [] then write_prepared w (DocSandbox sandbox) else ret (),
        if cta_container_id container \<noteq> [] then write_prepared w (DocContainer container) else ret (),
        if ma_machine_name machine \<noteq> [] then write_prepared w (DocMachine machine) else ret ()])"

text \<open>A phase that succeeded: its result is appended and its span ended.\<close>

definition prepare_finish :: "run_config \<Rightarrow> string list \<Rightarrow> unit step" where
  "prepare_finish cfg warnings =
     (let r = (successPhase PhasePrepare [(''warnings'', MetaStrings warnings)])
                \<lparr>phr_backend_action := prepareActionForBackend cfg\<rparr> in
      block
       [set_result (\<lambda>r. r\<lparr>rr_run_id := rs_run_id (cfg_run cfg), rr_attempt := rs_attempt (cfg_run cfg),
          rr_status := StatusSucceeded, rr_phase := PhasePrepare, rr_exit_code := 0\<rparr>),
        add_phase_result r,
        endPhase PhasePrepare r])"

definition runPrepare :: "engine_world \<Rightarrow> unit step" where
  "runPrepare w =
     andThen (prepare_resolve w) (\<lambda>cfg.
     andThen (prepare_target w cfg) (\<lambda>(cfg, warnings).
     andThen (prepare_writer w cfg) (\<lambda>_.
     andThen (prepare_telemetry w cfg) (\<lambda>_.
     andThen (prepare_backend w cfg) (\<lambda>(b, caps, ri).
     andThen (prepare_sandbox w cfg b) (\<lambda>cfg.
     andThen (prepare_documents w cfg caps ri) (\<lambda>_.
     prepare_finish cfg warnings)))))))"

end
