(* ===== verification/Engine_Phases.thy ===== *)
theory Engine_Phases
  imports Engine_Prepare
begin

text \<open>
  The phases after prepare (\<open>runSetup\<close>, \<open>runExecute\<close>, \<open>runVerify\<close>, \<open>runCollect\<close> with \<open>cleanupBackend\<close> and
  \<open>downloadExpectedArtifacts\<close>) and \<open>Engine.Run\<close>, which puts the five together, of
  \<open>internal/phase/engine.go\<close>.
\<close>

section \<open>Running one command\<close>

definition spec_for ::
  "engine_world \<Rightarrow> run_state \<Rightarrow> phase \<Rightarrow> string list \<Rightarrow> env \<Rightarrow> exec_spec" where
  "spec_for w s ph command m =
     (let cfg = st_cfg s in
      \<lparr>xs_phase = ph, xs_command = command, xs_env = m, xs_dir = rs_workspace_dir (cfg_run cfg),
       xs_timeout = TimeoutForPhase (st_policy s) ph * 1000000000, xs_run_id = rs_run_id (cfg_run cfg),
       xs_attempt = rs_attempt (cfg_run cfg), xs_command_class = ClassifyCommand (ew_shlex w) command,
       xs_artifact_dir = rs_artifact_dir (cfg_run cfg),
       xs_log_line_max_bytes = tel_log_line_max_bytes (cfg_telemetry cfg), xs_run_config = cfg,
       xs_target = st_target s\<rparr>)"

definition new_executor :: "engine_world \<Rightarrow> phase \<Rightarrow> error_code \<Rightarrow> executor step" where
  "new_executor w ph code = with_state (\<lambda>s.
     andThen (perform (\<lambda>tr. executor_New (ew_docker_new w tr) (st_cfg s) (st_target s) (st_backend s \<noteq> None))
        (\<lambda>_. ANewExecutor))
     (\<lambda>r. andThen (need ph code r)
     (\<lambda>ex. andThen (modify (\<lambda>s. s\<lparr>st_executor := Some ex\<rparr>)) (\<lambda>_. ret ex))))"

text \<open>\<open>if state.executor == nil { state.executor, err = executor.New(...) }\<close>\<close>

definition ensure_executor :: "engine_world \<Rightarrow> phase \<Rightarrow> error_code \<Rightarrow> executor step" where
  "ensure_executor w ph code = with_state (\<lambda>s.
     case st_executor s of Some ex \<Rightarrow> ret ex | None \<Rightarrow> new_executor w ph code)"

text \<open>The executor's \<open>Run\<close> and \<open>recordCommand\<close>, which always follows it.\<close>

definition run_recorded ::
  "engine_world \<Rightarrow> executor \<Rightarrow> exec_spec \<Rightarrow> (exec_result \<times> go_error option) step" where
  "run_recorded w ex spec =
     andThen (run_executor w ex spec) (\<lambda>r.
     andThen (recordCommand w (xs_phase spec) (xs_command spec) (fst r)) (\<lambda>_. ret r))"

section \<open>Setup\<close>

text \<open>
  \<open>if execErr != nil || result.ExitCode != 0\<close> holds exactly when \<open>commandError\<close> gives an error.
\<close>

fun setup_steps :: "engine_world \<Rightarrow> executor \<Rightarrow> setup_step list \<Rightarrow> unit step" where
  "setup_steps w ex [] = ret ()"
| "setup_steps w ex (step # steps) = with_state (\<lambda>s.
     andThen (check PhaseSetup ErrorCodePolicyToolDeny
       (CheckCommand (ew_shlex w) (st_policy s) PhaseSetup (step_cmd step))) (\<lambda>_.
     andThen (need PhaseSetup ErrorCodePolicySecretDeny
       (ResolveSecrets (ew_host w) (st_policy s) PhaseSetup)) (\<lambda>secrets.
     andThen (run_recorded w ex (spec_for w s PhaseSetup (step_cmd step)
       (buildPhaseEnv (ew_host w) (st_cfg s) False secrets))) (\<lambda>(result, err).
     case commandError (step_cmd step) result err of
       Some e \<Rightarrow> failPhaseWithStatus PhaseSetup ErrorCodeSetupFailed e StatusFailed result
     | None \<Rightarrow> setup_steps w ex steps))))"

definition setup_finish :: "setup_plan \<Rightarrow> unit step" where
  "setup_finish plan = with_state (\<lambda>s.
     let r = (successPhase PhaseSetup [(''project_type'', MetaString (plan_project_type plan))])
               \<lparr>phr_backend_action := execActionForBackend (st_cfg s)\<rparr>
     in block [add_phase_result r, endPhase PhaseSetup r])"

definition make_plan :: "engine_world \<Rightarrow> setup_plan step" where
  "make_plan w = with_state (\<lambda>s.
     let dir = rs_workspace_dir (cfg_run (st_cfg s)) in
     andThen (perform (\<lambda>tr. Plan (ew_workspace w tr) dir) (\<lambda>_. APlan dir)) (\<lambda>(plan, fp, err).
     andThen (block
       [modify (\<lambda>s. s\<lparr>st_setup_plan := plan, st_environment := fp\<rparr>),
        check PhaseSetup ErrorCodeSetupFailed err,
        write_checked w PhaseSetup ErrorCodeSetupFailed (DocSetupPlan plan),
        write_checked w PhaseSetup ErrorCodeSetupFailed (DocEnvironment fp)]) (\<lambda>_. ret plan)))"

definition runSetup :: "engine_world \<Rightarrow> unit step" where
  "runSetup w = with_state (\<lambda>s.
     if \<not> pc_enabled (phs_setup (cfg_phases (st_cfg s))) then ret ()
     else
       andThen (startPhase PhaseSetup) (\<lambda>_.
       andThen (need PhaseSetup ErrorCodePolicyNetDeny (ResolveNetworkProfile (st_policy s) PhaseSetup)) (\<lambda>_.
       andThen (make_plan w) (\<lambda>plan.
       andThen (new_executor w PhaseSetup ErrorCodeSetupFailed) (\<lambda>ex.
       andThen (setup_steps w ex (plan_steps plan)) (\<lambda>_.
       setup_finish plan))))))"

section \<open>Execute\<close>

definition timed_out_exec :: "exec_result \<Rightarrow> go_error option \<Rightarrow> bool" where
  "timed_out_exec result err \<longleftrightarrow>
     (case err of Some e \<Rightarrow> is_deadline e | None \<Rightarrow> False) \<or> xres_timed_out result"

definition execute_finish :: "run_config \<Rightarrow> exec_result \<Rightarrow> unit step" where
  "execute_finish cfg result = with_state (\<lambda>s.
     let r = (successPhaseWithExec PhaseExecute (st_command_class s) result)
               \<lparr>phr_backend_action := execActionForBackend cfg\<rparr>
     in block
       [add_phase_result r,
        set_result (\<lambda>x. x\<lparr>rr_status := StatusSucceeded, rr_phase := PhaseExecute\<rparr>),
        endPhase PhaseExecute r])"

definition execute_command :: "engine_world \<Rightarrow> string list \<Rightarrow> env \<Rightarrow> unit step" where
  "execute_command w command m =
     andThen (ensure_executor w PhaseExecute ErrorCodeExecuteFailed) (\<lambda>ex. with_state (\<lambda>s.
     let spec = spec_for w s PhaseExecute command m in
     andThen (modify (\<lambda>s. s\<lparr>st_command_class := xs_command_class spec\<rparr>)) (\<lambda>_.
     andThen (run_recorded w ex spec) (\<lambda>(result, err).
     andThen (set_result (\<lambda>x. x\<lparr>rr_command_class := xs_command_class spec,
          rr_exit_code := xres_exit_code result,
          rr_metadata := AList.update ''execution_target'' (MetaTarget (xres_target result)) (rr_metadata x)\<rparr>)) (\<lambda>_.
     case commandError command result err of
       Some e \<Rightarrow>
         if timed_out_exec result err
         then failPhaseWithStatus PhaseExecute ErrorCodeTimeout e StatusTimedOut result
         else failPhaseWithStatus PhaseExecute ErrorCodeExecuteFailed e StatusFailed result
     | None \<Rightarrow> execute_finish (xs_run_config spec) result)))))"

definition runExecute :: "engine_world \<Rightarrow> unit step" where
  "runExecute w = with_state (\<lambda>s.
     let cfg = st_cfg s; command = rs_command (cfg_run cfg) in
     if \<not> pc_enabled (phs_execute (cfg_phases cfg)) then ret ()
     else
       andThen (startPhase PhaseExecute) (\<lambda>_.
       if command = [] then failPhase PhaseExecute ErrorCodeConfigInvalid (ErrorText ''no command provided'')
       else
         andThen (need PhaseExecute ErrorCodePolicyNetDeny (ResolveNetworkProfile (st_policy s) PhaseExecute)) (\<lambda>_.
         andThen (need PhaseExecute ErrorCodePolicySecretDeny
           (ResolveSecrets (ew_host w) (st_policy s) PhaseExecute)) (\<lambda>secrets.
         let m = buildPhaseEnv (ew_host w) cfg True secrets in
         andThen (need PhaseExecute ErrorCodeExecuteFailed
           (Resolve NewRegistry (rs_language (cfg_run cfg)) command m)) (\<lambda>a.
         let (command, m) = adapter_Rewrite a command m cfg in
         andThen (check PhaseExecute ErrorCodePolicyToolDeny
           (CheckCommand (ew_shlex w) (st_policy s) PhaseExecute command)) (\<lambda>_.
         execute_command w command m)))))) "

section \<open>Verify\<close>

definition verify_smoke :: "engine_world \<Rightarrow> string list \<Rightarrow> unit step" where
  "verify_smoke w command =
     (if command = [] then ret ()
      else with_state (\<lambda>s.
        andThen (check PhaseVerify ErrorCodePolicyToolDeny
          (CheckCommand (ew_shlex w) (st_policy s) PhaseVerify command)) (\<lambda>_.
        andThen (ensure_executor w PhaseVerify ErrorCodeVerifyFailed) (\<lambda>ex.
        andThen (need PhaseVerify ErrorCodePolicySecretDeny
          (ResolveSecrets (ew_host w) (st_policy s) PhaseVerify)) (\<lambda>secrets.
        andThen (run_recorded w ex (spec_for w s PhaseVerify command
          (buildPhaseEnv (ew_host w) (st_cfg s) False secrets))) (\<lambda>(result, err).
        case commandError command result err of
          Some e \<Rightarrow> failPhaseWithStatus PhaseVerify ErrorCodeVerifyFailed e StatusFailed result
        | None \<Rightarrow> ret ()))))))"

definition download_paths :: "run_config \<Rightarrow> string \<Rightarrow> string \<times> string" where
  "download_paths cfg expected =
     (path_join [osb_workspace_root (cfg_opensandbox cfg), path_base (rs_artifact_dir (cfg_run cfg)), expected],
      path_join [rs_artifact_dir (cfg_run cfg), expected])"

fun download_all ::
  "(trace \<Rightarrow> string \<Rightarrow> string \<Rightarrow> string \<Rightarrow> go_error option) \<Rightarrow> run_config \<Rightarrow> string \<Rightarrow> string list \<Rightarrow>
   go_error option step" where
  "download_all download cfg i [] = ret None"
| "download_all download cfg i (expected # rest) =
     (let (remote, local) = download_paths cfg expected in
      andThen (perform (\<lambda>tr. download tr i remote local) (\<lambda>_. ADownload i remote local)) (\<lambda>err.
      case err of Some e \<Rightarrow> ret (Some e) | None \<Rightarrow> download_all download cfg i rest))"

definition downloadExpectedArtifacts :: "go_error option step" where
  "downloadExpectedArtifacts = with_state (\<lambda>s.
     let cfg = st_cfg s; expected = pc_expected_artifacts (phs_verify (cfg_phases cfg)) in
     if bk_kind (cfg_backend cfg) \<noteq> BackendKindOpenSandbox \<or> expected = [] then ret None
     else (case st_backend s of
         None \<Rightarrow> ret None
       | Some b \<Rightarrow> (case sbk_download b of
             None \<Rightarrow> ret None
           | Some download \<Rightarrow>
               if si_id (st_sandbox s) = [] then ret None
               else download_all download cfg (si_id (st_sandbox s)) expected)))"

fun verify_artifacts :: "engine_world \<Rightarrow> string \<Rightarrow> string list \<Rightarrow> unit step" where
  "verify_artifacts w artifactDir [] = ret ()"
| "verify_artifacts w artifactDir (expected # rest) =
     (let path = path_join [artifactDir, expected] in
      andThen (perform (\<lambda>tr. ew_stat w tr path) (\<lambda>_. AStat path)) (\<lambda>exists.
      if exists then verify_artifacts w artifactDir rest
      else failPhase PhaseVerify ErrorCodeVerifyFailed
        (ErrorText (''expected artifact missing: '' @ expected))))"

definition verify_finish :: "run_config \<Rightarrow> unit step" where
  "verify_finish cfg =
     (let r = (successPhase PhaseVerify [])
        \<lparr>phr_backend_action := (if pc_smoke_command (phs_verify (cfg_phases cfg)) = [] then []
                                else execActionForBackend cfg)\<rparr>
      in block
       [add_phase_result r,
        set_result (\<lambda>x. x\<lparr>rr_status := StatusSucceeded, rr_phase := PhaseVerify\<rparr>),
        endPhase PhaseVerify r])"

definition runVerify :: "engine_world \<Rightarrow> unit step" where
  "runVerify w = with_state (\<lambda>s.
     let cfg = st_cfg s; verify = phs_verify (cfg_phases cfg) in
     if \<not> pc_enabled verify then ret ()
     else
       andThen (startPhase PhaseVerify) (\<lambda>_.
       andThen (check PhaseVerify ErrorCodePolicyNetDeny
         (case ResolveNetworkProfile (st_policy s) PhaseVerify of
            Inl e \<Rightarrow> if pc_network_profile verify \<noteq> [] then Some e else None
          | Inr _ \<Rightarrow> None)) (\<lambda>_.
       andThen (verify_smoke w (pc_smoke_command verify)) (\<lambda>_.
       andThen downloadExpectedArtifacts (\<lambda>err.
       andThen (check PhaseVerify ErrorCodeSandboxDownloadFailed err) (\<lambda>_.
       andThen (verify_artifacts w (rs_artifact_dir (cfg_run cfg)) (pc_expected_artifacts verify)) (\<lambda>_.
       verify_finish cfg)))))))"

end
