(* ===== verification/Engine_Run.thy ===== *)
theory Engine_Run
  imports Engine_Phases
begin

text \<open>
  \<open>runCollect\<close>, \<open>cleanupBackend\<close> and \<open>Run\<close> of \<open>internal/phase/engine.go\<close>: gathering what the sandbox left,
  cleaning it up, writing the summary documents, uploading, and the order of the five phases.
\<close>

section \<open>Cleaning up the sandbox\<close>

text \<open>What the cleanup modes ask for: the event and the operation on the backend.\<close>

datatype cleanup_op = CleanupKeep | CleanupPause | CleanupDelete

definition cleanup_choice :: "run_config \<Rightarrow> backend_capabilities \<Rightarrow> string \<times> cleanup_op" where
  "cleanup_choice cfg caps =
     (let kind = bk_kind (cfg_backend cfg) in
      if kind = BackendKindDevContainer then
        (if equal_fold (dc_cleanup_mode (cfg_devcontainer cfg)) ''keep'' then (''devcontainer.keep'', CleanupKeep)
         else (''devcontainer.down'', CleanupDelete))
      else if kind = BackendKindAppleContainer then
        (if equal_fold (apc_cleanup_mode (cfg_apple_container cfg)) ''keep'' then (''container.keep'', CleanupKeep)
         else (''container.delete'', CleanupDelete))
      else if kind = BackendKindOrbStackMachine then
        (let m = to_lower (orb_machine_cleanup_mode (cfg_orbstack cfg)) in
         if m = ''stop'' then (''machine.stop'', CleanupDelete)
         else if m = ''delete'' then (''machine.delete'', CleanupDelete)
         else (''machine.keep'', CleanupKeep))
      else
        (let m = osb_cleanup_mode (cfg_opensandbox cfg) in
         if m = OpenSandboxCleanupKeep then (''sandbox.cleanup.keep'', CleanupKeep)
         else if m = OpenSandboxCleanupPause then (''sandbox.pause'', CleanupPause)
         else if m = OpenSandboxCleanupPauseElseKeep then
           (if caps_supports_pause_resume caps then (''sandbox.cleanup.pause'', CleanupPause)
            else (''sandbox.cleanup.keep'', CleanupKeep))
         else (''sandbox.cleanup.delete'', CleanupDelete)))"

definition do_cleanup :: "trace sandbox_backend \<Rightarrow> string \<Rightarrow> cleanup_op \<Rightarrow> go_error option step" where
  "do_cleanup b i op =
     (case op of
        CleanupKeep \<Rightarrow> ret None
      | CleanupPause \<Rightarrow> perform (\<lambda>tr. sbk_pause b tr i) (\<lambda>_. APause i)
      | CleanupDelete \<Rightarrow> perform (\<lambda>tr. sbk_delete b tr i) (\<lambda>_. ADelete i))"

definition cleanupBackend :: "go_error option step" where
  "cleanupBackend = with_state (\<lambda>s.
     case st_backend s of
       None \<Rightarrow> ret None
     | Some b \<Rightarrow>
         if si_id (st_sandbox s) = [] \<or> \<not> requiresManagedSandbox (st_cfg s) then ret None
         else (let (event, op) = cleanup_choice (st_cfg s) (st_caps s) in
           andThen (emit_event event PhaseCollect []) (\<lambda>_. do_cleanup b (si_id (st_sandbox s)) op)))"

section \<open>What the sandbox left\<close>

definition note_error :: "string \<Rightarrow> go_error option \<Rightarrow> unit step" where
  "note_error key err = (case err of None \<Rightarrow> ret () | Some e \<Rightarrow> set_meta key (MetaString (error_string e)))"

definition collect_sync_out :: "run_config \<Rightarrow> unit step" where
  "collect_sync_out cfg = with_state (\<lambda>s.
     case st_backend s of
       None \<Rightarrow> ret ()
     | Some b \<Rightarrow> (case sbk_sync_out b of
           None \<Rightarrow> ret ()
         | Some sync \<Rightarrow>
             if si_id (st_sandbox s) = [] then ret ()
             else (let i = si_id (st_sandbox s); remote = collectRemoteArtifactDir cfg;
                 local = path_join [rs_artifact_dir (cfg_run cfg), ArtifactsDirName,
                           bk_kind (cfg_backend cfg) @ ''-workspace''] in
               andThen (emit_event ''workspace.sync_out'' PhaseCollect []) (\<lambda>_.
               andThen (perform (\<lambda>tr. sync tr i remote local) (\<lambda>_. ASyncOut i remote local))
                 (note_error ''workspace_sync_out_error'')))))"

definition collect_endpoints :: "engine_world \<Rightarrow> run_config \<Rightarrow> trace sandbox_backend \<Rightarrow> unit step" where
  "collect_endpoints w cfg b = with_state (\<lambda>s.
     if bk_kind (cfg_backend cfg) \<noteq> BackendKindOpenSandbox then ret ()
     else (case sbk_endpoints b of
         None \<Rightarrow> ret ()
       | Some endpoints \<Rightarrow>
           let i = si_id (st_sandbox s) in
           andThen (perform (\<lambda>tr. endpoints tr i [44772, 8080]) (\<lambda>_. AEndpoints i)) (\<lambda>r. case r of
             Inr ports \<Rightarrow> write_ignoring w (DocEndpoints \<lparr>ea_ports = ports\<rparr>)
           | Inl e \<Rightarrow> set_meta ''sandbox_endpoints_error'' (MetaString (error_string e)))))"

definition refresh_sandbox :: "engine_world \<Rightarrow> run_config \<Rightarrow> sandbox_info \<Rightarrow> unit step" where
  "refresh_sandbox w cfg info = block
     [modify (\<lambda>s. s\<lparr>st_sandbox := info\<rparr>),
      write_ignoring w (DocSandbox (sandboxArtifact info cfg)),
      if cta_container_id (containerArtifact info cfg) \<noteq> []
      then write_ignoring w (DocContainer (containerArtifact info cfg)) else ret (),
      if ma_machine_name (machineArtifact info cfg) \<noteq> []
      then write_ignoring w (DocMachine (machineArtifact info cfg)) else ret ()]"

definition collect_metadata :: "engine_world \<Rightarrow> run_config \<Rightarrow> unit step" where
  "collect_metadata w cfg = with_state (\<lambda>s.
     case st_backend s of
       None \<Rightarrow> ret ()
     | Some b \<Rightarrow> (case sbk_metadata b of
           None \<Rightarrow> ret ()
         | Some metadata \<Rightarrow>
             if si_id (st_sandbox s) = [] then ret ()
             else (let i = si_id (st_sandbox s) in
               andThen (perform (\<lambda>tr. metadata tr i) (\<lambda>_. AMetadata i)) (\<lambda>r. block
                 [case r of
                    Inr info \<Rightarrow> refresh_sandbox w cfg info
                  | Inl e \<Rightarrow> set_meta ''sandbox_metadata_error'' (MetaString (error_string e)),
                  collect_endpoints w cfg b]))))"

definition collect_devcontainer :: "engine_world \<Rightarrow> unit step" where
  "collect_devcontainer w = with_state (\<lambda>s.
     case st_backend s of
       None \<Rightarrow> ret ()
     | Some b \<Rightarrow> (case sbk_devcontainer b of
           None \<Rightarrow> ret ()
         | Some provider \<Rightarrow>
             if si_id (st_sandbox s) = [] then ret ()
             else (let i = si_id (st_sandbox s) in
               andThen (perform (\<lambda>tr. provider tr i) (\<lambda>_. ADevContainer i)) (\<lambda>r. case r of
                 Inr dev \<Rightarrow> block
                   [note_devcontainer (st_cfg s) dev, write_ignoring w (DocDevContainer dev)]
               | Inl e \<Rightarrow> set_meta ''devcontainer_metadata_error'' (MetaString (error_string e))))))"

definition partial_if_succeeded :: "unit step" where
  "partial_if_succeeded = set_result (\<lambda>r.
     if rr_status r = StatusSucceeded then r\<lparr>rr_status := StatusPartial\<rparr> else r)"

definition collect_sandbox :: "engine_world \<Rightarrow> run_config \<Rightarrow> unit step" where
  "collect_sandbox w cfg =
     (if \<not> requiresManagedSandbox cfg then ret ()
      else andThen (block [collect_sync_out cfg, collect_metadata w cfg, collect_devcontainer w]) (\<lambda>_.
        andThen cleanupBackend (\<lambda>err. case err of
          None \<Rightarrow> ret ()
        | Some e \<Rightarrow> block
            [set_meta ''sandbox_cleanup_error'' (MetaString (error_string e)), partial_if_succeeded])))"

section \<open>The summary documents\<close>

definition replay_of :: "run_state \<Rightarrow> replay_manifest" where
  "replay_of s =
     (let cfg = st_cfg s; verify = phs_verify (cfg_phases cfg) in
      \<lparr>rm_run_id = rs_run_id (cfg_run cfg), rm_environment_fingerprint_ref = EnvironmentFileName,
       rm_setup_plan_ref = SetupPlanFileName, rm_commands_ref = CommandsFileName,
       rm_expected_outputs = pc_expected_artifacts verify,
       rm_notes = [''project_type='' @ plan_project_type (st_setup_plan s),
                   ''run_mode='' @ plat_run_mode (cfg_platform cfg)]
         @ (if pc_smoke_command verify = [] then []
            else [''verify phase runs ['' @ join '' '' (pc_smoke_command verify) @ '']''])\<rparr>)"

abbreviation write_collected :: "engine_world \<Rightarrow> document \<Rightarrow> unit step" where
  "write_collected w \<equiv> write_checked w PhaseCollect ErrorCodeCollectFailed"

definition write_results :: "engine_world \<Rightarrow> unit step" where
  "write_results w = with_state (\<lambda>s. write_collected w (DocResults (st_result s)))"

definition write_index :: "engine_world \<Rightarrow> artifact_ref list \<Rightarrow> unit step" where
  "write_index w refs = with_state (\<lambda>s.
     write_collected w (DocIndex (buildArtifactIndex (st_result s) (st_resolution s) refs)))"

definition collect_result :: "run_config \<Rightarrow> int \<Rightarrow> phase_result" where
  "collect_result cfg n = (successPhase PhaseCollect [(''artifacts'', MetaInt n)])
     \<lparr>phr_backend_action := cleanupActionForBackend cfg\<rparr>"

definition succeed_if_created :: "run_result \<Rightarrow> run_result" where
  "succeed_if_created r = (if rr_status r = StatusCreated then r\<lparr>rr_status := StatusSucceeded\<rparr> else r)"

text \<open>\<open>state.result.PhaseResults = state.phaseResults\<close>: from here on both are the same slice.\<close>

definition share_phase_results :: "unit step" where
  "share_phase_results = with_state (\<lambda>s. set_result (\<lambda>r. r\<lparr>rr_phase_results := st_phase_results s\<rparr>))"

definition collect_documents :: "engine_world \<Rightarrow> run_config \<Rightarrow> unit step" where
  "collect_documents w cfg = block
     [with_state (\<lambda>s. write_collected w (DocReplay (replay_of s))),
      add_phase_result (collect_result cfg 0),
      set_result (\<lambda>r. succeed_if_created (r\<lparr>rr_phase := PhaseCollect\<rparr>)),
      share_phase_results,
      with_state (\<lambda>s. write_collected w (DocPhases (st_phase_results s))),
      write_results w,
      write_index w []]"

section \<open>Uploading\<close>

definition upload_refs :: "engine_world \<Rightarrow> artifact_ref list \<Rightarrow> (artifact_ref list \<times> go_error option) step" where
  "upload_refs w refs = with_state (\<lambda>s. let cfg = st_cfg s in
     perform (\<lambda>tr. Upload (ew_s3 w tr) refs (cfg_artifacts cfg) (rs_deployment_environment (cfg_run cfg))
         (rs_run_id (cfg_run cfg)) (rs_attempt (cfg_run cfg)))
       (\<lambda>_. AUpload refs))"

text \<open>The status, code and message that a failed upload leaves on a run that had succeeded.\<close>

definition partial_upload :: "go_error \<Rightarrow> run_result \<Rightarrow> run_result" where
  "partial_upload e r =
     (if rr_status r = StatusSucceeded
      then r\<lparr>rr_status := StatusPartial, rr_error_code := ErrorCodeArtifactUploadFailed,
             rr_error_message := error_string e\<rparr>
      else r)"

definition note_upload_error :: "string \<Rightarrow> go_error option \<Rightarrow> unit step" where
  "note_upload_error key err = block
     [note_error key err,
      case err of None \<Rightarrow> ret () | Some e \<Rightarrow> set_result (partial_upload e)]"

text \<open>The last element of the shared slice is replaced, so both the state and the result see it.\<close>

definition replace_last_phase :: "phase_result \<Rightarrow> unit step" where
  "replace_last_phase r = block
     [modify (\<lambda>s. s\<lparr>st_phase_results := butlast (st_phase_results s) @ [r]\<rparr>),
      share_phase_results]"

definition writer_root :: "run_state \<Rightarrow> string" where
  "writer_root s = (case st_writer s of None \<Rightarrow> [] | Some wr \<Rightarrow> wr_root wr)"

definition collect_upload :: "engine_world \<Rightarrow> run_config \<Rightarrow> (artifact_ref list \<times> go_error option) step" where
  "collect_upload w cfg = with_state (\<lambda>s.
     let root = writer_root s in
     andThen (perform (\<lambda>tr. ArtifactRefs (ew_walk w tr root)) (\<lambda>_. AWalk root)) (\<lambda>r.
     andThen (need PhaseCollect ErrorCodeCollectFailed r) (\<lambda>refs.
     andThen (upload_refs w (makeUploadRefs root refs)) (\<lambda>(uploaded, err).
     let final = mergeUploadedRefs root refs uploaded in
     andThen (block
       [set_result (\<lambda>r. r\<lparr>rr_artifacts := final\<rparr>),
        replace_last_phase (collect_result cfg (int (length final))),
        note_upload_error ''artifact_upload_error'' err,
        write_results w,
        write_index w final]) (\<lambda>_. ret (final, err))))))"

definition last_phase_result :: "run_state \<Rightarrow> phase_result" where
  "last_phase_result s = last (st_phase_results s)"

definition end_collect :: "unit step" where
  "end_collect = with_state (\<lambda>s. endPhase PhaseCollect (last_phase_result s))"

definition summary_upload :: "engine_world \<Rightarrow> artifact_ref list \<Rightarrow> unit step" where
  "summary_upload w final = with_state (\<lambda>s.
     if \<not> arc_upload (cfg_artifacts (st_cfg s)) then end_collect
     else andThen (upload_refs w (makeUploadRefs (writer_root s)
         (filterArtifactRefs final [ResultsFileName, IndexFileName]))) (\<lambda>(_, err).
       case err of
         None \<Rightarrow> end_collect
       | Some e \<Rightarrow> andThen (block
           [note_upload_error ''artifact_summary_upload_error'' err,
            with_state (\<lambda>s. write_ignoring w (DocResults (st_result s))),
            with_state (\<lambda>s. write_ignoring w (DocIndex
              (buildArtifactIndex (st_result s) (st_resolution s) final))),
            end_collect]) (\<lambda>_. throw e)))"

definition runCollect :: "engine_world \<Rightarrow> unit step" where
  "runCollect w = with_state (\<lambda>s.
     if st_writer s = None then ret ()
     else
       let cfg = st_cfg s in
       andThen (block [startPhase PhaseCollect, collect_sandbox w cfg, collect_documents w cfg]) (\<lambda>_.
       andThen (collect_upload w cfg) (\<lambda>(final, err).
       case err of
         None \<Rightarrow> summary_upload w final
       | Some e \<Rightarrow> andThen end_collect (\<lambda>_. throw e))))"

section \<open>The run\<close>

definition run_main :: "engine_world \<Rightarrow> unit step" where
  "run_main w = block [runSetup w, runExecute w, runVerify w]"

definition finish_run :: "run_state \<Rightarrow> run_state" where
  "finish_run s =
     (let s = s\<lparr>st_result := (st_result s)\<lparr>rr_phase_results := st_phase_results s\<rparr>\<rparr>;
          s = (if st_writer s = None then s else s\<lparr>st_trace := st_trace s @ [ACloseWriter]\<rparr>);
          s = (if st_emitter s then s\<lparr>st_trace := st_trace s @ [AEndRun (st_result s)]\<rparr> else s)
      in s\<lparr>st_trace := st_trace s @ [AShutdownCollector]\<rparr>)"

text \<open>The final state and \<open>mainErr\<close>; the result that \<open>Run\<close> returns is \<open>st_result\<close>.\<close>

definition engine_Run :: "engine_world \<Rightarrow> run_request \<Rightarrow> run_state \<times> go_error option" where
  "engine_Run w req =
     (case runPrepare w (initial_state req) of
        (prepared, s1) \<Rightarrow>
          if (case prepared of Inl _ \<Rightarrow> True | Inr _ \<Rightarrow> False) \<and> st_writer s1 = None
          then (s1, (case prepared of Inl e \<Rightarrow> Some e | Inr _ \<Rightarrow> None))
          else (case (case prepared of Inr _ \<Rightarrow> run_main w s1 | Inl e \<Rightarrow> (Inl e, s1)) of
            (main, s2) \<Rightarrow>
              (case runCollect w s2 of
                (collected, s3) \<Rightarrow>
                  (finish_run s3,
                   case main of Inl e \<Rightarrow> Some e
                   | Inr _ \<Rightarrow> (case collected of Inl e \<Rightarrow> Some e | Inr _ \<Rightarrow> None)))))"

end
