(* ===== verification/Engine_Logic.thy ===== *)
theory Engine_Logic
  imports Engine_Run
begin

text \<open>
  Reasoning about handlers: a triple with one postcondition for a value and one for an error, its rules
  for the combinators, and the contract of an invariant that the small steps of a phase keep, from which
  the composed steps follow once for all phases.
\<close>

named_theorems triples \<open>rules of the triple, for use as introductions\<close>

definition valid ::
  "(run_state \<Rightarrow> bool) \<Rightarrow> 'a step \<Rightarrow> ('a \<Rightarrow> run_state \<Rightarrow> bool) \<Rightarrow> (go_error \<Rightarrow> run_state \<Rightarrow> bool) \<Rightarrow> bool" where
  "valid P m Q E \<longleftrightarrow> (\<forall>s. P s \<longrightarrow> (case m s of (Inr x, s') \<Rightarrow> Q x s' | (Inl e, s') \<Rightarrow> E e s'))"

lemma validI:
  "(\<And>s x s'. P s \<Longrightarrow> m s = (Inr x, s') \<Longrightarrow> Q x s') \<Longrightarrow>
   (\<And>s e s'. P s \<Longrightarrow> m s = (Inl e, s') \<Longrightarrow> E e s') \<Longrightarrow> valid P m Q E"
  unfolding valid_def by (auto split: prod.splits sum.splits)

lemma validD_value: "valid P m Q E \<Longrightarrow> P s \<Longrightarrow> m s = (Inr x, s') \<Longrightarrow> Q x s'"
  unfolding valid_def by fastforce

lemma validD_error: "valid P m Q E \<Longrightarrow> P s \<Longrightarrow> m s = (Inl e, s') \<Longrightarrow> E e s'"
  unfolding valid_def by fastforce

lemma valid_ret [triples]: "(\<And>s. P s \<Longrightarrow> Q x s) \<Longrightarrow> valid P (ret x) Q E"
  by (simp add: valid_def ret_def)

lemma valid_throw [triples]: "(\<And>s. P s \<Longrightarrow> E e s) \<Longrightarrow> valid P (throw e) Q E"
  by (simp add: valid_def throw_def)

lemma valid_andThen:
  assumes m: "valid P m R E" and k: "\<And>x. valid (R x) (k x) Q E"
  shows "valid P (andThen m k) Q E"
proof -
  have "case andThen m k s of (Inr x, s') \<Rightarrow> Q x s' | (Inl e, s') \<Rightarrow> E e s'" if P: "P s" for s
  proof (cases "m s")
    case (Pair r s')
    show ?thesis
    proof (cases r)
      case (Inl e)
      with validD_error [OF m P] Pair show ?thesis by (simp add: andThen_def)
    next
      case (Inr x)
      with validD_value [OF m P] Pair have "R x s'" by simp
      with k [of x] Inr Pair show ?thesis by (simp add: andThen_def valid_def)
    qed
  qed
  then show ?thesis by (simp add: valid_def)
qed

text \<open>The laws of the steps.\<close>

lemma andThen_assoc: "andThen (andThen m k) l = andThen m (\<lambda>x. andThen (k x) l)"
  by (auto simp: andThen_def split: prod.splits sum.splits)

lemma ret_andThen: "andThen (ret x) k = k x"
  by (simp add: andThen_def ret_def)

lemma valid_with_state:
  "(\<And>s. P s \<Longrightarrow> valid (\<lambda>s'. s' = s) (f s) Q E) \<Longrightarrow> valid P (with_state f) Q E"
  by (simp add: valid_def with_state_def)

lemma valid_modify: "(\<And>s. P s \<Longrightarrow> Q () (f s)) \<Longrightarrow> valid P (modify f) Q E"
  by (simp add: valid_def modify_def)

lemma valid_perform:
  "(\<And>s. P s \<Longrightarrow> Q (f (st_trace s)) (s\<lparr>st_trace := st_trace s @ [act (f (st_trace s))]\<rparr>)) \<Longrightarrow>
   valid P (perform f act) Q E"
  by (simp add: valid_def perform_def Let_def)

lemma valid_note_action:
  "(\<And>s. P s \<Longrightarrow> Q () (s\<lparr>st_trace := st_trace s @ [a]\<rparr>)) \<Longrightarrow> valid P (note_action a) Q E"
  unfolding note_action_def by (rule valid_modify)

lemma valid_weaken:
  assumes m: "valid P' m Q' E'" and "\<And>s. P s \<Longrightarrow> P' s" "\<And>x s. Q' x s \<Longrightarrow> Q x s" "\<And>e s. E' e s \<Longrightarrow> E e s"
  shows "valid P m Q E"
  using assms(2-) validD_value [OF m] validD_error [OF m] by (intro validI) blast+

lemma valid_exists: "(\<And>y. valid (P y) m Q E) \<Longrightarrow> valid (\<lambda>s. \<exists>y. P y s) m Q E"
  unfolding valid_def by (metis (mono_tags))

lemma valid_pure: "(b \<Longrightarrow> valid P m Q E) \<Longrightarrow> valid (\<lambda>s. P s \<and> b) m Q E"
  by (auto simp: valid_def)

lemma valid_if [triples]:
  "(b \<Longrightarrow> valid P m Q E) \<Longrightarrow> (\<not> b \<Longrightarrow> valid P n Q E) \<Longrightarrow> valid P (if b then m else n) Q E"
  by simp

lemma valid_option [triples]:
  "(x = None \<Longrightarrow> valid P m Q E) \<Longrightarrow> (\<And>y. x = Some y \<Longrightarrow> valid P (f y) Q E) \<Longrightarrow>
   valid P (case x of None \<Rightarrow> m | Some y \<Rightarrow> f y) Q E"
  by (cases x) auto

lemma valid_sum [triples]:
  "(\<And>y. x = Inl y \<Longrightarrow> valid P (f y) Q E) \<Longrightarrow> (\<And>y. x = Inr y \<Longrightarrow> valid P (g y) Q E) \<Longrightarrow>
   valid P (case x of Inl y \<Rightarrow> f y | Inr y \<Rightarrow> g y) Q E"
  by (cases x) auto

lemma valid_prod [triples]:
  "(\<And>a b. x = (a, b) \<Longrightarrow> valid P (f a b) Q E) \<Longrightarrow> valid P (case x of (a, b) \<Rightarrow> f a b) Q E"
  by (cases x) auto

lemma block_simps [simp]:
  "block [] = ret ()" "block (m # ms) = andThen m (\<lambda>_. block ms)"
  by (simp_all add: block_def)

section \<open>Steps that keep an invariant\<close>

text \<open>\<open>P\<close> holds after every value, \<open>E\<close> after an error.\<close>

abbreviation steady :: "(run_state \<Rightarrow> bool) \<Rightarrow> (go_error \<Rightarrow> run_state \<Rightarrow> bool) \<Rightarrow> 'a step \<Rightarrow> bool" where
  "steady P E m \<equiv> valid P m (\<lambda>_. P) E"

lemma steady_andThen [triples]:
  "steady P E m \<Longrightarrow> (\<And>x. steady P E (k x)) \<Longrightarrow> steady P E (andThen m k)"
  by (rule valid_andThen)

lemma steady_with_state [triples]:
  assumes "\<And>s. P s \<Longrightarrow> steady P E (f s)" shows "steady P E (with_state f)"
  using assms by (rule valid_with_state [OF valid_weaken]) auto

lemma steady_block [triples]: "(\<And>m. m \<in> set ms \<Longrightarrow> steady P E m) \<Longrightarrow> steady P E (block ms)"
proof (induction ms)
  case Nil
  then show ?case by (simp add: valid_ret)
next
  case (Cons m ms)
  then show ?case unfolding block_simps by (intro steady_andThen) simp_all
qed

text \<open>
  The actions that change what a run may do next: executing, creating, pausing and deleting. All others
  are quiet.
\<close>

fun quiet :: "action \<Rightarrow> bool" where
  "quiet (AExec ex spec res err) = False"
| "quiet (ACreate req r) = False"
| "quiet (APause i) = False"
| "quiet (ADelete i) = False"
| "quiet a = True"

text \<open>The state that a failing phase ends in.\<close>

definition failed_state ::
  "phase \<Rightarrow> error_code \<Rightarrow> go_error \<Rightarrow> run_status \<Rightarrow> exec_result \<Rightarrow> run_state \<Rightarrow> run_state" where
  "failed_state ph code err status result s =
     (let code = errorCodeForErr code err;
          r = failed_phase ph status code err result (st_command_class s)
      in s\<lparr>st_phase_results := st_phase_results s @ [r],
           st_result := (st_result s)\<lparr>rr_status := status, rr_phase := ph, rr_error_code := code,
             rr_error_message := error_string err, rr_exit_code := xres_exit_code result,
             rr_timed_out := xres_timed_out result, rr_signal := xres_signal result\<rparr>,
           st_trace := st_trace s @ (if st_emitter s then
             [AEvent \<lparr>ev_name = ''phase.error'', ev_phase = ph, ev_command_class = [],
                ev_attributes = [(''error_code'', code)]\<rparr>, AEndPhase ph r] else [])\<rparr>)"

lemma failPhaseWithStatus_eq:
  "failPhaseWithStatus ph code err status result s = (Inl err, failed_state ph code err status result s)"
  by (simp add: failPhaseWithStatus_def failed_state_def with_state_def andThen_def throw_def Let_def
      set_result_def add_phase_result_def modify_def if_emitter_def note_action_def emit_event_def ret_def)

lemma valid_fail:
  "(\<And>s. P s \<Longrightarrow> E e (failed_state ph code e status res s)) \<Longrightarrow>
   valid P (failPhaseWithStatus ph code e status res) Q E"
  by (simp add: valid_def failPhaseWithStatus_eq)

text \<open>The contract of an invariant that quiet actions keep, whatever an error leads to.\<close>

locale quiet_invariant =
  fixes P :: "run_state \<Rightarrow> bool"
  assumes keeps_quiet: "\<lbrakk>P s; quiet a\<rbrakk> \<Longrightarrow> P (s\<lparr>st_trace := st_trace s @ [a]\<rparr>)"
begin

lemma note_action: "quiet a \<Longrightarrow> steady P E (note_action a)"
  by (rule valid_note_action) (rule keeps_quiet)

lemma performs: "(\<And>x. quiet (act x)) \<Longrightarrow> steady P E (perform f act)"
  by (rule valid_perform) (rule keeps_quiet)

lemma emits: "steady P E (emit_event name ph' attrs)"
  unfolding emit_event_def by (rule note_action) simp

lemma if_emitters: "steady P E m \<Longrightarrow> steady P E (if_emitter m)"
  unfolding if_emitter_def by (intro triples) auto

lemma starts: "steady P E (startPhase p)"
  unfolding startPhase_def by (intro if_emitters note_action) simp

lemma ends: "steady P E (endPhase p r)"
  unfolding endPhase_def by (intro if_emitters note_action) simp

end

text \<open>
  The contract of an invariant of one phase: the failure of the phase leads from it to the error
  postcondition.
\<close>

locale phase_invariant = quiet_invariant P for P :: "run_state \<Rightarrow> bool" +
  fixes E :: "go_error \<Rightarrow> run_state \<Rightarrow> bool" and ph :: phase
  assumes fails: "\<lbrakk>P s; status \<in> {StatusFailed, StatusTimedOut}\<rbrakk> \<Longrightarrow> E e (failed_state ph code e status res s)"
begin

lemma fails_status:
  "status \<in> {StatusFailed, StatusTimedOut} \<Longrightarrow> valid P (failPhaseWithStatus ph code e status res) Q E"
  by (rule valid_fail) (rule fails)

lemma fails_phase: "valid P (failPhase ph code e) Q E"
  unfolding failPhase_def by (rule fails_status) simp

lemma checks: "steady P E (check ph code err)"
  unfolding check_def by (intro triples fails_phase)

lemma needs: "steady P E (need ph code r)"
  unfolding need_def by (intro triples fails_phase)

text \<open>What the steps behind a check may rely on.\<close>

lemma check_then:
  assumes "err = None \<Longrightarrow> valid P (k ()) Q E"
  shows "valid P (andThen (check ph code err) k) Q E"
proof (cases err)
  case None
  with assms show ?thesis by (simp add: check_def andThen_def ret_def)
next
  case (Some e)
  show ?thesis unfolding check_def Some option.case
    by (rule valid_andThen [OF fails_phase, where R = "\<lambda>_ _. False"]) (simp_all add: valid_def)
qed

end

end
