(* ===== verification/Engine_Facts.thy ===== *)
theory Engine_Facts
  imports Engine_Logic
begin

text \<open>
  What the phases setup, execute and verify do to a run: the commands they hand to the executor, the
  phase result they leave, and what they keep. \<open>active\<close> holds while a phase is under way, \<open>gone\<close> after it
  has failed and \<open>finished\<close> after it has succeeded; all three speak of the state \<open>s0\<close> that the phase
  began in and of the list \<open>xs\<close> of the commands it has run so far.
\<close>

section \<open>The commands of a history\<close>

type_synonym executed = "exec_spec \<times> exec_result \<times> go_error option"

fun exec_of :: "action \<Rightarrow> executed option" where
  "exec_of (AExec ex spec res err) = Some (spec, res, err)"
| "exec_of a = None"

fun execs :: "trace \<Rightarrow> executed list" where
  "execs [] = []"
| "execs (a # tr) = (case exec_of a of None \<Rightarrow> execs tr | Some x \<Rightarrow> x # execs tr)"

lemma execs_append [simp]: "execs (tr @ tr') = execs tr @ execs tr'"
  by (induction tr) (auto split: option.splits)

lemma quiet_exec_of [simp]: "quiet a \<Longrightarrow> exec_of a = None"
  by (cases a) auto

lemma execs_quiet: "(\<And>a. a \<in> set tr \<Longrightarrow> quiet a) \<Longrightarrow> execs tr = []"
  by (induction tr) auto

definition succeeded :: "executed \<Rightarrow> bool" where
  "succeeded x \<longleftrightarrow> commandError (xs_command (fst x)) (fst (snd x)) (snd (snd x)) = None"

lemma succeeded_iff: "succeeded (spec, res, err) \<longleftrightarrow> err = None \<and> xres_exit_code res = 0"
  by (auto simp: succeeded_def commandError_def split: option.splits)

definition allowed :: "engine_world \<Rightarrow> policy_engine \<Rightarrow> executed \<Rightarrow> bool" where
  "allowed w pol x \<longleftrightarrow> CheckCommand (ew_shlex w) pol (xs_phase (fst x)) (xs_command (fst x)) = None"

definition stops :: "executed list \<Rightarrow> bool" where
  "stops xs \<longleftrightarrow> (\<forall>x\<in>set (butlast xs). succeeded x)"

lemma stops_all: "\<forall>x\<in>set xs. succeeded x \<Longrightarrow> stops xs"
  by (auto simp: stops_def dest: in_set_butlastD)

lemma stops_snoc [simp]: "stops (xs @ [x]) \<longleftrightarrow> (\<forall>x\<in>set xs. succeeded x)"
  by (simp add: stops_def)

section \<open>A phase under way\<close>

definition same_context :: "run_state \<Rightarrow> run_state \<Rightarrow> bool" where
  "same_context s0 s \<longleftrightarrow> st_policy s = st_policy s0 \<and> st_req s = st_req s0 \<and> st_sandbox s = st_sandbox s0
     \<and> st_backend s = st_backend s0 \<and> st_caps s = st_caps s0 \<and> st_writer s = st_writer s0
     \<and> st_emitter s = st_emitter s0 \<and> st_resolution s = st_resolution s0"

definition has_run :: "engine_world \<Rightarrow> phase \<Rightarrow> run_state \<Rightarrow> executed list \<Rightarrow> run_state \<Rightarrow> bool" where
  "has_run w ph s0 xs s \<longleftrightarrow> same_context s0 s
     \<and> (\<exists>new. st_trace s = st_trace s0 @ new \<and> (\<forall>a\<in>set new. quiet a \<or> exec_of a \<noteq> None) \<and> execs new = xs)
     \<and> (\<forall>x\<in>set xs. xs_phase (fst x) = ph \<and> allowed w (st_policy s0) x)"

definition kept_exit_code :: "run_state \<Rightarrow> executed list \<Rightarrow> run_state \<Rightarrow> bool" where
  "kept_exit_code s0 xs s \<longleftrightarrow> rr_exit_code (st_result s) = rr_exit_code (st_result s0)
     \<or> (\<exists>x\<in>set xs. rr_exit_code (st_result s) = xres_exit_code (fst (snd x)))"

definition active :: "engine_world \<Rightarrow> phase \<Rightarrow> run_state \<Rightarrow> executed list \<Rightarrow> run_state \<Rightarrow> bool" where
  "active w ph s0 xs s \<longleftrightarrow> has_run w ph s0 xs s \<and> stops xs \<and> kept_exit_code s0 xs s
     \<and> st_phase_results s = st_phase_results s0 \<and> rr_status (st_result s) = rr_status (st_result s0)"

text \<open>The phase result agrees with the result of the run.\<close>

definition reported :: "phase_result \<Rightarrow> run_result \<Rightarrow> bool" where
  "reported p r \<longleftrightarrow> rr_status r = phr_status p \<and> rr_phase r = phr_phase p
     \<and> rr_error_code r = phr_error_code p \<and> rr_error_message r = phr_error_message p
     \<and> rr_exit_code r = phr_exit_code p \<and> rr_timed_out r = phr_timed_out p \<and> rr_signal r = phr_signal p"

definition failed_with :: "phase \<Rightarrow> go_error \<Rightarrow> phase_result \<Rightarrow> bool" where
  "failed_with ph e p \<longleftrightarrow> phr_phase p = ph \<and> phr_status p \<in> {StatusFailed, StatusTimedOut}
     \<and> phr_error_message p = error_string e"

definition gone :: "engine_world \<Rightarrow> phase \<Rightarrow> run_state \<Rightarrow> executed list \<Rightarrow> go_error \<Rightarrow> run_state \<Rightarrow> bool" where
  "gone w ph s0 xs e s \<longleftrightarrow> has_run w ph s0 xs s \<and> stops xs
     \<and> (\<exists>p. st_phase_results s = st_phase_results s0 @ [p] \<and> failed_with ph e p \<and> reported p (st_result s))"

definition finished :: "engine_world \<Rightarrow> phase \<Rightarrow> run_state \<Rightarrow> executed list \<Rightarrow> run_state \<Rightarrow> bool" where
  "finished w ph s0 xs s \<longleftrightarrow> has_run w ph s0 xs s \<and> (\<forall>x\<in>set xs. succeeded x) \<and> kept_exit_code s0 xs s
     \<and> (\<exists>p. st_phase_results s = st_phase_results s0 @ [p] \<and> phr_phase p = ph \<and> phr_status p = StatusSucceeded)
     \<and> rr_status (st_result s) \<in> {rr_status (st_result s0), StatusSucceeded}"

lemma same_context_refl [simp]: "same_context s s"
  by (simp add: same_context_def)

lemma same_context_trans: "same_context s0 s \<Longrightarrow> same_context s s' \<Longrightarrow> same_context s0 s'"
  by (simp add: same_context_def)

lemma same_context_trace [simp]: "same_context s (s\<lparr>st_trace := tr\<rparr>)"
  by (simp add: same_context_def)

lemma has_run_extend:
  assumes run: "has_run w ph s0 xs s" and ctx: "same_context s s'"
    and tr: "st_trace s' = st_trace s @ tail" "\<forall>a\<in>set tail. quiet a \<or> exec_of a \<noteq> None"
    and xs: "\<forall>x\<in>set (execs tail). xs_phase (fst x) = ph \<and> allowed w (st_policy s0) x"
  shows "has_run w ph s0 (xs @ execs tail) s'"
proof -
  from run obtain new where "st_trace s = st_trace s0 @ new"
    and "\<forall>a\<in>set new. quiet a \<or> exec_of a \<noteq> None" and "execs new = xs"
    and c: "same_context s0 s" and ok: "\<forall>x\<in>set xs. xs_phase (fst x) = ph \<and> allowed w (st_policy s0) x"
    unfolding has_run_def by blast
  with tr have "st_trace s' = st_trace s0 @ (new @ tail) \<and> (\<forall>a\<in>set (new @ tail). quiet a \<or> exec_of a \<noteq> None)
      \<and> execs (new @ tail) = xs @ execs tail" by auto
  with same_context_trans [OF c ctx] ok xs show ?thesis unfolding has_run_def by auto
qed

lemma has_run_quiet_tail:
  assumes "has_run w ph s0 xs s" "same_context s s'" "st_trace s' = st_trace s @ tail" "\<forall>a\<in>set tail. quiet a"
  shows "has_run w ph s0 xs s'"
proof -
  from assms(4) have "execs tail = []" by (auto intro: execs_quiet)
  with has_run_extend [OF assms(1-3)] assms(4) show ?thesis by simp
qed

lemma has_run_quiet:
  "has_run w ph s0 xs s \<Longrightarrow> quiet a \<Longrightarrow> has_run w ph s0 xs (s\<lparr>st_trace := st_trace s @ [a]\<rparr>)"
  by (rule has_run_quiet_tail [where tail = "[a]"]) simp_all

lemma has_run_cong:
  "has_run w ph s0 xs s \<Longrightarrow> same_context s s' \<Longrightarrow> st_trace s' = st_trace s \<Longrightarrow> has_run w ph s0 xs s'"
  by (rule has_run_quiet_tail [where tail = "[]"]) simp_all

lemma has_run_exec:
  "has_run w ph s0 xs s \<Longrightarrow> xs_phase spec = ph \<Longrightarrow> allowed w (st_policy s0) (spec, res, err) \<Longrightarrow>
   has_run w ph s0 (xs @ [(spec, res, err)]) (s\<lparr>st_trace := st_trace s @ [AExec ex spec res err]\<rparr>)"
  using has_run_extend [where tail = "[AExec ex spec res err]"] by fastforce

lemma has_run_refl: "has_run w ph s [] s"
  by (simp add: has_run_def same_context_def)

lemma active_refl: "active w ph s [] s"
  by (simp add: active_def has_run_refl stops_def kept_exit_code_def)

text \<open>Steps of the state that the invariant does not see.\<close>

lemma active_cong:
  "active w ph s0 xs s \<Longrightarrow> same_context s s' \<Longrightarrow> st_trace s' = st_trace s \<Longrightarrow>
   st_phase_results s' = st_phase_results s \<Longrightarrow> rr_status (st_result s') = rr_status (st_result s) \<Longrightarrow>
   rr_exit_code (st_result s') = rr_exit_code (st_result s) \<Longrightarrow> active w ph s0 xs s'"
  unfolding active_def kept_exit_code_def by (auto intro: has_run_cong)

lemma active_context: "active w ph s0 xs s \<Longrightarrow> same_context s0 s"
  by (simp add: active_def has_run_def)

lemma active_policy: "active w ph s0 xs s \<Longrightarrow> st_policy s = st_policy s0"
  and active_request: "active w ph s0 xs s \<Longrightarrow> st_req s = st_req s0"
  by (simp_all add: active_def has_run_def same_context_def)

lemma failed_state_simps [simp]:
  "st_phase_results (failed_state ph code e status res s)
     = st_phase_results s @ [failed_phase ph status (errorCodeForErr code e) e res (st_command_class s)]"
  "same_context s (failed_state ph code e status res s)"
  "reported (failed_phase ph status (errorCodeForErr code e) e res (st_command_class s))
     (st_result (failed_state ph code e status res s))"
  by (simp_all add: failed_state_def Let_def same_context_def reported_def failed_phase_def blank_phase_def)

lemma has_run_failed:
  assumes "has_run w ph s0 xs s" shows "has_run w ph s0 xs (failed_state ph code e status res s)"
proof -
  obtain tail where tr: "st_trace (failed_state ph code e status res s) = st_trace s @ tail"
    and q: "\<forall>a\<in>set tail. quiet a"
    by (cases "st_emitter s") (auto simp: failed_state_def Let_def)
  show ?thesis by (rule has_run_quiet_tail [OF assms failed_state_simps(2) tr q])
qed

lemma active_fails:
  assumes "active w ph s0 xs s" "status \<in> {StatusFailed, StatusTimedOut}"
  shows "gone w ph s0 xs e (failed_state ph code e status res s)"
proof -
  have "failed_with ph e (failed_phase ph status (errorCodeForErr code e) e res (st_command_class s))"
    using assms(2) by (auto simp: failed_with_def failed_phase_def blank_phase_def)
  with assms(1) has_run_failed [of w ph s0 xs s code e status res] show ?thesis
    by (simp add: active_def gone_def)
qed

section \<open>The phases\<close>

definition lost :: "engine_world \<Rightarrow> phase \<Rightarrow> run_state \<Rightarrow> go_error \<Rightarrow> run_state \<Rightarrow> bool" where
  "lost w ph s0 e s \<longleftrightarrow> (\<exists>xs. gone w ph s0 xs e s)"

interpretation active: phase_invariant "active w ph s0 xs" "lost w ph s0" ph for w ph s0 xs
proof
  fix s a
  assume "active w ph s0 xs s" "quiet a"
  then show "active w ph s0 xs (s\<lparr>st_trace := st_trace s @ [a]\<rparr>)"
    by (simp add: active_def has_run_quiet kept_exit_code_def)
next
  fix s status e code res
  assume "active w ph s0 xs s" "status \<in> {StatusFailed, StatusTimedOut}"
  then show "lost w ph s0 e (failed_state ph code e status res s)"
    unfolding lost_def by (blast intro: active_fails)
qed

text \<open>Assignments that the invariant does not see.\<close>

lemma active_modify:
  assumes "\<And>s. same_context s (f s)" "\<And>s. st_trace (f s) = st_trace s"
    "\<And>s. st_phase_results (f s) = st_phase_results s" "\<And>s. st_result (f s) = st_result s"
  shows "steady (active w ph s0 xs) E (modify f)"
  using assms by (intro valid_modify) (auto intro: active_cong)

lemmas active_steps = active.note_action active.performs active.emits active.if_emitters active.starts
  active.ends active.checks active.needs active_modify triples

lemma write_document_active: "steady (active w ph s0 xs) (lost w ph s0) (write_document w' d)"
  unfolding write_document_def by (intro active_steps) auto

lemma write_checked_active: "steady (active w ph s0 xs) (lost w ph s0) (write_checked w' ph code d)"
  unfolding write_checked_def by (intro active_steps write_document_active)

lemma recordCommand_active: "steady (active w ph s0 xs) (lost w ph s0) (recordCommand w' p c r)"
  unfolding recordCommand_def by (intro active_steps) (auto intro!: active_steps)

lemma OnLog_active: "steady (active w ph s0 xs) (lost w ph s0) (OnLog l)"
  unfolding OnLog_def Let_def by (intro active_steps) (auto intro!: active_steps)

lemma new_executor_active: "steady (active w ph s0 xs) (lost w ph s0) (new_executor w' ph code)"
  unfolding new_executor_def by (intro active_steps) (auto simp: same_context_def)

lemma ensure_executor_active: "steady (active w ph s0 xs) (lost w ph s0) (ensure_executor w' ph code)"
  unfolding ensure_executor_def by (intro active_steps new_executor_active)

text \<open>
  Handing a command to the executor: it has to be allowed, and every command before it to have
  succeeded.
\<close>

lemma run_executor_active:
  assumes "xs_phase spec = ph" "CheckCommand (ew_shlex w) (st_policy s0) ph (xs_command spec) = None"
    "\<forall>x\<in>set xs. succeeded x"
  shows "valid (active w ph s0 xs) (run_executor w ex spec)
    (\<lambda>r. active w ph s0 (xs @ [(spec, fst r, snd r)])) (lost w ph s0)"
proof -
  have exec: "valid (active w ph s0 xs) (perform (\<lambda>tr. executor_Run (ew_host w) (ew_exec w tr) ex spec)
      (\<lambda>(res, err, logs). AExec ex spec res err))
      (\<lambda>(res, err, logs). active w ph s0 (xs @ [(spec, res, err)])) E" for E
  proof (rule valid_perform)
    fix s assume a: "active w ph s0 xs s"
    obtain res err logs where r: "executor_Run (ew_host w) (ew_exec w (st_trace s)) ex spec = (res, err, logs)"
      by (cases "executor_Run (ew_host w) (ew_exec w (st_trace s)) ex spec")
    have "has_run w ph s0 (xs @ [(spec, res, err)]) (s\<lparr>st_trace := st_trace s @ [AExec ex spec res err]\<rparr>)"
      using a assms by (intro has_run_exec) (auto simp: active_def allowed_def)
    then show "(case executor_Run (ew_host w) (ew_exec w (st_trace s)) ex spec of
        (res, err, logs) \<Rightarrow> active w ph s0 (xs @ [(spec, res, err)]))
          (s\<lparr>st_trace := st_trace s @ [case executor_Run (ew_host w) (ew_exec w (st_trace s)) ex spec of
             (res, err, logs) \<Rightarrow> AExec ex spec res err]\<rparr>)"
      using a assms(3) by (auto simp: r active_def kept_exit_code_def)
  qed
  show ?thesis unfolding run_executor_def
  proof (rule valid_andThen [OF exec])
    fix r :: "exec_result \<times> go_error option \<times> structured_log list"
    obtain res err logs where r: "r = (res, err, logs)" by (cases r)
    have "valid (active w ph s0 (xs @ [(spec, res, err)])) (andThen (block (map OnLog logs)) (\<lambda>_. ret (res, err)))
        (\<lambda>r. active w ph s0 (xs @ [(spec, fst r, snd r)])) (lost w ph s0)"
      by (rule valid_andThen [where R = "\<lambda>_. active w ph s0 (xs @ [(spec, res, err)])"])
        (auto intro!: steady_block OnLog_active valid_ret)
    then show "valid (case r of (res, err, logs) \<Rightarrow> active w ph s0 (xs @ [(spec, res, err)]))
      (case r of (res, err, logs) \<Rightarrow> andThen (block (map OnLog logs)) (\<lambda>_. ret (res, err)))
      (\<lambda>r. active w ph s0 (xs @ [(spec, fst r, snd r)])) (lost w ph s0)" by (simp add: r)
  qed
qed

lemma run_recorded_active:
  assumes "xs_phase spec = ph" "CheckCommand (ew_shlex w) (st_policy s0) ph (xs_command spec) = None"
    "\<forall>x\<in>set xs. succeeded x"
  shows "valid (active w ph s0 xs) (run_recorded w ex spec)
    (\<lambda>r. active w ph s0 (xs @ [(spec, fst r, snd r)])) (lost w ph s0)"
  unfolding run_recorded_def
  by (rule valid_andThen [OF run_executor_active [OF assms]])
    (auto intro!: valid_andThen [OF recordCommand_active] valid_ret)

lemma run_recorded_then:
  assumes "xs_phase spec = ph" "CheckCommand (ew_shlex w) (st_policy s0) ph (xs_command spec) = None"
    "\<forall>x\<in>set xs. succeeded x"
    and k: "\<And>res err. valid (active w ph s0 (xs @ [(spec, res, err)])) (k res err) Q (lost w ph s0)"
  shows "valid (active w ph s0 xs) (andThen (run_recorded w ex spec) (\<lambda>(res, err). k res err)) Q (lost w ph s0)"
proof (rule valid_andThen [OF run_recorded_active [OF assms(1-3)]])
  fix r :: "exec_result \<times> go_error option"
  obtain res err where r: "r = (res, err)" by (cases r)
  show "valid (active w ph s0 (xs @ [(spec, fst r, snd r)])) (case r of (res, err) \<Rightarrow> k res err) Q (lost w ph s0)"
    using k [of res err] by (simp only: r fst_conv snd_conv prod.case)
qed

section \<open>Setup\<close>

lemma setup_steps_active:
  assumes "\<forall>x\<in>set xs. succeeded x"
  shows "valid (active w PhaseSetup s0 xs) (setup_steps w ex steps)
    (\<lambda>_ s. \<exists>ys. active w PhaseSetup s0 ys s \<and> (\<forall>x\<in>set ys. succeeded x)
       \<and> map (\<lambda>x. xs_command (fst x)) ys = map (\<lambda>x. xs_command (fst x)) xs @ map step_cmd steps)
    (lost w PhaseSetup s0)"
  using assms
proof (induction steps arbitrary: xs)
  case Nil
  then show ?case by (auto intro!: valid_ret)
next
  case (Cons step steps)
  let ?cmds = "map (\<lambda>x. xs_command (fst x))"
  let ?Q = "\<lambda>_ s. \<exists>ys. active w PhaseSetup s0 ys s \<and> (\<forall>x\<in>set ys. succeeded x)
       \<and> ?cmds ys = ?cmds xs @ map step_cmd (step # steps)"
  show ?case unfolding setup_steps.simps
  proof (rule valid_with_state, rule valid_weaken [where P' = "active w PhaseSetup s0 xs"])
    fix s assume "active w PhaseSetup s0 xs s"
    then have pol: "st_policy s = st_policy s0" by (rule active_policy)
    let ?spec = "\<lambda>secrets. spec_for w s PhaseSetup (step_cmd step)
        (buildPhaseEnv (ew_host w) (st_cfg s) False secrets)"
    have spec: "xs_phase (?spec secrets) = PhaseSetup" "xs_command (?spec secrets) = step_cmd step" for secrets
      by (simp_all add: spec_for_def Let_def)
    have after: "valid (active w PhaseSetup s0 (xs @ [(?spec secrets, res, err)]))
        (case commandError (step_cmd step) res err of
           Some e \<Rightarrow> failPhaseWithStatus PhaseSetup ErrorCodeSetupFailed e StatusFailed res
         | None \<Rightarrow> setup_steps w ex steps) ?Q (lost w PhaseSetup s0)" for secrets res err
    proof (rule valid_option)
      assume "commandError (step_cmd step) res err = None"
      with Cons.prems have "\<forall>x\<in>set (xs @ [(?spec secrets, res, err)]). succeeded x"
        by (auto simp: succeeded_def spec)
      from Cons.IH [OF this] show "valid (active w PhaseSetup s0 (xs @ [(?spec secrets, res, err)]))
          (setup_steps w ex steps) ?Q (lost w PhaseSetup s0)" by (simp add: spec)
    qed (rule active.fails_status, simp)
    show "valid (active w PhaseSetup s0 xs)
      (andThen (check PhaseSetup ErrorCodePolicyToolDeny
         (CheckCommand (ew_shlex w) (st_policy s) PhaseSetup (step_cmd step))) (\<lambda>_.
       andThen (need PhaseSetup ErrorCodePolicySecretDeny
         (ResolveSecrets (ew_host w) (st_policy s) PhaseSetup)) (\<lambda>secrets.
       andThen (run_recorded w ex (?spec secrets)) (\<lambda>(result, err).
         case commandError (step_cmd step) result err of
           Some e \<Rightarrow> failPhaseWithStatus PhaseSetup ErrorCodeSetupFailed e StatusFailed result
         | None \<Rightarrow> setup_steps w ex steps)))) ?Q (lost w PhaseSetup s0)"
    proof (rule active.check_then, rule valid_andThen [OF active.needs], rule run_recorded_then)
      fix secrets
      assume "CheckCommand (ew_shlex w) (st_policy s) PhaseSetup (step_cmd step) = None"
      then show "CheckCommand (ew_shlex w) (st_policy s0) PhaseSetup (xs_command (?spec secrets)) = None"
        by (simp add: spec pol)
    qed (use Cons.prems spec after in simp_all)
  qed simp_all
qed

text \<open>Ending a phase that has succeeded: its result is appended, and the result of the run may be marked.\<close>

lemma finished_quiet:
  "finished w ph s0 xs s \<Longrightarrow> quiet a \<Longrightarrow> finished w ph s0 xs (s\<lparr>st_trace := st_trace s @ [a]\<rparr>)"
  by (simp add: finished_def has_run_quiet kept_exit_code_def)

lemma endPhase_finished: "steady (finished w ph s0 xs) E (endPhase p r)"
  unfolding endPhase_def if_emitter_def
  by (intro triples valid_note_action) (auto intro: finished_quiet)

lemma finish_active:
  assumes "\<forall>x\<in>set xs. succeeded x" "phr_phase r = ph" "phr_status r = StatusSucceeded"
    and f: "\<And>x. rr_exit_code (f x) = rr_exit_code x"
      "\<And>x. rr_status (f x) = rr_status x \<or> rr_status (f x) = StatusSucceeded"
  shows "valid (active w ph s0 xs) (block [add_phase_result r, set_result f, endPhase p q])
    (\<lambda>_. finished w ph s0 xs) E"
proof -
  have "valid (active w ph s0 xs) (andThen (add_phase_result r) (\<lambda>_. set_result f)) (\<lambda>_. finished w ph s0 xs) E"
  proof -
    have "finished w ph s0 xs (s\<lparr>st_phase_results := st_phase_results s @ [r], st_result := f (st_result s)\<rparr>)"
      if a: "active w ph s0 xs s" for s
    proof -
      let ?s = "s\<lparr>st_phase_results := st_phase_results s @ [r], st_result := f (st_result s)\<rparr>"
      have "has_run w ph s0 xs ?s"
        by (rule has_run_cong [of w ph s0 xs s]) (use a in \<open>simp_all add: active_def same_context_def\<close>)
      with a assms f(2) [of "st_result s"] show ?thesis
        by (auto simp: finished_def active_def kept_exit_code_def)
    qed
    then show ?thesis
      by (simp add: valid_def andThen_def add_phase_result_def set_result_def modify_def)
  qed
  then have "valid (active w ph s0 xs)
      (andThen (andThen (add_phase_result r) (\<lambda>_. set_result f)) (\<lambda>_. endPhase p q)) (\<lambda>_. finished w ph s0 xs) E"
    by (rule valid_andThen) (rule endPhase_finished)
  then show ?thesis
    by (simp add: valid_def andThen_def add_phase_result_def set_result_def modify_def ret_def
        split: prod.splits sum.splits)
qed

definition phase_done :: "engine_world \<Rightarrow> phase \<Rightarrow> bool \<Rightarrow> run_state \<Rightarrow> run_state \<Rightarrow> bool" where
  "phase_done w ph enabled s0 s \<longleftrightarrow> (if enabled then (\<exists>xs. finished w ph s0 xs s) else s = s0)"

lemma make_plan_active: "steady (active w PhaseSetup s0 xs) (lost w PhaseSetup s0) (make_plan w)"
  unfolding make_plan_def Let_def
  by (intro active_steps write_checked_active)
    (auto intro!: active_steps write_checked_active simp: same_context_def)

lemma setup_finish_active:
  assumes "\<forall>x\<in>set xs. succeeded x"
  shows "valid (active w PhaseSetup s0 xs) (setup_finish plan) (\<lambda>_ s. phase_done w PhaseSetup True s0 s) E"
proof -
  have id: "block [add_phase_result r, endPhase PhaseSetup r]
      = block [add_phase_result r, set_result (\<lambda>x. x), endPhase PhaseSetup r]" for r
    by (simp add: andThen_def add_phase_result_def set_result_def modify_def ret_def)
  show ?thesis unfolding setup_finish_def Let_def id
    by (rule valid_with_state, rule valid_weaken [OF finish_active [OF assms]])
      (auto simp: phase_done_def successPhase_def blank_phase_def)
qed

lemma setup_steps_finish:
  "valid (active w PhaseSetup s0 []) (andThen (setup_steps w ex steps) (\<lambda>_. setup_finish plan))
     (\<lambda>_. phase_done w PhaseSetup True s0) (lost w PhaseSetup s0)"
proof (rule valid_andThen [OF setup_steps_active], simp)
  fix u :: unit
  show "valid (\<lambda>s. \<exists>ys. active w PhaseSetup s0 ys s \<and> (\<forall>x\<in>set ys. succeeded x)
      \<and> map (\<lambda>x. xs_command (fst x)) ys = map (\<lambda>x. xs_command (fst x)) [] @ map step_cmd steps)
     (setup_finish plan) (\<lambda>_. phase_done w PhaseSetup True s0) (lost w PhaseSetup s0)"
    by (intro valid_exists valid_pure) (auto intro: setup_finish_active)
qed

lemma runSetup_valid:
  "valid (\<lambda>s. s = s0) (runSetup w)
     (\<lambda>_. phase_done w PhaseSetup (pc_enabled (phs_setup (cfg_phases (st_cfg s0)))) s0)
     (lost w PhaseSetup s0)"
  unfolding runSetup_def
proof (rule valid_with_state)
  fix s assume s: "s = s0"
  let ?E = "lost w PhaseSetup s0"
  have on: "valid (\<lambda>s. s = s0) (andThen (startPhase PhaseSetup) (\<lambda>_.
      andThen (need PhaseSetup ErrorCodePolicyNetDeny (ResolveNetworkProfile (st_policy s) PhaseSetup)) (\<lambda>_.
      andThen (make_plan w) (\<lambda>plan.
      andThen (new_executor w PhaseSetup ErrorCodeSetupFailed) (\<lambda>ex.
      andThen (setup_steps w ex (plan_steps plan)) (\<lambda>_. setup_finish plan))))))
      (\<lambda>_. phase_done w PhaseSetup True s0) ?E"
    by (rule valid_weaken [where P' = "active w PhaseSetup s0 []"],
        rule valid_andThen [OF active.starts], rule valid_andThen [OF active.needs],
        rule valid_andThen [OF make_plan_active], rule valid_andThen [OF new_executor_active],
        rule setup_steps_finish) (auto intro: active_refl)
  show "valid (\<lambda>s'. s' = s)
     (if \<not> pc_enabled (phs_setup (cfg_phases (st_cfg s))) then ret ()
      else andThen (startPhase PhaseSetup) (\<lambda>_.
      andThen (need PhaseSetup ErrorCodePolicyNetDeny (ResolveNetworkProfile (st_policy s) PhaseSetup)) (\<lambda>_.
      andThen (make_plan w) (\<lambda>plan.
      andThen (new_executor w PhaseSetup ErrorCodeSetupFailed) (\<lambda>ex.
      andThen (setup_steps w ex (plan_steps plan)) (\<lambda>_. setup_finish plan))))))
     (\<lambda>_. phase_done w PhaseSetup (pc_enabled (phs_setup (cfg_phases (st_cfg s0)))) s0) ?E"
    using on by (auto simp: s phase_done_def intro: valid_ret)
qed

section \<open>Execute\<close>

lemma set_exit_code_active:
  assumes "(spec, res, err) \<in> set xs" "\<And>x. rr_status (f x) = rr_status x"
    "\<And>x. rr_exit_code (f x) = xres_exit_code res"
  shows "steady (active w ph s0 xs) E (set_result f)"
  unfolding set_result_def
proof (rule valid_modify)
  fix s assume a: "active w ph s0 xs s"
  have "has_run w ph s0 xs (s\<lparr>st_result := f (st_result s)\<rparr>)"
    by (rule has_run_cong [of w ph s0 xs s]) (use a in \<open>simp_all add: active_def same_context_def\<close>)
  moreover have "kept_exit_code s0 xs (s\<lparr>st_result := f (st_result s)\<rparr>)"
    unfolding kept_exit_code_def using assms(1,3) by (intro disjI2 bexI [of _ "(spec, res, err)"]) simp_all
  ultimately show "active w ph s0 xs (s\<lparr>st_result := f (st_result s)\<rparr>)"
    using a assms(2) by (simp add: active_def)
qed

lemma execute_finish_active:
  assumes "\<forall>x\<in>set xs. succeeded x"
  shows "valid (active w PhaseExecute s0 xs) (execute_finish cfg res)
    (\<lambda>_. phase_done w PhaseExecute True s0) E"
  unfolding execute_finish_def Let_def
  by (rule valid_with_state, rule valid_weaken [OF finish_active [OF assms]])
    (auto simp: phase_done_def successPhaseWithExec_def blank_phase_def)

lemma execute_command_active:
  assumes "CheckCommand (ew_shlex w) (st_policy s0) PhaseExecute command = None"
  shows "valid (active w PhaseExecute s0 []) (execute_command w command m)
    (\<lambda>_. phase_done w PhaseExecute True s0) (lost w PhaseExecute s0)"
  unfolding execute_command_def Let_def
proof (rule valid_andThen [OF ensure_executor_active], rule valid_with_state,
    rule valid_weaken [where P' = "active w PhaseExecute s0 []"])
  fix ex s assume "active w PhaseExecute s0 [] s"
  let ?spec = "spec_for w s PhaseExecute command m"
  have spec: "xs_phase ?spec = PhaseExecute" "xs_command ?spec = command"
    by (simp_all add: spec_for_def Let_def)
  show "valid (active w PhaseExecute s0 [])
    (andThen (modify (\<lambda>s. s\<lparr>st_command_class := xs_command_class ?spec\<rparr>)) (\<lambda>_.
     andThen (run_recorded w ex ?spec) (\<lambda>(result, err).
     andThen (set_result (\<lambda>x. x\<lparr>rr_command_class := xs_command_class ?spec,
          rr_exit_code := xres_exit_code result,
          rr_metadata := AList.update ''execution_target'' (MetaTarget (xres_target result)) (rr_metadata x)\<rparr>)) (\<lambda>_.
     case commandError command result err of
       Some e \<Rightarrow>
         if timed_out_exec result err
         then failPhaseWithStatus PhaseExecute ErrorCodeTimeout e StatusTimedOut result
         else failPhaseWithStatus PhaseExecute ErrorCodeExecuteFailed e StatusFailed result
     | None \<Rightarrow> execute_finish (xs_run_config ?spec) result))))
    (\<lambda>_. phase_done w PhaseExecute True s0) (lost w PhaseExecute s0)"
  proof (rule valid_andThen [OF active_modify], simp_all add: same_context_def, rule run_recorded_then)
    fix result :: exec_result and err :: "go_error option"
    let ?xs = "[] @ [(?spec, result, err)]"
    show "valid (active w PhaseExecute s0 ?xs)
      (andThen (set_result (\<lambda>x. x\<lparr>rr_command_class := xs_command_class ?spec,
          rr_exit_code := xres_exit_code result,
          rr_metadata := AList.update ''execution_target'' (MetaTarget (xres_target result)) (rr_metadata x)\<rparr>)) (\<lambda>_.
       case commandError command result err of
         Some e \<Rightarrow>
           if timed_out_exec result err
           then failPhaseWithStatus PhaseExecute ErrorCodeTimeout e StatusTimedOut result
           else failPhaseWithStatus PhaseExecute ErrorCodeExecuteFailed e StatusFailed result
       | None \<Rightarrow> execute_finish (xs_run_config ?spec) result))
      (\<lambda>_. phase_done w PhaseExecute True s0) (lost w PhaseExecute s0)"
    proof (rule valid_andThen [OF set_exit_code_active [of ?spec result err]], simp_all, rule valid_option)
      assume "commandError command result err = None"
      then show "valid (active w PhaseExecute s0 [(?spec, result, err)])
          (execute_finish (xs_run_config ?spec) result)
          (\<lambda>_. phase_done w PhaseExecute True s0) (lost w PhaseExecute s0)"
        by (intro execute_finish_active) (simp add: succeeded_def spec)
    qed (intro triples active.fails_status; simp)
  qed (use assms spec in simp_all)
qed simp_all

lemma runExecute_valid:
  "valid (\<lambda>s. s = s0) (runExecute w)
     (\<lambda>_. phase_done w PhaseExecute (pc_enabled (phs_execute (cfg_phases (st_cfg s0)))) s0)
     (lost w PhaseExecute s0)"
  unfolding runExecute_def Let_def
proof (rule valid_with_state, rule valid_if)
  fix s assume "s = s0" "\<not> pc_enabled (phs_execute (cfg_phases (st_cfg s)))"
  then show "valid (\<lambda>s'. s' = s) (ret ())
      (\<lambda>_. phase_done w PhaseExecute (pc_enabled (phs_execute (cfg_phases (st_cfg s0)))) s0)
      (lost w PhaseExecute s0)"
    by (intro valid_ret) (simp add: phase_done_def)
next
  fix s assume s: "s = s0" and on: "\<not> \<not> pc_enabled (phs_execute (cfg_phases (st_cfg s)))"
  show "valid (\<lambda>s'. s' = s) (andThen (startPhase PhaseExecute) (\<lambda>_.
       if rs_command (cfg_run (st_cfg s)) = [] then
         failPhase PhaseExecute ErrorCodeConfigInvalid (ErrorText ''no command provided'')
       else
         andThen (need PhaseExecute ErrorCodePolicyNetDeny (ResolveNetworkProfile (st_policy s) PhaseExecute)) (\<lambda>_.
         andThen (need PhaseExecute ErrorCodePolicySecretDeny
           (ResolveSecrets (ew_host w) (st_policy s) PhaseExecute)) (\<lambda>secrets.
         andThen (need PhaseExecute ErrorCodeExecuteFailed
           (Resolve NewRegistry (rs_language (cfg_run (st_cfg s))) (rs_command (cfg_run (st_cfg s)))
             (buildPhaseEnv (ew_host w) (st_cfg s) True secrets))) (\<lambda>a.
         case adapter_Rewrite a (rs_command (cfg_run (st_cfg s)))
             (buildPhaseEnv (ew_host w) (st_cfg s) True secrets) (st_cfg s) of (command, m) \<Rightarrow>
         andThen (check PhaseExecute ErrorCodePolicyToolDeny
           (CheckCommand (ew_shlex w) (st_policy s) PhaseExecute command)) (\<lambda>_.
         execute_command w command m))))))
      (\<lambda>_. phase_done w PhaseExecute (pc_enabled (phs_execute (cfg_phases (st_cfg s0)))) s0)
      (lost w PhaseExecute s0)"
    by (rule valid_weaken [where P' = "active w PhaseExecute s0 []" and Q' = "\<lambda>_. phase_done w PhaseExecute True s0"],
        (rule valid_andThen [OF active.starts] valid_if active.fails_phase valid_andThen [OF active.needs]
           valid_prod active.check_then execute_command_active)+)
      (use on s in \<open>auto intro: active_refl\<close>)
qed

section \<open>Verify\<close>

lemma download_all_active: "steady (active w PhaseVerify s0 xs) (lost w PhaseVerify s0) (download_all d cfg i es)"
proof (induction es)
  case (Cons e es)
  then show ?case unfolding download_all.simps Let_def
    by (cases "download_paths cfg e") (auto intro!: active_steps)
qed (auto intro: valid_ret)

lemma downloadExpectedArtifacts_active:
  "steady (active w PhaseVerify s0 xs) (lost w PhaseVerify s0) downloadExpectedArtifacts"
  unfolding downloadExpectedArtifacts_def Let_def by (intro triples download_all_active)

lemma verify_artifacts_active:
  "steady (active w PhaseVerify s0 xs) (lost w PhaseVerify s0) (verify_artifacts w' dir es)"
proof (induction es)
  case (Cons e es)
  then show ?case unfolding verify_artifacts.simps Let_def
    by (auto intro!: active_steps active.fails_phase)
qed (auto intro: valid_ret)

lemma verify_smoke_active:
  "valid (active w PhaseVerify s0 []) (verify_smoke w command)
    (\<lambda>_ s. \<exists>ys. active w PhaseVerify s0 ys s \<and> (\<forall>x\<in>set ys. succeeded x)) (lost w PhaseVerify s0)"
  unfolding verify_smoke_def
proof (rule valid_if)
  show "valid (active w PhaseVerify s0 []) (ret ())
    (\<lambda>_ s. \<exists>ys. active w PhaseVerify s0 ys s \<and> (\<forall>x\<in>set ys. succeeded x)) (lost w PhaseVerify s0)"
    by (intro valid_ret) (auto intro: exI [of _ "[]"])
next
  show "valid (active w PhaseVerify s0 []) (with_state (\<lambda>s.
        andThen (check PhaseVerify ErrorCodePolicyToolDeny
          (CheckCommand (ew_shlex w) (st_policy s) PhaseVerify command)) (\<lambda>_.
        andThen (ensure_executor w PhaseVerify ErrorCodeVerifyFailed) (\<lambda>ex.
        andThen (need PhaseVerify ErrorCodePolicySecretDeny
          (ResolveSecrets (ew_host w) (st_policy s) PhaseVerify)) (\<lambda>secrets.
        andThen (run_recorded w ex (spec_for w s PhaseVerify command
          (buildPhaseEnv (ew_host w) (st_cfg s) False secrets))) (\<lambda>(result, err).
        case commandError command result err of
          Some e \<Rightarrow> failPhaseWithStatus PhaseVerify ErrorCodeVerifyFailed e StatusFailed result
        | None \<Rightarrow> ret ()))))))
    (\<lambda>_ s. \<exists>ys. active w PhaseVerify s0 ys s \<and> (\<forall>x\<in>set ys. succeeded x)) (lost w PhaseVerify s0)"
    (is "valid _ _ ?Q ?E")
  proof (rule valid_with_state, rule valid_weaken [where P' = "active w PhaseVerify s0 []"],
      rule active.check_then, rule valid_andThen [OF ensure_executor_active],
      rule valid_andThen [OF active.needs], rule run_recorded_then)
    fix s secrets
    assume "active w PhaseVerify s0 [] s" "CheckCommand (ew_shlex w) (st_policy s) PhaseVerify command = None"
    then show "CheckCommand (ew_shlex w) (st_policy s0) PhaseVerify (xs_command (spec_for w s PhaseVerify command
          (buildPhaseEnv (ew_host w) (st_cfg s) False secrets))) = None"
      by (simp add: spec_for_def Let_def active_policy)
  next
    fix s secrets and result :: exec_result and err :: "go_error option"
    let ?x = "(spec_for w s PhaseVerify command (buildPhaseEnv (ew_host w) (st_cfg s) False secrets), result, err)"
    show "valid (active w PhaseVerify s0 ([] @ [?x]))
      (case commandError command result err of
          Some e \<Rightarrow> failPhaseWithStatus PhaseVerify ErrorCodeVerifyFailed e StatusFailed result
        | None \<Rightarrow> ret ()) ?Q ?E"
    proof (rule valid_option)
      assume "commandError command result err = None"
      then have "succeeded ?x" by (simp add: succeeded_def spec_for_def Let_def)
      then show "valid (active w PhaseVerify s0 ([] @ [?x])) (ret ()) ?Q ?E"
        by (intro valid_ret) (auto intro!: exI [of _ "[?x]"])
    qed (rule active.fails_status, simp)
  qed (simp_all add: spec_for_def Let_def)
qed

lemma verify_finish_active:
  assumes "\<forall>x\<in>set xs. succeeded x"
  shows "valid (active w PhaseVerify s0 xs) (verify_finish cfg) (\<lambda>_. phase_done w PhaseVerify True s0) E"
  unfolding verify_finish_def Let_def
  by (rule valid_weaken [OF finish_active [OF assms]])
    (auto simp: phase_done_def successPhase_def blank_phase_def)

lemma runVerify_valid:
  "valid (\<lambda>s. s = s0) (runVerify w)
     (\<lambda>_. phase_done w PhaseVerify (pc_enabled (phs_verify (cfg_phases (st_cfg s0)))) s0)
     (lost w PhaseVerify s0)"
  unfolding runVerify_def Let_def
proof (rule valid_with_state, rule valid_if)
  fix s assume "s = s0" "\<not> pc_enabled (phs_verify (cfg_phases (st_cfg s)))"
  then show "valid (\<lambda>s'. s' = s) (ret ())
      (\<lambda>_. phase_done w PhaseVerify (pc_enabled (phs_verify (cfg_phases (st_cfg s0)))) s0)
      (lost w PhaseVerify s0)"
    by (intro valid_ret) (simp add: phase_done_def)
next
  fix s assume s: "s = s0" and on: "\<not> \<not> pc_enabled (phs_verify (cfg_phases (st_cfg s)))"
  let ?cfg = "st_cfg s" let ?verify = "phs_verify (cfg_phases ?cfg)"
  let ?rest = "\<lambda>_. andThen downloadExpectedArtifacts (\<lambda>err.
       andThen (check PhaseVerify ErrorCodeSandboxDownloadFailed err) (\<lambda>_.
       andThen (verify_artifacts w (rs_artifact_dir (cfg_run ?cfg)) (pc_expected_artifacts ?verify)) (\<lambda>_.
       verify_finish ?cfg)))"
  have rest: "valid (\<lambda>s. \<exists>ys. active w PhaseVerify s0 ys s \<and> (\<forall>x\<in>set ys. succeeded x)) (?rest u)
      (\<lambda>_. phase_done w PhaseVerify True s0) (lost w PhaseVerify s0)" for u :: unit
    by (rule valid_exists, rule valid_pure, rule valid_andThen [OF downloadExpectedArtifacts_active],
        rule valid_andThen [OF active.checks], rule valid_andThen [OF verify_artifacts_active],
        rule verify_finish_active)
  show "valid (\<lambda>s'. s' = s) (andThen (startPhase PhaseVerify) (\<lambda>_.
       andThen (check PhaseVerify ErrorCodePolicyNetDeny
         (case ResolveNetworkProfile (st_policy s) PhaseVerify of
            Inl e \<Rightarrow> if pc_network_profile ?verify \<noteq> [] then Some e else None
          | Inr _ \<Rightarrow> None)) (\<lambda>_.
       andThen (verify_smoke w (pc_smoke_command ?verify)) ?rest)))
      (\<lambda>_. phase_done w PhaseVerify (pc_enabled (phs_verify (cfg_phases (st_cfg s0)))) s0)
      (lost w PhaseVerify s0)"
    by (rule valid_weaken [where P' = "active w PhaseVerify s0 []" and Q' = "\<lambda>_. phase_done w PhaseVerify True s0"],
        rule valid_andThen [OF active.starts], rule valid_andThen [OF active.checks],
        rule valid_andThen [OF verify_smoke_active], rule rest)
      (use on s in \<open>auto intro: active_refl\<close>)
qed

end
