(* ===== verification/Engine_Prepare_Facts.thy ===== *)
theory Engine_Prepare_Facts
  imports Engine_Facts
begin

text \<open>
  What the phase prepare leaves behind. Until the artifact directory is open nothing has happened but
  probing and making directories (\<open>untouched\<close>, \<open>given_up\<close>). From then on the run has the policy it was
  asked to have, has executed and cleaned up nothing, and knows the sandbox it has created (\<open>based\<close>).
\<close>

section \<open>Created sandboxes and cleanups in a history\<close>

fun created_of :: "action \<Rightarrow> sandbox_info option" where
  "created_of (ACreate req r) = (case r of Inr info \<Rightarrow> Some info | Inl _ \<Rightarrow> None)"
| "created_of a = None"

fun created :: "trace \<Rightarrow> sandbox_info list" where
  "created [] = []"
| "created (a # tr) = (case created_of a of None \<Rightarrow> created tr | Some info \<Rightarrow> info # created tr)"

fun is_cleanup :: "action \<Rightarrow> bool" where
  "is_cleanup (APause i) = True"
| "is_cleanup (ADelete i) = True"
| "is_cleanup a = False"

definition cleanups :: "trace \<Rightarrow> trace" where
  "cleanups tr = filter is_cleanup tr"

lemma created_append [simp]: "created (tr @ tr') = created tr @ created tr'"
  by (induction tr) (auto split: option.splits)

lemma cleanups_append [simp]: "cleanups (tr @ tr') = cleanups tr @ cleanups tr'"
  by (simp add: cleanups_def)

lemma cleanups_simps [simp]:
  "cleanups [] = []" "cleanups (a # tr) = (if is_cleanup a then a # cleanups tr else cleanups tr)"
  by (simp_all add: cleanups_def)

lemma quiet_created_of [simp]: "quiet a \<Longrightarrow> created_of a = None"
  and quiet_cleanup [simp]: "quiet a \<Longrightarrow> \<not> is_cleanup a"
  by (cases a; auto)+

lemma exec_created_of [simp]: "exec_of a \<noteq> None \<Longrightarrow> created_of a = None"
  and exec_cleanup [simp]: "exec_of a \<noteq> None \<Longrightarrow> \<not> is_cleanup a"
  by (cases a; auto)+

lemma quiet_or_exec_tail:
  assumes "\<forall>a\<in>set tr. quiet a \<or> exec_of a \<noteq> None"
  shows "created tr = []" "cleanups tr = []"
  using assms by (induction tr) (auto split: option.splits)

section \<open>Before the artifact directory is open\<close>

fun early_action :: "action \<Rightarrow> bool" where
  "early_action (AProbe ex) = True"
| "early_action (AMkdir p) = True"
| "early_action a = False"

definition untouched :: "policy_config \<Rightarrow> run_state \<Rightarrow> bool" where
  "untouched pol s \<longleftrightarrow> st_writer s = None \<and> \<not> st_emitter s \<and> st_backend s = None \<and> st_sandbox s = zero_sandbox_info
     \<and> st_phase_results s = [] \<and> rr_status (st_result s) = StatusCreated \<and> rr_exit_code (st_result s) = 0
     \<and> rr_phase_results (st_result s) = [] \<and> rq_policy (st_req s) = pol \<and> (\<forall>a\<in>set (st_trace s). early_action a)"

definition given_up :: "go_error \<Rightarrow> run_state \<Rightarrow> bool" where
  "given_up e s \<longleftrightarrow> st_writer s = None \<and> \<not> st_emitter s \<and> st_phase_results s = []
     \<and> rr_status (st_result s) = StatusFailed \<and> rr_phase (st_result s) = PhasePrepare
     \<and> rr_exit_code (st_result s) = 0 \<and> rr_error_message (st_result s) = error_string e
     \<and> rr_phase_results (st_result s) = [] \<and> (\<forall>a\<in>set (st_trace s). early_action a)"

lemma untouched_initial: "untouched (rq_policy req) (initial_state req)"
  by (simp add: untouched_def initial_state_def initial_result_def)

lemma failWithoutArtifacts_untouched: "valid (untouched pol) (failWithoutArtifacts PhasePrepare code e) Q given_up"
  unfolding failWithoutArtifacts_def set_result_def
  by (rule valid_andThen [where R = "\<lambda>_. given_up e"]) (auto intro!: valid_modify valid_throw
      simp: untouched_def given_up_def)

lemma need_early_untouched: "steady (untouched pol) given_up (need_early PhasePrepare code r)"
  unfolding need_early_def by (intro triples failWithoutArtifacts_untouched)

lemma check_early_untouched: "steady (untouched pol) given_up (check_early PhasePrepare code r)"
  unfolding check_early_def by (intro triples failWithoutArtifacts_untouched)

lemma perform_untouched: "(\<And>x. early_action (act x)) \<Longrightarrow> steady (untouched pol) E (perform f act)"
  by (rule valid_perform) (simp add: untouched_def)

lemmas probe_untouched = perform_untouched [where act = "\<lambda>_. AProbe ex", simplified] for ex
lemmas mkdir_untouched = perform_untouched [where act = "\<lambda>_. AMkdir p", simplified] for p

lemma modify_untouched:
  "(\<And>s. untouched pol s \<Longrightarrow> untouched pol (f s)) \<Longrightarrow> steady (untouched pol) E (modify f)"
  by (rule valid_modify)

lemmas early_steps = need_early_untouched check_early_untouched failWithoutArtifacts_untouched
  perform_untouched modify_untouched triples

text \<open>The state of the request follows the local variable \<open>cfg\<close>.\<close>

definition follows :: "policy_config \<Rightarrow> run_config \<Rightarrow> run_state \<Rightarrow> bool" where
  "follows pol cfg s \<longleftrightarrow> untouched pol s \<and> st_cfg s = cfg"

lemma set_run_config_untouched: "valid (untouched pol) (set_run_config cfg) (\<lambda>_. follows pol cfg) E"
  unfolding set_run_config_def by (rule valid_modify) (simp add: untouched_def follows_def)

lemma prepare_resolve_untouched: "valid (untouched pol) (prepare_resolve w) (\<lambda>cfg. follows pol cfg) given_up"
proof -
  have last: "valid (untouched pol) (andThen (block [modify (\<lambda>s. s\<lparr>st_resolution := r\<rparr>), set_run_config cfg])
      (\<lambda>_. ret cfg)) (\<lambda>cfg. follows pol cfg) given_up" for r cfg
    unfolding block_simps
    by (rule valid_andThen, rule valid_andThen [OF modify_untouched],
        simp add: untouched_def, rule valid_andThen [OF set_run_config_untouched], rule valid_ret, assumption,
        rule valid_ret, simp)
  show ?thesis unfolding prepare_resolve_def Let_def
    by (rule valid_with_state, rule valid_weaken [where P' = "untouched pol"],
        (rule valid_andThen [OF need_early_untouched] valid_if failWithoutArtifacts_untouched
          valid_andThen [OF probe_untouched] last)+) simp_all
qed

lemma prepare_target_untouched:
  "valid (follows pol cfg) (prepare_target w cfg) (\<lambda>(cfg, _). follows pol cfg) given_up"
  unfolding prepare_target_def Let_def
  apply (rule valid_with_state, rule valid_weaken [where P' = "untouched pol"])
     apply (rule valid_andThen [OF modify_untouched], simp add: untouched_def, rule valid_prod, rule valid_prod,
      rule valid_andThen [OF check_early_untouched], rule valid_andThen [OF set_run_config_untouched], rule valid_ret)
     apply (auto simp: follows_def)
  done

section \<open>With the artifact directory open\<close>

text \<open>The backend of a run is one that the factory made.\<close>

definition factory_made :: "engine_world \<Rightarrow> trace sandbox_backend \<Rightarrow> bool" where
  "factory_made w b \<longleftrightarrow> (\<exists>resolution cfg. backend_New (ew_backends w) resolution cfg = Inr b)"

text \<open>\<open>based\<close>: \<open>infos\<close> are the sandboxes created so far; at most one, and then the state knows it.\<close>

definition based :: "engine_world \<Rightarrow> policy_config \<Rightarrow> sandbox_info list \<Rightarrow> run_state \<Rightarrow> bool" where
  "based w pol infos s \<longleftrightarrow> st_writer s \<noteq> None \<and> pe_cfg (st_policy s) = pol
     \<and> execs (st_trace s) = [] \<and> cleanups (st_trace s) = [] \<and> created (st_trace s) = infos
     \<and> (\<forall>b. st_backend s = Some b \<longrightarrow> factory_made w b)
     \<and> (if infos = [] then si_id (st_sandbox s) = []
        else infos = [st_sandbox s] \<and> st_backend s \<noteq> None \<and> requiresManagedSandbox (st_cfg s))"

definition preparing ::
  "engine_world \<Rightarrow> policy_config \<Rightarrow> run_config \<Rightarrow> trace sandbox_backend option \<Rightarrow> sandbox_info list \<Rightarrow>
   run_state \<Rightarrow> bool" where
  "preparing w pol cfg ob infos s \<longleftrightarrow> based w pol infos s \<and> st_cfg s = cfg \<and> st_backend s = ob \<and> st_phase_results s = []
     \<and> rr_status (st_result s) = StatusCreated \<and> rr_exit_code (st_result s) = 0"

definition unprepared :: "engine_world \<Rightarrow> policy_config \<Rightarrow> go_error \<Rightarrow> run_state \<Rightarrow> bool" where
  "unprepared w pol e s \<longleftrightarrow> (\<exists>infos p. based w pol infos s \<and> st_phase_results s = [p]
     \<and> failed_with PhasePrepare e p \<and> reported p (st_result s))"

definition prepared :: "engine_world \<Rightarrow> policy_config \<Rightarrow> run_state \<Rightarrow> bool" where
  "prepared w pol s \<longleftrightarrow> (\<exists>infos p. based w pol infos s \<and> st_phase_results s = [p]
     \<and> phr_phase p = PhasePrepare \<and> phr_status p = StatusSucceeded
     \<and> rr_status (st_result s) = StatusSucceeded \<and> rr_exit_code (st_result s) = 0)"

definition same_base :: "run_state \<Rightarrow> run_state \<Rightarrow> bool" where
  "same_base s s' \<longleftrightarrow> st_writer s' = st_writer s \<and> st_policy s' = st_policy s \<and> st_req s' = st_req s
     \<and> st_sandbox s' = st_sandbox s \<and> st_backend s' = st_backend s"

lemma based_quiet:
  "based w pol infos s \<Longrightarrow> quiet a \<Longrightarrow> based w pol infos (s\<lparr>st_trace := st_trace s @ [a]\<rparr>)"
  by (simp add: based_def)

lemma based_cong:
  "based w pol infos s \<Longrightarrow> same_base s s' \<Longrightarrow> st_trace s' = st_trace s \<Longrightarrow> based w pol infos s'"
  by (simp add: based_def same_base_def)

lemma failed_state_based:
  assumes "based w pol infos s" shows "based w pol infos (failed_state ph code e status res s)"
proof -
  obtain tail where "st_trace (failed_state ph code e status res s) = st_trace s @ tail"
    and "\<forall>a\<in>set tail. quiet a \<or> exec_of a \<noteq> None" and "execs tail = []"
    by (cases "st_emitter s") (auto simp: failed_state_def Let_def)
  moreover have "same_context s (failed_state ph code e status res s)" by simp
  ultimately show ?thesis
    using assms by (simp add: based_def same_context_def quiet_or_exec_tail)
qed

interpretation preparing: phase_invariant "preparing w pol cfg ob infos" "unprepared w pol" PhasePrepare
  for w pol cfg ob infos
proof
  fix s a
  assume "preparing w pol cfg ob infos s" "quiet a"
  then show "preparing w pol cfg ob infos (s\<lparr>st_trace := st_trace s @ [a]\<rparr>)"
    by (simp add: preparing_def based_quiet)
next
  fix s status e code res
  assume s: "preparing w pol cfg ob infos s" and "status \<in> {StatusFailed, StatusTimedOut}"
  then have "failed_with PhasePrepare e
      (failed_phase PhasePrepare status (errorCodeForErr code e) e res (st_command_class s))"
    by (auto simp: failed_with_def failed_phase_def blank_phase_def)
  with s show "unprepared w pol e (failed_state PhasePrepare code e status res s)"
    by (auto simp: unprepared_def preparing_def intro: failed_state_based)
qed

lemma preparing_modify:
  assumes "\<And>s. same_base s (f s)" "\<And>s. st_trace (f s) = st_trace s"
    "\<And>s. st_phase_results (f s) = st_phase_results s"
    "\<And>s. rr_status (st_result (f s)) = rr_status (st_result s)"
    "\<And>s. rr_exit_code (st_result (f s)) = rr_exit_code (st_result s)"
  shows "steady (preparing w pol cfg ob infos) E (modify f)"
proof (rule valid_modify)
  fix s assume s: "preparing w pol cfg ob infos s"
  then have "based w pol infos (f s)" by (intro based_cong [OF _ assms(1,2)]) (simp add: preparing_def)
  with s assms(1) [of s] show "preparing w pol cfg ob infos (f s)"
    by (simp add: preparing_def assms same_base_def)
qed

lemma preparing_set_result:
  "(\<And>r. rr_status (f r) = rr_status r) \<Longrightarrow> (\<And>r. rr_exit_code (f r) = rr_exit_code r) \<Longrightarrow>
   steady (preparing w pol cfg ob infos) E (set_result f)"
  unfolding set_result_def by (rule preparing_modify) (simp_all add: same_base_def)

lemma preparing_set_meta: "steady (preparing w pol cfg ob infos) E (set_meta k v)"
  unfolding set_meta_def by (rule preparing_set_result) simp_all

lemma preparing_set_run_config:
  "requiresManagedSandbox cfg' = requiresManagedSandbox cfg \<Longrightarrow>
   valid (preparing w pol cfg ob infos) (set_run_config cfg') (\<lambda>_. preparing w pol cfg' ob infos) E"
  unfolding set_run_config_def by (rule valid_modify) (auto simp: preparing_def based_def split: if_splits)

lemma preparing_write: "steady (preparing w pol cfg ob infos) (unprepared w pol) (write_document w' d)"
  unfolding write_document_def by (intro triples preparing.performs) simp_all

lemma preparing_write_checked:
  "steady (preparing w pol cfg ob infos) (unprepared w pol) (write_checked w' PhasePrepare code d)"
  unfolding write_checked_def by (intro triples preparing_write preparing.checks)

lemma preparing_write_ignoring:
  "steady (preparing w pol cfg ob infos) (unprepared w pol) (write_ignoring w' d)"
  unfolding write_ignoring_def by (intro triples preparing_write) simp_all

lemmas preparing_steps = preparing.note_action preparing.performs preparing.emits preparing.if_emitters
  preparing.starts preparing.ends preparing.checks preparing.needs preparing_modify preparing_set_result
  preparing_set_meta preparing_write preparing_write_checked preparing_write_ignoring triples

text \<open>Opening the artifact directory.\<close>

definition prepare_failed :: "engine_world \<Rightarrow> policy_config \<Rightarrow> go_error \<Rightarrow> run_state \<Rightarrow> bool" where
  "prepare_failed w pol e s \<longleftrightarrow> given_up e s \<or> unprepared w pol e s"

lemma early_tail:
  assumes "\<forall>a\<in>set tr. early_action a"
  shows "execs tr = []" "cleanups tr = []" "created tr = []"
proof -
  have "quiet a" if "early_action a" for a using that by (cases a) auto
  with assms have "\<forall>a\<in>set tr. quiet a" by auto
  then show "execs tr = []" "cleanups tr = []" "created tr = []"
    by (auto intro!: execs_quiet quiet_or_exec_tail)
qed

lemma untouched_preparing:
  "follows pol cfg s \<Longrightarrow> pol' = pol \<Longrightarrow>
   preparing w pol cfg None [] (s\<lparr>st_writer := Some wr, st_policy := NewEngine pol' c\<rparr>)"
  by (simp add: follows_def untouched_def preparing_def based_def early_tail NewEngine_def zero_sandbox_info_def)

lemma prepare_writer_follows:
  "valid (follows pol cfg) (prepare_writer w cfg) (\<lambda>_. preparing w pol cfg None []) (prepare_failed w pol)"
proof -
  have follow: "valid (follows pol cfg) (perform f (\<lambda>_. AMkdir p)) (\<lambda>_. follows pol cfg) E" for f :: "trace \<Rightarrow> 'x" and p E
    by (rule valid_perform) (simp add: follows_def untouched_def)
  have give_up: "valid (follows pol cfg) (failWithoutArtifacts PhasePrepare code e) Q (prepare_failed w pol)"
    for code e and Q :: "'x \<Rightarrow> run_state \<Rightarrow> bool"
    by (rule valid_weaken [OF failWithoutArtifacts_untouched [of pol code e "\<lambda>_ _. False"]])
      (auto simp: follows_def prepare_failed_def)
  have checked: "steady (follows pol cfg) (prepare_failed w pol) (check_early PhasePrepare code r)" for code r
    unfolding check_early_def by (intro triples give_up)
  have needed: "steady (follows pol cfg) (prepare_failed w pol) (need_early PhasePrepare code r)"
    for code and r :: "go_error + 'x"
    unfolding need_early_def by (intro triples give_up)
  have rest: "steady (preparing w pol cfg None []) (prepare_failed w pol)
      (block [check PhasePrepare code r, check PhasePrepare code' r'])" for code r code' r'
    by (rule valid_weaken [where E' = "unprepared w pol", OF steady_block])
      (auto simp: prepare_failed_def intro: preparing.checks)
  show ?thesis unfolding prepare_writer_def Let_def
    by (rule valid_with_state, rule valid_weaken [where P' = "follows pol cfg"],
        rule valid_andThen [OF follow], rule valid_andThen [OF checked], rule valid_andThen [OF follow],
        rule valid_andThen [OF needed], rule valid_andThen [OF valid_modify], rule untouched_preparing,
        assumption, simp add: follows_def untouched_def, rule rest) auto
qed

text \<open>Telemetry and the backend.\<close>

lemma prepare_telemetry_preparing:
  "steady (preparing w pol cfg ob infos) (unprepared w pol) (prepare_telemetry w' c)"
  unfolding prepare_telemetry_def block_simps
  by (intro preparing_steps) (auto simp: same_base_def)

lemma note_backend_preparing: "steady (preparing w pol cfg ob infos) (unprepared w pol) (note_backend c caps)"
  unfolding note_backend_def block_simps
  by (intro preparing_steps) (auto simp: same_base_def)

lemma modify_backend_preparing:
  "factory_made w b \<Longrightarrow> valid (preparing w pol cfg None []) (modify (\<lambda>s. s\<lparr>st_backend := Some b\<rparr>))
     (\<lambda>_. preparing w pol cfg (Some b) []) E"
  by (rule valid_modify) (auto simp: preparing_def based_def)

lemma note_runtime_preparing: "steady (preparing w pol cfg ob infos) (unprepared w pol) (note_runtime c caps ri)"
  unfolding note_runtime_def block_simps
  by (intro preparing_steps) (auto simp: same_base_def Let_def)

lemma kata_preflight_preparing: "steady (preparing w pol cfg ob infos) (unprepared w pol) (kata_preflight c caps ri)"
  unfolding kata_preflight_def block_simps by (intro preparing_steps)

lemma preparing_block:
  "(\<And>m. m \<in> set ms \<Longrightarrow> steady (preparing w pol cfg ob infos) E m) \<Longrightarrow> (\<And>s. preparing w pol cfg ob infos s \<Longrightarrow> Q x s) \<Longrightarrow>
   valid (preparing w pol cfg ob infos) (andThen (block ms) (\<lambda>_. ret x)) Q E"
  by (rule valid_andThen [OF steady_block]) (auto intro: valid_ret)

lemma prepare_backend_preparing:
  "valid (preparing w pol cfg None []) (prepare_backend w c)
     (\<lambda>(b, _) s. factory_made w b \<and> preparing w pol cfg (Some b) [] s) (unprepared w pol)"
proof -
  have made: "valid (preparing w pol cfg None []) (need PhasePrepare ErrorCodeConfigInvalid
      (backend_New (ew_backends w) r c)) (\<lambda>b s. preparing w pol cfg None [] s \<and> factory_made w b) (unprepared w pol)" for r
    unfolding need_def by (rule valid_sum) (auto intro: preparing.fails_phase valid_ret simp: factory_made_def)
  show ?thesis unfolding prepare_backend_def
    by (rule valid_with_state, rule valid_weaken [where P' = "preparing w pol cfg None []"],
        rule valid_andThen [OF made], rule valid_pure, rule valid_andThen [OF modify_backend_preparing], assumption,
        (rule valid_andThen [OF preparing.performs], simp, rule valid_andThen [OF preparing.needs],
         rule valid_andThen [OF note_backend_preparing])+,
        rule valid_andThen [OF preparing.performs], simp, rule valid_andThen [OF preparing.needs],
        rule preparing_block)
      (auto intro: preparing_steps note_runtime_preparing kata_preflight_preparing)
qed

text \<open>The sandbox.\<close>

lemma requires_managed_updates [simp]:
  "requiresManagedSandbox (with_sandbox_id cfg i) = requiresManagedSandbox cfg"
  "requiresManagedSandbox (with_container_id cfg dev) = requiresManagedSandbox cfg"
  by (simp_all add: requiresManagedSandbox_def with_sandbox_id_def with_container_id_def)

lemma announce_create_preparing: "steady (preparing w pol cfg ob infos) (unprepared w pol) (announce_create c)"
  unfolding announce_create_def block_simps by (intro preparing_steps) simp

lemma create_preparing:
  assumes "requiresManagedSandbox cfg"
  shows "valid (preparing w pol cfg (Some b) []) (perform (\<lambda>tr. sbk_create b' tr request) (ACreate request))
    (\<lambda>r s. case r of Inl _ \<Rightarrow> preparing w pol cfg (Some b) [] s
       | Inr info \<Rightarrow> preparing w pol cfg (Some b) [info] (s\<lparr>st_sandbox := info\<rparr>)) E"
proof (rule valid_perform)
  fix s assume "preparing w pol cfg (Some b) [] s"
  with assms show "case sbk_create b' (st_trace s) request of
      Inl _ \<Rightarrow> preparing w pol cfg (Some b) [] (s\<lparr>st_trace := st_trace s @ [ACreate request (sbk_create b' (st_trace s) request)]\<rparr>)
    | Inr info \<Rightarrow> preparing w pol cfg (Some b) [info]
        (s\<lparr>st_trace := st_trace s @ [ACreate request (sbk_create b' (st_trace s) request)], st_sandbox := info\<rparr>)"
    by (cases "sbk_create b' (st_trace s) request") (auto simp: preparing_def based_def)
qed

lemma note_sandbox_preparing:
  "valid (\<lambda>s. preparing w pol cfg (Some b) [info] (s\<lparr>st_sandbox := info\<rparr>)) (note_sandbox cfg info)
     (\<lambda>_. preparing w pol (with_sandbox_id cfg (si_id info)) (Some b) [info]) (unprepared w pol)"
proof -
  have first: "valid (\<lambda>s. preparing w pol cfg (Some b) [info] (s\<lparr>st_sandbox := info\<rparr>))
      (modify (\<lambda>s. s\<lparr>st_sandbox := info\<rparr>)) (\<lambda>_. preparing w pol cfg (Some b) [info]) (unprepared w pol)"
    by (rule valid_modify) simp
  show ?thesis unfolding note_sandbox_def block_simps
    by (rule valid_andThen [OF first], rule valid_andThen [OF preparing_set_run_config], simp)
      (intro preparing_steps; simp add: same_base_def)
qed

lemma start_sandbox_preparing: "steady (preparing w pol cfg ob infos) (unprepared w pol) (start_sandbox c b i)"
  unfolding start_sandbox_def block_simps by (intro preparing_steps) simp

lemma sync_workspace_in_preparing:
  "steady (preparing w pol cfg ob infos) (unprepared w pol) (sync_workspace_in c b i)"
  unfolding sync_workspace_in_def Let_def by (intro preparing_steps) simp_all

lemma note_devcontainer_preparing:
  "valid (preparing w pol cfg ob infos) (note_devcontainer cfg dev)
     (\<lambda>_. preparing w pol (with_container_id cfg dev) ob infos) (unprepared w pol)"
proof -
  have modify: "steady (preparing w pol cfg ob infos) (unprepared w pol) (modify f)"
    if "\<And>s. same_base s (f s)" "\<And>s. st_trace (f s) = st_trace s"
      "\<And>s. st_phase_results (f s) = st_phase_results s" "\<And>s. st_result (f s) = st_result s" for f
    using that by (intro preparing_modify) simp_all
  show ?thesis
  proof (cases "da_container_id dev = []")
    case True
    then show ?thesis unfolding note_devcontainer_def block_simps
      by (auto simp: with_container_id_def same_base_def intro!: preparing_steps modify)
  next
    case False
    show ?thesis unfolding note_devcontainer_def block_simps if_P [OF False]
      by (rule valid_andThen, rule modify, (simp add: same_base_def)+, rule valid_andThen, rule valid_andThen,
          rule modify, (simp add: same_base_def)+, rule valid_andThen, rule preparing_set_run_config, simp,
          (rule valid_ret, assumption)+)
  qed
qed

definition sandbox_made :: "engine_world \<Rightarrow> policy_config \<Rightarrow> run_config \<Rightarrow> run_state \<Rightarrow> bool" where
  "sandbox_made w pol cfg s \<longleftrightarrow> (\<exists>ob infos. preparing w pol cfg ob infos s)"

lemma read_devcontainer_preparing:
  "valid (preparing w pol cfg ob infos) (read_devcontainer w' cfg b i) (\<lambda>cfg. sandbox_made w pol cfg) (unprepared w pol)"
proof -
  have made: "preparing w pol c ob infos s \<Longrightarrow> sandbox_made w pol c s" for c s
    by (auto simp: sandbox_made_def)
  have reads: "valid (preparing w pol cfg ob infos)
      (case r of
         Inl e \<Rightarrow> andThen (set_meta ''devcontainer_metadata_error'' (MetaString (error_string e))) (\<lambda>_. ret cfg)
       | Inr dev \<Rightarrow>
           andThen (block
             [note_devcontainer cfg dev,
              write_ignoring w' (DocDevContainer dev),
              if bk_kind (cfg_backend cfg) = BackendKindDevContainer \<and> da_workspace_folder dev \<noteq> [] then
                emit_event ''devcontainer.run_user_commands.end'' PhasePrepare
                  [(''devcontainer.workspace_folder'', da_workspace_folder dev)]
              else ret ()])
           (\<lambda>_. ret (with_container_id cfg dev))) (\<lambda>cfg. sandbox_made w pol cfg) (unprepared w pol)" for r
    unfolding block_simps
    by (rule valid_sum, rule valid_andThen [OF preparing_set_meta], rule valid_ret, erule made,
        rule valid_andThen, rule valid_andThen [OF note_devcontainer_preparing],
        rule valid_andThen [OF preparing_write_ignoring], rule valid_andThen, rule valid_if, rule preparing.emits,
        (rule valid_ret, assumption)+, rule valid_ret, erule made)
  show ?thesis unfolding read_devcontainer_def
    by (rule valid_option, rule valid_ret, erule made, rule valid_andThen [OF preparing.performs], simp, rule reads)
qed

lemma prepare_sandbox_preparing:
  "valid (preparing w pol cfg (Some b) []) (prepare_sandbox w' cfg b') (\<lambda>cfg. sandbox_made w pol cfg) (unprepared w pol)"
proof (cases "requiresManagedSandbox cfg")
  case False
  have "valid (preparing w pol cfg (Some b) []) (ret cfg) (\<lambda>cfg. sandbox_made w pol cfg) (unprepared w pol)"
    by (rule valid_ret) (auto simp: sandbox_made_def)
  with False show ?thesis by (simp add: prepare_sandbox_def)
next
  case True
  let ?rest = "\<lambda>info. andThen (note_sandbox cfg info) (\<lambda>_.
      andThen (start_sandbox (with_sandbox_id cfg (si_id info)) b' (si_id info)) (\<lambda>_.
      andThen (sync_workspace_in (with_sandbox_id cfg (si_id info)) b' (si_id info)) (\<lambda>_.
      read_devcontainer w' (with_sandbox_id cfg (si_id info)) b' (si_id info))))"
  have rest: "valid (\<lambda>s. case r of Inl _ \<Rightarrow> preparing w pol cfg (Some b) [] s
       | Inr info \<Rightarrow> preparing w pol cfg (Some b) [info] (s\<lparr>st_sandbox := info\<rparr>))
      (andThen (need PhasePrepare ErrorCodeSandboxCreateFailed r) ?rest)
      (\<lambda>cfg. sandbox_made w pol cfg) (unprepared w pol)" for r
  proof (cases r)
    case (Inl e)
    show ?thesis unfolding Inl need_def sum.case
      by (rule valid_andThen [OF preparing.fails_phase, where R = "\<lambda>_ _. False"]) (simp add: valid_def)
  next
    case (Inr info)
    have need: "need PhasePrepare ErrorCodeSandboxCreateFailed (Inr info) = ret info"
      by (simp add: need_def)
    have ret: "andThen (ret info) k = k info" for k :: "sandbox_info \<Rightarrow> 'x step"
      by (simp add: andThen_def ret_def)
    show ?thesis unfolding Inr need ret sum.case
      by (rule valid_andThen [OF note_sandbox_preparing], rule valid_andThen [OF start_sandbox_preparing],
          rule valid_andThen [OF sync_workspace_in_preparing], rule read_devcontainer_preparing)
  qed
  from True show ?thesis unfolding prepare_sandbox_def Let_def
    by (simp, intro valid_andThen [OF announce_create_preparing] valid_andThen [OF create_preparing]) (auto intro: rest)
qed

text \<open>The documents and the result.\<close>

lemma prepare_documents_preparing:
  "steady (preparing w pol cfg ob infos) (unprepared w pol) (prepare_documents w' c caps ri)"
  unfolding prepare_documents_def write_prepared_def Let_def
  by (intro steady_with_state steady_block) (auto intro: preparing_write_checked valid_ret)

lemma prepared_quiet:
  assumes "prepared w pol s" "quiet a" shows "prepared w pol (s\<lparr>st_trace := st_trace s @ [a]\<rparr>)"
proof -
  from assms(1) obtain infos p where "based w pol infos s" and rest: "st_phase_results s = [p]"
    "phr_phase p = PhasePrepare" "phr_status p = StatusSucceeded"
    "rr_status (st_result s) = StatusSucceeded" "rr_exit_code (st_result s) = 0"
    unfolding prepared_def by blast
  then have "based w pol infos (s\<lparr>st_trace := st_trace s @ [a]\<rparr>)" using assms(2) by (intro based_quiet)
  with rest show ?thesis unfolding prepared_def by (intro exI [of _ infos] exI [of _ p]) simp
qed

lemma prepare_finish_preparing:
  "valid (preparing w pol cfg ob infos) (prepare_finish c warnings) (\<lambda>_. prepared w pol) E"
proof -
  let ?r = "(successPhase PhasePrepare [(''warnings'', MetaStrings warnings)])\<lparr>phr_backend_action := prepareActionForBackend c\<rparr>"
  have end_phase: "steady (prepared w pol) E (endPhase PhasePrepare r)" for r
    unfolding endPhase_def if_emitter_def
    by (intro triples valid_note_action prepared_quiet) auto
  have "prepared w pol (s\<lparr>st_result := x, st_phase_results := st_phase_results s @ [?r]\<rparr>)"
    if s: "preparing w pol cfg ob infos s" and f: "rr_status x = StatusSucceeded"
      "rr_exit_code x = 0" for s x
  proof -
    have "based w pol infos (s\<lparr>st_result := x, st_phase_results := st_phase_results s @ [?r]\<rparr>)"
      by (rule based_cong [of w pol infos s]) (use s in \<open>simp_all add: preparing_def same_base_def\<close>)
    with s f show ?thesis
      by (auto simp: prepared_def preparing_def successPhase_def blank_phase_def)
  qed
  then have "valid (preparing w pol cfg ob infos) (andThen (set_result (\<lambda>r. r\<lparr>rr_run_id := rs_run_id (cfg_run c),
      rr_attempt := rs_attempt (cfg_run c), rr_status := StatusSucceeded, rr_phase := PhasePrepare,
      rr_exit_code := 0\<rparr>)) (\<lambda>_. add_phase_result ?r)) (\<lambda>_. prepared w pol) E"
    by (simp add: valid_def andThen_def add_phase_result_def set_result_def modify_def)
  then have "valid (preparing w pol cfg ob infos) (andThen (andThen (set_result (\<lambda>r. r\<lparr>rr_run_id := rs_run_id (cfg_run c),
      rr_attempt := rs_attempt (cfg_run c), rr_status := StatusSucceeded, rr_phase := PhasePrepare,
      rr_exit_code := 0\<rparr>)) (\<lambda>_. add_phase_result ?r)) (\<lambda>_. endPhase PhasePrepare ?r)) (\<lambda>_. prepared w pol) E"
    by (rule valid_andThen) (rule end_phase)
  then show ?thesis unfolding prepare_finish_def Let_def
    by (simp add: valid_def andThen_def add_phase_result_def set_result_def modify_def ret_def
        split: prod.splits sum.splits)
qed

theorem runPrepare_valid:
  "valid (untouched pol) (runPrepare w) (\<lambda>_. prepared w pol) (prepare_failed w pol)"
proof -
  have given: "valid P m Q given_up \<Longrightarrow> valid P m Q (prepare_failed w pol)"
    and un: "valid P m Q (unprepared w pol) \<Longrightarrow> valid P m Q (prepare_failed w pol)"
    for P and m :: "'x step" and Q
    by (erule valid_weaken; simp add: prepare_failed_def)+
  have finish: "valid (sandbox_made w pol c) (andThen (prepare_documents w c' caps ri) (\<lambda>_. prepare_finish c' warnings))
      (\<lambda>_. prepared w pol) (unprepared w pol)" for c c' caps ri warnings
    unfolding sandbox_made_def
    by (intro valid_exists) (rule valid_andThen [OF prepare_documents_preparing prepare_finish_preparing])
  have backend: "valid (preparing w pol cfg None []) (andThen (prepare_backend w cfg) (\<lambda>(b, caps, ri).
     andThen (prepare_sandbox w cfg b) (\<lambda>cfg.
     andThen (prepare_documents w cfg caps ri) (\<lambda>_. prepare_finish cfg warnings))))
      (\<lambda>_. prepared w pol) (unprepared w pol)" for cfg warnings
  proof (rule valid_andThen [OF prepare_backend_preparing])
    fix x :: "trace sandbox_backend \<times> backend_capabilities \<times> runtime_info"
    obtain b caps ri where x: "x = (b, caps, ri)" by (cases x)
    have "valid (preparing w pol cfg (Some b) []) (andThen (prepare_sandbox w cfg b) (\<lambda>cfg.
        andThen (prepare_documents w cfg caps ri) (\<lambda>_. prepare_finish cfg warnings)))
        (\<lambda>_. prepared w pol) (unprepared w pol)"
      by (rule valid_andThen [OF prepare_sandbox_preparing]) (rule finish)
    then show "valid (case x of (b, _) \<Rightarrow> \<lambda>s. factory_made w b \<and> preparing w pol cfg (Some b) [] s)
        (case x of (b, caps, ri) \<Rightarrow> andThen (prepare_sandbox w cfg b) (\<lambda>cfg.
          andThen (prepare_documents w cfg caps ri) (\<lambda>_. prepare_finish cfg warnings)))
        (\<lambda>_. prepared w pol) (unprepared w pol)"
      unfolding x prod.case by (rule valid_weaken) simp_all
  qed
  have rest: "valid (follows pol cfg) (andThen (prepare_writer w cfg) (\<lambda>_.
     andThen (prepare_telemetry w cfg) (\<lambda>_.
     andThen (prepare_backend w cfg) (\<lambda>(b, caps, ri).
     andThen (prepare_sandbox w cfg b) (\<lambda>cfg.
     andThen (prepare_documents w cfg caps ri) (\<lambda>_. prepare_finish cfg warnings))))))
      (\<lambda>_. prepared w pol) (prepare_failed w pol)" for cfg warnings
    by (rule valid_andThen [OF prepare_writer_follows], rule un,
        rule valid_andThen [OF prepare_telemetry_preparing], rule backend)
  show ?thesis unfolding runPrepare_def
  proof (rule valid_andThen [OF given [OF prepare_resolve_untouched]],
      rule valid_andThen [OF given [OF prepare_target_untouched]])
    fix cfg :: run_config and x :: "run_config \<times> string list"
    obtain c warnings where x: "x = (c, warnings)" by (cases x)
    show "valid (case x of (c, _) \<Rightarrow> follows pol c)
        (case x of (cfg, warnings) \<Rightarrow> andThen (prepare_writer w cfg) (\<lambda>_.
           andThen (prepare_telemetry w cfg) (\<lambda>_.
           andThen (prepare_backend w cfg) (\<lambda>(b, caps, ri).
           andThen (prepare_sandbox w cfg b) (\<lambda>cfg.
           andThen (prepare_documents w cfg caps ri) (\<lambda>_. prepare_finish cfg warnings))))))
        (\<lambda>_. prepared w pol) (prepare_failed w pol)"
      unfolding x prod.case by (rule rest)
  qed
qed

end
