(* ===== verification/Engine_Collect_Facts.thy ===== *)
theory Engine_Collect_Facts
  imports Engine_Prepare_Facts
begin

text \<open>
  What the phase collect does: it executes and creates nothing, cleans the sandbox up as the cleanup mode
  asks, once, and leaves the result of a failed run as it is; a run that had succeeded ends as partial when
  the cleanup or an upload fails, and as failed when its documents cannot be written.
\<close>

section \<open>The cleanup that a run asks for\<close>

text \<open>A backend whose \<open>Metadata\<close> reports the sandbox it was asked about.\<close>

definition keeps_id :: "trace sandbox_backend \<Rightarrow> bool" where
  "keeps_id b \<longleftrightarrow> (\<forall>metadata tr i info. sbk_metadata b = Some metadata \<longrightarrow> metadata tr i = Inr info \<longrightarrow> si_id info = i)"

definition keeps_sandbox :: "run_state \<Rightarrow> bool" where
  "keeps_sandbox s \<longleftrightarrow> (\<forall>b. st_backend s = Some b \<longrightarrow> keeps_id b)"

definition cleanup_actions :: "cleanup_op \<Rightarrow> string \<Rightarrow> trace" where
  "cleanup_actions op i = (case op of CleanupKeep \<Rightarrow> [] | CleanupPause \<Rightarrow> [APause i] | CleanupDelete \<Rightarrow> [ADelete i])"

definition expected_cleanup :: "run_state \<Rightarrow> trace" where
  "expected_cleanup s =
     (if st_backend s = None \<or> si_id (st_sandbox s) = [] \<or> \<not> requiresManagedSandbox (st_cfg s) then []
      else cleanup_actions (snd (cleanup_choice (st_cfg s) (st_caps s))) (si_id (st_sandbox s)))"

definition cleaned :: "run_state \<Rightarrow> trace \<Rightarrow> bool" where
  "cleaned s ops \<longleftrightarrow> length ops \<le> 1 \<and> (keeps_sandbox s \<longrightarrow> ops = expected_cleanup s)"

section \<open>The phase under way\<close>

definition spoils :: "run_status \<Rightarrow> run_status \<Rightarrow> bool" where
  "spoils a b \<longleftrightarrow> b = a \<or> a = StatusSucceeded \<and> b = StatusPartial"

definition same_config :: "run_config \<Rightarrow> run_config \<Rightarrow> bool" where
  "same_config cfg cfg' \<longleftrightarrow> (\<exists>m. cfg' = cfg\<lparr>cfg_metadata := m\<rparr>)"

definition collecting :: "run_state \<Rightarrow> trace \<Rightarrow> phase_result list \<Rightarrow> run_state \<Rightarrow> bool" where
  "collecting s0 ops extra s \<longleftrightarrow>
     st_writer s = st_writer s0 \<and> st_policy s = st_policy s0 \<and> st_caps s = st_caps s0
     \<and> st_backend s = st_backend s0 \<and> same_config (st_cfg s0) (st_cfg s)
     \<and> (keeps_sandbox s0 \<longrightarrow> si_id (st_sandbox s) = si_id (st_sandbox s0))
     \<and> (\<exists>tail. st_trace s = st_trace s0 @ tail \<and> execs tail = [] \<and> created tail = [] \<and> cleanups tail = ops)
     \<and> st_phase_results s = st_phase_results s0 @ extra
     \<and> rr_status (st_result s0) \<noteq> StatusCreated \<and> spoils (rr_status (st_result s0)) (rr_status (st_result s))
     \<and> rr_exit_code (st_result s) = rr_exit_code (st_result s0)"

definition collect_ok :: "phase_result \<Rightarrow> bool" where
  "collect_ok p \<longleftrightarrow> phr_phase p = PhaseCollect \<and> phr_status p = StatusSucceeded"

text \<open>
  The two ways to fail: the phase fails (before or after it has added its own phase result), or the
  upload of an artifact does.
\<close>

definition uncollected :: "run_state \<Rightarrow> go_error \<Rightarrow> run_state \<Rightarrow> bool" where
  "uncollected s0 e s \<longleftrightarrow> (\<exists>s1 ops extra. collecting s0 ops extra s1 \<and> cleaned s0 ops \<and> (\<forall>p\<in>set extra. collect_ok p)
     \<and> st_trace s1 = st_trace s \<and> st_backend s1 = st_backend s \<and> st_policy s1 = st_policy s \<and> st_cfg s1 = st_cfg s
     \<and> st_caps s1 = st_caps s \<and> st_sandbox s1 = st_sandbox s
     \<and> ((\<exists>p. st_phase_results s = st_phase_results s1 @ [p] \<and> failed_with PhaseCollect e p \<and> reported p (st_result s))
        \<or> s1 = s \<and> extra \<noteq> [] \<and> rr_status (st_result s) \<noteq> StatusSucceeded))"

lemma same_config_refl [simp]: "same_config cfg cfg"
  unfolding same_config_def by (rule exI [of _ "cfg_metadata cfg"]) simp

lemma same_config_managed: "same_config cfg cfg' \<Longrightarrow> requiresManagedSandbox cfg' = requiresManagedSandbox cfg"
  by (auto simp: same_config_def requiresManagedSandbox_def)

lemma same_config_cleanup: "same_config cfg cfg' \<Longrightarrow> cleanup_choice cfg' caps = cleanup_choice cfg caps"
  unfolding same_config_def cleanup_choice_def Let_def by (elim exE) simp

lemma same_config_container:
  "same_config cfg cfg' \<Longrightarrow> same_config cfg (with_container_id cfg' dev)"
  by (auto simp: same_config_def with_container_id_def)

lemma spoils_refl [simp]: "spoils a a"
  by (simp add: spoils_def)

lemma quiet_tail [simp]: "quiet a \<Longrightarrow> execs [a] = [] \<and> created [a] = [] \<and> cleanups [a] = []"
  by simp

lemma collecting_step:
  assumes "collecting s0 ops extra s" "st_trace s' = st_trace s @ tail"
    "\<forall>a\<in>set tail. quiet a"
    "st_writer s' = st_writer s" "st_policy s' = st_policy s" "st_caps s' = st_caps s" "st_backend s' = st_backend s"
    "same_config (st_cfg s0) (st_cfg s')" "keeps_sandbox s0 \<longrightarrow> si_id (st_sandbox s') = si_id (st_sandbox s)"
    "st_phase_results s' = st_phase_results s0 @ extra'"
    "spoils (rr_status (st_result s0)) (rr_status (st_result s'))"
    "rr_exit_code (st_result s') = rr_exit_code (st_result s)"
  shows "collecting s0 ops extra' s'"
proof -
  from assms(3) have "execs tail = []" "created tail = []" "cleanups tail = []"
    by (auto intro: execs_quiet quiet_or_exec_tail)
  moreover from assms(1) obtain t where "st_trace s = st_trace s0 @ t" "execs t = []" "created t = []" "cleanups t = ops"
    unfolding collecting_def by blast
  ultimately have "\<exists>t. st_trace s' = st_trace s0 @ t \<and> execs t = [] \<and> created t = [] \<and> cleanups t = ops"
    using assms(2) by (intro exI [of _ "t @ tail"]) simp
  with assms show ?thesis by (simp add: collecting_def)
qed

interpretation collecting: quiet_invariant "collecting s0 ops extra" for s0 ops extra
proof
  fix s a assume s: "collecting s0 ops extra s" and "quiet a"
  then show "collecting s0 ops extra (s\<lparr>st_trace := st_trace s @ [a]\<rparr>)"
    by (intro collecting_step [OF s, where tail = "[a]"]) (simp_all add: collecting_def)
qed

lemma collecting_refl:
  "rr_status (st_result s) \<noteq> StatusCreated \<Longrightarrow> collecting s [] [] s"
  by (simp add: collecting_def)

lemma collecting_fails:
  assumes s: "collecting s0 ops extra s" and "cleaned s0 ops" "\<forall>p\<in>set extra. collect_ok p"
    and "status \<in> {StatusFailed, StatusTimedOut}"
  shows "uncollected s0 e (failed_state PhaseCollect code e status res s)"
proof -
  let ?f = "failed_state PhaseCollect code e status res s"
  obtain tail where "st_trace ?f = st_trace s @ tail" "\<forall>a\<in>set tail. quiet a"
    by (cases "st_emitter s") (auto simp: failed_state_def Let_def)
  then have "collecting s0 ops extra (s\<lparr>st_trace := st_trace ?f\<rparr>)"
    using s by (intro collecting_step [OF s, where tail = tail]) (simp_all add: collecting_def)
  moreover have "failed_with PhaseCollect e (failed_phase PhaseCollect status (errorCodeForErr code e) e res (st_command_class s))"
    using assms(4) by (auto simp: failed_with_def failed_phase_def blank_phase_def)
  moreover have "st_backend ?f = st_backend s" "st_policy ?f = st_policy s" "st_req ?f = st_req s"
    "st_caps ?f = st_caps s" "st_sandbox ?f = st_sandbox s"
    by (simp_all add: failed_state_def Let_def)
  ultimately show ?thesis
    using assms(2,3) unfolding uncollected_def
    by (intro exI [of _ "s\<lparr>st_trace := st_trace ?f\<rparr>"] exI [of _ ops] exI [of _ extra]) simp
qed

lemma fails_collecting:
  "cleaned s0 ops \<Longrightarrow> \<forall>p\<in>set extra. collect_ok p \<Longrightarrow>
   valid (collecting s0 ops extra) (failPhase PhaseCollect code e) Q (uncollected s0)"
  unfolding failPhase_def by (rule valid_fail) (rule collecting_fails; simp)

lemma collecting_checks:
  "cleaned s0 ops \<Longrightarrow> \<forall>p\<in>set extra. collect_ok p \<Longrightarrow>
   steady (collecting s0 ops extra) (uncollected s0) (check PhaseCollect code r)"
  unfolding check_def by (intro triples fails_collecting)

lemma collecting_needs:
  "cleaned s0 ops \<Longrightarrow> \<forall>p\<in>set extra. collect_ok p \<Longrightarrow>
   steady (collecting s0 ops extra) (uncollected s0) (need PhaseCollect code r)"
  unfolding need_def by (intro triples fails_collecting)

text \<open>Steps that never fail, whatever is to hold after an error.\<close>

lemma collecting_set_result:
  assumes "\<And>r. rr_status (f r) = rr_status r" "\<And>r. rr_exit_code (f r) = rr_exit_code r"
  shows "steady (collecting s0 ops extra) E (set_result f)"
  unfolding set_result_def
proof (rule valid_modify)
  fix s assume s: "collecting s0 ops extra s"
  then show "collecting s0 ops extra (s\<lparr>st_result := f (st_result s)\<rparr>)"
    by (intro collecting_step [OF s, where tail = "[]"]) (simp_all add: assms collecting_def)
qed

lemma collecting_set_meta: "steady (collecting s0 ops extra) E (set_meta k v)"
  unfolding set_meta_def by (rule collecting_set_result) simp_all

lemma collecting_spoil:
  assumes "\<And>r. rr_status (f r) = (if rr_status r = StatusSucceeded then StatusPartial else rr_status r)"
    "\<And>r. rr_exit_code (f r) = rr_exit_code r"
  shows "steady (collecting s0 ops extra) E (set_result f)"
  unfolding set_result_def
proof (rule valid_modify)
  fix s assume s: "collecting s0 ops extra s"
  then show "collecting s0 ops extra (s\<lparr>st_result := f (st_result s)\<rparr>)"
    by (intro collecting_step [OF s, where tail = "[]"]) (auto simp: assms collecting_def spoils_def)
qed

lemma partial_collecting: "steady (collecting s0 ops extra) E partial_if_succeeded"
  unfolding partial_if_succeeded_def by (rule collecting_spoil) simp_all

lemma write_document_collecting: "steady (collecting s0 ops extra) E (write_document w d)"
  unfolding write_document_def by (intro triples collecting.performs) simp_all

lemma write_ignoring_collecting: "steady (collecting s0 ops extra) E (write_ignoring w d)"
  unfolding write_ignoring_def by (intro triples write_document_collecting) simp_all

lemma note_error_collecting: "steady (collecting s0 ops extra) E (note_error key err)"
  unfolding note_error_def by (intro triples collecting_set_meta) simp

lemma set_sandbox_collecting:
  "keeps_sandbox s0 \<longrightarrow> si_id info = si_id (st_sandbox s0) \<Longrightarrow>
   steady (collecting s0 ops extra) E (modify (\<lambda>s. s\<lparr>st_sandbox := info\<rparr>))"
  by (rule valid_modify) (simp add: collecting_def)

lemma modify_target_collecting:
  "steady (collecting s0 ops extra) E (modify (\<lambda>s. s\<lparr>st_target := f s\<rparr>))"
  "steady (collecting s0 ops extra) E (modify (\<lambda>s. s\<lparr>st_devcontainer := d s\<rparr>))"
  by (rule valid_modify; simp add: collecting_def)+

lemmas collecting_steps = collecting.note_action collecting.performs collecting.emits collecting.if_emitters
  collecting.starts collecting.ends collecting_set_meta write_document_collecting write_ignoring_collecting
  note_error_collecting modify_target_collecting triples

section \<open>What the sandbox left\<close>

lemma collect_sync_out_collecting: "steady (collecting s0 ops extra) E (collect_sync_out cfg)"
  unfolding collect_sync_out_def Let_def by (intro collecting_steps) simp_all

lemma collect_endpoints_collecting: "steady (collecting s0 ops extra) E (collect_endpoints w cfg b)"
  unfolding collect_endpoints_def Let_def by (intro collecting_steps) simp_all

lemma refresh_sandbox_collecting:
  "keeps_sandbox s0 \<longrightarrow> si_id info = si_id (st_sandbox s0) \<Longrightarrow>
   steady (collecting s0 ops extra) E (refresh_sandbox w cfg info)"
  unfolding refresh_sandbox_def block_simps by (intro collecting_steps set_sandbox_collecting) simp_all

lemma collect_metadata_collecting: "steady (collecting s0 ops extra) E (collect_metadata w cfg)"
proof -
  have rest: "valid (\<lambda>s. collecting s0 ops extra s \<and>
        (keeps_sandbox s0 \<longrightarrow> (\<forall>info. r = Inr info \<longrightarrow> si_id info = si_id (st_sandbox s0))))
      (block [case r of Inr info \<Rightarrow> refresh_sandbox w cfg info
         | Inl e \<Rightarrow> set_meta ''sandbox_metadata_error'' (MetaString (error_string e)), collect_endpoints w cfg b])
      (\<lambda>_. collecting s0 ops extra) E" for b r
    unfolding block_simps
    by (rule valid_pure, rule valid_andThen [where R = "\<lambda>_. collecting s0 ops extra"], rule valid_sum)
      (auto intro: refresh_sandbox_collecting collecting_set_meta collect_endpoints_collecting valid_andThen valid_ret)
  show ?thesis unfolding collect_metadata_def Let_def
  proof (intro steady_with_state valid_option valid_if)
    fix s b metadata
    assume s: "collecting s0 ops extra s" and b: "st_backend s = Some b" and m: "sbk_metadata b = Some metadata"
    let ?i = "si_id (st_sandbox s)"
    have "valid (collecting s0 ops extra) (perform (\<lambda>tr. metadata tr ?i) (\<lambda>_. AMetadata ?i))
        (\<lambda>r s. collecting s0 ops extra s \<and>
           (keeps_sandbox s0 \<longrightarrow> (\<forall>info. r = Inr info \<longrightarrow> si_id info = si_id (st_sandbox s0)))) E"
    proof (rule valid_perform, intro conjI impI allI)
      fix s' assume "collecting s0 ops extra s'"
      then show "collecting s0 ops extra (s'\<lparr>st_trace := st_trace s' @ [AMetadata ?i]\<rparr>)"
        by (rule collecting.keeps_quiet) simp
    next
      fix s' info assume "keeps_sandbox s0" "metadata (st_trace s') ?i = Inr info"
      moreover from s b this(1) have "keeps_id b" "si_id (st_sandbox s) = si_id (st_sandbox s0)"
        by (simp_all add: keeps_sandbox_def collecting_def)
      ultimately show "si_id info = si_id (st_sandbox s0)" using m by (auto simp: keeps_id_def)
    qed
    then show "steady (collecting s0 ops extra) E
      (andThen (perform (\<lambda>tr. metadata tr ?i) (\<lambda>_. AMetadata ?i)) (\<lambda>r. block
        [case r of Inr info \<Rightarrow> refresh_sandbox w cfg info
         | Inl e \<Rightarrow> set_meta ''sandbox_metadata_error'' (MetaString (error_string e)), collect_endpoints w cfg b]))"
      by (rule valid_andThen) (rule rest)
  qed (auto intro: valid_ret)
qed

lemma note_devcontainer_collecting:
  "same_config (st_cfg s0) cfg \<Longrightarrow> steady (collecting s0 ops extra) E (note_devcontainer cfg dev)"
proof -
  assume "same_config (st_cfg s0) cfg"
  then have "steady (collecting s0 ops extra) E (set_run_config (with_container_id cfg dev))"
    unfolding set_run_config_def by (intro valid_modify) (simp add: collecting_def same_config_container)
  then show ?thesis unfolding note_devcontainer_def block_simps by (intro collecting_steps) simp_all
qed

lemma collect_devcontainer_collecting: "steady (collecting s0 ops extra) E (collect_devcontainer w)"
  unfolding collect_devcontainer_def Let_def block_simps
  by (intro collecting_steps note_devcontainer_collecting) (auto simp: collecting_def)

lemma cleanup_collecting:
  "valid (collecting s0 [] extra) cleanupBackend
     (\<lambda>_ s. \<exists>ops. collecting s0 ops extra s \<and> cleaned s0 ops) E"
  unfolding cleanupBackend_def Let_def
proof (rule valid_with_state)
  fix s assume s: "collecting s0 [] extra s"
  have same: "st_backend s = st_backend s0" "requiresManagedSandbox (st_cfg s) = requiresManagedSandbox (st_cfg s0)"
    "cleanup_choice (st_cfg s) (st_caps s) = cleanup_choice (st_cfg s0) (st_caps s0)"
    "keeps_sandbox s0 \<longrightarrow> si_id (st_sandbox s) = si_id (st_sandbox s0)"
    using s by (auto simp: collecting_def same_config_managed same_config_cleanup)
  let ?Q = "\<lambda>_ s. \<exists>ops. collecting s0 ops extra s \<and> cleaned s0 ops"
  have none: "valid (\<lambda>s'. s' = s) (ret None) ?Q E" if "keeps_sandbox s0 \<longrightarrow> expected_cleanup s0 = []"
    using s that by (intro valid_ret exI [of _ "[]"]) (auto simp: cleaned_def)
  have some: "valid (collecting s0 [] extra) (do_cleanup b i op) ?Q E"
    if op: "keeps_sandbox s0 \<longrightarrow> expected_cleanup s0 = cleanup_actions op i" for b i op
  proof -
    have acts: "valid (collecting s0 [] extra) (perform f (\<lambda>_. a)) ?Q E"
      if "cleanup_actions op i = [a]" for a and f :: "trace \<Rightarrow> go_error option"
    proof (rule valid_perform, intro exI conjI)
      fix s assume "collecting s0 [] extra s"
      with that show "collecting s0 [a] extra (s\<lparr>st_trace := st_trace s @ [a]\<rparr>)"
        by (cases op) (auto simp: collecting_def cleanup_actions_def)
      show "cleaned s0 [a]" using op that by (simp add: cleaned_def)
    qed
    show ?thesis
    proof (cases op)
      case CleanupKeep
      with op show ?thesis unfolding do_cleanup_def
        by (auto intro!: valid_ret exI [of _ "[]"] simp: cleaned_def cleanup_actions_def)
    qed (auto intro: acts simp: do_cleanup_def cleanup_actions_def)
  qed
  show "valid (\<lambda>s'. s' = s)
     (case st_backend s of None \<Rightarrow> ret None
      | Some b \<Rightarrow>
         if si_id (st_sandbox s) = [] \<or> \<not> requiresManagedSandbox (st_cfg s) then ret None
         else case cleanup_choice (st_cfg s) (st_caps s) of
           (event, op) \<Rightarrow> andThen (emit_event event PhaseCollect []) (\<lambda>_. do_cleanup b (si_id (st_sandbox s)) op)) ?Q E"
  proof (intro valid_option valid_if valid_prod none)
    fix b event op
    assume "st_backend s = Some b" "\<not> (si_id (st_sandbox s) = [] \<or> \<not> requiresManagedSandbox (st_cfg s))"
      and "cleanup_choice (st_cfg s) (st_caps s) = (event, op)"
    moreover from this(3) same(3) have "snd (cleanup_choice (st_cfg s0) (st_caps s0)) = op" by simp
    ultimately have "keeps_sandbox s0 \<longrightarrow> expected_cleanup s0 = cleanup_actions op (si_id (st_sandbox s))"
      using same by (auto simp: expected_cleanup_def)
    then show "valid (\<lambda>s'. s' = s)
        (andThen (emit_event event PhaseCollect []) (\<lambda>_. do_cleanup b (si_id (st_sandbox s)) op)) ?Q E"
      by (intro valid_weaken [OF valid_andThen [OF collecting.emits some]]) (use s in auto)
  qed (use same in \<open>auto simp: expected_cleanup_def\<close>)
qed

lemma collect_sandbox_collecting:
  assumes cfg: "same_config (st_cfg s0) cfg"
  shows "valid (collecting s0 [] []) (collect_sandbox w cfg)
    (\<lambda>_ s. \<exists>ops. collecting s0 ops [] s \<and> cleaned s0 ops) E"
proof -
  let ?Q = "\<lambda>_ s. \<exists>ops. collecting s0 ops [] s \<and> cleaned s0 ops"
  have last: "valid (?Q u) (case err of None \<Rightarrow> ret () | Some e \<Rightarrow> block
      [set_meta ''sandbox_cleanup_error'' (MetaString (error_string e)), partial_if_succeeded]) ?Q E" for u :: "go_error option" and err
  proof (rule valid_exists, rule valid_pure)
    fix ops assume "cleaned s0 ops"
    have "steady (collecting s0 ops []) E (case err of None \<Rightarrow> ret () | Some e \<Rightarrow> block
        [set_meta ''sandbox_cleanup_error'' (MetaString (error_string e)), partial_if_succeeded])"
      by (intro valid_option steady_block) (auto intro: collecting_set_meta partial_collecting valid_ret)
    then show "valid (collecting s0 ops []) (case err of None \<Rightarrow> ret () | Some e \<Rightarrow> block
        [set_meta ''sandbox_cleanup_error'' (MetaString (error_string e)), partial_if_succeeded]) ?Q E"
      by (rule valid_weaken) (use \<open>cleaned s0 ops\<close> in auto)
  qed
  have none: "valid (collecting s0 [] []) (ret ()) ?Q E" if "\<not> requiresManagedSandbox cfg"
    using that cfg by (auto intro!: valid_ret exI [of _ "[]"] simp: cleaned_def expected_cleanup_def same_config_managed)
  show ?thesis unfolding collect_sandbox_def
    by (rule valid_if, rule none, assumption, rule valid_andThen [OF steady_block],
        (auto intro: collect_sync_out_collecting collect_metadata_collecting collect_devcontainer_collecting)[],
        rule valid_andThen [OF cleanup_collecting], rule last)
qed

section \<open>The summary documents\<close>

lemma write_checked_collecting:
  "cleaned s0 ops \<Longrightarrow> \<forall>p\<in>set extra. collect_ok p \<Longrightarrow>
   steady (collecting s0 ops extra) (uncollected s0) (write_collected w d)"
  unfolding write_checked_def by (intro triples write_document_collecting collecting_checks)

lemma collect_ok_result [simp]: "collect_ok (collect_result cfg n)"
  by (simp add: collect_ok_def collect_result_def successPhase_def blank_phase_def)

lemma add_phase_result_collecting:
  "valid (collecting s0 ops []) (add_phase_result p) (\<lambda>_. collecting s0 ops [p]) E"
  unfolding add_phase_result_def by (rule valid_modify) (simp add: collecting_def)

lemma succeed_if_created_collecting:
  "steady (collecting s0 ops extra) E (set_result (\<lambda>r. succeed_if_created (r\<lparr>rr_phase := PhaseCollect\<rparr>)))"
  unfolding set_result_def
  by (rule valid_modify) (auto simp: collecting_def succeed_if_created_def spoils_def)

lemma share_phase_results_collecting: "steady (collecting s0 ops extra) E share_phase_results"
  unfolding share_phase_results_def by (intro triples collecting_set_result) simp_all

lemma collect_documents_collecting:
  assumes "cleaned s0 ops"
  shows "valid (collecting s0 ops []) (collect_documents w cfg)
    (\<lambda>_. collecting s0 ops [collect_result cfg 0]) (uncollected s0)"
proof -
  have w: "steady (collecting s0 ops extra) (uncollected s0) (with_state (\<lambda>s. write_collected w (d s)))"
    if "extra = [] \<or> extra = [collect_result cfg 0]" for d extra
    using assms that by (intro steady_with_state write_checked_collecting) auto
  show ?thesis unfolding collect_documents_def write_results_def write_index_def block_simps
    by (rule valid_andThen [OF w], simp, rule valid_andThen [OF add_phase_result_collecting],
        rule valid_andThen [OF succeed_if_created_collecting], rule valid_andThen [OF share_phase_results_collecting],
        rule valid_andThen [OF w], simp, rule valid_andThen [OF w], simp, rule valid_andThen [OF w], simp,
        rule valid_ret, assumption)
qed

section \<open>Uploading\<close>

definition spoiled :: "run_state \<Rightarrow> trace \<Rightarrow> phase_result \<Rightarrow> run_state \<Rightarrow> bool" where
  "spoiled s0 ops p s \<longleftrightarrow> collecting s0 ops [p] s \<and> rr_status (st_result s) \<noteq> StatusSucceeded"

interpretation spoiled: quiet_invariant "spoiled s0 ops p" for s0 ops p
  by unfold_locales (simp add: spoiled_def collecting.keeps_quiet)

text \<open>After the first upload: a failed one has spoiled the status.\<close>

definition uploaded :: "run_state \<Rightarrow> trace \<Rightarrow> go_error option \<Rightarrow> run_state \<Rightarrow> bool" where
  "uploaded s0 ops err s \<longleftrightarrow>
     (\<exists>p. collect_ok p \<and> (if err = None then collecting s0 ops [p] s else spoiled s0 ops p s))"

definition collected :: "run_state \<Rightarrow> run_state \<Rightarrow> bool" where
  "collected s0 s \<longleftrightarrow> (\<exists>ops p. collect_ok p \<and> cleaned s0 ops \<and> collecting s0 ops [p] s)"

lemma upload_refs_collecting: "steady (collecting s0 ops extra) E (upload_refs w refs)"
  unfolding upload_refs_def Let_def by (intro collecting_steps) simp_all

lemma note_upload_error_collecting:
  "valid (collecting s0 ops [p]) (note_upload_error key err)
     (\<lambda>_ s. if err = None then collecting s0 ops [p] s else spoiled s0 ops p s) E"
proof (cases err)
  case None
  then show ?thesis unfolding note_upload_error_def note_error_def block_simps
    by (auto intro!: triples)
next
  case (Some e)
  have "collecting s0 ops [p] (s\<lparr>st_result := partial_upload e (st_result s)\<rparr>)"
    if s: "collecting s0 ops [p] s" for s
    using s by (intro collecting_step [OF s, where tail = "[]"]) (auto simp: partial_upload_def collecting_def spoils_def)
  then have "valid (collecting s0 ops [p]) (set_result (partial_upload e)) (\<lambda>_. spoiled s0 ops p) E"
    unfolding set_result_def by (intro valid_modify) (simp add: spoiled_def partial_upload_def)
  with Some show ?thesis unfolding note_upload_error_def note_error_def block_simps
    by (auto intro!: valid_andThen [OF collecting_set_meta] valid_andThen valid_ret)
qed

lemma replace_last_collecting:
  "valid (collecting s0 ops [p]) (replace_last_phase q) (\<lambda>_. collecting s0 ops [q]) E"
  unfolding replace_last_phase_def block_simps
  by (rule valid_andThen [OF valid_modify], rule_tac [2] valid_andThen [OF share_phase_results_collecting],
      rule_tac [2] valid_ret) (simp_all add: collecting_def butlast_append)

lemma uploaded_quiet:
  "uploaded s0 ops err s \<Longrightarrow> quiet a \<Longrightarrow> uploaded s0 ops err (s\<lparr>st_trace := st_trace s @ [a]\<rparr>)"
  unfolding uploaded_def by (auto split: if_splits intro: collecting.keeps_quiet spoiled.keeps_quiet)

lemma uploaded_fails:
  assumes "cleaned s0 ops" shows "valid (uploaded s0 ops err) (failPhase PhaseCollect code e) Q (uncollected s0)"
  unfolding failPhase_def
proof (rule valid_fail)
  fix s assume "uploaded s0 ops err s"
  then obtain p where "collect_ok p" "collecting s0 ops [p] s" by (auto simp: uploaded_def spoiled_def split: if_splits)
  with assms show "uncollected s0 e (failed_state PhaseCollect code e StatusFailed zero_exec_result s)"
    by (intro collecting_fails) auto
qed

interpretation uploaded: quiet_invariant "uploaded s0 ops err" for s0 ops err
  by unfold_locales (rule uploaded_quiet)

lemma write_collected_uploaded:
  "cleaned s0 ops \<Longrightarrow> steady (uploaded s0 ops err) (uncollected s0) (write_collected w d)"
  unfolding write_checked_def write_document_def check_def
  by (intro triples uploaded.performs uploaded_fails) simp_all

lemma collect_upload_uploaded:
  assumes c: "cleaned s0 ops"
  shows "valid (collecting s0 ops [collect_result cfg 0]) (collect_upload w cfg)
    (\<lambda>(_, err). uploaded s0 ops err) (uncollected s0)"
proof -
  have note_up: "valid (collecting s0 ops [p]) (note_upload_error key err) (\<lambda>_. uploaded s0 ops err) E"
    if "collect_ok p" for p key err E
    by (rule valid_weaken [OF note_upload_error_collecting]) (use that in \<open>auto simp: uploaded_def split: if_splits\<close>)
  have wr: "steady (uploaded s0 ops err) (uncollected s0) (write_results w)"
    and wi: "steady (uploaded s0 ops err) (uncollected s0) (write_index w refs)" for err refs
    unfolding write_results_def write_index_def by (intro steady_with_state write_collected_uploaded c)+
  show ?thesis unfolding collect_upload_def Let_def block_simps
  proof (rule valid_with_state, rule valid_weaken [where P' = "collecting s0 ops [collect_result cfg 0]"],
      rule valid_andThen [OF collecting.performs], simp, rule valid_andThen [OF collecting_needs [OF c]], simp,
      rule valid_andThen [OF upload_refs_collecting])
    fix s refs and x :: "artifact_ref list \<times> go_error option"
    obtain up err where x: "x = (up, err)" by (cases x)
    let ?final = "mergeUploadedRefs (writer_root s) refs up"
    show "valid (collecting s0 ops [collect_result cfg 0])
      (case x of (up, err) \<Rightarrow>
        andThen (andThen (set_result (\<lambda>r. r\<lparr>rr_artifacts := mergeUploadedRefs (writer_root s) refs up\<rparr>)) (\<lambda>_.
        andThen (replace_last_phase (collect_result cfg (int (length (mergeUploadedRefs (writer_root s) refs up))))) (\<lambda>_.
        andThen (note_upload_error ''artifact_upload_error'' err) (\<lambda>_.
        andThen (write_results w) (\<lambda>_.
        andThen (write_index w (mergeUploadedRefs (writer_root s) refs up)) (\<lambda>_. ret ()))))))
        (\<lambda>_. ret (mergeUploadedRefs (writer_root s) refs up, err)))
      (\<lambda>(_, err). uploaded s0 ops err) (uncollected s0)"
      unfolding x prod.case
      by (rule valid_andThen, rule valid_andThen [OF collecting_set_result], simp, simp,
          rule valid_andThen [OF replace_last_collecting], rule valid_andThen [OF note_up], simp,
          rule valid_andThen [OF wr], rule valid_andThen [OF wi], rule valid_ret, assumption, rule valid_ret, simp)
  qed simp_all
qed

lemma end_collect_uploaded: "steady (uploaded s0 ops err) E end_collect"
  unfolding end_collect_def by (intro steady_with_state uploaded.ends)

lemma uploaded_collected: "uploaded s0 ops err s \<Longrightarrow> cleaned s0 ops \<Longrightarrow> collected s0 s"
  by (auto simp: uploaded_def collected_def spoiled_def split: if_splits)

lemma uploaded_uncollected:
  assumes "uploaded s0 ops (Some e) s" "cleaned s0 ops" shows "uncollected s0 e' s"
proof -
  from assms(1) obtain p where "collect_ok p" "collecting s0 ops [p] s" "rr_status (st_result s) \<noteq> StatusSucceeded"
    by (auto simp: uploaded_def spoiled_def)
  with assms(2) show ?thesis unfolding uncollected_def by (intro exI [of _ s] exI [of _ ops] exI [of _ "[p]"]) simp
qed

lemma summary_upload_collected:
  assumes c: "cleaned s0 ops"
  shows "valid (uploaded s0 ops None) (summary_upload w final) (\<lambda>_. collected s0) (uncollected s0)"
proof -
  have end_ok: "valid (uploaded s0 ops None) end_collect (\<lambda>_. collected s0) (uncollected s0)"
    by (rule valid_weaken [OF end_collect_uploaded]) (auto intro: uploaded_collected c)
  have ups: "steady (uploaded s0 ops err) E (upload_refs w refs)" for err E refs
    unfolding upload_refs_def Let_def by (intro triples uploaded.performs) simp_all
  have note_up: "valid (uploaded s0 ops None) (note_upload_error key (Some e)) (\<lambda>_. uploaded s0 ops (Some e)) E" for key e E
  proof -
    have "valid (\<lambda>s. \<exists>p. collecting s0 ops [p] s \<and> collect_ok p) (note_upload_error key (Some e))
        (\<lambda>_. uploaded s0 ops (Some e)) E"
      by (intro valid_exists valid_pure, rule valid_weaken [OF note_upload_error_collecting]) (auto simp: uploaded_def)
    then show ?thesis by (rule valid_weaken) (auto simp: uploaded_def)
  qed
  have wi: "steady (uploaded s0 ops err) E (with_state (\<lambda>s. write_ignoring w (d s)))" for err E d
    unfolding write_ignoring_def write_document_def by (intro triples uploaded.performs) simp_all
  have failing: "valid (uploaded s0 ops None) (andThen (block
           [note_upload_error ''artifact_summary_upload_error'' (Some e),
            with_state (\<lambda>s. write_ignoring w (DocResults (st_result s))),
            with_state (\<lambda>s. write_ignoring w (DocIndex
              (buildArtifactIndex (st_result s) (st_resolution s) final))),
            end_collect]) (\<lambda>_. throw e)) (\<lambda>_. collected s0) (uncollected s0)" for e
    unfolding block_simps
    by (rule valid_andThen, rule valid_andThen [OF note_up], rule valid_andThen [OF wi], rule valid_andThen [OF wi],
        rule valid_andThen [OF end_collect_uploaded], rule valid_ret, assumption, rule valid_throw,
        erule uploaded_uncollected [OF _ c])
  show ?thesis unfolding summary_upload_def
  proof (rule valid_with_state, rule valid_weaken [where P' = "uploaded s0 ops None"], rule valid_if, rule end_ok,
      rule valid_andThen [OF ups])
    fix s and x :: "artifact_ref list \<times> go_error option"
    obtain up err where x: "x = (up, err)" by (cases x)
    show "valid (uploaded s0 ops None) (case x of (_, err) \<Rightarrow>
       case err of
         None \<Rightarrow> end_collect
       | Some e \<Rightarrow> andThen (block
           [note_upload_error ''artifact_summary_upload_error'' err,
            with_state (\<lambda>s. write_ignoring w (DocResults (st_result s))),
            with_state (\<lambda>s. write_ignoring w (DocIndex
              (buildArtifactIndex (st_result s) (st_resolution s) final))),
            end_collect]) (\<lambda>_. throw e)) (\<lambda>_. collected s0) (uncollected s0)"
      unfolding x prod.case by (cases err) (simp_all only: option.case end_ok failing)
  qed simp_all
qed

theorem runCollect_valid:
  assumes created: "rr_status (st_result s0) \<noteq> StatusCreated" and w: "st_writer s0 \<noteq> None"
  shows "valid (\<lambda>s. s = s0) (runCollect w) (\<lambda>_. collected s0) (uncollected s0)"
proof -
  let ?cfg = "st_cfg s0"
  have upload: "valid (\<lambda>s. \<exists>ops. collecting s0 ops [] s \<and> cleaned s0 ops)
      (andThen (collect_documents w ?cfg) (\<lambda>_.
       andThen (collect_upload w ?cfg) (\<lambda>(final, err).
       case err of None \<Rightarrow> summary_upload w final | Some e \<Rightarrow> andThen end_collect (\<lambda>_. throw e))))
      (\<lambda>_. collected s0) (uncollected s0)"
  proof (rule valid_exists, rule valid_pure, rule valid_andThen [OF collect_documents_collecting], assumption,
      rule valid_andThen [OF collect_upload_uploaded], assumption)
    fix ops and x :: "artifact_ref list \<times> go_error option"
    assume c: "cleaned s0 ops"
    obtain final err where x: "x = (final, err)" by (cases x)
    have "valid (uploaded s0 ops (Some e)) (andThen end_collect (\<lambda>_. throw e)) Q (uncollected s0)"
      for e and Q :: "unit \<Rightarrow> run_state \<Rightarrow> bool"
      by (rule valid_andThen [OF end_collect_uploaded], rule valid_throw, erule uploaded_uncollected [OF _ c])
    with summary_upload_collected [OF c]
    show "valid (case x of (_, err) \<Rightarrow> uploaded s0 ops err) (case x of (final, err) \<Rightarrow>
        case err of None \<Rightarrow> summary_upload w final | Some e \<Rightarrow> andThen end_collect (\<lambda>_. throw e))
        (\<lambda>_. collected s0) (uncollected s0)"
      unfolding x prod.case by (cases err) (simp_all only: option.case)
  qed
  have main: "valid (collecting s0 [] []) (andThen (block [startPhase PhaseCollect, collect_sandbox w ?cfg, collect_documents w ?cfg]) (\<lambda>_.
       andThen (collect_upload w ?cfg) (\<lambda>(final, err).
       case err of None \<Rightarrow> summary_upload w final | Some e \<Rightarrow> andThen end_collect (\<lambda>_. throw e))))
      (\<lambda>_. collected s0) (uncollected s0)"
    unfolding block_simps andThen_assoc ret_andThen
    by (rule valid_andThen [OF collecting.starts], rule valid_andThen [OF collect_sandbox_collecting], simp, rule upload)
  show ?thesis unfolding runCollect_def Let_def
  proof (rule valid_with_state, rule valid_if)
    fix s assume "s = s0" "st_writer s = None"
    with w show "valid (\<lambda>s'. s' = s) (ret ()) (\<lambda>_. collected s0) (uncollected s0)" by simp
  next
    fix s assume s: "s = s0"
    show "valid (\<lambda>s'. s' = s) (andThen (block [startPhase PhaseCollect, collect_sandbox w (st_cfg s), collect_documents w (st_cfg s)]) (\<lambda>_.
       andThen (collect_upload w (st_cfg s)) (\<lambda>(final, err).
       case err of None \<Rightarrow> summary_upload w final | Some e \<Rightarrow> andThen end_collect (\<lambda>_. throw e))))
      (\<lambda>_. collected s0) (uncollected s0)"
      unfolding s by (rule valid_weaken [OF main]) (simp_all add: collecting_refl [OF created])
  qed
qed

end
