(* ===== verification/Engine_Whole.thy ===== *)
theory Engine_Whole
  imports Engine_Collect_Facts
begin

text \<open>
  A whole run: the phases put together. \<open>went\<close> is what holds of the history after the main phases, however
  they ended; \<open>going\<close> adds that no phase has failed so far, and \<open>broken\<close> that one has.
\<close>

definition went :: "engine_world \<Rightarrow> policy_config \<Rightarrow> sandbox_info list \<Rightarrow> executed list \<Rightarrow> run_state \<Rightarrow> bool" where
  "went w pol infos xs s \<longleftrightarrow> st_writer s \<noteq> None \<and> pe_cfg (st_policy s) = pol
     \<and> execs (st_trace s) = xs \<and> cleanups (st_trace s) = [] \<and> created (st_trace s) = infos
     \<and> (\<forall>b. st_backend s = Some b \<longrightarrow> factory_made w b)
     \<and> (if infos = [] then si_id (st_sandbox s) = []
        else infos = [st_sandbox s] \<and> st_backend s \<noteq> None \<and> requiresManagedSandbox (st_cfg s))
     \<and> (\<forall>x\<in>set xs. allowed w (st_policy s) x)
     \<and> sorted (map (\<lambda>x. phase_rank (xs_phase (fst x))) xs) \<and> stops xs"

definition going :: "engine_world \<Rightarrow> policy_config \<Rightarrow> run_config \<Rightarrow> phase list \<Rightarrow> run_state \<Rightarrow> bool" where
  "going w pol cfg phs s \<longleftrightarrow> (\<exists>infos xs. went w pol infos xs s \<and> (\<forall>x\<in>set xs. succeeded x)
     \<and> (\<forall>x\<in>set xs. xs_phase (fst x) \<in> set phs))
     \<and> st_cfg s = cfg \<and> map phr_phase (st_phase_results s) = phs
     \<and> (\<forall>p\<in>set (st_phase_results s). phr_status p = StatusSucceeded)
     \<and> rr_status (st_result s) = StatusSucceeded \<and> rr_exit_code (st_result s) = 0"

definition broken :: "engine_world \<Rightarrow> policy_config \<Rightarrow> go_error \<Rightarrow> run_state \<Rightarrow> bool" where
  "broken w pol e s \<longleftrightarrow> (\<exists>infos xs. went w pol infos xs s)
     \<and> (\<exists>ps p ph. st_phase_results s = ps @ [p] \<and> (\<forall>q\<in>set ps. phr_status q = StatusSucceeded)
        \<and> failed_with ph e p \<and> reported p (st_result s))"

lemma based_went: "based w pol infos s \<Longrightarrow> went w pol infos [] s"
  by (simp add: based_def went_def stops_def)

lemma prepared_going: "prepared w pol s \<Longrightarrow> going w pol (st_cfg s) [PhasePrepare] s"
  unfolding prepared_def going_def using based_went by fastforce

lemma unprepared_broken: "unprepared w pol e s \<Longrightarrow> broken w pol e s"
  unfolding unprepared_def broken_def using based_went by (fastforce intro: exI [of _ "[]"])

text \<open>A phase that ran the commands \<open>ys\<close> after \<open>xs\<close>.\<close>

lemma went_extend:
  assumes went: "went w pol infos xs s0" and run: "has_run w ph s0 ys s" and "stops (xs @ ys)"
    and rank: "\<forall>x\<in>set xs. phase_rank (xs_phase (fst x)) \<le> phase_rank ph"
  shows "went w pol infos (xs @ ys) s"
proof -
  from run obtain new where tr: "st_trace s = st_trace s0 @ new" "execs new = ys"
    and q: "\<forall>a\<in>set new. quiet a \<or> exec_of a \<noteq> None" and ctx: "same_context s0 s"
    and ys: "\<forall>x\<in>set ys. xs_phase (fst x) = ph \<and> allowed w (st_policy s0) x"
    unfolding has_run_def by blast
  have "map (\<lambda>x. phase_rank (xs_phase (fst x))) ys = replicate (length ys) (phase_rank ph)"
    using ys by (intro replicate_eqI) auto
  with went rank ys have "sorted (map (\<lambda>x. phase_rank (xs_phase (fst x))) (xs @ ys))"
    by (auto simp: went_def sorted_append)
  with went ctx tr quiet_or_exec_tail [OF q] ys assms(3) show ?thesis
    by (auto simp: went_def same_context_def)
qed

lemma stops_append:
  assumes "\<forall>x\<in>set xs. succeeded x" "stops ys" shows "stops (xs @ ys)"
proof (cases ys rule: rev_cases)
  case Nil
  with assms(1) show ?thesis by (simp add: stops_all)
next
  case (snoc zs z)
  with assms have "\<forall>x\<in>set (xs @ zs). succeeded x" by auto
  then show ?thesis unfolding snoc append_assoc [symmetric] by (simp only: stops_snoc)
qed

lemma going_lost:
  assumes "going w pol cfg phs s0" "\<forall>p\<in>set phs. phase_rank p \<le> phase_rank ph" "lost w ph s0 e s"
  shows "broken w pol e s"
proof -
  from assms(1) obtain infos xs where "went w pol infos xs s0" and xs: "\<forall>x\<in>set xs. succeeded x"
      "\<forall>x\<in>set xs. xs_phase (fst x) \<in> set phs" and ps: "\<forall>p\<in>set (st_phase_results s0). phr_status p = StatusSucceeded"
    unfolding going_def by blast
  moreover from assms(3) obtain ys where g: "gone w ph s0 ys e s" unfolding lost_def by blast
  ultimately have "went w pol infos (xs @ ys) s"
    using assms(2) by (intro went_extend [of w pol infos xs s0 ph]) (auto simp: gone_def stops_append)
  with g ps show ?thesis unfolding broken_def gone_def by blast
qed

lemma going_done:
  assumes s0: "going w pol cfg phs s0" and rank: "\<forall>p\<in>set phs. phase_rank p \<le> phase_rank ph"
    and "phase_done w ph en s0 s"
  shows "going w pol cfg (phs @ (if en then [ph] else [])) s"
proof (cases en)
  case False
  with assms show ?thesis by (simp add: phase_done_def)
next
  case True
  from s0 obtain infos xs where went: "went w pol infos xs s0" and xs: "\<forall>x\<in>set xs. succeeded x"
      "\<forall>x\<in>set xs. xs_phase (fst x) \<in> set phs"
    unfolding going_def by blast
  from True assms(3) obtain ys where f: "finished w ph s0 ys s" by (auto simp: phase_done_def)
  then have run: "has_run w ph s0 ys s" and ok: "\<forall>x\<in>set ys. succeeded x" by (simp_all add: finished_def)
  then have "went w pol infos (xs @ ys) s"
    using went rank xs by (intro went_extend [of w pol infos xs s0 ph]) (auto intro!: stops_append stops_all)
  moreover have "rr_exit_code (st_result s) = 0"
    using f s0 ok by (auto simp: finished_def kept_exit_code_def going_def succeeded_def commandError_def
        split: option.splits if_splits)
  moreover have "\<forall>x\<in>set (xs @ ys). xs_phase (fst x) \<in> set (phs @ [ph])"
    using xs run by (auto simp: has_run_def)
  moreover have "st_cfg s = cfg" using s0 run by (simp add: going_def has_run_def same_context_def)
  moreover have "rr_status (st_result s) = StatusSucceeded" "map phr_phase (st_phase_results s) = phs @ [ph]"
    "\<forall>p\<in>set (st_phase_results s). phr_status p = StatusSucceeded"
    using f s0 by (auto simp: finished_def going_def)
  ultimately show ?thesis using True xs(1) ok unfolding going_def by (intro conjI exI [of _ infos] exI [of _ "xs @ ys"]) auto
qed

definition main_phases :: "phases_config \<Rightarrow> phase list" where
  "main_phases phs = [PhasePrepare] @ (if pc_enabled (phs_setup phs) then [PhaseSetup] else [])
     @ (if pc_enabled (phs_execute phs) then [PhaseExecute] else [])
     @ (if pc_enabled (phs_verify phs) then [PhaseVerify] else [])"

lemma phase_step:
  assumes run: "\<And>s0. valid (\<lambda>s. s = s0) m (\<lambda>_. phase_done w ph (en (st_cfg s0)) s0) (lost w ph s0)"
    and rank: "\<forall>p\<in>set phs. phase_rank p \<le> phase_rank ph"
  shows "valid (going w pol cfg phs) m (\<lambda>_. going w pol cfg (phs @ (if en cfg then [ph] else []))) (broken w pol)"
proof (rule validI)
  fix s x s' assume s: "going w pol cfg phs s" and "m s = (Inr x, s')"
  then have "phase_done w ph (en (st_cfg s)) s s'" by (intro validD_value [OF run]) simp
  from going_done [OF s rank this] s show "going w pol cfg (phs @ (if en cfg then [ph] else [])) s'"
    by (simp add: going_def)
next
  fix s e s' assume s: "going w pol cfg phs s" and "m s = (Inl e, s')"
  then have "lost w ph s e s'" by (intro validD_error [OF run]) simp
  then show "broken w pol e s'" by (rule going_lost [OF s rank])
qed

lemma run_main_valid:
  "valid (going w pol cfg [PhasePrepare]) (run_main w)
     (\<lambda>_. going w pol cfg (main_phases (cfg_phases cfg))) (broken w pol)"
proof -
  let ?upto_setup = "[PhasePrepare] @ (if pc_enabled (phs_setup (cfg_phases cfg)) then [PhaseSetup] else [])"
  let ?upto_execute = "?upto_setup @ (if pc_enabled (phs_execute (cfg_phases cfg)) then [PhaseExecute] else [])"
  have "valid (going w pol cfg [PhasePrepare]) (runSetup w) (\<lambda>_. going w pol cfg ?upto_setup) (broken w pol)"
    by (rule phase_step [OF runSetup_valid]) simp
  moreover have "valid (going w pol cfg ?upto_setup) (runExecute w) (\<lambda>_. going w pol cfg ?upto_execute) (broken w pol)"
    by (rule phase_step [OF runExecute_valid]) simp
  moreover have "valid (going w pol cfg ?upto_execute) (runVerify w)
      (\<lambda>_. going w pol cfg (?upto_execute @ (if pc_enabled (phs_verify (cfg_phases cfg)) then [PhaseVerify] else []))) (broken w pol)"
    by (rule phase_step [OF runVerify_valid]) auto
  ultimately show ?thesis unfolding run_main_def block_simps main_phases_def append_assoc [symmetric]
    by (intro valid_andThen [of _ "runSetup w"] valid_andThen [of _ "runExecute w"] valid_andThen [of _ "runVerify w"]
        valid_ret)
qed

section \<open>The outcomes of a run\<close>

inductive outcome :: "engine_world \<Rightarrow> policy_config \<Rightarrow> run_state \<Rightarrow> go_error option \<Rightarrow> bool" for w pol where
  abandoned: "given_up e s \<Longrightarrow> outcome w pol s (Some e)"
| completed: "going w pol cfg (main_phases (cfg_phases cfg)) s \<Longrightarrow> collected s s' \<Longrightarrow>
    outcome w pol (finish_run s') None"
| not_collected: "going w pol cfg (main_phases (cfg_phases cfg)) s \<Longrightarrow> uncollected s e s' \<Longrightarrow>
    outcome w pol (finish_run s') (Some e)"
| failed: "broken w pol e s \<Longrightarrow> collected s s' \<or> (\<exists>e'. uncollected s e' s') \<Longrightarrow>
    outcome w pol (finish_run s') (Some e)"

lemma going_status: "going w pol cfg phs s \<Longrightarrow> rr_status (st_result s) \<noteq> StatusCreated \<and> st_writer s \<noteq> None"
  and broken_status: "broken w pol e s \<Longrightarrow> rr_status (st_result s) \<noteq> StatusCreated \<and> st_writer s \<noteq> None"
  by (auto simp: going_def broken_def went_def failed_with_def reported_def)

lemma runCollect_cases:
  assumes "rr_status (st_result s) \<noteq> StatusCreated \<and> st_writer s \<noteq> None"
  obtains s' where "runCollect w s = (Inr (), s')" "collected s s'"
  | e s' where "runCollect w s = (Inl e, s')" "uncollected s e s'"
proof -
  have v: "valid (\<lambda>t. t = s) (runCollect w) (\<lambda>_. collected s) (uncollected s)"
    using assms by (intro runCollect_valid) simp_all
  obtain r s' where r: "runCollect w s = (r, s')" by (cases "runCollect w s")
  show thesis
  proof (cases r)
    case (Inl e)
    with r validD_error [OF v, of s] that(2) show thesis by auto
  next
    case (Inr x)
    with r validD_value [OF v, of s] that(1) show thesis by auto
  qed
qed

lemma collect_outcome:
  "rr_status (st_result s) \<noteq> StatusCreated \<and> st_writer s \<noteq> None \<Longrightarrow>
   collected s (snd (runCollect w s)) \<or> (\<exists>e'. uncollected s e' (snd (runCollect w s)))"
  by (rule runCollect_cases [of s w]) auto

theorem run_outcome:
  assumes run: "engine_Run w req = (s, err)" shows "outcome w (rq_policy req) s err"
proof -
  let ?pol = "rq_policy req"
  note v = runPrepare_valid [of ?pol w]
  obtain r s1 where r: "runPrepare w (initial_state req) = (r, s1)" by (cases "runPrepare w (initial_state req)")
  have broken_outcome: "outcome w ?pol s err" if b: "broken w ?pol e s2" and "err = Some e"
    and "s = finish_run (snd (runCollect w s2))" for e s2
    using collect_outcome [OF broken_status [OF b]] that outcome.failed [OF b] by auto
  show ?thesis
  proof (cases r)
    case (Inl e)
    with r validD_error [OF v untouched_initial] have "prepare_failed w ?pol e s1" by simp
    then show ?thesis unfolding prepare_failed_def
    proof
      assume g: "given_up e s1"
      then have "st_writer s1 = None" by (simp add: given_up_def)
      with run r Inl have "s = s1" "err = Some e" by (simp_all add: engine_Run_def)
      with g show ?thesis by (simp add: outcome.abandoned)
    next
      assume u: "unprepared w ?pol e s1"
      then have b: "broken w ?pol e s1" by (rule unprepared_broken)
      then have "st_writer s1 \<noteq> None" by (simp add: broken_status)
      with run r Inl have "s = finish_run (snd (runCollect w s1))" "err = Some e"
        by (auto simp: engine_Run_def split: prod.splits)
      with broken_outcome [OF b] show ?thesis by simp
    qed
  next
    case (Inr u)
    with r validD_value [OF v untouched_initial] have "prepared w ?pol s1" by simp
    then have g: "going w ?pol (st_cfg s1) [PhasePrepare] s1" by (rule prepared_going)
    note m = run_main_valid [of w ?pol "st_cfg s1"]
    obtain q s2 where q: "run_main w s1 = (q, s2)" by (cases "run_main w s1")
    show ?thesis
    proof (cases q)
      case (Inl e)
      with q validD_error [OF m g] have b: "broken w ?pol e s2" by simp
      from run r Inr q Inl have "s = finish_run (snd (runCollect w s2))" "err = Some e"
        by (auto simp: engine_Run_def split: prod.splits)
      with broken_outcome [OF b] show ?thesis by simp
    next
      case (Inr x)
      with q validD_value [OF m g] have g2: "going w ?pol (st_cfg s1) (main_phases (cfg_phases (st_cfg s1))) s2" by simp
      from going_status [OF g2] show ?thesis
      proof (cases rule: runCollect_cases [of s2 w, consumes 1])
        case (1 s')
        with run r \<open>r = Inr u\<close> q Inr have "s = finish_run s'" "err = None" by (simp_all add: engine_Run_def)
        with g2 1 show ?thesis by (simp add: outcome.completed)
      next
        case (2 e s')
        with run r \<open>r = Inr u\<close> q Inr have "s = finish_run s'" "err = Some e" by (simp_all add: engine_Run_def)
        with g2 2 show ?thesis by (simp add: outcome.not_collected)
      qed
    qed
  qed
qed

end
