(* ===== verification/Engine_Props.thy ===== *)
theory Engine_Props
  imports Engine_Whole
begin

text \<open>
  The properties of a whole run of the engine, each over \<open>engine_Run\<close>: the commands it executes, where it
  stops, what it cleans up, the result and the exit code it reports, and its phase results. The example
  world in which the witnesses apply them runs a Go project in an OpenSandbox sandbox.
\<close>

section \<open>An example world\<close>

definition example_backend :: "trace sandbox_backend" where
  "example_backend =
     \<lparr>sbk_kind = BackendKindOpenSandbox,
      sbk_capabilities = (\<lambda>_. Inr (zero_caps\<lparr>caps_supports_pause_resume := True\<rparr>)),
      sbk_runtime_info = (\<lambda>_. Inr zero_runtime_info),
      sbk_create = (\<lambda>_ _. Inr (zero_sandbox_info\<lparr>si_id := ''sb-1''\<rparr>)),
      sbk_start = (\<lambda>_ _. None), sbk_pause = (\<lambda>_ _. None), sbk_delete = (\<lambda>_ _. None),
      sbk_sync_in = None, sbk_sync_out = None,
      sbk_metadata = Some (\<lambda>_ i. Inr (zero_sandbox_info\<lparr>si_id := i, si_status := ''running''\<rparr>)),
      sbk_endpoints = None, sbk_devcontainer = None, sbk_download = None\<rparr>"

definition example_exec :: "int \<Rightarrow> exec_world" where
  "example_exec code =
     \<lparr>xw_executable = (\<lambda>_. True), xw_spawn = (\<lambda>_ _ _ _. Ran [] [] False WaitOk), xw_cancelled = (\<lambda>_. False),
      xw_docker = (\<lambda>_ _. (zero_exec_result, None, [])),
      xw_backend =
        \<lparr>xb_exec = (\<lambda>_ req. Inr \<lparr>eh_exec_id = xr_command req, eh_status = [], eh_provider = []\<rparr>),
         xb_stream = (\<lambda>_ i. Inr [\<lparr>lc_stream = ''stdout'', lc_line = i\<rparr>]),
         xb_status = Some (\<lambda>_ i _. Inr \<lparr>es_id = i, es_running = False,
           es_exit_code = Some (if i = ''go vet'' then code else 0), es_error = []\<rparr>),
         xb_cancels = False\<rparr>,
      xw_context = \<lparr>xc_stop = None, xc_err = None\<rparr>\<rparr>"

definition example_world :: "int \<Rightarrow> engine_world" where
  "example_world code =
     \<lparr>ew_host = \<lparr>host_env = [(''HOME'', ''/root'')], host_cwd = Some ''/workspace'', host_goos = ''linux'',
        host_goarch = ''amd64''\<rparr>,
      ew_run_id = ''run-1'', ew_shlex = (\<lambda>_. None),
      ew_platform = \<lparr>pw_dockerenv = False, pw_cgroup = None, pw_status = None, pw_docker = (\<lambda>_. Some Canceled)\<rparr>,
      ew_probe = (\<lambda>_ _ _. Inr \<lparr>pr_ok = True, pr_details = [], pr_warnings = [], pr_errors = []\<rparr>),
      ew_mkdir = (\<lambda>_ _. None), ew_write = (\<lambda>_ _ _. None),
      ew_bootstrap = (\<lambda>_ _. Inr \<lparr>bsr_enabled = False, bsr_using_jsonl = True, bsr_warnings = [], bsr_process = False\<rparr>),
      ew_new_emitter = (\<lambda>_ _ _. None), ew_start_run = (\<lambda>_. None),
      ew_backends = \<lparr>bc_local = (\<lambda>_ _. example_backend), bc_devcontainer = (\<lambda>_. Inr example_backend),
        bc_apple_container = (\<lambda>_. Inr example_backend), bc_orbstack_machine = (\<lambda>_. Inr example_backend),
        bc_opensandbox = (\<lambda>_. example_backend)\<rparr>,
      ew_workspace = (\<lambda>_. \<lparr>ww_exists = (\<lambda>p. p = ''/workspace/go.mod''), ww_read = (\<lambda>_. Inr []),
        ww_sha256_hex = (\<lambda>s. s), ww_combined_output = (\<lambda>_. ([], True)), ww_git_head = (\<lambda>_. None),
        ww_go_env = (\<lambda>_. None), ww_goos = ''linux'', ww_goarch = ''amd64''\<rparr>),
      ew_docker_new = (\<lambda>_ _. None), ew_exec = (\<lambda>_. example_exec code),
      ew_stat = (\<lambda>_ _. True), ew_walk = (\<lambda>_ _. Inr []), ew_s3 = (\<lambda>_ refs _ _ _ _. (refs, None))\<rparr>"

definition example_request :: "execution_config \<Rightarrow> run_request" where
  "example_request ex =
     \<lparr>rq_config_path = [], rq_policy_path = [], rq_artifact_dir = [], rq_command = [''go'', ''vet''],
      rq_run_config = DefaultRunConfig\<lparr>cfg_execution := ex, cfg_backend := \<lparr>bk_kind = ex_backend ex\<rparr>,
        cfg_run := (cfg_run DefaultRunConfig)\<lparr>rs_command := [''go'', ''vet'']\<rparr>\<rparr>,
      rq_policy = DefaultPolicyConfig, rq_target = zero_target,
      rq_version = \<lparr>vi_version = [], vi_git_sha = [], vi_build_time = [], vi_target_os = [], vi_target_arch = []\<rparr>\<rparr>"

definition opensandbox_execution :: execution_config where
  "opensandbox_execution =
     \<lparr>ex_backend = ExecutionBackendOpenSandbox, ex_provider = ''opensandbox'', ex_runtime_profile = ''default''\<rparr>"

definition example_run :: "run_state \<times> go_error option" where
  "example_run = engine_Run (example_world 3) (example_request opensandbox_execution)"

lemma example_run_eq:
  "engine_Run (example_world 3) (example_request opensandbox_execution) = (fst example_run, snd example_run)"
  by (simp add: example_run_def)

lemma example_keeps_id: "factory_made (example_world n) b \<Longrightarrow> keeps_id b"
  by (auto simp: factory_made_def backend_New_def example_world_def example_backend_def keeps_id_def Let_def
      split: if_splits)

section \<open>The end of a run\<close>

lemma finish_run_simps [simp]:
  "execs (st_trace (finish_run s)) = execs (st_trace s)"
  "cleanups (st_trace (finish_run s)) = cleanups (st_trace s)"
  "created (st_trace (finish_run s)) = created (st_trace s)"
  "st_phase_results (finish_run s) = st_phase_results s" "st_req (finish_run s) = st_req s"
  "st_caps (finish_run s) = st_caps s" "st_policy (finish_run s) = st_policy s"
  "rr_status (st_result (finish_run s)) = rr_status (st_result s)"
  "rr_exit_code (st_result (finish_run s)) = rr_exit_code (st_result s)"
  "rr_phase_results (st_result (finish_run s)) = st_phase_results s"
  by (simp_all add: finish_run_def Let_def)

definition wound_up :: "run_state \<Rightarrow> run_state \<Rightarrow> bool" where
  "wound_up s0 s \<longleftrightarrow> st_policy s = st_policy s0 \<and> st_caps s = st_caps s0 \<and> same_config (st_cfg s0) (st_cfg s)
     \<and> (\<exists>tail. st_trace s = st_trace s0 @ tail \<and> execs tail = [] \<and> created tail = []
          \<and> cleaned s0 (cleanups tail))"

lemma collecting_wound_up: "collecting s0 ops extra s \<Longrightarrow> cleaned s0 ops \<Longrightarrow> wound_up s0 s"
  by (auto simp: collecting_def wound_up_def)

lemma collected_wound_up: "collected s0 s \<Longrightarrow> wound_up s0 s"
  unfolding collected_def using collecting_wound_up by blast

lemma uncollected_wound_up:
  assumes "uncollected s0 e s" shows "wound_up s0 s"
proof -
  from assms obtain s1 ops extra where c: "collecting s0 ops extra s1" "cleaned s0 ops"
    and same: "st_trace s1 = st_trace s" "st_policy s1 = st_policy s" "st_cfg s1 = st_cfg s" "st_caps s1 = st_caps s"
    unfolding uncollected_def by metis
  from collecting_wound_up [OF c] same show ?thesis by (simp add: wound_up_def)
qed

lemma finish_run_wound_up: "wound_up s0 s \<Longrightarrow> wound_up s0 (finish_run s)"
  unfolding wound_up_def by (auto simp: finish_run_def Let_def)

text \<open>What all runs that opened their artifact directory have in common.\<close>

lemma outcome_cases:
  assumes "outcome w pol s err"
  obtains (abandoned) e where "given_up e s" "err = Some e"
  | (wound) s0 infos xs where "went w pol infos xs s0" "wound_up s0 s" "err = None \<longrightarrow> (\<forall>x\<in>set xs. succeeded x)"
  using assms
proof cases
  case (completed cfg s0 s')
  then obtain infos xs where "went w pol infos xs s0" "\<forall>x\<in>set xs. succeeded x" by (auto simp: going_def)
  with wound [of infos xs s0] completed collected_wound_up finish_run_wound_up show thesis by blast
next
  case (not_collected cfg s0 e s')
  then obtain infos xs where "went w pol infos xs s0" by (auto simp: going_def)
  with wound [of infos xs s0] not_collected uncollected_wound_up finish_run_wound_up show thesis by blast
next
  case (failed e s0 s')
  then obtain infos xs where "went w pol infos xs s0" by (auto simp: broken_def)
  moreover have "wound_up s0 s'" using failed collected_wound_up uncollected_wound_up by blast
  ultimately show thesis using wound [of infos xs s0] failed finish_run_wound_up by blast
qed (rule abandoned)

lemma given_up_history: "given_up e s \<Longrightarrow> execs (st_trace s) = [] \<and> cleanups (st_trace s) = [] \<and> created (st_trace s) = []"
  by (simp add: given_up_def early_tail)

lemma wound_up_execs: "wound_up s0 s \<Longrightarrow> execs (st_trace s) = execs (st_trace s0)"
  and wound_up_created: "wound_up s0 s \<Longrightarrow> created (st_trace s) = created (st_trace s0)"
  by (auto simp: wound_up_def)

section \<open>The commands of a run\<close>

lemma CheckCommand_policy:
  "pe_cfg p = pe_cfg q \<Longrightarrow> CheckCommand shlex p ph cmd = CheckCommand shlex q ph cmd"
  by (simp add: CheckCommand_def)

text \<open>
  C1: Every command that a run hands to an executor has been allowed by the policy of the request for the
  phase it runs in. This covers setup steps, the rewritten command of the execute phase and the smoke
  command, on every path of the run.
\<close>

theorem run_commands_allowed:
  assumes "engine_Run w req = (s, err)"
  shows "list_all (\<lambda>x. CheckCommand (ew_shlex w) (NewEngine (rq_policy req) (rq_run_config req))
      (xs_phase (fst x)) (xs_command (fst x)) = None) (execs (st_trace s))"
  using run_outcome [OF assms]
proof (cases rule: outcome_cases)
  case (abandoned e)
  then show ?thesis by (simp add: given_up_history)
next
  case (wound s0 infos xs)
  then have "pe_cfg (st_policy s0) = rq_policy req" and "\<forall>x\<in>set (execs (st_trace s)). allowed w (st_policy s0) x"
    by (auto simp: wound_up_execs went_def)
  then show ?thesis
    using CheckCommand_policy [of "st_policy s0" "NewEngine (rq_policy req) (rq_run_config req)"]
    by (simp add: allowed_def NewEngine_def list_all_iff)
qed

lemma run_commands_allowed_witness:
  "list_all (\<lambda>x. CheckCommand (ew_shlex (example_world 3)) (NewEngine DefaultPolicyConfig
      (rq_run_config (example_request opensandbox_execution))) (xs_phase (fst x)) (xs_command (fst x)) = None)
    (execs (st_trace (fst example_run)))"
  using run_commands_allowed [OF example_run_eq] by (simp only: example_request_def run_request.simps)

text \<open>
  C4: A run stops at the first command that fails: of the commands executed, all but the last have
  succeeded, and all of them if the run returns no error. The commands come in the order of their phases.
\<close>

theorem run_stops_at_failure:
  assumes "engine_Run w req = (s, err)"
  shows "stops (execs (st_trace s)) \<and> (err \<noteq> None \<or> list_all succeeded (execs (st_trace s)))
    \<and> sorted (map (\<lambda>x. phase_rank (xs_phase (fst x))) (execs (st_trace s)))"
  using run_outcome [OF assms]
proof (cases rule: outcome_cases)
  case (abandoned e)
  then show ?thesis by (simp add: given_up_history stops_def)
next
  case (wound s0 infos xs)
  then show ?thesis by (auto simp: wound_up_execs went_def list_all_iff)
qed

lemma run_stops_at_failure_witness:
  "stops (execs (st_trace (fst example_run)))"
  using run_stops_at_failure [OF example_run_eq] by simp

section \<open>Cleaning up\<close>

lemma run_cleans_up_general:
  assumes "engine_Run w req = (s, err)" and keeps: "\<And>b. factory_made w b \<Longrightarrow> keeps_id b"
  shows "cleanups (st_trace s) = (case created (st_trace s) of [] \<Rightarrow> []
      | info # rest \<Rightarrow> if si_id info = [] then []
          else cleanup_actions (snd (cleanup_choice (st_cfg s) (st_caps s))) (si_id info))
    \<and> length (created (st_trace s)) \<le> 1
    \<and> (\<exists>before after. st_trace s = before @ after \<and> cleanups before = [] \<and> execs after = [])"
  using run_outcome [OF assms(1)]
proof (cases rule: outcome_cases)
  case (abandoned e)
  then have "st_trace s = st_trace s @ [] \<and> cleanups (st_trace s) = [] \<and> execs [] = []" by (simp add: given_up_history)
  with abandoned given_up_history show ?thesis by fastforce
next
  case (wound s0 infos xs)
  then obtain tail where tail: "st_trace s = st_trace s0 @ tail" "execs tail = []" "created tail = []"
    "cleaned s0 (cleanups tail)" by (auto simp: wound_up_def)
  from wound have "keeps_sandbox s0" using keeps by (auto simp: went_def keeps_sandbox_def)
  with tail have ops: "cleanups tail = expected_cleanup s0" by (simp add: cleaned_def)
  from wound have before: "cleanups (st_trace s0) = []" "created (st_trace s0) = infos" by (simp_all add: went_def)
  have choice: "cleanup_choice (st_cfg s) (st_caps s) = cleanup_choice (st_cfg s0) (st_caps s0)"
    using wound by (simp add: wound_up_def same_config_cleanup)
  have "expected_cleanup s0 = (case infos of [] \<Rightarrow> [] | info # rest \<Rightarrow> if si_id info = [] then []
      else cleanup_actions (snd (cleanup_choice (st_cfg s) (st_caps s))) (si_id info))" and "length infos \<le> 1"
    using wound by (auto simp: went_def expected_cleanup_def choice split: if_splits list.splits)
  moreover have "\<exists>before after. st_trace s = before @ after \<and> cleanups before = [] \<and> execs after = []"
    using tail before by blast
  ultimately show ?thesis using tail ops before by simp
qed

text \<open>
  C2: A run creates at most one sandbox, and cleans it up on every path, errors included, exactly as the
  cleanup mode of its backend says (once, or not at all when the mode is to keep it); a run that created
  none cleans nothing up. Nothing is executed after the cleanup. The hypothesis is that the backend's
  metadata call reports the sandbox it was asked about: the engine cleans up the id of the last report.
\<close>

theorem run_cleans_up:
  assumes "engine_Run w req = (s, err)" and keeps: "\<And>b. factory_made w b \<Longrightarrow> keeps_id b"
  shows "cleanups (st_trace s) = (case created (st_trace s) of [] \<Rightarrow> []
      | info # rest \<Rightarrow> if si_id info = [] then []
          else cleanup_actions (snd (cleanup_choice (st_cfg s) (st_caps s))) (si_id info))
    \<and> length (created (st_trace s)) \<le> 1
    \<and> (\<exists>before after. st_trace s = before @ after \<and> cleanups before = [] \<and> execs after = [])"
  using run_cleans_up_general [OF assms] .

lemma run_cleans_up_witness:
  "length (created (st_trace (fst example_run))) \<le> 1"
  using run_cleans_up [OF example_run_eq] example_keeps_id by simp

section \<open>The result of a run\<close>

lemma collected_status:
  assumes "collected s0 s" shows "spoils (rr_status (st_result s0)) (rr_status (st_result s))"
    "rr_exit_code (st_result s) = rr_exit_code (st_result s0)"
    "\<exists>p. collect_ok p \<and> st_phase_results s = st_phase_results s0 @ [p]"
  using assms by (auto simp: collected_def collecting_def)

lemma uncollected_status:
  assumes "uncollected s0 e s"
  obtains (failing) p where "failed_with PhaseCollect e p" "reported p (st_result s)" "p \<in> set (st_phase_results s)"
  | (spoiled) "spoils (rr_status (st_result s0)) (rr_status (st_result s))" "rr_status (st_result s) \<noteq> StatusSucceeded"
proof -
  from assms obtain s1 ops extra where "collecting s0 ops extra s1"
    and "(\<exists>p. st_phase_results s = st_phase_results s1 @ [p] \<and> failed_with PhaseCollect e p \<and> reported p (st_result s))
      \<or> s1 = s \<and> extra \<noteq> [] \<and> rr_status (st_result s) \<noteq> StatusSucceeded"
    unfolding uncollected_def by blast
  with failing spoiled show thesis by (auto simp: collecting_def)
qed

lemma uncollected_phases:
  assumes "uncollected s0 e s" shows "set (st_phase_results s0) \<subseteq> set (st_phase_results s)"
proof -
  from assms obtain s1 ops extra where "collecting s0 ops extra s1"
    and "(\<exists>p. st_phase_results s = st_phase_results s1 @ [p]) \<or> s1 = s"
    unfolding uncollected_def by blast
  then show ?thesis by (auto simp: collecting_def)
qed

lemma failed_with_status: "failed_with ph e p \<Longrightarrow> reported p r \<Longrightarrow> rr_status r \<in> {StatusFailed, StatusTimedOut}"
  by (simp add: failed_with_def reported_def)

text \<open>The status a run ends with, and its exit code when it returns no error.\<close>

lemma outcome_status:
  assumes "outcome w pol s err"
  shows "if err = None
    then rr_status (st_result s) \<in> {StatusSucceeded, StatusPartial} \<and> rr_exit_code (st_result s) = 0
    else rr_status (st_result s) \<in> {StatusFailed, StatusTimedOut, StatusPartial}"
  using assms
proof cases
  case (abandoned e)
  then show ?thesis by (simp add: given_up_def)
next
  case (completed cfg s0 s')
  then show ?thesis using collected_status [of s0 s'] by (auto simp: going_def spoils_def)
next
  case (not_collected cfg s0 e s')
  show ?thesis
  proof (rule uncollected_status [OF not_collected(4)])
    fix p assume "failed_with PhaseCollect e p" "reported p (st_result s')"
    with not_collected failed_with_status show ?thesis by fastforce
  next
    assume "spoils (rr_status (st_result s0)) (rr_status (st_result s'))" "rr_status (st_result s') \<noteq> StatusSucceeded"
    with not_collected show ?thesis by (auto simp: going_def spoils_def)
  qed
next
  case (failed e s0 s')
  then have bad: "rr_status (st_result s0) \<in> {StatusFailed, StatusTimedOut}"
    unfolding broken_def using failed_with_status by blast
  from failed(4) have "rr_status (st_result s') \<in> {StatusFailed, StatusTimedOut}"
  proof
    assume "collected s0 s'"
    with collected_status(1) bad show ?thesis by (fastforce simp: spoils_def)
  next
    assume "\<exists>e'. uncollected s0 e' s'"
    then obtain e' where u: "uncollected s0 e' s'" by blast
    show ?thesis by (rule uncollected_status [OF u]) (use bad failed_with_status in \<open>fastforce simp: spoils_def\<close>)+
  qed
  with failed show ?thesis by auto
qed



section \<open>The phase results\<close>

text \<open>What a run reports when it returns no error, and when it returns one.\<close>

lemma completed_phases:
  assumes "outcome w pol s None"
  shows "map phr_phase (rr_phase_results (st_result s)) = main_phases (cfg_phases (st_cfg s)) @ [PhaseCollect]
    \<and> list_all (\<lambda>p. phr_status p = StatusSucceeded) (rr_phase_results (st_result s))"
  using assms
proof cases
  case (completed cfg s0 s')
  then obtain p where "collect_ok p" and ps: "st_phase_results s' = st_phase_results s0 @ [p]"
    using collected_status(3) by blast
  moreover have "cfg_phases (st_cfg s') = cfg_phases cfg"
    using completed collected_wound_up [of s0 s'] by (auto simp: wound_up_def same_config_def going_def)
  ultimately show ?thesis using completed by (auto simp: going_def collect_ok_def list_all_iff)
qed

definition accounted_for :: "go_error \<Rightarrow> run_state \<Rightarrow> bool" where
  "accounted_for e s \<longleftrightarrow>
     list_ex (\<lambda>p. phr_status p \<in> {StatusFailed, StatusTimedOut} \<and> phr_error_message p = error_string e)
       (rr_phase_results (st_result s))
     \<or> rr_status (st_result s) = StatusPartial
     \<or> rr_phase_results (st_result s) = [] \<and> rr_error_message (st_result s) = error_string e
         \<and> list_all early_action (st_trace s)"

lemma failure_accounted_for:
  assumes "outcome w pol s (Some e)" shows "accounted_for e s"
  using assms
proof cases
  case abandoned
  then show ?thesis by (simp add: accounted_for_def given_up_def list_all_iff)
next
  case (not_collected cfg s0 s')
  show ?thesis
  proof (rule uncollected_status [OF not_collected(3)])
    fix p assume "failed_with PhaseCollect e p" "p \<in> set (st_phase_results s')"
    with not_collected show ?thesis by (auto simp: accounted_for_def list_ex_iff failed_with_def)
  next
    assume "spoils (rr_status (st_result s0)) (rr_status (st_result s'))" "rr_status (st_result s') \<noteq> StatusSucceeded"
    with not_collected show ?thesis by (auto simp: accounted_for_def going_def spoils_def)
  qed
next
  case (failed s0 s')
  from failed(2) obtain p ph ps where "st_phase_results s0 = ps @ [p]" and p: "failed_with ph e p"
    unfolding broken_def by blast
  then have "p \<in> set (st_phase_results s0)" by simp
  have "set (st_phase_results s0) \<subseteq> set (st_phase_results s')"
    using failed(3) collected_status(3) uncollected_phases by fastforce
  with \<open>p \<in> set (st_phase_results s0)\<close> p failed(1) show ?thesis by (auto simp: accounted_for_def list_ex_iff failed_with_def)
qed

text \<open>
  C6: What a run reports accounts for what it returns. Without an error it reports, in this order, prepare,
  the phases that the configuration enables among setup, execute and verify, and collect, and each has
  succeeded. With an error, a phase result has failed or timed out with that error's text, or the status is
  partial because an upload failed, or the run was given up before the artifact directory was open:
  then it reports no phase and has done nothing but probe and make directories.
\<close>

theorem run_accounted_for:
  assumes "engine_Run w req = (s, err)"
  shows "case err of
      None \<Rightarrow> map phr_phase (rr_phase_results (st_result s)) = main_phases (cfg_phases (st_cfg s)) @ [PhaseCollect]
        \<and> list_all (\<lambda>p. phr_status p = StatusSucceeded) (rr_phase_results (st_result s))
    | Some e \<Rightarrow> accounted_for e s"
  using run_outcome [OF assms] completed_phases failure_accounted_for by (cases err) auto

lemma run_accounted_for_witness:
  "case snd example_run of
      None \<Rightarrow> map phr_phase (rr_phase_results (st_result (fst example_run)))
        = main_phases (cfg_phases (st_cfg (fst example_run))) @ [PhaseCollect]
    | Some e \<Rightarrow> accounted_for e (fst example_run)"
  using run_accounted_for [OF example_run_eq] by (simp split: option.splits)

text \<open>
  C7: A combination of backend, provider and runtime profile that the compatibility table does not support is
  refused before anything is done: nothing is probed, made, created or executed, the run has failed with
  the code of an unsupported combination, and the process exits with 1.
\<close>

theorem unsupported_combination_inert:
  assumes "cr_level (ValidateCompatibility (cfg_execution (NormalizeRunConfig (ew_host w) (rq_run_config req))))
      = SupportUnsupported" "host_cwd (ew_host w) \<noteq> None"
  shows "case engine_Run w req of (s, err) \<Rightarrow> st_trace s = [] \<and> err \<noteq> None
    \<and> rr_status (st_result s) = StatusFailed
    \<and> rr_error_code (st_result s) = ErrorCodeUnsupportedExecutionCombo
    \<and> ExitCodeForResult (Some (st_result s)) err = 1"
proof -
  let ?cfg = "identified w (NormalizeRunConfig (ew_host w) (rq_run_config req))"
  have abs: "\<exists>p. abs_path w d = Inr p" for d
    using assms(2) by (auto simp: abs_path_def path_abs_def)
  then obtain a b where dirs: "abs_path w (rs_workspace_dir (cfg_run ?cfg)) = Inr a"
    "abs_path w (rs_artifact_dir (cfg_run ?cfg)) = Inr b" by blast
  have "cfg_execution (with_dirs ?cfg a b) = cfg_execution (NormalizeRunConfig (ew_host w) (rq_run_config req))"
    by (simp add: with_dirs_def identified_def Let_def)
  with assms(1) dirs show ?thesis
    by (simp add: engine_Run_def runPrepare_def prepare_resolve_def with_state_def andThen_def need_early_def
        ret_def failWithoutArtifacts_def set_result_def modify_def throw_def initial_state_def initial_result_def
        unsupported_combo_def errorCodeForErr_def ExitCodeForResult_def Let_def)
qed

lemma unsupported_combination_inert_witness:
  "case engine_Run (example_world 0)
     (example_request \<lparr>ex_backend = ExecutionBackendDirect, ex_provider = ''gke'', ex_runtime_profile = ''default''\<rparr>) of
     (s, err) \<Rightarrow> st_trace s = [] \<and> rr_error_code (st_result s) = ErrorCodeUnsupportedExecutionCombo"
proof -
  let ?req = "example_request
     \<lparr>ex_backend = ExecutionBackendDirect, ex_provider = ''gke'', ex_runtime_profile = ''default''\<rparr>"
  have "cr_level (ValidateCompatibility (cfg_execution (NormalizeRunConfig (ew_host (example_world 0))
      (rq_run_config ?req)))) = SupportUnsupported" by code_simp
  moreover have "host_cwd (ew_host (example_world 0)) \<noteq> None" by (simp add: example_world_def)
  ultimately show ?thesis using unsupported_combination_inert [of "example_world 0" ?req] by (auto split: prod.splits)
qed

end
