(* ===== verification/Opensandbox_Client.thy ===== *)
theory Opensandbox_Client
  imports Backend_Iface
begin

text \<open>
  \<open>internal/opensandbox/client\<close>: the HTTP client of the OpenSandbox provider. A call is a function from the
  requests sent so far to an error or a value and the requests sent then; the provider is a function that
  answers a request, knowing all requests before it. Request bodies are kept as the values that are
  marshalled; decoding a response body is a field of the client's \<open>codec\<close>.
\<close>

section \<open>Escaping\<close>

text \<open>\<open>url.PathEscape\<close> and \<open>url.QueryEscape\<close> of the standard library, byte by byte.\<close>

definition unreserved :: "char \<Rightarrow> bool" where
  "unreserved c \<longleftrightarrow> is_upper c \<or> is_lower c \<or> is_digit c \<or> c \<in> set ''-_.~''"

definition hex_upper :: "nat \<Rightarrow> char" where
  "hex_upper n = (if n < 10 then char_of (48 + n) else char_of (55 + n))"

definition percent :: "char \<Rightarrow> string" where
  "percent c = (let n = of_char c :: nat in [CHR 0x25, hex_upper (n div 16), hex_upper (n mod 16)])"

definition PathEscape :: "string \<Rightarrow> string" where
  "PathEscape s = concat (map (\<lambda>c. if unreserved c \<or> c \<in> set ''$&+:=@'' then [c] else percent c) s)"

definition QueryEscape :: "string \<Rightarrow> string" where
  "QueryEscape s = concat (map (\<lambda>c. if c = CHR 0x20 then ''+'' else if unreserved c then [c] else percent c) s)"

text \<open>What a server reads back from a path segment: \<open>url.PathUnescape\<close> on well-formed input.\<close>

definition hex_digit_value :: "char \<Rightarrow> nat" where
  "hex_digit_value c = (let n = of_char c in if n < 65 then n - 48 else n - 55)"

fun PathUnescape :: "string \<Rightarrow> string" where
  "PathUnescape (c # a # b # s) =
     (if c = CHR 0x25 then char_of (16 * hex_digit_value a + hex_digit_value b) # PathUnescape s
      else c # PathUnescape (a # b # s))"
| "PathUnescape s = s"

section \<open>Requests and responses\<close>

record os_create_request =
  ocr_image_uri :: string
  ocr_timeout :: int
  ocr_resource_limits :: env
  ocr_env :: env
  ocr_metadata :: env
  ocr_entrypoint :: "string list"
  ocr_extensions :: env

record os_exec_request =
  oxr_command :: string
  oxr_cwd :: string
  oxr_background :: bool
  oxr_timeout_ms :: int
  oxr_envs :: env

record os_sandbox_info =
  osi_id :: string
  osi_state :: string
  osi_reason :: string
  osi_message :: string
  osi_metadata :: env

record os_endpoint =
  ose_endpoint :: string
  ose_headers :: env

record os_command_status =
  ocs_id :: string
  ocs_running :: bool
  ocs_exit_code :: "int option"
  ocs_error :: string

record os_exec_error =
  oxe_name :: string
  oxe_value :: string
  oxe_traceback :: "string list"

record os_event =
  oev_type :: string
  oev_text :: string
  oev_error :: "os_exec_error option"

text \<open>
  \<open>BodySpent\<close> is a body that a request sent before has read to its end: the same request is sent again by
  a retry, and its reader is not rewound.
\<close>

datatype http_body =
    BodyNone
  | BodyCreate os_create_request
  | BodyExec os_exec_request
  | BodyRenew string
  | BodyDirs "(string \<times> int) list"
  | BodyUpload string string string
  | BodySpent

record http_request =
  hq_method :: string
  hq_url :: string
  hq_headers :: env
  hq_body :: http_body

record http_response =
  hp_status :: int
  hp_status_text :: string
  hp_headers :: env
  hp_body :: string

type_synonym requests = "http_request list"

type_synonym 'a http = "requests \<Rightarrow> (go_error + 'a) \<times> requests"

text \<open>
  The provider as the client sees it: \<open>cx_do\<close> is the transport, \<open>cx_interrupted n\<close> the context's error when it
  ends during the wait after attempt \<open>n\<close>, and the rest decodes response bodies.
\<close>

record codec =
  cx_do :: "requests \<Rightarrow> http_request \<Rightarrow> go_error + http_response"
  cx_interrupted :: "nat \<Rightarrow> go_error option"
  cx_sandbox :: "string \<Rightarrow> go_error + os_sandbox_info"
  cx_endpoint :: "string \<Rightarrow> go_error + os_endpoint"
  cx_status :: "string \<Rightarrow> go_error + os_command_status"
  cx_event :: "string \<Rightarrow> os_event option"
  cx_error :: "string \<Rightarrow> (string \<times> string) option"
  cx_renewed :: "string \<Rightarrow> go_error + string"

record os_config =
  oc_base_url :: string
  oc_api_key :: string
  oc_timeout :: int
  oc_max_retries :: int
  oc_retry_wait :: int

record os_client =
  cl_base_url :: string
  cl_api_key :: string
  cl_timeout :: int
  cl_max_retries :: int
  cl_retry_wait :: int

text \<open>\<open>New\<close>; times are nanoseconds.\<close>

definition client_New :: "os_config \<Rightarrow> os_client" where
  "client_New cfg =
     \<lparr>cl_base_url = trim_right (\<lambda>c. c = CHR ''/'') (oc_base_url cfg), cl_api_key = oc_api_key cfg,
      cl_timeout = (if oc_timeout cfg \<le> 0 then 30 * 1000000000 else oc_timeout cfg),
      cl_max_retries = oc_max_retries cfg,
      cl_retry_wait = (if oc_retry_wait cfg \<le> 0 then 500 * 1000000 else oc_retry_wait cfg)\<rparr>"

section \<open>Sending a request\<close>

definition hret :: "'a \<Rightarrow> 'a http" where
  "hret x = (\<lambda>h. (Inr x, h))"

definition hfail :: "go_error \<Rightarrow> 'a http" where
  "hfail e = (\<lambda>h. (Inl e, h))"

definition hbind :: "'a http \<Rightarrow> ('a \<Rightarrow> 'b http) \<Rightarrow> 'b http" where
  "hbind m k = (\<lambda>h. case m h of (Inl e, h') \<Rightarrow> (Inl e, h') | (Inr x, h') \<Rightarrow> k x h')"

definition spend :: "http_request \<Rightarrow> http_request" where
  "spend q = (if hq_body q = BodyNone then q else q\<lparr>hq_body := BodySpent\<rparr>)"

text \<open>
  The loop of \<open>doRaw\<close>: \<open>left\<close> attempts are left after this one, \<open>n\<close> have been made.
\<close>

fun do_attempts :: "codec \<Rightarrow> nat \<Rightarrow> nat \<Rightarrow> http_request \<Rightarrow> http_response http" where
  "do_attempts cx left n q h =
     (case cx_do cx h q of
        Inr r \<Rightarrow> (Inr r, h @ [q])
      | Inl e \<Rightarrow> (case left of
            0 \<Rightarrow> (Inl e, h @ [q])
          | Suc left' \<Rightarrow> (case cx_interrupted cx n of
                Some e' \<Rightarrow> (Inl e', h @ [q])
              | None \<Rightarrow> do_attempts cx left' (Suc n) (spend q) (h @ [q]))))"

declare do_attempts.simps [simp del]

definition request_headers :: "os_client \<Rightarrow> http_body \<Rightarrow> env \<Rightarrow> env" where
  "request_headers c b headers =
     env_put_all headers
       ((if cl_api_key c \<noteq> [] then env_put ''OPEN-SANDBOX-API-KEY'' (cl_api_key c) else id)
         (env_put ''Accept'' ''application/json''
           (case b of BodyNone \<Rightarrow> [] | BodyUpload p n d \<Rightarrow> []
            | _ \<Rightarrow> [(''Content-Type'', ''application/json'')])))"

definition response_error :: "codec \<Rightarrow> http_response \<Rightarrow> go_error" where
  "response_error cx r =
     (let (code, msg) = (case cx_error cx (hp_body r) of Some p \<Rightarrow> p | None \<Rightarrow> ([], trim_space (hp_body r)))
      in ProviderError (hp_status r) code (if msg = [] then hp_status_text r else msg) (500 \<le> hp_status r))"

text \<open>With a negative number of retries the loop makes no attempt and the nil response is read.\<close>

definition doRaw :: "codec \<Rightarrow> os_client \<Rightarrow> string \<Rightarrow> string \<Rightarrow> http_body \<Rightarrow> env \<Rightarrow> http_response http" where
  "doRaw cx c method rawURL b headers =
     (if cl_max_retries c < 0 then hfail (ErrorText ''panic: nil response'')
      else hbind (do_attempts cx (nat (cl_max_retries c)) 0
          \<lparr>hq_method = method, hq_url = rawURL, hq_headers = request_headers c b headers, hq_body = b\<rparr>)
        (\<lambda>r. if 200 \<le> hp_status r \<and> hp_status r < 300 then hret r else hfail (response_error cx r)))"

definition decode_with :: "(string \<Rightarrow> go_error + 'a) \<Rightarrow> http_response \<Rightarrow> 'a http" where
  "decode_with f r = (case f (hp_body r) of Inl e \<Rightarrow> hfail e | Inr x \<Rightarrow> hret x)"

definition doJSONAbsolute ::
  "codec \<Rightarrow> os_client \<Rightarrow> string \<Rightarrow> string \<Rightarrow> http_body \<Rightarrow> (string \<Rightarrow> go_error + 'a) \<Rightarrow> env \<Rightarrow> 'a http" where
  "doJSONAbsolute cx c method rawURL b f headers =
     hbind (doRaw cx c method rawURL b headers) (decode_with f)"

definition doJSON ::
  "codec \<Rightarrow> os_client \<Rightarrow> string \<Rightarrow> string \<Rightarrow> http_body \<Rightarrow> (string \<Rightarrow> go_error + 'a) \<Rightarrow> 'a http" where
  "doJSON cx c method reqPath b f = doJSONAbsolute cx c method (cl_base_url c @ reqPath) b f []"

text \<open>A call whose response body is discarded.\<close>

definition ignore_body :: "string \<Rightarrow> go_error + unit" where
  "ignore_body text = Inr ()"

section \<open>Sandboxes\<close>

definition sandbox_path :: "string \<Rightarrow> string" where
  "sandbox_path i = ''/v1/sandboxes/'' @ PathEscape i"

definition CreateSandbox :: "codec \<Rightarrow> os_client \<Rightarrow> os_create_request \<Rightarrow> os_sandbox_info http" where
  "CreateSandbox cx c req = doJSON cx c ''POST'' ''/v1/sandboxes'' (BodyCreate req) (cx_sandbox cx)"

definition GetSandbox :: "codec \<Rightarrow> os_client \<Rightarrow> string \<Rightarrow> os_sandbox_info http" where
  "GetSandbox cx c i = doJSON cx c ''GET'' (sandbox_path i) BodyNone (cx_sandbox cx)"

definition DeleteSandbox :: "codec \<Rightarrow> os_client \<Rightarrow> string \<Rightarrow> unit http" where
  "DeleteSandbox cx c i = doJSON cx c ''DELETE'' (sandbox_path i) BodyNone ignore_body"

definition PauseSandbox :: "codec \<Rightarrow> os_client \<Rightarrow> string \<Rightarrow> unit http" where
  "PauseSandbox cx c i = doJSON cx c ''POST'' (sandbox_path i @ ''/pause'') BodyNone ignore_body"

definition ResumeSandbox :: "codec \<Rightarrow> os_client \<Rightarrow> string \<Rightarrow> unit http" where
  "ResumeSandbox cx c i = doJSON cx c ''POST'' (sandbox_path i @ ''/resume'') BodyNone ignore_body"

definition RenewSandbox :: "codec \<Rightarrow> os_client \<Rightarrow> string \<Rightarrow> string \<Rightarrow> string http" where
  "RenewSandbox cx c i expires =
     doJSON cx c ''POST'' (sandbox_path i @ ''/renew-expiration'') (BodyRenew expires) (cx_renewed cx)"

text \<open>
  The scheme of \<open>url.Parse\<close>: letters, then also digits and \<open>+-.\<close>, up to a colon; empty when there is none.
  A base URL that does not parse for another reason makes every request fail, so its scheme does not
  matter.
\<close>

definition url_scheme :: "string \<Rightarrow> string" where
  "url_scheme u =
     (let sch = takeWhile (\<lambda>c. is_upper c \<or> is_lower c \<or> is_digit c \<or> c \<in> set ''+-.'') u in
      if sch \<noteq> [] \<and> (is_upper (hd sch) \<or> is_lower (hd sch))
         \<and> length sch < length u \<and> u ! length sch = CHR '':''
      then to_lower sch else [])"

definition normalizeEndpoint :: "string \<Rightarrow> string \<Rightarrow> string" where
  "normalizeEndpoint baseURL endpoint =
     (if endpoint = [] then []
      else if has_prefix endpoint ''http://'' \<or> has_prefix endpoint ''https://'' then endpoint
      else (let sch = url_scheme baseURL in
        (if sch \<noteq> [] then sch else ''http'') @ ''://'' @ trim_prefix endpoint ''//''))"

definition GetSandboxEndpoint :: "codec \<Rightarrow> os_client \<Rightarrow> string \<Rightarrow> int \<Rightarrow> bool \<Rightarrow> os_endpoint http" where
  "GetSandboxEndpoint cx c i port proxy =
     hbind (doJSON cx c ''GET''
       (sandbox_path i @ ''/endpoints/'' @ itoa port @ (if proxy then ''?use_server_proxy=true'' else []))
       BodyNone (cx_endpoint cx))
     (\<lambda>e. hret (e\<lparr>ose_endpoint := normalizeEndpoint (cl_base_url c) (ose_endpoint e)\<rparr>))"

section \<open>Commands\<close>

definition execdPort :: int where "execdPort = 44772"

definition with_execd :: "codec \<Rightarrow> os_client \<Rightarrow> string \<Rightarrow> (os_endpoint \<Rightarrow> 'a http) \<Rightarrow> 'a http" where
  "with_execd cx c i k = hbind (GetSandboxEndpoint cx c i execdPort True) k"

text \<open>The stream of \<open>RunCommandStream\<close> is the body of the response.\<close>

definition RunCommandStream :: "codec \<Rightarrow> os_client \<Rightarrow> string \<Rightarrow> os_exec_request \<Rightarrow> string http" where
  "RunCommandStream cx c i req = with_execd cx c i (\<lambda>e.
     hbind (doRaw cx c ''POST'' (ose_endpoint e @ ''/command'') (BodyExec req)
       (env_put ''Accept'' ''text/event-stream'' (env_put ''Content-Type'' ''application/json'' (ose_headers e))))
     (\<lambda>r. hret (hp_body r)))"

definition GetCommandStatus :: "codec \<Rightarrow> os_client \<Rightarrow> string \<Rightarrow> string \<Rightarrow> os_command_status http" where
  "GetCommandStatus cx c i cmd = with_execd cx c i (\<lambda>e.
     doJSONAbsolute cx c ''GET'' (ose_endpoint e @ ''/command/status/'' @ PathEscape cmd) BodyNone (cx_status cx)
       (ose_headers e))"

definition cursor_header :: string where "cursor_header = ''EXECD-COMMANDS-TAIL-CURSOR''"

text \<open>The output and the next cursor; the cursor is kept on an error and when the header cannot be read.\<close>

definition GetBackgroundCommandLogs ::
  "codec \<Rightarrow> os_client \<Rightarrow> string \<Rightarrow> string \<Rightarrow> int \<Rightarrow> (string \<times> int) http" where
  "GetBackgroundCommandLogs cx c i cmd cursor = with_execd cx c i (\<lambda>e.
     hbind (doRaw cx c ''GET''
       (ose_endpoint e @ ''/command/'' @ PathEscape cmd @ ''/logs?cursor='' @ QueryEscape (itoa cursor))
       BodyNone (ose_headers e))
     (\<lambda>r. hret (hp_body r,
       case sscanf_int (env_get (hp_headers r) cursor_header) of Some n \<Rightarrow> n | None \<Rightarrow> cursor)))"

definition InterruptCommand :: "codec \<Rightarrow> os_client \<Rightarrow> string \<Rightarrow> string \<Rightarrow> unit http" where
  "InterruptCommand cx c i cmd = with_execd cx c i (\<lambda>e.
     doJSONAbsolute cx c ''DELETE'' (ose_endpoint e @ ''/command?id='' @ QueryEscape cmd) BodyNone ignore_body
       (ose_headers e))"

section \<open>Files\<close>

text \<open>
  The local file system: what a path holds, and the errors of creating a file; \<open>lf_boundary\<close> is the
  boundary that \<open>multipart.NewWriter\<close> draws.
\<close>

record local_files =
  lf_open :: "string \<Rightarrow> go_error + string"
  lf_mkdir :: "string \<Rightarrow> go_error option"
  lf_create :: "string \<Rightarrow> go_error option"
  lf_boundary :: string

definition UploadFile :: "codec \<Rightarrow> os_client \<Rightarrow> local_files \<Rightarrow> string \<Rightarrow> string \<Rightarrow> string \<Rightarrow> unit http" where
  "UploadFile cx c lf i local remote = with_execd cx c i (\<lambda>e.
     case lf_open lf local of
       Inl err \<Rightarrow> hfail err
     | Inr data \<Rightarrow> doJSONAbsolute cx c ''POST'' (ose_endpoint e @ ''/files/upload'')
         (BodyUpload remote (path_base remote) data) ignore_body
         (env_put ''Content-Type'' (''multipart/form-data; boundary='' @ lf_boundary lf) (ose_headers e)))"

definition pathDir :: "string \<Rightarrow> string" where
  "pathDir name =
     (if CHR ''/'' \<notin> set name then ''.''
      else rev (tl (dropWhile (\<lambda>c. c \<noteq> CHR ''/'') (rev name))))"

text \<open>The value is what is written to the local file.\<close>

definition DownloadFile :: "codec \<Rightarrow> os_client \<Rightarrow> local_files \<Rightarrow> string \<Rightarrow> string \<Rightarrow> string \<Rightarrow> string http" where
  "DownloadFile cx c lf i remote local = with_execd cx c i (\<lambda>e.
     hbind (doRaw cx c ''GET'' (ose_endpoint e @ ''/files/download?path='' @ QueryEscape remote) BodyNone
       (ose_headers e)) (\<lambda>r.
     case lf_mkdir lf (pathDir local) of
       Some err \<Rightarrow> hfail err
     | None \<Rightarrow> (case lf_create lf local of Some err \<Rightarrow> hfail err | None \<Rightarrow> hret (hp_body r))))"

text \<open>
  \<open>strconv.Atoi(fmt.Sprintf("%o", mode))\<close>: the octal digits, read as a decimal number; the mode itself when
  that number does not fit 64 bits.
\<close>

fun octal_digits_nat :: "nat \<Rightarrow> nat" where
  "octal_digits_nat n = (if n < 8 then n else 10 * octal_digits_nat (n div 8) + n mod 8)"

declare octal_digits_nat.simps [simp del]

definition octalDigits :: "int \<Rightarrow> int" where
  "octalDigits mode =
     (let v = (if mode < 0 then - int (octal_digits_nat (nat (- mode))) else int (octal_digits_nat (nat mode)))
      in if v < - (2 ^ 63) \<or> 2 ^ 63 \<le> v then mode else v)"

definition MakeDirs :: "codec \<Rightarrow> os_client \<Rightarrow> string \<Rightarrow> (string \<times> int) list \<Rightarrow> unit http" where
  "MakeDirs cx c i dirs = with_execd cx c i (\<lambda>e.
     doJSONAbsolute cx c ''POST'' (ose_endpoint e @ ''/directories'')
       (BodyDirs (map (\<lambda>(d, m). (d, octalDigits m)) dirs)) ignore_body (ose_headers e))"

definition RemoveDirs :: "codec \<Rightarrow> os_client \<Rightarrow> string \<Rightarrow> string list \<Rightarrow> unit http" where
  "RemoveDirs cx c i dirs = with_execd cx c i (\<lambda>e.
     doJSONAbsolute cx c ''DELETE'' (ose_endpoint e @ ''/directories''
       @ (if dirs = [] then [] else ''?'' @ join ''&'' (map (\<lambda>d. ''path='' @ QueryEscape d) dirs)))
       BodyNone ignore_body (ose_headers e))"

section \<open>Escaping keeps an identifier inside its path segment\<close>

lemma hex_upper_table:
  "list_all (\<lambda>n. hex_upper n \<in> set ''0123456789ABCDEF'' \<and> hex_digit_value (hex_upper n) = n) [0..<16]"
  by code_simp

lemma hex_upper_ok: "n < 16 \<Longrightarrow> hex_upper n \<in> set ''0123456789ABCDEF'' \<and> hex_digit_value (hex_upper n) = n"
  using hex_upper_table unfolding list_all_iff by simp

lemma byte_halves: "(of_char c :: nat) div 16 < 16" "(of_char c :: nat) mod 16 < 16"
  using nat_of_char_less_256 [of c] by (simp_all add: less_mult_imp_div_less)

lemma PathUnescape_plain: "c \<noteq> CHR 0x25 \<Longrightarrow> PathUnescape (c # t) = c # PathUnescape t"
  by (cases t rule: PathUnescape.cases) auto

lemma PathUnescape_percent: "PathUnescape (percent c @ t) = c # PathUnescape t"
  using hex_upper_ok [OF byte_halves(1), of c] hex_upper_ok [OF byte_halves(2), of c]
  by (simp add: percent_def Let_def)

lemma reserved_not_unreserved: "list_all (\<lambda>c. \<not> unreserved c \<and> c \<notin> set ''$&+:=@'') ''%/?#''"
  by code_simp

lemma unreserved_not_percent: "unreserved c \<or> c \<in> set ''$&+:=@'' \<Longrightarrow> c \<noteq> CHR 0x25 \<and> c \<notin> set ''/?#''"
  using reserved_not_unreserved unfolding list_all_iff by auto

lemma percent_chars: "set (percent c) \<inter> set ''/?#'' = {}"
proof -
  have "set (percent c) \<subseteq> set ''%0123456789ABCDEF''"
    using hex_upper_ok [OF byte_halves(1), of c] hex_upper_ok [OF byte_halves(2), of c]
    unfolding percent_def Let_def by simp
  moreover have "set ''%0123456789ABCDEF'' \<inter> set ''/?#'' = {}" by simp
  ultimately show ?thesis by blast
qed

lemma PathEscape_segment:
  "PathUnescape (PathEscape i) = i \<and> set (PathEscape i) \<inter> set ''/?#'' = {}"
proof (induction i)
  case (Cons c i)
  show ?case
  proof (cases "unreserved c \<or> c \<in> set ''$&+:=@''")
    case True
    with unreserved_not_percent [OF True] Cons show ?thesis by (simp add: PathEscape_def PathUnescape_plain)
  next
    case False
    with Cons percent_chars [of c] show ?thesis
      by (simp add: PathEscape_def PathUnescape_percent Int_Un_distrib2 del: set_simps(2))
  qed
qed (simp add: PathEscape_def)

text \<open>
  An identifier escaped into the path of a request stays one segment of that path, whatever bytes it has:
  it brings no slash, question mark or fragment sign along, and the provider reads back exactly the
  identifier, so that different sandboxes and commands are addressed by different paths.
\<close>

theorem identifier_stays_segment:
  "PathUnescape (PathEscape i) = i \<and> set (PathEscape i) \<inter> set ''/?#'' = {}"
  by (rule PathEscape_segment)

section \<open>Retrying\<close>

text \<open>
  A call is sent at most once more often than retries are configured; it succeeds with the first answer
  of the transport, and gives up with the error of the last attempt or with that of the context.
\<close>

theorem attempts_bounded:
  assumes "do_attempts cx left n q h = (r, h')"
  shows "\<exists>k. length h' = length h + Suc k \<and> k \<le> left \<and> take (length h) h' = h
    \<and> (case r of Inr resp \<Rightarrow> cx_do cx (butlast h') (last h') = Inr resp
       | Inl e \<Rightarrow> cx_do cx (butlast h') (last h') = Inl e \<and> k = left \<or> cx_interrupted cx (n + k) = Some e)"
  using assms
proof (induction left arbitrary: n q h)
  case 0
  then show ?case by (auto simp: do_attempts.simps [of cx 0] split: sum.splits)
next
  case (Suc left)
  show ?case
  proof (cases "cx_do cx h q")
    case (Inr resp)
    with Suc.prems have "r = Inr resp" "h' = h @ [q]" by (simp_all add: do_attempts.simps [of cx "Suc left"])
    with Inr show ?thesis by (intro exI [of _ 0]) simp
  next
    case (Inl e)
    show ?thesis
    proof (cases "cx_interrupted cx n")
      case (Some e')
      with Suc.prems Inl show ?thesis by (auto simp: do_attempts.simps [of cx "Suc left"] intro!: exI [of _ 0])
    next
      case None
      with Suc.prems Inl have "do_attempts cx left (Suc n) (spend q) (h @ [q]) = (r, h')"
        by (simp add: do_attempts.simps [of cx "Suc left"])
      from Suc.IH [OF this] obtain k where k: "length h' = length (h @ [q]) + Suc k" "k \<le> left"
        "take (length (h @ [q])) h' = h @ [q]" and res: "case r of Inr resp \<Rightarrow> cx_do cx (butlast h') (last h') = Inr resp
       | Inl e \<Rightarrow> cx_do cx (butlast h') (last h') = Inl e \<and> k = left \<or> cx_interrupted cx (Suc n + k) = Some e"
        by blast
      from k(3) have "take (length h) h' = h" by (metis append_eq_conv_conj append_take_drop_id append_assoc)
      with k res show ?thesis by (intro exI [of _ "Suc k"]) (auto split: sum.splits)
    qed
  qed
qed

definition flaky_codec :: codec where
  "flaky_codec =
     \<lparr>cx_do = (\<lambda>h q. if h = [] then Inl (ErrorText ''connection refused'')
        else Inr \<lparr>hp_status = 200, hp_status_text = ''200 OK'', hp_headers = [], hp_body = ''{}''\<rparr>),
      cx_interrupted = (\<lambda>n. None), cx_sandbox = (\<lambda>b. Inl (ErrorText b)), cx_endpoint = (\<lambda>b. Inl (ErrorText b)),
      cx_status = (\<lambda>b. Inl (ErrorText b)), cx_event = (\<lambda>b. None), cx_error = (\<lambda>b. None), cx_renewed = Inr\<rparr>"

definition pause_request :: http_request where
  "pause_request = \<lparr>hq_method = ''POST'', hq_url = ''http://host/v1/sandboxes/s/pause'', hq_headers = [],
     hq_body = BodyNone\<rparr>"

lemma attempts_bounded_witness:
  "\<exists>r h'. do_attempts flaky_codec 3 0 pause_request [] = (Inr r, h') \<and> length h' = 2 \<and> length h' \<le> Suc 3"
proof -
  let ?r = "\<lparr>hp_status = 200, hp_status_text = ''200 OK'', hp_headers = [], hp_body = ''{}''\<rparr>"
  have run: "do_attempts flaky_codec 3 0 pause_request [] = (Inr ?r, [pause_request, pause_request])"
    by (simp add: do_attempts.simps numeral_eq_Suc flaky_codec_def spend_def pause_request_def)
  from attempts_bounded [OF run] have "length [pause_request, pause_request] \<le> Suc 3" by auto
  with run show ?thesis by auto
qed

end
