(* ===== verification/Workspace_Archive.thy ===== *)
theory Workspace_Archive
  imports Model_Types
begin

text \<open>
  The local half of \<open>internal/backend/opensandbox_workspace.go\<close>: packing a workspace into a tar archive and
  unpacking one. A workspace is a tree; the children of a directory come in the order \<open>filepath.Walk\<close>
  visits them. An archive is the list of its entries; file modes are left out. Unpacking is the list of the
  operations it makes on the file system.
\<close>

section \<open>The tree\<close>

text \<open>
  \<open>Unreadable\<close> cannot be looked at; the content of a file is what opening and reading it gives; a symbolic
  link has what reading through it gives; a directory may fail to be listed.
\<close>

datatype fs_node =
    Unreadable go_error
  | RegularFile "go_error + string"
  | Symlink "go_error + string"
  | Directory "go_error option" "fs_entry list"
and fs_entry = Entry string fs_node

datatype tar_type = TypeReg | TypeDir | TypeSymlink

record tar_entry =
  te_name :: string
  te_type :: tar_type
  te_data :: string

definition defaultWorkspaceExcludes :: "string list" where
  "defaultWorkspaceExcludes =
     [''.git'', ''node_modules'', ''.venv'', ''dist'', ''.artifacts'', ''.sandbox-runner'', ''.DS_Store'']"

definition shouldExclude :: "string \<Rightarrow> bool" where
  "shouldExclude rel \<longleftrightarrow> list_ex (\<lambda>part. part \<in> set defaultWorkspaceExcludes) (split_on (CHR ''/'') rel)"

section \<open>Packing\<close>

text \<open>
  \<open>archiveDirectory\<close>. The callback of the walk, for a node whose path relative to the root has the elements
  \<open>comps\<close>. A directory is listed before the callback sees it, so one that cannot be listed is an error
  even where its name excludes it. The header of a symbolic link has size 0, so copying anything through the link is a write too
  long for the archive.
\<close>

definition write_too_long :: go_error where
  "write_too_long = ErrorText ''archive/tar: write too long''"

abbreviation rel_path :: "string list \<Rightarrow> string" where
  "rel_path comps \<equiv> join ''/'' comps"

fun archive_node :: "string list \<Rightarrow> fs_node \<Rightarrow> go_error + tar_entry list"
  and archive_entries :: "string list \<Rightarrow> fs_entry list \<Rightarrow> go_error + tar_entry list" where
  "archive_node comps (Unreadable e) = Inl e"
| "archive_node comps (RegularFile content) =
     (if shouldExclude (rel_path comps) then Inr []
      else (case content of
          Inl e \<Rightarrow> Inl e
        | Inr data \<Rightarrow> Inr [\<lparr>te_name = rel_path comps, te_type = TypeReg, te_data = data\<rparr>]))"
| "archive_node comps (Symlink content) =
     (if shouldExclude (rel_path comps) then Inr []
      else (case content of
          Inl e \<Rightarrow> Inl e
        | Inr data \<Rightarrow> if data \<noteq> [] then Inl write_too_long
            else Inr [\<lparr>te_name = rel_path comps, te_type = TypeSymlink, te_data = []\<rparr>]))"
| "archive_node comps (Directory err es) =
     (case err of
        Some e \<Rightarrow> Inl e
      | None \<Rightarrow>
          if shouldExclude (rel_path comps) then Inr []
          else (case archive_entries comps es of
              Inl e \<Rightarrow> Inl e
            | Inr ts \<Rightarrow> Inr (\<lparr>te_name = rel_path comps @ ''/'', te_type = TypeDir, te_data = []\<rparr> # ts)))"
| "archive_entries comps [] = Inr []"
| "archive_entries comps (Entry name node # es) =
     (case archive_node (comps @ [name]) node of
        Inl e \<Rightarrow> Inl e
      | Inr ts \<Rightarrow> (case archive_entries comps es of Inl e \<Rightarrow> Inl e | Inr us \<Rightarrow> Inr (ts @ us)))"

text \<open>
  The root itself is not packed. \<open>filepath.Walk\<close> does not follow a symbolic link, not even at its root, so a
  root that is a link, or a file, has an empty archive.
\<close>

definition archiveDirectory :: "go_error option \<Rightarrow> fs_node \<Rightarrow> go_error + tar_entry list" where
  "archiveDirectory tmp root =
     (case tmp of
        Some e \<Rightarrow> Inl e
      | None \<Rightarrow> (case root of
            Unreadable e \<Rightarrow> Inl e
          | Directory (Some e) es \<Rightarrow> Inl e
          | Directory None es \<Rightarrow> archive_entries [] es
          | _ \<Rightarrow> Inr []))"

section \<open>Unpacking\<close>

datatype fs_op = FsMkdir string | FsWrite string string

text \<open>\<open>failing\<close> says which operation fails, given those made before.\<close>

definition extract_ops :: "string \<Rightarrow> tar_entry \<Rightarrow> go_error + fs_op list" where
  "extract_ops dest t =
     (let target = path_join [dest, path_clean (te_name t)]; cleanDest = path_clean dest in
      if target \<noteq> cleanDest \<and> \<not> has_prefix target (cleanDest @ ''/'')
      then Inl (ErrorText (''invalid archive path: '' @ te_name t))
      else (case te_type t of
          TypeDir \<Rightarrow> Inr [FsMkdir target]
        | TypeReg \<Rightarrow> Inr [FsMkdir (path_dir target), FsWrite target (te_data t)]
        | TypeSymlink \<Rightarrow> Inr []))"

fun perform_ops ::
  "(fs_op list \<Rightarrow> fs_op \<Rightarrow> go_error option) \<Rightarrow> fs_op list \<Rightarrow> fs_op list \<Rightarrow> go_error option \<times> fs_op list" where
  "perform_ops failing acc [] = (None, acc)"
| "perform_ops failing acc (op # ops) =
     (case failing acc op of Some e \<Rightarrow> (Some e, acc) | None \<Rightarrow> perform_ops failing (acc @ [op]) ops)"

text \<open>\<open>ending\<close> is the error that the reader of the archive meets after its last entry.\<close>

fun extractTar ::
  "(fs_op list \<Rightarrow> fs_op \<Rightarrow> go_error option) \<Rightarrow> go_error option \<Rightarrow> string \<Rightarrow> fs_op list \<Rightarrow> tar_entry list \<Rightarrow>
   go_error option \<times> fs_op list" where
  "extractTar failing ending dest acc [] = (ending, acc)"
| "extractTar failing ending dest acc (t # ts) =
     (case extract_ops dest t of
        Inl e \<Rightarrow> (Some e, acc)
      | Inr ops \<Rightarrow> (case perform_ops failing acc ops of
            (Some e, acc) \<Rightarrow> (Some e, acc)
          | (None, acc) \<Rightarrow> extractTar failing ending dest acc ts))"

section \<open>Pruning is filtering\<close>

text \<open>All files of a tree, excluded or not.\<close>

fun all_files :: "string list \<Rightarrow> fs_node \<Rightarrow> (string list \<times> string) list"
  and files_of :: "string list \<Rightarrow> fs_entry list \<Rightarrow> (string list \<times> string) list" where
  "all_files comps (Unreadable e) = []"
| "all_files comps (RegularFile content) = (case content of Inl e \<Rightarrow> [] | Inr data \<Rightarrow> [(comps, data)])"
| "all_files comps (Symlink content) = []"
| "all_files comps (Directory err es) = files_of comps es"
| "files_of comps [] = []"
| "files_of comps (Entry name node # es) = all_files (comps @ [name]) node @ files_of comps es"

definition excluded :: "string list \<Rightarrow> bool" where
  "excluded comps \<longleftrightarrow> (\<exists>part\<in>set comps. part \<in> set defaultWorkspaceExcludes)"

text \<open>A file name: not empty, not a dot, without a slash.\<close>

definition file_name :: "string \<Rightarrow> bool" where
  "file_name n \<longleftrightarrow> n \<noteq> [] \<and> n \<noteq> dot \<and> n \<noteq> dotdot \<and> CHR ''/'' \<notin> set n"

fun well_named :: "fs_node \<Rightarrow> bool" and entries_named :: "fs_entry list \<Rightarrow> bool" where
  "well_named (Directory err es) = entries_named es"
| "well_named node = True"
| "entries_named [] = True"
| "entries_named (Entry name node # es) = (file_name name \<and> well_named node \<and> entries_named es)"

definition regular_files :: "tar_entry list \<Rightarrow> (string \<times> string) list" where
  "regular_files ts = map (\<lambda>t. (te_name t, te_data t)) (filter (\<lambda>t. te_type t = TypeReg) ts)"

lemma shouldExclude_comps:
  assumes "comps \<noteq> []" "\<forall>c\<in>set comps. file_name c"
  shows "shouldExclude (rel_path comps) \<longleftrightarrow> excluded comps"
proof -
  have "split_on (CHR ''/'') (rel_path comps) = comps"
    using assms by (intro split_on_join) (auto simp: file_name_def)
  then show ?thesis by (simp add: shouldExclude_def excluded_def list_ex_iff)
qed

lemma excluded_append: "excluded comps \<Longrightarrow> excluded (comps @ rest)"
  by (auto simp: excluded_def)

lemma files_excluded:
  "excluded comps \<Longrightarrow> filter (\<lambda>f. \<not> excluded (fst f)) (all_files comps node) = []"
  "excluded comps \<Longrightarrow> filter (\<lambda>f. \<not> excluded (fst f)) (files_of comps es) = []"
proof (induction comps node and comps es rule: all_files_files_of.induct)
  case (2 comps content)
  then show ?case by (auto split: sum.splits)
next
  case (6 comps name node es)
  then show ?case by (simp add: excluded_append)
qed simp_all

lemma regular_files_simps [simp]:
  "regular_files [] = []"
  "regular_files (t # ts) = (if te_type t = TypeReg then (te_name t, te_data t) # regular_files ts else regular_files ts)"
  "regular_files (ts @ us) = regular_files ts @ regular_files us"
  by (simp_all add: regular_files_def)

definition kept_files :: "(string list \<times> string) list \<Rightarrow> (string \<times> string) list" where
  "kept_files fs = map (\<lambda>(c, d). (rel_path c, d)) (filter (\<lambda>f. \<not> excluded (fst f)) fs)"

lemma kept_files_append [simp]: "kept_files (fs @ gs) = kept_files fs @ kept_files gs"
  by (simp add: kept_files_def)

lemma archive_files:
  "comps \<noteq> [] \<Longrightarrow> \<forall>c\<in>set comps. file_name c \<Longrightarrow> well_named node \<Longrightarrow> archive_node comps node = Inr ts \<Longrightarrow>
   regular_files ts = kept_files (all_files comps node)"
  "\<forall>c\<in>set comps. file_name c \<Longrightarrow> entries_named es \<Longrightarrow> archive_entries comps es = Inr ts \<Longrightarrow>
   regular_files ts = kept_files (files_of comps es)"
proof (induction comps node and comps es arbitrary: ts and ts rule: archive_node_archive_entries.induct)
  case (2 comps content)
  then show ?case by (auto simp: shouldExclude_comps kept_files_def split: sum.splits if_splits)
next
  case (3 comps content)
  then show ?case by (auto simp: kept_files_def split: sum.splits if_splits)
next
  case (4 comps err es)
  show ?case
  proof (cases "excluded comps")
    case True
    with 4 have "ts = []" by (auto simp: shouldExclude_comps split: option.splits)
    with True show ?thesis by (simp add: kept_files_def files_excluded)
  next
    case False
    with 4 show ?thesis by (auto simp: shouldExclude_comps split: option.splits sum.splits)
  qed
next
  case (6 comps name node es)
  from "6.prems"(3) obtain us vs where us: "archive_node (comps @ [name]) node = Inr us"
    and vs: "archive_entries comps es = Inr vs" "ts = us @ vs"
    by (auto split: sum.splits)
  from "6.prems" have "\<forall>c\<in>set (comps @ [name]). file_name c" "well_named node" "entries_named es" by auto
  with "6.IH"(1) [OF _ this(1,2) us] "6.IH"(2) [OF us "6.prems"(1) this(3) vs(1)] vs(2) show ?case by simp
qed (simp_all add: kept_files_def)

section \<open>Where unpacking writes\<close>

lemma clean_elems_file_names:
  assumes "\<forall>c\<in>set comps. file_name c"
  shows "clean_elems r (es @ comps) = clean_elems r es @ comps"
proof -
  have "foldl (clean_step r) st comps = rev comps @ st" for st
    using assms by (induction comps arbitrary: st) (auto simp: file_name_def)
  then show ?thesis by (simp add: clean_elems_def)
qed

lemma split_on_join_append:
  "comps \<noteq> [] \<Longrightarrow> \<forall>c\<in>set comps. CHR ''/'' \<notin> set c \<Longrightarrow>
   split_on (CHR ''/'') (rel_path comps @ CHR ''/'' # t) = comps @ split_on (CHR ''/'') t"
  by (induction comps rule: induct_list012) (simp_all add: split_on_append)

lemma rel_path_not_abs:
  assumes "comps \<noteq> []" "\<forall>c\<in>set comps. file_name c" shows "\<not> is_abs (rel_path comps @ t)"
  using assms by (cases comps; cases "tl comps"; auto simp: is_abs_Cons file_name_def neq_Nil_conv)

lemma rel_path_not_Nil:
  assumes "comps \<noteq> []" "\<forall>c\<in>set comps. file_name c" shows "rel_path comps \<noteq> []"
  using assms by (cases comps; cases "tl comps"; auto simp: file_name_def)

lemma path_clean_rel:
  assumes "comps \<noteq> []" "\<forall>c\<in>set comps. file_name c"
  shows "path_clean (rel_path comps) = rel_path comps" "path_clean (rel_path comps @ ''/'') = rel_path comps"
proof -
  from assms(2) have free: "\<forall>c\<in>set comps. CHR ''/'' \<notin> set c" by (simp add: file_name_def)
  have "clean_elems False comps = comps" using clean_elems_file_names [OF assms(2), of False "[]"] by simp
  moreover have "clean_elems False (comps @ [[]]) = clean_elems False comps" by (simp add: clean_elems_def)
  moreover have "split_on (CHR ''/'') (rel_path comps) = comps" using assms(1) free by (intro split_on_join) auto
  ultimately show "path_clean (rel_path comps) = rel_path comps" "path_clean (rel_path comps @ ''/'') = rel_path comps"
    using rel_path_not_Nil [OF assms] rel_path_not_abs [OF assms, of "[]"] rel_path_not_abs [OF assms, of "''/''"] assms(1)
      split_on_join_append [OF assms(1) free, of "[]"]
    by (simp_all add: path_clean_def)
qed

text \<open>A directory that is not the root of the file system, and a path below it.\<close>

definition below :: "string \<Rightarrow> string list \<Rightarrow> string" where
  "below dest comps = (if comps = [] then path_clean dest else path_clean dest @ ''/'' @ rel_path comps)"

lemma path_clean_below:
  assumes "is_abs dest" "path_clean dest \<noteq> ''/''" "comps \<noteq> []" "\<forall>c\<in>set comps. file_name c"
  shows "path_clean (dest @ ''/'' @ rel_path comps) = below dest comps"
proof -
  let ?es = "clean_elems True (split_on CHR ''/'' dest)"
  from assms(3,4) have split: "split_on (CHR ''/'') (rel_path comps) = comps"
    by (intro split_on_join) (auto simp: file_name_def)
  have clean: "path_clean dest = ''/'' @ rel_path ?es" using assms(1) by (rule path_clean_abs)
  with assms(2) have "?es \<noteq> []" by auto
  then have join: "rel_path (?es @ comps) = rel_path ?es @ ''/'' @ rel_path comps"
    using assms(3) by (simp add: join_append)
  have "is_abs (dest @ ''/'' @ rel_path comps)" using assms(1) by (auto simp: is_abs_Cons)
  then show ?thesis
    using split join clean assms(3)
    by (simp add: path_clean_abs split_on_slash clean_elems_file_names [OF assms(4)] below_def)
qed

lemma path_join_below:
  assumes "is_abs dest" "path_clean dest \<noteq> ''/''" "comps \<noteq> []" "\<forall>c\<in>set comps. file_name c"
  shows "path_join [dest, rel_path comps] = below dest comps"
  using path_clean_below [OF assms] rel_path_not_Nil [OF assms(3,4)] assms(1)
  by (auto simp: path_join_def is_abs_Cons)

section \<open>What unpacking an archive writes\<close>

definition written :: "fs_op list \<Rightarrow> (string \<times> string) list" where
  "written ops = concat (map (\<lambda>op. case op of FsWrite p d \<Rightarrow> [(p, d)] | FsMkdir p \<Rightarrow> []) ops)"

lemma written_simps [simp]:
  "written [] = []"
  "written (FsMkdir p # ops) = written ops"
  "written (FsWrite p d # ops) = (p, d) # written ops"
  "written (ops @ ops') = written ops @ written ops'"
  by (simp_all add: written_def)

text \<open>An entry as the walk makes it.\<close>

definition walk_entry :: "tar_entry \<Rightarrow> bool" where
  "walk_entry t \<longleftrightarrow> (\<exists>comps. comps \<noteq> [] \<and> (\<forall>c\<in>set comps. file_name c) \<and>
     te_name t = (if te_type t = TypeDir then rel_path comps @ ''/'' else rel_path comps))"

lemma archive_walk_entries:
  "comps \<noteq> [] \<Longrightarrow> \<forall>c\<in>set comps. file_name c \<Longrightarrow> well_named node \<Longrightarrow> archive_node comps node = Inr ts \<Longrightarrow>
   list_all walk_entry ts"
  "\<forall>c\<in>set comps. file_name c \<Longrightarrow> entries_named es \<Longrightarrow> archive_entries comps es = Inr ts \<Longrightarrow> list_all walk_entry ts"
proof (induction comps node and comps es arbitrary: ts and ts rule: archive_node_archive_entries.induct)
  case (2 comps content)
  then show ?case by (auto simp: walk_entry_def split: sum.splits if_splits)
next
  case (3 comps content)
  then show ?case by (auto simp: walk_entry_def split: sum.splits if_splits)
next
  case (4 comps err es)
  have "walk_entry \<lparr>te_name = rel_path comps @ ''/'', te_type = TypeDir, te_data = []\<rparr>"
    using "4.prems" by (auto simp: walk_entry_def)
  with 4 show ?case by (auto split: option.splits sum.splits if_splits)
next
  case (6 comps name node es)
  from "6.prems"(3) obtain us vs where us: "archive_node (comps @ [name]) node = Inr us"
    and vs: "archive_entries comps es = Inr vs" "ts = us @ vs"
    by (auto split: sum.splits)
  from "6.prems" have "\<forall>c\<in>set (comps @ [name]). file_name c" "well_named node" "entries_named es" by auto
  with "6.IH"(1) [OF _ this(1,2) us] "6.IH"(2) [OF us "6.prems"(1) this(3) vs(1)] vs(2) show ?case by simp
qed simp_all

lemma extract_walk_entry:
  assumes "is_abs dest" "path_clean dest \<noteq> ''/''" "walk_entry t"
  obtains ops where "extract_ops dest t = Inr ops"
    and "written ops = (if te_type t = TypeReg then [(path_clean dest @ ''/'' @ te_name t, te_data t)] else [])"
proof -
  from assms(3) obtain comps where comps: "comps \<noteq> []" "\<forall>c\<in>set comps. file_name c"
    and name: "te_name t = (if te_type t = TypeDir then rel_path comps @ ''/'' else rel_path comps)"
    by (auto simp: walk_entry_def)
  have "path_join [dest, path_clean (te_name t)] = below dest comps"
    using path_clean_rel [OF comps] path_join_below [OF assms(1,2) comps] name by simp
  then show ?thesis
    using that comps(1) name
    by (cases "te_type t") (simp_all add: extract_ops_def below_def has_prefix_def Let_def)
qed

lemma perform_ops_all: "perform_ops (\<lambda>_ _. None) acc ops = (None, acc @ ops)"
  by (induction ops arbitrary: acc) simp_all

lemma extract_walk_entries:
  assumes "is_abs dest" "path_clean dest \<noteq> ''/''" "list_all walk_entry ts"
  shows "\<exists>ops. extractTar (\<lambda>_ _. None) None dest acc ts = (None, acc @ ops) \<and>
    written ops = map (\<lambda>(n, d). (path_clean dest @ ''/'' @ n, d)) (regular_files ts)"
  using assms(3)
proof (induction ts arbitrary: acc)
  case (Cons t ts)
  then have "walk_entry t" by simp
  from extract_walk_entry [OF assms(1,2) this] obtain ops where ops: "extract_ops dest t = Inr ops"
    and w: "written ops = (if te_type t = TypeReg then [(path_clean dest @ ''/'' @ te_name t, te_data t)] else [])"
    by blast
  from Cons obtain ops' where "extractTar (\<lambda>_ _. None) None dest (acc @ ops) ts = (None, (acc @ ops) @ ops')"
    and "written ops' = map (\<lambda>(n, d). (path_clean dest @ ''/'' @ n, d)) (regular_files ts)"
    by fastforce
  with ops w show ?case by (intro exI [of _ "ops @ ops'"]) (simp add: perform_ops_all)
qed simp

text \<open>
  C29: unpacking what was packed gives back the workspace without its excluded parts: every regular file none of
  whose path elements is one of the excluded names is written once, in the order of the walk, under the
  destination, at its path and with its content, and nothing else is written.
\<close>

theorem archive_roundtrip:
  assumes "entries_named es" and "archiveDirectory None (Directory None es) = Inr ts"
    and "is_abs dest" and "path_clean dest \<noteq> ''/''"
  shows "\<exists>ops. extractTar (\<lambda>_ _. None) None dest [] ts = (None, ops) \<and>
    written ops = map (\<lambda>(comps, data). (path_clean dest @ ''/'' @ rel_path comps, data))
      (filter (\<lambda>f. \<not> excluded (fst f)) (files_of [] es))"
proof -
  from assms(2) have ts: "archive_entries [] es = Inr ts" by (simp add: archiveDirectory_def)
  have "regular_files ts = kept_files (files_of [] es)" using archive_files(2) [OF _ assms(1) ts] by simp
  moreover have "list_all walk_entry ts" using archive_walk_entries(2) [OF _ assms(1) ts] by simp
  ultimately show ?thesis
    using extract_walk_entries [OF assms(3,4), of ts "[]"] by (simp add: kept_files_def o_def case_prod_unfold)
qed

definition sample_tree :: "fs_entry list" where
  "sample_tree =
     [Entry ''.git'' (Directory None [Entry ''HEAD'' (RegularFile (Inr ''ref''))]),
      Entry ''go.mod'' (RegularFile (Inr ''module m'')),
      Entry ''web'' (Directory None
        [Entry ''dist'' (RegularFile (Inr ''built'')), Entry ''main.js'' (RegularFile (Inr ''run()''))])]"

lemma archive_roundtrip_witness:
  "\<exists>ts ops. archiveDirectory None (Directory None sample_tree) = Inr ts \<and>
     extractTar (\<lambda>_ _. None) None ''/w'' [] ts = (None, ops) \<and>
     written ops = [(''/w/go.mod'', ''module m''), (''/w/web/main.js'', ''run()'')]"
proof -
  let ?ts = "[\<lparr>te_name = ''go.mod'', te_type = TypeReg, te_data = ''module m''\<rparr>,
    \<lparr>te_name = ''web/'', te_type = TypeDir, te_data = []\<rparr>,
    \<lparr>te_name = ''web/main.js'', te_type = TypeReg, te_data = ''run()''\<rparr>]"
  have named: "entries_named sample_tree" by code_simp
  have ts: "archiveDirectory None (Directory None sample_tree) = Inr ?ts" by code_simp
  have kept: "map (\<lambda>(comps, data). (path_clean ''/w'' @ ''/'' @ rel_path comps, data))
      (filter (\<lambda>f. \<not> excluded (fst f)) (files_of [] sample_tree))
      = [(''/w/go.mod'', ''module m''), (''/w/web/main.js'', ''run()'')]"
    by code_simp
  have "is_abs ''/w''" "path_clean ''/w'' \<noteq> ''/''" by code_simp+
  from archive_roundtrip [OF named ts this] ts kept show ?thesis by auto
qed

section \<open>Unpacking stays under the destination\<close>

lemma clean_abs_elems:
  assumes "is_abs s" "split_on (CHR ''/'') (path_clean s) = [] # es" "path_clean s \<noteq> ''/''" "c \<in> set es"
  shows "file_name c"
proof -
  let ?es = "clean_elems True (split_on CHR ''/'' s)"
  have clean: "path_clean s = CHR ''/'' # rel_path ?es" using path_clean_abs [OF assms(1)] by simp
  with assms(3) have "?es \<noteq> []" by auto
  then have "split_on (CHR ''/'') (rel_path ?es) = ?es"
    using clean_elems_slash_free by (intro split_on_join) auto
  with assms(2) clean have es: "es = ?es" by simp
  from clean_elems_form [of True "split_on CHR ''/'' s"]
  have "\<forall>x\<in>set ?es. x \<noteq> [] \<and> x \<noteq> dot \<and> x \<noteq> dotdot" unfolding clean_form_def by auto
  with es assms(4) clean_elems_slash_free show ?thesis by (auto simp: file_name_def)
qed

lemma guarded_target_below:
  assumes abs: "is_abs dest"
    and guard: "target = path_clean dest \<or> has_prefix target (path_clean dest @ ''/'')"
    and target: "target = path_clean p"
  shows "\<exists>comps. (\<forall>c\<in>set comps. file_name c) \<and> target = below dest comps"
  using guard
proof
  assume "target = path_clean dest"
  then show ?thesis by (intro exI [of _ "[]"]) (simp add: below_def)
next
  assume "has_prefix target (path_clean dest @ ''/'')"
  then obtain r where r: "target = path_clean dest @ CHR ''/'' # r" by (auto simp: has_prefix_def prefix_def)
  from abs obtain d where d: "path_clean dest = CHR ''/'' # d"
    using is_abs_path_clean [of dest] by (cases "path_clean dest") (auto simp: is_abs_Cons)
  with r have "is_abs target" "target \<noteq> ''/''" by (simp_all add: is_abs_Cons)
  then have p: "is_abs p" "path_clean p \<noteq> ''/''" unfolding target by simp_all
  have split: "split_on (CHR ''/'') (path_clean p) = [] # split_on (CHR ''/'') d @ split_on (CHR ''/'') r"
    unfolding target [symmetric] r d by (simp add: split_on_slash)
  have "\<forall>c\<in>set (split_on (CHR ''/'') r). file_name c"
    using clean_abs_elems [OF p(1) split p(2)] by simp
  moreover have "target = below dest (split_on (CHR ''/'') r)"
    using r join_split_on [of "CHR ''/''" r] by (simp add: below_def)
  ultimately show ?thesis by blast
qed

lemma extract_ops_below:
  assumes "is_abs dest" "extract_ops dest t = Inr ops" "(p, d) \<in> set (written ops)"
  shows "\<exists>comps. (\<forall>c\<in>set comps. file_name c) \<and> p = below dest comps"
proof -
  let ?target = "path_join [dest, path_clean (te_name t)]"
  from assms(1) have "?target = path_clean (dest @ ''/'' @ path_clean (te_name t))"
    by (auto simp: path_join_def is_abs_Cons)
  moreover from assms(2) have "?target = path_clean dest \<or> has_prefix ?target (path_clean dest @ ''/'')"
    by (auto simp: extract_ops_def Let_def split: if_splits)
  moreover from assms(2,3) have "p = ?target"
    by (auto simp: extract_ops_def Let_def split: if_splits tar_type.splits)
  ultimately show ?thesis using guarded_target_below [OF assms(1)] by blast
qed

lemma perform_ops_prefix: "perform_ops failing acc ops = (err, res) \<Longrightarrow> \<exists>n. res = acc @ take n ops"
proof (induction ops arbitrary: acc)
  case (Cons op ops)
  show ?case
  proof (cases "failing acc op")
    case None
    with Cons obtain n where "res = (acc @ [op]) @ take n ops" by fastforce
    then show ?thesis by (intro exI [of _ "Suc n"]) simp
  next
    case (Some e)
    with Cons.prems show ?thesis by (intro exI [of _ 0]) simp
  qed
qed simp

lemma written_take: "x \<in> set (written (take n ops)) \<Longrightarrow> x \<in> set (written ops)"
  by (metis Un_iff append_take_drop_id set_append written_simps(4))

text \<open>
  C30: whatever the archive holds and wherever the unpacking stops, every file it writes has a path that consists
  of the cleaned destination and of plain file names, none of them a dot, a double dot or with a slash in it.
\<close>

theorem extract_contained:
  assumes "is_abs dest" and "extractTar failing ending dest acc ts = (err, ops)"
    and "(p, d) \<in> set (written ops)" and "(p, d) \<notin> set (written acc)"
  shows "\<exists>comps. (\<forall>c\<in>set comps. file_name c) \<and> p = below dest comps"
  using assms(2-4)
proof (induction ts arbitrary: acc)
  case (Cons t ts)
  show ?case
  proof (cases "extract_ops dest t")
    case (Inl e)
    with Cons.prems show ?thesis by simp
  next
    case (Inr todo)
    obtain err' acc' where p: "perform_ops failing acc todo = (err', acc')" by fastforce
    then obtain n where n: "acc' = acc @ take n todo" using perform_ops_prefix by blast
    show ?thesis
    proof (cases "(p, d) \<in> set (written acc')")
      case True
      with n Cons.prems(3) have "(p, d) \<in> set (written todo)" by (auto dest: written_take)
      with Inr show ?thesis by (intro extract_ops_below [OF assms(1)])
    next
      case False
      with Cons.prems Inr p have "err' = None" by (cases err') auto
      with Cons.prems(1) Inr p have "extractTar failing ending dest acc' ts = (err, ops)" by simp
      from Cons.IH [OF this Cons.prems(2) False] show ?thesis .
    qed
  qed
qed simp

lemma extract_contained_witness:
  "\<exists>comps. (\<forall>c\<in>set comps. file_name c) \<and> ''/w/a/b'' = below ''/w'' comps"
proof -
  let ?ts = "[\<lparr>te_name = ''x/../a/b'', te_type = TypeReg, te_data = ''1''\<rparr>,
    \<lparr>te_name = ''../etc/passwd'', te_type = TypeReg, te_data = ''2''\<rparr>]"
  let ?ops = "[FsMkdir ''/w/a'', FsWrite ''/w/a/b'' ''1'']"
  have run: "extractTar (\<lambda>_ _. None) None ''/w'' [] ?ts = (Some (ErrorText ''invalid archive path: ../etc/passwd''), ?ops)"
    by code_simp
  have "is_abs ''/w''" by code_simp
  from extract_contained [OF this run, of "''/w/a/b''" "''1''"] show ?thesis by simp
qed

end
