(* ===== verification/Opensandbox_Backend.thy ===== *)
theory Opensandbox_Backend
  imports Executor Envsync Opensandbox_Client Workspace_Archive "HOL-Library.Signed_Division"
begin

text \<open>
  \<open>internal/backend/opensandbox_backend.go\<close> and the remote half of \<open>opensandbox_workspace.go\<close>: the sandbox
  backend over the HTTP client. The state is the requests sent so far, the sessions of the commands
  that have been started, and the operations made on the local file system by unpacking archives. The goroutine that reads a command's stream is run to its end when the command is
  started: its log channel is then what its one reader gets until it is closed, and its status what is read
  after that. Times are left out.
\<close>

section \<open>State and surroundings\<close>

record os_session =
  oss_logs :: "log_chunk list"
  oss_status :: exec_status

record os_state =
  obs_sent :: requests
  obs_execs :: "string \<rightharpoonup> os_session"
  obs_local :: "fs_op list"

type_synonym 'a osb = "os_state \<Rightarrow> (go_error + 'a) \<times> os_state"

text \<open>
  Besides the provider: how the reading of a stream ends; whether the context still lives when the chunk
  after the first \<open>n\<close> is sent to the log channel; whether \<open>Exec\<close> sees the end of the context before the first
  event; the error of the context when it ends in the \<open>n\<close>-th wait of the loop that waits for the sandbox, or
  of the one that polls the logs, and after how many lines of a poll it ends there; the local workspace,
  the name of a temporary file or the error of creating one, the bytes of an archive and how an archive is
  read, and which local operation fails.
\<close>

record os_world =
  ow_codec :: codec
  ow_files :: local_files
  ow_stream_end :: "string \<Rightarrow> go_error option"
  ow_accepts :: "nat \<Rightarrow> bool"
  ow_exec_cut :: bool
  ow_ctx_err :: go_error
  ow_start_done :: "nat \<Rightarrow> go_error option"
  ow_poll_done :: "nat \<Rightarrow> bool"
  ow_poll_cut :: "nat \<Rightarrow> nat option"
  ow_tree :: "string \<Rightarrow> fs_node"
  ow_temp :: "go_error + string"
  ow_tar_bytes :: "tar_entry list \<Rightarrow> string"
  ow_tar_read :: "string \<Rightarrow> tar_entry list \<times> go_error option"
  ow_fs_failing :: "fs_op list \<Rightarrow> fs_op \<Rightarrow> go_error option"
  ow_host_os :: string
  ow_host_arch :: string

record os_backend =
  ob_client :: os_client
  ob_cfg :: run_config
  ob_poll_interval :: int

definition maxInt :: "int list \<Rightarrow> int" where
  "maxInt vs = foldl (\<lambda>best v. if best < v then v else best) 0 vs"

definition defaultString :: "string \<Rightarrow> string \<Rightarrow> string" where
  "defaultString v fallback = (if v = [] then fallback else v)"

definition NewOpenSandboxBackend :: "run_config \<Rightarrow> os_backend" where
  "NewOpenSandboxBackend cfg =
     (let osb = cfg_opensandbox cfg; poll = osb_poll_interval_ms osb * 1000000 in
      \<lparr>ob_client = client_New \<lparr>oc_base_url = osb_base_url osb, oc_api_key = osb_api_key osb,
         oc_timeout = maxInt [osb_create_timeout_sec osb, 30] * 1000000000, oc_max_retries = 0, oc_retry_wait = 0\<rparr>,
       ob_cfg = cfg,
       ob_poll_interval = (if poll \<le> 0 then 1000000000 else poll)\<rparr>)"

definition oret :: "'a \<Rightarrow> 'a osb" where
  "oret x = (\<lambda>s. (Inr x, s))"

definition ofail :: "go_error \<Rightarrow> 'a osb" where
  "ofail e = (\<lambda>s. (Inl e, s))"

definition obind :: "'a osb \<Rightarrow> ('a \<Rightarrow> 'b osb) \<Rightarrow> 'b osb" where
  "obind m k = (\<lambda>s. case m s of (Inl e, s') \<Rightarrow> (Inl e, s') | (Inr x, s') \<Rightarrow> k x s')"

text \<open>A call of the client.\<close>

definition call :: "'a http \<Rightarrow> 'a osb" where
  "call m = (\<lambda>s. case m (obs_sent s) of (r, h) \<Rightarrow> (r, s\<lparr>obs_sent := h\<rparr>))"

text \<open>The call of which the error is looked at.\<close>

definition attempt :: "'a osb \<Rightarrow> (go_error + 'a) osb" where
  "attempt m = (\<lambda>s. case m s of (r, s') \<Rightarrow> (Inr r, s'))"

section \<open>Provider errors\<close>

fun as_provider_error :: "go_error \<Rightarrow> go_error option" where
  "as_provider_error (ProviderError sc c m r) = Some (ProviderError sc c m r)"
| "as_provider_error (WrapError pre e) = as_provider_error e"
| "as_provider_error (RunnerError a b c d e f (Some cause)) = as_provider_error cause"
| "as_provider_error e = None"

definition wrapProviderError :: "error_code \<Rightarrow> go_error \<Rightarrow> go_error" where
  "wrapProviderError code err =
     (case as_provider_error err of
        Some (ProviderError sc c m r) \<Rightarrow>
          RunnerError code (error_string (ProviderError sc c m r)) r [] BackendKindOpenSandbox c (Some err)
      | _ \<Rightarrow> RunnerError code (error_string err) False [] BackendKindOpenSandbox [] (Some err))"

definition wrapped :: "error_code \<Rightarrow> 'a osb \<Rightarrow> 'a osb" where
  "wrapped code m = (\<lambda>s. case m s of (Inl e, s') \<Rightarrow> (Inl (wrapProviderError code e), s') | (Inr x, s') \<Rightarrow> (Inr x, s'))"

section \<open>What the backend says of itself\<close>

definition OpenSandbox_Capabilities :: backend_capabilities where
  "OpenSandbox_Capabilities =
     zero_caps\<lparr>caps_supports_pause_resume := True, caps_supports_ttl := True, caps_supports_file_upload := True,
       caps_supports_file_download := True, caps_supports_background_exec := True,
       caps_supports_stream_logs := True, caps_supports_endpoints := True, caps_supports_bridge_network := True,
       caps_supports_host_network := True, caps_supports_code_interp := True,
       caps_supports_runtime_profile := True\<rparr>"

definition OpenSandbox_RuntimeInfo :: "os_world \<Rightarrow> os_backend \<Rightarrow> runtime_info" where
  "OpenSandbox_RuntimeInfo w b =
     (let cfg = ob_cfg b; profile = rt_profile (cfg_runtime cfg); virt = VirtualizationForRuntimeProfile profile;
          info = zero_runtime_info\<lparr>ri_provider_kind := BackendKindOpenSandbox, ri_runtime_profile := profile,
            ri_runtime_class_name := RuntimeClassNameForConfig cfg,
            ri_container_runtime := ''opensandbox-'' @ osb_runtime (cfg_opensandbox cfg),
            ri_host_os := ow_host_os w, ri_host_arch := ow_host_arch w, ri_available := True\<rparr>
      in if virt \<noteq> ''none'' then
           info\<lparr>ri_virtualization := virt, ri_checked_by := ''provider-capabilities'',
             ri_detail := ''runtime profile request will be delegated to opensandbox provider''\<rparr>
         else info\<lparr>ri_virtualization := ''none''\<rparr>)"

section \<open>Creating and starting a sandbox\<close>

definition openSandboxKeepAliveCommand :: string where
  "openSandboxKeepAliveCommand =
     ''if [ -x /bin/bash ] && [ ! -x /usr/bin/bash ]; then mkdir -p /usr/bin && ln -sf /bin/bash /usr/bin/bash; fi; trap ''
     @ [CHR 0x27] @ ''exit 0'' @ [CHR 0x27] @ '' TERM INT; while true; do sleep 3600; done''"

definition nonEmptyEntrypoint :: "string list \<Rightarrow> string list" where
  "nonEmptyEntrypoint entrypoint =
     (case entrypoint of
        [a, b] \<Rightarrow> if (a = ''/bin/sh'' \<or> a = ''sh'') \<and> b = ''-lc'' then [a, b, openSandboxKeepAliveCommand] else entrypoint
      | _ \<Rightarrow> entrypoint)"

definition put_if :: "bool \<Rightarrow> string \<Rightarrow> string \<Rightarrow> env \<Rightarrow> env" where
  "put_if c k v m = (if c then env_put k v m else m)"

definition create_request_of :: "run_config \<Rightarrow> create_sandbox_request \<Rightarrow> os_create_request" where
  "create_request_of cfg req =
     (let osb = cfg_opensandbox cfg; profile = rt_profile (cfg_runtime cfg);
          normal = NormalizeRuntimeProfile profile; cls = RuntimeClassNameForConfig cfg;
          special = (normal \<noteq> RuntimeProfileNative \<and> normal \<noteq> RuntimeProfileDefault \<and> normal \<noteq> [])
      in \<lparr>ocr_image_uri = csr_image req,
          ocr_timeout = maxInt [csr_timeout_sec req, osb_ttl_sec osb],
          ocr_resource_limits = put_if (csr_memory req \<noteq> []) ''memory'' (csr_memory req)
            (put_if (csr_cpu req \<noteq> []) ''cpu'' (csr_cpu req) []),
          ocr_env = csr_env req,
          ocr_metadata = put_if (special \<and> cls \<noteq> []) ''runtime.class'' cls
            (put_if (profile \<noteq> []) ''runtime.profile'' profile (csr_metadata req)),
          ocr_entrypoint = nonEmptyEntrypoint (csr_entrypoint req),
          ocr_extensions = put_if (special \<and> cls \<noteq> []) ''runtime.class'' cls
            (put_if special ''runtime.profile'' normal
            (put_if (csr_workspace_dir req \<noteq> []) ''workspace_dir'' (csr_workspace_dir req)
            (put_if (csr_network_mode req \<noteq> []) ''network_mode'' (csr_network_mode req)
            (put_if (osb_runtime osb \<noteq> []) ''runtime'' (osb_runtime osb) []))))\<rparr>)"

definition mapSandboxInfo :: "os_sandbox_info \<Rightarrow> run_config \<Rightarrow> sandbox_info" where
  "mapSandboxInfo info cfg =
     zero_sandbox_info\<lparr>si_id := osi_id info, si_status := osi_state info,
       si_runtime_kind := osb_runtime (cfg_opensandbox cfg), si_metadata := osi_metadata info\<rparr>"

definition OpenSandbox_Create :: "os_world \<Rightarrow> os_backend \<Rightarrow> create_sandbox_request \<Rightarrow> sandbox_info osb" where
  "OpenSandbox_Create w b req =
     obind (wrapped ErrorCodeSandboxCreateFailed
       (call (CreateSandbox (ow_codec w) (ob_client b) (create_request_of (ob_cfg b) req))))
     (\<lambda>info. oret (mapSandboxInfo info (ob_cfg b)))"

text \<open>
  The loop of \<open>Start\<close>, in its \<open>n\<close>-th round; the value is \<open>None\<close> when it does not end.
\<close>

partial_function (option) start_loop ::
  "os_world \<Rightarrow> os_backend \<Rightarrow> string \<Rightarrow> nat \<Rightarrow> os_state \<Rightarrow> (go_error option \<times> os_state) option" where
  "start_loop w b i n s =
     (case wrapped ErrorCodeSandboxStartFailed (call (GetSandbox (ow_codec w) (ob_client b) i)) s of
        (Inl e, s') \<Rightarrow> Some (Some e, s')
      | (Inr info, s') \<Rightarrow>
          (let state = to_lower (osi_state info) in
           if state = ''running'' \<or> state = ''paused'' then Some (None, s')
           else if state = ''failed'' \<or> state = ''terminated'' then
             Some (Some (RunnerError ErrorCodeSandboxStartFailed
               (''sandbox '' @ i @ '' entered '' @ osi_state info @ '': '' @ osi_message info) False []
               BackendKindOpenSandbox [] None), s')
           else (case ow_start_done w n of
               Some e \<Rightarrow> Some (Some e, s')
             | None \<Rightarrow> start_loop w b i (Suc n) s')))"

definition OpenSandbox_Start :: "os_world \<Rightarrow> os_backend \<Rightarrow> string \<Rightarrow> os_state \<Rightarrow> (go_error option \<times> os_state) option" where
  "OpenSandbox_Start w b i s = start_loop w b i 0 s"

definition OpenSandbox_Stat :: "os_world \<Rightarrow> os_backend \<Rightarrow> string \<Rightarrow> sandbox_status osb" where
  "OpenSandbox_Stat w b i =
     obind (wrapped ErrorCodeSandboxStartFailed (call (GetSandbox (ow_codec w) (ob_client b) i)))
     (\<lambda>info. oret \<lparr>sst_id = osi_id info, sst_status = osi_state info\<rparr>)"

section \<open>The stream of a command\<close>

definition decodeEvent :: "codec \<Rightarrow> string \<Rightarrow> os_event option" where
  "decodeEvent cx raw =
     (let line = trim_space raw in
      if line = [] then None
      else cx_event cx (if has_prefix line ''data:'' then trim_space (trim_prefix line ''data:'') else line))"

text \<open>A scanner with a buffer of \<open>n\<close> bytes: its error, given how the reading of the data ended.\<close>

definition scan_error :: "nat \<Rightarrow> string \<Rightarrow> go_error option \<Rightarrow> go_error option" where
  "scan_error n data ending =
     (if list_ex (\<lambda>l. n \<le> length l) (raw_lines data) then Some (ErrorText ''bufio.Scanner: token too long'')
      else ending)"

definition stream_events :: "codec \<Rightarrow> nat \<Rightarrow> string \<Rightarrow> os_event list" where
  "stream_events cx n data = concat (map (\<lambda>l. case decodeEvent cx l of None \<Rightarrow> [] | Some e \<Rightarrow> [e]) (scan_lines n data))"

text \<open>
  \<open>emitBufferedLogChunks\<close>: the lines to emit and what stays in the buffer.
\<close>

definition buffered_lines :: "bool \<Rightarrow> string \<Rightarrow> string \<Rightarrow> string list \<times> string" where
  "buffered_lines flush buf text =
     (let parts = split_on newline (buf @ text);
          lines = filter (\<lambda>l. l \<noteq> []) (map (trim_right (\<lambda>c. c = carriage)) (butlast parts));
          remaining = last parts
      in if flush then
           (let r = trim_right (\<lambda>c. c = carriage \<or> c = newline) remaining in
            (if r \<noteq> [] then lines @ [r] else lines, []))
         else (lines, remaining))"

fun emit_lines :: "(nat \<Rightarrow> bool) \<Rightarrow> string \<Rightarrow> string list \<Rightarrow> log_chunk list \<Rightarrow> bool \<times> log_chunk list" where
  "emit_lines accepts stream [] logs = (True, logs)"
| "emit_lines accepts stream (l # ls) logs =
     (if accepts (length logs)
      then emit_lines accepts stream ls (logs @ [\<lparr>lc_stream = stream, lc_line = l\<rparr>])
      else (False, logs))"

text \<open>
  The variables of \<open>consumeExecStream\<close> and of the session it writes to. The log channel is unbounded here: a
  full channel blocks the goroutine until it is read.
\<close>

record os_consumer =
  oc_logs :: "log_chunk list"
  oc_stdout :: string
  oc_stderr :: string
  oc_init :: "string option"
  oc_exit :: "int option"
  oc_error :: string

definition new_consumer :: os_consumer where
  "new_consumer = \<lparr>oc_logs = [], oc_stdout = [], oc_stderr = [], oc_init = None, oc_exit = None, oc_error = []\<rparr>"

definition emit_stdout :: "(nat \<Rightarrow> bool) \<Rightarrow> bool \<Rightarrow> string \<Rightarrow> os_consumer \<Rightarrow> bool \<times> os_consumer" where
  "emit_stdout accepts flush text c =
     (let (ls, rest) = buffered_lines flush (oc_stdout c) text;
          (ok, logs) = emit_lines accepts ''stdout'' ls (oc_logs c)
      in (ok, c\<lparr>oc_stdout := rest, oc_logs := logs\<rparr>))"

definition emit_stderr :: "(nat \<Rightarrow> bool) \<Rightarrow> bool \<Rightarrow> string \<Rightarrow> os_consumer \<Rightarrow> bool \<times> os_consumer" where
  "emit_stderr accepts flush text c =
     (let (ls, rest) = buffered_lines flush (oc_stderr c) text;
          (ok, logs) = emit_lines accepts ''stderr'' ls (oc_logs c)
      in (ok, c\<lparr>oc_stderr := rest, oc_logs := logs\<rparr>))"

definition joinProviderError :: "os_exec_error \<Rightarrow> string" where
  "joinProviderError e = trim_space (join '': '' (filter (\<lambda>p. p \<noteq> []) [oxe_name e, oxe_value e]))"

fun emit_traces :: "(nat \<Rightarrow> bool) \<Rightarrow> string list \<Rightarrow> os_consumer \<Rightarrow> bool \<times> os_consumer" where
  "emit_traces accepts [] c = (True, c)"
| "emit_traces accepts (t # ts) c =
     (if t = [] then emit_traces accepts ts c
      else (case emit_stderr accepts False (t @ [newline]) c of
          (False, c') \<Rightarrow> (False, c')
        | (True, c') \<Rightarrow> emit_traces accepts ts c'))"

text \<open>The value is false when the function returns.\<close>

definition consume_event :: "(nat \<Rightarrow> bool) \<Rightarrow> os_event \<Rightarrow> os_consumer \<Rightarrow> bool \<times> os_consumer" where
  "consume_event accepts e c =
     (if oev_type e = ''init'' then
        (True, if oev_text e \<noteq> [] \<and> oc_init c = None then c\<lparr>oc_init := Some (oev_text e)\<rparr> else c)
      else if oev_type e = ''stdout'' then emit_stdout accepts False (oev_text e) c
      else if oev_type e = ''stderr'' then emit_stderr accepts False (oev_text e) c
      else if oev_type e = ''error'' then
        (case oev_error e of None \<Rightarrow> (True, c)
         | Some err \<Rightarrow>
             (let message = joinProviderError err;
                  c1 = (if message \<noteq> [] then c\<lparr>oc_error := message\<rparr> else c);
                  c2 = (if oxe_value err \<noteq> [] then
                          (case Atoi (oxe_value err) of Some n \<Rightarrow> c1\<lparr>oc_exit := Some n\<rparr> | None \<Rightarrow> c1)
                        else c1)
              in case (if message \<noteq> [] then emit_stderr accepts False (message @ [newline]) c2 else (True, c2)) of
                   (False, c3) \<Rightarrow> (False, c3)
                 | (True, c3) \<Rightarrow> emit_traces accepts (oxe_traceback err) c3))
      else (True, c))"

fun consume_events :: "(nat \<Rightarrow> bool) \<Rightarrow> os_event list \<Rightarrow> os_consumer \<Rightarrow> bool \<times> os_consumer" where
  "consume_events accepts [] c = (True, c)"
| "consume_events accepts (e # es) c =
     (case consume_event accepts e c of
        (False, c') \<Rightarrow> (False, c')
      | (True, c') \<Rightarrow> consume_events accepts es c')"

text \<open>
  What \<open>consumeExecStream\<close> leaves: the error it sends in place of the command's identifier, if any, and its
  variables. A stream that ends with a cancelled context is not an error.
\<close>

fun is_canceled :: "go_error \<Rightarrow> bool" where
  "is_canceled (WrapError pre e) = is_canceled e"
| "is_canceled (RunnerError a b c d e f (Some cause)) = is_canceled cause"
| "is_canceled e = (e = Canceled)"

definition exec_buffer :: nat where "exec_buffer = 1024 * 1024"

definition consumeExecStream :: "os_world \<Rightarrow> string \<Rightarrow> go_error option \<times> os_consumer" where
  "consumeExecStream w data =
     (case consume_events (ow_accepts w) (stream_events (ow_codec w) exec_buffer data) new_consumer of
        (False, c) \<Rightarrow> (None, c)
      | (True, c) \<Rightarrow>
          (let err = (case scan_error exec_buffer data (ow_stream_end w data) of
                 Some e \<Rightarrow> if is_canceled e then None else Some e
               | None \<Rightarrow> None)
           in if oc_init c = None then
                (Some (case err of Some e \<Rightarrow> e | None \<Rightarrow> ErrorText ''opensandbox execd stream missing init event''), c)
              else
                (let c1 = (case err of Some e \<Rightarrow> if error_string e \<noteq> [] then c\<lparr>oc_error := error_string e\<rparr> else c
                           | None \<Rightarrow> c);
                     c2 = snd (emit_stdout (ow_accepts w) True [] c1);
                     c3 = snd (emit_stderr (ow_accepts w) True [] c2)
                 in (None, c3))))"

definition session_of :: "os_consumer \<Rightarrow> string \<Rightarrow> os_session" where
  "session_of c i =
     \<lparr>oss_logs = oc_logs c,
      oss_status = \<lparr>es_id = i, es_running = False, es_exit_code = oc_exit c, es_error = oc_error c\<rparr>\<rparr>"

section \<open>Running a command\<close>

definition os_exec_request_of :: "exec_request \<Rightarrow> os_exec_request" where
  "os_exec_request_of req =
     \<lparr>oxr_command = xr_command req, oxr_cwd = xr_cwd req, oxr_background = False,
      oxr_timeout_ms = xr_timeout req sdiv 1000000, oxr_envs = xr_env req\<rparr>"

definition setExecSession :: "string \<Rightarrow> os_session \<Rightarrow> unit osb" where
  "setExecSession i session = (\<lambda>s. (Inr (), s\<lparr>obs_execs := (obs_execs s)(i \<mapsto> session)\<rparr>))"

definition getExecSession :: "string \<Rightarrow> os_session option osb" where
  "getExecSession i = (\<lambda>s. (Inr (obs_execs s i), s))"

definition deleteExecSession :: "string \<Rightarrow> unit osb" where
  "deleteExecSession i = (\<lambda>s. (Inr (), s\<lparr>obs_execs := (obs_execs s)(i := None)\<rparr>))"

definition OpenSandbox_Exec :: "os_world \<Rightarrow> os_backend \<Rightarrow> string \<Rightarrow> exec_request \<Rightarrow> exec_handle osb" where
  "OpenSandbox_Exec w b i req =
     obind (wrapped ErrorCodeSandboxExecFailed
       (call (RunCommandStream (ow_codec w) (ob_client b) i (os_exec_request_of req)))) (\<lambda>data.
     let (err, c) = consumeExecStream w data in
     if ow_exec_cut w then ofail (ow_ctx_err w)
     else (case oc_init c of
         Some cmd \<Rightarrow> obind (setExecSession cmd (session_of c cmd)) (\<lambda>_.
           oret \<lparr>eh_exec_id = cmd, eh_status = ''running'', eh_provider = ''opensandbox''\<rparr>)
       | None \<Rightarrow> (case err of
           Some e \<Rightarrow> ofail (wrapProviderError ErrorCodeSandboxExecFailed e)
         | None \<Rightarrow> ofail (ow_ctx_err w))))"

definition snapshot :: "os_session \<Rightarrow> string \<Rightarrow> exec_status" where
  "snapshot session i =
     (let st = oss_status session in if es_id st = [] then st\<lparr>es_id := i\<rparr> else st)"

definition merge_status :: "exec_status \<Rightarrow> exec_status \<Rightarrow> exec_status" where
  "merge_status out snap =
     out\<lparr>es_exit_code := (case es_exit_code out of None \<Rightarrow> es_exit_code snap | Some n \<Rightarrow> Some n),
         es_error := (if es_error out = [] then es_error snap else es_error out)\<rparr>"

definition OpenSandbox_ExecStatus :: "os_world \<Rightarrow> os_backend \<Rightarrow> string \<Rightarrow> string \<Rightarrow> exec_status osb" where
  "OpenSandbox_ExecStatus w b i cmd =
     obind (attempt (call (GetCommandStatus (ow_codec w) (ob_client b) i cmd))) (\<lambda>r.
     obind (getExecSession cmd) (\<lambda>session.
     case r of
       Inl e \<Rightarrow> (case session of
           Some ses \<Rightarrow> oret (snapshot ses cmd)
         | None \<Rightarrow> ofail (wrapProviderError ErrorCodeSandboxExecFailed e))
     | Inr st \<Rightarrow>
         (let out = \<lparr>es_id = defaultString (ocs_id st) cmd, es_running = ocs_running st,
                es_exit_code = ocs_exit_code st, es_error = ocs_error st\<rparr>
          in case session of
               None \<Rightarrow> oret out
             | Some ses \<Rightarrow>
                 obind (if es_running out then oret () else deleteExecSession cmd) (\<lambda>_.
                 oret (merge_status out (snapshot ses cmd))))))"

definition OpenSandbox_CancelExec :: "os_world \<Rightarrow> os_backend \<Rightarrow> string \<Rightarrow> string \<Rightarrow> unit osb" where
  "OpenSandbox_CancelExec w b i cmd =
     wrapped ErrorCodeSandboxExecFailed (call (InterruptCommand (ow_codec w) (ob_client b) i cmd))"

section \<open>Logs of a command\<close>

fun replace_crlf :: "string \<Rightarrow> string" where
  "replace_crlf (a # b # s) =
     (if a = carriage \<and> b = newline then newline # replace_crlf s else a # replace_crlf (b # s))"
| "replace_crlf s = s"

definition splitNonEmptyLines :: "string \<Rightarrow> string list" where
  "splitNonEmptyLines text = filter (\<lambda>l. trim_space l \<noteq> []) (split_on newline (replace_crlf text))"

definition stdout_chunks :: "string list \<Rightarrow> log_chunk list" where
  "stdout_chunks ls = map (\<lambda>l. \<lparr>lc_stream = ''stdout'', lc_line = l\<rparr>) ls"

text \<open>
  The goroutine of \<open>StreamLogs\<close> for a command without a session, in its \<open>n\<close>-th round.
\<close>

partial_function (option) poll_logs ::
  "os_world \<Rightarrow> os_backend \<Rightarrow> string \<Rightarrow> string \<Rightarrow> nat \<Rightarrow> int \<Rightarrow> log_chunk list \<Rightarrow> os_state \<Rightarrow>
   (log_chunk list \<times> os_state) option" where
  "poll_logs w b i cmd n cursor logs s =
     (case call (GetBackgroundCommandLogs (ow_codec w) (ob_client b) i cmd cursor) s of (r, s1) \<Rightarrow>
      (let (ls, next_cursor) = (case r of Inl e \<Rightarrow> ([], cursor) | Inr (output, k) \<Rightarrow> (splitNonEmptyLines output, k)) in
       case ow_poll_cut w n of
         Some m \<Rightarrow> Some (logs @ stdout_chunks (take m ls), s1)
       | None \<Rightarrow>
           (case call (GetCommandStatus (ow_codec w) (ob_client b) i cmd) s1 of (st, s2) \<Rightarrow>
            if (case st of Inl e \<Rightarrow> False | Inr st \<Rightarrow> \<not> ocs_running st) \<or> ow_poll_done w n
            then Some (logs @ stdout_chunks ls, s2)
            else poll_logs w b i cmd (Suc n) next_cursor (logs @ stdout_chunks ls) s2)))"

definition OpenSandbox_StreamLogs ::
  "os_world \<Rightarrow> os_backend \<Rightarrow> string \<Rightarrow> string \<Rightarrow> os_state \<Rightarrow> (log_chunk list \<times> os_state) option" where
  "OpenSandbox_StreamLogs w b i cmd s =
     (case obs_execs s cmd of
        Some session \<Rightarrow> Some (oss_logs session, s)
      | None \<Rightarrow> poll_logs w b i cmd 0 0 [] s)"

section \<open>Files and life cycle\<close>

definition OpenSandbox_Upload :: "os_world \<Rightarrow> os_backend \<Rightarrow> string \<Rightarrow> string \<Rightarrow> string \<Rightarrow> unit osb" where
  "OpenSandbox_Upload w b i local remote =
     wrapped ErrorCodeSandboxUploadFailed (call (UploadFile (ow_codec w) (ob_client b) (ow_files w) i local remote))"

definition OpenSandbox_Download :: "os_world \<Rightarrow> os_backend \<Rightarrow> string \<Rightarrow> string \<Rightarrow> string \<Rightarrow> string osb" where
  "OpenSandbox_Download w b i remote local =
     wrapped ErrorCodeSandboxDownloadFailed
       (call (DownloadFile (ow_codec w) (ob_client b) (ow_files w) i remote local))"

definition OpenSandbox_DownloadArtifact :: "os_world \<Rightarrow> os_backend \<Rightarrow> string \<Rightarrow> string \<Rightarrow> string \<Rightarrow> string osb" where
  "OpenSandbox_DownloadArtifact w b i remote local =
     wrapped ErrorCodeSandboxDownloadFailed
       (call (DownloadFile (ow_codec w) (ob_client b) (ow_files w) i remote local))"

definition OpenSandbox_Renew :: "os_world \<Rightarrow> os_backend \<Rightarrow> string \<Rightarrow> string \<Rightarrow> string osb" where
  "OpenSandbox_Renew w b i expires =
     wrapped ErrorCodeSandboxRenewFailed (call (RenewSandbox (ow_codec w) (ob_client b) i expires))"

definition OpenSandbox_Pause :: "os_world \<Rightarrow> os_backend \<Rightarrow> string \<Rightarrow> unit osb" where
  "OpenSandbox_Pause w b i = wrapped ErrorCodeSandboxPauseFailed (call (PauseSandbox (ow_codec w) (ob_client b) i))"

definition OpenSandbox_Resume :: "os_world \<Rightarrow> os_backend \<Rightarrow> string \<Rightarrow> unit osb" where
  "OpenSandbox_Resume w b i =
     wrapped ErrorCodeSandboxResumeFailed (call (ResumeSandbox (ow_codec w) (ob_client b) i))"

definition OpenSandbox_Delete :: "os_world \<Rightarrow> os_backend \<Rightarrow> string \<Rightarrow> unit osb" where
  "OpenSandbox_Delete w b i =
     wrapped ErrorCodeSandboxDeleteFailed (call (DeleteSandbox (ow_codec w) (ob_client b) i))"

definition OpenSandbox_SandboxMetadata :: "os_world \<Rightarrow> os_backend \<Rightarrow> string \<Rightarrow> sandbox_info osb" where
  "OpenSandbox_SandboxMetadata w b i =
     obind (wrapped ErrorCodeSandboxStartFailed (call (GetSandbox (ow_codec w) (ob_client b) i)))
     (\<lambda>info. oret (mapSandboxInfo info (ob_cfg b)))"

fun OpenSandbox_Endpoints :: "os_world \<Rightarrow> os_backend \<Rightarrow> string \<Rightarrow> int list \<Rightarrow> endpoint list osb" where
  "OpenSandbox_Endpoints w b i [] = oret []"
| "OpenSandbox_Endpoints w b i (port # ports) =
     obind (wrapped ErrorCodeSandboxStartFailed (call (GetSandboxEndpoint (ow_codec w) (ob_client b) i port True)))
     (\<lambda>e. obind (OpenSandbox_Endpoints w b i ports)
     (\<lambda>es. oret (\<lparr>ep_name = [], ep_container_port = port, ep_url = ose_endpoint e, ep_headers = ose_headers e\<rparr> # es)))"

section \<open>A command whose output is not wanted\<close>

record os_simple =
  osm_command_id :: string
  osm_stderr :: string
  osm_exit :: int

definition simple_event :: "os_event \<Rightarrow> os_simple \<Rightarrow> os_simple" where
  "simple_event e c =
     (if oev_type e = ''init'' then c\<lparr>osm_command_id := oev_text e\<rparr>
      else if oev_type e = ''stderr'' \<or> oev_type e = ''error'' then
        (let c1 = c\<lparr>osm_stderr := osm_stderr c @ oev_text e\<rparr> in
         case oev_error e of None \<Rightarrow> c1
         | Some err \<Rightarrow>
             (let c2 = c1\<lparr>osm_exit := (case Atoi (oxe_value err) of Some n \<Rightarrow> n | None \<Rightarrow> 1)\<rparr>
              in if osm_stderr c2 = [] then c2\<lparr>osm_stderr := oxe_name err @ '':'' @ oxe_value err\<rparr> else c2))
      else c)"

definition simple_buffer :: nat where "simple_buffer = 64 * 1024"

text \<open>The exit code and the standard error; the code and the text that come with an error are not used.\<close>

definition RunSimpleCommand ::
  "os_world \<Rightarrow> os_backend \<Rightarrow> string \<Rightarrow> string \<Rightarrow> string \<Rightarrow> env \<Rightarrow> int \<Rightarrow> (int \<times> string) osb" where
  "RunSimpleCommand w b i command cwd env timeout =
     obind (call (RunCommandStream (ow_codec w) (ob_client b) i
       \<lparr>oxr_command = command, oxr_cwd = cwd, oxr_background = False, oxr_timeout_ms = timeout sdiv 1000000,
        oxr_envs = env\<rparr>)) (\<lambda>data.
     let c = fold simple_event (stream_events (ow_codec w) simple_buffer data)
         \<lparr>osm_command_id = [], osm_stderr = [], osm_exit = 0\<rparr>
     in case scan_error simple_buffer data (ow_stream_end w data) of
          Some e \<Rightarrow> ofail e
        | None \<Rightarrow>
            if osm_command_id c = [] then oret (osm_exit c, osm_stderr c)
            else obind (attempt (call (GetCommandStatus (ow_codec w) (ob_client b) i (osm_command_id c)))) (\<lambda>r.
              oret (case r of
                  Inl e \<Rightarrow> (osm_exit c, osm_stderr c)
                | Inr st \<Rightarrow> (case ocs_exit_code st of Some n \<Rightarrow> n | None \<Rightarrow> osm_exit c,
                    if osm_stderr c = [] then ocs_error st else osm_stderr c))))"

section \<open>Moving the workspace\<close>

definition remoteTempPath :: "string \<Rightarrow> string \<Rightarrow> string" where
  "remoteTempPath root name = path_join [root, ''.sandbox-runner'', name]"

definition nanoseconds :: "int \<Rightarrow> int" where
  "nanoseconds seconds = seconds * 1000000000"

definition failed_unless_zero :: "string \<Rightarrow> int \<times> string \<Rightarrow> unit osb" where
  "failed_unless_zero what r =
     (if fst r \<noteq> 0 then ofail (ErrorText (what @ '' failed with code '' @ itoa (fst r) @ '': '' @ snd r)) else oret ())"

definition syncInTar :: "os_world \<Rightarrow> os_backend \<Rightarrow> string \<Rightarrow> string \<Rightarrow> string \<Rightarrow> unit osb" where
  "syncInTar w b i localDir remoteDir =
     (case archiveDirectory (case ow_temp w of Inl e \<Rightarrow> Some e | Inr t \<Rightarrow> None) (ow_tree w localDir) of
        Inl e \<Rightarrow> ofail e
      | Inr ts \<Rightarrow>
          (let tarPath = (case ow_temp w of Inl e \<Rightarrow> [] | Inr t \<Rightarrow> t);
               remoteTar = remoteTempPath remoteDir ''workspace-in.tar'';
               files = (ow_files w)\<lparr>lf_open := (lf_open (ow_files w))(tarPath := Inr (ow_tar_bytes w ts))\<rparr>;
               command = ''mkdir -p '' @ shellQuote remoteDir @ '' && tar -xf '' @ shellQuote remoteTar @ '' -C ''
                 @ shellQuote remoteDir @ '' && rm -f '' @ shellQuote remoteTar
           in obind (call (MakeDirs (ow_codec w) (ob_client b) i [(path_dir remoteTar, 493), (remoteDir, 493)])) (\<lambda>_.
              obind (call (UploadFile (ow_codec w) (ob_client b) files i tarPath remoteTar)) (\<lambda>_.
              obind (RunSimpleCommand w b i command remoteDir [] (nanoseconds 120))
              (failed_unless_zero ''extract uploaded workspace'')))))"

definition remotePathExists :: "os_world \<Rightarrow> os_backend \<Rightarrow> string \<Rightarrow> string \<Rightarrow> bool osb" where
  "remotePathExists w b i remotePath =
     obind (RunSimpleCommand w b i (''test -e '' @ shellQuote remotePath)
       (osb_workspace_root (cfg_opensandbox (ob_cfg b))) [] (nanoseconds 15))
     (\<lambda>r. oret (fst r = 0))"

definition extract_local :: "os_world \<Rightarrow> string \<Rightarrow> string \<Rightarrow> unit osb" where
  "extract_local w bytes localDir = (\<lambda>s.
     case ow_tar_read w bytes of (ts, ending) \<Rightarrow>
       (case extractTar (ow_fs_failing w) ending localDir (obs_local s) ts of
          (Some e, ops) \<Rightarrow> (Inl e, s\<lparr>obs_local := ops\<rparr>)
        | (None, ops) \<Rightarrow> (Inr (), s\<lparr>obs_local := ops\<rparr>)))"

definition syncOutTar :: "os_world \<Rightarrow> os_backend \<Rightarrow> string \<Rightarrow> string \<Rightarrow> string \<Rightarrow> unit osb" where
  "syncOutTar w b i remoteDir localDir =
     (let root = osb_workspace_root (cfg_opensandbox (ob_cfg b));
          tarPath = remoteTempPath root ''workspace-out.tar'' in
      obind (remotePathExists w b i remoteDir) (\<lambda>exists.
      if \<not> exists then oret ()
      else obind (RunSimpleCommand w b i (''tar -cf '' @ shellQuote tarPath @ '' -C '' @ shellQuote remoteDir @ '' .'')
          root [] (nanoseconds 120)) (\<lambda>r.
        obind (failed_unless_zero ''archive remote workspace'' r) (\<lambda>_.
        case ow_temp w of
          Inl e \<Rightarrow> ofail e
        | Inr localTar \<Rightarrow>
            obind (call (DownloadFile (ow_codec w) (ob_client b) (ow_files w) i tarPath localTar)) (\<lambda>bytes.
            case lf_mkdir (ow_files w) localDir of
              Some e \<Rightarrow> ofail e
            | None \<Rightarrow>
                obind (extract_local w bytes localDir) (\<lambda>_.
                obind (attempt (RunSimpleCommand w b i (''rm -f '' @ shellQuote tarPath) root [] (nanoseconds 15)))
                (\<lambda>_. oret ())))))))"

definition OpenSandbox_SyncWorkspaceIn :: "os_world \<Rightarrow> os_backend \<Rightarrow> string \<Rightarrow> string \<Rightarrow> unit osb" where
  "OpenSandbox_SyncWorkspaceIn w b i localDir =
     syncInTar w b i localDir (osb_workspace_root (cfg_opensandbox (ob_cfg b)))"

definition OpenSandbox_SyncWorkspaceOut :: "os_world \<Rightarrow> os_backend \<Rightarrow> string \<Rightarrow> string \<Rightarrow> string \<Rightarrow> unit osb" where
  "OpenSandbox_SyncWorkspaceOut w b i remoteDir localDir = syncOutTar w b i remoteDir localDir"

end
