(* ===== verification/Opensandbox_Facts.thy ===== *)
theory Opensandbox_Facts
  imports Opensandbox_Backend Executor_Facts
begin

text \<open>
  What the OpenSandbox backend guarantees: waiting for a sandbox ends with its deadline, the lines of a
  command's stream do not depend on how the provider cuts its output into events, and where the exit code
  of a command comes from.
\<close>

section \<open>Waiting for the sandbox\<close>

lemma do_attempts_once: "do_attempts cx 0 n q h = (cx_do cx h q, h @ [q])"
  by (simp add: do_attempts.simps [of cx 0] split: sum.splits)

text \<open>A client without retries sends one request for the state of a sandbox.\<close>

lemma GetSandbox_once:
  "cl_max_retries c = 0 \<Longrightarrow> \<exists>q. snd (GetSandbox cx c i h) = h @ [q]"
  by (auto simp: GetSandbox_def doJSON_def doJSONAbsolute_def doRaw_def hbind_def do_attempts_once decode_with_def
      hret_def hfail_def split: sum.splits)

lemma call_GetSandbox_once:
  assumes "cl_max_retries c = 0" "wrapped code (call (GetSandbox cx c i)) s = (r, s')"
  shows "length (obs_sent s') = Suc (length (obs_sent s))"
  using GetSandbox_once [OF assms(1), of cx i "obs_sent s"] assms(2)
  by (auto simp: wrapped_def call_def split: sum.splits prod.splits)

definition sandbox_state :: "os_world \<Rightarrow> os_backend \<Rightarrow> string \<Rightarrow> os_state \<Rightarrow> string \<Rightarrow> bool" where
  "sandbox_state w b i s state \<longleftrightarrow>
     (\<exists>info. fst (GetSandbox (ow_codec w) (ob_client b) i (obs_sent s)) = Inr info \<and> to_lower (osi_state info) = state)"

lemma start_loop_ends:
  assumes "cl_max_retries (ob_client b) = 0" "ow_start_done w m = Some e" "n \<le> m"
  shows "\<exists>r s'. start_loop w b i n s = Some (r, s') \<and> length (obs_sent s') \<le> length (obs_sent s) + Suc (m - n) \<and>
    (r = None \<longrightarrow> (\<exists>t. sandbox_state w b i t ''running'' \<or> sandbox_state w b i t ''paused''))"
  using assms(3)
proof (induction "m - n" arbitrary: n s)
  case d: 0
  with assms(2) have fin: "ow_start_done w n = Some e" by simp
  obtain r s' where r: "wrapped ErrorCodeSandboxStartFailed (call (GetSandbox (ow_codec w) (ob_client b) i)) s = (r, s')"
    by fastforce
  from call_GetSandbox_once [OF assms(1) r] have "length (obs_sent s') = Suc (length (obs_sent s))" .
  moreover have "sandbox_state w b i s (to_lower (osi_state info))" if "r = Inr info" for info
    using r that by (auto simp: wrapped_def call_def sandbox_state_def split: sum.splits prod.splits)
  ultimately show ?case
    using r fin by (auto simp: start_loop.simps [of w b i n s] Let_def split: sum.splits)
next
  case (Suc d)
  obtain r s' where r: "wrapped ErrorCodeSandboxStartFailed (call (GetSandbox (ow_codec w) (ob_client b) i)) s = (r, s')"
    by fastforce
  from call_GetSandbox_once [OF assms(1) r] have len: "length (obs_sent s') = Suc (length (obs_sent s))" .
  have state: "sandbox_state w b i s (to_lower (osi_state info))" if "r = Inr info" for info
    using r that by (auto simp: wrapped_def call_def sandbox_state_def split: sum.splits prod.splits)
  from Suc have n: "d = m - Suc n" "Suc n \<le> m" by auto
  from Suc.hyps(1) [OF n, of s'] obtain r2 s2 where "start_loop w b i (Suc n) s' = Some (r2, s2)"
    "length (obs_sent s2) \<le> length (obs_sent s') + Suc (m - Suc n)"
    "r2 = None \<longrightarrow> (\<exists>t. sandbox_state w b i t ''running'' \<or> sandbox_state w b i t ''paused'')"
    by blast
  with r len state n(2) show ?case
    by (auto simp: start_loop.simps [of w b i n s] Let_def split: sum.splits option.splits)
qed

text \<open>
  C26: the backend asks for no retries, and waiting for a sandbox ends: once the deadline falls into the \<open>m\<close>-th
  wait, \<open>Start\<close> returns after at most \<open>m + 1\<close> requests, whatever the provider answers, and it succeeds only when
  the provider has reported the sandbox running or paused.
\<close>

theorem start_returns:
  assumes "b = NewOpenSandboxBackend cfg" and "ow_start_done w m = Some e"
  shows "\<exists>r s'. OpenSandbox_Start w b i s = Some (r, s') \<and> length (obs_sent s') \<le> length (obs_sent s) + Suc m \<and>
    (r = None \<longrightarrow> (\<exists>t. sandbox_state w b i t ''running'' \<or> sandbox_state w b i t ''paused''))"
proof -
  have "cl_max_retries (ob_client b) = 0"
    using assms(1) by (simp add: NewOpenSandboxBackend_def client_New_def Let_def)
  from start_loop_ends [OF this assms(2), of 0 i s] show ?thesis by (simp add: OpenSandbox_Start_def)
qed

text \<open>The state after \<open>n\<close> polls, and the provider's answer to the next one.\<close>

fun polled :: "os_world \<Rightarrow> os_backend \<Rightarrow> string \<Rightarrow> nat \<Rightarrow> os_state \<Rightarrow> os_state" where
  "polled w b i 0 s = s"
| "polled w b i (Suc n) s = polled w b i n (snd (call (GetSandbox (ow_codec w) (ob_client b) i) s))"

definition poll_answer :: "os_world \<Rightarrow> os_backend \<Rightarrow> string \<Rightarrow> nat \<Rightarrow> os_state \<Rightarrow> go_error + os_sandbox_info" where
  "poll_answer w b i n s = fst (GetSandbox (ow_codec w) (ob_client b) i (obs_sent (polled w b i n s)))"

definition answers_state :: "string set \<Rightarrow> go_error + os_sandbox_info \<Rightarrow> bool" where
  "answers_state states r \<longleftrightarrow> (\<exists>info. r = Inr info \<and> to_lower (osi_state info) \<in> states)"

lemma start_loop_succeeds:
  assumes "\<And>k. k < n \<Longrightarrow> answers_state (- {''running'', ''paused'', ''failed'', ''terminated''}) (poll_answer w b i k s)"
    and "\<And>k. k < n \<Longrightarrow> ow_start_done w (m + k) = None"
    and "answers_state {''running'', ''paused''} (poll_answer w b i n s)"
  shows "start_loop w b i m s = Some (None, polled w b i (Suc n) s)"
  using assms
proof (induction n arbitrary: m s)
  case 0
  then show ?case
    by (auto simp: start_loop.simps [of w b i m s] answers_state_def poll_answer_def wrapped_def call_def Let_def
        split: prod.splits sum.splits)
next
  case (Suc n)
  let ?s = "snd (call (GetSandbox (ow_codec w) (ob_client b) i) s)"
  have "start_loop w b i (Suc m) ?s = Some (None, polled w b i (Suc n) ?s)"
  proof (rule Suc.IH)
    fix k assume k: "k < n"
    show "answers_state (- {''running'', ''paused'', ''failed'', ''terminated''}) (poll_answer w b i k ?s)"
      using Suc.prems(1) [of "Suc k"] k by (simp add: poll_answer_def)
    show "ow_start_done w (Suc m + k) = None" using Suc.prems(2) [of "Suc k"] k by simp
  next
    show "answers_state {''running'', ''paused''} (poll_answer w b i n ?s)" using Suc.prems(3) by (simp add: poll_answer_def)
  qed
  moreover from Suc.prems(1) [of 0] obtain info where
    "fst (GetSandbox (ow_codec w) (ob_client b) i (obs_sent s)) = Inr info"
    "to_lower (osi_state info) \<notin> {''running'', ''paused'', ''failed'', ''terminated''}"
    by (auto simp: answers_state_def poll_answer_def)
  moreover have "ow_start_done w m = None" using Suc.prems(2) [of 0] by simp
  ultimately show ?case
    by (auto simp: start_loop.simps [of w b i m s] wrapped_def call_def Let_def split: prod.splits sum.splits)
qed

text \<open>
  C31: a sandbox that comes up is noticed: when the provider reports it pending in the first \<open>n\<close> polls, none of
  whose waits ends with the deadline, and running or paused in the next one, \<open>Start\<close> succeeds with that poll.
\<close>

theorem start_succeeds:
  assumes "\<And>k. k < n \<Longrightarrow> answers_state (- {''running'', ''paused'', ''failed'', ''terminated''}) (poll_answer w b i k s)"
    and "\<And>k. k < n \<Longrightarrow> ow_start_done w k = None"
    and "answers_state {''running'', ''paused''} (poll_answer w b i n s)"
  shows "OpenSandbox_Start w b i s = Some (None, polled w b i (Suc n) s)"
  unfolding OpenSandbox_Start_def using start_loop_succeeds [of n w b i s 0] assms by simp

section \<open>The lines of a stream\<close>

text \<open>The lines of a text: without trailing carriage returns, empty ones left out.\<close>

definition text_lines :: "string \<Rightarrow> string list" where
  "text_lines t = filter (\<lambda>l. l \<noteq> []) (map (trim_right (\<lambda>c. c = carriage)) (split_on newline t))"

definition complete_lines :: "string \<Rightarrow> string list" where
  "complete_lines t = filter (\<lambda>l. l \<noteq> []) (map (trim_right (\<lambda>c. c = carriage)) (butlast (split_on newline t)))"

definition rest_of :: "string \<Rightarrow> string" where
  "rest_of t = last (split_on newline t)"

lemma rest_of_free: "newline \<notin> set (rest_of t)"
  using in_split_on_free [of "last (split_on newline t)" newline t] by (simp add: rest_of_def)

lemma lines_append:
  "complete_lines (a @ b) = complete_lines a @ complete_lines (rest_of a @ b)"
  "rest_of (a @ b) = rest_of (rest_of a @ b)"
  by (simp_all add: complete_lines_def rest_of_def split_on_append_last [of newline a b] butlast_append)

lemma buffered_lines_step:
  "buffered_lines False (rest_of a) t = (complete_lines (rest_of a @ t), rest_of (a @ t))"
  using lines_append(2) [of a t] by (simp add: buffered_lines_def complete_lines_def rest_of_def Let_def)

lemma trim_right_cong: "(\<And>c. c \<in> set s \<Longrightarrow> p c = q c) \<Longrightarrow> trim_right p s = trim_right q s"
  unfolding trim_right_def by (metis dropWhile_cong set_rev)

lemma buffered_lines_flush:
  "buffered_lines True (rest_of a) [] = (let r = trim_right (\<lambda>c. c = carriage) (rest_of a) in if r \<noteq> [] then [r] else [], [])"
proof -
  have "split_on newline (rest_of a) = [rest_of a]" by (rule split_on_free [OF rest_of_free])
  moreover have "trim_right (\<lambda>c. c = carriage \<or> c = newline) (rest_of a) = trim_right (\<lambda>c. c = carriage) (rest_of a)"
    using rest_of_free [of a] by (intro trim_right_cong) auto
  ultimately show ?thesis by (simp add: buffered_lines_def Let_def)
qed

lemma text_lines_parts:
  "text_lines t = complete_lines t @ (let r = trim_right (\<lambda>c. c = carriage) (rest_of t) in if r \<noteq> [] then [r] else [])"
proof -
  have "split_on newline t = butlast (split_on newline t) @ [rest_of t]" by (simp add: rest_of_def)
  then have "text_lines t = filter (\<lambda>l. l \<noteq> []) (map (trim_right (\<lambda>c. c = carriage)) (butlast (split_on newline t) @ [rest_of t]))"
    unfolding text_lines_def by (rule arg_cong)
  then show ?thesis by (simp add: complete_lines_def Let_def)
qed

definition lines_on :: "string \<Rightarrow> log_chunk list \<Rightarrow> string list" where
  "lines_on stream logs = map lc_line (filter (\<lambda>c. lc_stream c = stream) logs)"

lemma emit_lines_all:
  "\<forall>n. accepts n \<Longrightarrow>
   emit_lines accepts stream ls logs = (True, logs @ map (\<lambda>l. \<lparr>lc_stream = stream, lc_line = l\<rparr>) ls)"
  by (induction ls arbitrary: logs) simp_all

lemma lines_on_simps [simp]:
  "lines_on stream [] = []"
  "lines_on stream (logs @ logs') = lines_on stream logs @ lines_on stream logs'"
  "lines_on stream (map (\<lambda>l. \<lparr>lc_stream = stream', lc_line = l\<rparr>) ls) = (if stream = stream' then ls else [])"
  by (auto simp: lines_on_def o_def filter_map)

text \<open>What an event adds to each stream.\<close>

definition error_text :: "os_exec_error \<Rightarrow> string" where
  "error_text err =
     (if joinProviderError err \<noteq> [] then joinProviderError err @ [newline] else [])
     @ concat (map (\<lambda>t. t @ [newline]) (filter (\<lambda>t. t \<noteq> []) (oxe_traceback err)))"

definition stdout_text :: "os_event \<Rightarrow> string" where
  "stdout_text e = (if oev_type e = ''stdout'' then oev_text e else [])"

definition stderr_text :: "os_event \<Rightarrow> string" where
  "stderr_text e =
     (if oev_type e = ''stderr'' then oev_text e
      else if oev_type e = ''error'' then (case oev_error e of None \<Rightarrow> [] | Some err \<Rightarrow> error_text err)
      else [])"

text \<open>The consumer after the texts \<open>outs\<close> and \<open>errs\<close>.\<close>

definition consumed :: "string \<Rightarrow> string \<Rightarrow> os_consumer \<Rightarrow> bool" where
  "consumed outs errs c \<longleftrightarrow>
     lines_on ''stdout'' (oc_logs c) = complete_lines outs \<and> oc_stdout c = rest_of outs \<and>
     lines_on ''stderr'' (oc_logs c) = complete_lines errs \<and> oc_stderr c = rest_of errs"

lemma consumed_new: "consumed [] [] new_consumer"
  by (simp add: consumed_def new_consumer_def lines_on_def complete_lines_def rest_of_def)

lemma emit_stdout_consumed:
  assumes "\<forall>n. accepts n" "consumed outs errs c"
  shows "\<exists>c'. emit_stdout accepts False t c = (True, c') \<and> consumed (outs @ t) errs c'
    \<and> oc_init c' = oc_init c \<and> oc_exit c' = oc_exit c \<and> oc_error c' = oc_error c"
  using assms(2) lines_append(1) [of outs t]
  by (simp add: emit_stdout_def emit_lines_all [OF assms(1)] consumed_def buffered_lines_step)

lemma emit_stderr_consumed:
  assumes "\<forall>n. accepts n" "consumed outs errs c"
  shows "\<exists>c'. emit_stderr accepts False t c = (True, c') \<and> consumed outs (errs @ t) c'
    \<and> oc_init c' = oc_init c \<and> oc_exit c' = oc_exit c \<and> oc_error c' = oc_error c"
  using assms(2) lines_append(1) [of errs t]
  by (simp add: emit_stderr_def emit_lines_all [OF assms(1)] consumed_def buffered_lines_step)

lemma emit_traces_consumed:
  assumes "\<forall>n. accepts n"
  shows "consumed outs errs c \<Longrightarrow> \<exists>c'. emit_traces accepts ts c = (True, c')
    \<and> consumed outs (errs @ concat (map (\<lambda>t. t @ [newline]) (filter (\<lambda>t. t \<noteq> []) ts))) c'
    \<and> oc_init c' = oc_init c \<and> oc_exit c' = oc_exit c \<and> oc_error c' = oc_error c"
proof (induction ts arbitrary: c errs)
  case (Cons t ts)
  show ?case
  proof (cases "t = []")
    case False
    from emit_stderr_consumed [OF assms Cons.prems, where t = "t @ [newline]"] obtain c'
      where c': "emit_stderr accepts False (t @ [newline]) c = (True, c')" "consumed outs (errs @ t @ [newline]) c'"
        "oc_init c' = oc_init c \<and> oc_exit c' = oc_exit c \<and> oc_error c' = oc_error c" by blast
    from Cons.IH [OF c'(2)] c' False show ?thesis by fastforce
  qed (use Cons in simp)
qed simp

definition event_init :: "os_event \<Rightarrow> string option" where
  "event_init e = (if oev_type e = ''init'' \<and> oev_text e \<noteq> [] then Some (oev_text e) else None)"

definition event_exit :: "os_event \<Rightarrow> int option" where
  "event_exit e =
     (if oev_type e = ''error'' then (case oev_error e of None \<Rightarrow> None | Some err \<Rightarrow> Atoi (oxe_value err)) else None)"

fun first_init :: "os_event list \<Rightarrow> string option" where
  "first_init [] = None"
| "first_init (e # es) = (case event_init e of Some i \<Rightarrow> Some i | None \<Rightarrow> first_init es)"

fun last_exit :: "os_event list \<Rightarrow> int option" where
  "last_exit [] = None"
| "last_exit (e # es) = (case last_exit es of Some n \<Rightarrow> Some n | None \<Rightarrow> event_exit e)"

lemma Atoi_Nil [simp]: "Atoi [] = None"
  by (simp add: Atoi_def)

lemma consume_error_consumed:
  assumes acc: "\<forall>n. accepts n" and c: "consumed outs errs c"
    and e: "oev_type e = ''error''" "oev_error e = Some err"
  shows "\<exists>c'. consume_event accepts e c = (True, c') \<and> consumed outs (errs @ error_text err) c' \<and> oc_init c' = oc_init c \<and>
    oc_exit c' = (case event_exit e of Some n \<Rightarrow> Some n | None \<Rightarrow> oc_exit c)"
proof -
  let ?m = "joinProviderError err"
  define c1 where "c1 = (if ?m \<noteq> [] then c\<lparr>oc_error := ?m\<rparr> else c)"
  define c2 where "c2 = (if oxe_value err \<noteq> [] then
    (case Atoi (oxe_value err) of Some n \<Rightarrow> c1\<lparr>oc_exit := Some n\<rparr> | None \<Rightarrow> c1) else c1)"
  have c2: "consumed outs errs c2" "oc_init c2 = oc_init c"
    "oc_exit c2 = (case event_exit e of Some n \<Rightarrow> Some n | None \<Rightarrow> oc_exit c)"
    using c e by (auto simp: c1_def c2_def consumed_def event_exit_def split: option.splits)
  obtain c3 where c3: "(if ?m \<noteq> [] then emit_stderr accepts False (?m @ [newline]) c2 else (True, c2)) = (True, c3)"
      "consumed outs (errs @ (if ?m \<noteq> [] then ?m @ [newline] else [])) c3"
      "oc_init c3 = oc_init c2" "oc_exit c3 = oc_exit c2"
    using emit_stderr_consumed [OF acc c2(1), where t = "?m @ [newline]"] c2(1) by (cases "?m = []") auto
  from e have "consume_event accepts e c =
      (case (if ?m \<noteq> [] then emit_stderr accepts False (?m @ [newline]) c2 else (True, c2)) of
         (False, c3) \<Rightarrow> (False, c3) | (True, c3) \<Rightarrow> emit_traces accepts (oxe_traceback err) c3)"
    by (simp add: consume_event_def Let_def c1_def c2_def split: option.split)
  then have "consume_event accepts e c = emit_traces accepts (oxe_traceback err) c3" unfolding c3(1) by simp
  with emit_traces_consumed [OF acc c3(2), where ts = "oxe_traceback err"] c3(3,4) c2(2,3)
  show ?thesis by (cases "?m = []") (auto simp: error_text_def)
qed

lemma consume_event_consumed:
  assumes acc: "\<forall>n. accepts n" and c: "consumed outs errs c"
  shows "\<exists>c'. consume_event accepts e c = (True, c') \<and> consumed (outs @ stdout_text e) (errs @ stderr_text e) c' \<and>
    oc_init c' = (case oc_init c of Some i \<Rightarrow> Some i | None \<Rightarrow> event_init e) \<and>
    oc_exit c' = (case event_exit e of Some n \<Rightarrow> Some n | None \<Rightarrow> oc_exit c)"
proof -
  consider "oev_type e = ''init''" | "oev_type e = ''stdout''" | "oev_type e = ''stderr''"
    | "oev_type e = ''error''" "oev_error e = None" | err where "oev_type e = ''error''" "oev_error e = Some err"
    | "oev_type e \<notin> {''init'', ''stdout'', ''stderr'', ''error''}"
    by auto
  then show ?thesis
  proof cases
    case 1
    with c show ?thesis
      by (auto simp: consume_event_def consumed_def stdout_text_def stderr_text_def event_init_def event_exit_def
          split: option.splits)
  next
    case 2
    with emit_stdout_consumed [OF acc c, where t = "oev_text e"] show ?thesis
      by (auto simp: consume_event_def stdout_text_def stderr_text_def event_init_def event_exit_def split: option.splits)
  next
    case 3
    with emit_stderr_consumed [OF acc c, where t = "oev_text e"] show ?thesis
      by (auto simp: consume_event_def stdout_text_def stderr_text_def event_init_def event_exit_def split: option.splits)
  next
    case 4
    with c show ?thesis
      by (auto simp: consume_event_def stdout_text_def stderr_text_def event_init_def event_exit_def split: option.splits)
  next
    case (5 err)
    from consume_error_consumed [OF acc c 5] 5 show ?thesis
      by (auto simp: stdout_text_def stderr_text_def event_init_def split: option.splits)
  next
    case 6
    with c show ?thesis
      by (auto simp: consume_event_def stdout_text_def stderr_text_def event_init_def event_exit_def split: option.splits)
  qed
qed

lemma consume_events_consumed:
  assumes acc: "\<forall>n. accepts n"
  shows "consumed outs errs c \<Longrightarrow> \<exists>c'. consume_events accepts es c = (True, c') \<and>
    consumed (outs @ concat (map stdout_text es)) (errs @ concat (map stderr_text es)) c' \<and>
    oc_init c' = (case oc_init c of Some i \<Rightarrow> Some i | None \<Rightarrow> first_init es) \<and>
    oc_exit c' = (case last_exit es of Some n \<Rightarrow> Some n | None \<Rightarrow> oc_exit c)"
proof (induction es arbitrary: c outs errs)
  case (Cons e es)
  from consume_event_consumed [OF acc Cons.prems, of e] obtain c1
    where c1: "consume_event accepts e c = (True, c1)" "consumed (outs @ stdout_text e) (errs @ stderr_text e) c1"
      "oc_init c1 = (case oc_init c of Some i \<Rightarrow> Some i | None \<Rightarrow> event_init e)"
      "oc_exit c1 = (case event_exit e of Some n \<Rightarrow> Some n | None \<Rightarrow> oc_exit c)" by blast
  from Cons.IH [OF c1(2)] c1(1,3,4) show ?case by (fastforce split: option.splits)
qed (simp split: option.splits)

lemma consumeExecStream_result:
  assumes acc: "\<forall>n. ow_accepts w n" and es: "es = stream_events (ow_codec w) exec_buffer data"
    and run: "consumeExecStream w data = (err, c)" and init: "oc_init c = Some i"
  shows "first_init es = Some i" "oc_exit c = last_exit es"
    "lines_on ''stdout'' (oc_logs c) = text_lines (concat (map stdout_text es))"
    "lines_on ''stderr'' (oc_logs c) = text_lines (concat (map stderr_text es))"
proof -
  from consume_events_consumed [OF acc consumed_new, of es] obtain c0
    where c0: "consume_events (ow_accepts w) es new_consumer = (True, c0)"
      "consumed (concat (map stdout_text es)) (concat (map stderr_text es)) c0"
      "oc_init c0 = first_init es" "oc_exit c0 = last_exit es"
    by (auto simp: new_consumer_def split: option.splits)
  from run c0(1) init es have i: "oc_init c0 = Some i"
    by (auto simp: consumeExecStream_def Let_def emit_stdout_def emit_stderr_def split: if_splits option.splits prod.splits)
  from run c0(1) i es have "\<exists>v. c = snd (emit_stderr (ow_accepts w) True []
      (snd (emit_stdout (ow_accepts w) True [] (c0\<lparr>oc_error := v\<rparr>))))"
    by (auto simp: consumeExecStream_def Let_def split: if_splits option.splits intro: exI [of _ "oc_error c0"])
  then obtain v where c: "c = snd (emit_stderr (ow_accepts w) True []
      (snd (emit_stdout (ow_accepts w) True [] (c0\<lparr>oc_error := v\<rparr>))))" by blast
  from c0 i show "first_init es = Some i" by simp
  from c c0(4) show "oc_exit c = last_exit es"
    by (simp add: emit_stdout_def emit_stderr_def split: prod.splits)
  from c c0(2) show "lines_on ''stdout'' (oc_logs c) = text_lines (concat (map stdout_text es))"
    "lines_on ''stderr'' (oc_logs c) = text_lines (concat (map stderr_text es))"
    by (simp_all add: emit_stdout_def emit_stderr_def consumed_def buffered_lines_flush text_lines_parts
        emit_lines_all [OF acc] Let_def del: list.map(2))
qed

section \<open>A command, its stream and its status\<close>

definition command_stream :: "os_world \<Rightarrow> os_backend \<Rightarrow> string \<Rightarrow> exec_request \<Rightarrow> os_state \<Rightarrow> go_error + string" where
  "command_stream w b i req s =
     fst (RunCommandStream (ow_codec w) (ob_client b) i (os_exec_request_of req) (obs_sent s))"

lemma Exec_session:
  assumes acc: "\<forall>n. ow_accepts w n" and run: "OpenSandbox_Exec w b i req s = (Inr handle, s')"
    and data: "command_stream w b i req s = Inr data"
    and es: "es = stream_events (ow_codec w) exec_buffer data"
  shows "\<exists>ses. obs_execs s' (eh_exec_id handle) = Some ses \<and> es_exit_code (oss_status ses) = last_exit es
    \<and> lines_on ''stdout'' (oss_logs ses) = text_lines (concat (map stdout_text es))
    \<and> lines_on ''stderr'' (oss_logs ses) = text_lines (concat (map stderr_text es))"
proof -
  obtain err c where c: "consumeExecStream w data = (err, c)" by fastforce
  from run data c obtain cmd where cmd: "oc_init c = Some cmd" "eh_exec_id handle = cmd"
      "obs_execs s' cmd = Some (session_of c cmd)"
    by (auto simp: OpenSandbox_Exec_def command_stream_def obind_def wrapped_def call_def setExecSession_def oret_def
        ofail_def split: prod.splits sum.splits option.splits if_splits)
  from consumeExecStream_result [OF acc es c cmd(1)] cmd show ?thesis by (simp add: session_of_def)
qed

lemma ExecStatus_exit_code:
  assumes "obs_execs s cmd = Some ses" "fst (GetCommandStatus (ow_codec w) (ob_client b) i cmd (obs_sent s)) = r"
  shows "\<exists>st s'. OpenSandbox_ExecStatus w b i cmd s = (Inr st, s') \<and> es_exit_code st =
    (case r of Inl e \<Rightarrow> es_exit_code (oss_status ses)
     | Inr cs \<Rightarrow> (case ocs_exit_code cs of Some n \<Rightarrow> Some n | None \<Rightarrow> es_exit_code (oss_status ses)))"
  using assms
  by (auto simp: OpenSandbox_ExecStatus_def obind_def attempt_def call_def getExecSession_def deleteExecSession_def
      oret_def snapshot_def merge_status_def Let_def split: sum.splits prod.splits option.splits)

text \<open>
  The backend as an executor drives it for one command: the request is known beforehand, the logs are read
  after it has been started and the status after the logs, with a cancellation in between when one is sent.
\<close>

definition opensandbox_exec :: "os_world \<Rightarrow> os_backend \<Rightarrow> string \<Rightarrow> exec_request \<Rightarrow> os_state \<Rightarrow> exec_backend" where
  "opensandbox_exec w b i req s =
     (case OpenSandbox_Exec w b i req s of (r, s1) \<Rightarrow>
      \<lparr>xb_exec = (\<lambda>_ _. r),
       xb_stream = (\<lambda>i cmd. case OpenSandbox_StreamLogs w b i cmd s1 of
          Some (logs, _) \<Rightarrow> Inr logs | None \<Rightarrow> Inr []),
       xb_status = Some (\<lambda>i cmd cancelled.
          fst (OpenSandbox_ExecStatus w b i cmd
            (if cancelled then snd (OpenSandbox_CancelExec w b i cmd s1) else s1))),
       xb_cancels = True\<rparr>)"

text \<open>
  C27: the lines of a command are those of the provider's output: whatever the pieces in which the provider sends
  it, the standard output and the standard error that the executor reads are the lines of all the texts of
  that stream joined together, in order, without empty lines and without carriage returns at the end.
\<close>

theorem stream_lines_independent_of_events:
  assumes "\<forall>n. ow_accepts w n" and "OpenSandbox_Exec w b i req s = (Inr handle, s')"
    and "command_stream w b i req s = Inr data"
  shows "\<exists>logs. OpenSandbox_StreamLogs w b i (eh_exec_id handle) s' = Some (logs, s') \<and>
    lines_on ''stdout'' logs = text_lines (concat (map stdout_text (stream_events (ow_codec w) exec_buffer data))) \<and>
    lines_on ''stderr'' logs = text_lines (concat (map stderr_text (stream_events (ow_codec w) exec_buffer data)))"
  using Exec_session [OF assms refl] by (auto simp: OpenSandbox_StreamLogs_def)

text \<open>
  C28: the exit code that the executor reports for a command of an OpenSandbox sandbox is the one of the
  provider's status; without one, that of the last error event whose value is a number; and 0 when there is
  none of them, even where the stream has reported errors.
\<close>

theorem opensandbox_exit_code:
  assumes "\<forall>n. ow_accepts w n" and "xc_err ctx = None"
    and "OpenSandbox_Exec w b i (exec_request_of cfg spec) s = (Inr handle, s')"
    and "command_stream w b i (exec_request_of cfg spec) s = Inr data"
    and "rs_sandbox_id (cfg_run (xs_run_config spec)) = i" and "i \<noteq> []"
    and "fst (GetCommandStatus (ow_codec w) (ob_client b) i (eh_exec_id handle) (obs_sent s')) = r"
    and "BackendExecutor_Run (opensandbox_exec w b i (exec_request_of cfg spec) s) ctx cfg target spec = (res, err, logs)"
  shows "err = None \<and> xres_exit_code res =
    (case (case r of Inl e \<Rightarrow> None | Inr cs \<Rightarrow> ocs_exit_code cs) of
       Some n \<Rightarrow> n
     | None \<Rightarrow> (case last_exit (stream_events (ow_codec w) exec_buffer data) of Some n \<Rightarrow> n | None \<Rightarrow> 0))"
proof -
  from Exec_session [OF assms(1,3,4) refl] obtain ses where ses: "obs_execs s' (eh_exec_id handle) = Some ses"
    "es_exit_code (oss_status ses) = last_exit (stream_events (ow_codec w) exec_buffer data)" by blast
  from ExecStatus_exit_code [OF ses(1) assms(7)] obtain st s''
    where st: "OpenSandbox_ExecStatus w b i (eh_exec_id handle) s' = (Inr st, s'')"
      "es_exit_code st = (case r of Inl e \<Rightarrow> es_exit_code (oss_status ses)
        | Inr cs \<Rightarrow> (case ocs_exit_code cs of Some n \<Rightarrow> Some n | None \<Rightarrow> es_exit_code (oss_status ses)))" by blast
  from assms(8) st(1) ses(1) assms(2,3,5,6)
  have "err = None" "xres_exit_code res = (case es_exit_code st of None \<Rightarrow> 0 | Some n \<Rightarrow> n)"
    by (auto simp: BackendExecutor_Run_def opensandbox_exec_def OpenSandbox_StreamLogs_def read_status_def
        interrupted_def Let_def)
  with st(2) ses(2) show ?thesis by (auto split: sum.splits option.splits)
qed

section \<open>Examples\<close>

text \<open>A provider that answers every request; the body of an answer names what it stands for.\<close>

definition sample_provider :: "requests \<Rightarrow> http_request \<Rightarrow> go_error + http_response" where
  "sample_provider h q =
     (let ok = (\<lambda>b. Inr \<lparr>hp_status = 200, hp_status_text = ''200 OK'', hp_headers = [], hp_body = b\<rparr>) in
      case hq_body q of BodyExec r \<Rightarrow> ok [CHR ''i'', newline, CHR ''a'', newline, CHR ''b'', newline, CHR ''x''] | _ \<Rightarrow> ok ''s'')"

definition sample_event :: "string \<Rightarrow> os_event option" where
  "sample_event line =
     (if line = ''i'' then Some \<lparr>oev_type = ''init'', oev_text = ''cmd-1'', oev_error = None\<rparr>
      else if line = ''a'' then Some \<lparr>oev_type = ''stdout'', oev_text = ''hel'', oev_error = None\<rparr>
      else if line = ''b'' then Some \<lparr>oev_type = ''stdout'', oev_text = ''lo'' @ [newline, newline] @ ''end'', oev_error = None\<rparr>
      else if line = ''x'' then Some \<lparr>oev_type = ''error'', oev_text = [],
        oev_error = Some \<lparr>oxe_name = ''OOMKilled'', oxe_value = ''memory'', oxe_traceback = []\<rparr>\<rparr>
      else None)"

definition sample_os_world :: os_world where
  "sample_os_world =
     \<lparr>ow_codec = \<lparr>cx_do = sample_provider, cx_interrupted = (\<lambda>n. None),
        cx_sandbox = (\<lambda>b. Inr \<lparr>osi_id = ''sb'', osi_state = ''Pending'', osi_reason = [], osi_message = [], osi_metadata = []\<rparr>),
        cx_endpoint = (\<lambda>b. Inr \<lparr>ose_endpoint = ''http://e'', ose_headers = []\<rparr>),
        cx_status = (\<lambda>b. Inr \<lparr>ocs_id = ''cmd-1'', ocs_running = False, ocs_exit_code = None, ocs_error = []\<rparr>),
        cx_event = sample_event, cx_error = (\<lambda>b. None), cx_renewed = Inr\<rparr>,
      ow_files = \<lparr>lf_open = (\<lambda>p. Inr []), lf_mkdir = (\<lambda>p. None), lf_create = (\<lambda>p. None), lf_boundary = ''b''\<rparr>,
      ow_stream_end = (\<lambda>d. None), ow_accepts = (\<lambda>n. True), ow_exec_cut = False, ow_ctx_err = Canceled,
      ow_start_done = (\<lambda>n. if n < 3 then None else Some DeadlineExceeded), ow_poll_done = (\<lambda>n. False),
      ow_poll_cut = (\<lambda>n. None), ow_tree = (\<lambda>p. Directory None []), ow_temp = Inr ''/tmp/t'',
      ow_tar_bytes = (\<lambda>ts. []), ow_tar_read = (\<lambda>d. ([], None)), ow_fs_failing = (\<lambda>ops op. None),
      ow_host_os = ''linux'', ow_host_arch = ''amd64''\<rparr>"

definition fresh_os_state :: os_state where
  "fresh_os_state = \<lparr>obs_sent = [], obs_execs = Map.empty, obs_local = []\<rparr>"

definition sample_os_backend :: os_backend where
  "sample_os_backend = NewOpenSandboxBackend DefaultRunConfig"

definition sample_os_request :: exec_request where
  "sample_os_request = exec_request_of DefaultRunConfig sample_exec_spec"

abbreviation sample_stream :: string where
  "sample_stream \<equiv> [CHR ''i'', newline, CHR ''a'', newline, CHR ''b'', newline, CHR ''x'']"

lemma sample_lines: "raw_lines sample_stream = [''i'', ''a'', ''b'', ''x'']"
  by code_simp

lemma sample_scanned: "scan_lines exec_buffer sample_stream = [''i'', ''a'', ''b'', ''x'']"
  unfolding scan_lines_def sample_lines by (simp add: exec_buffer_def drop_cr_def carriage_def)

definition sample_event_list :: "os_event list" where
  "sample_event_list =
     [\<lparr>oev_type = ''init'', oev_text = ''cmd-1'', oev_error = None\<rparr>,
      \<lparr>oev_type = ''stdout'', oev_text = ''hel'', oev_error = None\<rparr>,
      \<lparr>oev_type = ''stdout'', oev_text = ''lo'' @ [newline, newline] @ ''end'', oev_error = None\<rparr>,
      \<lparr>oev_type = ''error'', oev_text = [],
       oev_error = Some \<lparr>oxe_name = ''OOMKilled'', oxe_value = ''memory'', oxe_traceback = []\<rparr>\<rparr>]"

lemma sample_decoded:
  "map (decodeEvent (ow_codec sample_os_world)) [''i'', ''a'', ''b'', ''x''] = map Some sample_event_list"
  by code_simp

lemma sample_events: "stream_events (ow_codec sample_os_world) exec_buffer sample_stream = sample_event_list"
  using sample_decoded unfolding stream_events_def sample_scanned by (simp add: sample_event_list_def)

lemma start_returns_witness:
  "\<exists>r s'. OpenSandbox_Start sample_os_world (NewOpenSandboxBackend DefaultRunConfig) ''sb'' fresh_os_state = Some (r, s')
     \<and> length (obs_sent s') \<le> 4"
proof -
  have "ow_start_done sample_os_world 3 = Some DeadlineExceeded" by (simp add: sample_os_world_def)
  from start_returns [OF refl this, of DefaultRunConfig "''sb''" fresh_os_state] show ?thesis
    by (auto simp: fresh_os_state_def)
qed

definition sample_exec :: "(go_error + exec_handle) \<times> os_state" where
  "sample_exec = OpenSandbox_Exec sample_os_world sample_os_backend ''sb'' sample_os_request fresh_os_state"

definition sample_handle :: exec_handle where
  "sample_handle = \<lparr>eh_exec_id = ''cmd-1'', eh_status = ''running'', eh_provider = ''opensandbox''\<rparr>"

lemma fst_hbind: "fst (m h) = Inr x \<Longrightarrow> fst (hbind m k h) = fst (k x (snd (m h)))"
  by (auto simp: hbind_def split: prod.splits)

lemma sample_doRaw:
  "fst (doRaw (ow_codec sample_os_world) (ob_client sample_os_backend) m u b hs h)
     = Inr \<lparr>hp_status = 200, hp_status_text = ''200 OK'', hp_headers = [],
         hp_body = (case b of BodyExec r \<Rightarrow> sample_stream | _ \<Rightarrow> ''s'')\<rparr>"
  by (simp add: doRaw_def sample_os_backend_def NewOpenSandboxBackend_def client_New_def Let_def hbind_def hret_def
      do_attempts_once sample_os_world_def sample_provider_def split: http_body.splits)

lemma sample_decode:
  "fst (doJSONAbsolute (ow_codec sample_os_world) (ob_client sample_os_backend) m u BodyNone f hs h)
     = (case f ''s'' of Inl e \<Rightarrow> Inl e | Inr x \<Rightarrow> Inr x)"
  by (simp add: doJSONAbsolute_def fst_hbind sample_doRaw decode_with_def hret_def hfail_def split: sum.splits)

lemma sample_endpoint:
  "fst (GetSandboxEndpoint (ow_codec sample_os_world) (ob_client sample_os_backend) i port proxy h)
     = Inr \<lparr>ose_endpoint = ''http://e'', ose_headers = []\<rparr>"
proof -
  have "cx_endpoint (ow_codec sample_os_world) ''s'' = Inr \<lparr>ose_endpoint = ''http://e'', ose_headers = []\<rparr>"
    by (simp add: sample_os_world_def)
  then have "fst (doJSON (ow_codec sample_os_world) (ob_client sample_os_backend) ''GET'' u BodyNone
      (cx_endpoint (ow_codec sample_os_world)) h) = Inr \<lparr>ose_endpoint = ''http://e'', ose_headers = []\<rparr>" for u h
    by (simp add: doJSON_def sample_decode)
  then show ?thesis
    by (simp add: fst_hbind GetSandboxEndpoint_def hret_def normalizeEndpoint_def has_prefix_def)
qed

lemma sample_command_stream:
  "command_stream sample_os_world sample_os_backend ''sb'' sample_os_request fresh_os_state = Inr sample_stream"
  by (simp add: command_stream_def RunCommandStream_def with_execd_def fst_hbind sample_endpoint sample_doRaw
      hret_def)

lemma sample_status:
  "fst (GetCommandStatus (ow_codec sample_os_world) (ob_client sample_os_backend) i cmd h)
     = Inr \<lparr>ocs_id = ''cmd-1'', ocs_running = False, ocs_exit_code = None, ocs_error = []\<rparr>"
  by (simp add: GetCommandStatus_def with_execd_def fst_hbind sample_endpoint sample_decode)
    (simp add: sample_os_world_def)

lemma sample_consumed:
  "\<exists>c. consumeExecStream sample_os_world sample_stream = (None, c) \<and> oc_init c = Some ''cmd-1''"
proof -
  have "oc_init (snd (consume_events (ow_accepts sample_os_world) sample_event_list new_consumer)) = Some ''cmd-1''"
    "fst (consume_events (ow_accepts sample_os_world) sample_event_list new_consumer)"
    by code_simp+
  moreover have "scan_error exec_buffer sample_stream (ow_stream_end sample_os_world sample_stream) = None"
    unfolding scan_error_def sample_lines by (simp add: exec_buffer_def sample_os_world_def)
  ultimately show ?thesis
    unfolding consumeExecStream_def sample_events
    by (auto simp: Let_def emit_stdout_def emit_stderr_def split: prod.splits bool.splits)
qed

lemma sample_exec_result: "sample_exec = (Inr sample_handle, snd sample_exec)"
proof -
  obtain c where c: "consumeExecStream sample_os_world sample_stream = (None, c)" "oc_init c = Some ''cmd-1''"
    using sample_consumed by blast
  have "\<not> ow_exec_cut sample_os_world" by (simp add: sample_os_world_def)
  with c sample_command_stream show ?thesis
    by (auto simp: sample_exec_def OpenSandbox_Exec_def command_stream_def obind_def wrapped_def call_def
        setExecSession_def oret_def sample_handle_def split: prod.splits sum.splits)
qed

lemma sample_accepts: "\<forall>n. ow_accepts sample_os_world n"
  by (simp add: sample_os_world_def)

lemma stream_lines_independent_of_events_witness:
  "\<exists>logs. OpenSandbox_StreamLogs sample_os_world sample_os_backend ''sb'' ''cmd-1'' (snd sample_exec)
       = Some (logs, snd sample_exec)
     \<and> lines_on ''stdout'' logs = [''hello'', ''end''] \<and> lines_on ''stderr'' logs = [''OOMKilled: memory'']"
proof -
  have "text_lines (concat (map stdout_text sample_event_list)) = [''hello'', ''end'']"
    "text_lines (concat (map stderr_text sample_event_list)) = [''OOMKilled: memory'']"
    by code_simp+
  with stream_lines_independent_of_events [OF sample_accepts sample_exec_result [unfolded sample_exec_def]
      sample_command_stream] show ?thesis
    unfolding sample_events by (simp add: sample_handle_def flip: sample_exec_def)
qed

text \<open>The provider kills the command and gives no number: the run reports 0.\<close>

lemma opensandbox_exit_code_witness:
  "xres_exit_code (fst (BackendExecutor_Run
     (opensandbox_exec sample_os_world sample_os_backend ''sb'' sample_os_request fresh_os_state)
     alive DefaultRunConfig zero_target sample_exec_spec)) = 0"
proof -
  let ?run = "BackendExecutor_Run
    (opensandbox_exec sample_os_world sample_os_backend ''sb'' sample_os_request fresh_os_state)
    alive DefaultRunConfig zero_target sample_exec_spec"
  have id: "rs_sandbox_id (cfg_run (xs_run_config sample_exec_spec)) = ''sb''" "xc_err alive = None"
    by (simp_all add: sample_exec_spec_def alive_def)
  have exit: "last_exit sample_event_list = None" by code_simp
  obtain res err logs where run: "?run = (res, err, logs)" by (metis prod_cases3)
  have "xres_exit_code res = 0"
    using opensandbox_exit_code [OF sample_accepts id(2)
        sample_exec_result [unfolded sample_exec_def sample_os_request_def]
        sample_command_stream [unfolded sample_os_request_def] id(1) _ refl run [unfolded sample_os_request_def]]
      sample_status exit
    unfolding sample_events by (simp add: sample_handle_def flip: sample_exec_def sample_os_request_def)
  with run show ?thesis by simp
qed

text \<open>A provider that brings a sandbox up between the second and the third poll.\<close>

definition slow_os_world :: os_world where
  "slow_os_world = sample_os_world\<lparr>ow_codec := (ow_codec sample_os_world)\<lparr>
     cx_do := (\<lambda>h q. Inr \<lparr>hp_status = 200, hp_status_text = ''200 OK'', hp_headers = [],
       hp_body = (if length h < 2 then ''p'' else ''r'')\<rparr>),
     cx_sandbox := (\<lambda>b. Inr \<lparr>osi_id = ''sb'', osi_state = (if b = ''p'' then ''Pending'' else ''Running''),
       osi_reason = [], osi_message = [], osi_metadata = []\<rparr>)\<rparr>\<rparr>"

lemma slow_GetSandbox:
  "\<exists>q. GetSandbox (ow_codec slow_os_world) (ob_client sample_os_backend) i h
     = (Inr \<lparr>osi_id = ''sb'', osi_state = (if length h < 2 then ''Pending'' else ''Running''), osi_reason = [], osi_message = [],
          osi_metadata = []\<rparr>, h @ [q])"
  by (simp add: GetSandbox_def doJSON_def doJSONAbsolute_def doRaw_def sample_os_backend_def NewOpenSandboxBackend_def
      client_New_def Let_def hbind_def hret_def do_attempts_once slow_os_world_def decode_with_def)

lemma slow_polled: "length (obs_sent (polled slow_os_world sample_os_backend i n s)) = length (obs_sent s) + n"
proof (induction n arbitrary: s)
  case (Suc n)
  obtain q where "GetSandbox (ow_codec slow_os_world) (ob_client sample_os_backend) i (obs_sent s)
      = (Inr \<lparr>osi_id = ''sb'', osi_state = (if length (obs_sent s) < 2 then ''Pending'' else ''Running''), osi_reason = [], osi_message = [],
          osi_metadata = []\<rparr>, obs_sent s @ [q])"
    using slow_GetSandbox by blast
  with Suc show ?case by (simp add: call_def)
qed simp

lemma slow_answer:
  "poll_answer slow_os_world sample_os_backend i n fresh_os_state
     = Inr \<lparr>osi_id = ''sb'', osi_state = (if n < 2 then ''Pending'' else ''Running''), osi_reason = [], osi_message = [], osi_metadata = []\<rparr>"
proof -
  obtain q where "GetSandbox (ow_codec slow_os_world) (ob_client sample_os_backend) i
      (obs_sent (polled slow_os_world sample_os_backend i n fresh_os_state))
      = (Inr \<lparr>osi_id = ''sb'', osi_state = (if length (obs_sent (polled slow_os_world sample_os_backend i n fresh_os_state)) < 2
          then ''Pending'' else ''Running''), osi_reason = [], osi_message = [], osi_metadata = []\<rparr>,
         obs_sent (polled slow_os_world sample_os_backend i n fresh_os_state) @ [q])"
    using slow_GetSandbox by blast
  then show ?thesis by (simp add: poll_answer_def slow_polled) (simp add: fresh_os_state_def)
qed

lemma start_succeeds_witness:
  "OpenSandbox_Start slow_os_world sample_os_backend ''sb'' fresh_os_state
     = Some (None, polled slow_os_world sample_os_backend ''sb'' 3 fresh_os_state)"
proof -
  have states: "to_lower ''Pending'' = ''pending''" "to_lower ''Running'' = ''running''" by code_simp+
  have "OpenSandbox_Start slow_os_world sample_os_backend ''sb'' fresh_os_state
      = Some (None, polled slow_os_world sample_os_backend ''sb'' (Suc 2) fresh_os_state)"
    by (rule start_succeeds)
      (simp_all add: slow_answer answers_state_def states, simp add: slow_os_world_def sample_os_world_def)
  then show ?thesis by (simp add: numeral_eq_Suc)
qed

end
