(* ===== verification/Cli_Session.thy ===== *)
theory Cli_Session
  imports Executor Envsync
begin

text \<open>
  What the backends that drive a command line tool share: calling the tool, the values its JSON output has,
  and the sessions of \<open>internal/backend/local_exec_session.go\<close>; the local backend, which does nothing, of
  \<open>local_backend.go\<close> and \<open>provider.go\<close> too. A session's process is run to its end when it is started: its
  log channel is then what its one reader gets until it is closed, and its status what is read after that.
  Times are left out.
\<close>

section \<open>Calling a tool\<close>

record cli_call =
  cc_binary :: string
  cc_dir :: string
  cc_args :: "string list"
  cc_env :: "string list option"

text \<open>
  A process that has run: its two outputs, the error of \<open>Wait\<close>, in which order the two readers have sent their
  lines, and how many lines of a stream its reader has read when the context or the pipe ends before the
  output does.
\<close>

record cli_process =
  cp_stdout :: string
  cp_stderr :: string
  cp_wait :: "go_error option"
  cp_schedule :: "bool list"
  cp_read :: "string \<Rightarrow> nat option"

text \<open>A JSON value; the members of an object in the order in which the map is iterated.\<close>

datatype json =
    JNull
  | JBool bool
  | JNumber string
  | JString string
  | JArray "json list"
  | JObject "(string \<times> json) list"

text \<open>
  \<open>cw_json\<close> is \<open>json.Unmarshal\<close>; \<open>cw_now\<close> is the clock in nanoseconds; \<open>cw_kill\<close> is the error of killing a
  session's process.
\<close>

record cli_world =
  cw_host :: host
  cw_lookpath :: "string \<Rightarrow> go_error + string"
  cw_run :: "cli_call list \<Rightarrow> cli_call \<Rightarrow> string \<times> go_error option"
  cw_start :: "cli_call list \<Rightarrow> cli_call \<Rightarrow> go_error + cli_process"
  cw_now :: "cli_call list \<Rightarrow> int"
  cw_json :: "string \<Rightarrow> json option"
  cw_kill :: "string \<Rightarrow> go_error option"

record cli_session =
  cse_logs :: "log_chunk list"
  cse_status :: exec_status

text \<open>The state of a backend: the calls made so far, the sandboxes it knows and its sessions.\<close>

record 'r cli_state =
  cs_calls :: "cli_call list"
  cs_boxes :: "string \<rightharpoonup> 'r"
  cs_execs :: "string \<rightharpoonup> cli_session"

type_synonym ('r, 'a) cli = "'r cli_state \<Rightarrow> (go_error + 'a) \<times> 'r cli_state"

definition cret :: "'a \<Rightarrow> ('r, 'a) cli" where
  "cret x = (\<lambda>s. (Inr x, s))"

definition cfail :: "go_error \<Rightarrow> ('r, 'a) cli" where
  "cfail e = (\<lambda>s. (Inl e, s))"

definition cbind :: "('r, 'a) cli \<Rightarrow> ('a \<Rightarrow> ('r, 'b) cli) \<Rightarrow> ('r, 'b) cli" where
  "cbind m k = (\<lambda>s. case m s of (Inl e, s') \<Rightarrow> (Inl e, s') | (Inr x, s') \<Rightarrow> k x s')"

definition ctry :: "('r, 'a) cli \<Rightarrow> ('r, go_error + 'a) cli" where
  "ctry m = (\<lambda>s. case m s of (r, s') \<Rightarrow> (Inr r, s'))"

text \<open>An error that a function wraps before it returns it.\<close>

definition cwrap :: "(go_error \<Rightarrow> go_error) \<Rightarrow> ('r, 'a) cli \<Rightarrow> ('r, 'a) cli" where
  "cwrap f m = (\<lambda>s. case m s of (Inl e, s') \<Rightarrow> (Inl (f e), s') | (Inr x, s') \<Rightarrow> (Inr x, s'))"

definition lookupSandbox :: "string \<Rightarrow> ('r, 'r option) cli" where
  "lookupSandbox i = (\<lambda>s. (Inr (cs_boxes s i), s))"

definition storeSandbox :: "string \<Rightarrow> 'r \<Rightarrow> ('r, unit) cli" where
  "storeSandbox i r = (\<lambda>s. (Inr (), s\<lparr>cs_boxes := (cs_boxes s)(i \<mapsto> r)\<rparr>))"

definition deleteExec :: "string \<Rightarrow> ('r, unit) cli" where
  "deleteExec i = (\<lambda>s. (Inr (), s\<lparr>cs_execs := (cs_execs s)(i := None)\<rparr>))"

text \<open>\<open>CombinedOutput\<close>, with the output as the error's text.\<close>

definition cli_output :: "cli_world \<Rightarrow> cli_call \<Rightarrow> ('r, string) cli" where
  "cli_output w call = (\<lambda>s. let s' = s\<lparr>cs_calls := cs_calls s @ [call]\<rparr> in
     case cw_run w (cs_calls s) call of
       (output, None) \<Rightarrow> (Inr output, s')
     | (output, Some e) \<Rightarrow>
         (let text = trim_space output in (Inl (ErrorText (if text = [] then error_string e else text)), s')))"

section \<open>Sessions\<close>

text \<open>The scanner of \<open>streamSessionLogs\<close> has a buffer of one megabyte.\<close>

definition session_buffer :: nat where "session_buffer = 1024 * 1024"

definition streamSessionLogs :: "cli_process \<Rightarrow> string \<Rightarrow> log_chunk list" where
  "streamSessionLogs p stream =
     (let ls = scan_lines session_buffer (if stream = ''stderr'' then cp_stderr p else cp_stdout p);
          read = (case cp_read p stream of None \<Rightarrow> ls | Some n \<Rightarrow> take n ls)
      in map (\<lambda>l. \<lparr>lc_stream = stream, lc_line = l\<rparr>) read)"

fun interleave :: "bool list \<Rightarrow> 'a list \<Rightarrow> 'a list \<Rightarrow> 'a list" where
  "interleave sched [] bs = bs"
| "interleave sched as [] = as"
| "interleave [] as bs = as @ bs"
| "interleave (True # sched) (a # as) bs = a # interleave sched as bs"
| "interleave (False # sched) as (b # bs) = b # interleave sched as bs"

definition session_logs :: "cli_process \<Rightarrow> log_chunk list" where
  "session_logs p = interleave (cp_schedule p) (streamSessionLogs p ''stdout'') (streamSessionLogs p ''stderr'')"

definition newLocalExecSession :: "string \<Rightarrow> exec_status" where
  "newLocalExecSession execID = \<lparr>es_id = execID, es_running = True, es_exit_code = None, es_error = []\<rparr>"

text \<open>\<open>errors.As\<close> for an exit error.\<close>

fun as_exit_error :: "go_error \<Rightarrow> int option" where
  "as_exit_error (ExitError n) = Some n"
| "as_exit_error (WrapError pre e) = as_exit_error e"
| "as_exit_error e = None"

definition session_finish :: "exec_status \<Rightarrow> go_error option \<Rightarrow> exec_status" where
  "session_finish st err =
     (case err of
        None \<Rightarrow> st\<lparr>es_running := False, es_exit_code := Some 0\<rparr>
      | Some e \<Rightarrow> (case as_exit_error e of
            Some n \<Rightarrow> st\<lparr>es_running := False, es_exit_code := Some n\<rparr>
          | None \<Rightarrow>
              if is_deadline e then st\<lparr>es_running := False, es_exit_code := Some 124\<rparr>
              else st\<lparr>es_running := False, es_error := error_string e, es_exit_code := Some 1\<rparr>))"

text \<open>\<open>start\<close> and the entry of the session into the table; \<open>provider\<close> is the provider in the handle.\<close>

definition start_session :: "cli_world \<Rightarrow> string \<Rightarrow> cli_call \<Rightarrow> ('r, cli_session) cli" where
  "start_session w execID call = (\<lambda>s. let s' = s\<lparr>cs_calls := cs_calls s @ [call]\<rparr> in
     case cw_start w (cs_calls s) call of
       Inl e \<Rightarrow> (Inl e, s')
     | Inr p \<Rightarrow> (Inr \<lparr>cse_logs = session_logs p,
         cse_status = session_finish (newLocalExecSession execID) (cp_wait p)\<rparr>, s'))"

definition storeExec :: "string \<Rightarrow> string \<Rightarrow> cli_session \<Rightarrow> ('r, exec_handle) cli" where
  "storeExec provider execID session = (\<lambda>s.
     (Inr \<lparr>eh_exec_id = execID, eh_status = ''running'', eh_provider = provider\<rparr>,
      s\<lparr>cs_execs := (cs_execs s)(execID \<mapsto> session)\<rparr>))"

definition exec_id :: "cli_world \<Rightarrow> string \<Rightarrow> ('r, string) cli" where
  "exec_id w i = (\<lambda>s. (Inr (i @ ''-exec-'' @ itoa (cw_now w (cs_calls s))), s))"

definition getExec :: "string \<Rightarrow> ('r, cli_session option) cli" where
  "getExec execID = (\<lambda>s. (Inr (cs_execs s execID), s))"

text \<open>\<open>StreamLogs\<close>, \<open>ExecStatus\<close> and \<open>CancelExec\<close> of these backends; \<open>unknown\<close> is the error for an unknown session.\<close>

definition session_stream :: "go_error \<Rightarrow> string \<Rightarrow> ('r, log_chunk list) cli" where
  "session_stream unknown execID = cbind (getExec execID) (\<lambda>session.
     case session of None \<Rightarrow> cfail unknown | Some ses \<Rightarrow> cret (cse_logs ses))"

definition session_status :: "string \<Rightarrow> ('r, exec_status) cli" where
  "session_status execID = cbind (getExec execID) (\<lambda>session.
     case session of
       None \<Rightarrow> cret \<lparr>es_id = execID, es_running = False, es_exit_code = None, es_error = []\<rparr>
     | Some ses \<Rightarrow>
         (if es_running (cse_status ses) then cret (cse_status ses)
          else cbind (deleteExec execID) (\<lambda>_. cret (cse_status ses))))"

definition session_cancel :: "cli_world \<Rightarrow> string \<Rightarrow> ('r, unit) cli" where
  "session_cancel w execID = cbind (getExec execID) (\<lambda>session.
     case session of
       None \<Rightarrow> cret ()
     | Some ses \<Rightarrow> (case cw_kill w execID of None \<Rightarrow> cret () | Some e \<Rightarrow> cfail e))"

section \<open>The local backend\<close>

definition errUnsupported :: go_error where
  "errUnsupported = ErrorText ''operation not supported by local backend''"

definition backendProviderForConfig :: "run_config \<Rightarrow> string" where
  "backendProviderForConfig cfg =
     (let kind = bk_kind (cfg_backend cfg) in
      if ex_provider (cfg_execution cfg) \<noteq> [] then ex_provider (cfg_execution cfg)
      else if kind = BackendKindDirect then ''native''
      else if kind = BackendKindDocker then
        (if dk_provider (cfg_docker cfg) = DockerProviderOrbStack then ''orbstack'' else ''native'')
      else if kind = BackendKindK8s then ExecutionProviderForK8sProvider (k8_provider (cfg_k8s cfg))
      else if kind = BackendKindOpenSandbox then ''opensandbox''
      else if kind = BackendKindDevContainer \<or> kind = BackendKindAppleContainer then ''native''
      else if kind = BackendKindOrbStackMachine then ''orbstack''
      else kind)"

record local_backend =
  lb_kind :: backend_kind
  lb_cfg :: run_config
  lb_capabilities :: backend_capabilities

definition NewLocalBackend :: "backend_kind \<Rightarrow> run_config \<Rightarrow> local_backend" where
  "NewLocalBackend kind cfg =
     \<lparr>lb_kind = kind, lb_cfg = cfg,
      lb_capabilities =
        (if kind = BackendKindDocker then
           zero_caps\<lparr>caps_supports_stream_logs := True, caps_supports_bridge_network := True,
             caps_supports_host_network := True, caps_supports_oci_image := True\<rparr>
         else if kind = BackendKindK8s then
           zero_caps\<lparr>caps_supports_endpoints := True, caps_supports_file_upload := True,
             caps_supports_file_download := True, caps_supports_runtime_profile := True,
             caps_supports_k8s_target := True\<rparr>
         else zero_caps)\<rparr>"

definition Local_RuntimeInfo :: "host \<Rightarrow> local_backend \<Rightarrow> runtime_info" where
  "Local_RuntimeInfo h b =
     (let cfg = lb_cfg b; kind = lb_kind b; profile = rt_profile (cfg_runtime cfg);
          info = zero_runtime_info\<lparr>ri_provider_kind := kind, ri_backend_provider := backendProviderForConfig cfg,
            ri_runtime_profile := profile, ri_runtime_class_name := RuntimeClassNameForConfig cfg,
            ri_host_os := host_goos h, ri_host_arch := host_goarch h, ri_available := True\<rparr>;
          info = (if kind = BackendKindDocker then
              info\<lparr>ri_container_runtime := ''docker'',
                ri_local_platform := (if dk_provider (cfg_docker cfg) = DockerProviderOrbStack then ''orbstack'' else [])\<rparr>
            else if kind = BackendKindK8s then
              info\<lparr>ri_container_runtime := ''kubernetes'',
                ri_local_platform := K8sLocalPlatform (k8_provider (cfg_k8s cfg))\<rparr>
            else info\<lparr>ri_container_runtime := kind\<rparr>)
      in info\<lparr>ri_virtualization :=
           (if profile = RuntimeProfileOrbStackDocker \<or> profile = RuntimeProfileOrbStackK8s then ''none''
            else VirtualizationForRuntimeProfile profile)\<rparr>)"

definition Local_Create :: "local_backend \<Rightarrow> create_sandbox_request \<Rightarrow> sandbox_info" where
  "Local_Create b req =
     zero_sandbox_info\<lparr>si_id := csr_run_id req, si_status := ''ready'', si_runtime_kind := lb_kind b,
       si_metadata := csr_metadata req\<rparr>"

definition Local_Stat :: "string \<Rightarrow> sandbox_status" where
  "Local_Stat i = \<lparr>sst_id = i, sst_status = ''ready''\<rparr>"

definition Local_Exec :: "string \<Rightarrow> exec_request \<Rightarrow> go_error + exec_handle" where
  "Local_Exec i req = Inl errUnsupported"

definition Local_StreamLogs :: "string \<Rightarrow> string \<Rightarrow> go_error + log_chunk list" where
  "Local_StreamLogs i execID = Inl errUnsupported"

definition Local_Start :: "string \<Rightarrow> go_error option" where
  "Local_Start i = None"

definition Local_Upload :: "string \<Rightarrow> string \<Rightarrow> string \<Rightarrow> go_error option" where
  "Local_Upload i localPath remotePath = None"

definition Local_Download :: "string \<Rightarrow> string \<Rightarrow> string \<Rightarrow> go_error option" where
  "Local_Download i remotePath localPath = None"

definition Local_Renew :: "string \<Rightarrow> int \<Rightarrow> go_error option" where
  "Local_Renew i ttl = Some errUnsupported"

definition Local_Pause :: "string \<Rightarrow> go_error option" where
  "Local_Pause i = Some errUnsupported"

definition Local_Resume :: "string \<Rightarrow> go_error option" where
  "Local_Resume i = Some errUnsupported"

definition Local_Delete :: "string \<Rightarrow> go_error option" where
  "Local_Delete i = None"

text \<open>
  Its operations do not depend on what happened before, and it has none of the optional interfaces.
\<close>

definition local_sandbox_backend :: "host \<Rightarrow> backend_kind \<Rightarrow> run_config \<Rightarrow> 't sandbox_backend" where
  "local_sandbox_backend h kind cfg =
     (let b = NewLocalBackend kind cfg in
      \<lparr>sbk_kind = lb_kind b, sbk_capabilities = (\<lambda>_. Inr (lb_capabilities b)),
       sbk_runtime_info = (\<lambda>_. Inr (Local_RuntimeInfo h b)), sbk_create = (\<lambda>_ req. Inr (Local_Create b req)),
       sbk_start = (\<lambda>_. Local_Start), sbk_pause = (\<lambda>_. Local_Pause), sbk_delete = (\<lambda>_. Local_Delete),
       sbk_sync_in = None, sbk_sync_out = None, sbk_metadata = None, sbk_endpoints = None,
       sbk_devcontainer = None, sbk_download = None\<rparr>)"

end
