(* ===== verification/Devcontainer_Backend.thy ===== *)
theory Devcontainer_Backend
  imports Cli_Session
begin

text \<open>
  \<open>internal/backend/devcontainer_backend.go\<close>: the backend over the devcontainer command line tool.
\<close>

section \<open>Reading the tool's output\<close>

text \<open>\<open>json.Unmarshal\<close> into a map; \<open>null\<close> is the empty map.\<close>

definition object_of :: "cli_world \<Rightarrow> string \<Rightarrow> (string \<times> json) list option" where
  "object_of w text = (case cw_json w text of Some (JObject m) \<Rightarrow> Some m | Some JNull \<Rightarrow> Some [] | _ \<Rightarrow> None)"

text \<open>The loop looks at the lines from the last one to the first.\<close>

fun last_object :: "cli_world \<Rightarrow> string list \<Rightarrow> (string \<times> json) list option" where
  "last_object w [] = None"
| "last_object w (l # ls) =
     (let line = trim_space l in
      if line = [] \<or> \<not> has_prefix line ''{'' then last_object w ls
      else (case object_of w line of Some m \<Rightarrow> Some m | None \<Rightarrow> last_object w ls))"

definition parseDevContainerCLIJSON :: "cli_world \<Rightarrow> string \<Rightarrow> (string \<times> json) list option" where
  "parseDevContainerCLIJSON w output =
     (let payload = trim_space output in
      if payload = [] then None
      else (case last_object w (rev (split_on newline payload)) of
          Some m \<Rightarrow> Some m
        | None \<Rightarrow> object_of w payload))"

text \<open>The nested objects are searched in the order in which the map is iterated.\<close>

function lookupValue :: "(string \<times> json) list \<Rightarrow> string \<Rightarrow> json option"
  and lookup_nested :: "(string \<times> json) list \<Rightarrow> string \<Rightarrow> json option" where
  "lookupValue root key =
     (case map_of root key of Some v \<Rightarrow> Some v | None \<Rightarrow> lookup_nested root key)"
| "lookup_nested [] key = None"
| "lookup_nested ((k, v) # rest) key =
     (case v of
        JObject nested \<Rightarrow> (case lookupValue nested key of
            Some found \<Rightarrow> Some found
          | None \<Rightarrow> lookup_nested rest key)
      | _ \<Rightarrow> lookup_nested rest key)"
  by pat_completeness auto
termination
  by (relation "inv_image (less_than <*lex*> less_than)
      (case_sum (\<lambda>(m, k). (size (JObject m), Suc 0)) (\<lambda>(m, k). (size (JObject m), 0)))") auto

declare lookupValue.simps [simp del]

definition hasMeaningfulValue :: "json \<Rightarrow> bool" where
  "hasMeaningfulValue v =
     (case v of JString s \<Rightarrow> trim_space s \<noteq> [] | JArray vs \<Rightarrow> vs \<noteq> [] | JObject m \<Rightarrow> m \<noteq> [] | JNull \<Rightarrow> False | _ \<Rightarrow> True)"

definition stringify :: "json \<Rightarrow> string" where
  "stringify v =
     (case v of JString s \<Rightarrow> s | JNumber text \<Rightarrow> text | JBool b \<Rightarrow> if b then ''true'' else ''false'' | _ \<Rightarrow> [])"

definition stringifyFeatures :: "json \<Rightarrow> string list" where
  "stringifyFeatures v =
     (case v of
        JObject m \<Rightarrow> sort (map fst m)
      | JArray vs \<Rightarrow> filter (\<lambda>t. t \<noteq> []) (map stringify vs)
      | _ \<Rightarrow> [])"

definition or_value :: "(json \<Rightarrow> 'a) \<Rightarrow> 'a \<Rightarrow> json option \<Rightarrow> 'a" where
  "or_value f zero v = (case v of Some x \<Rightarrow> f x | None \<Rightarrow> zero)"

definition summarizeDevContainerConfig :: "cli_world \<Rightarrow> string \<Rightarrow> run_config \<Rightarrow> string \<Rightarrow> devcontainer_artifact" where
  "summarizeDevContainerConfig w output cfg workspacePath =
     (let dc = cfg_devcontainer cfg;
          summary = \<lparr>da_cli_path = dc_cli_path dc, da_config_path = dc_config_path dc, da_container_id = [],
            da_workspace_folder = [], da_has_post_create = False, da_has_post_start = False, da_features = [],
            da_local_workspace_path = workspacePath\<rparr>
      in case parseDevContainerCLIJSON w output of
           None \<Rightarrow> summary
         | Some root \<Rightarrow>
             (let folder = or_value stringify [] (lookupValue root ''workspaceFolder'');
                  osroot = osb_workspace_root (cfg_opensandbox cfg)
              in summary\<lparr>da_workspace_folder :=
                     (if folder \<noteq> [] then folder else if osroot \<noteq> [] then osroot else ''/workspace''),
                   da_has_post_create := or_value hasMeaningfulValue False (lookupValue root ''postCreateCommand''),
                   da_has_post_start := or_value hasMeaningfulValue False (lookupValue root ''postStartCommand''),
                   da_features := or_value stringifyFeatures [] (lookupValue root ''features'')\<rparr>))"

definition mergeDevContainerUpSummary :: "cli_world \<Rightarrow> devcontainer_artifact \<Rightarrow> string \<Rightarrow> devcontainer_artifact" where
  "mergeDevContainerUpSummary w summary output =
     (case parseDevContainerCLIJSON w output of
        None \<Rightarrow> summary
      | Some root \<Rightarrow> (case lookupValue root ''containerId'' of
            Some v \<Rightarrow> summary\<lparr>da_container_id := stringify v\<rparr>
          | None \<Rightarrow> summary))"

section \<open>The backend\<close>

record dc_sandbox =
  dcs_info :: sandbox_info
  dcs_summary :: devcontainer_artifact

record dc_backend =
  dcb_cfg :: run_config
  dcb_cli_path :: string

type_synonym 'a dc = "(dc_sandbox, 'a) cli"

definition dc_error :: "error_code \<Rightarrow> string \<Rightarrow> go_error option \<Rightarrow> go_error" where
  "dc_error code msg cause = RunnerError code msg False [] BackendKindDevContainer [] cause"

definition dc_wrap :: "error_code \<Rightarrow> go_error \<Rightarrow> go_error" where
  "dc_wrap code e = dc_error code (error_string e) (Some e)"

definition NewDevContainerBackend :: "cli_world \<Rightarrow> run_config \<Rightarrow> go_error + dc_backend" where
  "NewDevContainerBackend w cfg =
     (let path = dc_cli_path (cfg_devcontainer cfg) in
      case cw_lookpath w path of
        Inl e \<Rightarrow> Inl (dc_error ErrorCodeDevContainerCLINotFound (''devcontainer CLI not found: '' @ path) (Some e))
      | Inr cli \<Rightarrow> Inr \<lparr>dcb_cfg = cfg, dcb_cli_path = cli\<rparr>)"

definition DevContainer_Capabilities :: backend_capabilities where
  "DevContainer_Capabilities = zero_caps\<lparr>caps_supports_stream_logs := True, caps_supports_devcontainer := True\<rparr>"

definition DevContainer_RuntimeInfo :: "cli_world \<Rightarrow> runtime_info" where
  "DevContainer_RuntimeInfo w =
     zero_runtime_info\<lparr>ri_provider_kind := BackendKindDevContainer, ri_runtime_profile := RuntimeProfileNative,
       ri_container_runtime := ''devcontainer'', ri_host_os := host_goos (cw_host w),
       ri_host_arch := host_goarch (cw_host w), ri_virtualization := ''none'', ri_available := True\<rparr>"

definition workspacePath :: "dc_backend \<Rightarrow> string" where
  "workspacePath b =
     (let folder = dc_workspace_folder (cfg_devcontainer (dcb_cfg b))
      in if folder \<noteq> [] then folder else rs_workspace_dir (cfg_run (dcb_cfg b)))"

definition DevContainer_runCLI :: "cli_world \<Rightarrow> dc_backend \<Rightarrow> string \<Rightarrow> string list \<Rightarrow> string dc" where
  "DevContainer_runCLI w b workspace args =
     cli_output w \<lparr>cc_binary = dcb_cli_path b, cc_dir = workspace, cc_args = args, cc_env = None\<rparr>"

definition commonArgs :: "dc_backend \<Rightarrow> string \<Rightarrow> string list" where
  "commonArgs b workspace =
     (let dc = cfg_devcontainer (dcb_cfg b) in
      [''--workspace-folder'', workspace]
      @ (if dc_config_path dc \<noteq> [] then [''--config'', dc_config_path dc] else [])
      @ (if dc_log_level dc \<noteq> [] then [''--log-level'', dc_log_level dc] else [])
      @ (if dc_mount_workspace_git_root dc then [''--mount-workspace-git-root''] else []))"

definition readConfigurationArgs :: "dc_backend \<Rightarrow> string \<Rightarrow> string list" where
  "readConfigurationArgs b workspace = ''read-configuration'' # commonArgs b workspace"

definition upArgs :: "dc_backend \<Rightarrow> string \<Rightarrow> string \<Rightarrow> string list" where
  "upArgs b workspace sandboxID =
     (let dc = cfg_devcontainer (dcb_cfg b) in
      ''up'' # commonArgs b workspace
      @ (if dc_remove_existing_container dc then [''--remove-existing-container''] else [])
      @ (if dc_skip_post_create dc then [''--skip-post-create''] else []))"

definition runUserCommandsArgs :: "dc_backend \<Rightarrow> string \<Rightarrow> string list" where
  "runUserCommandsArgs b workspace = ''run-user-commands'' # commonArgs b workspace"

definition downArgs :: "dc_backend \<Rightarrow> string \<Rightarrow> string list" where
  "downArgs b workspace = ''down'' # commonArgs b workspace"

definition idLabels :: "dc_backend \<Rightarrow> string \<Rightarrow> string list" where
  "idLabels b sandboxID =
     (let label = trim_space (dc_id_label_prefix (cfg_devcontainer (dcb_cfg b)));
          label = (if label = [] then ''ai-sandbox-runner'' else label)
      in [label @ ''.run_id='' @ rs_run_id (cfg_run (dcb_cfg b)), label @ ''.sandbox_id='' @ sandboxID])"

definition dc_sandbox_info :: "string \<Rightarrow> devcontainer_artifact \<Rightarrow> sandbox_info" where
  "dc_sandbox_info i summary =
     zero_sandbox_info\<lparr>si_id := i, si_status := ''running'', si_runtime_kind := ''devcontainer'',
       si_metadata := (if da_container_id summary \<noteq> [] then env_put ''container_id'' (da_container_id summary) else id)
         [(''workspace_folder'', da_workspace_folder summary), (''config_path'', da_config_path summary),
          (''runtime.profile'', RuntimeProfileNative)]\<rparr>"

definition DevContainer_Create :: "cli_world \<Rightarrow> dc_backend \<Rightarrow> create_sandbox_request \<Rightarrow> sandbox_info dc" where
  "DevContainer_Create w b req =
     (let dc = cfg_devcontainer (dcb_cfg b);
          workspace = (if workspacePath b = [] then csr_workspace_dir req else workspacePath b);
          sandboxID = ''sbx-devcontainer-'' @ csr_run_id req @ ''-'' @ itoa (csr_attempt req)
      in if workspace = [] then
           cfail (dc_error ErrorCodeDevContainerReadConfigFailed ''workspace path is required for devcontainer backend'' None)
         else
           cbind (cwrap (dc_wrap ErrorCodeDevContainerReadConfigFailed)
             (DevContainer_runCLI w b workspace (readConfigurationArgs b workspace))) (\<lambda>output.
           cbind (cwrap (dc_wrap ErrorCodeDevContainerUpFailed)
             (DevContainer_runCLI w b workspace (upArgs b workspace sandboxID))) (\<lambda>upOutput.
           cbind (if dc_run_user_commands dc \<and> \<not> dc_skip_post_create dc then
               cwrap (dc_wrap ErrorCodeDevContainerUpFailed)
                 (DevContainer_runCLI w b workspace (runUserCommandsArgs b workspace))
             else cret []) (\<lambda>_.
           let summary = mergeDevContainerUpSummary w (summarizeDevContainerConfig w output (dcb_cfg b) workspace) upOutput;
               info = dc_sandbox_info sandboxID summary
           in cbind (storeSandbox sandboxID \<lparr>dcs_info = info, dcs_summary = summary\<rparr>) (\<lambda>_. cret info)))))"

definition DevContainer_Stat :: "string \<Rightarrow> sandbox_status dc" where
  "DevContainer_Stat i = cbind (lookupSandbox i) (\<lambda>known.
     case known of
       Some box \<Rightarrow> cret \<lparr>sst_id = si_id (dcs_info box), sst_status = si_status (dcs_info box)\<rparr>
     | None \<Rightarrow> cret \<lparr>sst_id = i, sst_status = ''unknown''\<rparr>)"

definition known_sandbox :: "string \<Rightarrow> dc_sandbox dc" where
  "known_sandbox i = cbind (lookupSandbox i) (\<lambda>known.
     case known of
       Some box \<Rightarrow> cret box
     | None \<Rightarrow> cfail (dc_error ErrorCodeDevContainerExecFailed (''unknown devcontainer sandbox: '' @ i) None))"

definition DevContainer_SandboxMetadata :: "string \<Rightarrow> sandbox_info dc" where
  "DevContainer_SandboxMetadata i = cbind (known_sandbox i) (\<lambda>box. cret (dcs_info box))"

definition DevContainerMetadata :: "string \<Rightarrow> devcontainer_artifact dc" where
  "DevContainerMetadata i = cbind (known_sandbox i) (\<lambda>box. cret (dcs_summary box))"

section \<open>Running a command\<close>

definition devcontainerShellQuote :: "string \<Rightarrow> string" where
  "devcontainerShellQuote v =
     (if v = [] then [CHR 0x27, CHR 0x27]
      else [CHR 0x27] @ replace_char (CHR 0x27) quote_escape v @ [CHR 0x27])"

definition DevContainer_translateCwd :: "dc_backend \<Rightarrow> dc_sandbox \<Rightarrow> string \<Rightarrow> string" where
  "DevContainer_translateCwd b box cwd =
     (let configured = trim_space (osb_workspace_root (cfg_opensandbox (dcb_cfg b)));
          pseudoRoot = (if configured = [] then ''/workspace'' else configured);
          folder = da_workspace_folder (dcs_summary box);
          targetRoot = (if folder = [] then pseudoRoot else folder)
      in if cwd = [] then []
         else if cwd = pseudoRoot then targetRoot
         else if has_prefix cwd (pseudoRoot @ ''/'') then
           path_join [targetRoot, trim_prefix cwd (pseudoRoot @ ''/'')]
         else cwd)"

definition exec_script :: "dc_backend \<Rightarrow> dc_sandbox \<Rightarrow> exec_request \<Rightarrow> string" where
  "exec_script b box req =
     (let translated = DevContainer_translateCwd b box (xr_cwd req) in
      if translated \<noteq> [] then ''cd '' @ devcontainerShellQuote translated @ '' && '' @ xr_command req
      else xr_command req)"

definition execArgs :: "dc_backend \<Rightarrow> dc_sandbox \<Rightarrow> exec_request \<Rightarrow> string list" where
  "execArgs b box req =
     ''exec'' # commonArgs b (da_local_workspace_path (dcs_summary box)) @ [''--'', ''/usr/bin/env'']
     @ map (\<lambda>key. key @ ''='' @ env_get (xr_env req) key) (sorted_keys (xr_env req))
     @ [''/bin/sh'', ''-lc'', exec_script b box req]"

definition DevContainer_streamLogs :: "cli_process \<Rightarrow> string \<Rightarrow> log_chunk list" where
  "DevContainer_streamLogs p stream =
     (let ls = scan_lines session_buffer (if stream = ''stderr'' then cp_stderr p else cp_stdout p);
          read = (case cp_read p stream of None \<Rightarrow> ls | Some n \<Rightarrow> take n ls)
      in map (\<lambda>l. \<lparr>lc_stream = stream, lc_line = l\<rparr>) read)"

definition DevContainer_finish :: "exec_status \<Rightarrow> go_error option \<Rightarrow> exec_status" where
  "DevContainer_finish st err =
     (case err of
        None \<Rightarrow> st\<lparr>es_running := False, es_exit_code := Some 0\<rparr>
      | Some e \<Rightarrow> (case as_exit_error e of
            Some n \<Rightarrow> st\<lparr>es_running := False, es_exit_code := Some n\<rparr>
          | None \<Rightarrow>
              if is_deadline e then st\<lparr>es_running := False, es_exit_code := Some 124\<rparr>
              else st\<lparr>es_running := False, es_error := error_string e, es_exit_code := Some 1\<rparr>))"

definition DevContainer_start :: "cli_world \<Rightarrow> string \<Rightarrow> cli_call \<Rightarrow> cli_session dc" where
  "DevContainer_start w execID call = (\<lambda>s. let s' = s\<lparr>cs_calls := cs_calls s @ [call]\<rparr> in
     case cw_start w (cs_calls s) call of
       Inl e \<Rightarrow> (Inl e, s')
     | Inr p \<Rightarrow> (Inr
         \<lparr>cse_logs = interleave (cp_schedule p) (DevContainer_streamLogs p ''stdout'') (DevContainer_streamLogs p ''stderr''),
          cse_status = DevContainer_finish \<lparr>es_id = execID, es_running = True, es_exit_code = None, es_error = []\<rparr>
            (cp_wait p)\<rparr>, s'))"

definition DevContainer_Exec :: "cli_world \<Rightarrow> dc_backend \<Rightarrow> string \<Rightarrow> exec_request \<Rightarrow> exec_handle dc" where
  "DevContainer_Exec w b i req =
     cbind (known_sandbox i) (\<lambda>box.
     cbind (exec_id w i) (\<lambda>execID.
     cbind (cwrap (dc_wrap ErrorCodeDevContainerExecFailed) (DevContainer_start w execID
       \<lparr>cc_binary = dcb_cli_path b, cc_dir = [], cc_args = execArgs b box req, cc_env = None\<rparr>)) (\<lambda>session.
     storeExec ''devcontainer'' execID session)))"

definition DevContainer_StreamLogs :: "string \<Rightarrow> string \<Rightarrow> log_chunk list dc" where
  "DevContainer_StreamLogs i execID =
     session_stream (dc_error ErrorCodeDevContainerExecFailed (''unknown devcontainer exec session: '' @ execID) None) execID"

definition DevContainer_ExecStatus :: "string \<Rightarrow> string \<Rightarrow> exec_status dc" where
  "DevContainer_ExecStatus i execID = session_status execID"

definition DevContainer_CancelExec :: "cli_world \<Rightarrow> string \<Rightarrow> string \<Rightarrow> unit dc" where
  "DevContainer_CancelExec w i execID = session_cancel w execID"

section \<open>Removing the container\<close>

definition isUnsupportedDevContainerDown :: "go_error \<Rightarrow> bool" where
  "isUnsupportedDevContainerDown e =
     (contains_sub (error_string e) ''Unknown arguments:'' \<or> contains_sub (error_string e) ''Unknown command'')"

definition removeContainer :: "cli_world \<Rightarrow> dc_backend \<Rightarrow> string \<Rightarrow> unit dc" where
  "removeContainer w b containerID =
     (let dk = cfg_docker (dcb_cfg b); bin = (if dk_binary dk = [] then ''docker'' else dk_binary dk);
          contextName = trim_space (dk_context dk)
      in case cw_lookpath w bin of
           Inl e \<Rightarrow> cfail (WrapError ''docker CLI not found for devcontainer cleanup: '' e)
         | Inr binary \<Rightarrow>
             cbind (cli_output w \<lparr>cc_binary = binary, cc_dir = [],
               cc_args = (if contextName \<noteq> [] \<and> contextName \<noteq> ''default'' then [''--context'', contextName] else [])
                 @ [''rm'', ''-f'', containerID], cc_env = None\<rparr>) (\<lambda>_. cret ()))"

definition DevContainer_Delete :: "cli_world \<Rightarrow> dc_backend \<Rightarrow> string \<Rightarrow> unit dc" where
  "DevContainer_Delete w b i =
     cbind (lookupSandbox i) (\<lambda>known.
     case known of
       None \<Rightarrow> cret ()
     | Some box \<Rightarrow>
         if equal_fold (dc_cleanup_mode (cfg_devcontainer (dcb_cfg b))) ''keep'' then cret ()
         else (let workspace = da_local_workspace_path (dcs_summary box); containerID = da_container_id (dcs_summary box) in
           cbind (ctry (DevContainer_runCLI w b workspace (downArgs b workspace))) (\<lambda>r.
           case r of
             Inr output \<Rightarrow> cret ()
           | Inl e \<Rightarrow>
               if containerID \<noteq> [] \<and> isUnsupportedDevContainerDown e
               then cwrap (dc_wrap ErrorCodeDevContainerDownFailed) (removeContainer w b containerID)
               else cfail (dc_wrap ErrorCodeDevContainerDownFailed e))))"

definition DevContainer_Start :: "string \<Rightarrow> go_error option" where
  "DevContainer_Start i = None"

definition DevContainer_Upload :: "string \<Rightarrow> string \<Rightarrow> string \<Rightarrow> go_error option" where
  "DevContainer_Upload i localPath remotePath = None"

definition DevContainer_Download :: "string \<Rightarrow> string \<Rightarrow> string \<Rightarrow> go_error option" where
  "DevContainer_Download i remotePath localPath = None"

definition DevContainer_Renew :: "string \<Rightarrow> int \<Rightarrow> go_error option" where
  "DevContainer_Renew i ttl = Some errUnsupported"

definition DevContainer_Pause :: "string \<Rightarrow> go_error option" where
  "DevContainer_Pause i = Some errUnsupported"

definition DevContainer_Resume :: "string \<Rightarrow> go_error option" where
  "DevContainer_Resume i = Some errUnsupported"

definition DevContainer_SyncWorkspaceIn :: "string \<Rightarrow> string \<Rightarrow> go_error option" where
  "DevContainer_SyncWorkspaceIn i localDir = None"

definition DevContainer_SyncWorkspaceOut :: "string \<Rightarrow> string \<Rightarrow> string \<Rightarrow> go_error option" where
  "DevContainer_SyncWorkspaceOut i remoteDir localDir = None"

definition DevContainer_Endpoints :: "string \<Rightarrow> int list \<Rightarrow> go_error + endpoint list" where
  "DevContainer_Endpoints i ports = Inr []"

definition dc_sandbox_backend ::
  "cli_world \<Rightarrow> dc_backend \<Rightarrow> ('t \<Rightarrow> dc_sandbox cli_state) \<Rightarrow> 't sandbox_backend" where
  "dc_sandbox_backend w b st =
     \<lparr>sbk_kind = BackendKindDevContainer, sbk_capabilities = (\<lambda>_. Inr DevContainer_Capabilities),
      sbk_runtime_info = (\<lambda>_. Inr (DevContainer_RuntimeInfo w)),
      sbk_create = (\<lambda>tr req. fst (DevContainer_Create w b req (st tr))), sbk_start = (\<lambda>_. DevContainer_Start),
      sbk_pause = (\<lambda>_. DevContainer_Pause),
      sbk_delete = (\<lambda>tr i. case fst (DevContainer_Delete w b i (st tr)) of Inl e \<Rightarrow> Some e | Inr _ \<Rightarrow> None),
      sbk_sync_in = Some (\<lambda>_. DevContainer_SyncWorkspaceIn), sbk_sync_out = Some (\<lambda>_. DevContainer_SyncWorkspaceOut),
      sbk_metadata = Some (\<lambda>tr i. fst (DevContainer_SandboxMetadata i (st tr))),
      sbk_endpoints = Some (\<lambda>_. DevContainer_Endpoints),
      sbk_devcontainer = Some (\<lambda>tr i. fst (DevContainerMetadata i (st tr))), sbk_download = None\<rparr>"

end
