(* ===== verification/Apple_Backend.thy ===== *)
theory Apple_Backend
  imports Cli_Session
begin

text \<open>
  \<open>internal/backend/applecontainer_backend.go\<close>: the backend over the \<open>container\<close> tool of macOS. What the tool
  prints is a parameter of the world; which of its output the backend understands is translated.
\<close>

section \<open>Reading the tool's output\<close>

definition member :: "(string \<times> json) list \<Rightarrow> string \<Rightarrow> json option" where
  "member item key = map_of item key"

fun firstString :: "(string \<times> json) list \<Rightarrow> string list \<Rightarrow> string" where
  "firstString item [] = []"
| "firstString item (key # keys) =
     (case member item key of Some (JString s) \<Rightarrow> s | _ \<Rightarrow> firstString item keys)"

definition appleSandboxInfoFromMap :: "(string \<times> json) list \<Rightarrow> sandbox_info" where
  "appleSandboxInfoFromMap item =
     (let status = firstString item [''status'', ''Status'', ''state'', ''State''];
          img = firstString item [''image'', ''Image'']
      in zero_sandbox_info\<lparr>si_id := firstString item [''id'', ''ID'', ''name'', ''Name''],
           si_status := (if status = [] then
               (case member item ''state'' of Some (JObject nested) \<Rightarrow> firstString nested [''status'', ''Status'']
                | _ \<Rightarrow> [])
             else status),
           si_metadata := (if img \<noteq> [] then [(''image'', img)] else [])\<rparr>)"

text \<open>\<open>strings.SplitN(text, "=", 2)\<close> with two parts.\<close>

definition split_assignment :: "string \<Rightarrow> (string \<times> string) option" where
  "split_assignment text = (if CHR ''='' \<in> set text then Some (splitEnv text) else None)"

definition add_entry :: "json \<Rightarrow> env \<Rightarrow> env" where
  "add_entry v e =
     (case v of
        JString text \<Rightarrow> (case split_assignment text of Some (k, x) \<Rightarrow> env_put k x e | None \<Rightarrow> e)
      | _ \<Rightarrow> e)"

definition appleSandboxEnvFromMap :: "(string \<times> json) list \<Rightarrow> env" where
  "appleSandboxEnvFromMap item =
     (case member item ''configuration'' of
        Some (JObject configuration) \<Rightarrow> (case member configuration ''initProcess'' of
            Some (JObject initProcess) \<Rightarrow> (case member initProcess ''environment'' of
                Some (JArray vs) \<Rightarrow> fold add_entry vs []
              | _ \<Rightarrow> [])
          | _ \<Rightarrow> [])
      | _ \<Rightarrow> [])"

text \<open>The object that the output describes: itself, or the first of an array.\<close>

definition described :: "cli_world \<Rightarrow> string \<Rightarrow> (string \<times> json) list option" where
  "described w output =
     (case cw_json w output of
        Some (JArray (JObject item # _)) \<Rightarrow> Some item
      | Some (JObject item) \<Rightarrow> Some item
      | _ \<Rightarrow> None)"

definition parseAppleContainerInspect :: "cli_world \<Rightarrow> string \<Rightarrow> sandbox_info option" where
  "parseAppleContainerInspect w output = map_option appleSandboxInfoFromMap (described w output)"

definition parseAppleContainerInspectEnv :: "cli_world \<Rightarrow> string \<Rightarrow> env" where
  "parseAppleContainerInspectEnv w output =
     (case described w output of Some item \<Rightarrow> appleSandboxEnvFromMap item | None \<Rightarrow> [])"

section \<open>The backend\<close>

record apple_record =
  acr_info :: sandbox_info
  acr_image :: string

record apple_backend =
  acb_cfg :: run_config
  acb_binary :: string

type_synonym 'a apple = "(apple_record, 'a) cli"

definition NewAppleContainerBackend :: "cli_world \<Rightarrow> run_config \<Rightarrow> go_error + apple_backend" where
  "NewAppleContainerBackend w cfg =
     (if host_goos (cw_host w) \<noteq> ''darwin'' \<or> host_goarch (cw_host w) \<noteq> ''arm64'' then
        Inl (RunnerError ErrorCodeAppleContainerUnsupported
          ''apple-container backend is supported only on darwin/arm64'' False [] BackendKindAppleContainer [] None)
      else (case cw_lookpath w (apc_binary (cfg_apple_container cfg)) of
          Inl e \<Rightarrow> Inl (RunnerError ErrorCodeAppleContainerBinaryNotFound
            (''apple container CLI not found: '' @ apc_binary (cfg_apple_container cfg)) False []
            BackendKindAppleContainer [] (Some e))
        | Inr binary \<Rightarrow> Inr \<lparr>acb_cfg = cfg, acb_binary = binary\<rparr>))"

definition Apple_Capabilities :: backend_capabilities where
  "Apple_Capabilities =
     zero_caps\<lparr>caps_supports_file_upload := True, caps_supports_file_download := True,
       caps_supports_stream_logs := True, caps_supports_runtime_profile := True, caps_supports_oci_image := True,
       caps_supports_vm_isolation := True\<rparr>"

definition Apple_RuntimeInfo :: "cli_world \<Rightarrow> runtime_info" where
  "Apple_RuntimeInfo w =
     zero_runtime_info\<lparr>ri_provider_kind := BackendKindAppleContainer, ri_backend_provider := ''apple-container'',
       ri_runtime_profile := RuntimeProfileAppleContainer, ri_container_runtime := ''apple-container'',
       ri_host_os := host_goos (cw_host w), ri_host_arch := host_goarch (cw_host w),
       ri_virtualization := ''apple-container'', ri_local_platform := ''macos'', ri_available := True\<rparr>"

definition wrapAppleContainerErr :: "error_code \<Rightarrow> go_error \<Rightarrow> go_error" where
  "wrapAppleContainerErr code e = RunnerError code (error_string e) False [] BackendKindAppleContainer [] (Some e)"

definition Apple_runCLI :: "cli_world \<Rightarrow> apple_backend \<Rightarrow> string list \<Rightarrow> string apple" where
  "Apple_runCLI w b args = cli_output w \<lparr>cc_binary = acb_binary b, cc_dir = [], cc_args = args, cc_env = None\<rparr>"

definition Apple_workspaceRoot :: "apple_backend \<Rightarrow> string" where
  "Apple_workspaceRoot b =
     (let root = apc_workspace_root (cfg_apple_container (acb_cfg b)) in if root \<noteq> [] then root else ''/workspace'')"

definition Apple_labels :: "create_sandbox_request \<Rightarrow> string list" where
  "Apple_labels req =
     sort [''run_id='' @ csr_run_id req, ''attempt='' @ itoa (csr_attempt req), ''backend.provider=apple-container'']"

definition appleContainerKeepAliveCommand :: string where
  "appleContainerKeepAliveCommand =
     ''if [ -x /usr/local/go/bin/go ] && [ ! -x /usr/bin/go ]; then mkdir -p /usr/bin && ln -sf /usr/local/go/bin/go /usr/bin/go; fi; trap ''
     @ [CHR 0x27] @ ''exit 0'' @ [CHR 0x27] @ '' TERM INT; while true; do sleep 3600; done''"

text \<open>Each element after its flag.\<close>

definition flagged :: "string \<Rightarrow> string list \<Rightarrow> string list" where
  "flagged flag xs = concat (map (\<lambda>x. [flag, x]) xs)"

definition flag_if :: "string \<Rightarrow> string \<Rightarrow> string list" where
  "flag_if flag v = (if v \<noteq> [] then [flag, v] else [])"

definition Apple_create_args :: "apple_backend \<Rightarrow> string \<Rightarrow> string \<Rightarrow> string \<Rightarrow> create_sandbox_request \<Rightarrow> string list" where
  "Apple_create_args b workspace sandboxID img req =
     [''create'', ''--name'', sandboxID, ''--workdir'', Apple_workspaceRoot b, ''--volume'',
      workspace @ '':'' @ Apple_workspaceRoot b]
     @ flagged ''-e'' (envList (csr_env req)) @ flag_if ''--cpus'' (csr_cpu req) @ flag_if ''--memory'' (csr_memory req)
     @ flagged ''--label'' (Apple_labels req) @ [img, ''/bin/sh'', ''-lc'', appleContainerKeepAliveCommand]"

definition getwd_error :: go_error where "getwd_error = ErrorText ''getwd failed''"

definition Apple_Create :: "cli_world \<Rightarrow> apple_backend \<Rightarrow> create_sandbox_request \<Rightarrow> sandbox_info apple" where
  "Apple_Create w b req =
     (case path_abs (cw_host w) (csr_workspace_dir req) of
        None \<Rightarrow> cfail (wrapAppleContainerErr ErrorCodeAppleContainerCreateFailed getwd_error)
      | Some workspace \<Rightarrow>
          (let img = (if csr_image req = [] then apc_image (cfg_apple_container (acb_cfg b)) else csr_image req);
               sandboxID = ''ac-'' @ csr_run_id req @ ''-'' @ itoa (csr_attempt req);
               info = zero_sandbox_info\<lparr>si_id := sandboxID, si_status := ''created'', si_runtime_kind := ''apple-container'',
                 si_metadata := [(''image'', img), (''workspace_root'', Apple_workspaceRoot b),
                   (''runtime.profile'', RuntimeProfileAppleContainer), (''backend.provider'', ''apple-container''),
                   (''local.platform'', ''macos''), (''container_runtime'', ''apple-container'')]\<rparr>
           in if img = [] then
                cfail (RunnerError ErrorCodeAppleContainerCreateFailed ''apple-container image is required'' False []
                  BackendKindAppleContainer [] None)
              else cbind (cwrap (wrapAppleContainerErr ErrorCodeAppleContainerCreateFailed)
                  (Apple_runCLI w b (Apple_create_args b workspace sandboxID img req))) (\<lambda>_.
                cbind (storeSandbox sandboxID \<lparr>acr_info = info, acr_image = img\<rparr>) (\<lambda>_. cret info))))"

definition Apple_Start :: "cli_world \<Rightarrow> apple_backend \<Rightarrow> string \<Rightarrow> unit apple" where
  "Apple_Start w b i =
     cwrap (wrapAppleContainerErr ErrorCodeSandboxStartFailed)
       (cbind (Apple_runCLI w b [''start'', i]) (\<lambda>_. cret ()))"

definition Apple_Delete :: "cli_world \<Rightarrow> apple_backend \<Rightarrow> string \<Rightarrow> unit apple" where
  "Apple_Delete w b i =
     cwrap (wrapAppleContainerErr ErrorCodeAppleContainerDeleteFailed)
       (cbind (Apple_runCLI w b [''delete'', ''--force'', i]) (\<lambda>_. cret ()))"

definition named_image :: "apple_record \<Rightarrow> sandbox_info \<Rightarrow> sandbox_info" where
  "named_image r info =
     (if env_get (si_metadata info) ''image'' = []
      then info\<lparr>si_metadata := env_put ''image'' (acr_image r) (si_metadata info)\<rparr> else info)"

definition Apple_inspect :: "cli_world \<Rightarrow> apple_backend \<Rightarrow> string \<Rightarrow> sandbox_info apple" where
  "Apple_inspect w b i =
     cbind (ctry (Apple_runCLI w b [''inspect'', i])) (\<lambda>r.
     cbind (lookupSandbox i) (\<lambda>known.
     case r of
       Inl e \<Rightarrow> (case known of
           Some rec \<Rightarrow> cret (acr_info rec)
         | None \<Rightarrow> cfail (wrapAppleContainerErr ErrorCodeAppleContainerExecFailed e))
     | Inr output \<Rightarrow> (case parseAppleContainerInspect w output of
           Some info \<Rightarrow>
             (let info = (if si_id info = [] then info\<lparr>si_id := i\<rparr> else info)
              in cret (case known of Some rec \<Rightarrow> named_image rec info | None \<Rightarrow> info))
         | None \<Rightarrow> cret (case known of
               Some rec \<Rightarrow> acr_info rec
             | None \<Rightarrow> zero_sandbox_info\<lparr>si_id := i, si_status := ''unknown''\<rparr>))))"

definition Apple_Stat :: "cli_world \<Rightarrow> apple_backend \<Rightarrow> string \<Rightarrow> sandbox_status apple" where
  "Apple_Stat w b i =
     cbind (Apple_inspect w b i) (\<lambda>info. cret \<lparr>sst_id = si_id info, sst_status = si_status info\<rparr>)"

definition Apple_SandboxMetadata :: "cli_world \<Rightarrow> apple_backend \<Rightarrow> string \<Rightarrow> sandbox_info apple" where
  "Apple_SandboxMetadata w b i = Apple_inspect w b i"

section \<open>Running a command\<close>

definition expandExecEnvValue :: "string \<Rightarrow> env \<Rightarrow> env \<Rightarrow> string" where
  "expandExecEnvValue value overrides base =
     os_expand (\<lambda>key. case map_of overrides key of Some v \<Rightarrow> v
        | None \<Rightarrow> (case map_of base key of Some v \<Rightarrow> v | None \<Rightarrow> [])) value"

text \<open>The merging in \<open>execEnv\<close>, and the function.\<close>

definition merged_exec_env :: "env \<Rightarrow> env \<Rightarrow> env" where
  "merged_exec_env baseEnv overrides =
     fold (\<lambda>key merged. env_put key (expandExecEnvValue (env_get overrides key) merged baseEnv) merged)
       (sorted_keys overrides) baseEnv"

definition inspectEnv :: "cli_world \<Rightarrow> apple_backend \<Rightarrow> string \<Rightarrow> env apple" where
  "inspectEnv w b i =
     cbind (ctry (Apple_runCLI w b [''inspect'', i])) (\<lambda>r.
     case r of
       Inl e \<Rightarrow> cbind (lookupSandbox i) (\<lambda>known. case known of
           Some rec \<Rightarrow> cret []
         | None \<Rightarrow> cfail (wrapAppleContainerErr ErrorCodeAppleContainerExecFailed e))
     | Inr output \<Rightarrow> cret (parseAppleContainerInspectEnv w output))"

definition execEnv :: "cli_world \<Rightarrow> apple_backend \<Rightarrow> string \<Rightarrow> env \<Rightarrow> env apple" where
  "execEnv w b i overrides = cbind (inspectEnv w b i) (\<lambda>baseEnv. cret (merged_exec_env baseEnv overrides))"

definition Apple_translateCwd :: "cli_world \<Rightarrow> apple_backend \<Rightarrow> string \<Rightarrow> string" where
  "Apple_translateCwd w b cwd =
     (let root = Apple_workspaceRoot b in
      if cwd = [] then []
      else if cwd = root then cwd
      else (case path_abs (cw_host w) (rs_workspace_dir (cfg_run (acb_cfg b))) of
          None \<Rightarrow> cwd
        | Some localRoot \<Rightarrow> (case path_abs (cw_host w) cwd of
              None \<Rightarrow> cwd
            | Some absCwd \<Rightarrow> (case path_rel localRoot absCwd of
                  None \<Rightarrow> root
                | Some rel \<Rightarrow> if rel = dot then root else path_join [root, rel]))))"

definition Apple_exec_args :: "cli_world \<Rightarrow> apple_backend \<Rightarrow> string \<Rightarrow> env \<Rightarrow> exec_request \<Rightarrow> string list" where
  "Apple_exec_args w b i e req =
     [''exec''] @ flagged ''-e'' (envList e) @ flag_if ''--workdir'' (Apple_translateCwd w b (xr_cwd req))
     @ [i, ''/bin/sh'', ''-lc'', xr_command req]"

definition Apple_Exec :: "cli_world \<Rightarrow> apple_backend \<Rightarrow> string \<Rightarrow> exec_request \<Rightarrow> exec_handle apple" where
  "Apple_Exec w b i req =
     cbind (exec_id w i) (\<lambda>execID.
     cbind (cwrap (wrapAppleContainerErr ErrorCodeAppleContainerExecFailed) (execEnv w b i (xr_env req))) (\<lambda>e.
     cbind (cwrap (wrapAppleContainerErr ErrorCodeAppleContainerExecFailed) (start_session w execID
       \<lparr>cc_binary = acb_binary b, cc_dir = [], cc_args = Apple_exec_args w b i e req, cc_env = None\<rparr>)) (\<lambda>session.
     storeExec ''apple-container'' execID session)))"

definition Apple_StreamLogs :: "string \<Rightarrow> string \<Rightarrow> log_chunk list apple" where
  "Apple_StreamLogs i execID =
     session_stream (RunnerError ErrorCodeAppleContainerExecFailed
       (''unknown apple-container exec session: '' @ execID) False [] BackendKindAppleContainer [] None) execID"

definition Apple_ExecStatus :: "string \<Rightarrow> string \<Rightarrow> exec_status apple" where
  "Apple_ExecStatus i execID = session_status execID"

definition Apple_CancelExec :: "cli_world \<Rightarrow> string \<Rightarrow> string \<Rightarrow> unit apple" where
  "Apple_CancelExec w i execID = session_cancel w execID"

text \<open>
  The operations that do nothing, because the workspace is mounted, and those that are not supported.
\<close>

definition Apple_Upload :: "string \<Rightarrow> string \<Rightarrow> string \<Rightarrow> go_error option" where
  "Apple_Upload i localPath remotePath = None"

definition Apple_Download :: "string \<Rightarrow> string \<Rightarrow> string \<Rightarrow> go_error option" where
  "Apple_Download i remotePath localPath = None"

definition Apple_Renew :: "string \<Rightarrow> int \<Rightarrow> go_error option" where
  "Apple_Renew i ttl = Some errUnsupported"

definition Apple_Pause :: "string \<Rightarrow> go_error option" where
  "Apple_Pause i = Some errUnsupported"

definition Apple_Resume :: "string \<Rightarrow> go_error option" where
  "Apple_Resume i = Some errUnsupported"

definition Apple_SyncWorkspaceIn :: "string \<Rightarrow> string \<Rightarrow> go_error option" where
  "Apple_SyncWorkspaceIn i localDir = None"

definition Apple_SyncWorkspaceOut :: "string \<Rightarrow> string \<Rightarrow> string \<Rightarrow> go_error option" where
  "Apple_SyncWorkspaceOut i remoteDir localDir = None"

definition Apple_Endpoints :: "string \<Rightarrow> int list \<Rightarrow> go_error + endpoint list" where
  "Apple_Endpoints i ports = Inr []"

text \<open>The backend as the engine drives it: the state of the backend is a function of what happened before.\<close>

definition outcome_of :: "('r, unit) cli \<Rightarrow> 'r cli_state \<Rightarrow> go_error option" where
  "outcome_of m s = (case fst (m s) of Inl e \<Rightarrow> Some e | Inr _ \<Rightarrow> None)"

definition apple_sandbox_backend ::
  "cli_world \<Rightarrow> apple_backend \<Rightarrow> ('t \<Rightarrow> apple_record cli_state) \<Rightarrow> 't sandbox_backend" where
  "apple_sandbox_backend w b st =
     \<lparr>sbk_kind = BackendKindAppleContainer, sbk_capabilities = (\<lambda>_. Inr Apple_Capabilities),
      sbk_runtime_info = (\<lambda>_. Inr (Apple_RuntimeInfo w)), sbk_create = (\<lambda>tr req. fst (Apple_Create w b req (st tr))),
      sbk_start = (\<lambda>tr i. outcome_of (Apple_Start w b i) (st tr)), sbk_pause = (\<lambda>_. Apple_Pause),
      sbk_delete = (\<lambda>tr i. outcome_of (Apple_Delete w b i) (st tr)),
      sbk_sync_in = Some (\<lambda>_. Apple_SyncWorkspaceIn), sbk_sync_out = Some (\<lambda>_. Apple_SyncWorkspaceOut),
      sbk_metadata = Some (\<lambda>tr i. fst (Apple_SandboxMetadata w b i (st tr))),
      sbk_endpoints = Some (\<lambda>_. Apple_Endpoints), sbk_devcontainer = None, sbk_download = None\<rparr>"

end
