(* ===== verification/Orbstack_Backend.thy ===== *)
theory Orbstack_Backend
  imports Apple_Backend
begin

text \<open>
  \<open>internal/backend/orbstack_machine_backend.go\<close>: the backend that runs commands in a virtual machine of
  OrbStack through its command line tool.
\<close>

section \<open>Reading the tool's output\<close>

definition orbStackSandboxInfoFromMap :: "(string \<times> json) list \<Rightarrow> sandbox_info" where
  "orbStackSandboxInfoFromMap item =
     zero_sandbox_info\<lparr>si_id := firstString item [''name'', ''Name'', ''id'', ''ID''],
       si_status := firstString item [''status'', ''Status'', ''state'', ''State''],
       si_runtime_kind := ''orbstack-machine'',
       si_metadata := [(''machine_name'', firstString item [''name'', ''Name'']),
         (''distro'', firstString item [''distro'', ''Distro'', ''distribution'', ''Distribution'']),
         (''backend.provider'', ''orbstack''), (''local.platform'', ''orbstack''),
         (''runtime.profile'', RuntimeProfileOrbStackMachine), (''container_runtime'', ''orbstack-machine'')]\<rparr>"

text \<open>\<open>json.Unmarshal\<close> into a map; \<open>null\<close> is the empty map.\<close>

definition parseOrbStackMachineInfo :: "cli_world \<Rightarrow> string \<Rightarrow> sandbox_info option" where
  "parseOrbStackMachineInfo w output =
     (case cw_json w output of
        Some (JObject item) \<Rightarrow> Some (orbStackSandboxInfoFromMap item)
      | Some JNull \<Rightarrow> Some (orbStackSandboxInfoFromMap [])
      | _ \<Rightarrow> None)"

fun as_objects :: "json list \<Rightarrow> (string \<times> json) list list option" where
  "as_objects [] = Some []"
| "as_objects (JObject item # vs) = map_option ((#) item) (as_objects vs)"
| "as_objects (JNull # vs) = map_option ((#) []) (as_objects vs)"
| "as_objects (v # vs) = None"

definition parseOrbStackMachineList :: "cli_world \<Rightarrow> string \<Rightarrow> string \<Rightarrow> sandbox_info option" where
  "parseOrbStackMachineList w output machineName =
     (case cw_json w output of
        Some (JArray vs) \<Rightarrow> (case as_objects vs of
            None \<Rightarrow> None
          | Some items \<Rightarrow> map_option orbStackSandboxInfoFromMap
              (find (\<lambda>item. firstString item [''name'', ''Name'', ''id'', ''ID''] = machineName) items))
      | _ \<Rightarrow> None)"

section \<open>The backend\<close>

record orb_backend =
  orbb_cfg :: run_config
  orbb_orb_binary :: string
  orbb_ctl_binary :: string

text \<open>A sandbox is known by what the tool has said of its machine.\<close>

type_synonym 'a orb = "(sandbox_info, 'a) cli"

definition orb_error :: "error_code \<Rightarrow> string \<Rightarrow> go_error" where
  "orb_error code msg = RunnerError code msg False [] BackendKindOrbStackMachine [] None"

definition NewOrbStackMachineBackend :: "cli_world \<Rightarrow> run_config \<Rightarrow> go_error + orb_backend" where
  "NewOrbStackMachineBackend w cfg =
     (if host_goos (cw_host w) \<noteq> ''darwin'' then
        Inl (orb_error ErrorCodeRuntimeProfileUnsupported ''orbstack-machine backend is supported only on macOS'')
      else (let ocfg = cfg_orbstack cfg in
        case (cw_lookpath w (orb_orbctl_binary ocfg), cw_lookpath w (orb_orb_binary ocfg)) of
          (Inl e, Inl e') \<Rightarrow> Inl (orb_error ErrorCodeOrbStackBinaryNotFound
            (''orbstack CLI not found: '' @ orb_orbctl_binary ocfg @ '' / '' @ orb_orb_binary ocfg))
        | (ctl, orb) \<Rightarrow>
            (let c = (case ctl of Inl e \<Rightarrow> [] | Inr p \<Rightarrow> p); p = (case orb of Inl e \<Rightarrow> [] | Inr p \<Rightarrow> p);
                 c = (if c = [] then p else c); p = (if p = [] then c else p)
             in Inr \<lparr>orbb_cfg = cfg, orbb_orb_binary = p, orbb_ctl_binary = c\<rparr>)))"

definition Orb_Capabilities :: backend_capabilities where
  "Orb_Capabilities =
     zero_caps\<lparr>caps_supports_file_upload := True, caps_supports_file_download := True,
       caps_supports_stream_logs := True, caps_supports_runtime_profile := True, caps_supports_machine_exec := True,
       caps_supports_vm_isolation := True\<rparr>"

definition Orb_RuntimeInfo :: "cli_world \<Rightarrow> orb_backend \<Rightarrow> runtime_info" where
  "Orb_RuntimeInfo w b =
     zero_runtime_info\<lparr>ri_provider_kind := BackendKindOrbStackMachine, ri_backend_provider := ''orbstack'',
       ri_runtime_profile := RuntimeProfileOrbStackMachine, ri_container_runtime := ''orbstack-machine'',
       ri_host_os := host_goos (cw_host w), ri_host_arch := host_goarch (cw_host w), ri_virtualization := ''vm'',
       ri_local_platform := ''orbstack'', ri_machine_name := orb_machine_name (cfg_orbstack (orbb_cfg b)),
       ri_available := True\<rparr>"

definition wrapOrbStackErr :: "error_code \<Rightarrow> go_error \<Rightarrow> go_error" where
  "wrapOrbStackErr code e = RunnerError code (error_string e) False [] BackendKindOrbStackMachine [] (Some e)"

definition runCtl :: "cli_world \<Rightarrow> orb_backend \<Rightarrow> string list \<Rightarrow> string orb" where
  "runCtl w b args = cli_output w \<lparr>cc_binary = orbb_ctl_binary b, cc_dir = [], cc_args = args, cc_env = None\<rparr>"

definition machineWorkspaceRoot :: "orb_backend \<Rightarrow> string" where
  "machineWorkspaceRoot b =
     (let root = orb_machine_workspace_root (cfg_orbstack (orbb_cfg b))
      in if root \<noteq> [] then root else rs_workspace_dir (cfg_run (orbb_cfg b)))"

text \<open>What \<open>machineInfo\<close> does when \<open>info\<close> has given nothing; \<open>err\<close> is the error of that call.\<close>

definition machine_from_list :: "cli_world \<Rightarrow> orb_backend \<Rightarrow> string \<Rightarrow> go_error option \<Rightarrow> sandbox_info orb" where
  "machine_from_list w b machineName err =
     cbind (ctry (runCtl w b [''list'', ''-f'', ''json''])) (\<lambda>listed.
     case listed of
       Inl list_err \<Rightarrow> cfail (wrapOrbStackErr ErrorCodeOrbStackMachineNotFound (case err of Some e \<Rightarrow> e | None \<Rightarrow> list_err))
     | Inr output \<Rightarrow> (case parseOrbStackMachineList w output machineName of
           Some info \<Rightarrow> cret info
         | None \<Rightarrow> cbind (lookupSandbox machineName) (\<lambda>known. case known of
               Some info \<Rightarrow> cret info
             | None \<Rightarrow> cfail (orb_error ErrorCodeOrbStackMachineNotFound
                 (''orbstack machine not found: '' @ machineName)))))"

definition machineInfo :: "cli_world \<Rightarrow> orb_backend \<Rightarrow> string \<Rightarrow> sandbox_info orb" where
  "machineInfo w b machineName =
     cbind (ctry (runCtl w b [''info'', ''-f'', ''json'', machineName])) (\<lambda>r.
     case r of
       Inl e \<Rightarrow> machine_from_list w b machineName (Some e)
     | Inr output \<Rightarrow> (case parseOrbStackMachineInfo w output of
           Some info \<Rightarrow> cret (if si_id info = [] then info\<lparr>si_id := machineName\<rparr> else info)
         | None \<Rightarrow> machine_from_list w b machineName None))"

definition Orb_Start :: "cli_world \<Rightarrow> orb_backend \<Rightarrow> string \<Rightarrow> unit orb" where
  "Orb_Start w b i =
     cbind (ctry (runCtl w b [''start'', i])) (\<lambda>r.
     case r of
       Inr output \<Rightarrow> cret ()
     | Inl e \<Rightarrow>
         (let text = to_lower (error_string e) in
          if contains_sub text ''already running'' \<or> contains_sub text ''running'' then cret ()
          else cfail (wrapOrbStackErr ErrorCodeSandboxStartFailed e)))"

text \<open>The machine of \<open>Create\<close>: the one there is, or a new one.\<close>

definition found_or_created :: "cli_world \<Rightarrow> orb_backend \<Rightarrow> string \<Rightarrow> sandbox_info orb" where
  "found_or_created w b machineName =
     cbind (ctry (machineInfo w b machineName)) (\<lambda>r.
     case r of
       Inr info \<Rightarrow> cret info
     | Inl e \<Rightarrow>
         (let ocfg = cfg_orbstack (orbb_cfg b) in
          if \<not> orb_machine_auto_create ocfg then cfail (wrapOrbStackErr ErrorCodeOrbStackMachineNotFound e)
          else cwrap (wrapOrbStackErr ErrorCodeOrbStackMachineCreateFailed)
            (cbind (runCtl w b [''create'', if orb_machine_distro ocfg \<noteq> [] then orb_machine_distro ocfg else ''ubuntu'', machineName])
              (\<lambda>_. machineInfo w b machineName))))"

definition Orb_Create :: "cli_world \<Rightarrow> orb_backend \<Rightarrow> create_sandbox_request \<Rightarrow> sandbox_info orb" where
  "Orb_Create w b req =
     (let name = orb_machine_name (cfg_orbstack (orbb_cfg b));
          machineName = (if name = [] then ''ai-runner-'' @ csr_run_id req @ ''-'' @ itoa (csr_attempt req) else name)
      in cbind (found_or_created w b machineName) (\<lambda>info.
         cbind (Orb_Start w b machineName) (\<lambda>_.
         let info = info\<lparr>si_metadata := env_put ''local.platform'' ''orbstack'' (env_put ''backend.provider'' ''orbstack''
               (env_put ''runtime.profile'' RuntimeProfileOrbStackMachine
               (env_put ''workspace_root'' (machineWorkspaceRoot b) (si_metadata info))))\<rparr>
         in cbind (storeSandbox machineName info) (\<lambda>_. cret info))))"

definition Orb_Stat :: "cli_world \<Rightarrow> orb_backend \<Rightarrow> string \<Rightarrow> sandbox_status orb" where
  "Orb_Stat w b i = cbind (machineInfo w b i) (\<lambda>info. cret \<lparr>sst_id = i, sst_status = si_status info\<rparr>)"

definition Orb_Delete :: "cli_world \<Rightarrow> orb_backend \<Rightarrow> string \<Rightarrow> unit orb" where
  "Orb_Delete w b i =
     (let mode = to_lower (orb_machine_cleanup_mode (cfg_orbstack (orbb_cfg b))) in
      if mode = ''stop'' then
        cwrap (wrapOrbStackErr ErrorCodeOrbStackStopFailed) (cbind (runCtl w b [''stop'', i]) (\<lambda>_. cret ()))
      else if mode = ''delete'' then
        cwrap (wrapOrbStackErr ErrorCodeOrbStackDeleteFailed) (cbind (runCtl w b [''delete'', ''-f'', i]) (\<lambda>_. cret ()))
      else cret ())"

definition Orb_SandboxMetadata :: "cli_world \<Rightarrow> orb_backend \<Rightarrow> string \<Rightarrow> sandbox_info orb" where
  "Orb_SandboxMetadata w b i = machineInfo w b i"

section \<open>Running a command\<close>

definition Orb_translateCwd :: "cli_world \<Rightarrow> string \<Rightarrow> string" where
  "Orb_translateCwd w cwd =
     (if cwd = [] then [] else (case path_abs (cw_host w) cwd of Some p \<Rightarrow> p | None \<Rightarrow> cwd))"

text \<open>The machine sees the variables that \<open>ORBENV\<close> names.\<close>

definition orbstackExecEnv :: "string list \<Rightarrow> env \<Rightarrow> string list" where
  "orbstackExecEnv base extra =
     (if extra = [] then base
      else base @ envList extra @ [''ORBENV='' @ join '':'' (sorted_keys extra)])"

definition Orb_exec_args :: "cli_world \<Rightarrow> string \<Rightarrow> exec_request \<Rightarrow> string list" where
  "Orb_exec_args w i req =
     [''run'', ''-m'', i, ''-p''] @ flag_if ''-w'' (Orb_translateCwd w (xr_cwd req)) @ [''/bin/sh'', ''-lc'', xr_command req]"

definition Orb_Exec :: "cli_world \<Rightarrow> orb_backend \<Rightarrow> string \<Rightarrow> exec_request \<Rightarrow> exec_handle orb" where
  "Orb_Exec w b i req =
     cbind (exec_id w i) (\<lambda>execID.
     cbind (cwrap (wrapOrbStackErr ErrorCodeOrbStackExecFailed) (start_session w execID
       \<lparr>cc_binary = orbb_ctl_binary b, cc_dir = [], cc_args = Orb_exec_args w i req,
        cc_env = Some (orbstackExecEnv (os_environ (cw_host w)) (xr_env req))\<rparr>)) (\<lambda>session.
     storeExec ''orbstack'' execID session))"

definition Orb_StreamLogs :: "string \<Rightarrow> string \<Rightarrow> log_chunk list orb" where
  "Orb_StreamLogs i execID =
     session_stream (orb_error ErrorCodeOrbStackExecFailed (''unknown orbstack exec session: '' @ execID)) execID"

definition Orb_ExecStatus :: "string \<Rightarrow> string \<Rightarrow> exec_status orb" where
  "Orb_ExecStatus i execID = session_status execID"

definition Orb_CancelExec :: "cli_world \<Rightarrow> string \<Rightarrow> string \<Rightarrow> unit orb" where
  "Orb_CancelExec w i execID = session_cancel w execID"

section \<open>Files\<close>

definition pathUnderRoot :: "host \<Rightarrow> string \<Rightarrow> string \<Rightarrow> bool" where
  "pathUnderRoot h pathValue root =
     (pathValue \<noteq> [] \<and> root \<noteq> [] \<and>
      (case (path_abs h pathValue, path_abs h root) of
         (Some absPath, Some absRoot) \<Rightarrow> (case path_rel absRoot absPath of
             Some rel \<Rightarrow> rel \<noteq> dotdot \<and> \<not> has_prefix rel (dotdot @ ''/'')
           | None \<Rightarrow> False)
       | _ \<Rightarrow> False))"

definition Orb_Upload :: "cli_world \<Rightarrow> orb_backend \<Rightarrow> string \<Rightarrow> string \<Rightarrow> string \<Rightarrow> unit orb" where
  "Orb_Upload w b i localPath remotePath =
     (if pathUnderRoot (cw_host w) localPath (rs_workspace_dir (cfg_run (orbb_cfg b))) then cret ()
      else cwrap (wrapOrbStackErr ErrorCodeOrbStackCopyFailed)
        (cbind (runCtl w b ([''push'', ''-m'', i, localPath] @ (if remotePath \<noteq> [] then [remotePath] else []))) (\<lambda>_. cret ())))"

definition Orb_Download :: "cli_world \<Rightarrow> orb_backend \<Rightarrow> string \<Rightarrow> string \<Rightarrow> string \<Rightarrow> unit orb" where
  "Orb_Download w b i remotePath localPath =
     (if pathUnderRoot (cw_host w) localPath (rs_workspace_dir (cfg_run (orbb_cfg b))) then cret ()
      else cwrap (wrapOrbStackErr ErrorCodeOrbStackCopyFailed)
        (cbind (runCtl w b ([''pull'', ''-m'', i, remotePath] @ (if localPath \<noteq> [] then [localPath] else []))) (\<lambda>_. cret ())))"

definition Orb_Renew :: "string \<Rightarrow> int \<Rightarrow> go_error option" where
  "Orb_Renew i ttl = Some errUnsupported"

definition Orb_Pause :: "string \<Rightarrow> go_error option" where
  "Orb_Pause i = Some errUnsupported"

definition Orb_Resume :: "string \<Rightarrow> go_error option" where
  "Orb_Resume i = Some errUnsupported"

definition Orb_SyncWorkspaceIn :: "string \<Rightarrow> string \<Rightarrow> go_error option" where
  "Orb_SyncWorkspaceIn i localDir = None"

definition Orb_SyncWorkspaceOut :: "string \<Rightarrow> string \<Rightarrow> string \<Rightarrow> go_error option" where
  "Orb_SyncWorkspaceOut i remoteDir localDir = None"

definition Orb_Endpoints :: "string \<Rightarrow> int list \<Rightarrow> go_error + endpoint list" where
  "Orb_Endpoints i ports = Inr []"

definition orb_sandbox_backend ::
  "cli_world \<Rightarrow> orb_backend \<Rightarrow> ('t \<Rightarrow> sandbox_info cli_state) \<Rightarrow> 't sandbox_backend" where
  "orb_sandbox_backend w b st =
     \<lparr>sbk_kind = BackendKindOrbStackMachine, sbk_capabilities = (\<lambda>_. Inr Orb_Capabilities),
      sbk_runtime_info = (\<lambda>_. Inr (Orb_RuntimeInfo w b)), sbk_create = (\<lambda>tr req. fst (Orb_Create w b req (st tr))),
      sbk_start = (\<lambda>tr i. outcome_of (Orb_Start w b i) (st tr)), sbk_pause = (\<lambda>_. Orb_Pause),
      sbk_delete = (\<lambda>tr i. outcome_of (Orb_Delete w b i) (st tr)),
      sbk_sync_in = Some (\<lambda>_. Orb_SyncWorkspaceIn), sbk_sync_out = Some (\<lambda>_. Orb_SyncWorkspaceOut),
      sbk_metadata = Some (\<lambda>tr i. fst (Orb_SandboxMetadata w b i (st tr))),
      sbk_endpoints = Some (\<lambda>_. Orb_Endpoints), sbk_devcontainer = None, sbk_download = None\<rparr>"

end
