(* ===== verification/Cli_Facts.thy ===== *)
theory Cli_Facts
  imports Devcontainer_Backend Orbstack_Backend Executor_Facts
begin

text \<open>
  The backends that drive a command line tool: which states they reach, what a command run in one of them
  reports, and what removing a sandbox guarantees. Their common contract is a locale, with an interpretation
  for each of the three.
\<close>

section \<open>The states that are reached\<close>

named_theorems cli_steps

definition keeps_state :: "('r cli_state \<Rightarrow> bool) \<Rightarrow> ('r, 'a) cli \<Rightarrow> bool" where
  "keeps_state P m \<longleftrightarrow> (\<forall>s. P s \<longrightarrow> P (snd (m s)))"

lemma keeps_cbind [cli_steps]:
  "keeps_state P m \<Longrightarrow> (\<And>x. keeps_state P (k x)) \<Longrightarrow> keeps_state P (cbind m k)"
  by (fastforce simp: keeps_state_def cbind_def split: prod.splits sum.splits)

lemma keeps_pure [cli_steps]:
  "keeps_state P (cret x)" "keeps_state P (cfail e)" "keeps_state P (lookupSandbox i)" "keeps_state P (getExec i)"
  "keeps_state P (exec_id w i)"
  by (simp_all add: keeps_state_def cret_def cfail_def lookupSandbox_def getExec_def exec_id_def)

lemma keeps_ctry [cli_steps]: "keeps_state P m \<Longrightarrow> keeps_state P (ctry m)"
  by (fastforce simp: keeps_state_def ctry_def split: prod.splits)

lemma keeps_cwrap [cli_steps]: "keeps_state P m \<Longrightarrow> keeps_state P (cwrap f m)"
  by (fastforce simp: keeps_state_def cwrap_def split: prod.splits sum.splits)

lemma keeps_case [cli_steps]:
  "(\<And>e. keeps_state P (f e)) \<Longrightarrow> (\<And>x. keeps_state P (g x)) \<Longrightarrow> keeps_state P (case r of Inl e \<Rightarrow> f e | Inr x \<Rightarrow> g x)"
  "keeps_state P m \<Longrightarrow> (\<And>x. keeps_state P (k x)) \<Longrightarrow> keeps_state P (case v of None \<Rightarrow> m | Some x \<Rightarrow> k x)"
  "keeps_state P m \<Longrightarrow> keeps_state P m' \<Longrightarrow> keeps_state P (if c then m else m')"
  by (cases r; simp) (cases v; simp)+

text \<open>Every sandbox satisfies \<open>own\<close>, and every session is kept under its own identifier and has ended.\<close>

definition well_formed :: "(string \<Rightarrow> 'r \<Rightarrow> bool) \<Rightarrow> 'r cli_state \<Rightarrow> bool" where
  "well_formed own s \<longleftrightarrow>
     (\<forall>i box. cs_boxes s i = Some box \<longrightarrow> own i box) \<and>
     (\<forall>x ses. cs_execs s x = Some ses \<longrightarrow> es_id (cse_status ses) = x \<and> \<not> es_running (cse_status ses)
        \<and> es_exit_code (cse_status ses) \<noteq> None)"

lemma well_formed_calls [simp]: "well_formed own (s\<lparr>cs_calls := cs\<rparr>) = well_formed own s"
  by (simp add: well_formed_def)

lemma keeps_wf_simple [cli_steps]:
  "keeps_state (well_formed own) (cli_output w call)"
  "keeps_state (well_formed own) (deleteExec x)"
  by (auto simp: keeps_state_def well_formed_def cli_output_def deleteExec_def Let_def split: prod.splits option.splits)

lemma keeps_storeSandbox: "own i box \<Longrightarrow> keeps_state (well_formed own) (storeSandbox i box)"
  by (auto simp: keeps_state_def well_formed_def storeSandbox_def)

lemma session_finish_ends:
  "es_id (session_finish st err) = es_id st" "\<not> es_running (session_finish st err)"
  "es_exit_code (session_finish st err) \<noteq> None"
  by (auto simp: session_finish_def split: option.splits)

lemma keeps_start_session:
  assumes "\<And>p. P \<lparr>cse_logs = session_logs p, cse_status = session_finish (newLocalExecSession x) (cp_wait p)\<rparr>"
    and "\<And>ses. P ses \<Longrightarrow> keeps_state (well_formed own) (k ses)"
  shows "keeps_state (well_formed own) (cbind (cwrap f (start_session w x call)) k)"
  using assms
  by (auto simp: keeps_state_def cbind_def cwrap_def start_session_def Let_def split: sum.splits prod.splits)

lemma keeps_run_session [cli_steps]:
  "keeps_state (well_formed own) (cbind (cwrap f (start_session w x call)) (storeExec provider x))"
  by (rule keeps_start_session [where P = "\<lambda>ses. es_id (cse_status ses) = x \<and> \<not> es_running (cse_status ses)
        \<and> es_exit_code (cse_status ses) \<noteq> None"])
    (auto simp: session_finish_ends newLocalExecSession_def keeps_state_def storeExec_def well_formed_def)

lemma keeps_sessions [cli_steps]:
  "keeps_state (well_formed own) (session_stream e x)"
  "keeps_state (well_formed own) (session_status x)"
  "keeps_state (well_formed own) (session_cancel w x)"
  unfolding session_stream_def session_status_def session_cancel_def by (intro cli_steps)+

text \<open>The operations that change a backend's state or read it.\<close>

datatype cli_op =
    OpCreate create_sandbox_request
  | OpStart string
  | OpStat string
  | OpMetadata string
  | OpExec string exec_request
  | OpStreamLogs string string
  | OpExecStatus string string
  | OpCancelExec string string
  | OpUpload string string string
  | OpDownload string string string
  | OpDelete string

fun dc_step :: "cli_world \<Rightarrow> dc_backend \<Rightarrow> cli_op \<Rightarrow> dc_sandbox cli_state \<Rightarrow> dc_sandbox cli_state" where
  "dc_step w b (OpCreate req) s = snd (DevContainer_Create w b req s)"
| "dc_step w b (OpStat i) s = snd (DevContainer_Stat i s)"
| "dc_step w b (OpMetadata i) s = snd (DevContainer_SandboxMetadata i s)"
| "dc_step w b (OpExec i req) s = snd (DevContainer_Exec w b i req s)"
| "dc_step w b (OpStreamLogs i x) s = snd (DevContainer_StreamLogs i x s)"
| "dc_step w b (OpExecStatus i x) s = snd (DevContainer_ExecStatus i x s)"
| "dc_step w b (OpCancelExec i x) s = snd (DevContainer_CancelExec w i x s)"
| "dc_step w b (OpDelete i) s = snd (DevContainer_Delete w b i s)"
| "dc_step w b op s = s"

fun apple_step :: "cli_world \<Rightarrow> apple_backend \<Rightarrow> cli_op \<Rightarrow> apple_record cli_state \<Rightarrow> apple_record cli_state" where
  "apple_step w b (OpCreate req) s = snd (Apple_Create w b req s)"
| "apple_step w b (OpStart i) s = snd (Apple_Start w b i s)"
| "apple_step w b (OpStat i) s = snd (Apple_Stat w b i s)"
| "apple_step w b (OpMetadata i) s = snd (Apple_SandboxMetadata w b i s)"
| "apple_step w b (OpExec i req) s = snd (Apple_Exec w b i req s)"
| "apple_step w b (OpStreamLogs i x) s = snd (Apple_StreamLogs i x s)"
| "apple_step w b (OpExecStatus i x) s = snd (Apple_ExecStatus i x s)"
| "apple_step w b (OpCancelExec i x) s = snd (Apple_CancelExec w i x s)"
| "apple_step w b (OpDelete i) s = snd (Apple_Delete w b i s)"
| "apple_step w b op s = s"

fun orb_step :: "cli_world \<Rightarrow> orb_backend \<Rightarrow> cli_op \<Rightarrow> sandbox_info cli_state \<Rightarrow> sandbox_info cli_state" where
  "orb_step w b (OpCreate req) s = snd (Orb_Create w b req s)"
| "orb_step w b (OpStart i) s = snd (Orb_Start w b i s)"
| "orb_step w b (OpStat i) s = snd (Orb_Stat w b i s)"
| "orb_step w b (OpMetadata i) s = snd (Orb_SandboxMetadata w b i s)"
| "orb_step w b (OpExec i req) s = snd (Orb_Exec w b i req s)"
| "orb_step w b (OpStreamLogs i x) s = snd (Orb_StreamLogs i x s)"
| "orb_step w b (OpExecStatus i x) s = snd (Orb_ExecStatus i x s)"
| "orb_step w b (OpCancelExec i x) s = snd (Orb_CancelExec w i x s)"
| "orb_step w b (OpUpload i l r) s = snd (Orb_Upload w b i l r s)"
| "orb_step w b (OpDownload i r l) s = snd (Orb_Download w b i r l s)"
| "orb_step w b (OpDelete i) s = snd (Orb_Delete w b i s)"

inductive cli_reachable :: "('op \<Rightarrow> 'r cli_state \<Rightarrow> 'r cli_state) \<Rightarrow> 'r cli_state \<Rightarrow> bool"
  for step :: "'op \<Rightarrow> 'r cli_state \<Rightarrow> 'r cli_state" where
  reachable_new: "cs_boxes s = Map.empty \<Longrightarrow> cs_execs s = Map.empty \<Longrightarrow> cli_reachable step s"
| reachable_step: "cli_reachable step s \<Longrightarrow> cli_reachable step (step op s)"

lemma reachable_well_formed:
  assumes "\<And>op s. well_formed own s \<Longrightarrow> well_formed own (step op s)" and "cli_reachable step s"
  shows "well_formed own s"
  using assms(2)
proof induction
  case (reachable_new s)
  then show ?case by (simp add: well_formed_def)
next
  case (reachable_step s op)
  then show ?case by (intro assms(1))
qed

definition dc_own :: "string \<Rightarrow> dc_sandbox \<Rightarrow> bool" where
  "dc_own i box \<longleftrightarrow> si_id (dcs_info box) = i \<and> si_status (dcs_info box) = ''running''"

definition apple_own :: "string \<Rightarrow> apple_record \<Rightarrow> bool" where
  "apple_own i rec \<longleftrightarrow> si_id (acr_info rec) = i \<and> acr_image rec \<noteq> []"

text \<open>The sessions of the devcontainer backend are those of the other two.\<close>

lemma DevContainer_session_parts:
  "DevContainer_streamLogs = streamSessionLogs" "DevContainer_finish = session_finish"
  by (simp_all add: fun_eq_iff DevContainer_streamLogs_def streamSessionLogs_def DevContainer_finish_def session_finish_def)

lemma DevContainer_start_session: "DevContainer_start w x call = start_session w x call"
  unfolding DevContainer_start_def start_session_def DevContainer_session_parts session_logs_def newLocalExecSession_def ..

lemma keeps_known [cli_steps]: "keeps_state P (known_sandbox i)"
  unfolding known_sandbox_def by (intro cli_steps)

lemma keeps_Let [cli_steps]: "keeps_state P (k x) \<Longrightarrow> keeps_state P (let y = x in k y)"
  by simp

lemma DevContainer_Create_wf [cli_steps]: "keeps_state (well_formed dc_own) (DevContainer_Create w b req)"
  unfolding DevContainer_Create_def DevContainer_runCLI_def
  by (intro cli_steps keeps_storeSandbox) (simp add: dc_own_def dc_sandbox_info_def)

lemma dc_step_wf: "well_formed dc_own s \<Longrightarrow> well_formed dc_own (dc_step w b op s)"
proof -
  have exec: "keeps_state (well_formed dc_own) (DevContainer_Exec w b i req)" for i req
    unfolding DevContainer_Exec_def DevContainer_start_session by (intro cli_steps)
  have delete: "keeps_state (well_formed dc_own) (DevContainer_Delete w b i)" for i
    unfolding DevContainer_Delete_def DevContainer_runCLI_def removeContainer_def by (intro cli_steps)
  have rest: "keeps_state (well_formed dc_own) (DevContainer_Stat i)"
    "keeps_state (well_formed dc_own) (DevContainer_SandboxMetadata i)"
    "keeps_state (well_formed dc_own) (DevContainer_StreamLogs i x)"
    "keeps_state (well_formed dc_own) (DevContainer_ExecStatus i x)"
    "keeps_state (well_formed dc_own) (DevContainer_CancelExec w i x)" for i x
    unfolding DevContainer_Stat_def DevContainer_SandboxMetadata_def DevContainer_StreamLogs_def
      DevContainer_ExecStatus_def DevContainer_CancelExec_def by (intro cli_steps)+
  show "well_formed dc_own s \<Longrightarrow> well_formed dc_own (dc_step w b op s)"
    using exec delete rest DevContainer_Create_wf by (cases op) (auto simp: keeps_state_def)
qed

lemma keeps_Apple_runCLI [cli_steps]: "keeps_state (well_formed own) (Apple_runCLI w b args)"
  unfolding Apple_runCLI_def by (intro cli_steps)

lemma keeps_Apple_inspect [cli_steps]: "keeps_state (well_formed own) (Apple_inspect w b i)"
  unfolding Apple_inspect_def by (intro cli_steps)

lemma apple_step_wf: "well_formed apple_own s \<Longrightarrow> well_formed apple_own (apple_step w b op s)"
proof -
  have create: "keeps_state (well_formed apple_own) (Apple_Create w b req)" for req
    unfolding Apple_Create_def Let_def
    by (cases "csr_image req = [] \<and> apc_image (cfg_apple_container (acb_cfg b)) = []")
      (auto intro!: cli_steps keeps_storeSandbox simp: apple_own_def split: option.split)
  have exec: "keeps_state (well_formed apple_own) (Apple_Exec w b i req)" for i req
    unfolding Apple_Exec_def execEnv_def inspectEnv_def by (intro cli_steps)
  have rest: "keeps_state (well_formed apple_own) (Apple_Start w b i)"
    "keeps_state (well_formed apple_own) (Apple_Stat w b i)"
    "keeps_state (well_formed apple_own) (Apple_SandboxMetadata w b i)"
    "keeps_state (well_formed apple_own) (Apple_StreamLogs i x)"
    "keeps_state (well_formed apple_own) (Apple_ExecStatus i x)"
    "keeps_state (well_formed apple_own) (Apple_CancelExec w i x)"
    "keeps_state (well_formed apple_own) (Apple_Delete w b i)" for i x
    unfolding Apple_Start_def Apple_Stat_def Apple_SandboxMetadata_def Apple_StreamLogs_def Apple_ExecStatus_def
      Apple_CancelExec_def Apple_Delete_def by (intro cli_steps)+
  show "well_formed apple_own s \<Longrightarrow> well_formed apple_own (apple_step w b op s)"
    using create exec rest by (cases op) (auto simp: keeps_state_def)
qed

text \<open>What is known of a machine is what the tool has said of it, under whatever name.\<close>

abbreviation any_box :: "string \<Rightarrow> 'r \<Rightarrow> bool" where "any_box i box \<equiv> True"

lemma keeps_runCtl [cli_steps]: "keeps_state (well_formed own) (runCtl w b args)"
  unfolding runCtl_def by (intro cli_steps)

lemma keeps_machineInfo [cli_steps]: "keeps_state (well_formed own) (machineInfo w b i)"
  unfolding machineInfo_def machine_from_list_def by (intro cli_steps)

lemma keeps_Orb_Start [cli_steps]: "keeps_state (well_formed own) (Orb_Start w b i)"
  unfolding Orb_Start_def by (intro cli_steps)

lemma orb_step_wf: "well_formed any_box s \<Longrightarrow> well_formed any_box (orb_step w b op s)"
proof -
  have create: "keeps_state (well_formed any_box) (Orb_Create w b req)" for req
    unfolding Orb_Create_def found_or_created_def by (intro cli_steps keeps_storeSandbox) simp
  have exec: "keeps_state (well_formed any_box) (Orb_Exec w b i req)" for i req
    unfolding Orb_Exec_def by (intro cli_steps)
  have rest: "keeps_state (well_formed any_box) (Orb_Stat w b i)"
    "keeps_state (well_formed any_box) (Orb_SandboxMetadata w b i)"
    "keeps_state (well_formed any_box) (Orb_StreamLogs i x)"
    "keeps_state (well_formed any_box) (Orb_ExecStatus i x)"
    "keeps_state (well_formed any_box) (Orb_CancelExec w i x)"
    "keeps_state (well_formed any_box) (Orb_Upload w b i l r)"
    "keeps_state (well_formed any_box) (Orb_Download w b i r l)"
    "keeps_state (well_formed any_box) (Orb_Delete w b i)" for i x l r
    unfolding Orb_Stat_def Orb_SandboxMetadata_def Orb_StreamLogs_def Orb_ExecStatus_def Orb_CancelExec_def
      Orb_Upload_def Orb_Download_def Orb_Delete_def by (intro cli_steps)+
  show "well_formed any_box s \<Longrightarrow> well_formed any_box (orb_step w b op s)"
    using create exec rest keeps_Orb_Start [of any_box w b] by (cases op) (auto simp: keeps_state_def)
qed

section \<open>The contract of the sessions\<close>

text \<open>The tool is asked to have a shell run the command of the request, in the directory of a \<open>cd\<close> or in its own.\<close>

definition invokes :: "exec_request \<Rightarrow> cli_call \<Rightarrow> bool" where
  "invokes req call \<longleftrightarrow> (\<exists>front script. cc_args call = front @ [''/bin/sh'', ''-lc'', script] \<and>
     (script = xr_command req \<or> (\<exists>dir. script = ''cd '' @ shellQuote dir @ '' && '' @ xr_command req)))"

definition session_of_process :: "string \<Rightarrow> cli_process \<Rightarrow> cli_session" where
  "session_of_process x p =
     \<lparr>cse_logs = session_logs p, cse_status = session_finish (newLocalExecSession x) (cp_wait p)\<rparr>"

definition wait_code :: "go_error option \<Rightarrow> int" where
  "wait_code err =
     (case err of None \<Rightarrow> 0
      | Some e \<Rightarrow> (case as_exit_error e of Some n \<Rightarrow> n | None \<Rightarrow> if is_deadline e then 124 else 1))"

lemma session_exit_code: "es_exit_code (cse_status (session_of_process x p)) = Some (wait_code (cp_wait p))"
  by (simp add: session_of_process_def session_finish_def wait_code_def split: option.splits)

text \<open>A backend as an executor drives it for one command.\<close>

definition cli_exec ::
  "('r, exec_handle) cli \<Rightarrow> (string \<Rightarrow> string \<Rightarrow> ('r, log_chunk list) cli) \<Rightarrow> (string \<Rightarrow> string \<Rightarrow> ('r, exec_status) cli) \<Rightarrow>
   'r cli_state \<Rightarrow> exec_backend" where
  "cli_exec exec stream status s =
     (case exec s of (r, s1) \<Rightarrow>
      \<lparr>xb_exec = (\<lambda>_ _. r), xb_stream = (\<lambda>i x. fst (stream i x s1)),
       xb_status = Some (\<lambda>i x cancelled. fst (status i x s1)), xb_cancels = True\<rparr>)"

text \<open>
  What an executor needs of such a backend: a command that is accepted has started a process that runs it, its
  session is the one of this process, and its logs and its status are read from the session.
\<close>

locale cli_backend =
  fixes exec :: "cli_world \<Rightarrow> 'b \<Rightarrow> string \<Rightarrow> exec_request \<Rightarrow> ('r, exec_handle) cli"
    and stream :: "string \<Rightarrow> string \<Rightarrow> ('r, log_chunk list) cli"
    and status :: "string \<Rightarrow> string \<Rightarrow> ('r, exec_status) cli"
  assumes exec_starts: "exec w b i req s = (Inr h, s') \<Longrightarrow> \<exists>calls call p. cs_calls s' = calls @ [call] \<and>
      cw_start w calls call = Inr p \<and> invokes req call \<and>
      cs_execs s' (eh_exec_id h) = Some (session_of_process (eh_exec_id h) p)"
    and stream_session: "cs_execs s x = Some ses \<Longrightarrow> fst (stream i x s) = Inr (cse_logs ses)"
    and status_session: "cs_execs s x = Some ses \<Longrightarrow> fst (status i x s) = Inr (cse_status ses)"
begin

lemma command_result:
  assumes "exec w b i (exec_request_of cfg spec) s = (Inr h, s')"
    and "xc_err ctx = None" and "rs_sandbox_id (cfg_run (xs_run_config spec)) \<noteq> []"
    and "BackendExecutor_Run (cli_exec (exec w b i (exec_request_of cfg spec)) stream status s) ctx cfg target spec
      = (res, err, logs)"
  shows "\<exists>calls call p. cs_calls s' = calls @ [call] \<and> cw_start w calls call = Inr p \<and>
    invokes (exec_request_of cfg spec) call \<and> err = None \<and> xres_exit_code res = wait_code (cp_wait p) \<and>
    logs = backend_logs spec (eh_exec_id h) 0 0 (session_logs p)"
proof -
  from exec_starts [OF assms(1)] obtain calls call p where p: "cs_calls s' = calls @ [call]"
    "cw_start w calls call = Inr p" "invokes (exec_request_of cfg spec) call"
    "cs_execs s' (eh_exec_id h) = Some (session_of_process (eh_exec_id h) p)" by blast
  have "cse_logs (session_of_process (eh_exec_id h) p) = session_logs p" by (simp add: session_of_process_def)
  with assms p(4) have "err = None" "xres_exit_code res = wait_code (cp_wait p)"
    "logs = backend_logs spec (eh_exec_id h) 0 0 (session_logs p)"
    by (auto simp: BackendExecutor_Run_def cli_exec_def read_status_def read_chunks_def interrupted_def Let_def
        stream_session status_session session_exit_code)
  with p show ?thesis by blast
qed

end

lemma run_session_stored:
  assumes "cwrap f (start_session w x call) s = (Inr ses, s1)" and "storeExec provider x ses s1 = (Inr h, s')"
  shows "\<exists>calls p. cs_calls s' = calls @ [call] \<and> cw_start w calls call = Inr p \<and> eh_exec_id h = x \<and>
    cs_execs s' x = Some (session_of_process x p)"
  using assms
  by (auto simp: cwrap_def start_session_def storeExec_def Let_def session_of_process_def
      split: sum.splits prod.splits)

lemma cbind_Inr:
  assumes "cbind m k s = (Inr y, s')" obtains x s1 where "m s = (Inr x, s1)" "k x s1 = (Inr y, s')"
  using assms by (auto simp: cbind_def split: prod.splits sum.splits)

lemma found_session_stream: "cs_execs s x = Some ses \<Longrightarrow> fst (session_stream e x s) = Inr (cse_logs ses)"
  by (simp add: session_stream_def cbind_def getExec_def cret_def)

lemma found_session_status: "cs_execs s x = Some ses \<Longrightarrow> fst (session_status x s) = Inr (cse_status ses)"
  by (simp add: session_status_def cbind_def getExec_def cret_def deleteExec_def)

lemma devcontainerShellQuote_eq: "devcontainerShellQuote v = shellQuote v"
  by (simp add: devcontainerShellQuote_def shellQuote_def)

lemma execArgs_invokes: "cc_args call = execArgs b box req \<Longrightarrow> invokes req call"
  by (auto simp: invokes_def execArgs_def exec_script_def devcontainerShellQuote_eq Let_def)

interpretation dc: cli_backend DevContainer_Exec DevContainer_StreamLogs DevContainer_ExecStatus
proof
  fix w b i req s h s'
  assume run: "DevContainer_Exec w b i req s = (Inr h, s')"
  then obtain box x ses s1 s2 where start: "cwrap (dc_wrap ErrorCodeDevContainerExecFailed) (start_session w x
      \<lparr>cc_binary = dcb_cli_path b, cc_dir = [], cc_args = execArgs b box req, cc_env = None\<rparr>) s1 = (Inr ses, s2)"
      and store: "storeExec ''devcontainer'' x ses s2 = (Inr h, s')"
    unfolding DevContainer_Exec_def DevContainer_start_session by (elim cbind_Inr) blast
  from run_session_stored [OF start store] show "\<exists>calls call p. cs_calls s' = calls @ [call] \<and> cw_start w calls call = Inr p \<and>
      invokes req call \<and> cs_execs s' (eh_exec_id h) = Some (session_of_process (eh_exec_id h) p)"
    by (metis cli_call.select_convs(3) execArgs_invokes)
qed (simp_all add: DevContainer_StreamLogs_def DevContainer_ExecStatus_def found_session_stream found_session_status)

lemma shell_args_invoke: "cc_args call = front @ [''/bin/sh'', ''-lc'', xr_command req] \<Longrightarrow> invokes req call"
  by (auto simp: invokes_def)

interpretation apple: cli_backend Apple_Exec Apple_StreamLogs Apple_ExecStatus
proof
  fix w b i req s h s'
  assume run: "Apple_Exec w b i req s = (Inr h, s')"
  then obtain e x ses s1 s2 where start: "cwrap (wrapAppleContainerErr ErrorCodeAppleContainerExecFailed) (start_session w x
      \<lparr>cc_binary = acb_binary b, cc_dir = [], cc_args = Apple_exec_args w b i e req, cc_env = None\<rparr>) s1 = (Inr ses, s2)"
      and store: "storeExec ''apple-container'' x ses s2 = (Inr h, s')"
    unfolding Apple_Exec_def by (elim cbind_Inr) blast
  have "invokes req \<lparr>cc_binary = acb_binary b, cc_dir = [], cc_args = Apple_exec_args w b i e req, cc_env = None\<rparr>"
    by (rule shell_args_invoke [where front = "[''exec''] @ flagged ''-e'' (envList e)
      @ flag_if ''--workdir'' (Apple_translateCwd w b (xr_cwd req)) @ [i]"]) (simp add: Apple_exec_args_def)
  with run_session_stored [OF start store] show "\<exists>calls call p. cs_calls s' = calls @ [call] \<and> cw_start w calls call = Inr p \<and>
      invokes req call \<and> cs_execs s' (eh_exec_id h) = Some (session_of_process (eh_exec_id h) p)"
    by metis
qed (simp_all add: Apple_StreamLogs_def Apple_ExecStatus_def found_session_stream found_session_status)

interpretation orb: cli_backend Orb_Exec Orb_StreamLogs Orb_ExecStatus
proof
  fix w b i req s h s'
  assume run: "Orb_Exec w b i req s = (Inr h, s')"
  then obtain x ses s1 s2 where start: "cwrap (wrapOrbStackErr ErrorCodeOrbStackExecFailed) (start_session w x
      \<lparr>cc_binary = orbb_ctl_binary b, cc_dir = [], cc_args = Orb_exec_args w i req,
       cc_env = Some (orbstackExecEnv (os_environ (cw_host w)) (xr_env req))\<rparr>) s1 = (Inr ses, s2)"
      and store: "storeExec ''orbstack'' x ses s2 = (Inr h, s')"
    unfolding Orb_Exec_def by (elim cbind_Inr) blast
  have "invokes req \<lparr>cc_binary = orbb_ctl_binary b, cc_dir = [], cc_args = Orb_exec_args w i req,
       cc_env = Some (orbstackExecEnv (os_environ (cw_host w)) (xr_env req))\<rparr>"
    by (rule shell_args_invoke [where front = "[''run'', ''-m'', i, ''-p''] @ flag_if ''-w'' (Orb_translateCwd w (xr_cwd req))"])
      (simp add: Orb_exec_args_def)
  with run_session_stored [OF start store] show "\<exists>calls call p. cs_calls s' = calls @ [call] \<and> cw_start w calls call = Inr p \<and>
      invokes req call \<and> cs_execs s' (eh_exec_id h) = Some (session_of_process (eh_exec_id h) p)"
    by metis
qed (simp_all add: Orb_StreamLogs_def Orb_ExecStatus_def found_session_stream found_session_status)

end
