(* ===== verification/Cli_Props.thy ===== *)
theory Cli_Props
  imports Cli_Facts
begin

text \<open>
  The properties of the backends that drive a command line tool, with a sample world in which the witnesses
  apply them.
\<close>

section \<open>A sample world\<close>

text \<open>Every call of the tool succeeds and prints an object; every process prints two lines and exits with 3.\<close>

definition sample_process :: cli_process where
  "sample_process = \<lparr>cp_stdout = [CHR ''a'', newline, CHR ''b'', newline], cp_stderr = [], cp_wait = Some (ExitError 3),
     cp_schedule = [], cp_read = (\<lambda>s. None)\<rparr>"

definition sample_cli_world :: cli_world where
  "sample_cli_world =
     \<lparr>cw_host = \<lparr>host_env = [(''HOME'', ''/root'')], host_cwd = Some ''/w'', host_goos = ''darwin'', host_goarch = ''arm64''\<rparr>,
      cw_lookpath = (\<lambda>p. Inr (''/bin/'' @ p)), cw_run = (\<lambda>calls call. (''{}'', None)),
      cw_start = (\<lambda>calls call. Inr sample_process), cw_now = (\<lambda>calls. 7),
      cw_json = (\<lambda>t. Some (JObject [(''containerId'', JString ''c1'')])), cw_kill = (\<lambda>x. None)\<rparr>"

definition sample_dc :: dc_backend where
  "sample_dc = \<lparr>dcb_cfg = DefaultRunConfig, dcb_cli_path = ''/bin/devcontainer''\<rparr>"

definition sample_box :: dc_sandbox where
  "sample_box = \<lparr>dcs_info = zero_sandbox_info\<lparr>si_id := ''sb'', si_status := ''running''\<rparr>,
     dcs_summary = \<lparr>da_cli_path = [], da_config_path = [], da_container_id = ''c1'', da_workspace_folder = ''/code'',
       da_has_post_create = False, da_has_post_start = False, da_features = [], da_local_workspace_path = ''/w''\<rparr>\<rparr>"

definition sample_dc_state :: "dc_sandbox cli_state" where
  "sample_dc_state = \<lparr>cs_calls = [], cs_boxes = [''sb'' \<mapsto> sample_box], cs_execs = Map.empty\<rparr>"

section \<open>Well-formed states\<close>


definition fresh_cli :: "'r cli_state" where
  "fresh_cli = \<lparr>cs_calls = [], cs_boxes = Map.empty, cs_execs = Map.empty\<rparr>"

definition sample_create :: create_sandbox_request where
  "sample_create = \<lparr>csr_run_id = ''r'', csr_attempt = 1, csr_workspace_id = [], csr_image = ''img'', csr_entrypoint = [],
     csr_env = [], csr_metadata = [], csr_cpu = [], csr_memory = [], csr_network_mode = [], csr_timeout_sec = 0,
     csr_workspace_dir = ''/w''\<rparr>"


section \<open>A command in a sandbox\<close>


lemmas apple_command_result = apple.command_result
lemmas orbstack_command_result = orb.command_result

definition sample_dc_request :: exec_request where
  "sample_dc_request = exec_request_of DefaultRunConfig sample_exec_spec"

lemma sample_itoa: "itoa 7 = ''7''"
  by code_simp

lemma sample_dc_exec:
  "DevContainer_Exec sample_cli_world sample_dc ''sb'' sample_dc_request sample_dc_state
     = (Inr \<lparr>eh_exec_id = ''sb-exec-7'', eh_status = ''running'', eh_provider = ''devcontainer''\<rparr>,
        snd (DevContainer_Exec sample_cli_world sample_dc ''sb'' sample_dc_request sample_dc_state))"
  by (simp add: DevContainer_Exec_def known_sandbox_def sample_dc_state_def exec_id_def cbind_def lookupSandbox_def
      cret_def cwrap_def DevContainer_start_def sample_cli_world_def storeExec_def sample_itoa)


section \<open>Removing a devcontainer\<close>

text \<open>
  C34: when removing a devcontainer that the backend knows succeeds and the cleanup mode is not to keep it, the
  last thing the backend did is a call that succeeded and removes the container: the \<open>down\<close> of the tool for
  the sandbox's workspace, or the forced removal of the sandbox's container by Docker.
\<close>

theorem devcontainer_delete_removes:
  assumes "DevContainer_Delete w b i s = (Inr r, s')" and "cs_boxes s i = Some box"
    and "\<not> equal_fold (dc_cleanup_mode (cfg_devcontainer (dcb_cfg b))) ''keep''"
  shows "\<exists>calls call out. cs_calls s' = calls @ [call] \<and> cw_run w calls call = (out, None) \<and>
    (cc_binary call = dcb_cli_path b \<and> cc_args call = downArgs b (da_local_workspace_path (dcs_summary box)) \<or>
     da_container_id (dcs_summary box) \<noteq> [] \<and> (\<exists>front. cc_args call = front @ [''rm'', ''-f'', da_container_id (dcs_summary box)]))"
proof -
  let ?down = "\<lparr>cc_binary = dcb_cli_path b, cc_dir = da_local_workspace_path (dcs_summary box),
    cc_args = downArgs b (da_local_workspace_path (dcs_summary box)), cc_env = None\<rparr>"
  show ?thesis
  proof (cases "snd (cw_run w (cs_calls s) ?down)")
    case None
    then obtain out where "cw_run w (cs_calls s) ?down = (out, None)" by (cases "cw_run w (cs_calls s) ?down") auto
    moreover from this assms have "cs_calls s' = cs_calls s @ [?down]"
      by (auto simp: DevContainer_Delete_def cbind_def lookupSandbox_def ctry_def DevContainer_runCLI_def cli_output_def
          cret_def Let_def)
    ultimately show ?thesis by (intro exI [of _ "cs_calls s"] exI [of _ ?down]) simp
  next
    case (Some e)
    then obtain out where down: "cw_run w (cs_calls s) ?down = (out, Some e)" by (cases "cw_run w (cs_calls s) ?down") auto
    with assms show ?thesis
      by (auto simp: DevContainer_Delete_def cbind_def lookupSandbox_def ctry_def DevContainer_runCLI_def cli_output_def
          cret_def Let_def cwrap_def removeContainer_def cfail_def split: if_splits sum.splits prod.splits option.splits)
  qed
qed

lemma devcontainer_delete_removes_witness:
  "\<exists>calls call out. cs_calls (snd (DevContainer_Delete sample_cli_world sample_dc ''sb'' sample_dc_state)) = calls @ [call] \<and>
     cw_run sample_cli_world calls call = (out, None) \<and>
     (cc_binary call = ''/bin/devcontainer'' \<and> cc_args call = downArgs sample_dc ''/w'' \<or>
      (\<exists>front. cc_args call = front @ [''rm'', ''-f'', ''c1'']))"
proof -
  have run: "DevContainer_Delete sample_cli_world sample_dc ''sb'' sample_dc_state
      = (Inr (), snd (DevContainer_Delete sample_cli_world sample_dc ''sb'' sample_dc_state))"
    by (simp add: DevContainer_Delete_def cbind_def lookupSandbox_def sample_dc_state_def cret_def ctry_def Let_def
        DevContainer_runCLI_def cli_output_def sample_cli_world_def)
  have known: "cs_boxes sample_dc_state ''sb'' = Some sample_box" by (simp add: sample_dc_state_def)
  have mode: "\<not> equal_fold (dc_cleanup_mode (cfg_devcontainer (dcb_cfg sample_dc))) ''keep''" by code_simp
  from devcontainer_delete_removes [OF run known mode] show ?thesis
    by (auto simp: sample_box_def sample_dc_def)
qed

section \<open>A devcontainer that cannot be created\<close>

definition forgets_failure :: "('r, 'a) cli \<Rightarrow> bool" where
  "forgets_failure m \<longleftrightarrow> (\<forall>s e s'. m s = (Inl e, s') \<longrightarrow> cs_boxes s' = cs_boxes s)"

lemma forgets_call: "keeps_state (\<lambda>s. cs_boxes s = bs) (cwrap f (DevContainer_runCLI w b d args))"
  by (auto simp: keeps_state_def cwrap_def DevContainer_runCLI_def cli_output_def Let_def split: prod.splits sum.splits option.splits)

lemma forgets_cbind:
  assumes "\<And>bs. keeps_state (\<lambda>s. cs_boxes s = bs) m" and "\<And>x. forgets_failure (k x)"
  shows "forgets_failure (cbind m k)"
  unfolding forgets_failure_def
proof (intro allI impI)
  fix s e s' assume run: "cbind m k s = (Inl e, s')"
  obtain r s1 where m: "m s = (r, s1)" by fastforce
  with assms(1) [of "cs_boxes s"] have s1: "cs_boxes s1 = cs_boxes s" by (fastforce simp: keeps_state_def)
  show "cs_boxes s' = cs_boxes s"
  proof (cases r)
    case (Inl e')
    with run m s1 show ?thesis by (simp add: cbind_def)
  next
    case (Inr x)
    with run m have "k x s1 = (Inl e, s')" by (simp add: cbind_def)
    with assms(2) s1 show ?thesis by (metis forgets_failure_def)
  qed
qed

lemma forgets_end: "forgets_failure (cfail e)" "forgets_failure (cbind (storeSandbox i r) (\<lambda>_. cret x))"
  by (simp_all add: forgets_failure_def cfail_def cbind_def storeSandbox_def cret_def)

lemma forgets_if: "forgets_failure m \<Longrightarrow> forgets_failure m' \<Longrightarrow> forgets_failure (if c then m else m')"
  by simp

lemma Create_forgets: "forgets_failure (DevContainer_Create w b req)"
  unfolding DevContainer_Create_def Let_def
  by (intro forgets_if forgets_cbind forgets_call forgets_end keeps_case keeps_pure)

text \<open>
  C35: a creation that fails is not remembered, not even when it fails after the container is up, in its user
  commands: removing the sandbox then does nothing and reports success, so nothing takes the container down.
\<close>

theorem devcontainer_failed_create_forgotten:
  assumes "DevContainer_Create w b req s = (Inl e, s')" and "cs_boxes s i = None"
  shows "DevContainer_Delete w b i s' = (Inr (), s')"
proof -
  from Create_forgets assms(1) have "cs_boxes s' = cs_boxes s" unfolding forgets_failure_def by blast
  with assms(2) show ?thesis
    by (simp add: DevContainer_Delete_def cbind_def lookupSandbox_def cret_def)
qed

text \<open>The container comes up and its user commands fail.\<close>

definition broken_cli_world :: cli_world where
  "broken_cli_world = sample_cli_world\<lparr>cw_run := (\<lambda>calls call.
     if hd (cc_args call) = ''run-user-commands'' then (''postCreate failed'', Some (ExitError 1)) else (''{}'', None))\<rparr>"

lemma devcontainer_failed_create_forgotten_witness:
  "DevContainer_Delete broken_cli_world sample_dc ''sbx-devcontainer-r-1''
     (snd (DevContainer_Create broken_cli_world sample_dc sample_create fresh_cli))
   = (Inr (), snd (DevContainer_Create broken_cli_world sample_dc sample_create fresh_cli))"
proof -
  have "\<not> isl (fst (DevContainer_Create broken_cli_world sample_dc sample_create fresh_cli)) = False" by code_simp
  then obtain e where "DevContainer_Create broken_cli_world sample_dc sample_create fresh_cli
      = (Inl e, snd (DevContainer_Create broken_cli_world sample_dc sample_create fresh_cli))"
    by (cases "DevContainer_Create broken_cli_world sample_dc sample_create fresh_cli") (auto simp: isl_def)
  then show ?thesis by (rule devcontainer_failed_create_forgotten) (simp add: fresh_cli_def)
qed

section \<open>Starting a machine\<close>

text \<open>
  An error of the tool that says that the machine is not running counts as one that says that it is: the
  text is searched for the word only.
\<close>

lemma stopped_machine_counts_as_started:
  assumes "cw_run w (cs_calls s) \<lparr>cc_binary = orbb_ctl_binary b, cc_dir = [], cc_args = [''start'', i], cc_env = None\<rparr>
    = (''cannot start: machine is not running'', Some e)"
  shows "fst (Orb_Start w b i s) = Inr ()"
proof -
  have "contains_sub (to_lower (trim_space ''cannot start: machine is not running'')) ''running''"
    "trim_space ''cannot start: machine is not running'' \<noteq> []"
    by code_simp+
  with assms show ?thesis
    by (simp add: Orb_Start_def cbind_def ctry_def runCtl_def cli_output_def Let_def cret_def)
qed

end
