(* ===== verification/Backends.thy ===== *)
theory Backends
  imports Engine_Props Opensandbox_Facts Cli_Props
begin

text \<open>
  The engine on the backends of the code: the constructors that the factory calls, made from the models of the
  backends. The state of a backend is a function of the run's history. A backend that reports a sandbox under
  the identifier it was asked for keeps the hypothesis under which a run cleans up what it has created.
\<close>

section \<open>The constructors\<close>

text \<open>\<open>Start\<close> of the OpenSandbox backend always returns, by its deadline at the latest, so the branch for a loop that does not return is not taken.\<close>

definition os_outcome :: "'a osb \<Rightarrow> os_state \<Rightarrow> go_error option" where
  "os_outcome m s = (case fst (m s) of Inl e \<Rightarrow> Some e | Inr _ \<Rightarrow> None)"

definition opensandbox_sandbox_backend ::
  "os_world \<Rightarrow> os_backend \<Rightarrow> ('t \<Rightarrow> os_state) \<Rightarrow> 't sandbox_backend" where
  "opensandbox_sandbox_backend w b st =
     \<lparr>sbk_kind = BackendKindOpenSandbox, sbk_capabilities = (\<lambda>_. Inr OpenSandbox_Capabilities),
      sbk_runtime_info = (\<lambda>_. Inr (OpenSandbox_RuntimeInfo w b)),
      sbk_create = (\<lambda>tr req. fst (OpenSandbox_Create w b req (st tr))),
      sbk_start = (\<lambda>tr i. case OpenSandbox_Start w b i (st tr) of
         Some (e, _) \<Rightarrow> e | None \<Rightarrow> Some DeadlineExceeded),
      sbk_pause = (\<lambda>tr i. os_outcome (OpenSandbox_Pause w b i) (st tr)),
      sbk_delete = (\<lambda>tr i. os_outcome (OpenSandbox_Delete w b i) (st tr)),
      sbk_sync_in = Some (\<lambda>tr i d. os_outcome (OpenSandbox_SyncWorkspaceIn w b i d) (st tr)),
      sbk_sync_out = Some (\<lambda>tr i r d. os_outcome (OpenSandbox_SyncWorkspaceOut w b i r d) (st tr)),
      sbk_metadata = Some (\<lambda>tr i. fst (OpenSandbox_SandboxMetadata w b i (st tr))),
      sbk_endpoints = Some (\<lambda>tr i ports. fst (OpenSandbox_Endpoints w b i ports (st tr))),
      sbk_devcontainer = None,
      sbk_download = Some (\<lambda>tr i r l. os_outcome (OpenSandbox_DownloadArtifact w b i r l) (st tr))\<rparr>"

record 't backend_histories =
  bh_dc :: "'t \<Rightarrow> dc_sandbox cli_state"
  bh_apple :: "'t \<Rightarrow> apple_record cli_state"
  bh_orb :: "'t \<Rightarrow> sandbox_info cli_state"
  bh_os :: "'t \<Rightarrow> os_state"

definition with_backend :: "('b \<Rightarrow> 'c) \<Rightarrow> go_error + 'b \<Rightarrow> go_error + 'c" where
  "with_backend f r = (case r of Inl e \<Rightarrow> Inl e | Inr b \<Rightarrow> Inr (f b))"

definition code_backends :: "cli_world \<Rightarrow> os_world \<Rightarrow> 't backend_histories \<Rightarrow> 't backend_constructors" where
  "code_backends w ow h =
     \<lparr>bc_local = local_sandbox_backend (cw_host w),
      bc_devcontainer = (\<lambda>cfg. with_backend (\<lambda>b. dc_sandbox_backend w b (bh_dc h)) (NewDevContainerBackend w cfg)),
      bc_apple_container = (\<lambda>cfg. with_backend (\<lambda>b. apple_sandbox_backend w b (bh_apple h)) (NewAppleContainerBackend w cfg)),
      bc_orbstack_machine = (\<lambda>cfg. with_backend (\<lambda>b. orb_sandbox_backend w b (bh_orb h)) (NewOrbStackMachineBackend w cfg)),
      bc_opensandbox = (\<lambda>cfg. opensandbox_sandbox_backend ow (NewOpenSandboxBackend cfg) (bh_os h))\<rparr>"

section \<open>Backends that report the sandbox they were asked for\<close>

lemma local_keeps_id: "keeps_id (local_sandbox_backend h kind cfg)"
  by (simp add: keeps_id_def local_sandbox_backend_def Let_def)

lemma dc_keeps_id:
  assumes "\<And>tr. well_formed dc_own (st tr)" shows "keeps_id (dc_sandbox_backend w b st)"
  using assms
  by (auto simp: keeps_id_def dc_sandbox_backend_def DevContainer_SandboxMetadata_def known_sandbox_def cbind_def
      lookupSandbox_def cret_def cfail_def well_formed_def dc_own_def split: option.splits)

text \<open>What the tools do: asked about a container or a machine, they describe this one, or do not name it.\<close>

definition apple_describes :: "cli_world \<Rightarrow> bool" where
  "apple_describes w \<longleftrightarrow> (\<forall>calls call text item i. cw_run w calls call = (text, None) \<longrightarrow> cc_args call = [''inspect'', i] \<longrightarrow>
     described w text = Some item \<longrightarrow> firstString item [''id'', ''ID'', ''name'', ''Name''] \<in> {[], i})"

definition orb_describes :: "cli_world \<Rightarrow> bool" where
  "orb_describes w \<longleftrightarrow> (\<forall>calls call text item i. cw_run w calls call = (text, None) \<longrightarrow>
     cc_args call = [''info'', ''-f'', ''json'', i] \<longrightarrow> cw_json w text = Some (JObject item) \<longrightarrow>
     firstString item [''name'', ''Name'', ''id'', ''ID''] \<in> {[], i})"

definition provider_describes :: "os_world \<Rightarrow> bool" where
  "provider_describes w \<longleftrightarrow> (\<forall>c i h info. fst (GetSandbox (ow_codec w) c i h) = Inr info \<longrightarrow> osi_id info = i)"

lemma os_keeps_id: "provider_describes ow \<Longrightarrow> keeps_id (opensandbox_sandbox_backend ow b st)"
  by (auto simp: keeps_id_def opensandbox_sandbox_backend_def OpenSandbox_SandboxMetadata_def obind_def wrapped_def
      call_def oret_def mapSandboxInfo_def provider_describes_def split: sum.splits prod.splits)
    (metis fst_conv)

text \<open>What a computation gives when it succeeds in a state with \<open>P\<close>.\<close>

definition yields :: "('r cli_state \<Rightarrow> bool) \<Rightarrow> ('r, 'a) cli \<Rightarrow> ('a \<Rightarrow> bool) \<Rightarrow> bool" where
  "yields P m Q \<longleftrightarrow> (\<forall>s. P s \<longrightarrow> P (snd (m s)) \<and> (\<forall>x. fst (m s) = Inr x \<longrightarrow> Q x))"

lemma yields_keeps: "yields P m (\<lambda>_. True) \<longleftrightarrow> keeps_state P m"
  by (simp add: yields_def keeps_state_def)

lemma yields_cbind: "yields P m Q \<Longrightarrow> (\<And>x. Q x \<Longrightarrow> yields P (k x) R) \<Longrightarrow> yields P (cbind m k) R"
  by (fastforce simp: yields_def cbind_def split: prod.splits sum.splits)

lemma yields_intros:
  "Q x \<Longrightarrow> yields P (cret x) Q" "yields P (cfail e) Q"
  "yields P m Q \<Longrightarrow> yields P (cwrap f m) Q"
  "yields P m Q \<Longrightarrow> yields P (ctry m) (\<lambda>r. \<forall>x. r = Inr x \<longrightarrow> Q x)"
  by (fastforce simp: yields_def cret_def cfail_def cwrap_def ctry_def split: prod.splits sum.splits)+

lemma firstString_Nil [simp]: "firstString [] keys = []"
  by (induction keys) (simp_all add: member_def)

declare firstString.simps(2) [simp del]

lemma described_ids:
  "si_id (appleSandboxInfoFromMap item) = firstString item [''id'', ''ID'', ''name'', ''Name'']"
  "si_id (orbStackSandboxInfoFromMap item) = firstString item [''name'', ''Name'', ''id'', ''ID'']"
  by (simp_all add: appleSandboxInfoFromMap_def orbStackSandboxInfoFromMap_def Let_def)

lemma apple_inspect_id:
  assumes "apple_describes w"
  shows "yields (well_formed apple_own) (Apple_inspect w b i) (\<lambda>info. si_id info = i)"
proof -
  have call: "yields (well_formed apple_own) (Apple_runCLI w b [''inspect'', i])
      (\<lambda>text. \<forall>item. described w text = Some item \<longrightarrow> firstString item [''id'', ''ID'', ''name'', ''Name''] \<in> {[], i})"
    using assms
    by (auto simp: yields_def Apple_runCLI_def cli_output_def Let_def apple_describes_def split: prod.splits option.splits)
  have known: "yields (well_formed apple_own) (lookupSandbox i) (\<lambda>known. \<forall>rec. known = Some rec \<longrightarrow> si_id (acr_info rec) = i)"
    by (auto simp: yields_def lookupSandbox_def well_formed_def apple_own_def)
  show ?thesis
    unfolding Apple_inspect_def
  proof (rule yields_cbind [OF yields_intros(4) [OF call]], rule yields_cbind [OF known])
    fix r :: "go_error + string" and known :: "apple_record option"
    assume r: "\<forall>x. r = Inr x \<longrightarrow> (\<forall>item. described w x = Some item \<longrightarrow> firstString item [''id'', ''ID'', ''name'', ''Name''] \<in> {[], i})"
      and k: "\<forall>rec. known = Some rec \<longrightarrow> si_id (acr_info rec) = i"
    show "yields (well_formed apple_own)
      (case r of
         Inl e \<Rightarrow> (case known of Some rec \<Rightarrow> cret (acr_info rec)
           | None \<Rightarrow> cfail (wrapAppleContainerErr ErrorCodeAppleContainerExecFailed e))
       | Inr out \<Rightarrow> (case parseAppleContainerInspect w out of
           Some info \<Rightarrow> (let info = (if si_id info = [] then info\<lparr>si_id := i\<rparr> else info)
             in cret (case known of Some rec \<Rightarrow> named_image rec info | None \<Rightarrow> info))
         | None \<Rightarrow> cret (case known of Some rec \<Rightarrow> acr_info rec
             | None \<Rightarrow> zero_sandbox_info\<lparr>si_id := i, si_status := ''unknown''\<rparr>))) (\<lambda>info. si_id info = i)"
    proof (cases r)
      case (Inl e)
      with k show ?thesis by (cases known) (simp_all add: yields_intros)
    next
      case (Inr out)
      show ?thesis
      proof (cases "described w out")
        case None
        with Inr k show ?thesis by (cases known) (simp_all add: parseAppleContainerInspect_def yields_intros)
      next
        case (Some item)
        with Inr r have "firstString item [''id'', ''ID'', ''name'', ''Name''] \<in> {[], i}" by blast
        then have "si_id (appleSandboxInfoFromMap item) \<in> {[], i}" by (simp only: described_ids)
        with Inr Some show ?thesis
          by (cases known) (auto simp: parseAppleContainerInspect_def named_image_def Let_def intro!: yields_intros(1))
      qed
    qed
  qed
qed

lemma apple_keeps_id:
  assumes "apple_describes w" and "\<And>tr. well_formed apple_own (st tr)" shows "keeps_id (apple_sandbox_backend w b st)"
  using apple_inspect_id [OF assms(1)] assms(2)
  by (auto simp: keeps_id_def apple_sandbox_backend_def Apple_SandboxMetadata_def yields_def)

definition orb_own :: "string \<Rightarrow> sandbox_info \<Rightarrow> bool" where
  "orb_own i info \<longleftrightarrow> si_id info = i"

lemma find_Some: "find p xs = Some x \<Longrightarrow> p x"
  by (induction xs) (auto split: if_splits)

lemma machine_from_list_id: "yields (well_formed orb_own) (machine_from_list w b i err) (\<lambda>info. si_id info = i)"
proof -
  have from_list: "yields (well_formed orb_own) (ctry (runCtl w b args)) (\<lambda>_. True)" for args
    by (simp add: yields_keeps) (intro cli_steps)
  have known: "yields (well_formed orb_own) (lookupSandbox i) (\<lambda>known. \<forall>info. known = Some info \<longrightarrow> si_id info = i)"
    by (auto simp: yields_def lookupSandbox_def well_formed_def orb_own_def)
  have parsed: "si_id info = i" if "parseOrbStackMachineList w t i = Some info" for t info
    using that by (auto simp: parseOrbStackMachineList_def described_ids dest: find_Some
        split: option.splits json.splits)
  show ?thesis
    unfolding machine_from_list_def
    by (rule yields_cbind [OF from_list])
      (auto intro!: yields_intros yields_cbind [OF known] simp: parsed split: sum.split option.split)
qed

lemma machineInfo_id:
  assumes "orb_describes w"
  shows "yields (well_formed orb_own) (machineInfo w b i) (\<lambda>info. si_id info = i)"
proof -
  have call: "yields (well_formed orb_own) (runCtl w b [''info'', ''-f'', ''json'', i])
      (\<lambda>text. \<forall>item. cw_json w text = Some (JObject item) \<longrightarrow> firstString item [''name'', ''Name'', ''id'', ''ID''] \<in> {[], i})"
    using assms
    by (auto simp: yields_def runCtl_def cli_output_def Let_def orb_describes_def split: prod.splits option.splits)
  show ?thesis
    unfolding machineInfo_def
  proof (rule yields_cbind [OF yields_intros(4) [OF call]])
    fix r :: "go_error + string"
    assume r: "\<forall>x. r = Inr x \<longrightarrow> (\<forall>item. cw_json w x = Some (JObject item) \<longrightarrow>
      firstString item [''name'', ''Name'', ''id'', ''ID''] \<in> {[], i})"
    have parsed: "si_id info \<in> {[], i}" if "r = Inr out" "parseOrbStackMachineInfo w out = Some info" for out info
    proof -
      from that(2) obtain item where "info = orbStackSandboxInfoFromMap item"
        "cw_json w out = Some (JObject item) \<or> item = []"
        by (auto simp: parseOrbStackMachineInfo_def split: option.splits json.splits)
      with that(1) r show ?thesis
        by (auto simp: described_ids)
    qed
    show "yields (well_formed orb_own)
      (case r of
         Inl e \<Rightarrow> machine_from_list w b i (Some e)
       | Inr out \<Rightarrow> (case parseOrbStackMachineInfo w out of
           Some info \<Rightarrow> cret (if si_id info = [] then info\<lparr>si_id := i\<rparr> else info)
         | None \<Rightarrow> machine_from_list w b i None)) (\<lambda>info. si_id info = i)"
    proof (cases r)
      case (Inl e)
      then show ?thesis by (simp add: machine_from_list_id)
    next
      case (Inr out)
      then show ?thesis using parsed [OF Inr]
        by (cases "parseOrbStackMachineInfo w out") (auto simp: machine_from_list_id intro!: yields_intros(1))
    qed
  qed
qed

lemma orb_step_own:
  assumes "orb_describes w" "well_formed orb_own s"
  shows "well_formed orb_own (orb_step w b op s)"
proof -
  have found: "yields (well_formed orb_own) (found_or_created w b i) (\<lambda>info. si_id info = i)" for i
  proof -
    have made: "yields (well_formed orb_own) (runCtl w b args) (\<lambda>_. True)" for args
      by (simp add: yields_keeps) (intro cli_steps)
    show ?thesis
      unfolding found_or_created_def Let_def
      by (rule yields_cbind [OF yields_intros(4) [OF machineInfo_id [OF assms(1)]]])
        (auto intro!: yields_intros yields_cbind [OF made] machineInfo_id [OF assms(1)] split: sum.split)
  qed
  have start: "yields (well_formed orb_own) (Orb_Start w b i) (\<lambda>_. True)" for i
    by (simp add: yields_keeps) (rule keeps_Orb_Start)
  have store: "yields (well_formed orb_own) (storeSandbox i info) (\<lambda>_. True)" if "si_id info = i" for i info
    using that by (simp add: yields_keeps) (rule keeps_storeSandbox, simp add: orb_own_def)
  have "yields (well_formed orb_own) (Orb_Create w b req) (\<lambda>_. True)" for req
    unfolding Orb_Create_def Let_def
    by (rule yields_cbind [OF found], rule yields_cbind [OF start], rule yields_cbind [OF store]) (simp_all add: yields_intros)
  then have create: "keeps_state (well_formed orb_own) (Orb_Create w b req)" for req by (simp add: yields_keeps)
  have rest: "keeps_state (well_formed orb_own) (Orb_Exec w b i req)" "keeps_state (well_formed orb_own) (Orb_Stat w b i)"
    "keeps_state (well_formed orb_own) (Orb_SandboxMetadata w b i)"
    "keeps_state (well_formed orb_own) (Orb_StreamLogs i x)" "keeps_state (well_formed orb_own) (Orb_ExecStatus i x)"
    "keeps_state (well_formed orb_own) (Orb_CancelExec w i x)" "keeps_state (well_formed orb_own) (Orb_Upload w b i l r)"
    "keeps_state (well_formed orb_own) (Orb_Download w b i r l)" "keeps_state (well_formed orb_own) (Orb_Delete w b i)"
    for i x l r req
    unfolding Orb_Exec_def Orb_Stat_def Orb_SandboxMetadata_def Orb_StreamLogs_def Orb_ExecStatus_def Orb_CancelExec_def
      Orb_Upload_def Orb_Download_def Orb_Delete_def by (intro cli_steps)+
  show ?thesis
    using assms(2) create rest keeps_Orb_Start [of orb_own w b] by (cases op) (auto simp: keeps_state_def)
qed

lemma orb_keeps_id:
  assumes "orb_describes w" and "\<And>tr. well_formed orb_own (st tr)" shows "keeps_id (orb_sandbox_backend w b st)"
  using machineInfo_id [OF assms(1)] assms(2)
  by (auto simp: keeps_id_def orb_sandbox_backend_def Orb_SandboxMetadata_def yields_def)

section \<open>A run on the code's backends\<close>

text \<open>Each backend is in a state that it reaches by its operations.\<close>

definition reached :: "cli_world \<Rightarrow> dc_backend \<Rightarrow> apple_backend \<Rightarrow> orb_backend \<Rightarrow> 't backend_histories \<Rightarrow> bool" where
  "reached w bd ba bo h \<longleftrightarrow> (\<forall>tr. cli_reachable (dc_step w bd) (bh_dc h tr) \<and> cli_reachable (apple_step w ba) (bh_apple h tr)
     \<and> cli_reachable (orb_step w bo) (bh_orb h tr))"

lemma code_backends_keep_id:
  assumes "ew_backends ew = code_backends w ow h" and "reached w bd ba bo h"
    and "apple_describes w" and "orb_describes w" and "provider_describes ow" and "factory_made ew b"
  shows "keeps_id b"
proof -
  have wf: "well_formed dc_own (bh_dc h tr)" "well_formed apple_own (bh_apple h tr)" "well_formed orb_own (bh_orb h tr)" for tr
    using assms(2,4) reachable_well_formed [of dc_own "dc_step w bd"] dc_step_wf
      reachable_well_formed [of apple_own "apple_step w ba"] apple_step_wf reachable_well_formed [of orb_own "orb_step w bo"] orb_step_own
    by (auto simp: reached_def)
  from assms(6) obtain resolution cfg where "backend_New (code_backends w ow h) resolution cfg = Inr b"
    by (auto simp: factory_made_def assms(1))
  then show ?thesis
    using local_keeps_id dc_keeps_id [OF wf(1)] apple_keeps_id [OF assms(3) wf(2)] orb_keeps_id [OF assms(4) wf(3)]
      os_keeps_id [OF assms(5)]
    by (auto simp: backend_New_def code_backends_def with_backend_def Let_def split: if_splits sum.splits)
qed


text \<open>A provider that reads the identifier back from the path of the request.\<close>

definition echo_os_world :: os_world where
  "echo_os_world = sample_os_world\<lparr>ow_codec := (ow_codec sample_os_world)\<lparr>
     cx_do := (\<lambda>h q. Inr \<lparr>hp_status = 200, hp_status_text = ''200 OK'', hp_headers = [], hp_body = hq_url q\<rparr>),
     cx_sandbox := (\<lambda>b. Inr \<lparr>osi_id = PathUnescape (last (split_on CHR ''/'' b)), osi_state = ''Running'',
       osi_reason = [], osi_message = [], osi_metadata = []\<rparr>)\<rparr>\<rparr>"

lemma last_segment: "last (split_on CHR ''/'' (s @ CHR ''/'' # PathEscape i)) = PathEscape i"
proof -
  have "CHR ''/'' \<notin> set (PathEscape i)" using PathEscape_segment [of i] by auto
  then show ?thesis by (simp add: split_on_slash split_on_free)
qed

lemma echo_describes: "provider_describes echo_os_world"
proof -
  have sent: "do_attempts (ow_codec echo_os_world) n m q h =
      (Inr \<lparr>hp_status = 200, hp_status_text = ''200 OK'', hp_headers = [], hp_body = hq_url q\<rparr>, h @ [q])" for n m q h
    by (simp add: do_attempts.simps echo_os_world_def)
  have path: "last (split_on CHR ''/'' (u @ sandbox_path i)) = PathEscape i" for u i
    using last_segment [of "u @ ''/v1/sandboxes''" i] by (simp add: sandbox_path_def)
  have "cx_sandbox (ow_codec echo_os_world) b = Inr \<lparr>osi_id = PathUnescape (last (split_on CHR ''/'' b)),
      osi_state = ''Running'', osi_reason = [], osi_message = [], osi_metadata = []\<rparr>" for b
    by (simp add: echo_os_world_def)
  with sent path PathEscape_segment show ?thesis
    by (auto simp: provider_describes_def GetSandbox_def doJSON_def doJSONAbsolute_def doRaw_def hbind_def hret_def hfail_def
        decode_with_def split: if_splits)
qed

definition fresh_histories :: "'t backend_histories" where
  "fresh_histories = \<lparr>bh_dc = (\<lambda>_. fresh_cli), bh_apple = (\<lambda>_. fresh_cli), bh_orb = (\<lambda>_. fresh_cli),
     bh_os = (\<lambda>_. fresh_os_state)\<rparr>"

definition code_world :: engine_world where
  "code_world = (example_world 0)\<lparr>ew_backends := code_backends sample_cli_world echo_os_world fresh_histories\<rparr>"

definition code_run :: "run_state \<times> go_error option" where
  "code_run = engine_Run code_world (example_request opensandbox_execution)"


end
