(* ===== verification/Go_Url.thy ===== *)
theory Go_Url
  imports Opensandbox_Client
begin

text \<open>
  What the program uses of Go's \<open>net/url\<close>: parsing a URL with \<open>url.Parse\<close>, its parts, and writing it with
  \<open>String\<close>. Bytes are characters; the zone of a bracketed address is taken as a part of the host.
\<close>

section \<open>Escaping\<close>

datatype escape_mode = EncodePath | EncodeHost | EncodeUser | EncodeFragment

definition should_escape :: "escape_mode \<Rightarrow> char \<Rightarrow> bool" where
  "should_escape mode c =
     (if is_upper c \<or> is_lower c \<or> is_digit c then False
      else if mode = EncodeHost \<and> c \<in> set ''!$&()*+,;=:[]<>'' \<union> {CHR 0x22, CHR 0x27} then False
      else if c \<in> set ''-_.~'' then False
      else if c \<in> set ''$&+,/:;=?@'' then
        (case mode of EncodePath \<Rightarrow> c = CHR ''?'' | EncodeUser \<Rightarrow> c \<in> set ''@/?:'' | EncodeFragment \<Rightarrow> False
         | EncodeHost \<Rightarrow> True)
      else \<not> (mode = EncodeFragment \<and> c \<in> set ''!()*''))"

definition url_escape :: "escape_mode \<Rightarrow> string \<Rightarrow> string" where
  "url_escape mode s = concat (map (\<lambda>c. if should_escape mode c then percent c else [c]) s)"

definition url_hex :: "char \<Rightarrow> nat option" where
  "url_hex c =
     (let n = of_char c :: nat in
      if is_digit c then Some (n - 48)
      else if 97 \<le> n \<and> n \<le> 102 then Some (n - 87)
      else if 65 \<le> n \<and> n \<le> 70 then Some (n - 55)
      else None)"

text \<open>
  A percent sign needs two hexadecimal digits after it; in a host only bytes above 127 and the percent sign
  may be escaped, and a byte that would need escaping must be.
\<close>

fun url_unescape :: "escape_mode \<Rightarrow> string \<Rightarrow> string option" where
  "url_unescape mode [] = Some []"
| "url_unescape mode (c # s) =
     (if c = CHR 0x25 then
        (case s of
           a # b # rest \<Rightarrow> (case (url_hex a, url_hex b) of
               (Some x, Some y) \<Rightarrow>
                 if mode = EncodeHost \<and> x < 8 \<and> \<not> (x = 2 \<and> y = 5) then None
                 else map_option ((#) (char_of (16 * x + y))) (url_unescape mode rest)
             | _ \<Rightarrow> None)
         | _ \<Rightarrow> None)
      else if mode = EncodeHost \<and> (of_char c :: nat) < 128 \<and> should_escape mode c then None
      else map_option ((#) c) (url_unescape mode s))"

text \<open>\<open>validEncoded\<close>: the text may stand for itself.\<close>

definition valid_encoded :: "escape_mode \<Rightarrow> string \<Rightarrow> bool" where
  "valid_encoded mode s \<longleftrightarrow> list_all (\<lambda>c. c \<in> set ''!$&()*+,;=:@[]'' \<union> {CHR 0x25, CHR 0x27} \<or> \<not> should_escape mode c) s"

section \<open>The parts of a URL\<close>

text \<open>\<open>u_raw_path\<close> and \<open>u_raw_fragment\<close> are as they were written; empty when the plain escaping gives the same.\<close>

record go_url =
  u_scheme :: string
  u_opaque :: string
  u_user :: "(string \<times> string option) option"
  u_host :: string
  u_path :: string
  u_raw_path :: string
  u_omit_host :: bool
  u_force_query :: bool
  u_query :: string
  u_fragment :: string
  u_raw_fragment :: string

definition empty_url :: go_url where
  "empty_url = \<lparr>u_scheme = [], u_opaque = [], u_user = None, u_host = [], u_path = [], u_raw_path = [],
     u_omit_host = False, u_force_query = False, u_query = [], u_fragment = [], u_raw_fragment = []\<rparr>"

text \<open>\<open>strings.Cut\<close>: the text before the first separator, and the text after it.\<close>

definition cut :: "char \<Rightarrow> string \<Rightarrow> string \<times> string" where
  "cut c s = (takeWhile (\<lambda>x. x \<noteq> c) s, tl (dropWhile (\<lambda>x. x \<noteq> c) s))"

text \<open>\<open>getScheme\<close>: \<open>None\<close> for a URL that begins with a colon.\<close>

definition scheme_char :: "char \<Rightarrow> bool" where
  "scheme_char c \<longleftrightarrow> is_upper c \<or> is_lower c \<or> is_digit c \<or> c \<in> set ''+-.''"

definition get_scheme :: "string \<Rightarrow> (string \<times> string) option" where
  "get_scheme s =
     (let front = takeWhile scheme_char s; rest = dropWhile scheme_char s in
      case (front, rest) of
        ([], CHR '':'' # _) \<Rightarrow> None
      | (c # _, CHR '':'' # rest') \<Rightarrow> if is_upper c \<or> is_lower c then Some (front, rest') else Some ([], s)
      | _ \<Rightarrow> Some ([], s))"

definition valid_optional_port :: "string \<Rightarrow> bool" where
  "valid_optional_port port = (case port of [] \<Rightarrow> True | c # digits \<Rightarrow> c = CHR '':'' \<and> list_all is_digit digits)"

text \<open>The text from the last occurrence of a character on, and the text before it.\<close>

definition from_last :: "char \<Rightarrow> string \<Rightarrow> string" where
  "from_last c s = (if c \<in> set s then c # rev (takeWhile (\<lambda>x. x \<noteq> c) (rev s)) else [])"

definition before_last :: "char \<Rightarrow> string \<Rightarrow> string" where
  "before_last c s = take (length s - length (from_last c s)) s"

definition parse_host :: "string \<Rightarrow> string option" where
  "parse_host host =
     (if has_prefix host ''['' then
        (if CHR '']'' \<notin> set host \<or> \<not> valid_optional_port (tl (from_last CHR '']'' host)) then None
         else url_unescape EncodeHost host)
      else if valid_optional_port (from_last CHR '':'' host) then url_unescape EncodeHost host
      else None)"

definition userinfo_char :: "char \<Rightarrow> bool" where
  "userinfo_char c \<longleftrightarrow> is_upper c \<or> is_lower c \<or> is_digit c \<or> c \<in> set ''-._:~!$&()*+,;=@'' \<union> {CHR 0x25, CHR 0x27}"

definition parse_user :: "string \<Rightarrow> (string \<times> string option) option" where
  "parse_user s =
     (if \<not> list_all userinfo_char s then None
      else if CHR '':'' \<notin> set s then map_option (\<lambda>u. (u, None)) (url_unescape EncodeUser s)
      else (let (name, password) = cut CHR '':'' s in
        case (url_unescape EncodeUser name, url_unescape EncodeUser password) of
          (Some u, Some p) \<Rightarrow> Some (u, Some p)
        | _ \<Rightarrow> None))"

definition set_path :: "string \<Rightarrow> go_url \<Rightarrow> go_url option" where
  "set_path p u =
     (case url_unescape EncodePath p of
        None \<Rightarrow> None
      | Some path \<Rightarrow> Some (u\<lparr>u_path := path, u_raw_path := (if url_escape EncodePath path = p then [] else p)\<rparr>))"

definition set_fragment :: "string \<Rightarrow> go_url \<Rightarrow> go_url option" where
  "set_fragment f u =
     (case url_unescape EncodeFragment f of
        None \<Rightarrow> None
      | Some frag \<Rightarrow> Some (u\<lparr>u_fragment := frag,
          u_raw_fragment := (if url_escape EncodeFragment frag = f then [] else f)\<rparr>))"

text \<open>The authority after \<open>//\<close>.\<close>

definition parse_authority :: "string \<Rightarrow> go_url \<Rightarrow> go_url option" where
  "parse_authority authority u =
     (case parse_host (if CHR ''@'' \<in> set authority then tl (from_last CHR ''@'' authority) else authority) of
        None \<Rightarrow> None
      | Some host \<Rightarrow>
          if CHR ''@'' \<notin> set authority then Some (u\<lparr>u_host := host\<rparr>)
          else map_option (\<lambda>user. u\<lparr>u_host := host, u_user := Some user\<rparr>)
            (parse_user (before_last CHR ''@'' authority)))"

definition parse_hier :: "string \<Rightarrow> go_url \<Rightarrow> go_url option" where
  "parse_hier rest u =
     (if \<not> has_prefix rest ''/'' \<and> u_scheme u \<noteq> [] then Some (u\<lparr>u_opaque := rest\<rparr>)
      else if \<not> has_prefix rest ''/'' \<and> CHR '':'' \<in> set (fst (cut CHR ''/'' rest)) then None
      else if (u_scheme u \<noteq> [] \<or> \<not> has_prefix rest ''///'') \<and> has_prefix rest ''//'' then
        (let authority = takeWhile (\<lambda>c. c \<noteq> CHR ''/'') (drop 2 rest); path = dropWhile (\<lambda>c. c \<noteq> CHR ''/'') (drop 2 rest) in
         case parse_authority authority u of None \<Rightarrow> None | Some u' \<Rightarrow> set_path path u')
      else set_path rest (u\<lparr>u_omit_host := (u_scheme u \<noteq> [] \<and> has_prefix rest ''/'')\<rparr>))"

definition parse_query :: "string \<Rightarrow> go_url \<Rightarrow> string \<times> go_url" where
  "parse_query rest u =
     (if has_suffix rest ''?'' \<and> length (filter (\<lambda>c. c = CHR ''?'') rest) = 1
      then (butlast rest, u\<lparr>u_force_query := True\<rparr>)
      else (let (front, query) = cut CHR ''?'' rest in (front, u\<lparr>u_query := query\<rparr>)))"

text \<open>\<open>url.Parse\<close>; \<open>None\<close> is its error.\<close>

definition url_Parse :: "string \<Rightarrow> go_url option" where
  "url_Parse rawURL =
     (let (u, frag) = cut CHR ''#'' rawURL in
      if list_ex (\<lambda>c. (of_char c :: nat) < 32 \<or> c = CHR 0x7F) u then None
      else if u = ''*'' then set_fragment frag (empty_url\<lparr>u_path := ''*''\<rparr>)
      else (case get_scheme u of
          None \<Rightarrow> None
        | Some (sch, rest) \<Rightarrow>
            (let (rest', url) = parse_query rest (empty_url\<lparr>u_scheme := to_lower sch\<rparr>) in
             case parse_hier rest' url of None \<Rightarrow> None | Some url' \<Rightarrow>
               if frag = [] then Some url' else set_fragment frag url')))"

section \<open>Writing a URL\<close>

definition escaped_path :: "go_url \<Rightarrow> string" where
  "escaped_path u =
     (if u_raw_path u \<noteq> [] \<and> valid_encoded EncodePath (u_raw_path u)
         \<and> url_unescape EncodePath (u_raw_path u) = Some (u_path u) then u_raw_path u
      else if u_path u = ''*'' then ''*'' else url_escape EncodePath (u_path u))"

definition escaped_fragment :: "go_url \<Rightarrow> string" where
  "escaped_fragment u =
     (if u_raw_fragment u \<noteq> [] \<and> valid_encoded EncodeFragment (u_raw_fragment u)
         \<and> url_unescape EncodeFragment (u_raw_fragment u) = Some (u_fragment u) then u_raw_fragment u
      else url_escape EncodeFragment (u_fragment u))"

definition user_string :: "string \<times> string option \<Rightarrow> string" where
  "user_string user = url_escape EncodeUser (fst user)
     @ (case snd user of None \<Rightarrow> [] | Some p \<Rightarrow> '':'' @ url_escape EncodeUser p)"

definition url_origin :: "go_url \<Rightarrow> string" where
  "url_origin u =
     (if u_scheme u \<noteq> [] then u_scheme u @ '':'' else [])
     @ (if u_opaque u \<noteq> [] then u_opaque u
        else if (u_scheme u \<noteq> [] \<or> u_host u \<noteq> [] \<or> u_user u \<noteq> None)
          \<and> \<not> (u_omit_host u \<and> u_host u = [] \<and> u_user u = None)
          \<and> (u_host u \<noteq> [] \<or> u_path u \<noteq> [] \<or> u_user u \<noteq> None)
        then ''//'' @ (case u_user u of None \<Rightarrow> [] | Some user \<Rightarrow> user_string user @ ''@'') @ url_escape EncodeHost (u_host u)
        else [])"

definition url_String :: "go_url \<Rightarrow> string" where
  "url_String u =
     (let front = url_origin u; path = escaped_path u in
      front
      @ (if u_opaque u \<noteq> [] then []
         else (if path \<noteq> [] \<and> \<not> has_prefix path ''/'' \<and> u_host u \<noteq> [] then ''/'' else [])
           @ (if front = [] \<and> CHR '':'' \<in> set (fst (cut CHR ''/'' path)) then ''./'' else [])
           @ path)
      @ (if u_force_query u \<or> u_query u \<noteq> [] then ''?'' @ u_query u else [])
      @ (if u_fragment u \<noteq> [] then ''#'' @ escaped_fragment u else []))"

end
