(* ===== verification/Kubernetes.thy ===== *)
theory Kubernetes
  imports Go_Url Platform
begin

text \<open>
  \<open>internal/kubernetes\<close> and \<open>pkg/sdk\<close>: the job and the config map that submit a run to a cluster, and the client
  that sends them. What the cluster's libraries do (loading a kubeconfig, the transport) is a field of the
  world; the marshalled bodies are kept as the values that they stand for.
\<close>

section \<open>The objects\<close>

record kube_container =
  kc_name :: string
  kc_image :: string
  kc_pull_policy :: string
  kc_command :: "string list"
  kc_env :: "(string \<times> string) list"
  kc_mounts :: "(string \<times> string) list"
  kc_requests :: env
  kc_limits :: env

datatype volume_source = EmptyDirSource | ConfigMapSource string

record kube_job =
  kj_api_version :: string
  kj_kind :: string
  kj_name :: string
  kj_namespace :: string
  kj_labels :: env
  kj_ttl :: int
  kj_backoff_limit :: int
  kj_pod_labels :: env
  kj_restart_policy :: string
  kj_service_account :: string
  kj_runtime_class :: "string option"
  kj_containers :: "kube_container list"
  kj_volumes :: "(string \<times> volume_source) list"

record kube_config_map =
  kcm_api_version :: string
  kcm_kind :: string
  kcm_name :: string
  kcm_namespace :: string
  kcm_data :: env

section \<open>Building them\<close>

definition configMapName :: "string \<Rightarrow> string" where
  "configMapName runID = (if runID = [] then ''sandbox-runner-config'' else ''sandbox-runner-config-'' @ runID)"

definition defaultImage :: "run_request \<Rightarrow> string" where
  "defaultImage req =
     (let img = rs_image (cfg_run (rq_run_config req))
      in if img \<noteq> [] then img else ''registry.company.internal/ai/sandbox-runner:latest'')"

definition runtimeClassName :: "run_request \<Rightarrow> string option" where
  "runtimeClassName req =
     (let cfg = rq_run_config req; value = RuntimeClassNameForConfig cfg in
      if \<not> RequiresRuntimeClass (ExecutionRuntimeProfileForConfig cfg) \<or> value = [] then None else Some value)"

definition kube_backendProvider :: "run_config \<Rightarrow> string" where
  "kube_backendProvider cfg =
     (let kind = bk_kind (cfg_backend cfg) in
      if ex_provider (cfg_execution cfg) \<noteq> [] then ex_provider (cfg_execution cfg)
      else if kind = BackendKindDocker then
        (if dk_provider (cfg_docker cfg) = DockerProviderOrbStack then ''orbstack'' else ''docker'')
      else if kind = BackendKindK8s then ExecutionProviderForK8sProvider (k8_provider (cfg_k8s cfg))
      else if kind = BackendKindDirect then ''native''
      else if kind = BackendKindOrbStackMachine then ''orbstack''
      else kind)"

definition serviceAccountName :: "run_request \<Rightarrow> string" where
  "serviceAccountName req =
     (let name = k8_service_account_name (cfg_k8s (rq_run_config req)) in if name \<noteq> [] then name else ''default'')"

text \<open>The quantities of \<open>BuildJob\<close> are constants that parse.\<close>

definition resourceList :: "string \<Rightarrow> string \<Rightarrow> env" where
  "resourceList cpu memory = [(''cpu'', cpu), (''memory'', memory)]"

definition job_command :: "string list \<Rightarrow> string list" where
  "job_command command =
     [''/usr/local/bin/sandbox-runner'', ''run'', ''--config'', ''/etc/sandbox/run.yaml'', ''--policy'',
      ''/etc/sandbox/policy.yaml'', ''--''] @ command"

definition BuildJob :: "run_request \<Rightarrow> string \<Rightarrow> kube_job" where
  "BuildJob req namespace =
     (let cfg = rq_run_config req; runID = rs_run_id (cfg_run cfg); attempt = itoa (rs_attempt (cfg_run cfg));
          provider = kube_backendProvider cfg;
          labels = [(''app'', ''sandbox-runner''), (''run_id'', runID), (''attempt'', attempt),
            (''backend_kind'', bk_kind (cfg_backend cfg)), (''backend_provider'', provider),
            (''runtime_profile'', rt_profile (cfg_runtime cfg))]
      in \<lparr>kj_api_version = ''batch/v1'', kj_kind = ''Job'', kj_name = ''sandbox-runner-'' @ runID,
          kj_namespace = namespace, kj_labels = labels, kj_ttl = 1800, kj_backoff_limit = 0, kj_pod_labels = labels,
          kj_restart_policy = ''Never'', kj_service_account = serviceAccountName req,
          kj_runtime_class = runtimeClassName req,
          kj_containers = [\<lparr>kc_name = ''runner'', kc_image = defaultImage req, kc_pull_policy = ''IfNotPresent'',
            kc_command = job_command (rs_command (cfg_run cfg)),
            kc_env = [(''RUN_ID'', runID), (''ATTEMPT'', attempt), (''SANDBOX_ID'', rs_sandbox_id (cfg_run cfg)),
              (''BACKEND_KIND'', bk_kind (cfg_backend cfg)), (''BACKEND_PROVIDER'', provider),
              (''RUNTIME_PROFILE'', rt_profile (cfg_runtime cfg))],
            kc_mounts = [(''workspace'', ''/workspace''), (''run-config'', ''/etc/sandbox'')],
            kc_requests = resourceList ''1'' ''2Gi'', kc_limits = resourceList ''4'' ''8Gi''\<rparr>],
          kj_volumes = [(''workspace'', EmptyDirSource), (''run-config'', ConfigMapSource (configMapName runID))]\<rparr>)"

text \<open>The configuration that the config map holds, and the config map; \<open>marshal_run\<close> and \<open>marshal_policy\<close> are \<open>yaml.Marshal\<close>.\<close>

definition in_cluster_config :: "run_config \<Rightarrow> run_config" where
  "in_cluster_config cfg =
     (if ex_backend (cfg_execution cfg) = ExecutionBackendK8s \<or> bk_kind (cfg_backend cfg) = BackendKindK8s
      then cfg\<lparr>cfg_k8s := (cfg_k8s cfg)\<lparr>k8_kubeconfig := [], k8_context := []\<rparr>\<rparr> else cfg)"

definition BuildConfigMap ::
  "(run_config \<Rightarrow> go_error + string) \<Rightarrow> (policy_config \<Rightarrow> go_error + string) \<Rightarrow> run_request \<Rightarrow> string
     \<Rightarrow> go_error + kube_config_map" where
  "BuildConfigMap marshal_run marshal_policy req namespace =
     (case marshal_run (in_cluster_config (rq_run_config req)) of
        Inl e \<Rightarrow> Inl e
      | Inr runYAML \<Rightarrow> (case marshal_policy (rq_policy req) of
            Inl e \<Rightarrow> Inl e
          | Inr policyYAML \<Rightarrow> Inr \<lparr>kcm_api_version = ''v1'', kcm_kind = ''ConfigMap'',
              kcm_name = configMapName (rs_run_id (cfg_run (rq_run_config req))), kcm_namespace = namespace,
              kcm_data = [(''run.yaml'', runYAML), (''policy.yaml'', policyYAML)]\<rparr>))"

text \<open>\<open>RenderJobYAML\<close> and \<open>RenderConfigMapYAML\<close>: \<open>yaml.Marshal\<close> with its error.\<close>

definition RenderJobYAML :: "(kube_job \<Rightarrow> go_error + string) \<Rightarrow> kube_job \<Rightarrow> go_error + string" where
  "RenderJobYAML marshal job = marshal job"

definition RenderConfigMapYAML :: "(kube_config_map \<Rightarrow> go_error + string) \<Rightarrow> kube_config_map \<Rightarrow> go_error + string" where
  "RenderConfigMapYAML marshal cm = marshal cm"

section \<open>Finding the cluster\<close>

record rest_config =
  rcf_host :: string
  rcf_bearer_token :: string
  rcf_ca_file :: string
  rcf_insecure :: bool
  rcf_timeout :: int

datatype stat_result = Present | Absent | StatError go_error

datatype kube_body = NoKubeBody | JobBody kube_job | ConfigMapBody kube_config_map

record kube_request =
  kq_method :: string
  kq_url :: string
  kq_headers :: env
  kq_body :: kube_body

record kube_response =
  kp_status :: int
  kp_status_text :: string
  kp_body :: string

text \<open>
  \<open>kw_in_cluster\<close> is \<open>rest.InClusterConfig\<close>, \<open>kw_client_config\<close> the loading of a kubeconfig file with a context,
  \<open>kw_transport\<close> the error of \<open>rest.TransportFor\<close>, \<open>kw_do\<close> the server, which knows the requests before.
\<close>

record kube_world =
  kw_host :: host
  kw_in_cluster :: "rest_config option"
  kw_client_config :: "string \<Rightarrow> string \<Rightarrow> go_error + rest_config"
  kw_stat :: "string \<Rightarrow> stat_result"
  kw_read :: "string \<Rightarrow> go_error + string"
  kw_transport :: "rest_config \<Rightarrow> go_error option"
  kw_user_agent :: string
  kw_do :: "kube_request list \<Rightarrow> kube_request \<Rightarrow> go_error + kube_response"
  kw_decode_job :: "string \<Rightarrow> go_error + kube_job"
  kw_decode_config_map :: "string \<Rightarrow> go_error + kube_config_map"

definition inClusterTokenPath :: string where
  "inClusterTokenPath = ''/var/run/secrets/kubernetes.io/serviceaccount/token''"

definition inClusterCAPath :: string where
  "inClusterCAPath = ''/var/run/secrets/kubernetes.io/serviceaccount/ca.crt''"

text \<open>\<open>net.JoinHostPort\<close>.\<close>

definition JoinHostPort :: "string \<Rightarrow> string \<Rightarrow> string" where
  "JoinHostPort h port = (if CHR '':'' \<in> set h then ''['' @ h @ '']:'' @ port else h @ '':'' @ port)"

text \<open>\<open>None\<close> when there is no service account.\<close>

definition serviceAccountRESTConfig :: "kube_world \<Rightarrow> (go_error + rest_config) option" where
  "serviceAccountRESTConfig w =
     (case kw_stat w inClusterTokenPath of
        Absent \<Rightarrow> None
      | StatError e \<Rightarrow> Some (Inl e)
      | Present \<Rightarrow> Some (case kw_read w inClusterTokenPath of
            Inl e \<Rightarrow> Inl e
          | Inr token \<Rightarrow>
              (let h = trim_space (os_getenv (kw_host w) ''KUBERNETES_SERVICE_HOST'');
                   port = trim_space (os_getenv (kw_host w) ''KUBERNETES_SERVICE_PORT'');
                   cfg = \<lparr>rcf_host = ''https://'' @ JoinHostPort (if h = [] then ''kubernetes.default.svc'' else h)
                       (if port = [] then ''443'' else port),
                     rcf_bearer_token = trim_space token, rcf_ca_file = [], rcf_insecure = False, rcf_timeout = 0\<rparr>
               in case kw_stat w inClusterCAPath of
                    Present \<Rightarrow> Inr (cfg\<lparr>rcf_ca_file := inClusterCAPath\<rparr>)
                  | StatError e \<Rightarrow> Inl e
                  | Absent \<Rightarrow> Inr (cfg\<lparr>rcf_insecure := True\<rparr>))))"

definition load_kubeconfig :: "kube_world \<Rightarrow> string \<Rightarrow> string \<Rightarrow> go_error + rest_config" where
  "load_kubeconfig w kubeconfig contextName =
     (case kw_client_config w (KubeconfigPath (kw_host w) kubeconfig) contextName of
        Inl e \<Rightarrow> Inl (WrapError ''build kube config: '' e) | Inr cfg \<Rightarrow> Inr cfg)"

definition RESTConfig :: "kube_world \<Rightarrow> string \<Rightarrow> string \<Rightarrow> go_error + rest_config" where
  "RESTConfig w kubeconfig contextName =
     (if kubeconfig = [] then
        (case kw_in_cluster w of
           Some cfg \<Rightarrow> Inr cfg
         | None \<Rightarrow> (case serviceAccountRESTConfig w of
               Some (Inl e) \<Rightarrow> Inl (WrapError ''build in-cluster config: '' e)
             | Some (Inr cfg) \<Rightarrow> Inr cfg
             | None \<Rightarrow> load_kubeconfig w kubeconfig contextName))
      else load_kubeconfig w kubeconfig contextName)"

section \<open>The client\<close>

record kube_client =
  kcl_base :: go_url
  kcl_timeout :: int
  kcl_user_agent :: string

definition url_error :: "string \<Rightarrow> go_error" where
  "url_error u = ErrorText (''parse '' @ u)"

text \<open>\<open>http.DefaultClient\<close> has no timeout.\<close>

definition newClientFromRESTConfig :: "kube_world \<Rightarrow> rest_config \<Rightarrow> go_error + kube_client" where
  "newClientFromRESTConfig w cfg =
     (case kw_transport w cfg of
        Some e \<Rightarrow> Inl (WrapError ''build kube transport: '' e)
      | None \<Rightarrow> (let host = trim_right (\<lambda>c. c = CHR ''/'') (rcf_host cfg) in
          case url_Parse host of
            None \<Rightarrow> Inl (WrapError ''parse kube host: '' (url_error host))
          | Some base \<Rightarrow> Inr \<lparr>kcl_base = base, kcl_timeout = (if rcf_timeout cfg \<le> 0 then 0 else rcf_timeout cfg),
              kcl_user_agent = kw_user_agent w\<rparr>))"

definition NewClient :: "kube_world \<Rightarrow> string \<Rightarrow> string \<Rightarrow> go_error + kube_client" where
  "NewClient w kubeconfig contextName =
     (case RESTConfig w kubeconfig contextName of Inl e \<Rightarrow> Inl e | Inr cfg \<Rightarrow> newClientFromRESTConfig w cfg)"

definition trim_slashes :: "string \<Rightarrow> string" where
  "trim_slashes s = trim_right (\<lambda>c. c = CHR ''/'') (trim_left (\<lambda>c. c = CHR ''/'') s)"

definition resourceURL :: "kube_client \<Rightarrow> string \<Rightarrow> string list \<Rightarrow> string" where
  "resourceURL c front segments =
     url_String ((kcl_base c)\<lparr>u_path :=
       ''/'' @ path_join (trim_slashes (u_path (kcl_base c)) # trim_slashes front # segments)\<rparr>)"

type_synonym 'a kube = "kube_request list \<Rightarrow> (go_error + 'a) \<times> kube_request list"

definition kret :: "'a \<Rightarrow> 'a kube" where "kret x = (\<lambda>h. (Inr x, h))"
definition kfail :: "go_error \<Rightarrow> 'a kube" where "kfail e = (\<lambda>h. (Inl e, h))"

definition kbind :: "'a kube \<Rightarrow> ('a \<Rightarrow> 'b kube) \<Rightarrow> 'b kube" where
  "kbind m k = (\<lambda>h. case m h of (Inl e, h') \<Rightarrow> (Inl e, h') | (Inr x, h') \<Rightarrow> k x h')"

text \<open>\<open>httpClient.Do\<close>; a URL made from one that was parsed is parsed again without an error.\<close>

definition kube_send :: "kube_world \<Rightarrow> string \<Rightarrow> kube_request \<Rightarrow> kube_response kube" where
  "kube_send w action q = (\<lambda>h. (case kw_do w h q of
       Inl e \<Rightarrow> Inl (WrapError (action @ '': '') e) | Inr r \<Rightarrow> Inr r, h @ [q]))"

definition agent_header :: "kube_client \<Rightarrow> env" where
  "agent_header c = (if kcl_user_agent c \<noteq> [] then [(''User-Agent'', kcl_user_agent c)] else [])"

definition write_headers :: "kube_client \<Rightarrow> env" where
  "write_headers c = [(''Accept'', ''application/json''), (''Content-Type'', ''application/json'')] @ agent_header c"

text \<open>The error of a response; its body is read up to 4096 bytes.\<close>

definition status_error :: "string \<Rightarrow> kube_response \<Rightarrow> go_error" where
  "status_error action r =
     ErrorText (action @ '': '' @ kp_status_text r @ '': '' @ trim_space (take 4096 (kp_body r)))"

definition kube_ok :: "kube_response \<Rightarrow> bool" where
  "kube_ok r \<longleftrightarrow> 200 \<le> kp_status r \<and> kp_status r < 300"

definition decoded :: "string \<Rightarrow> (string \<Rightarrow> go_error + 'a) \<Rightarrow> kube_response \<Rightarrow> 'a kube" where
  "decoded what f r = (case f (kp_body r) of
     Inl e \<Rightarrow> kfail (WrapError (''decode '' @ what @ '' response: '') e) | Inr x \<Rightarrow> kret x)"

definition CreateJob :: "kube_world \<Rightarrow> kube_client \<Rightarrow> kube_job option \<Rightarrow> kube_job kube" where
  "CreateJob w c job =
     (case job of
        None \<Rightarrow> kfail (ErrorText ''job is required'')
      | Some j \<Rightarrow>
          if trim_space (kj_namespace j) = [] then kfail (ErrorText ''job namespace is required'')
          else kbind (kube_send w ''create job'' \<lparr>kq_method = ''POST'',
              kq_url = resourceURL c ''/apis'' [''batch'', ''v1'', ''namespaces'', kj_namespace j, ''jobs''],
              kq_headers = write_headers c, kq_body = JobBody j\<rparr>)
            (\<lambda>r. if kube_ok r then decoded ''create job'' (kw_decode_job w) r else kfail (status_error ''create job'' r)))"

definition doConfigMap :: "kube_world \<Rightarrow> kube_request \<Rightarrow> string \<Rightarrow> kube_config_map kube" where
  "doConfigMap w q action =
     kbind (kube_send w action q)
       (\<lambda>r. if kube_ok r then decoded action (kw_decode_config_map w) r else kfail (status_error action r))"

definition config_map_url :: "kube_client \<Rightarrow> kube_config_map \<Rightarrow> string" where
  "config_map_url c cm = resourceURL c ''/api'' [''v1'', ''namespaces'', kcm_namespace cm, ''configmaps'', kcm_name cm]"

definition config_maps_url :: "kube_client \<Rightarrow> kube_config_map \<Rightarrow> string" where
  "config_maps_url c cm = resourceURL c ''/api'' [''v1'', ''namespaces'', kcm_namespace cm, ''configmaps'']"

definition ApplyConfigMap :: "kube_world \<Rightarrow> kube_client \<Rightarrow> kube_config_map option \<Rightarrow> kube_config_map kube" where
  "ApplyConfigMap w c configMap =
     (case configMap of
        None \<Rightarrow> kfail (ErrorText ''configmap is required'')
      | Some cm \<Rightarrow>
          if trim_space (kcm_namespace cm) = [] then kfail (ErrorText ''configmap namespace is required'')
          else if trim_space (kcm_name cm) = [] then kfail (ErrorText ''configmap name is required'')
          else kbind (kube_send w ''lookup configmap'' \<lparr>kq_method = ''GET'', kq_url = config_map_url c cm,
              kq_headers = agent_header c, kq_body = NoKubeBody\<rparr>)
            (\<lambda>r. if kp_status r = 200 then
                   doConfigMap w \<lparr>kq_method = ''PUT'', kq_url = config_map_url c cm, kq_headers = write_headers c,
                     kq_body = ConfigMapBody cm\<rparr> ''update configmap''
                 else if kp_status r = 404 then
                   doConfigMap w \<lparr>kq_method = ''POST'', kq_url = config_maps_url c cm, kq_headers = write_headers c,
                     kq_body = ConfigMapBody cm\<rparr> ''create configmap''
                 else kfail (status_error ''lookup configmap'' r)))"

definition ReadRuntimeClass :: "kube_world \<Rightarrow> kube_client \<Rightarrow> string \<Rightarrow> unit kube" where
  "ReadRuntimeClass w c name =
     (if trim_space name = [] then kfail (ErrorText ''runtime class name is required'')
      else kbind (kube_send w ''read runtimeclass'' \<lparr>kq_method = ''GET'',
          kq_url = resourceURL c ''/apis'' [''node.k8s.io'', ''v1'', ''runtimeclasses'', name],
          kq_headers = (''Accept'', ''application/json'') # agent_header c, kq_body = NoKubeBody\<rparr>)
        (\<lambda>r. if kube_ok r then kret () else kfail (status_error ''read runtimeclass'' r)))"

section \<open>The library for submitters\<close>

text \<open>\<open>pkg/sdk/sdk.go\<close>.\<close>

definition JobSpecBuilder_Build :: "run_request \<Rightarrow> string \<Rightarrow> go_error + kube_job" where
  "JobSpecBuilder_Build req namespace = Inr (BuildJob req namespace)"

definition NewSubmitter :: "kube_world \<Rightarrow> string \<Rightarrow> string \<Rightarrow> k8s_provider \<Rightarrow> go_error + kube_client" where
  "NewSubmitter w kubeconfig contextName provider =
     (case NewClient w kubeconfig contextName of
        Inr c \<Rightarrow> Inr c
      | Inl e \<Rightarrow> Inl (if provider = K8sProviderOrbStackLocal
          then RunnerError ErrorCodeOrbStackK8sContextNotFound (error_string e) False [] BackendKindK8s [] (Some e)
          else e))"

record submit_result =
  sbr_namespace :: string
  sbr_name :: string
  sbr_labels :: env

definition SubmitJob :: "kube_world \<Rightarrow> kube_client \<Rightarrow> kube_job \<Rightarrow> submit_result kube" where
  "SubmitJob w c job = kbind (CreateJob w c (Some job)) (\<lambda>created.
     kret \<lparr>sbr_namespace = kj_namespace created, sbr_name = kj_name created, sbr_labels = kj_labels created\<rparr>)"

definition Submitter_ApplyConfigMap :: "kube_world \<Rightarrow> kube_client \<Rightarrow> kube_config_map \<Rightarrow> kube_config_map kube" where
  "Submitter_ApplyConfigMap w c cm = ApplyConfigMap w c (Some cm)"

end
