(* ===== verification/Cli.thy ===== *)
theory Cli
  imports Kubernetes Config_Validate Engine_Run
begin

text \<open>
  \<open>internal/cli\<close> and \<open>cmd/sandbox-runner/main.go\<close>: the command line, its flags as the \<open>flag\<close> package reads
  them, the commands and the exit code of the process. What is printed is kept as the value that is
  rendered; what a run leaves on disk, as the summary reads it, is a field of the world.
\<close>

section \<open>Flags\<close>

datatype flag_value = FlagBool bool | FlagString string

type_synonym flag_set = "(string \<times> flag_value) list"

definition flag_put :: "string \<Rightarrow> flag_value \<Rightarrow> flag_set \<Rightarrow> flag_set" where
  "flag_put name v fs = map (\<lambda>(n, x). (n, if n = name then v else x)) fs"

text \<open>\<open>strconv.ParseBool\<close>.\<close>

definition ParseBool :: "string \<Rightarrow> bool option" where
  "ParseBool s =
     (if s \<in> set [''1'', ''t'', ''T'', ''TRUE'', ''true'', ''True''] then Some True
      else if s \<in> set [''0'', ''f'', ''F'', ''FALSE'', ''false'', ''False''] then Some False else None)"

text \<open>
  \<open>parseOne\<close>: a flag was read; the flags end here; or an error, after which the arguments not yet consumed
  are still there.
\<close>

datatype flag_outcome =
    FlagSeen flag_set "string list"
  | FlagsEnd "string list"
  | FlagError flag_set "string list" string

definition set_flag :: "flag_set \<Rightarrow> string \<Rightarrow> string option \<Rightarrow> string list \<Rightarrow> flag_outcome" where
  "set_flag fs name v args =
     (case map_of fs name of
        None \<Rightarrow> FlagError fs args
          (if name = ''help'' \<or> name = ''h'' then ''flag: help requested'' else ''flag provided but not defined: -'' @ name)
      | Some (FlagBool _) \<Rightarrow> (case v of
            None \<Rightarrow> FlagSeen (flag_put name (FlagBool True) fs) args
          | Some text \<Rightarrow> (case ParseBool text of
                Some b \<Rightarrow> FlagSeen (flag_put name (FlagBool b) fs) args
              | None \<Rightarrow> FlagError (flag_put name (FlagBool False) fs) args (''invalid boolean value for -'' @ name)))
      | Some (FlagString _) \<Rightarrow> (case v of
            Some text \<Rightarrow> FlagSeen (flag_put name (FlagString text) fs) args
          | None \<Rightarrow> (case args of
                text # rest \<Rightarrow> FlagSeen (flag_put name (FlagString text) fs) rest
              | [] \<Rightarrow> FlagError fs args (''flag needs an argument: -'' @ name))))"

definition parseOne :: "flag_set \<Rightarrow> string list \<Rightarrow> flag_outcome" where
  "parseOne fs args =
     (case args of
        [] \<Rightarrow> FlagsEnd []
      | s # rest \<Rightarrow>
          if length s < 2 \<or> hd s \<noteq> CHR ''-'' then FlagsEnd args
          else if s = ''--'' then FlagsEnd rest
          else (let name = (if s ! 1 = CHR ''-'' then drop 2 s else drop 1 s) in
            if name = [] \<or> hd name \<in> set ''-='' then FlagError fs args (''bad flag syntax: '' @ s)
            else set_flag fs (fst (cut CHR ''='' name))
              (if CHR ''='' \<in> set name then Some (snd (cut CHR ''='' name)) else None) rest))"

text \<open>\<open>Parse\<close> of a flag set that continues on an error: the values, the arguments left and the error.\<close>

function flag_Parse :: "flag_set \<Rightarrow> string list \<Rightarrow> flag_set \<times> string list \<times> string option" where
  "flag_Parse fs args =
     (case parseOne fs args of
        FlagSeen fs' rest \<Rightarrow> flag_Parse fs' rest
      | FlagsEnd rest \<Rightarrow> (fs, rest, None)
      | FlagError fs' rest e \<Rightarrow> (fs', rest, Some e))"
  by pat_completeness auto

lemma set_flag_consumes: "set_flag fs name v args = FlagSeen fs' rest \<Longrightarrow> length rest \<le> length args"
  unfolding set_flag_def
  by (cases "map_of fs name"; cases v; cases args; cases "the (map_of fs name)"; cases "ParseBool (the v)") auto

lemma parseOne_consumes: "parseOne fs args = FlagSeen fs' rest \<Longrightarrow> length rest < length args"
  by (cases args) (auto simp: parseOne_def Let_def dest: set_flag_consumes split: if_split_asm)

termination flag_Parse
  by (relation "measure (\<lambda>(fs, args). length args)") (auto dest: parseOne_consumes)

declare flag_Parse.simps [simp del]

definition flag_string :: "flag_set \<Rightarrow> string \<Rightarrow> string" where
  "flag_string fs name = (case map_of fs name of Some (FlagString s) \<Rightarrow> s | _ \<Rightarrow> [])"

definition flag_bool :: "flag_set \<Rightarrow> string \<Rightarrow> bool" where
  "flag_bool fs name = (case map_of fs name of Some (FlagBool b) \<Rightarrow> b | _ \<Rightarrow> False)"

section \<open>The commands\<close>

record global_options =
  go_config_path :: string
  go_policy_path :: string

record run_command =
  rcm_args :: "string list"
  rcm_opts :: global_options
  rcm_json_summary :: bool

datatype command =
    RunCommand run_command
  | DockerCommand run_command string string
  | ValidateCommand global_options
  | ReplayCommand string
  | DoctorCommand string
  | K8sRenderCommand global_options string
  | K8sSubmitCommand global_options string string string
  | VersionCommand

definition path_flags :: flag_set where
  "path_flags = [(''config'', FlagString []), (''policy'', FlagString [])]"

definition options_of :: "flag_set \<Rightarrow> global_options" where
  "options_of fs = \<lparr>go_config_path = flag_string fs ''config'', go_policy_path = flag_string fs ''policy''\<rparr>"

text \<open>The error of the flag set is dropped: what is left of the arguments is taken all the same.\<close>

definition run_flags :: flag_set where
  "run_flags = (''json-summary'', FlagBool False) # path_flags"

definition run_command_of :: "flag_set \<Rightarrow> string list \<Rightarrow> run_command" where
  "run_command_of fs rest = \<lparr>rcm_args = rest, rcm_opts = options_of fs, rcm_json_summary = flag_bool fs ''json-summary''\<rparr>"

definition parseRunCommand :: "string list \<Rightarrow> run_command" where
  "parseRunCommand args = (case flag_Parse run_flags args of (fs, rest, e) \<Rightarrow> run_command_of fs rest)"

definition docker_flags :: flag_set where
  "docker_flags = (''image'', FlagString []) # (''mode'', FlagString ContainerExecutionHostRunner) # run_flags"

definition parseDockerCommand :: "string list \<Rightarrow> command" where
  "parseDockerCommand args = (case flag_Parse docker_flags args of
     (fs, rest, e) \<Rightarrow> DockerCommand (run_command_of fs rest) (flag_string fs ''image'') (flag_string fs ''mode''))"

definition parseValidateCommand :: "string list \<Rightarrow> command" where
  "parseValidateCommand args = (case flag_Parse path_flags args of (fs, rest, e) \<Rightarrow> ValidateCommand (options_of fs))"

definition parseReplayCommand :: "string list \<Rightarrow> command" where
  "parseReplayCommand args = (case flag_Parse [(''artifact-dir'', FlagString ''.sandbox-runner'')] args of
     (fs, rest, e) \<Rightarrow> ReplayCommand (flag_string fs ''artifact-dir''))"

definition parseDoctorCommand :: "string list \<Rightarrow> command" where
  "parseDoctorCommand args = (case flag_Parse [(''image'', FlagString [])] args of
     (fs, rest, e) \<Rightarrow> DoctorCommand (flag_string fs ''image''))"

definition render_flags :: flag_set where
  "render_flags = (''namespace'', FlagString ''ai-sandbox-runner-runs'') # path_flags"

definition parseK8sRenderCommand :: "string list \<Rightarrow> command" where
  "parseK8sRenderCommand args = (case flag_Parse render_flags args of
     (fs, rest, e) \<Rightarrow> K8sRenderCommand (options_of fs) (flag_string fs ''namespace''))"

definition parseK8sSubmitCommand :: "string list \<Rightarrow> command" where
  "parseK8sSubmitCommand args =
     (case flag_Parse ((''kubeconfig'', FlagString []) # (''context'', FlagString []) # render_flags) args of
        (fs, rest, e) \<Rightarrow> K8sSubmitCommand (options_of fs) (flag_string fs ''namespace'') (flag_string fs ''kubeconfig'')
          (flag_string fs ''context''))"

definition parseK8sCommand :: "string list \<Rightarrow> go_error + command" where
  "parseK8sCommand args =
     (case args of
        [] \<Rightarrow> Inl (ErrorText ''missing k8s subcommand'')
      | sub # rest \<Rightarrow>
          if sub = ''render-job'' then Inr (parseK8sRenderCommand rest)
          else if sub = ''submit-job'' then Inr (parseK8sSubmitCommand rest)
          else Inl (ErrorText (''unsupported k8s subcommand: '' @ sub)))"

definition cli_Parse :: "string list \<Rightarrow> go_error + command" where
  "cli_Parse args =
     (case args of
        [] \<Rightarrow> Inr (RunCommand \<lparr>rcm_args = [], rcm_opts = \<lparr>go_config_path = [], go_policy_path = []\<rparr>,
          rcm_json_summary = False\<rparr>)
      | cmd # rest \<Rightarrow>
          if cmd = ''run'' then Inr (RunCommand (parseRunCommand rest))
          else if cmd = ''docker'' then Inr (parseDockerCommand rest)
          else if cmd = ''validate'' then Inr (parseValidateCommand rest)
          else if cmd = ''replay'' then Inr (parseReplayCommand rest)
          else if cmd = ''doctor'' then Inr (parseDoctorCommand rest)
          else if cmd \<in> set [''version'', ''--version'', ''-version''] then Inr VersionCommand
          else if cmd = ''k8s'' then parseK8sCommand rest
          else Inr (RunCommand (parseRunCommand args)))"

section \<open>What a command needs\<close>

record report =
  rep_target :: execution_target
  rep_features :: feature_set
  rep_warnings :: "string list"

record run_summary =
  sum_run_id :: string
  sum_status :: run_status
  sum_phase :: phase
  sum_exit_code :: int
  sum_timed_out :: bool
  sum_signal :: string
  sum_command_class :: string
  sum_backend_kind :: string
  sum_provider_name :: string
  sum_runtime_profile :: string
  sum_artifact_dir :: string
  sum_files :: env
  sum_read_order :: "string list"
  sum_stdout_tail :: "string list"
  sum_stderr_tail :: "string list"

datatype printed =
    PrintText string
  | PrintRequest run_request
  | PrintReport report
  | PrintVersion version_info report
  | PrintSummary run_summary
  | PrintSubmit submit_result

text \<open>A file as \<open>os.Open\<close> finds it.\<close>

datatype opened = FileData string | FileAbsent | FileError go_error

text \<open>
  \<open>aw_opened\<close> is what a path holds after the run; \<open>aw_log_line\<close> is the line of a structured log that
  \<open>json.Unmarshal\<close> reads; \<open>aw_stamp\<close> is the time in a run identifier.
\<close>

record app_world =
  aw_engine :: engine_world
  aw_read_file :: "string \<Rightarrow> go_error + string"
  aw_yaml_run :: "string \<Rightarrow> run_config \<Rightarrow> go_error + run_config"
  aw_yaml_policy :: "string \<Rightarrow> policy_config \<Rightarrow> go_error + policy_config"
  aw_version :: version_info
  aw_opened :: "string \<Rightarrow> opened"
  aw_log_line :: "string \<Rightarrow> string option"
  aw_stamp :: string
  aw_kube :: kube_world
  aw_marshal_run :: "run_config \<Rightarrow> go_error + string"
  aw_marshal_policy :: "policy_config \<Rightarrow> go_error + string"
  aw_marshal_job :: "kube_job \<Rightarrow> go_error + string"

abbreviation aw_host :: "app_world \<Rightarrow> host" where
  "aw_host w \<equiv> ew_host (aw_engine w)"

definition loadRequest :: "app_world \<Rightarrow> global_options \<Rightarrow> go_error + run_request" where
  "loadRequest w opts =
     (case LoadRunConfig (aw_host w) (aw_read_file w) (aw_yaml_run w) (go_config_path opts) of
        (_, Some e) \<Rightarrow> Inl e
      | (runCfg, None) \<Rightarrow>
          (case LoadPolicyConfig (aw_read_file w) (aw_yaml_policy w) (go_policy_path opts) of
             (_, Some e) \<Rightarrow> Inl e
           | (policy, None) \<Rightarrow> Inr \<lparr>rq_config_path = go_config_path opts, rq_policy_path = go_policy_path opts,
               rq_artifact_dir = [], rq_command = [], rq_run_config = runCfg, rq_policy = policy,
               rq_target = zero_target, rq_version = aw_version w\<rparr>))"

definition withCommand :: "run_config \<Rightarrow> string list \<Rightarrow> run_config" where
  "withCommand cfg args = (if args \<noteq> [] then cfg\<lparr>cfg_run := (cfg_run cfg)\<lparr>rs_command := args\<rparr>\<rparr> else cfg)"

definition ensureK8sRequestIdentity :: "app_world \<Rightarrow> run_request \<Rightarrow> run_request" where
  "ensureK8sRequestIdentity w req =
     (let cfg = rq_run_config req in
      if trim_space (rs_run_id (cfg_run cfg)) = []
      then req\<lparr>rq_run_config := cfg\<lparr>cfg_run := (cfg_run cfg)\<lparr>rs_run_id := ''r-'' @ aw_stamp w\<rparr>\<rparr>\<rparr>
      else req)"

section \<open>The summary of a run\<close>

text \<open>One more line in the ring of the last \<open>limit\<close> lines.\<close>

definition ring_add :: "nat \<Rightarrow> string list \<Rightarrow> string \<Rightarrow> string list" where
  "ring_add limit ring l = (if length ring = limit then tl ring @ [l] else ring @ [l])"

definition summary_line :: "app_world \<Rightarrow> string \<Rightarrow> string option" where
  "summary_line w raw =
     (case aw_log_line w raw of
        None \<Rightarrow> None
      | Some l \<Rightarrow> if trim_space l = [] then None else Some (trim_space l))"

definition maxSummaryLineBytes :: nat where "maxSummaryLineBytes = 1024 * 1024"

definition readStructuredLogTail :: "app_world \<Rightarrow> string \<Rightarrow> nat \<Rightarrow> go_error + string list" where
  "readStructuredLogTail w path limit =
     (if limit = 0 then Inr []
      else (case aw_opened w path of
          FileAbsent \<Rightarrow> Inr []
        | FileError e \<Rightarrow> Inl e
        | FileData data \<Rightarrow>
            if list_ex (\<lambda>l. maxSummaryLineBytes \<le> length l) (raw_lines data)
            then Inl (ErrorText ''bufio.Scanner: token too long'')
            else Inr (fold (\<lambda>raw ring. case summary_line w raw of None \<Rightarrow> ring | Some l \<Rightarrow> ring_add limit ring l)
              (scan_lines maxSummaryLineBytes data) [])))"

definition runSummaryFiles :: "string \<Rightarrow> env" where
  "runSummaryFiles dir =
     [(''index'', path_join [dir, IndexFileName]), (''results'', path_join [dir, ''results.json'']),
      (''phases'', path_join [dir, PhasesFileName]), (''replay'', path_join [dir, ''replay.json'']),
      (''commands'', path_join [dir, CommandsFileName]), (''stdout'', path_join [dir, StdoutFileName]),
      (''stderr'', path_join [dir, StderrFileName]), (''context'', path_join [dir, ContextFileName])]"

definition suggestedReadOrder :: "env \<Rightarrow> string list" where
  "suggestedReadOrder files = filter (\<lambda>key. env_get files key \<noteq> [])
     [''index'', ''results'', ''phases'', ''commands'', ''stdout'', ''stderr'', ''replay'', ''context'']"

definition buildRunSummary :: "app_world \<Rightarrow> string \<Rightarrow> run_result \<Rightarrow> go_error + run_summary" where
  "buildRunSummary w dir result =
     (case readStructuredLogTail w (path_join [dir, StdoutFileName]) 3 of
        Inl e \<Rightarrow> Inl e
      | Inr stdoutTail \<Rightarrow> (case readStructuredLogTail w (path_join [dir, StderrFileName]) 3 of
            Inl e \<Rightarrow> Inl e
          | Inr stderrTail \<Rightarrow> Inr \<lparr>sum_run_id = rr_run_id result, sum_status = rr_status result,
              sum_phase = rr_phase result, sum_exit_code = rr_exit_code result, sum_timed_out = rr_timed_out result,
              sum_signal = rr_signal result, sum_command_class = rr_command_class result,
              sum_backend_kind = rr_backend_kind result, sum_provider_name = rr_provider_name result,
              sum_runtime_profile = rr_runtime_profile result, sum_artifact_dir = dir,
              sum_files = runSummaryFiles dir, sum_read_order = suggestedReadOrder (runSummaryFiles dir),
              sum_stdout_tail = stdoutTail, sum_stderr_tail = stderrTail\<rparr>))"

definition formatSummaryTail :: "string \<Rightarrow> string list \<Rightarrow> string list" where
  "formatSummaryTail label ls = (if ls = [] then [label @ '': <empty>''] else (label @ '':'') # map (\<lambda>l. ''- '' @ l) ls)"

fun status_name :: "run_status \<Rightarrow> string" where
  "status_name StatusUnset = []"
| "status_name StatusCreated = ''CREATED''"
| "status_name StatusSucceeded = ''SUCCEEDED''"
| "status_name StatusFailed = ''FAILED''"
| "status_name StatusTimedOut = ''TIMED_OUT''"
| "status_name StatusAborted = ''ABORTED''"
| "status_name StatusPartial = ''PARTIAL''"

definition formatRunSummary :: "run_summary \<Rightarrow> string" where
  "formatRunSummary sm =
     (let file = (\<lambda>key. key @ '': '' @ env_get (sum_files sm) key) in
      join [newline]
       ([''run_id: '' @ sum_run_id sm, ''status: '' @ status_name (sum_status sm), ''phase: '' @ phase_name (sum_phase sm),
         ''exit_code: '' @ itoa (sum_exit_code sm), ''artifact_dir: '' @ sum_artifact_dir sm]
        @ map file [''index'', ''results'', ''phases'', ''replay'', ''commands'', ''stdout'', ''stderr'']
        @ formatSummaryTail ''stdout tail'' (sum_stdout_tail sm) @ formatSummaryTail ''stderr tail'' (sum_stderr_tail sm)))"

definition printRunSummary :: "app_world \<Rightarrow> string \<Rightarrow> run_result \<Rightarrow> bool \<Rightarrow> printed list" where
  "printRunSummary w dir result jsonSummary =
     (case buildRunSummary w dir result of
        Inl e \<Rightarrow> [PrintText (''failed to build run summary: '' @ error_string e)]
      | Inr sm \<Rightarrow> if jsonSummary then [PrintSummary sm] else [PrintText (formatRunSummary sm)])"

section \<open>Running a command\<close>

text \<open>The exit code and the error, what is printed, and the requests sent to a cluster.\<close>

record command_outcome =
  co_code :: int
  co_error :: "go_error option"
  co_printed :: "printed list"
  co_requests :: "kube_request list"

definition command_ended :: "int \<Rightarrow> go_error option \<Rightarrow> printed list \<Rightarrow> command_outcome" where
  "command_ended code err out = \<lparr>co_code = code, co_error = err, co_printed = out, co_requests = []\<rparr>"

definition command_failed :: "go_error \<Rightarrow> command_outcome" where
  "command_failed e = command_ended 1 (Some e) []"

text \<open>What the run and the docker command do with a request; the engine updates the request it gets.\<close>

definition run_request_of :: "app_world \<Rightarrow> run_request \<Rightarrow> run_request" where
  "run_request_of w req = req\<lparr>rq_target :=
     Detect (aw_host w) (ew_platform (aw_engine w)) (plat_run_mode (cfg_platform (rq_run_config req))) zero_target\<rparr>"

definition run_engine :: "app_world \<Rightarrow> run_request \<Rightarrow> bool \<Rightarrow> command_outcome" where
  "run_engine w req jsonSummary =
     (case engine_Run (aw_engine w) (run_request_of w req) of
        (s, err) \<Rightarrow> command_ended
          (case err of Some e \<Rightarrow> ExitCodeForResult (Some (st_result s)) err | None \<Rightarrow> rr_exit_code (st_result s)) err
          (printRunSummary w (rs_artifact_dir (cfg_run (st_cfg s))) (st_result s) jsonSummary))"

definition RunCommand_Run :: "app_world \<Rightarrow> run_command \<Rightarrow> command_outcome" where
  "RunCommand_Run w c =
     (case loadRequest w (rcm_opts c) of
        Inl e \<Rightarrow> command_failed e
      | Inr req \<Rightarrow> run_engine w (req\<lparr>rq_run_config := withCommand (rq_run_config req) (rcm_args c)\<rparr>) (rcm_json_summary c))"

definition docker_config :: "string \<Rightarrow> string \<Rightarrow> run_config \<Rightarrow> run_config" where
  "docker_config img mode cfg =
     cfg\<lparr>cfg_platform := (cfg_platform cfg)\<lparr>plat_run_mode := RunModeLocalDocker, plat_container_execution_mode := mode\<rparr>,
       cfg_backend := (cfg_backend cfg)\<lparr>bk_kind := BackendKindDocker\<rparr>,
       cfg_run := (if img \<noteq> [] then (cfg_run cfg)\<lparr>rs_image := img\<rparr> else cfg_run cfg)\<rparr>"

definition DockerCommand_Run :: "app_world \<Rightarrow> run_command \<Rightarrow> string \<Rightarrow> string \<Rightarrow> command_outcome" where
  "DockerCommand_Run w c img mode =
     (case loadRequest w (rcm_opts c) of
        Inl e \<Rightarrow> command_failed e
      | Inr req \<Rightarrow> run_engine w
          (req\<lparr>rq_run_config := docker_config img mode (withCommand (rq_run_config req) (rcm_args c))\<rparr>) (rcm_json_summary c))"

definition ValidateCommand_Run :: "app_world \<Rightarrow> global_options \<Rightarrow> command_outcome" where
  "ValidateCommand_Run w opts =
     (case loadRequest w opts of Inl e \<Rightarrow> command_failed e | Inr req \<Rightarrow> command_ended 0 None [PrintRequest req])"

definition ReplayCommand_Run :: "app_world \<Rightarrow> string \<Rightarrow> command_outcome" where
  "ReplayCommand_Run w artifactDir =
     (case aw_read_file w (path_join [artifactDir, ''replay.json'']) of
        Inl e \<Rightarrow> command_failed e | Inr data \<Rightarrow> command_ended 0 None [PrintText data])"

definition DoctorReport :: "app_world \<Rightarrow> string \<Rightarrow> report" where
  "DoctorReport w img =
     (let target = Detect (aw_host w) (ew_platform (aw_engine w)) RunModeLocalDirect zero_target;
          cfg = DefaultRunConfig;
          (cfg, target) = (if img \<noteq> [] then
              (cfg\<lparr>cfg_run := (cfg_run cfg)\<lparr>rs_image := img\<rparr>,
                cfg_platform := (cfg_platform cfg)\<lparr>plat_run_mode := RunModeLocalDocker\<rparr>\<rparr>,
               target\<lparr>tg_mode := RunModeLocalDocker\<rparr>)
            else (cfg, target))
      in case ResolveFeatures cfg target of (features, warnings, err) \<Rightarrow>
           \<lparr>rep_target = target, rep_features = features,
            rep_warnings = warnings @ (case err of Some e \<Rightarrow> [error_string e] | None \<Rightarrow> [])\<rparr>)"

definition DoctorCommand_Run :: "app_world \<Rightarrow> string \<Rightarrow> command_outcome" where
  "DoctorCommand_Run w img = command_ended 0 None [PrintReport (DoctorReport w img)]"

definition VersionCommand_Run :: "app_world \<Rightarrow> command_outcome" where
  "VersionCommand_Run w = command_ended 0 None [PrintVersion (aw_version w) (DoctorReport w [])]"

definition K8sRenderCommand_Run :: "app_world \<Rightarrow> global_options \<Rightarrow> string \<Rightarrow> command_outcome" where
  "K8sRenderCommand_Run w opts namespace =
     (case loadRequest w opts of
        Inl e \<Rightarrow> command_failed e
      | Inr req \<Rightarrow> (case JobSpecBuilder_Build (ensureK8sRequestIdentity w req) namespace of
            Inl e \<Rightarrow> command_failed e
          | Inr spec \<Rightarrow> (case RenderJobYAML (aw_marshal_job w) spec of
                Inl e \<Rightarrow> command_failed e
              | Inr text \<Rightarrow> command_ended 0 None [PrintText text])))"

text \<open>What is sent to the cluster: the config map, then the job.\<close>

definition submit_to :: "app_world \<Rightarrow> kube_client \<Rightarrow> kube_config_map \<Rightarrow> kube_job \<Rightarrow> submit_result kube" where
  "submit_to w client cm spec = kbind (Submitter_ApplyConfigMap (aw_kube w) client cm) (\<lambda>_. SubmitJob (aw_kube w) client spec)"

definition K8sSubmitCommand_Run :: "app_world \<Rightarrow> global_options \<Rightarrow> string \<Rightarrow> string \<Rightarrow> string \<Rightarrow> command_outcome" where
  "K8sSubmitCommand_Run w opts namespace kubeconfig kubeContext =
     (case loadRequest w opts of
        Inl e \<Rightarrow> command_failed e
      | Inr req0 \<Rightarrow>
          (let req = ensureK8sRequestIdentity w req0; k8s = cfg_k8s (rq_run_config req) in
           case JobSpecBuilder_Build req namespace of
             Inl e \<Rightarrow> command_failed e
           | Inr spec \<Rightarrow> (case BuildConfigMap (aw_marshal_run w) (aw_marshal_policy w) req namespace of
                 Inl e \<Rightarrow> command_failed e
               | Inr cm \<Rightarrow> (case NewSubmitter (aw_kube w) (if kubeconfig = [] then k8_kubeconfig k8s else kubeconfig)
                     (if kubeContext = [] then k8_context k8s else kubeContext) (k8_provider k8s) of
                     Inl e \<Rightarrow> command_failed e
                   | Inr client \<Rightarrow> (case submit_to w client cm spec [] of
                         (Inl e, h) \<Rightarrow> (command_failed e)\<lparr>co_requests := h\<rparr>
                       | (Inr res, h) \<Rightarrow> (command_ended 0 None [PrintSubmit res])\<lparr>co_requests := h\<rparr>)))))"

definition command_Run :: "app_world \<Rightarrow> command \<Rightarrow> command_outcome" where
  "command_Run w cmd =
     (case cmd of
        RunCommand c \<Rightarrow> RunCommand_Run w c
      | DockerCommand c img mode \<Rightarrow> DockerCommand_Run w c img mode
      | ValidateCommand opts \<Rightarrow> ValidateCommand_Run w opts
      | ReplayCommand dir \<Rightarrow> ReplayCommand_Run w dir
      | DoctorCommand img \<Rightarrow> DoctorCommand_Run w img
      | K8sRenderCommand opts ns \<Rightarrow> K8sRenderCommand_Run w opts ns
      | K8sSubmitCommand opts ns kubeconfig ctx \<Rightarrow> K8sSubmitCommand_Run w opts ns kubeconfig ctx
      | VersionCommand \<Rightarrow> VersionCommand_Run w)"

section \<open>The process\<close>

text \<open>\<open>run\<close> of \<open>main.go\<close>: the exit code, and the error that is written to the standard error.\<close>

definition main_run :: "app_world \<Rightarrow> string list \<Rightarrow> int \<times> go_error option" where
  "main_run w args =
     (case cli_Parse args of
        Inl e \<Rightarrow> (2, Some e)
      | Inr cmd \<Rightarrow>
          (let r = command_Run w cmd in
           case co_error r of
             Some e \<Rightarrow> (if co_code r \<noteq> 0 then co_code r else 1, Some e)
           | None \<Rightarrow> (co_code r, None)))"

end
