(* ===== verification/Kube_Facts.thy ===== *)
theory Kube_Facts
  imports Kubernetes
begin

text \<open>
  What the client of \<open>internal/kubernetes\<close> does to the cluster: the addresses of its objects, and the config map
  that is there afterwards. The cluster's store is abstract: a function of the requests it has received.
\<close>

section \<open>Addresses\<close>

text \<open>The address of the server has no escaped path, no query and no fragment.\<close>

definition plain_client :: "kube_client \<Rightarrow> bool" where
  "plain_client c \<longleftrightarrow> u_raw_path (kcl_base c) = [] \<and> u_opaque (kcl_base c) = [] \<and> u_query (kcl_base c) = []
     \<and> \<not> u_force_query (kcl_base c) \<and> u_fragment (kcl_base c) = []"

lemma path_clean_snoc:
  assumes "plain_segment e" "plain_segment n"
  shows "path_clean (join ''/'' (es @ [e, n])) = path_clean (join ''/'' (es @ [e])) @ ''/'' @ n"
proof -
  let ?s = "join ''/'' (es @ [e])"
  have joined: "join ''/'' (es @ [e, n]) = ?s @ CHR ''/'' # n"
    using join_append [of "es @ [e]" "[n]" "''/''"] by simp
  have ne: "?s \<noteq> []"
    using assms(1) by (cases es) (auto simp: plain_segment_def join_Cons)
  have plain: "e \<noteq> []" "e \<noteq> dot" "e \<noteq> dotdot" "CHR ''/'' \<notin> set e" "n \<noteq> []" "n \<noteq> dot" "n \<noteq> dotdot" "CHR ''/'' \<notin> set n"
    using assms by (auto simp: plain_segment_def)
  have split: "split_on CHR ''/'' (?s @ CHR ''/'' # n) = split_on CHR ''/'' ?s @ [n]"
    using plain(8) by (simp add: split_on_slash split_on_free)
  have "last (split_on CHR ''/'' ?s) = e"
  proof (cases es)
    case Nil
    with plain(4) show ?thesis by (simp add: split_on_free)
  next
    case (Cons x xs)
    then have "?s = join ''/'' es @ CHR ''/'' # e" using join_append [of es "[e]" "''/''"] by simp
    with plain(4) show ?thesis by (simp add: split_on_slash split_on_free)
  qed
  then obtain front where front: "split_on CHR ''/'' ?s = front @ [e]"
    by (metis append_butlast_last_id split_on_not_Nil)
  have elems: "clean_elems r (split_on CHR ''/'' ?s) \<noteq> []"
    "clean_elems r (split_on CHR ''/'' ?s @ [n]) = clean_elems r (split_on CHR ''/'' ?s) @ [n]" for r
    using plain by (simp_all add: front clean_elems_snoc del: append_assoc)
  have "is_abs (?s @ CHR ''/'' # n) = is_abs ?s" using ne by (simp add: is_abs_Cons)
  then show ?thesis
    unfolding joined path_clean_def split using ne elems
    by (simp add: Let_def join_append)
qed

lemma path_join_snoc:
  assumes "plain_segment e" "plain_segment n"
  shows "path_join (es @ [e, n]) = path_join (es @ [e]) @ ''/'' @ n"
proof -
  have "e \<noteq> []" "n \<noteq> []" using assms by (auto simp: plain_segment_def)
  then have "path_join (es @ [e, n]) = path_clean (join ''/'' (filter (\<lambda>e. e \<noteq> []) es @ [e, n]))"
    "path_join (es @ [e]) = path_clean (join ''/'' (filter (\<lambda>e. e \<noteq> []) es @ [e]))"
    by (simp_all add: path_join_def split: list.split)
  then show ?thesis using path_clean_snoc [OF assms] by simp
qed

lemma url_escape_append: "url_escape mode (a @ b) = url_escape mode a @ url_escape mode b"
  by (simp add: url_escape_def)

lemma url_escape_slash: "url_escape EncodePath (CHR ''/'' # s) = CHR ''/'' # url_escape EncodePath s"
  by (simp add: url_escape_def should_escape_def is_upper_def is_lower_def is_digit_def less_eq_char_def)

lemma url_String_path:
  assumes "plain_client c"
  shows "url_String ((kcl_base c)\<lparr>u_path := CHR ''/'' # p\<rparr>)
    = url_origin ((kcl_base c)\<lparr>u_path := ''/''\<rparr>) @ CHR ''/'' # url_escape EncodePath p"
proof -
  have "url_origin ((kcl_base c)\<lparr>u_path := CHR ''/'' # p\<rparr>) = url_origin ((kcl_base c)\<lparr>u_path := ''/''\<rparr>)"
    by (simp add: url_origin_def)
  then show ?thesis
    using assms
    by (simp add: plain_client_def url_String_def escaped_path_def Let_def url_escape_slash has_prefix_def cut_def)
qed

lemma resourceURL_snoc:
  assumes "plain_client c" "plain_segment e" "plain_segment n"
  shows "resourceURL c front (ss @ [e, n]) = resourceURL c front (ss @ [e]) @ ''/'' @ url_escape EncodePath n"
proof -
  have "path_join (a # b # ss @ [e, n]) = path_join (a # b # ss @ [e]) @ ''/'' @ n" for a b
    using path_join_snoc [OF assms(2,3), of "a # b # ss"] by simp
  then show ?thesis
    unfolding resourceURL_def
    by (simp add: url_String_path [OF assms(1)] url_escape_append url_escape_slash)
qed

lemma config_map_address:
  assumes "plain_client c" "plain_segment (kcm_name cm)"
  shows "config_map_url c cm = config_maps_url c cm @ ''/'' @ url_escape EncodePath (kcm_name cm)"
proof -
  have "plain_segment ''configmaps''" by (simp add: plain_segment_def dot_def dotdot_def)
  from resourceURL_snoc [OF assms(1) this assms(2), of "''/api''" "[''v1'', ''namespaces'', kcm_namespace cm]"]
  show ?thesis by (simp add: config_map_url_def config_maps_url_def)
qed

section \<open>The config map in the cluster\<close>

text \<open>
  What the API server does with config maps: a write that is answered with success has been carried out, one
  answered with an error has not, and one without an answer may have been; an object is created only where
  there is none; a lookup answers 200 for what is there and 404 for what is not, and changes nothing. No other client writes
  meanwhile.
\<close>

definition written_config_map :: "kube_request \<Rightarrow> (string \<times> kube_config_map) option" where
  "written_config_map q =
     (case kq_body q of
        ConfigMapBody cm \<Rightarrow>
          if kq_method q = ''PUT'' then Some (kq_url q, cm)
          else if kq_method q = ''POST'' then Some (kq_url q @ ''/'' @ url_escape EncodePath (kcm_name cm), cm)
          else None
      | _ \<Rightarrow> None)"

definition answered ::
  "(kube_request list \<Rightarrow> string \<rightharpoonup> kube_config_map) \<Rightarrow> kube_request list \<Rightarrow> kube_request \<Rightarrow> go_error + kube_response \<Rightarrow> bool" where
  "answered st h q answer \<longleftrightarrow>
     (case written_config_map q of
        None \<Rightarrow> st (h @ [q]) = st h \<and>
          (\<forall>r. answer = Inr r \<and> kq_method q = ''GET'' \<longrightarrow>
            (kp_status r = 200 \<longrightarrow> st h (kq_url q) \<noteq> None) \<and> (kp_status r = 404 \<longrightarrow> st h (kq_url q) = None))
      | Some (u, cm) \<Rightarrow>
          (case answer of
             Inl e \<Rightarrow> st (h @ [q]) \<in> {st h, (st h)(u \<mapsto> cm)}
           | Inr r \<Rightarrow> st (h @ [q]) = (if kube_ok r then (st h)(u \<mapsto> cm) else st h)))"

definition keeps_config_maps :: "kube_world \<Rightarrow> (kube_request list \<Rightarrow> string \<rightharpoonup> kube_config_map) \<Rightarrow> bool" where
  "keeps_config_maps w st \<longleftrightarrow> (\<forall>h q. answered st h q (kw_do w h q))"

text \<open>What applying may do to the store, and what it does when it succeeds.\<close>

definition upserts ::
  "(kube_request list \<Rightarrow> string \<rightharpoonup> kube_config_map) \<Rightarrow> string \<Rightarrow> kube_config_map \<Rightarrow> kube_request list
     \<Rightarrow> (go_error + 'a) \<times> kube_request list \<Rightarrow> bool" where
  "upserts st u cm h out \<longleftrightarrow>
     (case out of
        (Inl e, h') \<Rightarrow> st h' \<in> {st h, (st h)(u \<mapsto> cm)}
      | (Inr x, h') \<Rightarrow> st h' = (st h)(u \<mapsto> cm))"

lemma doConfigMap_upserts:
  assumes "keeps_config_maps w st" "written_config_map q = Some (u, cm)"
  shows "upserts st u cm h (doConfigMap w q action h)"
proof -
  have "answered st h q (kw_do w h q)" using assms(1) by (simp add: keeps_config_maps_def)
  then show ?thesis
    using assms(2)
    by (auto simp: upserts_def doConfigMap_def kbind_def kube_send_def kfail_def kret_def decoded_def answered_def
        split: sum.split sum.split_asm if_split_asm)
qed

lemma lookup_keeps:
  assumes "keeps_config_maps w st" "kq_body q = NoKubeBody"
  shows "st (h @ [q]) = st h"
  using assms by (auto simp: keeps_config_maps_def answered_def written_config_map_def dest!: spec [of _ h] spec [of _ q])

lemma upserts_after_lookup:
  "st h' = st h \<Longrightarrow> upserts st u cm h' out \<Longrightarrow> upserts st u cm h out"
  by (auto simp: upserts_def split: prod.split sum.split)

lemma upserts_nothing: "st h' = st h \<Longrightarrow> upserts st u cm h (Inl e, h')"
  by (simp add: upserts_def)

lemma ApplyConfigMap_upserts:
  assumes "keeps_config_maps w st" "plain_client c" "plain_segment (kcm_name cm)"
  shows "upserts st (config_map_url c cm) cm h (ApplyConfigMap w c (Some cm) h)"
proof -
  let ?get = "\<lparr>kq_method = ''GET'', kq_url = config_map_url c cm, kq_headers = agent_header c, kq_body = NoKubeBody\<rparr>"
  have get: "st (h @ [?get]) = st h" using assms(1) by (rule lookup_keeps) simp
  have put: "upserts st (config_map_url c cm) cm (h @ [?get]) (doConfigMap w \<lparr>kq_method = ''PUT'',
      kq_url = config_map_url c cm, kq_headers = write_headers c, kq_body = ConfigMapBody cm\<rparr> ''update configmap'' (h @ [?get]))"
    by (rule doConfigMap_upserts [OF assms(1)]) (simp add: written_config_map_def)
  have post: "upserts st (config_map_url c cm) cm (h @ [?get]) (doConfigMap w \<lparr>kq_method = ''POST'',
      kq_url = config_maps_url c cm, kq_headers = write_headers c, kq_body = ConfigMapBody cm\<rparr> ''create configmap'' (h @ [?get]))"
    by (rule doConfigMap_upserts [OF assms(1)])
      (simp add: written_config_map_def config_map_address [OF assms(2,3)])
  show ?thesis
    using upserts_nothing [OF get] upserts_after_lookup [OF get put] upserts_after_lookup [OF get post]
    by (auto simp: ApplyConfigMap_def kbind_def kube_send_def kfail_def upserts_nothing split: sum.split)
qed

lemma ApplyConfigMap_requests:
  "\<exists>qs. snd (ApplyConfigMap w c cm h) = h @ qs \<and> length qs \<le> 2"
  by (auto simp: ApplyConfigMap_def doConfigMap_def kbind_def kube_send_def kfail_def kret_def decoded_def
      split: option.split sum.split)

text \<open>
  C36: applying a config map is an update or insertion of the cluster's config maps: when it succeeds, exactly
  the object at the config map's address is the new one and every other object is as it was; when it fails, the
  cluster is as it was, or the write has been carried out and only its answer was lost or could not be read.
  At most two requests are sent. The server may do anything with its answers that an API server may do.
\<close>

theorem config_map_upserted:
  assumes "keeps_config_maps w st" "plain_client c" "plain_segment (kcm_name cm)"
    and "ApplyConfigMap w c (Some cm) h = (res, h')"
  shows "(if isl res then st h' \<in> {st h, (st h)(config_map_url c cm \<mapsto> cm)}
      else st h' = (st h)(config_map_url c cm \<mapsto> cm)) \<and> (\<exists>qs. h' = h @ qs \<and> length qs \<le> 2)"
  using ApplyConfigMap_upserts [OF assms(1-3), of h] ApplyConfigMap_requests [of w c "Some cm" h]
  by (auto simp: assms(4) upserts_def split: sum.splits)

text \<open>A server that keeps the config maps that were written, for the witness.\<close>

fun kept :: "kube_request list \<Rightarrow> string \<rightharpoonup> kube_config_map" where
  "kept [] = Map.empty"
| "kept (q # h) = (case written_config_map q of
     Some (u, cm) \<Rightarrow> (if kq_method q = ''POST'' \<and> kept h u \<noteq> None then kept h else (kept h)(u \<mapsto> cm))
   | None \<Rightarrow> kept h)"

definition sample_cm :: kube_config_map where
  "sample_cm = \<lparr>kcm_api_version = ''v1'', kcm_kind = ''ConfigMap'', kcm_name = ''sandbox-runner-config-r1'',
     kcm_namespace = ''runs'', kcm_data = [(''run.yaml'', ''run: {}'')]\<rparr>"

definition sample_kube_world :: kube_world where
  "sample_kube_world =
     \<lparr>kw_host = \<lparr>host_env = [], host_cwd = Some ''/'', host_goos = ''linux'', host_goarch = ''amd64''\<rparr>,
      kw_in_cluster = None,
      kw_client_config = (\<lambda>_ _. Inr \<lparr>rcf_host = ''https://k8s.example:6443'', rcf_bearer_token = [], rcf_ca_file = [],
        rcf_insecure = False, rcf_timeout = 0\<rparr>),
      kw_stat = (\<lambda>_. Absent), kw_read = (\<lambda>_. Inr []), kw_transport = (\<lambda>_. None), kw_user_agent = ''sandbox-runner'',
      kw_do = (\<lambda>h q. Inr \<lparr>kp_status = (case written_config_map q of
            Some (u, cm) \<Rightarrow> (if kq_method q = ''POST'' \<and> kept (rev h) u \<noteq> None then 409 else 200)
          | None \<Rightarrow> (if kq_method q = ''GET'' \<and> kept (rev h) (kq_url q) = None then 404 else 200)),
        kp_status_text = [], kp_body = []\<rparr>),
      kw_decode_job = (\<lambda>_. Inl (ErrorText ''no job'')), kw_decode_config_map = (\<lambda>_. Inr sample_cm)\<rparr>"

lemma sample_kube_keeps: "keeps_config_maps sample_kube_world (kept \<circ> rev)"
  unfolding keeps_config_maps_def sample_kube_world_def
  by (auto simp: answered_def kube_ok_def split: option.split)

definition sample_kube_client :: kube_client where
  "sample_kube_client = (case NewClient sample_kube_world ''/root/.kube/config'' [] of Inr c \<Rightarrow> c
     | Inl e \<Rightarrow> \<lparr>kcl_base = empty_url, kcl_timeout = 0, kcl_user_agent = []\<rparr>)"

lemma config_map_upserted_witness:
  "(kept \<circ> rev) (snd (ApplyConfigMap sample_kube_world sample_kube_client (Some sample_cm) []))
     = (Map.empty)(config_map_url sample_kube_client sample_cm \<mapsto> sample_cm)"
proof -
  have plain: "plain_client sample_kube_client" "plain_segment (kcm_name sample_cm)" by code_simp+
  have "\<not> isl (fst (ApplyConfigMap sample_kube_world sample_kube_client (Some sample_cm) []))" by code_simp
  moreover obtain res h' where run: "ApplyConfigMap sample_kube_world sample_kube_client (Some sample_cm) [] = (res, h')"
    by (cases "ApplyConfigMap sample_kube_world sample_kube_client (Some sample_cm) []")
  ultimately show ?thesis
    using config_map_upserted [OF sample_kube_keeps plain run] by simp
qed

end
