(* ===== verification/Cli_App.thy ===== *)
theory Cli_App
  imports Cli Kube_Facts Engine_Props
begin

text \<open>
  The properties of the command line: what is run for which arguments, the exit code of the process, and what
  a submission leaves in the cluster.
\<close>

section \<open>Reading the arguments\<close>

lemma flag_end: "flag_Parse fs (''--'' # rest) = (fs, rest, None)"
  by (subst flag_Parse.simps) (simp add: parseOne_def)

lemma flag_long:
  assumes "name \<noteq> []" "hd name \<notin> set ''-=''"
  shows "flag_Parse fs ((CHR ''-'' # CHR ''-'' # name) # rest) =
    (case set_flag fs (fst (cut CHR ''='' name)) (if CHR ''='' \<in> set name then Some (snd (cut CHR ''='' name)) else None) rest of
       FlagSeen fs' rest' \<Rightarrow> flag_Parse fs' rest'
     | FlagsEnd rest' \<Rightarrow> (fs, rest', None)
     | FlagError fs' rest' e \<Rightarrow> (fs', rest', Some e))"
  using assms by (subst flag_Parse.simps) (simp add: parseOne_def)

lemma cut_free: "c \<notin> set s \<Longrightarrow> cut c s = (s, [])"
  by (simp add: cut_def) (metis (mono_tags, lifting) dropWhile_eq_Nil_conv list.sel(2) takeWhile_eq_all_conv)

lemma flag_long_string:
  assumes "name \<noteq> []" "CHR ''-'' \<noteq> hd name" "CHR ''='' \<notin> set name" "map_of fs name = Some (FlagString old)"
  shows "flag_Parse fs ((CHR ''-'' # CHR ''-'' # name) # v # rest) = flag_Parse (flag_put name (FlagString v) fs) rest"
  using assms by (subst flag_long) (auto simp: cut_free set_flag_def neq_Nil_conv)

lemma flag_long_unknown:
  assumes "name \<noteq> []" "CHR ''-'' \<noteq> hd name" "CHR ''='' \<notin> set name" "map_of fs name = None"
  shows "\<exists>e. flag_Parse fs ((CHR ''-'' # CHR ''-'' # name) # rest) = (fs, rest, Some e)"
  using assms by (subst flag_long) (auto simp: cut_free set_flag_def neq_Nil_conv)

text \<open>
  C37: a flag that does not exist does not stop the program. For every such name, the request for help
  included, \<open>run --name rest\<close> is the run of the rest of the command line as the command, with the default
  configuration and policy: what the misspelt flag was to set becomes the program to execute.
\<close>

theorem usage_error_runs_rest:
  assumes "name \<noteq> []" "hd name \<noteq> CHR ''-''" "CHR ''='' \<notin> set name" "name \<notin> {''config'', ''policy'', ''json-summary''}"
  shows "cli_Parse (''run'' # (''--'' @ name) # rest) = Inr (RunCommand
    \<lparr>rcm_args = rest, rcm_opts = \<lparr>go_config_path = [], go_policy_path = []\<rparr>, rcm_json_summary = False\<rparr>)"
proof -
  have "map_of run_flags name = None" using assms(4) by (auto simp: run_flags_def path_flags_def)
  then obtain e where "flag_Parse run_flags ((CHR ''-'' # CHR ''-'' # name) # rest) = (run_flags, rest, Some e)"
    using flag_long_unknown [of name run_flags rest] assms(1-3) by auto
  then show ?thesis
    by (simp add: cli_Parse_def parseRunCommand_def run_command_of_def options_of_def flag_string_def flag_bool_def
        run_flags_def path_flags_def)
qed

lemma usage_error_runs_rest_witness:
  "cli_Parse [''run'', ''--confg'', ''prod.yaml'', ''--'', ''make''] = Inr (RunCommand
     \<lparr>rcm_args = [''prod.yaml'', ''--'', ''make''], rcm_opts = \<lparr>go_config_path = [], go_policy_path = []\<rparr>,
      rcm_json_summary = False\<rparr>)"
  using usage_error_runs_rest [of "''confg''" "[''prod.yaml'', ''--'', ''make'']"] by simp

section \<open>The job that runs a request\<close>

lemma job_arguments:
  "cli_Parse (tl (job_command command)) = Inr (RunCommand \<lparr>rcm_args = command,
     rcm_opts = \<lparr>go_config_path = ''/etc/sandbox/run.yaml'', go_policy_path = ''/etc/sandbox/policy.yaml''\<rparr>,
     rcm_json_summary = False\<rparr>)"
proof -
  have "flag_Parse run_flags ([''--config'', ''/etc/sandbox/run.yaml'', ''--policy'', ''/etc/sandbox/policy.yaml'', ''--''] @ command)
    = (flag_put ''policy'' (FlagString ''/etc/sandbox/policy.yaml'')
        (flag_put ''config'' (FlagString ''/etc/sandbox/run.yaml'') run_flags), command, None)"
    using flag_long_string [of "''config''" run_flags "[]" "''/etc/sandbox/run.yaml''"]
      flag_long_string [of "''policy''" "flag_put ''config'' (FlagString ''/etc/sandbox/run.yaml'') run_flags" "[]"
        "''/etc/sandbox/policy.yaml''"]
    by (simp add: run_flags_def path_flags_def flag_put_def flag_end)
  then show ?thesis
    by (simp add: job_command_def cli_Parse_def parseRunCommand_def run_command_of_def options_of_def flag_string_def
        flag_bool_def run_flags_def path_flags_def flag_put_def)
qed

text \<open>
  C38: the job of a request runs that request: its one container starts the program with arguments that are
  read back as a run of the request's own command, and with the paths of a configuration and a policy that are
  the keys of the config map which is built for the same request and mounted in that container, in the same
  namespace; the configuration there is the request's without the submitter's kubeconfig.
\<close>

theorem job_runs_request:
  assumes "BuildConfigMap marshal_run marshal_policy req ns = Inr cm"
  shows "\<exists>ctr vol mnt. kj_containers (BuildJob req ns) = [ctr] \<and> kj_namespace (BuildJob req ns) = kcm_namespace cm
    \<and> (vol, ConfigMapSource (kcm_name cm)) \<in> set (kj_volumes (BuildJob req ns)) \<and> (vol, mnt) \<in> set (kc_mounts ctr)
    \<and> cli_Parse (tl (kc_command ctr)) = Inr (RunCommand \<lparr>rcm_args = rs_command (cfg_run (rq_run_config req)),
        rcm_opts = \<lparr>go_config_path = mnt @ ''/run.yaml'', go_policy_path = mnt @ ''/policy.yaml''\<rparr>, rcm_json_summary = False\<rparr>)
    \<and> marshal_run (in_cluster_config (rq_run_config req)) = Inr (env_get (kcm_data cm) ''run.yaml'')
    \<and> marshal_policy (rq_policy req) = Inr (env_get (kcm_data cm) ''policy.yaml'')"
proof -
  have cm: "kcm_name cm = configMapName (rs_run_id (cfg_run (rq_run_config req)))" "kcm_namespace cm = ns"
    "marshal_run (in_cluster_config (rq_run_config req)) = Inr (env_get (kcm_data cm) ''run.yaml'')"
    "marshal_policy (rq_policy req) = Inr (env_get (kcm_data cm) ''policy.yaml'')"
    using assms by (auto simp: BuildConfigMap_def env_get_def split: sum.splits)
  show ?thesis
    by (rule exI [of _ "hd (kj_containers (BuildJob req ns))"], rule exI [of _ "''run-config''"],
        rule exI [of _ "''/etc/sandbox''"])
      (simp add: BuildJob_def Let_def cm job_arguments)
qed

lemma job_runs_request_witness:
  "cli_Parse (tl (kc_command (hd (kj_containers (BuildJob (example_request opensandbox_execution) ''runs'')))))
    = Inr (RunCommand \<lparr>rcm_args = [''go'', ''vet''],
        rcm_opts = \<lparr>go_config_path = ''/etc/sandbox/run.yaml'', go_policy_path = ''/etc/sandbox/policy.yaml''\<rparr>,
        rcm_json_summary = False\<rparr>)"
proof -
  obtain cm where "BuildConfigMap (\<lambda>_. Inr ''run: {}'') (\<lambda>_. Inr ''policy: {}'') (example_request opensandbox_execution) ''runs'' = Inr cm"
    by (simp add: BuildConfigMap_def)
  from job_runs_request [OF this] obtain ctr vol mnt where
    ctr: "kj_containers (BuildJob (example_request opensandbox_execution) ''runs'') = [ctr]" "(vol, mnt) \<in> set (kc_mounts ctr)"
    and vol: "(vol, ConfigMapSource (kcm_name cm)) \<in> set (kj_volumes (BuildJob (example_request opensandbox_execution) ''runs''))"
    and read: "cli_Parse (tl (kc_command ctr)) = Inr (RunCommand \<lparr>rcm_args = rs_command (cfg_run (rq_run_config (example_request opensandbox_execution))),
        rcm_opts = \<lparr>go_config_path = mnt @ ''/run.yaml'', go_policy_path = mnt @ ''/policy.yaml''\<rparr>, rcm_json_summary = False\<rparr>)"
    by blast
  have "mnt = ''/etc/sandbox''" using ctr vol by (auto simp: BuildJob_def Let_def)
  with ctr(1) read show ?thesis by (simp add: example_request_def)
qed

section \<open>The exit code of the process\<close>

text \<open>The request that a run or docker command gives to the engine, once its files are loaded.\<close>

definition engine_request :: "app_world \<Rightarrow> command \<Rightarrow> run_request \<Rightarrow> bool" where
  "engine_request w cmd req \<longleftrightarrow>
     (case cmd of
        RunCommand c \<Rightarrow> (\<exists>r. loadRequest w (rcm_opts c) = Inr r \<and>
          req = run_request_of w (r\<lparr>rq_run_config := withCommand (rq_run_config r) (rcm_args c)\<rparr>))
      | DockerCommand c img mode \<Rightarrow> (\<exists>r. loadRequest w (rcm_opts c) = Inr r \<and>
          req = run_request_of w (r\<lparr>rq_run_config := docker_config img mode (withCommand (rq_run_config r) (rcm_args c))\<rparr>))
      | _ \<Rightarrow> False)"

lemma engine_command_code:
  assumes "engine_request w cmd req" "engine_Run (aw_engine w) req = (s, err)"
  shows "co_code (command_Run w cmd) =
      (case err of Some e \<Rightarrow> ExitCodeForResult (Some (st_result s)) err | None \<Rightarrow> rr_exit_code (st_result s))"
    and "co_error (command_Run w cmd) = err"
  using assms
  by (auto simp: engine_request_def command_Run_def RunCommand_Run_def DockerCommand_Run_def run_engine_def command_ended_def
      split: command.splits prod.splits)

lemma run_exit_code:
  assumes "cli_Parse args = Inr cmd" and "engine_request w cmd req" and "engine_Run (aw_engine w) req = (s, err)"
  shows "main_run w args = (if err = None then 0 else ExitCodeForResult (Some (st_result s)) err, err)
    \<and> (fst (main_run w args) = 0 \<longleftrightarrow> err = None)
    \<and> (err = None \<longrightarrow> rr_status (st_result s) \<in> {StatusSucceeded, StatusPartial})"
  using outcome_status [OF run_outcome [OF assms(3)]] engine_command_code [OF assms(2,3)]
  by (auto simp: main_run_def assms(1) Let_def ExitCodeForResult_def split: option.splits if_splits)

lemma usage_exit_code: "cli_Parse args = Inl e \<Longrightarrow> main_run w args = (2, Some e)"
  by (simp add: main_run_def)

text \<open>The files that a command loads.\<close>

definition command_options :: "command \<Rightarrow> global_options option" where
  "command_options cmd =
     (case cmd of
        RunCommand c \<Rightarrow> Some (rcm_opts c)
      | DockerCommand c img mode \<Rightarrow> Some (rcm_opts c)
      | ValidateCommand opts \<Rightarrow> Some opts
      | K8sRenderCommand opts ns \<Rightarrow> Some opts
      | K8sSubmitCommand opts ns kubeconfig ctx \<Rightarrow> Some opts
      | _ \<Rightarrow> None)"

lemma loading_exit_code:
  "cli_Parse args = Inr cmd \<Longrightarrow> command_options cmd = Some opts \<Longrightarrow> loadRequest w opts = Inl e \<Longrightarrow> main_run w args = (1, Some e)"
  by (cases cmd)
    (auto simp: command_options_def main_run_def command_Run_def RunCommand_Run_def DockerCommand_Run_def ValidateCommand_Run_def
      K8sRenderCommand_Run_def K8sSubmitCommand_Run_def command_failed_def command_ended_def Let_def)

text \<open>
  C39: the exit code of the process tells whether the run returned an error. For the command lines that run
  something, it is zero exactly when the engine returned none; otherwise it is the exit code of the result, and
  a command line that cannot be read ends with 2, a configuration that cannot be loaded with 1. Zero does not
  say that the run has succeeded: a run that could not clean up its sandbox is partial and exits with zero too.
\<close>

theorem process_exit_code:
  "(\<forall>e. cli_Parse args = Inl e \<longrightarrow> main_run w args = (2, Some e))
    \<and> (\<forall>cmd opts e. cli_Parse args = Inr cmd \<and> command_options cmd = Some opts \<and> loadRequest w opts = Inl e
         \<longrightarrow> main_run w args = (1, Some e))
    \<and> (\<forall>cmd req s err. cli_Parse args = Inr cmd \<and> engine_request w cmd req \<and> engine_Run (aw_engine w) req = (s, err)
         \<longrightarrow> main_run w args = (if err = None then 0 else ExitCodeForResult (Some (st_result s)) err, err)
           \<and> (fst (main_run w args) = 0 \<longleftrightarrow> err = None)
           \<and> (err = None \<longrightarrow> rr_status (st_result s) \<in> {StatusSucceeded, StatusPartial}))"
  using usage_exit_code [of args] loading_exit_code [of args _ _ w] run_exit_code [of args _ w] by metis

text \<open>A run whose sandbox cannot be deleted.\<close>

definition app_example :: "engine_world \<Rightarrow> app_world" where
  "app_example ew =
     \<lparr>aw_engine = ew, aw_read_file = (\<lambda>_. Inr []),
      aw_yaml_run = (\<lambda>_ cfg. Inr (cfg\<lparr>cfg_run := (cfg_run cfg)\<lparr>rs_command := [''go'', ''vet''], rs_run_id := ''r1'', rs_sandbox_id := ''s1''\<rparr>\<rparr>)),
      aw_yaml_policy = (\<lambda>_ cfg. Inr cfg),
      aw_version = \<lparr>vi_version = ''dev'', vi_git_sha = [], vi_build_time = [], vi_target_os = [], vi_target_arch = []\<rparr>,
      aw_opened = (\<lambda>_. FileAbsent), aw_log_line = (\<lambda>_. None), aw_stamp = ''20260101-000000'', aw_kube = sample_kube_world,
      aw_marshal_run = (\<lambda>_. Inr ''run''), aw_marshal_policy = (\<lambda>_. Inr ''policy''), aw_marshal_job = (\<lambda>_. Inr ''job'')\<rparr>"

definition example_app :: app_world where "example_app = app_example (example_world 3)"

lemma example_app_loads: "\<exists>r. loadRequest example_app \<lparr>go_config_path = [], go_policy_path = []\<rparr> = Inr r"
proof -
  have "\<not> isl (loadRequest example_app \<lparr>go_config_path = [], go_policy_path = []\<rparr>)" by code_simp
  then show ?thesis
    by (cases "loadRequest example_app \<lparr>go_config_path = [], go_policy_path = []\<rparr>") simp_all
qed

definition example_command :: command where
  "example_command = RunCommand \<lparr>rcm_args = [''go'', ''vet''], rcm_opts = \<lparr>go_config_path = [], go_policy_path = []\<rparr>,
     rcm_json_summary = False\<rparr>"

lemma process_exit_code_witness:
  "\<exists>req. engine_request example_app example_command req \<and>
     (fst (main_run example_app [''run'', ''--'', ''go'', ''vet'']) = 0 \<longleftrightarrow> snd (engine_Run (aw_engine example_app) req) = None)"
proof -
  have read: "cli_Parse [''run'', ''--'', ''go'', ''vet''] = Inr example_command" by code_simp
  from example_app_loads obtain req where req: "engine_request example_app example_command req"
    by (auto simp: engine_request_def example_command_def)
  obtain s err where run: "engine_Run (aw_engine example_app) req = (s, err)"
    by (cases "engine_Run (aw_engine example_app) req")
  from read req run process_exit_code [of "[''run'', ''--'', ''go'', ''vet'']" example_app]
  have "fst (main_run example_app [''run'', ''--'', ''go'', ''vet'']) = 0 \<longleftrightarrow> err = None" by blast
  with run req show ?thesis by auto
qed

section \<open>Submitting a job\<close>

lemma ApplyConfigMap_bodies:
  "ApplyConfigMap w c (Some cm) h = (res, h') \<Longrightarrow> JobBody j \<notin> kq_body ` set h \<Longrightarrow> JobBody j \<notin> kq_body ` set h'"
  by (auto simp: ApplyConfigMap_def doConfigMap_def kbind_def kube_send_def kfail_def kret_def decoded_def
      split: sum.splits if_splits)

lemma SubmitJob_requests:
  assumes "SubmitJob w c job h = (res, h')"
  shows "h' = h \<or> (\<exists>q. h' = h @ [q] \<and> kq_body q = JobBody job)"
  using assms
  by (auto simp: SubmitJob_def CreateJob_def kbind_def kube_send_def kfail_def kret_def decoded_def
      split: sum.splits if_splits)

lemma submit_to_order:
  assumes "submit_to w c cm spec [] = (res, h')" and "JobBody j \<in> kq_body ` set h'"
  shows "\<exists>created h q. ApplyConfigMap (aw_kube w) c (Some cm) [] = (Inr created, h) \<and> h' = h @ [q] \<and> kq_body q = JobBody spec \<and> j = spec"
proof -
  obtain r h where apply_run: "ApplyConfigMap (aw_kube w) c (Some cm) [] = (r, h)"
    by (cases "ApplyConfigMap (aw_kube w) c (Some cm) []")
  have no_job: "JobBody j \<notin> kq_body ` set h" using ApplyConfigMap_bodies [OF apply_run] by simp
  show ?thesis
  proof (cases r)
    case (Inl e)
    with assms no_job show ?thesis
      by (simp add: submit_to_def Submitter_ApplyConfigMap_def kbind_def apply_run)
  next
    case (Inr created)
    then have "SubmitJob (aw_kube w) c spec h = (res, h')"
      using assms(1) by (simp add: submit_to_def Submitter_ApplyConfigMap_def kbind_def apply_run)
    from SubmitJob_requests [OF this] no_job assms(2) show ?thesis
      using apply_run Inr by auto
  qed
qed



section \<open>The docker command\<close>

lemma normalized_execution:
  "cfg_execution (normalizeRunConfigWithBase h base c) =
     settle (set_profile (NormalizeRuntimeProfile (profile_of c)) (normalizePaths h base c))"
  "mode_of c \<noteq> [] \<Longrightarrow> kind_of (normalizeRunConfigWithBase h base c) =
     settled_kind (ex_backend (cfg_execution (normalizeRunConfigWithBase h base c))) (mode_of c)"
  by (simp_all add: normalizeRunConfigWithBase_def norm_simps normalizeExecutionBlock_normal execution_normal_form_def
      Let_def normalizePaths_def settled_mode_def)

lemma loaded_execution:
  assumes "loadRequest w opts = Inr r"
  shows "settled_execution (cfg_execution (rq_run_config r))"
proof -
  from assms obtain c base where "rq_run_config r = normalizeRunConfigWithBase (aw_host w) base c"
    by (auto simp: loadRequest_def LoadRunConfig_def Let_def split: prod.splits option.splits if_splits sum.splits)
  then show ?thesis by (simp add: normalized_execution(1) settled_settle)
qed

text \<open>
  The docker command runs in Docker only when the configuration names no other backend. The command sets
  the run mode and the legacy backend kind; the engine normalises the configuration again, and there the
  execution block that loading has filled in decides: a direct one is overridden by the run mode, every other
  backend wins against the command.
\<close>

theorem docker_command_backend:
  assumes "loadRequest w opts = Inr r"
  shows "let b = legacyBackendKindForExecution (ex_backend (cfg_execution (rq_run_config r)));
      c = NormalizeRunConfig h (docker_config img mode (withCommand (rq_run_config r) args)) in
    kind_of c = (if b = BackendKindDirect then BackendKindDocker else b)
    \<and> cfg_execution c = cfg_execution (rq_run_config r)"
proof -
  let ?d = "docker_config img mode (withCommand (rq_run_config r) args)"
  have d: "cfg_execution ?d = cfg_execution (rq_run_config r)" "mode_of ?d = RunModeLocalDocker"
    by (simp_all add: docker_config_def withCommand_def)
  have "settle (set_profile p (normalizePaths h [] ?d)) = cfg_execution (rq_run_config r)" for p
    using loaded_execution [OF assms] by (subst settle_id) (simp_all add: normalizePaths_def Let_def d)
  then show ?thesis
    by (simp add: NormalizeRunConfig_def normalized_execution d settled_kind_def Let_def)
qed

lemma docker_command_backend_witness:
  "\<exists>r. loadRequest example_app \<lparr>go_config_path = [], go_policy_path = []\<rparr> = Inr r \<and>
     kind_of (NormalizeRunConfig sample_host (docker_config ''img'' [] (withCommand (rq_run_config r) [''ls'']))) \<noteq> []"
proof -
  from example_app_loads obtain r where r: "loadRequest example_app \<lparr>go_config_path = [], go_policy_path = []\<rparr> = Inr r" ..
  from docker_command_backend [OF r, of sample_host "''img''" "[]" "[''ls'']"] r show ?thesis
    by (auto simp: Let_def)
qed

end
