(* ===== verification/Introspection.thy ===== *)
theory Introspection
  imports Opensandbox_Client
begin

text \<open>
  \<open>internal/opensandbox/client/introspection.go\<close>: the calls by which a provider is examined before it is used.
  As in the client, decoding a body is a field of the world.
\<close>

record pagination_info =
  pg_page :: int
  pg_page_size :: int
  pg_total_items :: int
  pg_total_pages :: int
  pg_has_next_page :: bool

record list_sandboxes_response =
  lsr_items :: "os_sandbox_info list"
  lsr_pagination :: pagination_info

record openapi_document =
  oad_openapi :: string
  oad_title :: string
  oad_description :: string
  oad_version :: string

record introspection_codec =
  ic_health :: "string \<Rightarrow> go_error + string"
  ic_openapi :: "string \<Rightarrow> go_error + openapi_document"
  ic_listed :: "string \<Rightarrow> go_error + list_sandboxes_response"

text \<open>A health response holds nothing but the status.\<close>

definition Health :: "codec \<Rightarrow> introspection_codec \<Rightarrow> os_client \<Rightarrow> string http" where
  "Health cx ic c = doJSON cx c ''GET'' ''/health'' BodyNone (ic_health ic)"

definition OpenAPI :: "codec \<Rightarrow> introspection_codec \<Rightarrow> os_client \<Rightarrow> openapi_document http" where
  "OpenAPI cx ic c = doJSON cx c ''GET'' ''/openapi.json'' BodyNone (ic_openapi ic)"

definition ListSandboxes :: "codec \<Rightarrow> introspection_codec \<Rightarrow> os_client \<Rightarrow> int \<Rightarrow> int \<Rightarrow> list_sandboxes_response http" where
  "ListSandboxes cx ic c page pageSize =
     (let page = (if page \<le> 0 then 1 else page); pageSize = (if pageSize \<le> 0 then 1 else pageSize)
      in doJSON cx c ''GET'' (''/v1/sandboxes?page='' @ itoa page @ ''&pageSize='' @ itoa pageSize) BodyNone (ic_listed ic))"

end
