(* ===== verification/Capability.thy ===== *)
theory Capability
  imports Introspection Kubernetes Opensandbox_Backend
begin

text \<open>
  \<open>internal/capability\<close>: before a run, each backend is examined. A probe may look at the host, start a tool,
  ask the cluster or the OpenSandbox provider, and even create a sandbox there; what it has done is kept in a
  trace. A probe that does not come back is \<open>None\<close>.
\<close>

section \<open>The world and the trace of a probe\<close>

datatype file_op = FileMkdirAll string | FileCreateTemp string | FileRemove string

text \<open>A tool that was started: the binary, its time limit in nanoseconds and its arguments.\<close>

type_synonym tool_call = "string \<times> int \<times> string list"

record probe_trace =
  pt_files :: "file_op list"
  pt_tools :: "tool_call list"
  pt_kube :: "kube_request list"
  pt_http :: requests

definition no_trace :: probe_trace where
  "no_trace = \<lparr>pt_files = [], pt_tools = [], pt_kube = [], pt_http = []\<rparr>"

text \<open>
  \<open>pb_stat\<close>, \<open>pb_mkdir_all\<close> and \<open>pb_create_temp\<close> are the calls of package \<open>os\<close>, \<open>pb_tool\<close> is \<open>CombinedOutput\<close>,
  \<open>pb_tool_status\<close> the status that \<open>json.Unmarshal\<close> reads, and \<open>pb_wait_done n\<close> the error of the deadline when it
  falls into the \<open>n\<close>-th wait.
\<close>

record probe_world =
  pb_stat :: "string \<Rightarrow> go_error option"
  pb_mkdir_all :: "string \<Rightarrow> go_error option"
  pb_create_temp :: "string \<Rightarrow> string \<Rightarrow> go_error + string"
  pb_temp_dir :: string
  pb_executable :: "string \<Rightarrow> bool"
  pb_look_path :: "string \<Rightarrow> go_error + string"
  pb_tool :: "tool_call list \<Rightarrow> tool_call \<Rightarrow> string \<times> go_error option"
  pb_tool_status :: "string \<Rightarrow> go_error + string"
  pb_kube :: kube_world
  pb_codec :: codec
  pb_introspection :: introspection_codec
  pb_wait_done :: "nat \<Rightarrow> go_error option"

abbreviation pb_host :: "probe_world \<Rightarrow> host" where
  "pb_host w \<equiv> kw_host (pb_kube w)"

type_synonym probed = "(go_error + capability_probe_result) \<times> probe_trace"

definition okResult :: "details \<Rightarrow> string list \<Rightarrow> capability_probe_result" where
  "okResult details warnings = \<lparr>pr_ok = True, pr_details = details, pr_warnings = warnings, pr_errors = []\<rparr>"

definition probeFailure :: "error_code \<Rightarrow> execution_config \<Rightarrow> string \<Rightarrow> go_error" where
  "probeFailure code cfg message = RunnerError code message False [] (ex_backend cfg) [] None"

definition probe_fails :: "error_code \<Rightarrow> execution_config \<Rightarrow> string \<Rightarrow> go_error + capability_probe_result" where
  "probe_fails code cfg message = Inl (probeFailure code cfg message)"

text \<open>The value of a key of the details.\<close>

definition detail_put :: "string \<Rightarrow> detail_value \<Rightarrow> details \<Rightarrow> details" where
  "detail_put k v ds = AList.update k v ds"

section \<open>The host\<close>

definition probeEnv :: "run_config \<Rightarrow> env" where
  "probeEnv cfg = env_put_all (env_put_all [] (rs_extra_env (cfg_run cfg))) (gc_extra_env (cfg_go cfg))"

text \<open>The temporary file is closed and removed, whatever that gives.\<close>

definition probeDirect :: "probe_world \<Rightarrow> execution_config \<Rightarrow> run_config \<Rightarrow> probed" where
  "probeDirect w cfg fullConfig =
     (let run = cfg_run fullConfig; fails = probe_fails ErrorCodeCapabilityProbeFailed cfg in
      case pb_stat w (rs_workspace_dir run) of
        Some e \<Rightarrow> (fails (''workspace not accessible: '' @ error_string e), no_trace)
      | None \<Rightarrow>
          (let probeDir = (if rs_artifact_dir run = [] then pb_temp_dir w else rs_artifact_dir run);
               made = no_trace\<lparr>pt_files := [FileMkdirAll probeDir]\<rparr>;
               tried = no_trace\<lparr>pt_files := [FileMkdirAll probeDir, FileCreateTemp probeDir]\<rparr>
           in case pb_mkdir_all w probeDir of
                Some e \<Rightarrow> (fails (''artifact dir not writable: '' @ error_string e), made)
              | None \<Rightarrow> (case pb_create_temp w probeDir ''.probe-*'' of
                  Inl e \<Rightarrow> (fails (''temp dir not writable: '' @ error_string e), tried)
                | Inr f \<Rightarrow>
                    (let command = (case rs_command run of c # _ \<Rightarrow> c | [] \<Rightarrow> []) in
                     (case (if command = [] then Inr []
                            else ResolveCommandPath (pb_host w) (pb_executable w) command (rs_workspace_dir run) (probeEnv fullConfig)) of
                        Inl e \<Rightarrow> fails (''command '' @ go_quote command @ '' is not executable on this host: '' @ error_string e)
                      | Inr _ \<Rightarrow> Inr (okResult [(''workspace_dir'', DetailString (rs_workspace_dir run)),
                          (''artifact_dir'', DetailString (rs_artifact_dir run)), (''command'', DetailString command)] []),
                      tried\<lparr>pt_files := pt_files tried @ [FileRemove f]\<rparr>)))))"

definition probeDocker :: "probe_world \<Rightarrow> execution_config \<Rightarrow> run_config \<Rightarrow> go_error + capability_probe_result" where
  "probeDocker w cfg fullConfig =
     (let docker = cfg_docker fullConfig; binary = (if dk_binary docker = [] then ''docker'' else dk_binary docker) in
      case pb_look_path w binary of
        Inl e \<Rightarrow> probe_fails ErrorCodeCapabilityProviderUnreachable cfg (''docker CLI not found: '' @ error_string e)
      | Inr path \<Rightarrow> Inr (okResult [(''docker_binary'', DetailString path), (''provider'', DetailString (ex_provider cfg)),
            (''context'', DetailString (dk_context docker))]
          (if ex_provider cfg = ProviderOrbStack \<and> orb_orb_binary (cfg_orbstack fullConfig) = [] \<and> dk_context docker = []
           then [''orbstack provider selected without explicit orb binary or docker context; relying on default docker environment'']
           else [])))"

definition probeMachine :: "probe_world \<Rightarrow> execution_config \<Rightarrow> run_config \<Rightarrow> go_error + capability_probe_result" where
  "probeMachine w cfg fullConfig =
     (let orb = cfg_orbstack fullConfig;
          binary = (if orb_orbctl_binary orb = [] then orb_orb_binary orb else orb_orbctl_binary orb)
      in case pb_look_path w binary of
        Inl e \<Rightarrow> probe_fails ErrorCodeCapabilityProviderUnreachable cfg (''machine provider CLI not found: '' @ error_string e)
      | Inr path \<Rightarrow>
          if orb_machine_name orb = [] then probe_fails ErrorCodeCapabilityProbeFailed cfg ''machine name is required''
          else Inr (okResult [(''binary'', DetailString path), (''machine_name'', DetailString (orb_machine_name orb)),
            (''distro'', DetailString (orb_machine_distro orb))] []))"

definition probeDevContainer :: "probe_world \<Rightarrow> execution_config \<Rightarrow> run_config \<Rightarrow> go_error + capability_probe_result" where
  "probeDevContainer w cfg fullConfig =
     (let dc = cfg_devcontainer fullConfig;
          workspace = (if dc_workspace_folder dc = [] then rs_workspace_dir (cfg_run fullConfig) else dc_workspace_folder dc);
          configPath = (if dc_config_path dc = [] then path_join [workspace, ''.devcontainer'', ''devcontainer.json'']
            else dc_config_path dc)
      in case pb_look_path w (dc_cli_path dc) of
        Inl e \<Rightarrow> probe_fails ErrorCodeCapabilityProviderUnreachable cfg (''devcontainer CLI not found: '' @ error_string e)
      | Inr path \<Rightarrow> (case pb_stat w workspace of
            Some e \<Rightarrow> probe_fails ErrorCodeCapabilityProbeFailed cfg (''devcontainer workspace not accessible: '' @ error_string e)
          | None \<Rightarrow> (case pb_stat w configPath of
                Some e \<Rightarrow> probe_fails ErrorCodeCapabilityProbeFailed cfg (''devcontainer config not accessible: '' @ error_string e)
              | None \<Rightarrow> Inr (okResult [(''cli_path'', DetailString path), (''workspace_folder'', DetailString workspace),
                  (''config_path'', DetailString configPath)] []))))"

section \<open>The cluster\<close>

definition probeKubeconfig :: "probe_world \<Rightarrow> run_config \<Rightarrow> string \<times> string" where
  "probeKubeconfig w fullConfig =
     (let explicit = k8_kubeconfig (cfg_k8s fullConfig) in
      if explicit \<noteq> [] then (KubeconfigPath (pb_host w) explicit, ''explicit'')
      else if os_getenv (pb_host w) ''KUBERNETES_SERVICE_HOST'' \<noteq> [] then ([], ''in-cluster'')
      else if os_getenv (pb_host w) ''KUBECONFIG'' \<noteq> [] then (KubeconfigPath (pb_host w) [], ''env'')
      else ([], ''in-cluster''))"

definition kubeconfigDetail :: "string \<Rightarrow> string \<Rightarrow> string" where
  "kubeconfigDetail kubeconfig mode = (if kubeconfig \<noteq> [] then kubeconfig else mode)"

definition k8s_details :: "execution_config \<Rightarrow> run_config \<Rightarrow> string \<Rightarrow> string \<Rightarrow> details" where
  "k8s_details cfg fullConfig kubeconfig mode =
     [(''provider'', DetailString (ex_provider cfg)),
      (''kubeconfig'', DetailString (kubeconfigDetail kubeconfig mode)),
      (''kube_context'', DetailString (k8_context (cfg_k8s fullConfig))),
      (''namespace'', DetailString (k8_namespace (cfg_k8s fullConfig)))]"

definition probeRuntimeClass :: "probe_world \<Rightarrow> execution_config \<Rightarrow> run_config \<Rightarrow> string \<Rightarrow> string \<Rightarrow> probed" where
  "probeRuntimeClass w cfg fullConfig kubeconfig mode =
     (let runtimeClass = RuntimeClassNameForConfig fullConfig in
      if runtimeClass = [] then
        (probe_fails ErrorCodeCapabilityRuntimeUnavailable cfg (''runtime profile '' @ ex_runtime_profile cfg
           @ '' requires runtime class or equivalent cluster support''), no_trace)
      else (case NewClient (pb_kube w) kubeconfig (k8_context (cfg_k8s fullConfig)) of
          Inl e \<Rightarrow> (probe_fails ErrorCodeCapabilityProviderUnreachable cfg
            (''kubernetes provider config is not usable: '' @ error_string e), no_trace)
        | Inr client \<Rightarrow> (case ReadRuntimeClass (pb_kube w) client runtimeClass [] of
            (r, sent) \<Rightarrow> (case r of
                Inl e \<Rightarrow> probe_fails ErrorCodeCapabilityRuntimeUnavailable cfg
                  (''runtime class '' @ runtimeClass @ '' is not available: '' @ error_string e)
              | Inr _ \<Rightarrow> Inr (okResult (k8s_details cfg fullConfig kubeconfig mode
                  @ [(''runtime_class'', DetailString runtimeClass), (''runtime_profile'', DetailString (ex_runtime_profile cfg))]) []),
              no_trace\<lparr>pt_kube := sent\<rparr>))))"

definition probeK8s :: "probe_world \<Rightarrow> execution_config \<Rightarrow> run_config \<Rightarrow> probed" where
  "probeK8s w cfg fullConfig =
     (case probeKubeconfig w fullConfig of (kubeconfig, mode) \<Rightarrow>
       (case (if kubeconfig = [] then None else pb_stat w kubeconfig) of
          Some e \<Rightarrow> (probe_fails ErrorCodeCapabilityProviderUnreachable cfg (''kubeconfig not accessible: '' @ error_string e), no_trace)
        | None \<Rightarrow>
            if RequiresRuntimeClass (ex_runtime_profile cfg) then probeRuntimeClass w cfg fullConfig kubeconfig mode
            else ((case RESTConfig (pb_kube w) kubeconfig (k8_context (cfg_k8s fullConfig)) of
                Inl e \<Rightarrow> probe_fails ErrorCodeCapabilityProviderUnreachable cfg
                  (''kubernetes provider config is not usable: '' @ error_string e)
              | Inr _ \<Rightarrow> Inr (okResult (k8s_details cfg fullConfig kubeconfig mode) [])), no_trace)))"

section \<open>The OpenSandbox provider\<close>

definition openSandboxProviderMessage :: "go_error \<Rightarrow> string" where
  "openSandboxProviderMessage err =
     (case as_provider_error err of
        Some (ProviderError status code message retryable) \<Rightarrow> if code \<noteq> [] then code @ '': '' @ message else message
      | _ \<Rightarrow> error_string err)"

definition openSandboxProbeError :: "error_code \<Rightarrow> execution_config \<Rightarrow> go_error \<Rightarrow> string \<Rightarrow> go_error" where
  "openSandboxProbeError code cfg err message =
     (case as_provider_error err of
        Some (ProviderError status pcode text retryable) \<Rightarrow>
          RunnerError code message retryable [] (ex_backend cfg) pcode (Some err)
      | _ \<Rightarrow> RunnerError code message False [] (ex_backend cfg) [] (Some err))"

definition openSandboxConnectivityError :: "execution_config \<Rightarrow> go_error \<Rightarrow> string \<Rightarrow> go_error" where
  "openSandboxConnectivityError cfg err action =
     openSandboxProbeError ErrorCodeCapabilityProviderUnreachable cfg err (action @ '': '' @ openSandboxProviderMessage err)"

definition openSandboxRuntimeProbeError :: "execution_config \<Rightarrow> go_error \<Rightarrow> go_error" where
  "openSandboxRuntimeProbeError cfg err =
     (let other = openSandboxProbeError ErrorCodeCapabilityProbeFailed cfg err
            (''opensandbox runtime probe failed while creating sandbox: '' @ openSandboxProviderMessage err)
      in case as_provider_error err of
        Some (ProviderError status code message retryable) \<Rightarrow>
          if status = 401 \<or> status = 403 then
            openSandboxProbeError ErrorCodeCapabilityProviderUnreachable cfg err
              (''opensandbox runtime probe authentication failed: '' @ openSandboxProviderMessage err)
          else if 400 \<le> status \<and> status < 500 then
            openSandboxProbeError ErrorCodeCapabilityRuntimeUnavailable cfg err
              (''opensandbox provider rejected runtime profile '' @ ex_runtime_profile cfg @ '': '' @ openSandboxProviderMessage err)
          else other
      | _ \<Rightarrow> other)"

definition openSandboxRuntimeStateError :: "execution_config \<Rightarrow> os_sandbox_info \<Rightarrow> go_error" where
  "openSandboxRuntimeStateError cfg info =
     probeFailure ErrorCodeCapabilityRuntimeUnavailable cfg
       (''opensandbox runtime probe failed for runtime profile '' @ ex_runtime_profile cfg @ '': ''
        @ join '': '' (to_lower (trim_space (osi_state info))
            # filter (\<lambda>s. s \<noteq> []) [trim_space (osi_reason info), trim_space (osi_message info)]))"

definition openSandboxProbeHTTPTimeout :: "run_config \<Rightarrow> int" where
  "openSandboxProbeHTTPTimeout fullConfig =
     (let s = osb_create_timeout_sec (cfg_opensandbox fullConfig); t = (if s \<le> 0 then 10 else s)
      in (if t > 30 then 30 else t) * 1000000000)"

text \<open>A sandbox that is not there any more counts as deleted; an identifier of spaces is not sent.\<close>

definition deleteOpenSandboxProbeSandbox :: "probe_world \<Rightarrow> os_client \<Rightarrow> string \<Rightarrow> requests \<Rightarrow> go_error option \<times> requests" where
  "deleteOpenSandboxProbeSandbox w c i h =
     (if trim_space i = [] then (None, h)
      else (case DeleteSandbox (pb_codec w) c i h of
          (Inr _, h') \<Rightarrow> (None, h')
        | (Inl e, h') \<Rightarrow> (case as_provider_error e of
              Some (ProviderError status code message retryable) \<Rightarrow> (if status = 404 then None else Some e, h')
            | _ \<Rightarrow> (Some e, h'))))"

definition probe_timed_out :: "execution_config \<Rightarrow> go_error \<Rightarrow> go_error" where
  "probe_timed_out cfg e =
     RunnerError ErrorCodeCapabilityProbeFailed
       (''opensandbox runtime probe timed out waiting for runtime profile '' @ ex_runtime_profile cfg)
       False [] (ex_backend cfg) [] (Some e)"

partial_function (option) probe_wait ::
  "probe_world \<Rightarrow> os_client \<Rightarrow> execution_config \<Rightarrow> nat \<Rightarrow> os_sandbox_info \<Rightarrow> requests \<Rightarrow> (go_error option \<times> requests) option" where
  "probe_wait w c cfg n current h =
     (let state = to_lower (osi_state current) in
      if state = ''running'' \<or> state = ''paused'' then Some (None, h)
      else if state = ''failed'' \<or> state = ''terminated'' then Some (Some (openSandboxRuntimeStateError cfg current), h)
      else (case pb_wait_done w n of
          Some e \<Rightarrow> Some (Some (probe_timed_out cfg e), h)
        | None \<Rightarrow> (case GetSandbox (pb_codec w) c (osi_id current) h of
              (Inl e, h') \<Rightarrow> Some (Some (openSandboxConnectivityError cfg e ''opensandbox runtime probe status lookup failed''), h')
            | (Inr latest, h') \<Rightarrow> probe_wait w c cfg (Suc n) latest h')))"

declare probe_wait.simps [code]

definition waitForOpenSandboxProbeSandbox ::
  "probe_world \<Rightarrow> os_client \<Rightarrow> execution_config \<Rightarrow> os_sandbox_info \<Rightarrow> requests \<Rightarrow> (go_error option \<times> requests) option" where
  "waitForOpenSandboxProbeSandbox w c cfg info h = probe_wait w c cfg 0 info h"

definition probe_create_request :: "execution_config \<Rightarrow> run_config \<Rightarrow> string \<Rightarrow> os_create_request" where
  "probe_create_request cfg fullConfig img =
     (let profile = ex_runtime_profile cfg; osb = cfg_opensandbox fullConfig; root = trim_space (osb_workspace_root osb);
          runtimeClass = RuntimeClassNameForConfig fullConfig;
          metadata = [(''probe.kind'', ''runtime_profile''), (''probe.managed_by'', ''sandbox-runner''),
            (''probe.runtime_profile'', profile), (''runtime.profile'', profile)];
          extensions = [(''runtime.profile'', profile)];
          extensions = (if osb_runtime osb \<noteq> [] then env_put ''runtime'' (osb_runtime osb) extensions else extensions);
          extensions = (if root \<noteq> [] then env_put ''workspace_dir'' root extensions else extensions)
      in \<lparr>ocr_image_uri = img, ocr_timeout = 60, ocr_resource_limits = [], ocr_env = [],
          ocr_metadata = (if runtimeClass \<noteq> [] then env_put ''runtime.class'' runtimeClass metadata else metadata),
          ocr_entrypoint = [],
          ocr_extensions = (if runtimeClass \<noteq> [] then env_put ''runtime.class'' runtimeClass extensions else extensions)\<rparr>)"

definition probe_image :: "run_config \<Rightarrow> string" where
  "probe_image fullConfig =
     (let img = trim_space (sb_image (cfg_sandbox fullConfig)) in
      if img = [] then trim_space (rs_image (cfg_run fullConfig)) else img)"

text \<open>The details, the warnings and the error, as the code returns them.\<close>

definition probeOpenSandboxRuntimeProfile ::
  "probe_world \<Rightarrow> os_client \<Rightarrow> execution_config \<Rightarrow> run_config \<Rightarrow> requests
     \<Rightarrow> ((details \<times> string list \<times> go_error option) \<times> requests) option" where
  "probeOpenSandboxRuntimeProfile w c cfg fullConfig h =
     (let img = probe_image fullConfig in
      if img = [] then
        Some (([], [], Some (probeFailure ErrorCodeCapabilityProbeFailed cfg
          ''opensandbox runtime probe requires sandbox.image or run.image'')), h)
      else (case CreateSandbox (pb_codec w) c (probe_create_request cfg fullConfig img) h of
          (Inl e, h1) \<Rightarrow> Some (([], [], Some (openSandboxRuntimeProbeError cfg e)), h1)
        | (Inr info, h1) \<Rightarrow> (case waitForOpenSandboxProbeSandbox w c cfg info h1 of
              None \<Rightarrow> None
            | Some (waitErr, h2) \<Rightarrow> (case deleteOpenSandboxProbeSandbox w c (osi_id info) h2 of
                (cleanupErr, h3) \<Rightarrow>
                  (let warnings = (case cleanupErr of
                       Some e \<Rightarrow> [''opensandbox runtime probe cleanup failed: '' @ error_string e] | None \<Rightarrow> [])
                   in Some (case waitErr of
                       Some e \<Rightarrow> ([], warnings, Some e)
                     | None \<Rightarrow> ([(''runtime_probe_strategy'', DetailString ''provider.create_start_delete''),
                         (''runtime_probe_image'', DetailString img),
                         (''runtime_probe_status'', DetailString (to_lower (osi_state info)))], warnings, None), h3))))))"

definition probe_client :: "string \<Rightarrow> run_config \<Rightarrow> os_client" where
  "probe_client base fullConfig = client_New \<lparr>oc_base_url = base, oc_api_key = osb_api_key (cfg_opensandbox fullConfig),
     oc_timeout = openSandboxProbeHTTPTimeout fullConfig, oc_max_retries = 1, oc_retry_wait = 250 * 1000000\<rparr>"

text \<open>The checks that every runtime profile gets: health, the API document, a list of one sandbox.\<close>

definition probe_provider :: "probe_world \<Rightarrow> os_client \<Rightarrow> execution_config \<Rightarrow> run_config \<Rightarrow> string \<Rightarrow> (details \<times> string list) http" where
  "probe_provider w c cfg fullConfig base =
     (let cx = pb_codec w; ic = pb_introspection w; osb = cfg_opensandbox fullConfig;
          details0 = [(''base_url'', DetailString base), (''runtime'', DetailString (osb_runtime osb)),
            (''probe_mode'', DetailString ''provider.health+list'')]
      in (\<lambda>h. case Health cx ic c h of
          (Inl e, h1) \<Rightarrow> (Inl (openSandboxConnectivityError cfg e ''opensandbox health check failed''), h1)
        | (Inr status, h1) \<Rightarrow>
            (let details1 = detail_put ''health_status'' (DetailString status) details0 in
             case OpenAPI cx ic c h1 of (api, h2) \<Rightarrow>
               (let (details2, warnings) = (case api of
                    Inl e \<Rightarrow> (details1, [''opensandbox openapi discovery failed: '' @ error_string e])
                  | Inr doc \<Rightarrow> (detail_put ''api_title'' (DetailString (oad_title doc))
                      (detail_put ''api_version'' (DetailString (oad_version doc)) details1), []))
                in case ListSandboxes cx ic c 1 1 h2 of
                    (Inl e, h3) \<Rightarrow> (Inl (openSandboxConnectivityError cfg e ''opensandbox sandbox listing failed''), h3)
                  | (Inr _, h3) \<Rightarrow> (Inr (detail_put ''auth_checked'' (DetailBool True) details2,
                      warnings @ (if osb_api_key osb = []
                        then [''opensandbox API key is empty; provider accepted unauthenticated probe requests''] else [])), h3)))))"

definition probeOpenSandbox :: "probe_world \<Rightarrow> execution_config \<Rightarrow> run_config \<Rightarrow> probed option" where
  "probeOpenSandbox w cfg fullConfig =
     (let base_url = osb_base_url (cfg_opensandbox fullConfig);
          unreachable = (\<lambda>m. Some (probe_fails ErrorCodeCapabilityProviderUnreachable cfg m, no_trace))
      in if base_url = [] then unreachable ''opensandbox base URL is required''
      else (case url_Parse base_url of
          None \<Rightarrow> unreachable (''opensandbox base URL is invalid: '' @ go_quote base_url)
        | Some parsed \<Rightarrow>
            if u_scheme parsed = [] \<or> u_host parsed = [] then unreachable (''opensandbox base URL is invalid: '' @ go_quote base_url)
            else (let base = url_String parsed; c = probe_client base fullConfig in
              case probe_provider w c cfg fullConfig base [] of
                (Inl e, h) \<Rightarrow> Some (Inl e, no_trace\<lparr>pt_http := h\<rparr>)
              | (Inr (details, warnings), h) \<Rightarrow>
                  if ex_runtime_profile cfg = ExecutionRuntimeProfileDefault then
                    Some (Inr (okResult details warnings), no_trace\<lparr>pt_http := h\<rparr>)
                  else map_option (\<lambda>((runtimeDetails, runtimeWarnings, err), h').
                      (case err of
                         Some e \<Rightarrow> Inl e
                       | None \<Rightarrow> Inr (okResult (foldr (\<lambda>(k, v). detail_put k v) runtimeDetails details) (warnings @ runtimeWarnings)),
                       no_trace\<lparr>pt_http := h'\<rparr>))
                    (probeOpenSandboxRuntimeProfile w c cfg fullConfig h))))"

section \<open>The Apple container tool\<close>

definition appleContainerCommand :: "probe_world \<Rightarrow> string \<Rightarrow> int \<Rightarrow> string list \<Rightarrow> tool_call list \<Rightarrow> (go_error + string) \<times> tool_call list" where
  "appleContainerCommand w binary timeout args tools =
     (let call = (binary, timeout, args) in
      (case pb_tool w tools call of
         (out, None) \<Rightarrow> Inr out
       | (out, Some e) \<Rightarrow> (let text = trim_space out in Inl (ErrorText (if text = [] then error_string e else text))),
       tools @ [call]))"

definition appleContainerSystemStatus :: "probe_world \<Rightarrow> string \<Rightarrow> tool_call list \<Rightarrow> (go_error + string) \<times> tool_call list" where
  "appleContainerSystemStatus w binary tools =
     (case appleContainerCommand w binary (15 * 1000000000) [''system'', ''status'', ''--format'', ''json''] tools of
        (Inl e, tools') \<Rightarrow> (Inl e, tools')
      | (Inr out, tools') \<Rightarrow> (case pb_tool_status w out of
            Inl e \<Rightarrow> Inl (WrapError ''parse apple container system status: '' e) | Inr status \<Rightarrow> Inr status, tools'))"

definition appleContainerCreateProbe :: "probe_world \<Rightarrow> string \<Rightarrow> string \<Rightarrow> int \<Rightarrow> tool_call list \<Rightarrow> go_error option \<times> tool_call list" where
  "appleContainerCreateProbe w binary img timeoutSec tools =
     (case appleContainerCommand w binary ((if timeoutSec \<le> 0 then 60 else timeoutSec) * 1000000000)
         [''create'', ''--remove'', img, ''/bin/sh'', ''-lc'', ''true''] tools of
        (Inl e, tools') \<Rightarrow> (Some e, tools') | (Inr _, tools') \<Rightarrow> (None, tools'))"

definition service_gone :: "string \<Rightarrow> bool" where
  "service_gone message \<longleftrightarrow> contains_sub message ''XPC connection error'' \<or> contains_sub message ''Connection invalid''"

definition appleContainerProviderError :: "execution_config \<Rightarrow> string \<Rightarrow> go_error \<Rightarrow> go_error" where
  "appleContainerProviderError cfg action err =
     (let message = trim_space (error_string err) in
      probeFailure ErrorCodeCapabilityProviderUnreachable cfg (action @ '': '' @ message
        @ (if service_gone message then ''; run `container system start --disable-kernel-install`'' else [])))"

definition appleContainerCreateProbeError :: "execution_config \<Rightarrow> string \<Rightarrow> go_error \<Rightarrow> go_error" where
  "appleContainerCreateProbeError cfg img err =
     (let message = trim_space (error_string err) in
      if contains_sub message ''default kernel not configured'' then
        probeFailure ErrorCodeCapabilityProviderUnreachable cfg
          (''apple-container default kernel is not configured; run `container system kernel set --recommended --arch arm64 --force` then `container system start --disable-kernel-install`: '' @ message)
      else if service_gone message then
        probeFailure ErrorCodeCapabilityProviderUnreachable cfg (''apple container service became unavailable during create probe: '' @ message)
      else probeFailure ErrorCodeCapabilityProbeFailed cfg (''apple container create probe failed for image '' @ img @ '': '' @ message))"

fun firstNonEmpty :: "string list \<Rightarrow> string" where
  "firstNonEmpty [] = []"
| "firstNonEmpty (v # vs) = (if trim_space v \<noteq> [] then v else firstNonEmpty vs)"

definition probeAppleContainer :: "probe_world \<Rightarrow> execution_config \<Rightarrow> run_config \<Rightarrow> probed" where
  "probeAppleContainer w cfg fullConfig =
     (let apc = cfg_apple_container fullConfig; unreachable = probe_fails ErrorCodeCapabilityProviderUnreachable cfg;
          img = (if apc_image apc = [] then rs_image (cfg_run fullConfig) else apc_image apc)
      in if host_goos (pb_host w) \<noteq> ''darwin'' then (unreachable ''apple-container backend requires macOS'', no_trace)
      else if host_goarch (pb_host w) \<noteq> ''arm64'' then (unreachable ''apple-container backend requires darwin/arm64'', no_trace)
      else (case pb_look_path w (apc_binary apc) of
          Inl e \<Rightarrow> (unreachable (''apple container CLI not found: '' @ error_string e), no_trace)
        | Inr path \<Rightarrow> (case appleContainerSystemStatus w path [] of
            (Inl e, tools) \<Rightarrow> (Inl (appleContainerProviderError cfg ''apple container service check failed'' e), no_trace\<lparr>pt_tools := tools\<rparr>)
          | (Inr status, tools) \<Rightarrow>
              if status \<noteq> ''running'' then
                (unreachable (''apple container services are not running (status='' @ firstNonEmpty [status, ''unknown'']
                   @ ''); run `container system start --disable-kernel-install`''), no_trace\<lparr>pt_tools := tools\<rparr>)
              else if img = [] then
                (Inr (okResult [(''binary'', DetailString path), (''service_status'', DetailString status)] []), no_trace\<lparr>pt_tools := tools\<rparr>)
              else (case appleContainerCreateProbe w path img (apc_create_timeout_sec apc) tools of
                  (Some e, tools') \<Rightarrow> (Inl (appleContainerCreateProbeError cfg img e), no_trace\<lparr>pt_tools := tools'\<rparr>)
                | (None, tools') \<Rightarrow> (Inr (okResult [(''binary'', DetailString path), (''image'', DetailString img),
                    (''service_status'', DetailString status),
                    (''probe_mode'', DetailString ''service_status+create_remove'')] []), no_trace\<lparr>pt_tools := tools'\<rparr>)))))"

section \<open>The probe of a backend\<close>

definition Probe :: "probe_world \<Rightarrow> execution_config \<Rightarrow> run_config \<Rightarrow> probed option" where
  "Probe w cfg fullConfig =
     (let b = ex_backend cfg in
      if b = ExecutionBackendDirect then Some (probeDirect w cfg fullConfig)
      else if b = ExecutionBackendDocker then Some (probeDocker w cfg fullConfig, no_trace)
      else if b = ExecutionBackendK8s then Some (probeK8s w cfg fullConfig)
      else if b = ExecutionBackendOpenSandbox then probeOpenSandbox w cfg fullConfig
      else if b = ExecutionBackendDevContainer then Some (probeDevContainer w cfg fullConfig, no_trace)
      else if b = ExecutionBackendAppleContainer then Some (probeAppleContainer w cfg fullConfig)
      else if b = ExecutionBackendMachine then Some (probeMachine w cfg fullConfig, no_trace)
      else Some (probe_fails ErrorCodeCapabilityProbeFailed cfg (''no capability probe implemented for backend '' @ b), no_trace))"

end
