(* ===== verification/Capability_Facts.thy ===== *)
theory Capability_Facts
  imports Capability Kube_Facts Engine_Props
begin

text \<open>
  What the probes promise: the sandbox that a probe creates at the OpenSandbox provider is taken down again,
  whatever the provider answers, and a run that needs an isolating runtime class does nothing before the
  cluster has shown that class.
\<close>

section \<open>The requests of a call\<close>

definition http_ok :: "http_response \<Rightarrow> bool" where
  "http_ok r \<longleftrightarrow> 200 \<le> hp_status r \<and> hp_status r < 300"

text \<open>
  \<open>one_call\<close>: the requests \<open>qs\<close>, sent after \<open>h\<close>, are the attempts of one call. Only the last is answered, and when it
  is answered well, the result is what the body decodes to.
\<close>

definition one_call ::
  "codec \<Rightarrow> requests \<Rightarrow> requests \<Rightarrow> string \<Rightarrow> string \<Rightarrow> (string \<Rightarrow> go_error + 'a) \<Rightarrow> go_error + 'a \<Rightarrow> bool" where
  "one_call cx h qs m u f r \<longleftrightarrow> qs \<noteq> [] \<and> (\<forall>q\<in>set qs. hq_method q = m \<and> hq_url q = u) \<and>
     (\<forall>k resp. k < length qs \<longrightarrow> cx_do cx (h @ take k qs) (qs ! k) = Inr resp \<longrightarrow>
        Suc k = length qs \<and> (http_ok resp \<longrightarrow> r = f (hp_body resp)))"

lemma do_attempts_trace:
  assumes "do_attempts cx left n q h = (r, h')"
  shows "\<exists>qs. h' = h @ qs \<and> qs \<noteq> [] \<and> (\<forall>x\<in>set qs. hq_method x = hq_method q \<and> hq_url x = hq_url q) \<and>
    (\<forall>k resp. k < length qs \<longrightarrow> cx_do cx (h @ take k qs) (qs ! k) = Inr resp \<longrightarrow> Suc k = length qs \<and> r = Inr resp)"
  using assms
proof (induction left arbitrary: n q h)
  case 0
  then show ?case by (intro exI [of _ "[q]"]) (auto simp: do_attempts.simps [of cx 0] split: sum.splits)
next
  case (Suc left)
  show ?case
  proof (cases "\<exists>resp. cx_do cx h q = Inr resp \<or> cx_interrupted cx n \<noteq> None")
    case True
    with Suc.prems show ?thesis
      by (intro exI [of _ "[q]"]) (auto simp: do_attempts.simps [of cx "Suc left"] split: sum.splits option.splits)
  next
    case False
    then obtain e where e: "cx_do cx h q = Inl e" by (cases "cx_do cx h q") auto
    with False Suc.prems have "do_attempts cx left (Suc n) (spend q) (h @ [q]) = (r, h')"
      by (simp add: do_attempts.simps [of cx "Suc left"])
    from Suc.IH [OF this] obtain qs where qs: "h' = (h @ [q]) @ qs" "qs \<noteq> []"
      "\<forall>x\<in>set qs. hq_method x = hq_method q \<and> hq_url x = hq_url q"
      "\<forall>k resp. k < length qs \<longrightarrow> cx_do cx ((h @ [q]) @ take k qs) (qs ! k) = Inr resp \<longrightarrow> Suc k = length qs \<and> r = Inr resp"
      by (auto simp: spend_def split: if_splits)
    show ?thesis
    proof (intro exI [of _ "q # qs"] conjI allI impI)
      fix k resp assume k: "k < length (q # qs)" and a: "cx_do cx (h @ take k (q # qs)) ((q # qs) ! k) = Inr resp"
      have "\<exists>j. k = Suc j" using a e by (cases k) auto
      then obtain j where "k = Suc j" ..
      with k a qs(4) show "Suc k = length (q # qs)" "r = Inr resp" by auto
    qed (use qs in auto)
  qed
qed

lemma doJSON_one_call:
  assumes "doJSON cx c m p b f h = (r, h')" and "0 \<le> cl_max_retries c"
  shows "\<exists>qs. h' = h @ qs \<and> one_call cx h qs m (cl_base_url c @ p) f r"
proof -
  let ?q = "\<lparr>hq_method = m, hq_url = cl_base_url c @ p, hq_headers = request_headers c b [], hq_body = b\<rparr>"
  obtain r0 h0 where att: "do_attempts cx (nat (cl_max_retries c)) 0 ?q h = (r0, h0)" by fastforce
  from do_attempts_trace [OF this] obtain qs where qs: "h0 = h @ qs" "qs \<noteq> []"
    "\<forall>x\<in>set qs. hq_method x = m \<and> hq_url x = cl_base_url c @ p"
    "\<forall>k resp. k < length qs \<longrightarrow> cx_do cx (h @ take k qs) (qs ! k) = Inr resp \<longrightarrow> Suc k = length qs \<and> r0 = Inr resp"
    by auto
  have "h' = h0" and "\<And>resp. r0 = Inr resp \<Longrightarrow> http_ok resp \<Longrightarrow> r = f (hp_body resp)"
    using assms att by (auto simp: doJSON_def doJSONAbsolute_def doRaw_def hbind_def decode_with_def http_ok_def
        hret_def hfail_def split: sum.splits if_splits)
  with qs show ?thesis unfolding one_call_def by (intro exI [of _ qs]) blast
qed

section \<open>Waiting for the sandbox of a probe\<close>

definition all_get :: "requests \<Rightarrow> bool" where
  "all_get qs \<longleftrightarrow> (\<forall>q\<in>set qs. hq_method q = ''GET'')"

lemma all_get_append [simp]: "all_get (xs @ ys) \<longleftrightarrow> all_get xs \<and> all_get ys"
  and all_get_Nil [simp]: "all_get []"
  by (auto simp: all_get_def)

lemma one_call_get: "one_call cx h qs ''GET'' u f r \<Longrightarrow> all_get qs"
  by (simp add: one_call_def all_get_def)

lemma GetSandbox_gets:
  assumes "GetSandbox cx c i h = (r, h')" and "0 \<le> cl_max_retries c"
  shows "\<exists>qs. h' = h @ qs \<and> all_get qs"
  using doJSON_one_call [OF assms(1) [unfolded GetSandbox_def] assms(2)] one_call_get by blast

lemma probe_wait_gets:
  assumes "probe_wait w c cfg n cur h = Some (r, h')" and retries: "0 \<le> cl_max_retries c"
  shows "\<exists>qs. h' = h @ qs \<and> all_get qs"
proof -
  have "0 \<le> cl_max_retries c \<longrightarrow> (\<exists>qs. snd (r, h') = h @ qs \<and> all_get qs)"
  proof (rule probe_wait.raw_induct [OF _ assms(1)])
    fix loop and w :: probe_world and c cfg n cur h y
    assume IH: "\<And>w c cfg n cur h y. loop w c cfg n cur h = Some y \<Longrightarrow>
        0 \<le> cl_max_retries c \<longrightarrow> (\<exists>qs. snd y = h @ qs \<and> all_get qs)"
      and step: "(let state = to_lower (osi_state cur) in
        if state = ''running'' \<or> state = ''paused'' then Some (None, h)
        else if state = ''failed'' \<or> state = ''terminated'' then Some (Some (openSandboxRuntimeStateError cfg cur), h)
        else (case pb_wait_done w n of
            Some e \<Rightarrow> Some (Some (probe_timed_out cfg e), h)
          | None \<Rightarrow> (case GetSandbox (pb_codec w) c (osi_id cur) h of
                (Inl e, h') \<Rightarrow> Some (Some (openSandboxConnectivityError cfg e ''opensandbox runtime probe status lookup failed''), h')
              | (Inr latest, h') \<Rightarrow> loop w c cfg (Suc n) latest h'))) = Some y"
    show "0 \<le> cl_max_retries c \<longrightarrow> (\<exists>qs. snd y = h @ qs \<and> all_get qs)"
    proof
      assume c: "0 \<le> cl_max_retries c"
      obtain r1 h1 where got: "GetSandbox (pb_codec w) c (osi_id cur) h = (r1, h1)" by fastforce
      from GetSandbox_gets [OF got c] obtain qs where qs: "h1 = h @ qs" "all_get qs" by blast
      have "\<exists>qs'. snd y = h1 @ qs' \<and> all_get qs'" if "loop w c cfg (Suc n) latest h1 = Some y" for latest
        using IH [OF that] c by blast
      with step got qs show "\<exists>qs. snd y = h @ qs \<and> all_get qs"
        by (auto simp: Let_def split: if_splits option.splits sum.splits)
          (metis all_get_append append_assoc)+
    qed
  qed
  with retries show ?thesis by simp
qed

lemma probe_wait_ends:
  assumes "pb_wait_done w m = Some e" and "n \<le> m"
  shows "\<exists>y. probe_wait w c cfg n cur h = Some y"
  using assms(2)
proof (induction "m - n" arbitrary: n cur h)
  case 0
  with assms(1) have "pb_wait_done w n = Some e" by simp
  then show ?case by (simp add: probe_wait.simps [of w c cfg n] Let_def)
next
  case (Suc d)
  then have "\<exists>y. probe_wait w c cfg (Suc n) latest h' = Some y" for latest h'
    by (intro Suc.hyps(1)) auto
  then show ?case by (auto simp: probe_wait.simps [of w c cfg n] Let_def split: option.split sum.split prod.split)
qed

section \<open>The sandbox of a probe\<close>

text \<open>The provider has answered the \<open>k\<close>-th request of a history by creating a sandbox.\<close>

definition created_in :: "codec \<Rightarrow> requests \<Rightarrow> nat \<Rightarrow> os_sandbox_info \<Rightarrow> bool" where
  "created_in cx hs k info \<longleftrightarrow> k < length hs \<and> hq_method (hs ! k) = ''POST'' \<and>
     (\<exists>resp. cx_do cx (take k hs) (hs ! k) = Inr resp \<and> http_ok resp \<and> cx_sandbox cx (hp_body resp) = Inr info)"

text \<open>After the creation nothing is sent but look-ups and then, at least once, the removal of that sandbox.\<close>

definition removed_after :: "requests \<Rightarrow> nat \<Rightarrow> string \<Rightarrow> bool" where
  "removed_after hs k i \<longleftrightarrow> (\<exists>gets dels base. drop (Suc k) hs = gets @ dels \<and> all_get gets \<and> dels \<noteq> [] \<and>
     hq_url (hs ! k) = base @ ''/v1/sandboxes'' \<and>
     (\<forall>q\<in>set dels. hq_method q = ''DELETE'' \<and> hq_url q = base @ sandbox_path i))"

lemma delete_requests:
  assumes "deleteOpenSandboxProbeSandbox w c i h = (e, h')" and "0 \<le> cl_max_retries c"
  shows "\<exists>qs. h' = h @ qs \<and> (trim_space i \<noteq> [] \<longrightarrow> qs \<noteq> []) \<and>
    (\<forall>q\<in>set qs. hq_method q = ''DELETE'' \<and> hq_url q = cl_base_url c @ sandbox_path i)"
proof (cases "trim_space i = []")
  case True
  with assms(1) show ?thesis by (simp add: deleteOpenSandboxProbeSandbox_def)
next
  case False
  obtain r1 h1 where del: "DeleteSandbox (pb_codec w) c i h = (r1, h1)" by fastforce
  with assms(1) False have "h' = h1"
    by (auto simp: deleteOpenSandboxProbeSandbox_def split: sum.splits option.splits go_error.splits)
  moreover obtain qs where "h1 = h @ qs"
    "one_call (pb_codec w) h qs ''DELETE'' (cl_base_url c @ sandbox_path i) ignore_body r1"
    using doJSON_one_call [OF del [unfolded DeleteSandbox_def] assms(2)] by blast
  ultimately show ?thesis by (auto simp: one_call_def)
qed

lemma not_created:
  assumes "created_in cx (h @ qs) k info" and "\<forall>q\<in>set qs. hq_method q \<noteq> ''POST''"
  shows "created_in cx h k info"
  using assms by (auto simp: created_in_def nth_append split: if_splits)

lemma all_get_not_post: "all_get qs \<Longrightarrow> \<forall>q\<in>set qs. hq_method q \<noteq> ''POST''"
  by (auto simp: all_get_def)

lemma runtime_probe_removes:
  assumes run: "probeOpenSandboxRuntimeProfile w c cfg full h = Some (res, h')" and c: "0 \<le> cl_max_retries c"
    and fresh: "all_get h" and made: "created_in (pb_codec w) h' k info" and i: "trim_space (osi_id info) \<noteq> []"
  shows "removed_after h' k (osi_id info)"
proof -
  let ?cx = "pb_codec w" and ?req = "probe_create_request cfg full (probe_image full)"
  have none: "\<not> created_in ?cx h k info" using fresh by (auto simp: created_in_def all_get_def)
  then have img: "probe_image full \<noteq> []"
    using run made by (auto simp: probeOpenSandboxRuntimeProfile_def)
  obtain r1 h1 where create: "CreateSandbox ?cx c ?req h = (r1, h1)" by fastforce
  from doJSON_one_call [OF create [unfolded CreateSandbox_def] c] obtain qs where
    qs: "h1 = h @ qs" "one_call ?cx h qs ''POST'' (cl_base_url c @ ''/v1/sandboxes'') (cx_sandbox ?cx) r1" by blast
  have answered: "Suc k = length h1 \<and> r1 = Inr info \<and> hq_url (h1 ! k) = cl_base_url c @ ''/v1/sandboxes''"
    if "created_in ?cx h1 k info"
  proof -
    have "\<not> k < length h" using that none by (auto simp: qs(1) created_in_def nth_append)
    then obtain j where "k = length h + j" by (metis le_add_diff_inverse not_less)
    with that qs(2) show ?thesis by (auto simp: qs(1) created_in_def one_call_def)
  qed
  show ?thesis
  proof (cases r1)
    case (Inl e)
    with run create img have "h' = h1" by (simp add: probeOpenSandboxRuntimeProfile_def Let_def)
    with made answered Inl show ?thesis by simp
  next
    case (Inr info1)
    with run create img obtain waitErr h2 cleanupErr where
      wait: "probe_wait w c cfg 0 info1 h1 = Some (waitErr, h2)"
      and del: "deleteOpenSandboxProbeSandbox w c (osi_id info1) h2 = (cleanupErr, h')"
      by (auto simp: probeOpenSandboxRuntimeProfile_def waitForOpenSandboxProbeSandbox_def Let_def
          split: option.split_asm prod.split_asm)
    from probe_wait_gets [OF wait c] obtain gets where gets: "h2 = h1 @ gets" "all_get gets" by blast
    from delete_requests [OF del c] obtain dels where dels: "h' = h2 @ dels"
      "trim_space (osi_id info1) \<noteq> [] \<longrightarrow> dels \<noteq> []"
      "\<forall>q\<in>set dels. hq_method q = ''DELETE'' \<and> hq_url q = cl_base_url c @ sandbox_path (osi_id info1)" by blast
    have "created_in ?cx h1 k info"
      using made unfolding dels(1) gets(1)
      by (rule not_created [OF not_created]) (use dels(3) gets(2) in \<open>auto simp: all_get_def\<close>)
    from answered [OF this] Inr i dels gets show ?thesis
      unfolding removed_after_def
      by (intro exI [of _ gets] exI [of _ dels] exI [of _ "cl_base_url c"]) (auto simp: nth_append)
  qed
qed

lemma runtime_probe_returns:
  assumes "pb_wait_done w m = Some e"
  shows "\<exists>res h'. probeOpenSandboxRuntimeProfile w c cfg full h = Some (res, h')"
  using probe_wait_ends [OF assms, of 0 c cfg]
  by (auto simp: probeOpenSandboxRuntimeProfile_def waitForOpenSandboxProbeSandbox_def Let_def
      split: sum.split prod.split option.split) (metis option.distinct(1))

lemma probe_provider_gets:
  assumes "probe_provider w c cfg full base h = (r, h')" and "0 \<le> cl_max_retries c"
  shows "\<exists>qs. h' = h @ qs \<and> all_get qs"
proof -
  let ?cx = "pb_codec w" and ?ic = "pb_introspection w"
  obtain r1 h1 where health: "Health ?cx ?ic c h = (r1, h1)" by fastforce
  obtain r2 h2 where api: "OpenAPI ?cx ?ic c h1 = (r2, h2)" by fastforce
  obtain r3 h3 where listed: "ListSandboxes ?cx ?ic c 1 1 h2 = (r3, h3)" by fastforce
  have "\<exists>qs. h1 = h @ qs \<and> all_get qs"
    using doJSON_one_call [OF health [unfolded Health_def] assms(2)] one_call_get by blast
  moreover have "\<exists>qs. h2 = h1 @ qs \<and> all_get qs"
    using doJSON_one_call [OF api [unfolded OpenAPI_def] assms(2)] one_call_get by blast
  moreover have "\<exists>qs. h3 = h2 @ qs \<and> all_get qs"
    using doJSON_one_call [OF listed [unfolded ListSandboxes_def Let_def] assms(2)] one_call_get by blast
  moreover have "h' = h1 \<or> h' = h3"
    using assms(1) health api listed by (auto simp: probe_provider_def Let_def split: sum.splits prod.splits)
  ultimately show ?thesis by (metis all_get_append append_assoc)
qed

text \<open>
  C13: the probe of an OpenSandbox provider takes down what it has created. Once the deadline falls into one of
  its waits the probe returns, whatever the provider answers; and when the provider has created a sandbox for
  it, then nothing is sent after that but look-ups and, in the end, the removal of that very sandbox, also when
  the sandbox fails or does not come up in time.
\<close>

theorem probe_sandbox_removed:
  assumes "ex_backend cfg = ExecutionBackendOpenSandbox" and "pb_wait_done w m = Some e"
  shows "\<exists>r tr. Probe w cfg full = Some (r, tr) \<and>
    (\<forall>k info. created_in (pb_codec w) (pt_http tr) k info \<longrightarrow> trim_space (osi_id info) \<noteq> [] \<longrightarrow>
       removed_after (pt_http tr) k (osi_id info))"
proof -
  let ?claim = "\<lambda>hs. \<forall>k info. created_in (pb_codec w) hs k info \<longrightarrow> trim_space (osi_id info) \<noteq> [] \<longrightarrow>
       removed_after hs k (osi_id info)"
  have quiet: "?claim hs" if "all_get hs" for hs
    using that by (auto simp: created_in_def all_get_def)
  have "\<exists>r tr. probeOpenSandbox w cfg full = Some (r, tr) \<and> ?claim (pt_http tr)"
  proof (cases "osb_base_url (cfg_opensandbox full) = [] \<or> url_Parse (osb_base_url (cfg_opensandbox full)) = None")
    case True
    then show ?thesis using quiet [of "[]"] by (auto simp: probeOpenSandbox_def no_trace_def Let_def)
  next
    case False
    then obtain u where u: "url_Parse (osb_base_url (cfg_opensandbox full)) = Some u" by auto
    let ?c = "probe_client (url_String u) full"
    have c: "0 \<le> cl_max_retries ?c" by (simp add: probe_client_def client_New_def)
    obtain r1 h1 where first: "probe_provider w ?c cfg full (url_String u) [] = (r1, h1)" by fastforce
    from probe_provider_gets [OF this c] have gets: "all_get h1" by auto
    obtain res h2 where second: "probeOpenSandboxRuntimeProfile w ?c cfg full h1 = Some (res, h2)"
      using runtime_probe_returns [OF assms(2)] by blast
    from runtime_probe_removes [OF second c gets] have "?claim h2" by blast
    with False u first second quiet [OF gets] quiet [of "[]"] show ?thesis
      by (auto simp: probeOpenSandbox_def Let_def no_trace_def split: sum.split prod.split)
  qed
  then show ?thesis using assms(1) by (simp add: Probe_def)
qed

definition sample_codec :: codec where
  "sample_codec = \<lparr>cx_do = (\<lambda>h q. Inr \<lparr>hp_status = 200, hp_status_text = [], hp_headers = [], hp_body = hq_method q\<rparr>),
     cx_interrupted = (\<lambda>n. None),
     cx_sandbox = (\<lambda>b. Inr \<lparr>osi_id = ''sb'', osi_state = ''Pending'', osi_reason = [], osi_message = [], osi_metadata = []\<rparr>),
     cx_endpoint = (\<lambda>b. Inl (ErrorText [])), cx_status = (\<lambda>b. Inl (ErrorText [])), cx_event = (\<lambda>b. None),
     cx_error = (\<lambda>b. None), cx_renewed = Inr\<rparr>"

text \<open>A provider whose sandbox never comes up, and a cluster that has every runtime class.\<close>

definition sample_probe_world :: probe_world where
  "sample_probe_world =
     \<lparr>pb_stat = (\<lambda>_. None), pb_mkdir_all = (\<lambda>_. None), pb_create_temp = (\<lambda>d p. Inr (d @ ''/'' @ p)), pb_temp_dir = ''/tmp'',
      pb_executable = (\<lambda>_. True), pb_look_path = Inr, pb_tool = (\<lambda>_ _. ([], None)), pb_tool_status = (\<lambda>_. Inr ''running''),
      pb_kube = sample_kube_world\<lparr>kw_do := (\<lambda>h q. Inr \<lparr>kp_status = 200, kp_status_text = [], kp_body = []\<rparr>)\<rparr>,
      pb_codec = sample_codec,
      pb_introspection = \<lparr>ic_health = Inr,
        ic_openapi = (\<lambda>b. Inr \<lparr>oad_openapi = [], oad_title = [], oad_description = [], oad_version = ''1''\<rparr>),
        ic_listed = (\<lambda>b. Inr \<lparr>lsr_items = [], lsr_pagination = \<lparr>pg_page = 1, pg_page_size = 1, pg_total_items = 0,
          pg_total_pages = 0, pg_has_next_page = False\<rparr>\<rparr>)\<rparr>,
      pb_wait_done = (\<lambda>n. if n < 2 then None else Some DeadlineExceeded)\<rparr>"

definition sample_probe_config :: run_config where
  "sample_probe_config = DefaultRunConfig\<lparr>cfg_opensandbox := (cfg_opensandbox DefaultRunConfig)\<lparr>osb_base_url := ''https://sandbox.example''\<rparr>,
     cfg_run := (cfg_run DefaultRunConfig)\<lparr>rs_image := ''golang''\<rparr>\<rparr>"

definition sample_probe_execution :: execution_config where
  "sample_probe_execution = \<lparr>ex_backend = ExecutionBackendOpenSandbox, ex_provider = ''opensandbox'', ex_runtime_profile = ''kata''\<rparr>"

lemma sample_probe_creates:
  "map_option (\<lambda>(r, tr). (length (pt_http tr), hq_method (pt_http tr ! 3))) (Probe sample_probe_world sample_probe_execution sample_probe_config)
     = Some (7, ''POST'')"
  by code_simp

lemma probe_sandbox_removed_witness:
  "\<exists>r tr. Probe sample_probe_world sample_probe_execution sample_probe_config = Some (r, tr) \<and> removed_after (pt_http tr) 3 ''sb''"
proof -
  have b: "ex_backend sample_probe_execution = ExecutionBackendOpenSandbox" by (simp add: sample_probe_execution_def)
  have d: "pb_wait_done sample_probe_world 2 = Some DeadlineExceeded" by (simp add: sample_probe_world_def)
  let ?info = "\<lparr>osi_id = ''sb'', osi_state = ''Pending'', osi_reason = [], osi_message = [], osi_metadata = []\<rparr>"
  from probe_sandbox_removed [OF b d, of sample_probe_config] obtain r tr where
    run: "Probe sample_probe_world sample_probe_execution sample_probe_config = Some (r, tr)"
    and removed: "created_in (pb_codec sample_probe_world) (pt_http tr) 3 ?info \<longrightarrow> trim_space (osi_id ?info) \<noteq> []
      \<longrightarrow> removed_after (pt_http tr) 3 (osi_id ?info)" by blast
  from sample_probe_creates run have "created_in (pb_codec sample_probe_world) (pt_http tr) 3 ?info"
    by (simp add: created_in_def http_ok_def sample_probe_world_def sample_codec_def)
  moreover have "trim_space ''sb'' \<noteq> []" by code_simp
  ultimately show ?thesis using removed run by simp
qed

section \<open>Isolation in a cluster\<close>

text \<open>The probes of the code as the engine calls them.\<close>

definition code_probe :: "probe_world \<Rightarrow> trace \<Rightarrow> execution_config \<Rightarrow> run_config \<Rightarrow> go_error + capability_probe_result" where
  "code_probe w tr cfg full =
     (case Probe w cfg full of Some (r, _) \<Rightarrow> r | None \<Rightarrow> Inl (ErrorText ''the probe does not return''))"

definition class_shown :: "kube_world \<Rightarrow> string \<Rightarrow> string \<Rightarrow> bool" where
  "class_shown k context name \<longleftrightarrow> (\<exists>kubeconfig client q r. NewClient k kubeconfig context = Inr client \<and>
     kq_method q = ''GET'' \<and> kq_url q = resourceURL client ''/apis'' [''node.k8s.io'', ''v1'', ''runtimeclasses'', name] \<and>
     kw_do k [] q = Inr r \<and> kube_ok r)"

lemma ReadRuntimeClass_shown:
  "NewClient k kubeconfig context = Inr client \<Longrightarrow> ReadRuntimeClass k client name [] = (Inr (), sent) \<Longrightarrow> class_shown k context name"
  unfolding class_shown_def
  by (intro exI [of _ kubeconfig] exI [of _ client] exI [of _ "\<lparr>kq_method = ''GET'',
      kq_url = resourceURL client ''/apis'' [''node.k8s.io'', ''v1'', ''runtimeclasses'', name],
      kq_headers = (''Accept'', ''application/json'') # agent_header client, kq_body = NoKubeBody\<rparr>"])
    (auto simp: ReadRuntimeClass_def kfail_def kbind_def kube_send_def kret_def split: sum.splits if_splits)

lemma k8s_probe_shows_class:
  assumes "Probe w cfg full = Some (Inr res, tr)" "ex_backend cfg = ExecutionBackendK8s" "RequiresRuntimeClass (ex_runtime_profile cfg)"
  shows "RuntimeClassNameForConfig full \<noteq> [] \<and> class_shown (pb_kube w) (k8_context (cfg_k8s full)) (RuntimeClassNameForConfig full)"
  using assms
  by (auto simp: Probe_def probeK8s_def probeRuntimeClass_def probe_fails_def Let_def
      split: if_splits option.splits sum.splits prod.splits intro: ReadRuntimeClass_shown)

lemma failed_probe_inert:
  assumes "\<And>tr full. cfg_execution full = cfg_execution (NormalizeRunConfig (ew_host w) (rq_run_config req)) \<Longrightarrow>
      cfg_runtime full = cfg_runtime (NormalizeRunConfig (ew_host w) (rq_run_config req)) \<Longrightarrow>
      cfg_kata full = cfg_kata (NormalizeRunConfig (ew_host w) (rq_run_config req)) \<Longrightarrow>
      cfg_k8s full = cfg_k8s (NormalizeRunConfig (ew_host w) (rq_run_config req)) \<Longrightarrow>
      \<exists>e. ew_probe w tr (cfg_execution full) full = Inl e"
  shows "\<forall>a\<in>set (st_trace (fst (engine_Run w req))). early_action a"
proof -
  let ?cfg = "identified w (NormalizeRunConfig (ew_host w) (rq_run_config req))"
  have "\<exists>e. ew_probe w tr (cfg_execution (with_dirs ?cfg a b)) (with_dirs ?cfg a b) = Inl e" for tr a b
    by (rule assms) (simp_all add: with_dirs_def identified_def Let_def)
  then obtain f where "\<And>a b. ew_probe w [] (cfg_execution (with_dirs ?cfg a b)) (with_dirs ?cfg a b) = Inl (f a b)"
    by metis
  then show ?thesis
    by (auto simp: engine_Run_def runPrepare_def prepare_resolve_def with_state_def andThen_def need_early_def perform_def
        ret_def failWithoutArtifacts_def set_result_def modify_def throw_def initial_state_def initial_result_def Let_def
        split: sum.splits prod.splits if_splits)
qed

text \<open>
  C9: a run that asks a cluster for an isolating runtime profile does nothing before the cluster has shown the
  runtime class: whenever such a run does more than probing and making directories, the cluster that the
  configured context selects has answered the request for the class which the configuration names, and the
  answer was a success.
\<close>

theorem isolated_run_has_class:
  fixes w :: engine_world and req :: run_request
  defines "cfg \<equiv> NormalizeRunConfig (ew_host w) (rq_run_config req)"
  assumes "ew_probe w = code_probe pb" and "ex_backend (cfg_execution cfg) = ExecutionBackendK8s"
    and "RequiresRuntimeClass (ex_runtime_profile (cfg_execution cfg))"
  shows "list_all early_action (st_trace (fst (engine_Run w req)))
    \<or> RuntimeClassNameForConfig cfg \<noteq> [] \<and> class_shown (pb_kube pb) (k8_context (cfg_k8s cfg)) (RuntimeClassNameForConfig cfg)"
proof (rule ccontr)
  assume absent: "\<not> ?thesis"
  have "\<exists>e. ew_probe w tr (cfg_execution full) full = Inl e"
    if same: "cfg_execution full = cfg_execution cfg" "cfg_runtime full = cfg_runtime cfg" "cfg_kata full = cfg_kata cfg"
      "cfg_k8s full = cfg_k8s cfg" for tr full
  proof -
    have name: "RuntimeClassNameForConfig full = RuntimeClassNameForConfig cfg"
      by (simp add: RuntimeClassNameForConfig_def ExecutionRuntimeProfileForConfig_def same Let_def)
    have "r \<noteq> Inr res" if "Probe pb (cfg_execution full) full = Some (r, t)" for r res t
      using k8s_probe_shows_class [of pb "cfg_execution full" full res t] that assms(3,4) absent name same by auto
    then show ?thesis unfolding assms(2) code_probe_def
      by (cases "Probe pb (cfg_execution full) full") (auto, metis sumE)
  qed
  with failed_probe_inert [of w req] absent show False unfolding cfg_def list_all_iff by blast
qed

text \<open>The example run in a cluster without runtime classes.\<close>

definition classless_world :: probe_world where
  "classless_world = sample_probe_world\<lparr>pb_kube := sample_kube_world\<lparr>kw_do := (\<lambda>h q. Inr \<lparr>kp_status = 404, kp_status_text = [], kp_body = []\<rparr>)\<rparr>\<rparr>"

definition isolated_request :: run_request where
  "isolated_request = example_request \<lparr>ex_backend = ExecutionBackendK8s, ex_provider = ''native'', ex_runtime_profile = ''kata''\<rparr>"

lemma isolated_run_has_class_witness:
  "list_all early_action (st_trace (fst (engine_Run ((example_world 0)\<lparr>ew_probe := code_probe classless_world\<rparr>) isolated_request)))"
proof -
  let ?w = "(example_world 0)\<lparr>ew_probe := code_probe classless_world\<rparr>"
  let ?cfg = "NormalizeRunConfig (ew_host ?w) (rq_run_config isolated_request)"
  have k8s: "ex_backend (cfg_execution ?cfg) = ExecutionBackendK8s" "RequiresRuntimeClass (ex_runtime_profile (cfg_execution ?cfg))"
    by code_simp+
  have "\<not> class_shown (pb_kube classless_world) ctx name" for ctx name
    by (auto simp: class_shown_def classless_world_def sample_probe_world_def kube_ok_def)
  with isolated_run_has_class [of ?w classless_world isolated_request] k8s show ?thesis by simp
qed

end
