(* ===== verification/Collector.thy ===== *)
theory Collector
  imports Go_Url Engine_State
begin

text \<open>
  \<open>internal/collector\<close>: whether a collector answers at the endpoint of the run, and the local collector that is
  started when none does. Dialling and starting a process are fields of the world.
\<close>

record collector_world =
  clw_dial :: "string \<Rightarrow> int \<Rightarrow> bool"
  clw_start :: "string list \<Rightarrow> go_error option"
  clw_kill :: "go_error option"

definition collector_address :: "go_url \<Rightarrow> string" where
  "collector_address u =
     (if CHR '':'' \<in> set (u_host u) then u_host u
      else u_host u @ (if u_scheme u = ''https'' then '':443'' else '':80''))"

definition Healthy :: "collector_world \<Rightarrow> string \<Rightarrow> int \<Rightarrow> bool" where
  "Healthy w endpoint timeout =
     (if endpoint = [] then False
      else (case url_Parse endpoint of None \<Rightarrow> False | Some u \<Rightarrow> clw_dial w (collector_address u) timeout))"

definition collector_candidates :: "run_config \<Rightarrow> string list list" where
  "collector_candidates cfg =
     (let c = cfg_collector cfg; config = col_local_collector_config c in
      [col_local_collector_command c, [''otelcol-contrib'', ''--config'', config], [''otelcol'', ''--config'', config]])"

text \<open>The loop of \<open>startLocalCollector\<close>: the command that was started and the warnings.\<close>

fun start_candidates :: "collector_world \<Rightarrow> string list list \<Rightarrow> string list \<Rightarrow> string list option \<times> string list" where
  "start_candidates w [] warnings = (None, warnings)"
| "start_candidates w (candidate # rest) warnings =
     (if candidate = [] then start_candidates w rest warnings
      else (case clw_start w candidate of
          None \<Rightarrow> (Some candidate, warnings)
        | Some e \<Rightarrow> start_candidates w rest
            (warnings @ [''failed to start '' @ go_quote (hd candidate) @ '': '' @ error_string e])))"

definition startLocalCollector :: "collector_world \<Rightarrow> run_config \<Rightarrow> (go_error option \<times> string list)" where
  "startLocalCollector w cfg =
     (case start_candidates w (collector_candidates cfg) [] of
        (Some _, warnings) \<Rightarrow> (None, warnings)
      | (None, warnings) \<Rightarrow> (Some (ErrorText ''no local collector command succeeded''), warnings))"

definition jsonl_only :: "string list \<Rightarrow> bootstrap_result" where
  "jsonl_only warnings = \<lparr>bsr_enabled = False, bsr_using_jsonl = True, bsr_warnings = warnings, bsr_process = False\<rparr>"

definition collector_ready :: "string list \<Rightarrow> bool \<Rightarrow> bootstrap_result" where
  "collector_ready warnings process =
     \<lparr>bsr_enabled = True, bsr_using_jsonl = False, bsr_warnings = warnings, bsr_process = process\<rparr>"

definition Bootstrap :: "collector_world \<Rightarrow> run_config \<Rightarrow> go_error + bootstrap_result" where
  "Bootstrap w cfg =
     (let mode = col_mode (cfg_collector cfg); ms = col_healthcheck_timeout_ms (cfg_collector cfg);
          timeout = (if ms \<le> 0 then 1000 else ms) * 1000000; endpoint = rs_otlp_endpoint (cfg_run cfg)
      in if mode = CollectorModeSkip then Inr (jsonl_only [])
      else if Healthy w endpoint timeout then Inr (collector_ready [] False)
      else if mode = CollectorModeRequire then Inl (ErrorText (ErrorCodeCollectorUnavailable @ '': '' @ endpoint))
      else if plat_run_mode (cfg_platform cfg) \<noteq> RunModeLocalDirect then
        Inr (jsonl_only [''collector unavailable; falling back to JSONL''])
      else (case startLocalCollector w cfg of
          (Some e, warnings) \<Rightarrow> Inr (jsonl_only (warnings @ [error_string e]))
        | (None, warnings) \<Rightarrow> Inr (collector_ready warnings True)))"

definition collector_Shutdown :: "collector_world \<Rightarrow> bootstrap_result \<Rightarrow> go_error option" where
  "collector_Shutdown w r = (if bsr_process r then clw_kill w else None)"

end
