(* ===== verification/Collector_Facts.thy ===== *)
theory Collector_Facts
  imports Collector Engine_Props
begin

text \<open>
  What bootstrapping the collector promises, alone and for a whole run: a run that requires a collector executes
  nothing before one has answered.
\<close>

section \<open>Bootstrapping\<close>

definition healthcheck_timeout :: "run_config \<Rightarrow> int" where
  "healthcheck_timeout cfg =
     (let ms = col_healthcheck_timeout_ms (cfg_collector cfg) in (if ms \<le> 0 then 1000 else ms) * 1000000)"

definition collector_answers :: "collector_world \<Rightarrow> run_config \<Rightarrow> bool" where
  "collector_answers w cfg \<longleftrightarrow> Healthy w (rs_otlp_endpoint (cfg_run cfg)) (healthcheck_timeout cfg)"

lemma Bootstrap_cases:
  "Bootstrap w cfg =
     (if col_mode (cfg_collector cfg) = CollectorModeSkip then Inr (jsonl_only [])
      else if collector_answers w cfg then Inr (collector_ready [] False)
      else if col_mode (cfg_collector cfg) = CollectorModeRequire then
        Inl (ErrorText (ErrorCodeCollectorUnavailable @ '': '' @ rs_otlp_endpoint (cfg_run cfg)))
      else if plat_run_mode (cfg_platform cfg) \<noteq> RunModeLocalDirect then
        Inr (jsonl_only [''collector unavailable; falling back to JSONL''])
      else (case startLocalCollector w cfg of
          (Some e, warnings) \<Rightarrow> Inr (jsonl_only (warnings @ [error_string e]))
        | (None, warnings) \<Rightarrow> Inr (collector_ready warnings True)))"
  by (simp add: Bootstrap_def collector_answers_def healthcheck_timeout_def Let_def)

lemma required_answers:
  "Bootstrap w cfg = Inr b \<Longrightarrow> col_mode (cfg_collector cfg) = CollectorModeRequire \<Longrightarrow> collector_answers w cfg"
  by (auto simp: Bootstrap_cases split: if_splits)

text \<open>The local collector that is started: the first candidate that starts, when those before it do not.\<close>

lemma start_candidates_first:
  "fst (start_candidates w cs ws) = find (\<lambda>c. c \<noteq> [] \<and> clw_start w c = None) cs"
  by (induction cs arbitrary: ws) (auto split: option.split)

lemma startLocalCollector_first:
  "fst (startLocalCollector w cfg) = None \<longleftrightarrow> (\<exists>c\<in>set (collector_candidates cfg). c \<noteq> [] \<and> clw_start w c = None)"
proof -
  let ?ok = "\<lambda>c. c \<noteq> [] \<and> clw_start w c = None"
  have "fst (startLocalCollector w cfg) = None \<longleftrightarrow> find ?ok (collector_candidates cfg) \<noteq> None"
  proof -
    obtain found ws where "start_candidates w (collector_candidates cfg) [] = (found, ws)" by fastforce
    moreover from this start_candidates_first [of w "collector_candidates cfg" "[]"]
    have "find ?ok (collector_candidates cfg) = found" by simp
    ultimately show ?thesis by (cases found) (simp_all add: startLocalCollector_def)
  qed
  also have "\<dots> \<longleftrightarrow> (\<exists>c\<in>set (collector_candidates cfg). ?ok c)"
    by (auto simp: find_None_iff simp del: not_None_eq)
  finally show ?thesis .
qed

section \<open>A run that requires a collector\<close>

text \<open>What the phase prepare does not change in the configuration.\<close>

definition same_collector :: "run_config \<Rightarrow> run_config \<Rightarrow> bool" where
  "same_collector c c' \<longleftrightarrow> cfg_collector c' = cfg_collector c \<and> rs_otlp_endpoint (cfg_run c') = rs_otlp_endpoint (cfg_run c)"

lemma same_collector_answers: "same_collector c c' \<Longrightarrow> collector_answers w c' = collector_answers w c"
  by (simp add: same_collector_def collector_answers_def healthcheck_timeout_def)

abbreviation anyhow :: "go_error \<Rightarrow> run_state \<Rightarrow> bool" where
  "anyhow \<equiv> \<lambda>_ _. True"

lemma valid_anyhow: "valid P m (\<lambda>_ _. True) anyhow"
  by (simp add: valid_def split: prod.split sum.split)

lemma valid_need_true:
  assumes "\<And>x. r = Inr x \<Longrightarrow> valid (\<lambda>_. True) (k x) Q anyhow"
  shows "valid P (andThen (need ph code r) k) Q anyhow" "valid P (andThen (need_early ph code r) k) Q anyhow"
  using assms by (cases r; fastforce simp: need_def need_early_def andThen_def ret_def failPhase_def failPhaseWithStatus_eq
      failWithoutArtifacts_def set_result_def modify_def throw_def valid_def)+

lemma prepare_resolve_collector:
  "valid (\<lambda>s. st_cfg s = c) (prepare_resolve w) (\<lambda>cfg s. same_collector (NormalizeRunConfig (ew_host w) c) cfg) anyhow"
proof -
  let ?n = "identified w (NormalizeRunConfig (ew_host w) c)"
  have same: "same_collector (NormalizeRunConfig (ew_host w) c) (with_execution_metadata (with_dirs ?n a b) l)" for a b l
    by (simp add: same_collector_def with_execution_metadata_def with_dirs_def identified_def Let_def)
  have early: "valid P (failWithoutArtifacts ph code e) Q anyhow" for P ph code e and Q :: "run_config \<Rightarrow> run_state \<Rightarrow> bool"
    by (simp add: valid_def failWithoutArtifacts_def andThen_def set_result_def modify_def throw_def)
  show ?thesis unfolding prepare_resolve_def Let_def
    by (rule valid_with_state, simp only:,
        intro valid_need_true valid_if early valid_andThen [OF valid_anyhow] valid_ret same)
qed

lemma prepare_target_collector:
  "same_collector c cfg \<Longrightarrow> valid P (prepare_target w cfg) (\<lambda>(cfg', _) _. same_collector c cfg') anyhow"
proof -
  assume c: "same_collector c cfg"
  then have same: "same_collector c (with_features cfg f)" for f by (simp add: same_collector_def with_features_def)
  have check: "valid P (andThen (check_early ph code err) k) Q anyhow"
    if "valid (\<lambda>_. True) (k ()) Q anyhow" for P ph code err k and Q :: "run_config \<times> string list \<Rightarrow> run_state \<Rightarrow> bool"
    using that by (cases err) (fastforce simp: check_early_def andThen_def ret_def failWithoutArtifacts_def set_result_def modify_def
        throw_def valid_def)+
  show ?thesis unfolding prepare_target_def Let_def
    by (rule valid_with_state, intro valid_andThen [OF valid_anyhow] valid_prod check valid_ret) (simp add: same)
qed

lemma prepare_telemetry_collector:
  "valid P (prepare_telemetry w cfg) (\<lambda>_ _. \<exists>tr b. ew_bootstrap w tr cfg = Inr b) anyhow"
proof -
  have "valid (\<lambda>_. \<exists>tr. r = ew_bootstrap w tr cfg) (andThen (need PhasePrepare code r) k)
      (\<lambda>_ _. \<exists>tr b. ew_bootstrap w tr cfg = Inr b) anyhow" for r code and k :: "bootstrap_result \<Rightarrow> unit step"
  proof (cases r)
    case (Inl e)
    then show ?thesis by (simp add: valid_def need_def andThen_def failPhase_def failPhaseWithStatus_eq)
  next
    case (Inr b)
    then show ?thesis
      by (cases "\<exists>tr. r = ew_bootstrap w tr cfg") (auto simp: valid_def split: prod.split sum.split, metis)
  qed
  then show ?thesis unfolding prepare_telemetry_def
    by (intro valid_andThen [where R = "\<lambda>r _. \<exists>tr. r = ew_bootstrap w tr cfg"] valid_perform) auto
qed

lemma runPrepare_collector:
  "valid (\<lambda>s. st_cfg s = c) (runPrepare w)
     (\<lambda>_ _. \<exists>cfg tr b. same_collector (NormalizeRunConfig (ew_host w) c) cfg \<and> ew_bootstrap w tr cfg = Inr b) anyhow"
proof -
  let ?n = "NormalizeRunConfig (ew_host w) c"
  let ?Q = "\<lambda>_ _. \<exists>cfg tr b. same_collector ?n cfg \<and> ew_bootstrap w tr cfg = Inr b"
  have tail: "valid (\<lambda>_. \<exists>tr b. ew_bootstrap w tr cfg = Inr b) m ?Q anyhow" if "same_collector ?n cfg" for cfg and m :: "unit step"
    using that by (auto simp: valid_def split: prod.split sum.split)
  have telemetry: "valid P (andThen (prepare_writer w cfg) (\<lambda>_. andThen (prepare_telemetry w cfg) k)) ?Q anyhow"
    if "same_collector ?n cfg" for P cfg and k :: "unit \<Rightarrow> unit step"
    by (rule valid_andThen [OF valid_anyhow], rule valid_andThen [OF prepare_telemetry_collector], rule tail [OF that])
  have target: "valid (\<lambda>_. same_collector ?n cfg) (andThen (prepare_target w cfg) (\<lambda>(cfg, warnings).
      andThen (prepare_writer w cfg) (\<lambda>_. andThen (prepare_telemetry w cfg) (k cfg warnings)))) ?Q anyhow"
    for cfg and k :: "run_config \<Rightarrow> string list \<Rightarrow> unit \<Rightarrow> unit step"
  proof (cases "same_collector ?n cfg")
    case True
    show ?thesis
    proof (rule valid_andThen [OF prepare_target_collector [OF True]])
      fix x :: "run_config \<times> string list"
      show "valid (case x of (cfg', _) \<Rightarrow> \<lambda>_. same_collector ?n cfg') (case x of (cfg, warnings) \<Rightarrow>
          andThen (prepare_writer w cfg) (\<lambda>_. andThen (prepare_telemetry w cfg) (k cfg warnings))) ?Q anyhow"
      proof (cases x)
        case (Pair cfg' warnings)
        show ?thesis
        proof (cases "same_collector ?n cfg'")
          case True
          with telemetry [OF True] Pair show ?thesis by simp
        next
          case False
          with Pair show ?thesis by (simp add: valid_def)
        qed
      qed
    qed
  qed (simp add: valid_def)
  show ?thesis unfolding runPrepare_def by (rule valid_andThen [OF prepare_resolve_collector target])
qed

lemma unprepared_run_executes_nothing:
  assumes "engine_Run w req = (s, err)" and "runPrepare w (initial_state req) = (Inl e, s1)"
  shows "execs (st_trace s) = []"
proof -
  from validD_error [OF runPrepare_valid untouched_initial assms(2)] have "prepare_failed w (rq_policy req) e s1" .
  then consider "given_up e s1" | "unprepared w (rq_policy req) e s1" unfolding prepare_failed_def by blast
  then show ?thesis
  proof cases
    case 1
    then have "s = s1" using assms by (simp add: engine_Run_def given_up_def)
    with 1 early_tail(1) [of "st_trace s1"] show ?thesis by (simp add: given_up_def)
  next
    case 2
    then have ex: "execs (st_trace s1) = []" and wr: "st_writer s1 \<noteq> None" by (auto simp: unprepared_def based_def)
    from 2 broken_status [OF unprepared_broken] have st: "rr_status (st_result s1) \<noteq> StatusCreated \<and> st_writer s1 \<noteq> None" by blast
    obtain c s3 where coll: "runCollect w s1 = (c, s3)" by fastforce
    from collect_outcome [OF st, of w] coll collected_wound_up uncollected_wound_up have "wound_up s1 s3" by fastforce
    moreover have "s = finish_run s3" using assms coll wr by (simp add: engine_Run_def split: if_split_asm)
    ultimately show ?thesis using ex by (auto simp: wound_up_def)
  qed
qed

text \<open>
  C10: a run that requires a collector executes no command unless a collector answers: either it executes nothing,
  or dialling the endpoint of the normalised configuration within the configured time has succeeded.
\<close>

theorem required_collector_answers:
  assumes "engine_Run w req = (s, err)" and "ew_bootstrap w = (\<lambda>_. Bootstrap cw)"
    and "col_mode (cfg_collector (NormalizeRunConfig (ew_host w) (rq_run_config req))) = CollectorModeRequire"
  shows "execs (st_trace s) = [] \<or> collector_answers cw (NormalizeRunConfig (ew_host w) (rq_run_config req))"
proof -
  obtain r s1 where prep: "runPrepare w (initial_state req) = (r, s1)" by fastforce
  show ?thesis
  proof (cases r)
    case (Inl e)
    with unprepared_run_executes_nothing [OF assms(1)] prep show ?thesis by simp
  next
    case (Inr x)
    with prep validD_value [OF runPrepare_collector [of "rq_run_config req" w], of "initial_state req" x s1] obtain cfg b where
      "same_collector (NormalizeRunConfig (ew_host w) (rq_run_config req)) cfg" "Bootstrap cw cfg = Inr b"
      by (auto simp: initial_state_def assms(2))
    with assms(3) show ?thesis using required_answers same_collector_answers by (metis same_collector_def)
  qed
qed

text \<open>The example run with a required collector, on a host where nothing can be dialled.\<close>

definition dead_collector :: collector_world where
  "dead_collector = \<lparr>clw_dial = (\<lambda>_ _. False), clw_start = (\<lambda>_. None), clw_kill = None\<rparr>"

definition collector_request :: run_request where
  "collector_request = (example_request opensandbox_execution)
     \<lparr>rq_run_config := (rq_run_config (example_request opensandbox_execution))
        \<lparr>cfg_collector := (cfg_collector DefaultRunConfig)\<lparr>col_mode := CollectorModeRequire\<rparr>\<rparr>\<rparr>"

lemma required_collector_answers_witness:
  "execs (st_trace (fst (engine_Run ((example_world 0)\<lparr>ew_bootstrap := (\<lambda>_. Bootstrap dead_collector)\<rparr>) collector_request))) = []"
proof -
  let ?w = "(example_world 0)\<lparr>ew_bootstrap := (\<lambda>_. Bootstrap dead_collector)\<rparr>"
  obtain s err where run: "engine_Run ?w collector_request = (s, err)" by (cases "engine_Run ?w collector_request")
  have "col_mode (cfg_collector (NormalizeRunConfig (ew_host ?w) (rq_run_config collector_request))) = CollectorModeRequire"
    by code_simp
  from required_collector_answers [OF run _ this, of dead_collector] run show ?thesis
    by (auto simp: collector_answers_def Healthy_def dead_collector_def split: if_splits option.splits)
qed

end
