(* ===== verification/Telemetry.thy ===== *)
theory Telemetry
  imports Go_Url Opensandbox_Backend Engine_State
begin

text \<open>
  \<open>internal/telemetry/emitter.go\<close> and \<open>pkg/helper\<close>: the spans, counters, durations and log records that a run
  hands to OpenTelemetry. What the library keeps is the state of the emitter here; its exporters and the
  shutting down of its providers are fields of the world. A context is the span that it carries.
\<close>

section \<open>Attributes, spans and log records\<close>

datatype attr_value = AttrString string | AttrInt int | AttrBool bool

type_synonym attributes = "(string \<times> attr_value) list"

definition string_attributes :: "env \<Rightarrow> attributes" where
  "string_attributes m = map (\<lambda>(k, v). (k, AttrString v)) m"

text \<open>\<open>sp_error\<close> is the description of the status when it is an error. An ended span is not changed any more.\<close>

record span =
  sp_name :: string
  sp_parent :: "nat option"
  sp_attributes :: attributes
  sp_events :: "(string \<times> attributes) list"
  sp_error :: "string option"
  sp_ended :: bool

datatype severity = SeverityInfo | SeverityWarn

record log_record =
  lrec_severity :: severity
  lrec_severity_text :: string
  lrec_event_name :: string
  lrec_body :: string
  lrec_attributes :: attributes

type_synonym span_context = "nat option"

record emitter =
  em_cfg :: run_config
  em_resource :: attributes
  em_exporting :: bool
  em_spans :: "span list"
  em_run_span :: "nat option"
  em_phase_spans :: "(phase \<times> nat) list"
  em_runs :: int
  em_failures :: int
  em_stdout :: int
  em_stderr :: int
  em_artifact_bytes :: int
  em_denied :: int
  em_phase_durations :: "(int \<times> attributes) list"
  em_command_durations :: "int list"
  em_logs :: "log_record list"

record otel_world =
  tw_trace_exporter :: "string \<Rightarrow> go_error option"
  tw_metric_exporter :: "string \<Rightarrow> go_error option"
  tw_log_exporter :: "string \<Rightarrow> go_error option"
  tw_flush_logs :: "go_error option"
  tw_shutdown_logs :: "go_error option"
  tw_shutdown_traces :: "go_error option"
  tw_shutdown_metrics :: "go_error option"

section \<open>What a run is labelled with\<close>

definition telemetryBackendProvider :: "run_config \<Rightarrow> string" where
  "telemetryBackendProvider cfg =
     (let kind = bk_kind (cfg_backend cfg) in
      if kind = BackendKindDirect then ''native''
      else if kind = BackendKindDocker then
        (if dk_provider (cfg_docker cfg) = DockerProviderOrbStack then ''orbstack'' else ''docker'')
      else if kind = BackendKindK8s then ExecutionProviderForK8sProvider (k8_provider (cfg_k8s cfg))
      else if kind = BackendKindOrbStackMachine then ''orbstack''
      else kind)"

definition providerForTelemetry :: "run_config \<Rightarrow> string" where
  "providerForTelemetry cfg =
     (let kind = bk_kind (cfg_backend cfg) in
      if kind = BackendKindOpenSandbox then ''opensandbox''
      else if kind = BackendKindDevContainer then ''devcontainer''
      else telemetryBackendProvider cfg)"

definition telemetryLocalPlatform :: "run_config \<Rightarrow> string" where
  "telemetryLocalPlatform cfg =
     (let kind = bk_kind (cfg_backend cfg) in
      if kind = BackendKindAppleContainer then ''macos''
      else if kind = BackendKindOrbStackMachine then ''orbstack''
      else if kind = BackendKindDocker \<and> dk_provider (cfg_docker cfg) = DockerProviderOrbStack then ''orbstack''
      else if kind = BackendKindK8s then K8sLocalPlatform (k8_provider (cfg_k8s cfg))
      else [])"

definition telemetryVirtualization :: "runtime_profile \<Rightarrow> string" where
  "telemetryVirtualization profile =
     (if profile = RuntimeProfileKata then ''kata''
      else if profile = RuntimeProfileGVisor then ''gvisor''
      else if profile = RuntimeProfileFirecracker then ''firecracker''
      else if profile = RuntimeProfileAppleContainer then ''apple-container''
      else if profile = RuntimeProfileOrbStackMachine then ''vm''
      else ''none'')"

definition label_if :: "bool \<Rightarrow> attributes \<Rightarrow> attributes" where
  "label_if b attrs = (if b then attrs else [])"

definition commonAttrs :: "run_config \<Rightarrow> phase \<Rightarrow> attributes" where
  "commonAttrs cfg ph =
     (let run = cfg_run cfg; ex = cfg_execution cfg; kind = bk_kind (cfg_backend cfg); profile = rt_profile (cfg_runtime cfg);
          level = env_get (cfg_metadata cfg) ''execution.compatibility_level'';
          provider = telemetryBackendProvider cfg; platform = telemetryLocalPlatform cfg;
          machine = orb_machine_name (cfg_orbstack cfg); osb = cfg_opensandbox cfg; dc = cfg_devcontainer cfg
      in [(''deployment.environment.name'', AttrString (rs_deployment_environment run)),
          (''run_id'', AttrString (rs_run_id run)), (''attempt'', AttrInt (rs_attempt run)),
          (''sandbox_id'', AttrString (rs_sandbox_id run)), (''phase'', AttrString (phase_name ph))]
       @ label_if (ex_backend ex \<noteq> [])
           [(''execution.backend'', AttrString (ex_backend ex)), (''execution.provider'', AttrString (ex_provider ex)),
            (''execution.runtime_profile'', AttrString (ex_runtime_profile ex))]
       @ label_if (level \<noteq> []) [(''execution.compatibility_level'', AttrString level)]
       @ label_if (kind \<noteq> []) [(''backend.kind'', AttrString kind), (''sandbox.backend.kind'', AttrString kind)]
       @ label_if (profile \<noteq> [])
           [(''runtime.profile'', AttrString profile), (''sandbox.runtime.profile'', AttrString profile),
            (''sandbox.runtime.class'', AttrString (kata_runtime_class_name (cfg_kata cfg))),
            (''sandbox.virtualization'', AttrString (telemetryVirtualization profile))]
       @ label_if (kind = BackendKindDevContainer)
           [(''devcontainer.workspace_folder'', AttrString (dc_workspace_folder dc)),
            (''devcontainer.config_path'', AttrString (dc_config_path dc))]
       @ label_if (provider \<noteq> [])
           [(''backend.provider'', AttrString provider), (''sandbox.provider.name'', AttrString (providerForTelemetry cfg))]
       @ label_if (platform \<noteq> []) [(''local.platform'', AttrString platform)]
       @ label_if (kind = BackendKindOrbStackMachine \<and> machine \<noteq> []) [(''machine.name'', AttrString machine)]
       @ label_if (kind \<noteq> BackendKindOrbStackMachine \<and> rs_sandbox_id run \<noteq> [])
           [(''container.id'', AttrString (rs_sandbox_id run))]
       @ (if kind = BackendKindOpenSandbox then
            [(''sandbox.runtime.kind'', AttrString (osb_runtime osb)),
             (''sandbox.network.mode'', AttrString (osb_network_mode osb)),
             (''sandbox.ttl.enabled'', AttrBool (0 < osb_ttl_sec osb))]
          else if kind = BackendKindDevContainer then [(''sandbox.runtime.kind'', AttrString ''devcontainer'')]
          else if kind = BackendKindAppleContainer then [(''sandbox.runtime.kind'', AttrString ''apple-container'')]
          else if kind = BackendKindOrbStackMachine then [(''sandbox.runtime.kind'', AttrString ''orbstack-machine'')]
          else []))"

section \<open>Log records\<close>

definition severityForStream :: "string \<Rightarrow> severity" where
  "severityForStream stream = (if stream = ''stderr'' then SeverityWarn else SeverityInfo)"

text \<open>\<open>strings.ToUpper\<close> on ASCII, which is all that the names of the streams have.\<close>

definition ascii_upper :: "string \<Rightarrow> string" where
  "ascii_upper s = map (\<lambda>c. if is_lower c then char_of (of_char c - 32 :: nat) else c) s"

definition recordForStructuredLog :: "structured_log \<Rightarrow> log_record" where
  "recordForStructuredLog entry =
     \<lparr>lrec_severity = severityForStream (log_stream entry), lrec_severity_text = ascii_upper (log_stream entry),
      lrec_event_name = ''process.'' @ log_stream entry, lrec_body = log_line entry,
      lrec_attributes =
        [(''run_id'', AttrString (log_run_id entry)), (''attempt'', AttrInt (log_attempt entry)),
         (''phase'', AttrString (phase_name (log_phase entry))), (''command_class'', AttrString (log_command_class entry)),
         (''stream'', AttrString (log_stream entry)), (''line_no'', AttrInt (log_line_no entry))]
        @ label_if (log_provider entry \<noteq> []) [(''provider'', AttrString (log_provider entry))]
        @ label_if (log_command_id entry \<noteq> []) [(''command_id'', AttrString (log_command_id entry))]
        @ label_if (log_exec_provider_id entry \<noteq> []) [(''exec_provider_id'', AttrString (log_exec_provider_id entry))]
        @ string_attributes (log_attributes entry)\<rparr>"

section \<open>Making an emitter\<close>

definition logs_path :: "string \<Rightarrow> string" where
  "logs_path p =
     (if p = [] \<or> p = ''/'' then ''/v1/logs''
      else if has_suffix p ''/v1/logs'' then p
      else trim_right (\<lambda>c. c = CHR ''/'') p @ ''/v1/logs'')"

definition logEndpointURL :: "string \<Rightarrow> string" where
  "logEndpointURL raw0 =
     (let raw = trim_space raw0 in
      if raw = [] then raw
      else (case url_Parse raw of
          None \<Rightarrow> raw
        | Some u \<Rightarrow> if u_host u = [] then raw else url_String (u\<lparr>u_path := logs_path (u_path u)\<rparr>)))"

definition resource_attributes :: "run_config \<Rightarrow> attributes" where
  "resource_attributes cfg =
     (let run = cfg_run cfg; ex = cfg_execution cfg in
      [(''service.name'', AttrString (rs_service_name run)),
       (''deployment.environment.name'', AttrString (rs_deployment_environment run)),
       (''run_id'', AttrString (rs_run_id run)), (''attempt'', AttrInt (rs_attempt run)),
       (''sandbox_id'', AttrString (rs_sandbox_id run)), (''execution.backend'', AttrString (ex_backend ex)),
       (''execution.provider'', AttrString (ex_provider ex)),
       (''execution.runtime_profile'', AttrString (ex_runtime_profile ex))])"

definition fresh_emitter :: "run_config \<Rightarrow> bool \<Rightarrow> emitter" where
  "fresh_emitter cfg exporting =
     \<lparr>em_cfg = cfg, em_resource = resource_attributes cfg, em_exporting = exporting, em_spans = [], em_run_span = None,
      em_phase_spans = [], em_runs = 0, em_failures = 0, em_stdout = 0, em_stderr = 0, em_artifact_bytes = 0, em_denied = 0,
      em_phase_durations = [], em_command_durations = [], em_logs = []\<rparr>"

definition emitter_New :: "otel_world \<Rightarrow> run_config \<Rightarrow> bool \<Rightarrow> go_error + emitter" where
  "emitter_New w cfg enabled =
     (let endpoint = rs_otlp_endpoint (cfg_run cfg) in
      if \<not> enabled then Inr (fresh_emitter cfg False)
      else (case tw_trace_exporter w endpoint of
          Some e \<Rightarrow> Inl e
        | None \<Rightarrow> (case tw_metric_exporter w endpoint of
              Some e \<Rightarrow> Inl e
            | None \<Rightarrow> (case tw_log_exporter w (logEndpointURL endpoint) of
                  Some e \<Rightarrow> Inl e
                | None \<Rightarrow> Inr (fresh_emitter cfg True)))))"

section \<open>Spans\<close>

definition start_span :: "string \<Rightarrow> span_context \<Rightarrow> attributes \<Rightarrow> emitter \<Rightarrow> nat \<times> emitter" where
  "start_span name ctx attrs e =
     (length (em_spans e),
      e\<lparr>em_spans := em_spans e @ [\<lparr>sp_name = name, sp_parent = ctx, sp_attributes = attrs, sp_events = [],
        sp_error = None, sp_ended = False\<rparr>]\<rparr>)"

definition on_span :: "nat \<Rightarrow> (span \<Rightarrow> span) \<Rightarrow> emitter \<Rightarrow> emitter" where
  "on_span i f e =
     (if i < length (em_spans e) \<and> \<not> sp_ended (em_spans e ! i)
      then e\<lparr>em_spans := (em_spans e)[i := f (em_spans e ! i)]\<rparr> else e)"

definition add_event :: "span_context \<Rightarrow> string \<Rightarrow> attributes \<Rightarrow> emitter \<Rightarrow> emitter" where
  "add_event ctx name attrs e =
     (case ctx of None \<Rightarrow> e | Some i \<Rightarrow> on_span i (\<lambda>sp. sp\<lparr>sp_events := sp_events sp @ [(name, attrs)]\<rparr>) e)"

definition set_error :: "nat \<Rightarrow> string \<Rightarrow> emitter \<Rightarrow> emitter" where
  "set_error i message e = on_span i (\<lambda>sp. sp\<lparr>sp_error := Some message\<rparr>) e"

definition end_span :: "nat \<Rightarrow> emitter \<Rightarrow> emitter" where
  "end_span i e = on_span i (\<lambda>sp. sp\<lparr>sp_ended := True\<rparr>) e"

section \<open>The operations\<close>

definition StartRun :: "span_context \<Rightarrow> run_config \<Rightarrow> emitter \<Rightarrow> span_context \<times> emitter" where
  "StartRun ctx cfg e =
     (let (i, e') = start_span ''sandbox.run'' ctx (commonAttrs cfg PhasePrepare) e
      in (Some i, e'\<lparr>em_run_span := Some i, em_runs := em_runs e' + 1\<rparr>))"

definition StartPhase :: "span_context \<Rightarrow> phase \<Rightarrow> emitter \<Rightarrow> span_context \<times> emitter" where
  "StartPhase ctx ph e =
     (let (i, e') = start_span (''phase.'' @ phase_name ph) ctx [(''phase'', AttrString (phase_name ph))] e
      in (Some i, e'\<lparr>em_phase_spans := AList.update ph i (em_phase_spans e')\<rparr>))"

definition EmitEvent :: "span_context \<Rightarrow> run_event \<Rightarrow> emitter \<Rightarrow> emitter" where
  "EmitEvent ctx event e =
     (let e' = add_event ctx (ev_name event)
          ([(''phase'', AttrString (phase_name (ev_phase event))), (''command_class'', AttrString (ev_command_class event))]
           @ string_attributes (ev_attributes event)) e
      in if ev_name event = ''policy.denied'' then e'\<lparr>em_denied := em_denied e' + 1\<rparr> else e')"

definition EmitLog :: "span_context \<Rightarrow> structured_log \<Rightarrow> emitter \<Rightarrow> emitter" where
  "EmitLog ctx entry e =
     (let e = (if log_stream entry = ''stdout'' then e\<lparr>em_stdout := em_stdout e + 1\<rparr> else e);
          e = (if log_stream entry = ''stderr'' then e\<lparr>em_stderr := em_stderr e + 1\<rparr> else e);
          e = add_event ctx (''process.'' @ log_stream entry)
            [(''line'', AttrString (log_line entry)), (''line_no'', AttrInt (log_line_no entry)),
             (''provider'', AttrString (log_provider entry))] e
      in e\<lparr>em_logs := em_logs e @ [recordForStructuredLog entry]\<rparr>)"

definition EmitMetric :: "metric_point \<Rightarrow> emitter \<Rightarrow> emitter" where
  "EmitMetric point e =
     (if mp_name point = ''sandbox_phase_duration_ms'' then
        e\<lparr>em_phase_durations := em_phase_durations e @ [(mp_value point, [])]\<rparr>
      else if mp_name point = ''sandbox_command_duration_ms'' then
        e\<lparr>em_command_durations := em_command_durations e @ [mp_value point]\<rparr>
      else if mp_name point = ''sandbox_artifact_bytes_total'' then
        e\<lparr>em_artifact_bytes := em_artifact_bytes e + mp_value point\<rparr>
      else e)"

definition EndPhase :: "phase \<Rightarrow> phase_result \<Rightarrow> emitter \<Rightarrow> emitter" where
  "EndPhase ph r e0 =
     (let e = e0\<lparr>em_phase_durations := em_phase_durations e0 @ [(phr_duration_ms r, [(''phase'', AttrString (phase_name ph))])]\<rparr>
      in case map_of (em_phase_spans e) ph of
           None \<Rightarrow> e
         | Some i \<Rightarrow>
             (let e = (if phr_status r \<noteq> StatusSucceeded then set_error i (phr_error_message r) e else e);
                  e = end_span i e
              in e\<lparr>em_phase_spans := AList.delete ph (em_phase_spans e)\<rparr>))"

definition end_providers :: "otel_world \<Rightarrow> go_error option" where
  "end_providers w =
     (case tw_flush_logs w of Some e \<Rightarrow> Some (WrapError ''flush log provider: '' e)
      | None \<Rightarrow> (case tw_shutdown_logs w of Some e \<Rightarrow> Some (WrapError ''shutdown log provider: '' e)
      | None \<Rightarrow> (case tw_shutdown_traces w of Some e \<Rightarrow> Some (WrapError ''shutdown trace provider: '' e)
      | None \<Rightarrow> (case tw_shutdown_metrics w of Some e \<Rightarrow> Some (WrapError ''shutdown meter provider: '' e)
      | None \<Rightarrow> None))))"

text \<open>A failed run without a span makes the code call a method of a nil interface.\<close>

definition EndRun :: "otel_world \<Rightarrow> run_result option \<Rightarrow> emitter \<Rightarrow> go_error option \<times> emitter" where
  "EndRun w result e0 =
     (let e = (case result of
          Some r \<Rightarrow> if rr_status r \<noteq> StatusSucceeded then e0\<lparr>em_failures := em_failures e0 + 1\<rparr> else e0
        | None \<Rightarrow> e0);
          failed = (case result of Some r \<Rightarrow> rr_status r \<noteq> StatusSucceeded | None \<Rightarrow> False)
      in case em_run_span e of
           None \<Rightarrow> if failed then (Some (ErrorText ''panic: nil span''), e) else (end_providers w, e)
         | Some i \<Rightarrow> (end_providers w,
             end_span i (case result of Some r \<Rightarrow> if failed then set_error i (rr_error_message r) e else e | None \<Rightarrow> e)))"

section \<open>The helper library\<close>

text \<open>\<open>RunAttrsFromEnv\<close>, and the attributes of \<open>StartSpan\<close>.\<close>

definition RunAttrsFromEnv :: "host \<Rightarrow> attributes" where
  "RunAttrsFromEnv h =
     (let runID = os_getenv h ''RUN_ID''; attempt = os_getenv h ''ATTEMPT''; sandboxID = os_getenv h ''SANDBOX_ID'' in
      label_if (runID \<noteq> []) [(''run_id'', AttrString runID)]
      @ (if attempt = [] then [] else (case Atoi attempt of Some n \<Rightarrow> [(''attempt'', AttrInt n)] | None \<Rightarrow> []))
      @ label_if (sandboxID \<noteq> []) [(''sandbox_id'', AttrString sandboxID)])"

definition StartSpan :: "host \<Rightarrow> span_context \<Rightarrow> string \<Rightarrow> attributes \<Rightarrow> emitter \<Rightarrow> nat \<times> emitter" where
  "StartSpan h ctx name attrs e = start_span name ctx (RunAttrsFromEnv h @ attrs) e"

text \<open>\<open>WrapHTTPHandler\<close>: the span of a request is ended when the wrapped handler has returned.\<close>

definition WrapHTTPHandler ::
  "host \<Rightarrow> (span_context \<Rightarrow> emitter \<Rightarrow> emitter) \<Rightarrow> span_context \<Rightarrow> string \<Rightarrow> string \<Rightarrow> emitter \<Rightarrow> emitter" where
  "WrapHTTPHandler h handler ctx method path e =
     (let (i, e') = StartSpan h ctx ''http.request'' [(''http.method'', AttrString method), (''http.route'', AttrString path)] e
      in end_span i (handler (Some i) e'))"

end
