(* ===== verification/Telemetry_Facts.thy ===== *)
theory Telemetry_Facts
  imports Telemetry Engine_Props
begin

text \<open>
  The spans of a whole run: the emitter is driven by the calls that the history of a run records, and every
  span that a run starts is ended when the run is over.
\<close>

section \<open>The emitter of a history\<close>

text \<open>The context of a call is the span of its phase, or that of the run when the phase has none.\<close>

definition context_of :: "emitter \<Rightarrow> phase \<Rightarrow> span_context" where
  "context_of e ph = (case map_of (em_phase_spans e) ph of Some i \<Rightarrow> Some i | None \<Rightarrow> em_run_span e)"

fun emit :: "otel_world \<Rightarrow> action \<Rightarrow> emitter \<Rightarrow> emitter" where
  "emit w AStartRun e = snd (StartRun None (em_cfg e) e)"
| "emit w (AStartPhase ph) e = snd (StartPhase (em_run_span e) ph e)"
| "emit w (AEndPhase ph r) e = EndPhase ph r e"
| "emit w (AEvent ev) e = EmitEvent (context_of e (ev_phase ev)) ev e"
| "emit w (AEmitLog l) e = EmitLog (context_of e (log_phase l)) l e"
| "emit w (AMetric m) e = EmitMetric m e"
| "emit w (AEndRun r) e = snd (EndRun w (Some r) e)"
| "emit w _ e = e"

definition emitted :: "otel_world \<Rightarrow> emitter \<Rightarrow> trace \<Rightarrow> emitter" where
  "emitted w e tr = fold (emit w) tr e"

lemma emitted_snoc [simp]: "emitted w e (tr @ [a]) = emit w a (emitted w e tr)"
  and emitted_append: "emitted w e (tr @ tr') = emitted w (emitted w e tr) tr'"
  by (simp_all add: emitted_def)

section \<open>Open spans\<close>

definition span_open :: "emitter \<Rightarrow> nat \<Rightarrow> bool" where
  "span_open e i \<longleftrightarrow> i < length (em_spans e) \<and> \<not> sp_ended (em_spans e ! i)"

text \<open>Every open span is that of the run, or is kept in the table under one of the phases \<open>X\<close>.\<close>

definition kept_open :: "phase set \<Rightarrow> emitter \<Rightarrow> bool" where
  "kept_open X e \<longleftrightarrow> (\<forall>i. span_open e i \<longrightarrow> em_run_span e = Some i \<or> i \<in> snd ` set (em_phase_spans e))
     \<and> fst ` set (em_phase_spans e) \<subseteq> X \<and> distinct (map fst (em_phase_spans e))"

text \<open>The calls that neither start a span nor end the run.\<close>

fun modest :: "action \<Rightarrow> bool" where
  "modest AStartRun = False"
| "modest (AStartPhase ph) = False"
| "modest (AEndRun r) = False"
| "modest a = True"

lemma on_span_simps [simp]:
  "em_run_span (on_span i f e) = em_run_span e" "em_phase_spans (on_span i f e) = em_phase_spans e"
  "length (em_spans (on_span i f e)) = length (em_spans e)"
  by (simp_all add: on_span_def)

lemma span_open_on_span:
  "span_open (on_span i f e) j \<Longrightarrow> (\<And>sp. sp_ended sp \<Longrightarrow> sp_ended (f sp)) \<Longrightarrow> span_open e j"
  by (auto simp: span_open_def on_span_def nth_list_update split: if_splits)

lemma span_open_end_span: "span_open (end_span i e) j \<longleftrightarrow> span_open e j \<and> j \<noteq> i"
  by (auto simp: end_span_def span_open_def on_span_def nth_list_update)

lemma kept_open_on_span:
  "kept_open X e \<Longrightarrow> (\<And>sp. sp_ended sp \<Longrightarrow> sp_ended (f sp)) \<Longrightarrow> kept_open X (on_span i f e)"
  unfolding kept_open_def by (auto dest!: span_open_on_span)

lemma kept_open_fields [simp]:
  "kept_open X (e\<lparr>em_denied := n\<rparr>) = kept_open X e" "kept_open X (e\<lparr>em_stdout := n\<rparr>) = kept_open X e"
  "kept_open X (e\<lparr>em_stderr := n\<rparr>) = kept_open X e" "kept_open X (e\<lparr>em_failures := n\<rparr>) = kept_open X e"
  "kept_open X (e\<lparr>em_artifact_bytes := n\<rparr>) = kept_open X e" "kept_open X (e\<lparr>em_logs := l\<rparr>) = kept_open X e"
  "kept_open X (e\<lparr>em_phase_durations := d\<rparr>) = kept_open X e" "kept_open X (e\<lparr>em_command_durations := c\<rparr>) = kept_open X e"
  by (simp_all add: kept_open_def span_open_def)

lemma kept_open_event: "kept_open X e \<Longrightarrow> kept_open X (add_event ctx name attrs e)"
  by (auto simp: add_event_def intro: kept_open_on_span split: option.split)

lemma EndPhase_kept:
  assumes "kept_open X e" shows "kept_open (X - {ph}) (EndPhase ph r e)"
proof (cases "map_of (em_phase_spans e) ph")
  case None
  then have "ph \<notin> fst ` set (em_phase_spans e)" by (simp add: map_of_eq_None_iff)
  with assms None show ?thesis by (auto simp: EndPhase_def kept_open_def span_open_def Let_def)
next
  case (Some i)
  let ?e1 = "e\<lparr>em_phase_durations := em_phase_durations e @ [(phr_duration_ms r, [(''phase'', AttrString (phase_name ph))])]\<rparr>"
  define e2 where "e2 = (if phr_status r \<noteq> StatusSucceeded then set_error i (phr_error_message r) ?e1 else ?e1)"
  have "kept_open X ?e1" using assms by simp
  then have e2: "kept_open X e2" "em_phase_spans e2 = em_phase_spans e" "em_run_span e2 = em_run_span e"
    by (auto simp: e2_def set_error_def intro: kept_open_on_span)
  have res: "EndPhase ph r e = (end_span i e2)\<lparr>em_phase_spans := AList.delete ph (em_phase_spans e)\<rparr>"
    using Some by (simp add: EndPhase_def Let_def e2_def end_span_def set_error_def)
  have "j \<in> snd ` set (AList.delete ph (em_phase_spans e))"
    if "span_open e2 j" "j \<noteq> i" "em_run_span e \<noteq> Some j" for j
  proof -
    from that e2 obtain q where q: "(q, j) \<in> set (em_phase_spans e)" unfolding kept_open_def by auto
    with assms Some that(2) have "q \<noteq> ph" unfolding kept_open_def by (metis map_of_is_SomeI option.inject)
    with q show ?thesis by (force simp: AList.delete_eq)
  qed
  moreover have "span_open (EndPhase ph r e) j \<longleftrightarrow> span_open e2 j \<and> j \<noteq> i" for j
    unfolding res span_open_end_span [symmetric] by (simp add: span_open_def)
  moreover have "em_run_span (EndPhase ph r e) = em_run_span e"
    "em_phase_spans (EndPhase ph r e) = AList.delete ph (em_phase_spans e)"
    by (simp_all add: res end_span_def e2)
  ultimately show ?thesis using assms
    by (auto simp: kept_open_def image_iff AList.delete_eq distinct_map_filter)
qed

lemma kept_open_mono: "kept_open X e \<Longrightarrow> X \<subseteq> Y \<Longrightarrow> kept_open Y e"
  unfolding kept_open_def by blast

lemma emit_modest:
  assumes "modest a" "kept_open X e"
  shows "kept_open X (emit w a e)" "em_run_span (emit w a e) = em_run_span e"
proof -
  have "kept_open X (EmitEvent ctx ev e)" for ctx ev
    using assms(2) by (simp add: EmitEvent_def kept_open_event Let_def)
  moreover have "kept_open X (EmitLog ctx l e)" for ctx l
    using assms(2) by (simp add: EmitLog_def kept_open_event Let_def)
  moreover have "kept_open X (EmitMetric m e)" for m
    using assms(2) by (simp add: EmitMetric_def)
  moreover have "kept_open X (EndPhase ph r e)" for ph r
    using EndPhase_kept [OF assms(2)] by (rule kept_open_mono) auto
  ultimately show "kept_open X (emit w a e)" using assms by (cases a) simp_all
  show "em_run_span (emit w a e) = em_run_span e"
    using assms(1) by (cases a) (auto simp: EmitEvent_def EmitLog_def EmitMetric_def EndPhase_def add_event_def
        set_error_def end_span_def Let_def split: option.splits)
qed

lemma kept_open_start:
  assumes "kept_open {} e" shows "kept_open {ph} (snd (StartPhase ctx ph e))"
    and "em_run_span (snd (StartPhase ctx ph e)) = em_run_span e"
  using assms by (auto simp: kept_open_def StartPhase_def start_span_def span_open_def nth_append Let_def less_Suc_eq
      split: if_splits)

lemma kept_open_run:
  assumes "kept_open X e" "em_run_span e = None" shows "kept_open X (snd (StartRun ctx cfg e))"
    and "em_run_span (snd (StartRun ctx cfg e)) \<noteq> None"
  using assms by (auto simp: kept_open_def StartRun_def start_span_def span_open_def nth_append Let_def less_Suc_eq
      split: if_splits)

lemma ended_run:
  assumes "kept_open {} e" "em_run_span e \<noteq> None"
  shows "\<not> span_open (snd (EndRun w (Some r) e)) i" and "em_phase_spans (snd (EndRun w (Some r) e)) = []"
proof -
  from assms(2) obtain j where j: "em_run_span e = Some j" by blast
  define e1 where "e1 = (if rr_status r \<noteq> StatusSucceeded then e\<lparr>em_failures := em_failures e + 1\<rparr> else e)"
  define e2 where "e2 = (if rr_status r \<noteq> StatusSucceeded then set_error j (rr_error_message r) e1 else e1)"
  have eq: "snd (EndRun w (Some r) e) = end_span j e2"
    using j by (simp add: EndRun_def Let_def e2_def e1_def)
  have "kept_open {} e1" using assms(1) by (simp add: e1_def)
  then have e2: "kept_open {} e2" "em_run_span e2 = Some j"
    using j by (auto simp: e2_def e1_def set_error_def intro: kept_open_on_span)
  then have none: "em_phase_spans e2 = []" by (auto simp: kept_open_def)
  with e2 show "\<not> span_open (snd (EndRun w (Some r) e)) i"
    unfolding eq span_open_end_span by (auto simp: kept_open_def)
  show "em_phase_spans (snd (EndRun w (Some r) e)) = []" by (simp add: eq end_span_def none)
qed

end
