(* ===== verification/Engine_Steps.thy ===== *)
theory Engine_Steps
  imports Engine_Props
begin

text \<open>
  The steps of the engine under an invariant of the history: the contract of such an invariant for one phase,
  the small steps and then the steps of each handler, proved once for every invariant that keeps the contract.
\<close>

section \<open>The contract\<close>

text \<open>
  The everyday actions: neither the emitter's start or end of a run or the start of a phase, nor a command that
  runs and its record.
\<close>

fun everyday :: "action \<Rightarrow> bool" where
  "everyday AStartRun = False"
| "everyday (AStartPhase ph) = False"
| "everyday (AEndRun r) = False"
| "everyday (AExec ex spec res err) = False"
| "everyday (AAppendCommand r) = False"
| "everyday a = True"

text \<open>
  The invariant is kept by every everyday action and does not look at the state but for the emitter and the
  writer; the failure of the phase \<open>ph\<close> leads from it to the error postcondition.
\<close>

locale step_invariant =
  fixes P :: "run_state \<Rightarrow> bool" and E :: "go_error \<Rightarrow> run_state \<Rightarrow> bool" and ph :: phase
  assumes keeps_action: "P s \<Longrightarrow> everyday a \<Longrightarrow> P (s\<lparr>st_trace := st_trace s @ [a]\<rparr>)"
    and keeps_state: "P s \<Longrightarrow> st_trace s' = st_trace s \<Longrightarrow> st_emitter s' = st_emitter s \<Longrightarrow> st_writer s' = st_writer s \<Longrightarrow> P s'"
    and fails: "P s \<Longrightarrow> E e (failed_state ph code e status res s)"
begin
lemma noted: "everyday a \<Longrightarrow> steady P E (note_action a)"
  by (rule valid_note_action) (rule keeps_action)

lemma performs: "(\<And>x. everyday (act x)) \<Longrightarrow> steady P E (perform f act)"
  by (rule valid_perform) (rule keeps_action)

lemma modifies: "(\<And>s. st_trace (f s) = st_trace s \<and> st_emitter (f s) = st_emitter s \<and> st_writer (f s) = st_writer s) \<Longrightarrow> steady P E (modify f)"
  by (rule valid_modify) (auto intro: keeps_state)

lemma sets_result: "steady P E (set_result f)"
  unfolding set_result_def by (rule modifies) simp

lemma sets_meta: "steady P E (set_meta k v)"
  unfolding set_meta_def by (rule sets_result)

lemma sets_run_config: "steady P E (set_run_config cfg)"
  unfolding set_run_config_def by (rule modifies) simp

lemma adds: "steady P E (add_phase_result r)"
  unfolding add_phase_result_def by (rule modifies) simp

lemma emits: "steady P E (emit_event name p attrs)"
  unfolding emit_event_def by (rule noted) simp

lemma if_emitters: "steady P E m \<Longrightarrow> steady P E (if_emitter m)"
  unfolding if_emitter_def by (intro triples) auto

lemma fails_status: "valid P (failPhaseWithStatus ph code e status res) Q E"
  by (rule valid_fail) (rule fails)

lemma fails_phase: "valid P (failPhase ph code e) Q E"
  unfolding failPhase_def by (rule fails_status)

lemma checks: "steady P E (check ph code err)"
  unfolding check_def by (intro triples fails_phase)

lemma needs: "steady P E (need ph code r)"
  unfolding need_def by (intro triples fails_phase)

lemma writes: "steady P E (write_document w d)"
  unfolding write_document_def by (intro triples performs) simp_all

lemma writes_ignoring: "steady P E (write_ignoring w d)"
  unfolding write_ignoring_def by (intro triples writes) simp

lemma writes_checked: "steady P E (write_checked w ph code d)"
  unfolding write_checked_def by (intro triples writes checks)

lemmas small_steps = noted performs modifies sets_result sets_meta sets_run_config adds emits if_emitters fails_status
  fails_phase checks needs writes writes_ignoring writes_checked triples

lemma blocks: "list_all (steady P E) ms \<Longrightarrow> steady P E (block ms)"
  by (rule steady_block) (simp add: list_all_iff)

lemma logs: "steady P E (OnLog log)"
  unfolding OnLog_def Let_def
  by (rule steady_with_state, rule blocks) (auto intro!: small_steps)

lemma news_executor: "steady P E (new_executor w ph code)"
  unfolding new_executor_def by (intro small_steps) simp_all

lemma ensures_executor: "steady P E (ensure_executor w ph code)"
  unfolding ensure_executor_def by (intro small_steps news_executor) simp

lemma steady_state: "(\<And>s. steady P E (f s)) \<Longrightarrow> steady P E (with_state f)"
  by (rule steady_with_state)

lemmas steps = news_executor ensures_executor small_steps

end

text \<open>An invariant that does not look at commands and their records is kept by them too.\<close>

locale blind_invariant = step_invariant +
  assumes keeps_exec: "P s \<Longrightarrow> P (s\<lparr>st_trace := st_trace s @ [AExec ex spec res err]\<rparr>)"
    and keeps_record: "P s \<Longrightarrow> P (s\<lparr>st_trace := st_trace s @ [AAppendCommand r]\<rparr>)"
begin

lemma notes_record: "steady P E (note_action (AAppendCommand r))"
  by (rule valid_note_action) (rule keeps_record)

lemma records: "steady P E (recordCommand w p command result)"
  unfolding recordCommand_def
  by (rule steady_with_state, rule blocks) (auto intro!: notes_record small_steps)

lemma performs_exec:
  "steady P E (perform (\<lambda>tr. executor_Run (ew_host w) (ew_exec w tr) ex spec) (\<lambda>(res, err, logs). AExec ex spec res err))"
  by (rule valid_perform) (auto intro: keeps_exec split: prod.split)

lemma runs: "steady P E (run_executor w ex spec)"
  unfolding run_executor_def
  by (intro steady_andThen performs_exec) (auto intro!: small_steps logs)

lemma runs_recorded: "steady P E (run_recorded w ex spec)"
  unfolding run_recorded_def by (intro steady_andThen runs records valid_ret)

end

text \<open>
  The contract for a whole phase: outside it \<open>Q\<close> holds, between its start and its last step, which appends the
  result and ends the span, \<open>P\<close> does; a failure leads to \<open>Q\<close>.
\<close>

locale phase_frame = step_invariant P "\<lambda>_. Q" ph for P and Q :: "run_state \<Rightarrow> bool" and ph +
  assumes starts_phase: "valid Q (startPhase ph) (\<lambda>_. P) (\<lambda>_. Q)"
    and ends_phase: "valid P (endPhase ph r) (\<lambda>_. Q) (\<lambda>_. Q)"
begin

abbreviation kept :: "'a step \<Rightarrow> bool" where
  "kept m \<equiv> steady P (\<lambda>_. Q) m"

abbreviation passes :: "'a step \<Rightarrow> bool" where
  "passes m \<equiv> steady Q (\<lambda>_. Q) m"

abbreviation closes :: "'a step \<Rightarrow> bool" where
  "closes m \<equiv> valid P m (\<lambda>_. Q) (\<lambda>_. Q)"

lemma in_phase: "closes (k ()) \<Longrightarrow> passes (andThen (startPhase ph) k)"
  by (rule valid_andThen [OF starts_phase]) simp

lemma closes_end: "closes (andThen (endPhase ph r) (\<lambda>_. ret ()))"
  by (rule valid_andThen [OF ends_phase], rule valid_ret)

lemma closes_state: "(\<And>s. closes (f s)) \<Longrightarrow> closes (with_state f)"
  by (rule valid_with_state, rule valid_weaken [where P' = P]) auto

lemma closes_after: "kept m \<Longrightarrow> (\<And>x. closes (k x)) \<Longrightarrow> closes (andThen m k)"
  by (rule valid_andThen)

lemmas phase_steps = in_phase closes_end closes_state closes_after valid_if valid_prod steady_with_state

end

text \<open>Where commands run, a command and its record keep the invariant together.\<close>

locale command_frame = phase_frame +
  assumes keeps_command: "steady P (\<lambda>_. Q) (run_recorded w ex spec)"

section \<open>Prepare\<close>

text \<open>Before there is a writer; a failure without one leaves the invariant for the error postcondition too.\<close>

locale early_invariant = step_invariant P E PhasePrepare for P E +
  assumes gives_up: "P s \<Longrightarrow> E e s"
begin

lemma fails_early: "valid P (failWithoutArtifacts p code e) Q E"
  unfolding failWithoutArtifacts_def
  by (rule valid_andThen [OF sets_result], rule valid_throw) (rule gives_up)

lemma needs_early: "steady P E (need_early p code r)"
  unfolding need_early_def by (intro triples fails_early)

lemma checks_early: "steady P E (check_early p code r)"
  unfolding check_early_def by (intro triples fails_early)

lemma prepare_resolve_kept: "steady P E (prepare_resolve w)"
  unfolding prepare_resolve_def Let_def block_simps
  by (intro steps needs_early fails_early) simp_all

lemma prepare_target_kept: "steady P E (prepare_target w cfg)"
  unfolding prepare_target_def Let_def by (intro steps checks_early) simp_all

end

text \<open>From the writer and the emitter on, which the steps before put into the state.\<close>

locale prepare_frame = phase_frame P Q PhasePrepare for P Q
begin

lemma note_runtime_kept: "kept (note_runtime cfg caps ri)"
  unfolding note_runtime_def block_simps by (intro steps) (simp_all add: Let_def)

lemma prepare_backend_kept: "kept (prepare_backend w cfg)"
  unfolding prepare_backend_def note_backend_def kata_preflight_def block_simps
  by (intro steps note_runtime_kept) simp_all

lemma note_sandbox_kept: "kept (note_sandbox cfg info)"
  unfolding note_sandbox_def block_simps by (intro steps) simp_all

lemma read_devcontainer_kept: "kept (read_devcontainer w cfg b i)"
  unfolding read_devcontainer_def note_devcontainer_def block_simps by (intro steps) simp_all

lemma prepare_sandbox_kept: "kept (prepare_sandbox w cfg b)"
  unfolding prepare_sandbox_def announce_create_def start_sandbox_def sync_workspace_in_def Let_def block_simps
  by (intro steps note_sandbox_kept read_devcontainer_kept) simp_all

lemma prepare_documents_kept: "kept (prepare_documents w cfg caps ri)"
  unfolding prepare_documents_def write_prepared_def Let_def block_simps by (intro steps)

lemma prepare_rest_closes:
  "closes (andThen (prepare_backend w cfg) (\<lambda>(b, caps, ri).
      andThen (prepare_sandbox w cfg b) (\<lambda>cfg. andThen (prepare_documents w cfg caps ri) (\<lambda>_. prepare_finish cfg warnings))))"
proof -
  have finish: "closes (prepare_finish cfg warnings)" for cfg warnings
    unfolding prepare_finish_def Let_def block_simps by (intro closes_after sets_result adds closes_end)
  show ?thesis
    by (intro valid_prod finish closes_after [OF prepare_backend_kept] closes_after [OF prepare_sandbox_kept]
        closes_after [OF prepare_documents_kept])
qed

end

section \<open>Setup, execute and verify\<close>

locale setup_frame = command_frame P Q PhaseSetup for P Q
begin

lemma setup_steps_kept: "kept (setup_steps w ex steps)"
  by (induction steps) (auto intro!: keeps_command small_steps)

lemma make_plan_kept: "kept (make_plan w)"
  unfolding make_plan_def Let_def
  by (intro steps) (auto intro!: steps)

lemma runSetup_passes: "passes (runSetup w)"
  unfolding runSetup_def setup_finish_def Let_def block_simps
  by (intro phase_steps valid_ret needs adds make_plan_kept news_executor setup_steps_kept)

end

locale execute_frame = command_frame P Q PhaseExecute for P Q
begin

lemma runExecute_passes: "passes (runExecute w)"
  unfolding runExecute_def execute_command_def execute_finish_def Let_def block_simps
  by (intro phase_steps valid_ret valid_option fails_phase fails_status needs adds checks
      ensures_executor sets_result keeps_command modifies) simp_all

end

locale verify_frame = command_frame P Q PhaseVerify for P Q
begin

lemma download_all_kept: "kept (download_all download cfg i expected)"
  by (induction expected) (auto simp: Let_def intro!: steps)

lemma downloads_kept: "kept downloadExpectedArtifacts"
  unfolding downloadExpectedArtifacts_def Let_def
  by (intro steps download_all_kept) simp_all

lemma verify_smoke_kept: "kept (verify_smoke w command)"
  unfolding verify_smoke_def by (intro keeps_command steps) simp_all

lemma verify_artifacts_kept: "kept (verify_artifacts w dir expected)"
  by (induction expected) (auto simp: Let_def intro!: steps)

lemma runVerify_passes: "passes (runVerify w)"
  unfolding runVerify_def verify_finish_def Let_def block_simps
  by (intro phase_steps valid_ret checks verify_smoke_kept downloads_kept verify_artifacts_kept
      adds sets_result) simp_all

end

section \<open>Collect\<close>

locale collect_frame = phase_frame P Q PhaseCollect for P Q
begin

lemma cleanup_kept: "kept cleanupBackend"
  unfolding cleanupBackend_def do_cleanup_def Let_def
  by (intro steps) (auto split: cleanup_op.split intro!: steps)

lemma sync_out_kept: "kept (collect_sync_out cfg)"
  unfolding collect_sync_out_def note_error_def Let_def by (intro steps) simp_all

lemma endpoints_kept: "kept (collect_endpoints w cfg b)"
  unfolding collect_endpoints_def Let_def by (intro steps) simp_all

lemma refresh_kept: "kept (refresh_sandbox w cfg info)"
  unfolding refresh_sandbox_def by (rule blocks) (auto intro!: steps)

lemma metadata_kept: "kept (collect_metadata w cfg)"
  unfolding collect_metadata_def Let_def block_simps
  by (intro steps refresh_kept endpoints_kept) simp_all

lemma devcontainer_kept: "kept (note_devcontainer cfg dev)"
  unfolding note_devcontainer_def block_simps by (intro steps) simp_all

lemma collect_devcontainer_kept: "kept (collect_devcontainer w)"
  unfolding collect_devcontainer_def Let_def block_simps
  by (intro steps devcontainer_kept) simp_all

lemma collect_sandbox_kept: "kept (collect_sandbox w cfg)"
  unfolding collect_sandbox_def partial_if_succeeded_def block_simps
  by (intro steps sync_out_kept metadata_kept collect_devcontainer_kept cleanup_kept) simp_all

lemma collect_documents_kept: "kept (collect_documents w cfg)"
  unfolding collect_documents_def share_phase_results_def write_results_def write_index_def block_simps
  by (intro steps) simp_all

lemma upload_refs_kept: "kept (upload_refs w refs)"
  unfolding upload_refs_def Let_def by (intro steps) simp_all

lemma note_upload_kept: "kept (note_upload_error key err)"
  unfolding note_upload_error_def note_error_def block_simps by (intro steps) simp_all

lemma collect_upload_kept: "kept (collect_upload w cfg)"
  unfolding collect_upload_def replace_last_phase_def share_phase_results_def write_results_def write_index_def Let_def block_simps
  by (intro steps upload_refs_kept note_upload_kept) simp_all

lemma end_collect_closes: "closes end_collect"
  unfolding end_collect_def by (intro closes_state ends_phase)

lemma end_collect_throws: "closes (andThen end_collect (\<lambda>_. throw e))"
  by (rule valid_andThen [OF end_collect_closes], rule valid_throw)

lemma summary_upload_closes: "closes (summary_upload w final)"
  unfolding summary_upload_def block_simps andThen_assoc ret_andThen
  by (intro closes_state valid_if valid_prod valid_option end_collect_closes end_collect_throws
      closes_after [OF upload_refs_kept] closes_after [OF note_upload_kept]
      closes_after [OF steady_state]) (auto intro!: steps)

lemma runCollect_passes: "passes (runCollect w)"
  unfolding runCollect_def Let_def block_simps andThen_assoc ret_andThen
  by (intro steady_with_state valid_if valid_ret in_phase valid_prod valid_option summary_upload_closes end_collect_throws
      closes_after [OF collect_sandbox_kept] closes_after [OF collect_documents_kept] closes_after [OF collect_upload_kept])

end

section \<open>The run\<close>

text \<open>
  What holds when a run is over, from what prepare, the phases and collect keep: the run that has no writer ends
  with prepare, every other one with collect.
\<close>

lemma engine_Run_ends:
  assumes run: "engine_Run w req = (s, err)" and start: "P0 (initial_state req)"
    and prepare: "valid P0 (runPrepare w) (\<lambda>_. P) (\<lambda>_. Q)"
    and main: "valid P (run_main w) (\<lambda>_. Q) (\<lambda>_. Q)" and collect: "steady Q (\<lambda>_. Q) (runCollect w)"
  shows "(\<exists>e. runPrepare w (initial_state req) = (Inl e, s) \<and> st_writer s = None \<and> Q s) \<or> (\<exists>s3. Q s3 \<and> s = finish_run s3)"
proof -
  obtain r s1 where prep: "runPrepare w (initial_state req) = (r, s1)" by fastforce
  show ?thesis
  proof (cases r)
    case (Inl e)
    with validD_error [OF prepare start] prep have Q: "Q s1" by simp
    obtain c s3 where "runCollect w s1 = (c, s3)" by fastforce
    with validD_value [OF collect Q] validD_error [OF collect Q] run prep Inl Q show ?thesis
      by (cases c) (auto simp: engine_Run_def split: if_splits)
  next
    case (Inr x)
    with validD_value [OF prepare start] prep have "P s1" by simp
    obtain m s2 where m: "run_main w s1 = (m, s2)" by fastforce
    with validD_value [OF main \<open>P s1\<close>] validD_error [OF main \<open>P s1\<close>] have Q: "Q s2" by (cases m) auto
    obtain c s3 where "runCollect w s2 = (c, s3)" by fastforce
    with validD_value [OF collect Q] validD_error [OF collect Q] run prep Inr m show ?thesis
      by (cases c) (auto simp: engine_Run_def)
  qed
qed

end
