(* ===== verification/Telemetry_Run.thy ===== *)
theory Telemetry_Run
  imports Telemetry_Facts Engine_Steps
begin

text \<open>
  The steps of the engine and the spans: every step but the start of a phase and of the run keeps the open
  spans where they are, and a phase that fails or succeeds has its span ended.
\<close>

section \<open>The invariant\<close>

text \<open>
  With an emitter, the run has been counted and has its span, and the open spans are those of the run and of the
  phases \<open>X\<close>; without one, nothing has been emitted.
\<close>

definition counted :: "bool \<Rightarrow> emitter \<Rightarrow> bool" where
  "counted started e \<longleftrightarrow> em_failures e = 0 \<and> em_runs e = (if started then 1 else 0) \<and> (em_run_span e \<noteq> None \<longleftrightarrow> started)"

definition silent :: "emitter \<Rightarrow> bool" where
  "silent e \<longleftrightarrow> em_spans e = [] \<and> em_phase_spans e = []"

definition spans_kept :: "otel_world \<Rightarrow> emitter \<Rightarrow> phase set \<Rightarrow> run_state \<Rightarrow> bool" where
  "spans_kept ow e0 X s \<longleftrightarrow> kept_open X (emitted ow e0 (st_trace s)) \<and> counted (st_emitter s) (emitted ow e0 (st_trace s))
     \<and> (\<not> st_emitter s \<longrightarrow> silent (emitted ow e0 (st_trace s)))"

lemma emit_counted:
  assumes "modest a" shows "counted b (emit w a e) = counted b e"
  using assms by (cases a) (auto simp: counted_def EmitEvent_def EmitLog_def EmitMetric_def EndPhase_def add_event_def
      set_error_def end_span_def on_span_def Let_def split: option.splits)

lemma emit_silent:
  assumes "modest a" "silent e" shows "silent (emit w a e)"
  using assms by (cases a) (auto simp: silent_def EmitEvent_def EmitLog_def EmitMetric_def EndPhase_def add_event_def
      on_span_def Let_def split: option.splits)

lemma spans_kept_modest:
  "spans_kept ow e0 X s \<Longrightarrow> modest a \<Longrightarrow> spans_kept ow e0 X (s\<lparr>st_trace := st_trace s @ [a]\<rparr>)"
  by (simp add: spans_kept_def emit_modest emit_counted emit_silent)

lemma spans_kept_state:
  "spans_kept ow e0 X s \<Longrightarrow> st_trace s' = st_trace s \<Longrightarrow> st_emitter s' = st_emitter s \<Longrightarrow> spans_kept ow e0 X s'"
  by (simp add: spans_kept_def)

lemma spans_kept_ended:
  assumes "spans_kept ow e0 {ph} s" "st_emitter s"
  shows "spans_kept ow e0 {} (s\<lparr>st_trace := st_trace s @ [AEndPhase ph r]\<rparr>)"
  using assms EndPhase_kept [of "{ph}" "emitted ow e0 (st_trace s)" ph r]
    emit_counted [of "AEndPhase ph r" True ow "emitted ow e0 (st_trace s)"]
  by (simp add: spans_kept_def)

lemma spans_kept_off: "spans_kept ow e0 X s \<Longrightarrow> \<not> st_emitter s \<Longrightarrow> spans_kept ow e0 Y s"
  by (auto simp: spans_kept_def silent_def kept_open_def)

lemma spans_kept_failed:
  assumes "spans_kept ow e0 {ph} s" shows "spans_kept ow e0 {} (failed_state ph code e status res s)"
proof (cases "st_emitter s")
  case True
  let ?a = "AEvent \<lparr>ev_name = ''phase.error'', ev_phase = ph, ev_command_class = [],
    ev_attributes = [(''error_code'', errorCodeForErr code e)]\<rparr>"
  have "spans_kept ow e0 {ph} (s\<lparr>st_trace := st_trace s @ [?a]\<rparr>)" using assms by (rule spans_kept_modest) simp
  from spans_kept_ended [OF this] True
  have "spans_kept ow e0 {} (s\<lparr>st_trace := (st_trace s @ [?a]) @ [AEndPhase ph r]\<rparr>)" for r by simp
  from this [of "failed_phase ph status (errorCodeForErr code e) e res (st_command_class s)"] True show ?thesis
    by (elim spans_kept_state) (simp_all add: failed_state_def Let_def)
next
  case False
  with assms have "spans_kept ow e0 {} s" by (rule spans_kept_off)
  then show ?thesis by (rule spans_kept_state) (simp_all add: failed_state_def Let_def False)
qed

text \<open>The first and the last step of a phase.\<close>

lemma starts_span: "valid (spans_kept ow e0 {}) (startPhase ph) (\<lambda>_. spans_kept ow e0 {ph}) E"
proof -
  have "spans_kept ow e0 {ph} (s\<lparr>st_trace := st_trace s @ [AStartPhase ph]\<rparr>)" if "spans_kept ow e0 {} s" "st_emitter s" for s
    using that kept_open_start [of "emitted ow e0 (st_trace s)"]
    by (simp add: spans_kept_def counted_def StartPhase_def start_span_def Let_def)
  then show ?thesis unfolding startPhase_def if_emitter_def
    by (auto intro!: valid_with_state valid_if valid_note_action valid_ret intro: spans_kept_off)
qed

lemma ends_span: "valid (spans_kept ow e0 {ph}) (endPhase ph r) (\<lambda>_. spans_kept ow e0 {}) E"
  unfolding endPhase_def if_emitter_def
  by (auto intro!: valid_with_state valid_if valid_note_action valid_ret intro: spans_kept_off spans_kept_ended)

section \<open>The phases\<close>

lemma everyday_modest: "everyday a \<Longrightarrow> modest a"
  by (cases a) auto

lemma spans_blind: "blind_invariant (spans_kept ow e0 {ph}) (\<lambda>_. spans_kept ow e0 {}) ph"
  by unfold_locales
    (auto intro: spans_kept_modest [OF _ everyday_modest] spans_kept_modest spans_kept_state spans_kept_failed)

interpretation spans: blind_invariant "spans_kept ow e0 {ph}" "\<lambda>_. spans_kept ow e0 {}" ph for ow e0 ph
  by (rule spans_blind)

lemma spans_phase: "phase_frame (spans_kept ow e0 {ph}) (spans_kept ow e0 {}) ph"
  by (intro phase_frame.intro phase_frame_axioms.intro blind_invariant.axioms(1) [OF spans_blind] starts_span ends_span)

lemma spans_command: "command_frame (spans_kept ow e0 {ph}) (spans_kept ow e0 {}) ph"
  by (intro command_frame.intro command_frame_axioms.intro spans_phase spans.runs_recorded)

interpretation in_prepare: prepare_frame "spans_kept ow e0 {PhasePrepare}" "spans_kept ow e0 {}" for ow e0
  by (intro prepare_frame.intro spans_phase)

interpretation in_setup: setup_frame "spans_kept ow e0 {PhaseSetup}" "spans_kept ow e0 {}" for ow e0
  by (intro setup_frame.intro spans_command)

interpretation in_execute: execute_frame "spans_kept ow e0 {PhaseExecute}" "spans_kept ow e0 {}" for ow e0
  by (intro execute_frame.intro spans_command)

interpretation in_verify: verify_frame "spans_kept ow e0 {PhaseVerify}" "spans_kept ow e0 {}" for ow e0
  by (intro verify_frame.intro spans_command)

interpretation in_collect: collect_frame "spans_kept ow e0 {PhaseCollect}" "spans_kept ow e0 {}" for ow e0
  by (intro collect_frame.intro spans_phase)

section \<open>Prepare\<close>

text \<open>Before the emitter is made, nothing is emitted, and a failure leaves it like that.\<close>

definition unheard :: "otel_world \<Rightarrow> emitter \<Rightarrow> run_state \<Rightarrow> bool" where
  "unheard ow e0 s \<longleftrightarrow> spans_kept ow e0 {} s \<and> \<not> st_emitter s"

interpretation early: early_invariant "unheard ow e0" "\<lambda>_. spans_kept ow e0 {}" for ow e0
proof
  fix s e code status res assume "unheard ow e0 s"
  then have "spans_kept ow e0 {PhasePrepare} s" unfolding unheard_def by (metis spans_kept_off)
  then show "spans_kept ow e0 {} (failed_state PhasePrepare code e status res s)" by (rule spans_kept_failed)
qed (auto simp: unheard_def intro: spans_kept_modest [OF _ everyday_modest] spans_kept_state)

abbreviation unheard_in :: "otel_world \<Rightarrow> emitter \<Rightarrow> 'a step \<Rightarrow> bool" where
  "unheard_in ow e0 m \<equiv> steady (unheard ow e0) (\<lambda>_. spans_kept ow e0 {}) m"

lemma sets_writer_unheard: "unheard_in ow e0 (modify (\<lambda>s. s\<lparr>st_writer := wr, st_policy := pol\<rparr>))"
  by (rule valid_modify) (auto simp: unheard_def intro: spans_kept_state)

lemma prepare_writer_unheard: "unheard_in ow e0 (prepare_writer w cfg)"
  unfolding prepare_writer_def Let_def block_simps
  by (intro sets_writer_unheard early.steps early.checks_early early.needs_early) simp_all

lemma spans_kept_widen: "spans_kept ow e0 {} s \<Longrightarrow> spans_kept ow e0 X s"
  unfolding spans_kept_def by (blast intro: kept_open_mono)

lemma check_ended: "steady (spans_kept ow e0 {}) (\<lambda>_. spans_kept ow e0 {}) (check PhasePrepare code err)"
proof (cases err)
  case None
  then show ?thesis by (simp add: check_def valid_ret)
next
  case (Some e)
  show ?thesis unfolding check_def Some option.case failPhase_def
    by (rule valid_fail) (rule spans_kept_failed [OF spans_kept_widen])
qed

lemma StartRun_kept:
  assumes "kept_open {} e" "counted False e"
  shows "kept_open {} (emit ow AStartRun e)" "counted True (emit ow AStartRun e)"
  using assms kept_open_run(1) [of "{}" e None "em_cfg e"]
  by (simp_all add: counted_def StartRun_def start_span_def Let_def)

text \<open>The emitter is put into the state, and the run gets its span.\<close>

lemma start_run_ended:
  "valid (unheard ow e0) (andThen (modify (\<lambda>s. s\<lparr>st_emitter := True\<rparr>)) (\<lambda>_. perform f (\<lambda>_. AStartRun)))
     (\<lambda>_. spans_kept ow e0 {}) (\<lambda>_. spans_kept ow e0 {})"
proof (rule valid_andThen)
  let ?em = "\<lambda>s. emitted ow e0 (st_trace s)"
  show "valid (unheard ow e0) (modify (\<lambda>s. s\<lparr>st_emitter := True\<rparr>))
      (\<lambda>_ s. st_emitter s \<and> kept_open {} (?em s) \<and> counted False (?em s)) (\<lambda>_. spans_kept ow e0 {})"
    by (rule valid_modify) (auto simp: unheard_def spans_kept_def)
  show "valid (\<lambda>s. st_emitter s \<and> kept_open {} (?em s) \<and> counted False (?em s)) (perform f (\<lambda>_. AStartRun))
      (\<lambda>_. spans_kept ow e0 {}) (\<lambda>_. spans_kept ow e0 {})"
    by (rule valid_perform) (simp add: spans_kept_def StartRun_kept del: emit.simps)
qed

lemma prepare_telemetry_open: "valid (unheard ow e0) (prepare_telemetry w cfg)
  (\<lambda>_. spans_kept ow e0 {PhasePrepare}) (\<lambda>_. spans_kept ow e0 {})"
proof -
  have tail: "valid (unheard ow e0) (andThen (modify (\<lambda>s. s\<lparr>st_emitter := True\<rparr>)) (\<lambda>_.
      andThen (perform f (\<lambda>_. AStartRun)) (\<lambda>err. andThen (check PhasePrepare code err) (\<lambda>_. startPhase PhasePrepare))))
      (\<lambda>_. spans_kept ow e0 {PhasePrepare}) (\<lambda>_. spans_kept ow e0 {})" for f code
    unfolding andThen_assoc [symmetric]
    by (rule valid_andThen [OF valid_andThen [OF start_run_ended check_ended] starts_span])
  show ?thesis unfolding prepare_telemetry_def block_simps andThen_assoc ret_andThen
    by (rule valid_andThen, rule early.performs, simp, rule valid_andThen [OF early.needs], rule valid_andThen [OF early.modifies], simp,
        rule valid_andThen [OF early.sets_meta], rule valid_andThen, rule early.performs, simp, rule valid_andThen [OF early.checks], rule tail)
qed

lemma runPrepare_ended: "valid (unheard ow e0) (runPrepare w) (\<lambda>_. spans_kept ow e0 {}) (\<lambda>_. spans_kept ow e0 {})"
  unfolding runPrepare_def
  by (intro valid_prod valid_andThen [OF early.prepare_resolve_kept] valid_andThen [OF early.prepare_target_kept]
      valid_andThen [OF prepare_writer_unheard] valid_andThen [OF prepare_telemetry_open] in_prepare.prepare_rest_closes)

section \<open>The whole run\<close>

lemma run_main_ended: "steady (spans_kept ow e0 {}) (\<lambda>_. spans_kept ow e0 {}) (run_main w)"
  unfolding run_main_def block_simps
  by (intro steady_andThen in_setup.runSetup_passes in_execute.runExecute_passes in_verify.runVerify_passes valid_ret)

text \<open>What has been emitted when a run is over.\<close>

definition spans_over :: "run_state \<Rightarrow> emitter \<Rightarrow> bool" where
  "spans_over s e \<longleftrightarrow> (\<forall>sp\<in>set (em_spans e). sp_ended sp) \<and> em_phase_spans e = [] \<and> em_runs e = (if st_emitter s then 1 else 0)
     \<and> em_failures e = (if st_emitter s \<and> rr_status (st_result s) \<noteq> StatusSucceeded then 1 else 0)"

lemma silent_over:
  assumes "spans_kept ow e0 {} s" "\<not> st_emitter s"
  shows "spans_over s (emitted ow e0 (st_trace s))"
  using assms by (simp add: spans_kept_def spans_over_def silent_def counted_def)

lemma finish_run_over:
  assumes "spans_kept ow e0 {} s" shows "spans_over (finish_run s) (emitted ow e0 (st_trace (finish_run s)))"
proof -
  let ?s1 = "s\<lparr>st_trace := st_trace s @ (if st_writer s = None then [] else [ACloseWriter])\<rparr>"
  have s1: "spans_kept ow e0 {} ?s1" using spans_kept_modest [OF assms, of ACloseWriter] assms by simp
  let ?e = "emitted ow e0 (st_trace ?s1)"
  have fin: "st_emitter (finish_run s) = st_emitter s" "emitted ow e0 (st_trace (finish_run s))
      = (if st_emitter s then snd (EndRun ow (Some (st_result (finish_run s))) ?e) else ?e)"
    by (simp_all add: finish_run_def Let_def)
  show ?thesis
  proof (cases "st_emitter s")
    case True
    then have k: "kept_open {} ?e" "em_run_span ?e \<noteq> None" "em_failures ?e = 0" "em_runs ?e = 1"
      using s1 by (auto simp: spans_kept_def counted_def)
    let ?r = "st_result (finish_run s)"
    have "em_failures (snd (EndRun ow (Some ?r) ?e)) = (if rr_status ?r \<noteq> StatusSucceeded then 1 else 0)"
      "em_runs (snd (EndRun ow (Some ?r) ?e)) = 1"
      using k(2-4) by (auto simp: EndRun_def end_span_def set_error_def on_span_def Let_def)
    with ended_run [OF k(1,2)] show ?thesis
      by (auto simp: fin True spans_over_def span_open_def in_set_conv_nth)
  next
    case False
    with silent_over [OF s1] show ?thesis by (cases "st_writer s") (simp_all add: fin spans_over_def)
  qed
qed

text \<open>
  C8: the spans of a run are complete. Whatever happens in it, when the run is over every span that was started,
  that of the run and those of its phases, has been ended and the table of the phases' spans is empty. A run that
  came as far as its emitter is counted once, and as failed once exactly when its result is not a success.
\<close>

theorem run_spans_complete:
  assumes "engine_Run w req = (s, err)"
  shows "spans_over s (emitted ow (fresh_emitter cfg exporting) (st_trace s))"
proof -
  let ?e0 = "fresh_emitter cfg exporting"
  have start: "unheard ow ?e0 (initial_state req)"
    by (simp add: unheard_def spans_kept_def emitted_def initial_state_def fresh_emitter_def kept_open_def span_open_def
        counted_def silent_def)
  from engine_Run_ends [OF assms start runPrepare_ended run_main_ended in_collect.runCollect_passes]
  show ?thesis
  proof (elim disjE exE conjE)
    fix e assume e: "runPrepare w (initial_state req) = (Inl e, s)" "st_writer s = None" and kept: "spans_kept ow ?e0 {} s"
    from validD_error [OF runPrepare_valid untouched_initial e(1)] have "prepare_failed w (rq_policy req) e s" .
    with e(2) have "\<not> st_emitter s" by (auto simp: prepare_failed_def given_up_def unprepared_def based_def)
    with kept show ?thesis by (rule silent_over)
  next
    fix s3 assume "spans_kept ow ?e0 {} s3" "s = finish_run s3"
    with finish_run_over show ?thesis by simp
  qed
qed

definition sample_otel :: otel_world where
  "sample_otel = \<lparr>tw_trace_exporter = (\<lambda>_. None), tw_metric_exporter = (\<lambda>_. None), tw_log_exporter = (\<lambda>_. None),
     tw_flush_logs = Some DeadlineExceeded, tw_shutdown_logs = None, tw_shutdown_traces = None, tw_shutdown_metrics = None\<rparr>"

lemma run_spans_complete_witness:
  "em_phase_spans (emitted sample_otel (fresh_emitter DefaultRunConfig True) (st_trace (fst example_run))) = []"
  using run_spans_complete [OF example_run_eq, of sample_otel DefaultRunConfig True] by (simp add: spans_over_def)

end
