(* ===== verification/Artifact_Log.thy ===== *)
theory Artifact_Log
  imports Artifacts
begin

text \<open>
  The writer of \<open>internal/artifact/writer.go\<close> on a disk: the JSON documents, and the append-only files with one
  JSON value per line, each with its open file and its \<open>bufio.Writer\<close>. Opening, writing and closing are
  answered by the disk, whose answers are functions of the operations it has seen; encoding a value is a
  parameter. \<open>bufio.Writer\<close> is written out for the way it is used: its size is 4096 bytes, its first error stays.
\<close>

section \<open>The disk\<close>

datatype disk_op = DiskOpen string | DiskWrite string string | DiskClose string

text \<open>
  \<open>dk_write\<close>: \<open>None\<close> when everything is written; otherwise the number of bytes that were and the error, since
  \<open>os.File.Write\<close> returns an error whenever it writes less than it is given.
\<close>

record disk_world =
  dk_open :: "disk_op list \<Rightarrow> string \<Rightarrow> go_error option"
  dk_write :: "disk_op list \<Rightarrow> string \<Rightarrow> string \<Rightarrow> (nat \<times> go_error) option"
  dk_close :: "disk_op list \<Rightarrow> string \<Rightarrow> go_error option"

record jsonl_file =
  jf_path :: string
  jf_buffer :: string
  jf_error :: "go_error option"

text \<open>\<open>js_files\<close> is the table \<open>jsonlFiles\<close> of the writer, \<open>js_disk\<close> the contents of the files.\<close>

record jsonl_store =
  js_files :: "(string \<times> jsonl_file) list"
  js_disk :: env
  js_ops :: "disk_op list"

definition file_append :: "string \<Rightarrow> string \<Rightarrow> jsonl_store \<Rightarrow> jsonl_store" where
  "file_append path p st = st\<lparr>js_disk := env_put path (env_get (js_disk st) path @ p) (js_disk st)\<rparr>"

definition file_write :: "disk_world \<Rightarrow> string \<Rightarrow> string \<Rightarrow> jsonl_store \<Rightarrow> (nat \<times> go_error option) \<times> jsonl_store" where
  "file_write dw path p st =
     (let st' = st\<lparr>js_ops := js_ops st @ [DiskWrite path p]\<rparr> in
      case dk_write dw (js_ops st) path p of
        None \<Rightarrow> ((length p, None), file_append path p st')
      | Some (n, e) \<Rightarrow> ((min n (length p), Some e), file_append path (take n p) st'))"

section \<open>The buffered writer\<close>

definition bufio_size :: nat where
  "bufio_size = 4096"

definition bufio_Flush ::
  "disk_world \<Rightarrow> jsonl_file \<Rightarrow> jsonl_store \<Rightarrow> go_error option \<times> jsonl_file \<times> jsonl_store" where
  "bufio_Flush dw f st =
     (if jf_error f \<noteq> None then (jf_error f, f, st)
      else if jf_buffer f = [] then (None, f, st)
      else (case file_write dw (jf_path f) (jf_buffer f) st of
          ((n, None), st') \<Rightarrow> (None, f\<lparr>jf_buffer := []\<rparr>, st')
        | ((n, Some e), st') \<Rightarrow> (Some e, f\<lparr>jf_buffer := drop n (jf_buffer f), jf_error := Some e\<rparr>, st')))"

text \<open>The turns of the loop of \<open>Write\<close>: what does not fit an empty buffer is written directly.\<close>

definition bufio_write_empty ::
  "disk_world \<Rightarrow> string \<Rightarrow> jsonl_file \<Rightarrow> jsonl_store \<Rightarrow> go_error option \<times> jsonl_file \<times> jsonl_store" where
  "bufio_write_empty dw p f st =
     (if length p \<le> bufio_size then (None, f\<lparr>jf_buffer := p\<rparr>, st)
      else (case file_write dw (jf_path f) p st of ((n, err), st') \<Rightarrow> (err, f\<lparr>jf_error := err\<rparr>, st')))"

definition bufio_Write ::
  "disk_world \<Rightarrow> string \<Rightarrow> jsonl_file \<Rightarrow> jsonl_store \<Rightarrow> go_error option \<times> jsonl_file \<times> jsonl_store" where
  "bufio_Write dw p f st =
     (let room = bufio_size - length (jf_buffer f) in
      if jf_error f \<noteq> None then (jf_error f, f, st)
      else if length p \<le> room then (None, f\<lparr>jf_buffer := jf_buffer f @ p\<rparr>, st)
      else if jf_buffer f = [] then bufio_write_empty dw p f st
      else (case bufio_Flush dw (f\<lparr>jf_buffer := jf_buffer f @ take room p\<rparr>) st of
          (Some e, f, st) \<Rightarrow> (Some e, f, st)
        | (None, f, st) \<Rightarrow> bufio_write_empty dw (drop room p) f st))"

section \<open>Lines\<close>

definition getJSONLFile ::
  "disk_world \<Rightarrow> writer \<Rightarrow> string \<Rightarrow> jsonl_store \<Rightarrow> (go_error + jsonl_file) \<times> jsonl_store" where
  "getJSONLFile dw wr name st =
     (case map_of (js_files st) name of
        Some f \<Rightarrow> (Inr f, st)
      | None \<Rightarrow>
          (let path = path_join [wr_root wr, name]; st' = st\<lparr>js_ops := js_ops st @ [DiskOpen path]\<rparr> in
           case dk_open dw (js_ops st) path of
             Some e \<Rightarrow> (Inl e, st')
           | None \<Rightarrow>
               (let f = \<lparr>jf_path = path, jf_buffer = [], jf_error = None\<rparr> in
                (Inr f, (file_append path [] st')\<lparr>js_files := AList.update name f (js_files st)\<rparr>))))"

definition put_file :: "string \<Rightarrow> jsonl_file \<Rightarrow> jsonl_store \<Rightarrow> jsonl_store" where
  "put_file name f st = st\<lparr>js_files := AList.update name f (js_files st)\<rparr>"

text \<open>\<open>data\<close> is what \<open>json.Marshal\<close> returns for the value.\<close>

definition AppendJSONL ::
  "disk_world \<Rightarrow> writer \<Rightarrow> string \<Rightarrow> go_error + string \<Rightarrow> jsonl_store \<Rightarrow> go_error option \<times> jsonl_store" where
  "AppendJSONL dw wr name data st =
     (case getJSONLFile dw wr name st of
        (Inl e, st) \<Rightarrow> (Some e, st)
      | (Inr f, st) \<Rightarrow>
          (case data of
             Inl e \<Rightarrow> (Some e, st)
           | Inr s \<Rightarrow>
               (case bufio_Write dw (s @ [newline]) f st of
                  (Some e, f, st) \<Rightarrow> (Some e, put_file name f st)
                | (None, f, st) \<Rightarrow>
                    (case bufio_Flush dw f st of (err, f, st) \<Rightarrow> (err, put_file name f st)))))"

definition AppendCommand ::
  "disk_world \<Rightarrow> writer \<Rightarrow> ('a \<Rightarrow> go_error + string) \<Rightarrow> 'a \<Rightarrow> jsonl_store \<Rightarrow> go_error option \<times> jsonl_store" where
  "AppendCommand dw wr json v = AppendJSONL dw wr CommandsFileName (json v)"

definition AppendStdout ::
  "disk_world \<Rightarrow> writer \<Rightarrow> (structured_log \<Rightarrow> go_error + string) \<Rightarrow> structured_log \<Rightarrow> jsonl_store \<Rightarrow>
   go_error option \<times> jsonl_store" where
  "AppendStdout dw wr json log = AppendJSONL dw wr StdoutFileName (json log)"

definition AppendStderr ::
  "disk_world \<Rightarrow> writer \<Rightarrow> (structured_log \<Rightarrow> go_error + string) \<Rightarrow> structured_log \<Rightarrow> jsonl_store \<Rightarrow>
   go_error option \<times> jsonl_store" where
  "AppendStderr dw wr json log = AppendJSONL dw wr StderrFileName (json log)"

text \<open>\<open>Close\<close> visits the table in an order that Go leaves open; here in the order the files were opened.\<close>

definition file_close :: "disk_world \<Rightarrow> string \<Rightarrow> jsonl_store \<Rightarrow> go_error option \<times> jsonl_store" where
  "file_close dw path st = (dk_close dw (js_ops st) path, st\<lparr>js_ops := js_ops st @ [DiskClose path]\<rparr>)"

definition first_error :: "go_error option \<Rightarrow> string \<Rightarrow> string \<Rightarrow> go_error option \<Rightarrow> go_error option" where
  "first_error firstErr what name err =
     (case err of
        Some e \<Rightarrow> if firstErr = None then Some (WrapError (what @ name @ '': '') e) else firstErr
      | None \<Rightarrow> firstErr)"

fun close_files ::
  "disk_world \<Rightarrow> (string \<times> jsonl_file) list \<Rightarrow> go_error option \<Rightarrow> jsonl_store \<Rightarrow> go_error option \<times> jsonl_store" where
  "close_files dw [] firstErr st = (firstErr, st)"
| "close_files dw ((name, f) # fs) firstErr st =
     (let (ferr, f, st) = bufio_Flush dw f st;
          firstErr = first_error firstErr ''flush '' name ferr;
          (cerr, st) = file_close dw (jf_path f) (put_file name f st)
      in close_files dw fs (first_error firstErr ''close '' name cerr) st)"

definition writer_Close :: "disk_world \<Rightarrow> jsonl_store \<Rightarrow> go_error option \<times> jsonl_store" where
  "writer_Close dw st = close_files dw (js_files st) None st"

section \<open>Documents\<close>

text \<open>\<open>os.WriteFile\<close> replaces the file; \<open>data\<close> is what \<open>json.MarshalIndent\<close> returns.\<close>

definition WriteJSON ::
  "(string \<Rightarrow> string \<Rightarrow> go_error option) \<Rightarrow> writer \<Rightarrow> string \<Rightarrow> go_error + string \<Rightarrow> go_error option" where
  "WriteJSON write_file wr name data =
     (case data of Inl e \<Rightarrow> Some e | Inr s \<Rightarrow> write_file (path_join [wr_root wr, name]) (s @ [newline]))"

definition WriteDocument ::
  "(string \<Rightarrow> string \<Rightarrow> go_error option) \<Rightarrow> writer \<Rightarrow> (document \<Rightarrow> go_error + string) \<Rightarrow> document \<Rightarrow> go_error option" where
  "WriteDocument write_file wr json d = WriteJSON write_file wr (document_file d) (json d)"

end
