(* ===== verification/Artifact_Log_Facts.thy ===== *)
theory Artifact_Log_Facts
  imports Artifact_Log "HOL-Library.Sublist"
begin

text \<open>
  What is in an append-only file after any sequence of appends on any disk: every acknowledged line, whole and
  in order, and after them at most a piece of one line whose append failed.
\<close>

section \<open>The contract of a log\<close>

text \<open>The appends of a sequence, each with its result.\<close>

fun appends :: "('a \<Rightarrow> 's \<Rightarrow> 'e option \<times> 's) \<Rightarrow> 'a list \<Rightarrow> 's \<Rightarrow> ('a \<times> 'e option) list \<times> 's" where
  "appends f [] s = ([], s)"
| "appends f (x # xs) s = (let (r, s) = f x s; (rs, s) = appends f xs s in ((x, r) # rs, s))"

definition acknowledged :: "('a \<Rightarrow> bool) \<Rightarrow> ('a \<times> 'e option) list \<Rightarrow> 'a list" where
  "acknowledged mine rs = map fst (filter (\<lambda>(x, r). mine x \<and> r = None) rs)"

lemma acknowledged_simps [simp]:
  "acknowledged mine [] = []"
  "acknowledged mine ((x, r) # rs) = (if mine x \<and> r = None then x # acknowledged mine rs else acknowledged mine rs)"
  by (simp_all add: acknowledged_def)

text \<open>
  \<open>mine\<close> are the appends to the log that is looked at, \<open>fine\<close> those that are allowed at all. A log is whole until
  an append has written a piece of its line; then it is stuck for good.
\<close>

locale line_log =
  fixes append :: "'a \<Rightarrow> 's \<Rightarrow> 'e option \<times> 's" and mine :: "'a \<Rightarrow> bool" and fine :: "'a \<Rightarrow> bool"
    and line :: "'a \<Rightarrow> string" and content :: "'s \<Rightarrow> string" and whole :: "'s \<Rightarrow> bool" and stuck :: "'s \<Rightarrow> bool"
  assumes other: "\<lbrakk>fine x; \<not> mine x; whole s \<or> stuck s; append x s = (r, s')\<rbrakk> \<Longrightarrow>
      content s' = content s \<and> (whole s \<longrightarrow> whole s') \<and> (stuck s \<longrightarrow> stuck s')"
    and acked: "\<lbrakk>fine x; mine x; whole s; append x s = (None, s')\<rbrakk> \<Longrightarrow> content s' = content s @ line x \<and> whole s'"
    and refused: "\<lbrakk>fine x; mine x; whole s; append x s = (Some e, s')\<rbrakk> \<Longrightarrow>
      \<exists>t. prefix t (line x) \<and> content s' = content s @ t \<and> (t = [] \<and> whole s' \<or> stuck s')"
    and stays_stuck: "\<lbrakk>fine x; mine x; stuck s; append x s = (r, s')\<rbrakk> \<Longrightarrow>
      r \<noteq> None \<and> content s' = content s \<and> stuck s'"
begin

lemma stuck_for_good:
  "\<lbrakk>list_all fine xs; stuck s; appends append xs s = (rs, s')\<rbrakk> \<Longrightarrow>
   content s' = content s \<and> acknowledged mine rs = [] \<and> map fst rs = xs"
proof (induction xs arbitrary: s rs)
  case (Cons x xs)
  obtain r s1 where x: "append x s = (r, s1)" by fastforce
  from Cons.prems(3) x obtain rs' where xs: "appends append xs s1 = (rs', s')" and rs: "rs = (x, r) # rs'"
    by (auto simp: Let_def split: prod.splits)
  from Cons.prems(1) have ok: "fine x" "list_all fine xs" by simp_all
  have "content s1 = content s \<and> stuck s1 \<and> (mine x \<longrightarrow> r \<noteq> None)"
    using other [OF ok(1) _ _ x] stays_stuck [OF ok(1) _ _ x] Cons.prems(2) by (cases "mine x") auto
  with Cons.IH [OF ok(2) _ xs] rs show ?case by auto
qed simp

lemma acknowledged_lines:
  "\<lbrakk>list_all fine xs; whole s; appends append xs s = (rs, s')\<rbrakk> \<Longrightarrow>
   \<exists>torn. content s' = content s @ concat (map line (acknowledged mine rs)) @ torn
     \<and> (torn = [] \<or> (\<exists>x e. (x, Some e) \<in> set rs \<and> mine x \<and> prefix torn (line x)))"
proof (induction xs arbitrary: s rs)
  case (Cons x xs)
  obtain r s1 where x: "append x s = (r, s1)" by fastforce
  from Cons.prems(3) x obtain rs' where xs: "appends append xs s1 = (rs', s')" and rs: "rs = (x, r) # rs'"
    by (auto simp: Let_def split: prod.splits)
  from Cons.prems(1) have ok: "fine x" "list_all fine xs" by simp_all
  note later = Cons.IH [OF ok(2) _ xs] and whole = Cons.prems(2)
  consider "\<not> mine x" | "mine x" "r = None" | e where "mine x" "r = Some e" by blast
  then show ?case
  proof cases
    case 1
    with other [OF ok(1) _ _ x] whole later rs show ?thesis by fastforce
  next
    case 2
    with acked [OF ok(1) _ whole] x later rs show ?thesis by fastforce
  next
    case 3
    with refused [OF ok(1) _ whole] x obtain t where t: "prefix t (line x)" "content s1 = content s @ t"
      "t = [] \<and> whole s1 \<or> stuck s1" by blast
    from t(3) show ?thesis
    proof
      assume "t = [] \<and> whole s1"
      with later rs t 3 show ?thesis by fastforce
    next
      assume "stuck s1"
      with stuck_for_good [OF ok(2) _ xs] rs t 3 show ?thesis by auto
    qed
  qed
qed simp

text \<open>When every append to the log is acknowledged, the log is its lines.\<close>

lemma all_acknowledged:
  assumes "list_all fine xs" "whole s" "appends append xs s = (rs, s')" "\<forall>(x, r)\<in>set rs. mine x \<longrightarrow> r = None"
  shows "content s' = content s @ concat (map line (filter mine xs))"
proof -
  have "map fst rs = xs" using assms(3)
    by (induction xs arbitrary: s rs) (auto simp: Let_def split: prod.splits)
  moreover have "acknowledged mine rs = filter mine (map fst rs)" using assms(4) by (induction rs) auto
  ultimately show ?thesis using acknowledged_lines [OF assms(1-3)] assms(4) by fastforce
qed

end

section \<open>The files of the writer\<close>

text \<open>Every open file lies at its own path below the root and, as long as it has no error, has nothing in its buffer.\<close>

definition files_placed :: "writer \<Rightarrow> jsonl_store \<Rightarrow> bool" where
  "files_placed wr st \<longleftrightarrow> distinct (map fst (js_files st)) \<and>
     (\<forall>m f. map_of (js_files st) m = Some f \<longrightarrow> plain_segment m \<and> jf_path f = path_join [wr_root wr, m]
       \<and> (jf_error f = None \<longrightarrow> jf_buffer f = []))"

definition file_whole :: "writer \<Rightarrow> string \<Rightarrow> jsonl_store \<Rightarrow> bool" where
  "file_whole wr n st \<longleftrightarrow> plain_segment n \<and> files_placed wr st
     \<and> (\<forall>f. map_of (js_files st) n = Some f \<longrightarrow> jf_error f = None)"

definition file_stuck :: "writer \<Rightarrow> string \<Rightarrow> jsonl_store \<Rightarrow> bool" where
  "file_stuck wr n st \<longleftrightarrow> plain_segment n \<and> files_placed wr st
     \<and> (\<exists>f. map_of (js_files st) n = Some f \<and> jf_error f \<noteq> None)"

definition file_content :: "writer \<Rightarrow> string \<Rightarrow> jsonl_store \<Rightarrow> string" where
  "file_content wr n st = env_get (js_disk st) (path_join [wr_root wr, n])"

definition jsonl_line :: "string \<times> (go_error + string) \<Rightarrow> string" where
  "jsonl_line x = (case snd x of Inl e \<Rightarrow> [] | Inr s \<Rightarrow> s @ [newline])"

abbreviation append_entry ::
  "disk_world \<Rightarrow> writer \<Rightarrow> string \<times> (go_error + string) \<Rightarrow> jsonl_store \<Rightarrow> go_error option \<times> jsonl_store" where
  "append_entry dw wr x \<equiv> AppendJSONL dw wr (fst x) (snd x)"

lemma content_append:
  "env_get (js_disk (file_append path p st)) q = env_get (js_disk st) q @ (if q = path then p else [])"
  and files_append [simp]: "js_files (file_append path p st) = js_files st"
  by (simp_all add: file_append_def)

lemma put_file_simps [simp]:
  "js_disk (put_file n f st) = js_disk st" "map_of (js_files (put_file n f st)) = (map_of (js_files st))(n \<mapsto> f)"
  by (simp_all add: put_file_def update_conv')

text \<open>Opening leaves all contents alone.\<close>

lemma getJSONLFile_opens:
  assumes "getJSONLFile dw wr m st = (r, st')" "plain_segment m" "files_placed wr st"
  shows "env_get (js_disk st') q = env_get (js_disk st) q" "files_placed wr st'"
    "n \<noteq> m \<Longrightarrow> map_of (js_files st') n = map_of (js_files st) n"
    "map_of (js_files st') m = (case r of Inl e \<Rightarrow> map_of (js_files st) m | Inr f \<Rightarrow> Some f)"
    "r = Inl e \<Longrightarrow> map_of (js_files st) m = None"
    "r = Inr f \<Longrightarrow> map_of (js_files st) m = Some f \<or> map_of (js_files st) m = None \<and> jf_error f = None"
    "r = Inr f \<Longrightarrow> jf_path f = path_join [wr_root wr, m] \<and> (jf_error f = None \<longrightarrow> jf_buffer f = [])"
  using assms by (auto simp: getJSONLFile_def files_placed_def Let_def content_append update_conv' distinct_update
      split: option.splits if_splits)

text \<open>A write into an empty buffer, flushed: the line or a piece of it is at the end of the file.\<close>

definition write_line ::
  "disk_world \<Rightarrow> string \<Rightarrow> jsonl_file \<Rightarrow> jsonl_store \<Rightarrow> go_error option \<times> jsonl_file \<times> jsonl_store" where
  "write_line dw p f st = (case bufio_Write dw p f st of
       (Some e, f, st) \<Rightarrow> (Some e, f, st) | (None, f, st) \<Rightarrow> bufio_Flush dw f st)"

lemma AppendJSONL_eq: "AppendJSONL dw wr m data st =
  (case getJSONLFile dw wr m st of (Inl e, st) \<Rightarrow> (Some e, st)
   | (Inr f, st) \<Rightarrow> (case data of Inl e \<Rightarrow> (Some e, st)
       | Inr s \<Rightarrow> (case write_line dw (s @ [newline]) f st of (err, f, st) \<Rightarrow> (err, put_file m f st))))"
  by (auto simp: AppendJSONL_def write_line_def split: prod.splits sum.splits option.splits)

lemma write_line_stuck: "jf_error f = Some e \<Longrightarrow> write_line dw p f st = (Some e, f, st)"
  by (simp add: write_line_def bufio_Write_def)

lemma write_line_whole:
  assumes "write_line dw p f st = (err, f', st')" "jf_error f = None" "jf_buffer f = []" "p \<noteq> []"
  shows "jf_error f' = err" "jf_path f' = jf_path f" "err = None \<Longrightarrow> jf_buffer f' = []"
    "js_files st' = js_files st"
    "\<exists>t. prefix t p \<and> (err = None \<longrightarrow> t = p)
       \<and> (\<forall>q. env_get (js_disk st') q = env_get (js_disk st) q @ (if q = jf_path f then t else []))"
  using assms
  by (auto simp: write_line_def bufio_Write_def bufio_write_empty_def bufio_Flush_def file_write_def Let_def content_append
      take_is_prefix split: if_splits option.splits prod.splits)

lemma placed_put:
  "\<lbrakk>files_placed wr st; plain_segment m; jf_path f = path_join [wr_root wr, m]; jf_error f = None \<longrightarrow> jf_buffer f = []\<rbrakk>
   \<Longrightarrow> files_placed wr (put_file m f st)"
  by (auto simp: files_placed_def put_file_def distinct_update update_conv')

lemma whole_not_stuck: "file_whole wr n st \<Longrightarrow> \<not> file_stuck wr n st"
  by (auto simp: file_whole_def file_stuck_def)

lemma kept_placed: "file_whole wr n st \<Longrightarrow> files_placed wr st" "file_stuck wr n st \<Longrightarrow> files_placed wr st"
  by (simp_all add: file_whole_def file_stuck_def)

lemma placed_cong: "\<lbrakk>files_placed wr st; js_files st' = js_files st\<rbrakk> \<Longrightarrow> files_placed wr st'"
  by (simp add: files_placed_def)

text \<open>What one append does: to its own file, and to the others.\<close>

lemma append_line:
  assumes run: "AppendJSONL dw wr m data st = (r, st')" and m: "plain_segment m" and placed: "files_placed wr st"
  shows "files_placed wr st'
    \<and> (\<forall>n. n \<noteq> m \<longrightarrow> map_of (js_files st') n = map_of (js_files st) n)
    \<and> (\<exists>t. prefix t (jsonl_line (m, data))
        \<and> (\<forall>q. env_get (js_disk st') q = env_get (js_disk st) q @ (if q = path_join [wr_root wr, m] then t else []))
        \<and> (if file_stuck wr m st then t = [] \<and> r \<noteq> None \<and> file_stuck wr m st'
           else if r = None then t = jsonl_line (m, data) \<and> file_whole wr m st'
           else t = [] \<and> file_whole wr m st' \<or> file_stuck wr m st'))"
proof -
  obtain g st1 where get: "getJSONLFile dw wr m st = (g, st1)" by fastforce
  note opened = getJSONLFile_opens [OF get m placed]
  show ?thesis
  proof (cases g)
    case (Inl e)
    with run get opened m show ?thesis
      by (auto simp: AppendJSONL_eq file_stuck_def file_whole_def)
  next
    case (Inr f)
    show ?thesis
    proof (cases data)
      case (Inl e)
      with run get opened m Inr show ?thesis
        by (auto simp: AppendJSONL_eq file_stuck_def file_whole_def jsonl_line_def)
    next
      case (Inr s)
      obtain err f' st2 where line: "write_line dw (s @ [newline]) f st1 = (err, f', st2)" by (metis prod_cases3)
      with run get Inr \<open>g = Inr f\<close> have st': "st' = put_file m f' st2" "r = err" by (auto simp: AppendJSONL_eq)
      show ?thesis
      proof (cases "jf_error f")
        case None
        with opened(7) [OF \<open>g = Inr f\<close>] have "jf_buffer f = []" by simp
        note wrote = write_line_whole [OF line None this]
        from None opened(6) [OF \<open>g = Inr f\<close>] have "\<not> file_stuck wr m st" by (auto simp: file_stuck_def)
        moreover have "files_placed wr st'" unfolding st'
          using opened(2) opened(7) [OF \<open>g = Inr f\<close>] wrote m by (intro placed_put) (auto intro: placed_cong)
        ultimately show ?thesis
          using st' opened Inr \<open>g = Inr f\<close> wrote m
          by (auto simp: file_stuck_def file_whole_def jsonl_line_def)
      next
        case (Some e)
        with line write_line_stuck [OF Some] have same: "err = Some e" "f' = f" "st2 = st1" by auto
        from Some opened(6) [OF \<open>g = Inr f\<close>] m placed have "file_stuck wr m st" by (auto simp: file_stuck_def)
        moreover have "files_placed wr st'" unfolding st' same
          using opened(2) opened(7) [OF \<open>g = Inr f\<close>] m by (intro placed_put) auto
        ultimately show ?thesis
          using st' opened Some same m by (auto simp: file_stuck_def)
      qed
    qed
  qed
qed

interpretation disk_log: line_log "append_entry dw wr" "\<lambda>x. fst x = n" "\<lambda>x. plain_segment (fst x)" jsonl_line
    "file_content wr n" "file_whole wr n" "file_stuck wr n" for dw wr n
proof
  fix x :: "string \<times> (go_error + string)" and st r st' e
  assume m: "plain_segment (fst x)"
  { assume "fst x \<noteq> n" and known: "file_whole wr n st \<or> file_stuck wr n st" and "append_entry dw wr x st = (r, st')"
    from known have "plain_segment n" by (auto simp: file_whole_def file_stuck_def)
    with \<open>fst x \<noteq> n\<close> m have "path_join [wr_root wr, n] \<noteq> path_join [wr_root wr, fst x]" by (metis path_join_inject)
    with append_line [OF \<open>append_entry dw wr x st = (r, st')\<close> m] known \<open>fst x \<noteq> n\<close>
    show "file_content wr n st' = file_content wr n st \<and> (file_whole wr n st \<longrightarrow> file_whole wr n st')
        \<and> (file_stuck wr n st \<longrightarrow> file_stuck wr n st')"
      by (auto simp: file_whole_def file_stuck_def file_content_def) }
  { assume "fst x = n" "file_whole wr n st" "append_entry dw wr x st = (None, st')"
    with append_line [OF this(3) m kept_placed(1) [OF this(2)]] whole_not_stuck
    show "file_content wr n st' = file_content wr n st @ jsonl_line x \<and> file_whole wr n st'"
      by (auto simp: file_content_def) }
  { assume "fst x = n" "file_whole wr n st" "append_entry dw wr x st = (Some e, st')"
    with append_line [OF this(3) m kept_placed(1) [OF this(2)]] whole_not_stuck
    show "\<exists>t. prefix t (jsonl_line x) \<and> file_content wr n st' = file_content wr n st @ t
        \<and> (t = [] \<and> file_whole wr n st' \<or> file_stuck wr n st')"
      by (auto simp: file_content_def) }
  { assume "fst x = n" "file_stuck wr n st" "append_entry dw wr x st = (r, st')"
    with append_line [OF this(3) m kept_placed(2) [OF this(2)]]
    show "r \<noteq> None \<and> file_content wr n st' = file_content wr n st \<and> file_stuck wr n st'"
      by (auto simp: file_content_def) }
qed

text \<open>Closing finds the buffers of the files without an error empty, and leaves all contents alone.\<close>

lemma Flush_settled: "(jf_error f = None \<longrightarrow> jf_buffer f = []) \<Longrightarrow> bufio_Flush dw f st = (jf_error f, f, st)"
  by (auto simp: bufio_Flush_def)

lemma close_files_settled:
  "\<lbrakk>close_files dw fs fe st = (r, st'); \<forall>(m, f)\<in>set fs. map_of (js_files st) m = Some f \<and> (jf_error f = None \<longrightarrow> jf_buffer f = []);
    distinct (map fst (js_files st))\<rbrakk> \<Longrightarrow>
   js_disk st' = js_disk st \<and> map_of (js_files st') = map_of (js_files st) \<and> distinct (map fst (js_files st'))"
proof (induction fs arbitrary: fe st)
  case (Cons mf fs)
  obtain m f where mf: "mf = (m, f)" by (cases mf)
  let ?st = "snd (file_close dw (jf_path f) (put_file m f st))"
  from Cons.prems(2) mf have f: "map_of (js_files st) m = Some f" "jf_error f = None \<longrightarrow> jf_buffer f = []" by auto
  then have same: "map_of (js_files ?st) = map_of (js_files st)" "js_disk ?st = js_disk st"
    by (auto simp: file_close_def)
  moreover have "distinct (map fst (js_files ?st))"
    using Cons.prems(3) by (simp add: file_close_def put_file_def distinct_update)
  moreover obtain fe' where "close_files dw fs fe' ?st = (r, st')"
    using Cons.prems(1) mf Flush_settled [OF f(2)] by (auto simp: Let_def split: prod.splits)
  ultimately show ?case using Cons.IH [of fe' ?st] Cons.prems(2) by auto
qed simp

lemma writer_Close_settled:
  assumes "writer_Close dw st = (r, st')" "files_placed wr st"
  shows "js_disk st' = js_disk st" "map_of (js_files st') = map_of (js_files st)" "files_placed wr st'"
proof -
  from assms(2) have "\<forall>(m, f)\<in>set (js_files st). map_of (js_files st) m = Some f \<and> (jf_error f = None \<longrightarrow> jf_buffer f = [])"
    "distinct (map fst (js_files st))"
    by (auto simp: files_placed_def)
  from close_files_settled [OF assms(1) [unfolded writer_Close_def] this]
  show "js_disk st' = js_disk st" "map_of (js_files st') = map_of (js_files st)" "files_placed wr st'"
    using assms(2) by (simp_all add: files_placed_def)
qed

lemma fresh_whole: "js_files st = [] \<Longrightarrow> plain_segment n \<Longrightarrow> file_whole wr n st"
  by (simp add: file_whole_def files_placed_def)

text \<open>
  C12: On any disk, after any sequence of appends to the files of a new writer, every file holds what it held
  before, then the lines of all appends to it that returned no error, whole and in order, and then at most a
  piece of the line of one append that returned an error.
\<close>

theorem acknowledged_lines_kept:
  assumes "js_files st0 = []" "plain_segment n" "list_all (\<lambda>x. plain_segment (fst x)) xs"
    and "appends (append_entry dw wr) xs st0 = (rs, st)"
  shows "\<exists>torn. file_content wr n st
      = file_content wr n st0 @ concat (map jsonl_line (acknowledged (\<lambda>x. fst x = n) rs)) @ torn
    \<and> (torn = [] \<or> (\<exists>x e. (x, Some e) \<in> set rs \<and> fst x = n \<and> prefix torn (jsonl_line x)))"
  by (rule disk_log.acknowledged_lines [OF assms(3) fresh_whole [OF assms(1,2)] assms(4)])

text \<open>A disk that is full in the middle of the second line.\<close>

definition full_disk :: disk_world where
  "full_disk = \<lparr>dk_open = (\<lambda>_ _. None), dk_write = (\<lambda>ops _ _. if length ops = 1 then None else Some (2, ErrorText ''no space left'')),
     dk_close = (\<lambda>_ _. None)\<rparr>"

lemma acknowledged_lines_kept_witness:
  "\<exists>torn. file_content \<lparr>wr_root = ''/a'', wr_max_bytes = 0\<rparr> StdoutFileName
      (snd (appends (append_entry full_disk \<lparr>wr_root = ''/a'', wr_max_bytes = 0\<rparr>)
        [(StdoutFileName, Inr ''one''), (StdoutFileName, Inr ''two''), (StdoutFileName, Inr ''three'')]
        \<lparr>js_files = [], js_disk = [], js_ops = []\<rparr>)) = ''one'' @ [newline] @ torn \<and> torn = ''tw''"
proof -
  let ?wr = "\<lparr>wr_root = ''/a'', wr_max_bytes = 0\<rparr>" and ?st = "\<lparr>js_files = [], js_disk = [], js_ops = []\<rparr>"
  let ?xs = "[(StdoutFileName, Inr ''one''), (StdoutFileName, Inr ''two''), (StdoutFileName, Inr ''three'')]"
  have "list_all (\<lambda>x. plain_segment (fst x)) ?xs" "plain_segment StdoutFileName" by code_simp+
  moreover obtain rs st where run: "appends (append_entry full_disk ?wr) ?xs ?st = (rs, st)" by fastforce
  ultimately have "\<exists>torn. file_content ?wr StdoutFileName st
      = file_content ?wr StdoutFileName ?st @ concat (map jsonl_line (acknowledged (\<lambda>x. fst x = StdoutFileName) rs)) @ torn"
    using acknowledged_lines_kept [of ?st StdoutFileName ?xs full_disk ?wr rs st] by auto
  moreover have "path_join [''/a'', StdoutFileName] = ''/a/stdout.jsonl''" by code_simp
  then have "file_content ?wr StdoutFileName (snd (appends (append_entry full_disk ?wr) ?xs ?st)) = ''one'' @ [newline] @ ''tw''"
    by (simp add: file_content_def AppendJSONL_eq getJSONLFile_def file_append_def write_line_def bufio_Write_def bufio_size_def
        bufio_Flush_def file_write_def full_disk_def put_file_def Let_def)
  ultimately show ?thesis by simp
qed

end
