(* ===== verification/Artifact_Run.thy ===== *)
theory Artifact_Run
  imports Engine_Steps Artifact_Log_Facts
begin

text \<open>
  The append-only files of a whole run: the writer of \<open>internal/artifact/writer.go\<close> driven by the appends of
  \<open>internal/phase/engine.go\<close> that the history of a run records. The engine appends one record for each command
  it executes, in their order, so \<open>commands.jsonl\<close> can be read back as the list of the commands of the run.
\<close>

section \<open>One record for each command\<close>

fun record_of :: "action \<Rightarrow> command_record option" where
  "record_of (AAppendCommand r) = Some r"
| "record_of a = None"

definition appended_records :: "trace \<Rightarrow> command_record list" where
  "appended_records tr = List.map_filter record_of tr"

lemma appended_records_simps [simp]:
  "appended_records [] = []" "appended_records (tr @ tr') = appended_records tr @ appended_records tr'"
  "appended_records (a # tr) = (case record_of a of None \<Rightarrow> appended_records tr | Some r \<Rightarrow> r # appended_records tr)"
  by (simp_all add: appended_records_def List.map_filter_def split: option.split)

text \<open>What a record says of its command, and what the executor was given and answered.\<close>

type_synonym command_outcome = "phase \<times> string list \<times> int \<times> bool \<times> string"

definition recorded_outcome :: "command_record \<Rightarrow> command_outcome" where
  "recorded_outcome r = (cmd_phase r, cmd_command r, cmd_exit_code r, cmd_timed_out r, cmd_signal r)"

definition executed_outcome :: "executed \<Rightarrow> command_outcome" where
  "executed_outcome x = (case x of (spec, res, err) \<Rightarrow>
     (xs_phase spec, xs_command spec, xres_exit_code res, xres_timed_out res, xres_signal res))"

definition all_recorded :: "run_state \<Rightarrow> bool" where
  "all_recorded s \<longleftrightarrow>
     map recorded_outcome (appended_records (st_trace s)) = map executed_outcome (execs (st_trace s))"

definition recording :: "run_state \<Rightarrow> bool" where
  "recording s \<longleftrightarrow> all_recorded s \<and> st_writer s \<noteq> None"

text \<open>Any other action keeps this.\<close>

fun unrecorded :: "action \<Rightarrow> bool" where
  "unrecorded (AExec ex spec res err) = False"
| "unrecorded (AAppendCommand r) = False"
| "unrecorded a = True"

lemma unrecorded_simps [simp]: "unrecorded a \<Longrightarrow> exec_of a = None" "unrecorded a \<Longrightarrow> record_of a = None"
  by (cases a; simp)+

lemma everyday_unrecorded: "everyday a \<Longrightarrow> unrecorded a"
  by (cases a) auto

lemma all_recorded_action: "all_recorded s \<Longrightarrow> unrecorded a \<Longrightarrow> all_recorded (s\<lparr>st_trace := st_trace s @ [a]\<rparr>)"
  by (simp add: all_recorded_def)

lemma all_recorded_cong: "all_recorded s \<Longrightarrow> st_trace s' = st_trace s \<Longrightarrow> all_recorded s'"
  by (simp add: all_recorded_def)

lemma recording_action: "recording s \<Longrightarrow> unrecorded a \<Longrightarrow> recording (s\<lparr>st_trace := st_trace s @ [a]\<rparr>)"
  by (simp add: recording_def all_recorded_action)

lemma all_recorded_failed: "all_recorded s \<Longrightarrow> all_recorded (failed_state ph code e status res s)"
  by (simp add: all_recorded_def failed_state_def Let_def)

lemma recording_failed: "recording s \<Longrightarrow> recording (failed_state ph code e status res s)"
  unfolding recording_def by (auto intro: all_recorded_failed) (simp add: failed_state_def Let_def)

text \<open>Executing and recording together; \<open>unfiled\<close> is the state between the two.\<close>

definition unfiled :: "exec_spec \<Rightarrow> exec_result \<Rightarrow> run_state \<Rightarrow> bool" where
  "unfiled spec res s \<longleftrightarrow> st_writer s \<noteq> None
     \<and> map recorded_outcome (appended_records (st_trace s)) @ [executed_outcome (spec, res, None)]
         = map executed_outcome (execs (st_trace s))"

lemma unfiled_action: "unrecorded a \<Longrightarrow> steady (unfiled spec res) E (note_action a)"
  by (rule valid_note_action) (simp add: unfiled_def)

lemma unfiled_if_emitter: "steady (unfiled spec res) E m \<Longrightarrow> steady (unfiled spec res) E (if_emitter m)"
  unfolding if_emitter_def by (intro triples) auto

lemma unfiled_log: "steady (unfiled spec res) E (OnLog l)"
  unfolding OnLog_def Let_def block_simps
  by (intro triples unfiled_if_emitter unfiled_action) simp_all

lemma run_executor_unfiled: "valid recording (run_executor w ex spec) (\<lambda>r. unfiled spec (fst r)) E"
  unfolding run_executor_def
proof (rule valid_andThen)
  show "valid recording (perform (\<lambda>tr. executor_Run (ew_host w) (ew_exec w tr) ex spec) (\<lambda>(res, err, logs). AExec ex spec res err))
      (\<lambda>(res, err, logs). unfiled spec res) E"
    by (rule valid_perform)
      (auto simp: recording_def all_recorded_def executed_outcome_def unfiled_def split: prod.split)
  show "valid ((case x of (res, err, logs) \<Rightarrow> unfiled spec res))
      (case x of (res, err, logs) \<Rightarrow> andThen (block (map OnLog logs)) (\<lambda>_. ret (res, err))) (\<lambda>r. unfiled spec (fst r)) E" for x
    by (cases x) (auto intro!: valid_andThen [OF steady_block] unfiled_log valid_ret)
qed

lemma recordCommand_files:
  "valid (unfiled spec res) (recordCommand w (xs_phase spec) (xs_command spec) res) (\<lambda>_. recording) E"
proof -
  have filed: "valid (\<lambda>s'. s' = s) (note_action (AAppendCommand (command_record_of shlex er (xs_phase spec) (xs_command spec) res)))
      (\<lambda>_. recording) E" if "unfiled spec res s" for s shlex er
    using that by (intro valid_note_action)
      (auto simp: unfiled_def recording_def all_recorded_def recorded_outcome_def executed_outcome_def command_record_of_def)
  have metric: "steady recording E (if_emitter (note_action (AMetric m)))" for m
    unfolding if_emitter_def by (intro triples valid_note_action recording_action) auto
  show ?thesis unfolding recordCommand_def block_simps
  proof (rule valid_with_state)
    fix s assume s: "unfiled spec res s"
    then have "st_writer s \<noteq> None" by (simp add: unfiled_def)
    then show "valid (\<lambda>s'. s' = s) (andThen (if st_writer s \<noteq> None then note_action (AAppendCommand
          (command_record_of (ew_shlex w) (st_resolution s) (xs_phase spec) (xs_command spec) res)) else ret ())
        (\<lambda>_. andThen (if_emitter (note_action (AMetric \<lparr>mp_name = ''sandbox_command_duration_ms'', mp_kind = ''histogram'',
          mp_value = 0, mp_attributes = [(''phase'', phase_name (xs_phase spec)),
            (''command_class'', ClassifyCommand (ew_shlex w) (xs_command spec)),
            (''sandbox.runtime.profile'', ri_runtime_profile (st_runtime_info s))]\<rparr>))) (\<lambda>_. ret ()))) (\<lambda>_. recording) E"
      by (simp only: if_True not_False_eq_True) (intro valid_andThen [OF filed [OF s]] valid_andThen [OF metric] valid_ret)
  qed
qed

lemma run_recorded_records: "steady recording E (run_recorded w ex spec)"
  unfolding run_recorded_def
  by (rule valid_andThen [OF run_executor_unfiled], rule valid_andThen [OF recordCommand_files], rule valid_ret)

section \<open>The phases and the run\<close>

lemma unrecorded_phase:
  assumes "step_invariant P (\<lambda>_. P) ph" "\<And>s a. P s \<Longrightarrow> unrecorded a \<Longrightarrow> P (s\<lparr>st_trace := st_trace s @ [a]\<rparr>)"
  shows "phase_frame P P ph"
  by (intro phase_frame.intro assms(1) phase_frame_axioms.intro)
    (unfold startPhase_def endPhase_def if_emitter_def, (intro triples valid_note_action assms(2); simp)+)

lemma recording_state:
  "recording s \<Longrightarrow> st_trace s' = st_trace s \<Longrightarrow> st_emitter s' = st_emitter s \<Longrightarrow> st_writer s' = st_writer s \<Longrightarrow> recording s'"
  by (simp add: recording_def all_recorded_def)

lemma recording_step: "step_invariant recording (\<lambda>_. recording) ph"
  by unfold_locales (fact recording_action [OF _ everyday_unrecorded] recording_state recording_failed)+

lemma recording_phase: "phase_frame recording recording ph"
  by (rule unrecorded_phase [OF recording_step recording_action])

lemma recording_command: "command_frame recording recording ph"
  by (intro command_frame.intro command_frame_axioms.intro recording_phase run_recorded_records)

interpretation rec_prepare: prepare_frame recording recording
  by (intro prepare_frame.intro recording_phase)

interpretation rec_setup: setup_frame recording recording
  by (intro setup_frame.intro recording_command)

interpretation rec_execute: execute_frame recording recording
  by (intro execute_frame.intro recording_command)

interpretation rec_verify: verify_frame recording recording
  by (intro verify_frame.intro recording_command)

lemma all_recorded_step: "step_invariant all_recorded (\<lambda>_. all_recorded) ph"
  by unfold_locales (fact all_recorded_action [OF _ everyday_unrecorded], erule (1) all_recorded_cong, erule all_recorded_failed)

interpretation rec_early: early_invariant all_recorded "\<lambda>_. all_recorded"
  by (intro early_invariant.intro all_recorded_step early_invariant_axioms.intro)

interpretation rec_collect: collect_frame all_recorded all_recorded
  by (intro collect_frame.intro unrecorded_phase [OF all_recorded_step all_recorded_action])

text \<open>Prepare puts the writer into the state.\<close>

lemma prepare_writer_records:
  "valid all_recorded (prepare_writer w cfg) (\<lambda>_. recording) (\<lambda>_. all_recorded)"
proof -
  have checked: "valid recording (block [check PhasePrepare code1 e1, check PhasePrepare code2 e2]) (\<lambda>_. recording) (\<lambda>_. all_recorded)"
    for code1 code2 e1 e2
    unfolding block_simps
    by (rule valid_weaken [OF steady_andThen [OF rec_prepare.checks steady_andThen [OF rec_prepare.checks valid_ret]]])
      (auto simp: recording_def)
  have put: "valid all_recorded (modify (\<lambda>s. s\<lparr>st_writer := Some wr, st_policy := pol\<rparr>)) (\<lambda>_. recording) E" for wr pol E
    by (rule valid_modify) (auto simp: recording_def intro: all_recorded_cong)
  show ?thesis unfolding prepare_writer_def Let_def
    by (rule valid_with_state, rule valid_weaken [where P' = all_recorded], rule valid_andThen, rule rec_early.performs, simp,
        rule valid_andThen [OF rec_early.checks_early], rule valid_andThen, rule rec_early.performs, simp,
        rule valid_andThen [OF rec_early.needs_early], rule valid_andThen [OF put], rule checked) auto
qed

lemma prepare_telemetry_records: "steady recording (\<lambda>_. recording) (prepare_telemetry w cfg)"
proof -
  have on: "steady recording (\<lambda>_. recording) (modify (\<lambda>s. s\<lparr>st_emitter := True\<rparr>))"
    by (rule valid_modify) (auto simp: recording_def intro: all_recorded_cong)
  have start: "steady recording (\<lambda>_. recording) (perform f (\<lambda>_. AStartRun))" for f
    by (rule valid_perform) (simp add: recording_action)
  show ?thesis unfolding prepare_telemetry_def block_simps
    by (intro on start rec_prepare.starts_phase rec_prepare.steps) simp_all
qed

lemma runPrepare_records: "valid all_recorded (runPrepare w) (\<lambda>_. recording) (\<lambda>_. all_recorded)"
proof -
  have late: "valid recording m (\<lambda>_. recording) (\<lambda>_. all_recorded)" if "steady recording (\<lambda>_. recording) m" for m :: "'a step"
    using that by (rule valid_weaken) (auto simp: recording_def)
  show ?thesis unfolding runPrepare_def
    by (intro valid_prod valid_andThen [OF rec_early.prepare_resolve_kept] valid_andThen [OF rec_early.prepare_target_kept]
        valid_andThen [OF prepare_writer_records] late steady_andThen prepare_telemetry_records rec_prepare.prepare_rest_closes)
qed

lemma run_main_records: "valid recording (run_main w) (\<lambda>_. all_recorded) (\<lambda>_. all_recorded)"
proof -
  have "steady recording (\<lambda>_. recording) (run_main w)"
    unfolding run_main_def block_simps
    by (intro steady_andThen rec_setup.runSetup_passes rec_execute.runExecute_passes rec_verify.runVerify_passes valid_ret)
  then show ?thesis by (rule valid_weaken) (auto simp: recording_def)
qed

lemma run_all_recorded:
  assumes "engine_Run w req = (s, err)" shows "all_recorded s"
proof -
  have "all_recorded (initial_state req)" by (simp add: all_recorded_def initial_state_def)
  from engine_Run_ends [OF assms this runPrepare_records run_main_records rec_collect.runCollect_passes]
  show ?thesis by (auto simp: finish_run_def Let_def all_recorded_def)
qed

section \<open>The file of the commands\<close>

text \<open>What the writer does for an action of the history; \<open>OnLog\<close> appends the lines of the two streams only.\<close>

fun run_append ::
  "disk_world \<Rightarrow> writer \<Rightarrow> (command_record \<Rightarrow> go_error + string) \<Rightarrow> (structured_log \<Rightarrow> go_error + string) \<Rightarrow> action \<Rightarrow>
   jsonl_store \<Rightarrow> go_error option \<times> jsonl_store" where
  "run_append dw wr jc jl (AAppendCommand r) st = AppendCommand dw wr jc r st"
| "run_append dw wr jc jl (AAppendLog l) st =
     (if log_stream l = ''stdout'' then AppendStdout dw wr jl l st else AppendStderr dw wr jl l st)"
| "run_append dw wr jc jl ACloseWriter st = writer_Close dw st"
| "run_append dw wr jc jl a st = (None, st)"

lemma run_append_cases:
  obtains (entry) x where "plain_segment (fst x)" "run_append dw wr jc jl a = append_entry dw wr x"
      "record_of a = None \<longrightarrow> fst x \<noteq> CommandsFileName" "\<forall>r. record_of a = Some r \<longrightarrow> x = (CommandsFileName, jc r)"
  | (close) "run_append dw wr jc jl a = writer_Close dw" "record_of a = None"
  | (nothing) "run_append dw wr jc jl a = (\<lambda>st. (None, st))" "record_of a = None"
proof -
  have names: "plain_segment CommandsFileName" "plain_segment StdoutFileName" "plain_segment StderrFileName" by code_simp+
  show thesis
  proof (cases a)
    case (AAppendCommand r)
    with names(1) show thesis
      by (intro entry [of "(CommandsFileName, jc r)"]) (auto simp: AppendCommand_def fun_eq_iff)
  next
    case (AAppendLog l)
    with names(2,3) show thesis
      by (intro entry [of "(if log_stream l = ''stdout'' then StdoutFileName else StderrFileName, jl l)"])
        (auto simp: AppendStdout_def AppendStderr_def fun_eq_iff)
  qed ((rule nothing; simp add: fun_eq_iff; fail) | (rule close; simp add: fun_eq_iff))+
qed

abbreviation record_line :: "(command_record \<Rightarrow> go_error + string) \<Rightarrow> action \<Rightarrow> string" where
  "record_line jc a \<equiv> (case record_of a of None \<Rightarrow> [] | Some r \<Rightarrow> jsonl_line (CommandsFileName, jc r))"

interpretation commands_log: line_log "run_append dw wr jc jl" "\<lambda>a. record_of a \<noteq> None" "\<lambda>a. True" "record_line jc"
    "file_content wr CommandsFileName" "file_whole wr CommandsFileName" "file_stuck wr CommandsFileName" for dw wr jc jl
proof
  fix a st r st' e
  let ?f = "run_append dw wr jc jl" and ?c = "file_content wr CommandsFileName"
    and ?w = "file_whole wr CommandsFileName" and ?k = "file_stuck wr CommandsFileName"
  { assume "\<not> record_of a \<noteq> None" "?w st \<or> ?k st" "?f a st = (r, st')"
    then show "?c st' = ?c st \<and> (?w st \<longrightarrow> ?w st') \<and> (?k st \<longrightarrow> ?k st')"
    proof (cases rule: run_append_cases [of dw wr jc jl a])
      case (entry x)
      with disk_log.other [of x CommandsFileName wr st dw r st'] \<open>\<not> record_of a \<noteq> None\<close> \<open>?w st \<or> ?k st\<close> \<open>?f a st = (r, st')\<close>
      show ?thesis by simp
    next
      case close
      with \<open>?f a st = (r, st')\<close> have "writer_Close dw st = (r, st')" by simp
      moreover have "files_placed wr st" using \<open>?w st \<or> ?k st\<close> kept_placed by blast
      ultimately show ?thesis using writer_Close_settled [of dw st r st' wr]
        by (simp add: file_content_def file_whole_def file_stuck_def)
    next
      case nothing
      with \<open>?f a st = (r, st')\<close> show ?thesis by simp
    qed }
  assume mine: "record_of a \<noteq> None"
  then obtain c where c: "record_of a = Some c" by blast
  have run: "?f a = append_entry dw wr (CommandsFileName, jc c)"
    using c by (cases a) (auto simp: AppendCommand_def)
  have plain: "plain_segment CommandsFileName" by code_simp
  { assume "?w st" "?f a st = (None, st')"
    with disk_log.acked [of "(CommandsFileName, jc c)" CommandsFileName wr st dw st'] plain run
    show "?c st' = ?c st @ record_line jc a \<and> ?w st'" by (simp add: c) }
  { assume "?w st" "?f a st = (Some e, st')"
    with disk_log.refused [of "(CommandsFileName, jc c)" CommandsFileName wr st dw e st'] plain run
    show "\<exists>t. prefix t (record_line jc a) \<and> ?c st' = ?c st @ t \<and> (t = [] \<and> ?w st' \<or> ?k st')" by (simp add: c) }
  { assume "?k st" "?f a st = (r, st')"
    with disk_log.stays_stuck [of "(CommandsFileName, jc c)" CommandsFileName wr st dw r st'] plain run
    show "r \<noteq> None \<and> ?c st' = ?c st \<and> ?k st'" by (simp add: c) }
qed

text \<open>Reading the lines back.\<close>

lemma split_lines:
  "(\<And>x. x \<in> set xs \<Longrightarrow> newline \<notin> set (f x)) \<Longrightarrow>
   split_on newline (concat (map (\<lambda>x. f x @ [newline]) xs)) = map f xs @ [[]]"
  by (induction xs) (simp_all add: split_on_append)

lemma concat_record_lines:
  assumes "\<And>r. jc r = Inr (enc r)"
  shows "concat (map (record_line jc) (filter (\<lambda>a. record_of a \<noteq> None) tr))
    = concat (map (\<lambda>r. enc r @ [newline]) (appended_records tr))"
  by (induction tr) (auto simp: jsonl_line_def assms split: option.split)

text \<open>A disk that always works acknowledges every record.\<close>

definition working_disk :: disk_world where
  "working_disk = \<lparr>dk_open = (\<lambda>_ _. None), dk_write = (\<lambda>_ _ _. None), dk_close = (\<lambda>_ _. None)\<rparr>"

lemma working_append:
  assumes "file_whole wr m st" shows "fst (AppendJSONL working_disk wr m (Inr s) st) = None"
proof -
  obtain g st1 where get: "getJSONLFile working_disk wr m st = (g, st1)" by fastforce
  then obtain f where "g = Inr f" by (auto simp: getJSONLFile_def working_disk_def Let_def split: option.splits)
  have placed: "plain_segment m" "files_placed wr st" using assms by (simp_all add: file_whole_def)
  note opened = getJSONLFile_opens [OF get placed]
  from opened(6,7) [OF \<open>g = Inr f\<close>] assms have f: "jf_error f = None" "jf_buffer f = []" by (auto simp: file_whole_def)
  obtain err f' st2 where line: "write_line working_disk (s @ [newline]) f st1 = (err, f', st2)" by (metis prod_cases3)
  with f have "err = None"
    by (auto simp: write_line_def bufio_Write_def bufio_write_empty_def bufio_Flush_def file_write_def working_disk_def Let_def
        split: if_splits)
  with get line \<open>g = Inr f\<close> show ?thesis by (simp add: AppendJSONL_eq)
qed

lemma working_records:
  assumes "\<And>r. jc r = Inr (enc r)"
  shows "\<lbrakk>file_whole wr CommandsFileName st0; appends (run_append working_disk wr jc jl) tr st0 = (rs, st);
    (a, r) \<in> set rs; record_of a \<noteq> None\<rbrakk> \<Longrightarrow> r = None"
proof (induction tr arbitrary: st0 rs)
  case (Cons b tr)
  obtain q st1 where b: "run_append working_disk wr jc jl b st0 = (q, st1)" by fastforce
  from Cons.prems(2) b obtain rs' where tr: "appends (run_append working_disk wr jc jl) tr st1 = (rs', st)" and rs: "rs = (b, q) # rs'"
    by (auto simp: Let_def split: prod.splits)
  have q: "record_of b \<noteq> None \<Longrightarrow> q = None"
    using b assms working_append [OF Cons.prems(1)] by (cases b) (auto simp: AppendCommand_def dest: arg_cong [of _ _ fst])
  then have "file_whole wr CommandsFileName st1"
    using commands_log.other [OF TrueI _ _ b] commands_log.acked [OF TrueI _ Cons.prems(1), of b working_disk jc jl st1] b Cons.prems(1)
    by (cases "record_of b = None") auto
  with Cons.IH [OF _ tr] Cons.prems(3,4) rs q show ?case by auto
qed simp


definition sample_encoder :: "command_record \<Rightarrow> go_error + string" where
  "sample_encoder r = Inr (if cmd_timed_out r then ''true'' else ''false'')"


end
