(* ===== verification/Spec2Isabelle.thy ===== *)
theory Spec2Isabelle
  imports Config_Stable Config_Validate Proc_Facts Executor_Facts Docker_Executor Engine_Props Backends Cli_App Capability_Facts Collector_Facts Telemetry_Run Artifact_Run
begin

text \<open>
  A verification development for the sandbox runner: a Go program that runs a command of a workspace in one of
  several sandboxes, under a policy, in five phases, and leaves artifacts and telemetry behind.

  \<^bold>\<open>The program.\<close> The command line (\<open>internal/cli\<close>, \<open>cmd/sandbox-runner\<close>) loads a run configuration and a policy
  (\<open>internal/config\<close>, \<open>internal/compat\<close>) and hands them to \<open>Engine.Run\<close> (\<open>internal/phase/engine.go\<close>). Prepare checks the
  execution triple against the compatibility table, probes the backend (\<open>internal/capability\<close>), bootstraps a
  collector (\<open>internal/collector\<close>), opens the artifact directory (\<open>internal/artifact\<close>) and creates and starts a sandbox
  (\<open>internal/backend\<close>). Setup plans and runs the steps of a project (\<open>internal/envsync\<close>), execute runs the rewritten
  command (\<open>internal/adapter\<close>, \<open>internal/lang/go\<close>), verify runs a smoke command and looks for artifacts; each command
  passes the policy (\<open>internal/policy\<close>) and goes through an executor (\<open>internal/executor\<close>), which runs it as a process
  (\<open>internal/proc\<close>), in a Docker container or in the sandbox of a backend. Collect fetches what the sandbox left, cleans
  it up, writes the documents and uploads them. \<open>internal/telemetry\<close> follows all this with spans. Alternatively
  the command line submits the run as a job to Kubernetes (\<open>pkg/sdk\<close>, \<open>internal/kubernetes\<close>).

  \<^bold>\<open>How the model is written.\<close> A Go struct is a record, an enumeration that the code treats as a string is a string
  with one abbreviation per constant, an error is a value of \<open>go_error\<close>, a function that may fail returns a sum, a Go
  map is an association list (\<open>env\<close> for maps of strings). Numbers are unbounded integers, except for the 64-bit
  capability mask of \<open>Platform\<close> and where a parser rejects what does not fit 64 bits. The outside world is an
  argument: a record of functions such as \<open>engine_world\<close>, \<open>docker_world\<close>, \<open>cli_world\<close>, \<open>os_world\<close>, \<open>kube_world\<close>. Its answers
  are functions of the history of what was done to it, so that two equal calls may be answered differently, and
  nothing is assumed of them but what a property states as its hypothesis. The definitions that model code are
  executable.

  \<^bold>\<open>Theories.\<close>
  \<^item> \<open>Go_Prelude\<close>: strings, paths, maps of strings and the parts of the standard library that all components use;
    \<open>Go_Url\<close>: \<open>net/url\<close>; \<open>Model_Types\<close>: \<open>internal/model\<close>.
  \<^item> \<open>Compat\<close>: the compatibility table and its lookup. \<open>Config_Defaults\<close>, \<open>Config_Normalize\<close>, \<open>Config_Validate\<close>: the files of
    \<open>internal/config\<close>; \<open>Config_Stable\<close>: normalising is idempotent, block by block.
  \<^item> \<open>Policy\<close>: \<open>internal/policy\<close>, with deny patterns as glob patterns. \<open>Proc\<close>, \<open>Proc_Facts\<close>: \<open>internal/proc\<close>, the environment,
    redaction, the streams and the result of a process.
  \<^item> \<open>Adapters\<close>: \<open>internal/adapter\<close> and \<open>internal/lang/go\<close>. \<open>Envsync\<close>: \<open>internal/envsync\<close>. \<open>Platform\<close>: \<open>internal/platform\<close>.
  \<^item> \<open>Backend_Iface\<close>: the interface and the factory of \<open>internal/backend\<close>. \<open>Executor\<close>, \<open>Executor_Facts\<close>: the choice of an
    executor, the direct one and the one on a backend; \<open>Docker_Executor\<close>: \<open>internal/executor/docker.go\<close>.
  \<^item> \<open>Opensandbox_Client\<close>, \<open>Introspection\<close>: \<open>internal/opensandbox/client\<close>; \<open>Workspace_Archive\<close>: the tar archives of
    \<open>opensandbox_workspace.go\<close>; \<open>Opensandbox_Backend\<close>, \<open>Opensandbox_Facts\<close>: \<open>opensandbox_backend.go\<close>.
  \<^item> \<open>Cli_Session\<close>: the local backend and the sessions of the backends over a command line tool;
    \<open>Devcontainer_Backend\<close>, \<open>Apple_Backend\<close>, \<open>Orbstack_Backend\<close>: these backends; \<open>Cli_Facts\<close>, \<open>Cli_Props\<close>: their common
    contract and their properties. \<open>Backends\<close>: all backends behind the factory, under the engine.
  \<^item> \<open>Artifacts\<close>: documents, references and uploads of \<open>internal/artifact\<close>; \<open>Artifact_Log\<close>, \<open>Artifact_Log_Facts\<close>: its writer on
    a disk and what an append-only file holds; \<open>Artifact_Run\<close>: the files of a whole run.
  \<^item> \<open>Engine_Views\<close>: the pure helpers of \<open>engine.go\<close>; \<open>Engine_State\<close>: \<open>runState\<close>, the history and the combinators;
    \<open>Engine_Prepare\<close>, \<open>Engine_Phases\<close>, \<open>Engine_Run\<close>: the handlers and \<open>Run\<close>. \<open>Engine_Logic\<close>: triples for handlers;
    \<open>Engine_Facts\<close>, \<open>Engine_Prepare_Facts\<close>, \<open>Engine_Collect_Facts\<close>, \<open>Engine_Whole\<close>, \<open>Engine_Props\<close>: what the phases and a run
    guarantee; \<open>Engine_Steps\<close>: the frames in which an invariant of the history passes through all handlers at once.
  \<^item> \<open>Capability\<close>, \<open>Capability_Facts\<close>: \<open>internal/capability\<close>. \<open>Collector\<close>, \<open>Collector_Facts\<close>: \<open>internal/collector\<close>. \<open>Telemetry\<close>,
    \<open>Telemetry_Facts\<close>, \<open>Telemetry_Run\<close>: \<open>internal/telemetry\<close> and \<open>pkg/helper\<close>, and the spans of a run.
  \<^item> \<open>Kubernetes\<close>, \<open>Kube_Facts\<close>: \<open>internal/kubernetes\<close> and \<open>pkg/sdk\<close>. \<open>Cli\<close>, \<open>Cli_App\<close>: the command line and its properties.

  \<^bold>\<open>How the parts fit.\<close> A handler of the engine is a function from \<open>run_state\<close> to an error or a value and a new state,
  composed by \<open>andThen\<close>, which stops at an error like the early returns of the code. What it does to the world is
  appended to \<open>st_trace\<close>, a history that the code does not keep. A backend is a record of operations whose state is
  a function of that history (\<open>Backends\<close>), an executor is driven by one step (\<open>run_executor\<close>), and the emitter and the
  writer are driven by the calls that the history records (\<open>emitted\<close> of \<open>Telemetry_Facts\<close>, \<open>run_append\<close> of
  \<open>Artifact_Run\<close>).

  \<^bold>\<open>Interfaces.\<close> A locale states what one part relies on, and an interpretation in the theory of the provider shows
  that the model of the code gives it: string maps (\<open>Go_Prelude\<close>), redaction patterns
  (\<open>Proc_Facts\<close>), adapters (\<open>Adapters\<close>), invariants of a phase
  (\<open>Engine_Logic\<close>, \<open>Engine_Steps\<close>), the backends over a tool (\<open>Cli_Facts\<close>) and append-only logs (\<open>Artifact_Log_Facts\<close>).

  \<^bold>\<open>What is shown.\<close> Of a run: what it executes is allowed by the policy, it stops at the first failure, it cleans up
  what it has created, its exit code and its report account for what happened, an unsupported combination or a
  missing runtime class or collector leaves it without effect, its spans are complete, and its file of commands
  tells what was executed. Of the parts: normalisation is idempotent and validation leaves a coherent
  configuration; deny patterns are glob patterns and secrets reach only their phases; environments are expanded
  and lines redacted as meant; quoting is read back by a shell; chunks and events do not show in the lines of a
  log; containers, probes and sandboxes are taken down; archives come back and stay inside their destination;
  a config map is upserted and a job sent only after it. Where the code falls short the property states what it
  does do: the shipped policy under the Python adapter, long lines, failed creations, misspelt flags.

  \<^bold>\<open>Loops and bounds.\<close> The polling loops of the OpenSandbox backend and of its probe have no bound of their own and are
  \<open>partial_function (option)\<close>; that they return is proved from the deadline, which falls into some wait. Retries
  count down. Expanding an environment ends because a variable whose expansion is under way is not expanded again;
  the reference it is compared with counts down from the rank of a variable, which is enough. Replacing redacted
  text counts down from the length of the line, of which each turn consumes at least one byte.
  The buffers of scanners and of \<open>bufio\<close> have their sizes: 64 KiB or the configured line length, 1 MiB for an exec
  stream, 4096 bytes for a file.

  \<^bold>\<open>Not modelled.\<close> Time stamps, durations of runs and contexts, except where a deadline ends a loop; the schedule of
  goroutines, of which one order is taken where the order does not show in the result and which is a parameter
  where it does; the parsing and printing of JSON and YAML, the network, the file system, the AWS, Docker, Kubernetes
  and OpenTelemetry libraries, which are parameters; the executable lookup on Windows, whose paths follow other rules;
  \<open>MarshalReport\<close> and \<open>printYAMLPlaceholder\<close>, which only print; the programs under \<open>examples\<close>, which a run is tried on.
\<close>

end
